(* ===== verification/Prelude.thy ===== *)
theory Prelude
  imports Main "HOL-Library.Word" "HOL-Library.List_Lexorder" "HOL-Library.Char_ord"
begin

text \<open>
  Shared vocabulary of the development: the byte and string types, the result type of a
  Go function that returns a value and an error, the loop that stops at the first error,
  decimal rendering, and the generic lemmas the components use.

  A Go result \<open>(v, err)\<close> is a value of the sum type \<open>'e + 'a\<close>: \<open>Inl err\<close> when the
  error is not nil and \<open>Inr v\<close> otherwise. \<open>bindE\<close> is the
  \<open>if err != nil { return err }\<close> idiom.
\<close>

section \<open>Types\<close>

type_synonym byte = "8 word"
type_synonym bytes = "byte list"
type_synonym uint32 = "32 word"
type_synonym int64 = "64 word"

section \<open>Collections of facts\<close>

named_theorems result_simps \<open>evaluation and inversion of Go results\<close>
named_theorems walk_simps \<open>one-step equations of the walks over delegate trees\<close>

section \<open>Results\<close>

definition bindE :: "'e + 'a \<Rightarrow> ('a \<Rightarrow> 'e + 'b) \<Rightarrow> 'e + 'b" where
  "bindE m f = (case m of Inl e \<Rightarrow> Inl e | Inr x \<Rightarrow> f x)"

definition isOk :: "'e + 'a \<Rightarrow> bool" where
  "isOk m = (case m of Inl _ \<Rightarrow> False | Inr _ \<Rightarrow> True)"

text \<open>A loop \<open>for _, x := range xs\<close> that collects results and returns the first error.\<close>

fun mapE :: "('a \<Rightarrow> 'e + 'b) \<Rightarrow> 'a list \<Rightarrow> 'e + 'b list" where
  "mapE f [] = Inr []"
| "mapE f (x # xs) = bindE (f x) (\<lambda>y. bindE (mapE f xs) (\<lambda>ys. Inr (y # ys)))"

text \<open>A loop that threads a value and returns the first error.\<close>

fun foldE :: "('a \<Rightarrow> 's \<Rightarrow> 'e + 's) \<Rightarrow> 'a list \<Rightarrow> 's \<Rightarrow> 'e + 's" where
  "foldE f [] s = Inr s"
| "foldE f (x # xs) s = bindE (f x s) (foldE f xs)"

lemma bindE_simps [simp, result_simps]:
  "bindE (Inl e) f = Inl e"
  "bindE (Inr x) f = f x"
  by (simp_all add: bindE_def)

lemma isOk_simps [simp, result_simps]:
  "\<not> isOk (Inl e)"
  "isOk (Inr x)"
  by (simp_all add: isOk_def)

lemma bindE_Inr_iff [result_simps]:
  "bindE m f = Inr y \<longleftrightarrow> (\<exists>x. m = Inr x \<and> f x = Inr y)"
  by (cases m) auto

lemma case_sum_Inr_iff:
  "(case m of Inl e \<Rightarrow> Inl (h e) | Inr x \<Rightarrow> f x) = Inr y \<longleftrightarrow> (\<exists>x. m = Inr x \<and> f x = Inr y)"
  by (cases m) auto

lemma if_Inl_iff:
  "(if c then Inl e else m) = Inr y \<longleftrightarrow> \<not> c \<and> m = Inr y"
  by simp

lemma bindE_Inl_iff [result_simps]:
  "bindE m f = Inl e \<longleftrightarrow> m = Inl e \<or> (\<exists>x. m = Inr x \<and> f x = Inl e)"
  by (cases m) auto

lemma isOk_iff: "isOk m \<longleftrightarrow> (\<exists>x. m = Inr x)"
  by (cases m) auto

lemma isOk_bindE [result_simps]:
  "isOk (bindE m f) \<longleftrightarrow> (\<exists>x. m = Inr x \<and> isOk (f x))"
  by (cases m) auto

lemma bindE_const_Inr_iff: "bindE m (\<lambda>_. k) = Inr y \<longleftrightarrow> isOk m \<and> k = Inr y"
  by (cases m) auto

lemma bindE_cong [fundef_cong]:
  "m = m' \<Longrightarrow> (\<And>x. m' = Inr x \<Longrightarrow> f x = f' x) \<Longrightarrow> bindE m f = bindE m' f'"
  by (cases m') auto

lemma mapE_cong [fundef_cong]:
  "xs = ys \<Longrightarrow> (\<And>x. x \<in> set ys \<Longrightarrow> f x = g x) \<Longrightarrow> mapE f xs = mapE g ys"
  by (induction ys arbitrary: xs) auto

lemma mapE_Inr_length: "mapE f xs = Inr ys \<Longrightarrow> length ys = length xs"
  by (induction xs arbitrary: ys) (auto simp: bindE_Inr_iff)

lemma mapE_Inr_iff:
  "mapE f xs = Inr ys \<longleftrightarrow> list_all2 (\<lambda>x y. f x = Inr y) xs ys"
proof (induction xs arbitrary: ys)
  case Nil
  then show ?case by auto
next
  case (Cons x xs)
  then show ?case
    by (cases ys) (auto simp: bindE_Inr_iff)
qed

lemma mapE_all_ok: "(\<And>x. x \<in> set xs \<Longrightarrow> f x = Inr (g x)) \<Longrightarrow> mapE f xs = Inr (map g xs)"
  by (induction xs) auto

lemma isOk_mapE: "isOk (mapE f xs) \<longleftrightarrow> (\<forall>x \<in> set xs. isOk (f x))"
proof (induction xs)
  case Nil
  then show ?case by simp
next
  case (Cons x xs)
  then show ?case
    by (cases "f x"; cases "mapE f xs") auto
qed

lemma foldE_append: "foldE f (xs @ ys) s = bindE (foldE f xs s) (foldE f ys)"
proof (induction xs arbitrary: s)
  case Nil
  then show ?case by simp
next
  case (Cons x xs)
  then show ?case by (cases "f x s") auto
qed

text \<open>An invariant of the body is an invariant of the loop.\<close>

lemma foldE_invariant:
  assumes "foldE f xs s = Inr t" and "P s"
    and step: "\<And>x s t. x \<in> set xs \<Longrightarrow> P s \<Longrightarrow> f x s = Inr t \<Longrightarrow> P t"
  shows "P t"
  using assms
proof (induction xs arbitrary: s)
  case Nil
  then show ?case by simp
next
  case (Cons x xs)
  then obtain s' where s': "f x s = Inr s'" "foldE f xs s' = Inr t"
    by (auto simp: bindE_Inr_iff)
  have "P s'" using Cons.prems(2,3) s'(1) by auto
  then show ?case using Cons.IH [OF s'(2)] Cons.prems(3) by auto
qed

text \<open>The same loop with the position, for \<open>for i, x := range xs\<close>.\<close>

definition mapEi :: "(nat \<Rightarrow> 'a \<Rightarrow> 'e + 'b) \<Rightarrow> 'a list \<Rightarrow> 'e + 'b list" where
  "mapEi f xs = mapE (\<lambda>(i, x). f i x) (enumerate 0 xs)"

lemma mapEi_cong [fundef_cong]:
  "xs = ys \<Longrightarrow> (\<And>i x. x \<in> set ys \<Longrightarrow> f i x = g i x) \<Longrightarrow> mapEi f xs = mapEi g ys"
  unfolding mapEi_def by (rule mapE_cong) (auto simp: in_set_enumerate_eq)

lemma mapEi_Inr_iff:
  "mapEi f xs = Inr ys \<longleftrightarrow> length xs = length ys \<and> (\<forall>i < length xs. f i (xs ! i) = Inr (ys ! i))"
  by (auto simp: mapEi_def mapE_Inr_iff list_all2_conv_all_nth nth_enumerate_eq)

lemma mapEi_Nil [simp]: "mapEi f [] = Inr []"
  by (simp add: mapEi_def)

text \<open>An element-wise inverse inverts the loop.\<close>

lemma mapEi_inverse:
  assumes "mapEi f xs = Inr ys"
    and "\<And>i j x y. x \<in> set xs \<Longrightarrow> f i x = Inr y \<Longrightarrow> g j y = Inr x"
  shows "mapEi g ys = Inr xs"
  using assms by (auto simp: mapEi_Inr_iff)

section \<open>Rendering and comparing\<close>

text \<open>The first position of a value in a list.\<close>

fun indexOf :: "'a list \<Rightarrow> 'a \<Rightarrow> nat option" where
  "indexOf [] x = None"
| "indexOf (y # ys) x = (if x = y then Some 0 else map_option Suc (indexOf ys x))"

lemma indexOf_Some: "v \<in> set t \<Longrightarrow> \<exists>i < length t. indexOf t v = Some i \<and> t ! i = v"
  by (induction t) (auto simp: nth_Cons split: nat.splits)

lemma indexOf_nth: "distinct t \<Longrightarrow> i < length t \<Longrightarrow> indexOf t (t ! i) = Some i"
  by (induction t arbitrary: i) (auto simp: nth_Cons split: nat.splits)

lemma indexOf_None: "indexOf t v = None \<longleftrightarrow> v \<notin> set t"
  by (induction t) auto

text \<open>Decimal rendering of a non-negative number, as \<open>fmt.Sprintf("%d", n)\<close> does.\<close>

fun itoa :: "nat \<Rightarrow> string" where
  "itoa n = (if n < 10 then [char_of (48 + n)]
             else itoa (n div 10) @ [char_of (48 + n mod 10)])"

declare itoa.simps [simp del]

definition itoa_int :: "int \<Rightarrow> string" where
  "itoa_int n = (if n < 0 then ''-'' @ itoa (nat (- n)) else itoa (nat n))"

text \<open>Hexadecimal rendering of bytes, as \<open>%x\<close> and \<open>%02x\<close> do.\<close>

definition hexDigit :: "nat \<Rightarrow> char" where
  "hexDigit n = (if n < 10 then char_of (48 + n) else char_of (87 + n))"

definition hex :: "bytes \<Rightarrow> string" where
  "hex b = concat (map (\<lambda>w. [hexDigit (unat w div 16), hexDigit (unat w mod 16)]) b)"

text \<open>
  \<open>%q\<close>, that is \<open>strconv.Quote\<close>: quotes and backslashes are escaped and control
  characters are written as escapes; every other byte is copied (valid multi-byte text is
  printable here).
\<close>

definition escapeChar :: "char \<Rightarrow> string" where
  "escapeChar c =
     (let n = of_char c :: nat in
      if c = CHR 0x22 \<or> c = CHR 0x5C then [CHR 0x5C, c]
      else if n = 7 then [CHR 0x5C] @ ''a'' else if n = 8 then [CHR 0x5C] @ ''b''
      else if n = 12 then [CHR 0x5C] @ ''f'' else if n = 10 then [CHR 0x5C] @ ''n''
      else if n = 13 then [CHR 0x5C] @ ''r'' else if n = 9 then [CHR 0x5C] @ ''t''
      else if n = 11 then [CHR 0x5C] @ ''v''
      else if n < 32 \<or> n = 127 then [CHR 0x5C] @ ''x'' @ [hexDigit (n div 16), hexDigit (n mod 16)]
      else [c])"

definition strconv_Quote :: "string \<Rightarrow> string" where
  "strconv_Quote s = [CHR 0x22] @ concat (map escapeChar s) @ [CHR 0x22]"

text \<open>A signed 64-bit Go integer held as an \<open>int\<close>: arithmetic wraps around.\<close>

definition wrap64 :: "int \<Rightarrow> int" where
  "wrap64 x = (x + 2 ^ 63) mod 2 ^ 64 - 2 ^ 63"

text \<open>\<open>strings.Contains\<close>.\<close>

fun contains_str :: "string \<Rightarrow> string \<Rightarrow> bool" where
  "contains_str [] pat = (pat = [])"
| "contains_str (c # cs) pat = (take (length pat) (c # cs) = pat \<or> contains_str cs pat)"

text \<open>
  \<open>bytes.Compare\<close> is the lexicographic order on byte strings with the shorter first,
  which is the order \<^verbatim>\<open>List_Lexorder\<close> puts on lists of words.
\<close>

lemma sorted_map_strict_iff_distinct:
  fixes ks :: "'k::linorder list"
  shows "sorted ks \<Longrightarrow> sorted_wrt (<) ks \<longleftrightarrow> distinct ks"
  by (auto simp: strict_sorted_iff)

lemma sorted_adjacent_distinct:
  fixes ks :: "'k::linorder list"
  assumes "sorted ks"
  shows "distinct ks \<longleftrightarrow> (\<forall>i. Suc i < length ks \<longrightarrow> ks ! i \<noteq> ks ! Suc i)"
proof
  assume "distinct ks"
  then show "\<forall>i. Suc i < length ks \<longrightarrow> ks ! i \<noteq> ks ! Suc i"
    by (auto simp: nth_eq_iff_index_eq)
next
  assume adj: "\<forall>i. Suc i < length ks \<longrightarrow> ks ! i \<noteq> ks ! Suc i"
  have "sorted_wrt (<) ks"
    unfolding sorted_wrt_iff_nth_Suc_transp [OF transp_on_less]
    using adj assms by (auto simp: sorted_iff_nth_Suc order.strict_iff_order)
  then show "distinct ks" by (simp add: strict_sorted_iff)
qed

section \<open>Maximum over lists\<close>

lemma foldr_max_le_iff: "foldr max xs (0::nat) \<le> n \<longleftrightarrow> (\<forall>x \<in> set xs. x \<le> n)"
  by (induction xs) auto

end
