(* ===== verification/Errors.thy ===== *)
theory Errors
  imports Prelude
begin

text \<open>
  The errors of the library (\<^verbatim>\<open>src/errors.go\<close> and the error types of
  \<^verbatim>\<open>src/chain.go\<close>). An error value is a sentinel, one of the typed errors that
  unwrap to a sentinel, a formatted error that wraps others (\<open>fmt.Errorf\<close> with zero or
  more \<open>%w\<close> verbs, \<open>errors.Join\<close>), or the transient and chain errors of the signer
  chain. \<open>errors_Is\<close> is Go's \<open>errors.Is\<close> against a sentinel and \<open>error_text\<close>
  its \<open>Error()\<close> text.
\<close>

section \<open>Sentinels\<close>

text \<open>
  The exported sentinels of \<^verbatim>\<open>errors.go\<close> in order, \<open>ErrVerificationFailed\<close> of
  \<^verbatim>\<open>signer.go\<close>, \<open>ErrWrongNetwork\<close> of \<^verbatim>\<open>network_pinned_signer.go\<close>, the four of
  \<^verbatim>\<open>cmd/soroauth/exec_signer.go\<close>, the SDK's decoding-depth error that \<^verbatim>\<open>decode.go\<close> matches on, and
  the two errors a Go context reports.
\<close>

datatype sentinel =
    ErrSourceAccountCredentials
  | ErrUnsupportedCredentials
  | ErrNoMatchingCredentialNode
  | ErrDuplicateDelegate
  | ErrSignatureMismatch
  | ErrMissingSigner
  | ErrAlreadySigned
  | ErrInvalidExpiration
  | ErrTooManySignatures
  | ErrDecodeLimit
  | ErrNoInvokeOperation
  | ErrUnsupportedFunctionType
  | ErrUnsupportedEnvelope
  | ErrUnsignedCredentialNode
  | ErrDelegatePlanUnmatched
  | ErrNonceAlreadyReserved
  | ErrWebAuthnMalformedJSON
  | ErrWebAuthnMissingField
  | ErrWebAuthnMalformedField
  | ErrWebAuthnTruncatedAuthenticatorData
  | ErrWebAuthnChallengeMismatch
  | ErrSignerAddressMismatch
  | ErrVaultUnauthorized
  | ErrVaultKeyNotFound
  | ErrVaultKeyType
  | ErrLedgerUnavailable
  | ErrLedgerLocked
  | ErrLedgerWrongApp
  | ErrLedgerBlindSigningDisabled
  | ErrLedgerDenied
  | ErrAttestationMalformed
  | ErrAttestationInvalid
  | ErrAttestationUnsupportedFormat
  | ErrPolicyRefusal
  | ErrSignerTransient
  | ErrChainExhausted
  | ErrQuorumNotMet
  | ErrQuorumDisagreement
  | ErrVerificationFailed
  | ErrWrongNetwork
  | ErrExecSignerExit
  | ErrExecSignerTimeout
  | ErrExecSignerMalformedOutput
  | ErrExecSignerRefused
  | XdrErrMaxDecodingDepthReached
  | ContextCanceled
  | ContextDeadlineExceeded

primrec sentinel_text :: "sentinel \<Rightarrow> string" where
  "sentinel_text ErrSourceAccountCredentials = ''credentials are source-account, which carry no signature payload''"
| "sentinel_text ErrUnsupportedCredentials = ''unsupported credentials type''"
| "sentinel_text ErrNoMatchingCredentialNode = ''no credential node matches the target address''"
| "sentinel_text ErrDuplicateDelegate = ''duplicate delegate address at the same level''"
| "sentinel_text ErrSignatureMismatch = ''signature does not verify against the payload''"
| "sentinel_text ErrMissingSigner = ''no signer for address''"
| "sentinel_text ErrAlreadySigned = ''credential node is already signed''"
| "sentinel_text ErrInvalidExpiration = ''invalid signature expiration ledger''"
| "sentinel_text ErrTooManySignatures = ''too many signatures for a classic account''"
| "sentinel_text ErrDecodeLimit = ''untrusted input exceeds a decode limit''"
| "sentinel_text ErrNoInvokeOperation = ''envelope carries no invokeHostFunction operation''"
| "sentinel_text ErrUnsupportedFunctionType = ''unsupported invocation function type''"
| "sentinel_text ErrUnsupportedEnvelope = ''unsupported transaction envelope type''"
| "sentinel_text ErrUnsignedCredentialNode = ''credential node was left unsigned''"
| "sentinel_text ErrDelegatePlanUnmatched = ''delegate plan address matches no entry in the batch''"
| "sentinel_text ErrNonceAlreadyReserved = ''nonce already reserved for this address''"
| "sentinel_text ErrWebAuthnMalformedJSON = ''webauthn assertion is not valid JSON''"
| "sentinel_text ErrWebAuthnMissingField = ''webauthn assertion is missing a field''"
| "sentinel_text ErrWebAuthnMalformedField = ''webauthn assertion field is not valid base64url''"
| "sentinel_text ErrWebAuthnTruncatedAuthenticatorData = ''webauthn authenticatorData is shorter than its 37-byte fixed prefix''"
| "sentinel_text ErrWebAuthnChallengeMismatch = ''webauthn challenge does not match the expected payload''"
| "sentinel_text ErrSignerAddressMismatch = ''signer public key does not match the configured address''"
| "sentinel_text ErrVaultUnauthorized = ''vault rejected the token''"
| "sentinel_text ErrVaultKeyNotFound = ''vault transit key not found''"
| "sentinel_text ErrVaultKeyType = ''vault transit key is not an ed25519 key''"
| "sentinel_text ErrLedgerUnavailable = ''ledger device is unavailable''"
| "sentinel_text ErrLedgerLocked = ''ledger device is locked''"
| "sentinel_text ErrLedgerWrongApp = ''ledger device is not running the Stellar app''"
| "sentinel_text ErrLedgerBlindSigningDisabled = ''blind signing is disabled in the Ledger Stellar app settings''"
| "sentinel_text ErrLedgerDenied = ''the request was rejected on the ledger device''"
| "sentinel_text ErrAttestationMalformed = ''webauthn attestation is malformed''"
| "sentinel_text ErrAttestationInvalid = ''webauthn attestation failed verification''"
| "sentinel_text ErrAttestationUnsupportedFormat = ''webauthn attestation format or algorithm is not supported''"
| "sentinel_text ErrPolicyRefusal = ''signing refused by policy''"
| "sentinel_text ErrSignerTransient = ''transient signer failure''"
| "sentinel_text ErrChainExhausted = ''every signer in the chain failed''"
| "sentinel_text ErrQuorumNotMet = ''signer quorum was not met''"
| "sentinel_text ErrQuorumDisagreement = ''signers disagree on the signature''"
| "sentinel_text ErrVerificationFailed = ''verification failed''"
| "sentinel_text ErrWrongNetwork = ''signer refused payload for the wrong network''"
| "sentinel_text ErrExecSignerExit = ''external signer exited non-zero''"
| "sentinel_text ErrExecSignerTimeout = ''external signer timed out''"
| "sentinel_text ErrExecSignerMalformedOutput = ''external signer returned malformed output''"
| "sentinel_text ErrExecSignerRefused = ''external signer refused to sign''"
| "sentinel_text XdrErrMaxDecodingDepthReached = ''maximum decoding depth reached''"
| "sentinel_text ContextCanceled = ''context canceled''"
| "sentinel_text ContextDeadlineExceeded = ''context deadline exceeded''"

section \<open>Error values\<close>

datatype ChainOutcome =
    ChainSucceeded
  | ChainTransientFailure
  | ChainTerminalFailure
  | ChainSkipped

text \<open>
  \<open>Errorf text ws\<close> is \<open>fmt.Errorf\<close> with its rendered text and the wrapped errors;
  \<open>JoinError\<close> is \<open>errors.Join\<close>. A \<open>ChainError\<close> carries its audit record, one
  tuple per attempt: index, address, outcome, reason, error.
\<close>

datatype gerr =
    Sentinel sentinel
  | Errorf string "gerr list"
  | JoinError "gerr list"
  | NoMatchingCredentialNodeError string
  | DuplicateDelegateError string
  | MissingSignerError string
  | UnsignedCredentialNodeError string
  | DelegatePlanUnmatchedError string
  | NonceAlreadyReservedError string int64
  | TransientError gerr
  | PolicyRefusalError string string "gerr option"
  | ChainError "(nat \<times> string \<times> ChainOutcome \<times> string \<times> gerr option) list" gerr

fun error_text :: "gerr \<Rightarrow> string" where
  "error_text (Sentinel s) = sentinel_text s"
| "error_text (Errorf t ws) = t"
| "error_text (JoinError es) =
     (case map error_text es of [] \<Rightarrow> [] | t # ts \<Rightarrow> t @ concat (map (Cons (CHR 0x0A)) ts))"
| "error_text (NoMatchingCredentialNodeError a) = sentinel_text ErrNoMatchingCredentialNode"
| "error_text (DuplicateDelegateError a) = sentinel_text ErrDuplicateDelegate"
| "error_text (MissingSignerError a) = sentinel_text ErrMissingSigner"
| "error_text (UnsignedCredentialNodeError a) = sentinel_text ErrUnsignedCredentialNode"
| "error_text (DelegatePlanUnmatchedError a) = sentinel_text ErrDelegatePlanUnmatched"
| "error_text (NonceAlreadyReservedError a n) = sentinel_text ErrNonceAlreadyReserved"
| "error_text (TransientError e) = error_text e"
| "error_text (PolicyRefusalError rule node cause) =
     ''policy refusal: rule '' @ strconv_Quote rule @ '' violated at '' @ node @
     (case cause of None \<Rightarrow> [] | Some e \<Rightarrow> '': '' @ error_text e)"
| "error_text (ChainError as e) = error_text e"

text \<open>
  \<open>errors.Is\<close> walks the tree of \<open>Unwrap\<close> results: a typed error unwraps to its
  sentinel, a transient error to \<open>ErrSignerTransient\<close> and the error it marks. A policy
  refusal (\<^verbatim>\<open>src/policy/policy.go\<close>) unwraps to its sentinel only, with or without a cause.
\<close>

fun errors_Is :: "gerr \<Rightarrow> sentinel \<Rightarrow> bool" where
  "errors_Is (Sentinel s) t = (s = t)"
| "errors_Is (Errorf m ws) t = list_ex (\<lambda>e. errors_Is e t) ws"
| "errors_Is (JoinError es) t = list_ex (\<lambda>e. errors_Is e t) es"
| "errors_Is (NoMatchingCredentialNodeError a) t = (t = ErrNoMatchingCredentialNode)"
| "errors_Is (DuplicateDelegateError a) t = (t = ErrDuplicateDelegate)"
| "errors_Is (MissingSignerError a) t = (t = ErrMissingSigner)"
| "errors_Is (UnsignedCredentialNodeError a) t = (t = ErrUnsignedCredentialNode)"
| "errors_Is (DelegatePlanUnmatchedError a) t = (t = ErrDelegatePlanUnmatched)"
| "errors_Is (NonceAlreadyReservedError a n) t = (t = ErrNonceAlreadyReserved)"
| "errors_Is (TransientError e) t = (t = ErrSignerTransient \<or> errors_Is e t)"
| "errors_Is (PolicyRefusalError rule node cause) t = (t = ErrPolicyRefusal)"
| "errors_Is (ChainError as e) t = errors_Is e t"

section \<open>Wrapping\<close>

text \<open>\<open>fmt.Errorf("prefix: %w", err)\<close>, on an error and on a result.\<close>

definition errw :: "string \<Rightarrow> gerr \<Rightarrow> gerr" where
  "errw prefix e = Errorf (prefix @ '': '' @ error_text e) [e]"

definition wrapE :: "string \<Rightarrow> gerr + 'a \<Rightarrow> gerr + 'a" where
  "wrapE prefix m = (case m of Inl e \<Rightarrow> Inl (errw prefix e) | Inr x \<Rightarrow> Inr x)"

text \<open>\<open>fmt.Errorf("text")\<close> with nothing wrapped.\<close>

definition errmsg :: "string \<Rightarrow> gerr" where
  "errmsg t = Errorf t []"

lemma wrapE_simps [simp, result_simps]:
  "wrapE p (Inl e) = Inl (errw p e)"
  "wrapE p (Inr x) = Inr x"
  by (simp_all add: wrapE_def)

lemma wrapE_Inr_iff [simp, result_simps]: "wrapE p m = Inr x \<longleftrightarrow> m = Inr x"
  by (cases m) auto

lemma wrapE_Inl_iff [result_simps]: "wrapE p m = Inl e \<longleftrightarrow> (\<exists>e'. m = Inl e' \<and> e = errw p e')"
  by (cases m) auto

lemma isOk_wrapE [simp, result_simps]: "isOk (wrapE p m) = isOk m"
  by (cases m) auto

lemma wrapE_cong [fundef_cong]: "p = p' \<Longrightarrow> m = m' \<Longrightarrow> wrapE p m = wrapE p' m'"
  by simp

text \<open>Wrapping is transparent to \<open>errors.Is\<close>; an unwrapped message matches nothing.\<close>

lemma errors_Is_errw [simp]: "errors_Is (errw p e) t = errors_Is e t"
  by (simp add: errw_def)

lemma errors_Is_errmsg [simp]: "\<not> errors_Is (errmsg m) t"
  by (simp add: errmsg_def)

text \<open>An error of a result that matches a sentinel.\<close>

definition failsWith :: "gerr + 'a \<Rightarrow> sentinel \<Rightarrow> bool" where
  "failsWith m t = (case m of Inl e \<Rightarrow> errors_Is e t | Inr _ \<Rightarrow> False)"

lemma failsWith_simps [simp, result_simps]:
  "failsWith (Inl e) t = errors_Is e t"
  "\<not> failsWith (Inr x) t"
  by (simp_all add: failsWith_def)

lemma failsWith_wrapE [simp]: "failsWith (wrapE p m) t = failsWith m t"
  by (cases m) auto

lemma failsWith_not_ok: "failsWith m t \<Longrightarrow> \<not> isOk m"
  by (cases m) auto

text \<open>A context is what \<open>ctx.Err()\<close> reports while the call runs.\<close>

type_synonym ctx = "gerr option"

end
