(* ===== verification/Xdr.thy ===== *)
theory Xdr
  imports Errors
begin

text \<open>
  The XDR data types of \<^verbatim>\<open>go-stellar-sdk\<close> the library handles, and the functions of
  that SDK and of Go's cryptographic packages it calls.

  The SDK is not part of the repository. Its types are written down with the fields the
  library reads and writes: a Go struct is a record, and a Go union (a discriminant and one
  pointer per arm) is a record with one \<open>option\<close> per arm where the library reads arms
  without looking at the discriminant (credentials, addresses, preimages), and a datatype
  whose constructors carry the arm's pointer otherwise. \<open>None\<close> is a nil pointer. Arms
  the library never looks into are opaque bytes.

  The SDK's functions are the fields of the record \<open>sdk\<close>, a parameter of every
  definition that calls them. What a theorem needs of them is a hypothesis of that theorem,
  in the vocabulary of the last section.
\<close>

section \<open>Addresses\<close>

datatype ScAddressType =
    ScAddressTypeAccount
  | ScAddressTypeContract
  | ScAddressTypeMuxedAccount
  | ScAddressTypeClaimableBalance
  | ScAddressTypeLiquidityPool
  | ScAddressTypeOther nat

record xdrAccountId =
  aid_Ed25519 :: "bytes option"

record ScAddress =
  sa_Type :: ScAddressType
  sa_AccountId :: "xdrAccountId option"
  sa_ContractId :: "bytes option"
  sa_OtherArm :: "bytes option"

section \<open>Contract values\<close>

datatype ContractExecutable =
    ExecutableWasm "bytes option"
  | ExecutableStellarAsset
  | ExecutableExternalRef "(ScAddress \<times> string) option"
  | ExecutableOther nat

datatype ScVal =
    ScvBool "bool option"
  | ScvVoid
  | ScvError "bytes option"
  | ScvU32 "32 word option"
  | ScvI32 "32 word option"
  | ScvU64 "64 word option"
  | ScvI64 "64 word option"
  | ScvTimepoint "64 word option"
  | ScvDuration "64 word option"
  | ScvU128 "(64 word \<times> 64 word) option"
  | ScvI128 "(64 word \<times> 64 word) option"
  | ScvU256 "(64 word \<times> 64 word \<times> 64 word \<times> 64 word) option"
  | ScvI256 "(64 word \<times> 64 word \<times> 64 word \<times> 64 word) option"
  | ScvBytes "bytes option"
  | ScvString "string option"
  | ScvSymbol "string option"
  | ScvVec "ScVal list option option"
  | ScvMap "(ScVal \<times> ScVal) list option option"
  | ScvAddress "ScAddress option"
  | ScvContractInstance "(ContractExecutable \<times> (ScVal \<times> ScVal) list option) option"
  | ScvLedgerKeyContractInstance
  | ScvLedgerKeyNonce "64 word option"
  | ScvExecutableTag "string option"
  | ScvOther nat

section \<open>Invocations\<close>

datatype ContractIdPreimage =
    PreimageFromAddress "(ScAddress \<times> bytes) option"
  | PreimageFromAsset "bytes option"
  | PreimageOther nat

record InvokeContractArgs =
  ica_ContractAddress :: ScAddress
  ica_FunctionName :: string
  ica_Args :: "ScVal list"

datatype SorobanAuthorizedFunction =
    FnContractFn "InvokeContractArgs option"
  | FnCreateContractHostFn "(ContractIdPreimage \<times> ContractExecutable) option"
  | FnCreateContractV2HostFn "(ContractIdPreimage \<times> ContractExecutable \<times> ScVal list) option"
  | FnOther nat

datatype SorobanAuthorizedInvocation =
  Invocation (inv_Function: SorobanAuthorizedFunction)
    (inv_SubInvocations: "SorobanAuthorizedInvocation list")

section \<open>Credentials and entries\<close>

record SorobanAddressCredentials =
  ac_Address :: ScAddress
  ac_Nonce :: int64
  ac_SignatureExpirationLedger :: uint32
  ac_Signature :: ScVal

datatype SorobanDelegateSignature =
  DelegateSignature (ds_Address: ScAddress) (ds_Signature: ScVal)
    (ds_NestedDelegates: "SorobanDelegateSignature list")

record SorobanAddressCredentialsWithDelegates =
  wd_AddressCredentials :: SorobanAddressCredentials
  wd_Delegates :: "SorobanDelegateSignature list"

datatype SorobanCredentialsType =
    CredentialsSourceAccount
  | CredentialsAddress
  | CredentialsAddressV2
  | CredentialsAddressWithDelegates
  | CredentialsOther nat

record SorobanCredentials =
  cr_Type :: SorobanCredentialsType
  cr_Address :: "SorobanAddressCredentials option"
  cr_AddressV2 :: "SorobanAddressCredentials option"
  cr_AddressWithDelegates :: "SorobanAddressCredentialsWithDelegates option"

record SorobanAuthorizationEntry =
  en_Credentials :: SorobanCredentials
  en_RootInvocation :: SorobanAuthorizedInvocation

text \<open>A nested array is smaller than the node that holds it.\<close>

lemma size_NestedDelegates: "size_list size (ds_NestedDelegates n) < size n"
  by (cases n) simp

lemma size_SubInvocations: "size_list size (inv_SubInvocations n) < size n"
  by (cases n) simp

lemma size_NestedDelegates_Suc [termination_simp]:
  "size_list size (ds_NestedDelegates n) < Suc (size n + k)"
  using size_NestedDelegates [of n] by simp

lemma size_SubInvocations_Suc [termination_simp]:
  "size_list size (inv_SubInvocations n) < Suc (size n + k)"
  using size_SubInvocations [of n] by simp

lemma size_NestedDelegates_double:
  "2 * size_list size (ds_NestedDelegates n) < Suc (2 * size n + k)"
  using size_NestedDelegates [of n] by simp

lemma size_SubInvocations_double:
  "2 * size_list size (inv_SubInvocations n) < Suc (2 * size n + k)"
  using size_SubInvocations [of n] by simp

section \<open>Signature preimages\<close>

datatype EnvelopeType =
    EnvelopeTypeSorobanAuthorization
  | EnvelopeTypeSorobanAuthorizationWithAddress
  | EnvelopeTypeOther nat

record PreimageSorobanAuthorization =
  pa_NetworkId :: bytes
  pa_Nonce :: int64
  pa_SignatureExpirationLedger :: uint32
  pa_Invocation :: SorobanAuthorizedInvocation

record PreimageSorobanAuthorizationWithAddress =
  pw_NetworkId :: bytes
  pw_Nonce :: int64
  pw_SignatureExpirationLedger :: uint32
  pw_Address :: ScAddress
  pw_Invocation :: SorobanAuthorizedInvocation

record HashIdPreimage =
  hp_Type :: EnvelopeType
  hp_SorobanAuthorization :: "PreimageSorobanAuthorization option"
  hp_SorobanAuthorizationWithAddress :: "PreimageSorobanAuthorizationWithAddress option"

section \<open>The SDK and the cryptographic primitives, as parameters\<close>

datatype VersionByte =
    VersionByteAccountID
  | VersionByteContract
  | VersionByteMuxedAccount
  | VersionByteOther nat

record sdk =
  strkey_DecodeAny :: "string \<Rightarrow> gerr + (VersionByte \<times> bytes)"
  strkey_Decode :: "VersionByte \<Rightarrow> string \<Rightarrow> gerr + bytes"
  strkey_Encode :: "VersionByte \<Rightarrow> bytes \<Rightarrow> gerr + string"
  AccountId_GetAddress :: "xdrAccountId \<Rightarrow> gerr + string"
  ScAddress_MarshalBinary :: "ScAddress \<Rightarrow> gerr + bytes"
  ScAddress_UnmarshalBinary :: "bytes \<Rightarrow> gerr + ScAddress"
  ScVal_TypeString :: "ScVal \<Rightarrow> string"
  ScVal_MarshalBinary :: "ScVal \<Rightarrow> gerr + bytes"
  Function_MarshalBinary :: "SorobanAuthorizedFunction \<Rightarrow> gerr + bytes"
  ScAddress_MarshalBase64 :: "ScAddress \<Rightarrow> gerr + string"
  ScAddress_SafeUnmarshalBase64WithOptions :: "string \<Rightarrow> nat \<Rightarrow> gerr + ScAddress"
  ScVal_MarshalBase64 :: "ScVal \<Rightarrow> gerr + string"
  ScVal_SafeUnmarshalBase64WithOptions :: "string \<Rightarrow> nat \<Rightarrow> gerr + ScVal"
  Asset_SafeUnmarshalBase64WithOptions :: "string \<Rightarrow> nat \<Rightarrow> gerr + bytes"
  Asset_MarshalBinary :: "bytes \<Rightarrow> gerr + bytes"
  CredentialsType_value :: "SorobanCredentialsType \<Rightarrow> nat"
  Entry_MarshalBinary :: "SorobanAuthorizationEntry \<Rightarrow> gerr + bytes"
  Entry_DecodeBytes :: "bytes \<Rightarrow> gerr + (SorobanAuthorizationEntry \<times> nat)"
  Entry_SafeUnmarshalBase64 :: "string \<Rightarrow> gerr + SorobanAuthorizationEntry"
  Entry_SafeUnmarshalBase64WithOptions :: "string \<Rightarrow> nat \<Rightarrow> gerr + SorobanAuthorizationEntry"
  Preimage_MarshalBinary :: "HashIdPreimage \<Rightarrow> gerr + bytes"
  Preimage_DecodeBytes :: "bytes \<Rightarrow> gerr + (HashIdPreimage \<times> nat)"
  network_ID :: "string \<Rightarrow> bytes"
  sha256_Sum256 :: "bytes \<Rightarrow> bytes"
  ed25519_Verify :: "bytes \<Rightarrow> bytes \<Rightarrow> bytes \<Rightarrow> bool"

section \<open>What the library relies on\<close>

text \<open>
  The codec reads back what it wrote, consuming every byte: the documented round trip of
  XDR, stated for one value.
\<close>

definition entry_roundtrips :: "sdk \<Rightarrow> SorobanAuthorizationEntry \<Rightarrow> bool" where
  "entry_roundtrips S e \<longleftrightarrow>
     (\<exists>b. Entry_MarshalBinary S e = Inr b \<and> Entry_DecodeBytes S b = Inr (e, length b))"

definition preimage_roundtrips :: "sdk \<Rightarrow> HashIdPreimage \<Rightarrow> bool" where
  "preimage_roundtrips S p \<longleftrightarrow>
     (\<exists>b. Preimage_MarshalBinary S p = Inr b \<and> Preimage_DecodeBytes S b = Inr (p, length b))"

definition address_roundtrips :: "sdk \<Rightarrow> ScAddress \<Rightarrow> bool" where
  "address_roundtrips S a \<longleftrightarrow>
     (\<exists>b. ScAddress_MarshalBinary S a = Inr b \<and> ScAddress_UnmarshalBinary S b = Inr a)"

section \<open>Signers\<close>

text \<open>
  The \<open>Signer\<close> interface of \<^verbatim>\<open>src/signer.go\<close>: an address, and the answer to one
  request to sign. The answer is a function of the context's state, the preimage and the
  payload.
\<close>

record signer =
  sg_Address :: string
  sg_Sign :: "ctx \<Rightarrow> HashIdPreimage \<Rightarrow> bytes \<Rightarrow> gerr + ScVal"

end
