(* ===== verification/Decode.thy ===== *)
theory Decode
  imports Xdr
begin

text \<open>
  The decode limits of \<^verbatim>\<open>src/decode.go\<close>: the options a caller may tighten, the bounded
  decoding of a base64 entry, and the depth guard every walk over a decoded entry uses.
\<close>

section \<open>Limits\<close>

definition MaxDecodeDepth :: nat where
  "MaxDecodeDepth = 64"

definition MaxDecodeInputBytes :: nat where
  "MaxDecodeInputBytes = 2 ^ 20"

record LimitOptions =
  lo_MaxDecodeDepth :: "nat option"
  lo_MaxDecodeInputBytes :: "nat option"

definition stricterThanDefault :: "string \<Rightarrow> nat \<Rightarrow> bool" where
  "stricterThanDefault kind v =
     (if kind = ''MaxDecodeDepth'' then v > 64
      else if kind = ''MaxDecodeInputBytes'' then v > 2 ^ 20
      else False)"

definition validateLimitOptions :: "LimitOptions \<Rightarrow> gerr + unit" where
  "validateLimitOptions opts =
     (if (case lo_MaxDecodeDepth opts of None \<Rightarrow> False
          | Some d \<Rightarrow> stricterThanDefault ''MaxDecodeDepth'' d)
      then Inl (errmsg ''soroauth: decode limit: MaxDecodeDepth is above the default floor of 64, which would loosen the bound'')
      else if (case lo_MaxDecodeInputBytes opts of None \<Rightarrow> False
          | Some n \<Rightarrow> stricterThanDefault ''MaxDecodeInputBytes'' n)
      then Inl (errmsg ''soroauth: decode limit: MaxDecodeInputBytes is above the default floor, which would loosen the bound'')
      else Inr ())"

text \<open>\<open>base64.StdEncoding.EncodedLen\<close>: four characters per three bytes, padded.\<close>

definition base64_EncodedLen :: "nat \<Rightarrow> nat" where
  "base64_EncodedLen n = (n + 2) div 3 * 4"

section \<open>Bounded decoding\<close>

text \<open>
  \<open>opts ...LimitOptions\<close> is a variadic parameter of which the code reads the first
  element; a list models it. The lengths are Go \<open>uint\<close> and \<open>int\<close> values below
  \<open>2\<^sup>2\<^sup>0\<close> once validated, so \<open>nat\<close> arithmetic is exact. The decoding of an entry and
  of an envelope are the same code over two SDK decoders; \<open>decodeWithLimits\<close> takes the
  decoder and the name in the messages.
\<close>

definition effectiveMaxDepth :: "LimitOptions list \<Rightarrow> nat" where
  "effectiveMaxDepth opts =
     (case opts of [] \<Rightarrow> MaxDecodeDepth
      | o1 # _ \<Rightarrow> (case lo_MaxDecodeDepth o1 of None \<Rightarrow> MaxDecodeDepth | Some d \<Rightarrow> d))"

definition effectiveMaxInput :: "LimitOptions list \<Rightarrow> nat" where
  "effectiveMaxInput opts =
     (case opts of [] \<Rightarrow> MaxDecodeInputBytes
      | o1 # _ \<Rightarrow> (case lo_MaxDecodeInputBytes o1 of None \<Rightarrow> MaxDecodeInputBytes | Some n \<Rightarrow> n))"

definition decodeWithLimits ::
  "(string \<Rightarrow> nat \<Rightarrow> gerr + 'v) \<Rightarrow> string \<Rightarrow> string \<Rightarrow> LimitOptions list \<Rightarrow> gerr + 'v" where
  "decodeWithLimits unmarshal op encoded opts =
     (if encoded = [] then Inl (errmsg (op @ '': input is empty''))
      else bindE (case opts of [] \<Rightarrow> Inr () | o1 # _ \<Rightarrow> wrapE op (validateLimitOptions o1)) (\<lambda>_.
        if length encoded > base64_EncodedLen (effectiveMaxInput opts)
        then Inl (errw (op @ '': '' @ itoa (length encoded) @ '' base64 bytes exceeds the '' @
               itoa (effectiveMaxInput opts) @ ''-byte decoded limit'') (Sentinel ErrDecodeLimit))
        else case unmarshal encoded (effectiveMaxDepth opts) of
            Inr v \<Rightarrow> Inr v
          | Inl err \<Rightarrow>
              if errors_Is err XdrErrMaxDecodingDepthReached
              then Inl (errw (op @ '': nesting exceeds the '' @ itoa (effectiveMaxDepth opts) @
                     ''-level limit'') (Sentinel ErrDecodeLimit))
              else Inl (errw op err)))"

definition DecodeAuthorizationEntry ::
  "sdk \<Rightarrow> string \<Rightarrow> LimitOptions list \<Rightarrow> gerr + SorobanAuthorizationEntry" where
  "DecodeAuthorizationEntry S encoded opts =
     decodeWithLimits (Entry_SafeUnmarshalBase64WithOptions S)
       ''soroauth: decode authorization entry'' encoded opts"

text \<open>The envelope type is the SDK's and opaque here: the decoder is a parameter.\<close>

definition DecodeTransactionEnvelope ::
  "(string \<Rightarrow> nat \<Rightarrow> gerr + 'envelope) \<Rightarrow> string \<Rightarrow> LimitOptions list \<Rightarrow> gerr + 'envelope" where
  "DecodeTransactionEnvelope unmarshal encoded opts =
     decodeWithLimits unmarshal ''soroauth: decode transaction envelope'' encoded opts"

definition checkTraversalDepth :: "nat \<Rightarrow> gerr + unit" where
  "checkTraversalDepth depth =
     (if depth > MaxDecodeDepth
      then Inl (errw ''nesting exceeds the 64-level limit'' (Sentinel ErrDecodeLimit))
      else Inr ())"

section \<open>Properties\<close>

lemma checkTraversalDepth_Inr_iff [simp]: "checkTraversalDepth d = Inr u \<longleftrightarrow> d \<le> MaxDecodeDepth"
  by (auto simp: checkTraversalDepth_def)

lemma checkTraversalDepth_ok [simp]: "d \<le> MaxDecodeDepth \<Longrightarrow> checkTraversalDepth d = Inr ()"
  by simp

lemma checkTraversalDepth_limit: "d > MaxDecodeDepth \<Longrightarrow> failsWith (checkTraversalDepth d) ErrDecodeLimit"
  by (simp add: checkTraversalDepth_def)

text \<open>Accepted options never loosen a default.\<close>

lemma validateLimitOptions_tightens:
  assumes "validateLimitOptions o1 = Inr ()"
  shows "effectiveMaxDepth (o1 # os) \<le> MaxDecodeDepth"
    and "effectiveMaxInput (o1 # os) \<le> MaxDecodeInputBytes"
  using assms
  by (auto simp: validateLimitOptions_def stricterThanDefault_def effectiveMaxDepth_def effectiveMaxInput_def
      MaxDecodeDepth_def MaxDecodeInputBytes_def split: option.splits if_splits)

text \<open>
  The check is on the base64 length, so an accepted input decodes to at most two bytes more
  than the limit it names.
\<close>

lemma base64_EncodedLen_bound: "4 * m \<le> base64_EncodedLen n \<Longrightarrow> 3 * m \<le> n + 2"
  unfolding base64_EncodedLen_def by linarith

lemma decodeWithLimits_ok:
  assumes "decodeWithLimits um op encoded opts = Inr v"
  shows "encoded \<noteq> []"
    and "effectiveMaxDepth opts \<le> MaxDecodeDepth"
    and "effectiveMaxInput opts \<le> MaxDecodeInputBytes"
    and "length encoded \<le> base64_EncodedLen (effectiveMaxInput opts)"
    and "um encoded (effectiveMaxDepth opts) = Inr v"
proof -
  show "encoded \<noteq> []" using assms by (auto simp: decodeWithLimits_def)
  have "(case opts of [] \<Rightarrow> Inr () | o1 # _ \<Rightarrow> wrapE op (validateLimitOptions o1)) = Inr ()"
    using assms by (auto simp: decodeWithLimits_def bindE_Inr_iff split: if_splits)
  then show "effectiveMaxDepth opts \<le> MaxDecodeDepth" "effectiveMaxInput opts \<le> MaxDecodeInputBytes"
    by (cases opts; auto dest: validateLimitOptions_tightens
        simp: effectiveMaxDepth_def effectiveMaxInput_def)+
  show "length encoded \<le> base64_EncodedLen (effectiveMaxInput opts)"
    and "um encoded (effectiveMaxDepth opts) = Inr v"
    using assms by (auto simp: decodeWithLimits_def bindE_Inr_iff split: if_splits sum.splits)
qed

end
