(* ===== verification/Walks.thy ===== *)
theory Walks
  imports Decode
begin

text \<open>
  The depth-bounded walks. Signing, validation, inspection and tree building all recurse
  over a tree with the same shape of code: check the depth, do the level's own work, recurse
  one level deeper into every node. The locale \<open>bounded_walk\<close> states that shape as one
  equation and proves once which trees such a walk accepts; the components interpret it on
  their own walks.
\<close>

section \<open>Trees that fit\<close>

text \<open>
  \<open>fits kids P k ts\<close>: the forest \<open>ts\<close> has at most \<open>k\<close> levels and every level of
  it, the empty ones under the leaves included, satisfies \<open>P\<close>.
\<close>

fun fits :: "('t \<Rightarrow> 't list) \<Rightarrow> ('t list \<Rightarrow> bool) \<Rightarrow> nat \<Rightarrow> 't list \<Rightarrow> bool" where
  "fits kids P 0 ts = (ts = [] \<and> P [])"
| "fits kids P (Suc k) ts = (P ts \<and> list_all (\<lambda>t. fits kids P k (kids t)) ts)"

lemma fits_mono_pred:
  "(\<And>us. P us \<Longrightarrow> Q us) \<Longrightarrow> fits kids P k ts \<Longrightarrow> fits kids Q k ts"
  by (induction k arbitrary: ts) (auto simp: list_all_iff)

lemma fits_Suc: "fits kids P k ts \<Longrightarrow> fits kids P (Suc k) ts"
proof (induction k arbitrary: ts)
  case 0
  then show ?case by simp
next
  case (Suc k)
  then have "P ts" "\<forall>t \<in> set ts. fits kids P k (kids t)"
    by (auto simp: list_all_iff)
  then have "P ts" "\<forall>t \<in> set ts. fits kids P (Suc k) (kids t)"
    using Suc.IH by auto
  then show ?case by (subst fits.simps) (simp add: list_all_iff del: fits.simps)
qed

lemma fits_level: "fits kids P k ts \<Longrightarrow> P ts"
  by (cases k) auto

section \<open>The contract of a bounded walk\<close>

locale bounded_walk =
  fixes kids :: "'t \<Rightarrow> 't list"
    and P :: "'t list \<Rightarrow> bool"
    and walk :: "'t list \<Rightarrow> nat \<Rightarrow> gerr + 'r"
  assumes walk_step:
    "isOk (walk ts d) \<longleftrightarrow>
       d \<le> MaxDecodeDepth \<and> P ts \<and> (\<forall>t \<in> set ts. isOk (walk (kids t) (Suc d)))"
    and walk_limit: "d > MaxDecodeDepth \<Longrightarrow> failsWith (walk ts d) ErrDecodeLimit"
begin

lemma walk_past_limit: "d > MaxDecodeDepth \<Longrightarrow> \<not> isOk (walk ts d)"
  using walk_step [of ts d] by simp

text \<open>
  A walk that starts at depth \<open>d\<close> accepts exactly the forests whose levels are good and
  number at most \<open>MaxDecodeDepth - d\<close>: the guard also runs for the empty level under a
  leaf, so one level less than the limit.
\<close>

lemma walk_ok_iff:
  "d \<le> MaxDecodeDepth \<Longrightarrow> isOk (walk ts d) \<longleftrightarrow> fits kids P (MaxDecodeDepth - d) ts"
proof (induction "MaxDecodeDepth - d" arbitrary: d ts)
  case 0
  then have "d = MaxDecodeDepth" by simp
  then have "isOk (walk ts d) \<longleftrightarrow> P ts \<and> ts = []"
    using walk_step [of ts d] walk_past_limit [of "Suc d"] by (cases ts) auto
  then show ?case using \<open>d = MaxDecodeDepth\<close> by auto
next
  case (Suc k)
  then have d: "Suc d \<le> MaxDecodeDepth" and k: "k = MaxDecodeDepth - Suc d" by auto
  have "isOk (walk (kids t) (Suc d)) \<longleftrightarrow> fits kids P k (kids t)" for t
    using Suc.hyps(1) [OF k d] k by simp
  then show ?case
    using Suc.hyps(2) Suc.prems walk_step [of ts d] by (simp add: list_all_iff flip: Suc.hyps(2))
qed

lemma walk_ok_top: "isOk (walk ts (Suc 0)) \<longleftrightarrow> fits kids P 63 ts"
  using walk_ok_iff [of 1 ts] by (simp add: MaxDecodeDepth_def)

end

end
