(* ===== verification/Address.thy ===== *)
theory Address
  imports Xdr
begin

text \<open>
  Addresses (\<^verbatim>\<open>src/address.go\<close>, and \<open>addressBytes\<close>, \<open>formatAddressBytes\<close> of
  \<^verbatim>\<open>src/authorize.go\<close>, \<open>addressBytesFromStr\<close> of \<^verbatim>\<open>src/coordinator.go\<close>): a
  G\dots or C\dots strkey to the XDR address it names and back. The strkey codec is the
  SDK's.
\<close>

section \<open>Parsing and formatting\<close>

definition scAddressPayloadLen :: nat where
  "scAddressPayloadLen = 32"

definition accountAddress :: "bytes \<Rightarrow> ScAddress" where
  "accountAddress payload =
     \<lparr>sa_Type = ScAddressTypeAccount,
      sa_AccountId = Some \<lparr>aid_Ed25519 = Some payload\<rparr>,
      sa_ContractId = None, sa_OtherArm = None\<rparr>"

definition contractAddress :: "bytes \<Rightarrow> ScAddress" where
  "contractAddress payload =
     \<lparr>sa_Type = ScAddressTypeContract, sa_AccountId = None,
      sa_ContractId = Some payload, sa_OtherArm = None\<rparr>"

definition ParseAddress :: "sdk \<Rightarrow> string \<Rightarrow> gerr + ScAddress" where
  "ParseAddress S s =
     bindE (wrapE ''soroauth: parse address'' (strkey_DecodeAny S s)) (\<lambda>(version, payload).
     case version of
       VersionByteAccountID \<Rightarrow>
         if length payload \<noteq> scAddressPayloadLen
         then Inl (errmsg (''soroauth: parse address: account address has a '' @
                itoa (length payload) @ ''-byte payload, want '' @ itoa scAddressPayloadLen))
         else Inr (accountAddress payload)
     | VersionByteContract \<Rightarrow>
         if length payload \<noteq> scAddressPayloadLen
         then Inl (errmsg (''soroauth: parse address: contract address has a '' @
                itoa (length payload) @ ''-byte payload, want '' @ itoa scAddressPayloadLen))
         else Inr (contractAddress payload)
     | VersionByteMuxedAccount \<Rightarrow>
         Inl (errmsg (''soroauth: parse address: '' @ s @ '' is a muxed (M) address''))
     | VersionByteOther _ \<Rightarrow>
         Inl (errmsg (''soroauth: parse address: '' @ s @ '' is not an account (G) or contract (C) address'')))"

definition FormatAddress :: "sdk \<Rightarrow> ScAddress \<Rightarrow> gerr + string" where
  "FormatAddress S a =
     (case sa_Type a of
        ScAddressTypeAccount \<Rightarrow>
          (case sa_AccountId a of
             None \<Rightarrow> Inl (errmsg ''soroauth: format address: account arm has no account id'')
           | Some accountId \<Rightarrow> wrapE ''soroauth: format address'' (AccountId_GetAddress S accountId))
      | ScAddressTypeContract \<Rightarrow>
          (case sa_ContractId a of
             None \<Rightarrow> Inl (errmsg ''soroauth: format address: contract arm has no contract id'')
           | Some contractId \<Rightarrow>
               wrapE ''soroauth: format address'' (strkey_Encode S VersionByteContract contractId))
      | ScAddressTypeMuxedAccount \<Rightarrow>
          Inl (errmsg ''soroauth: format address: muxed (M) addresses are not valid in an address credential'')
      | _ \<Rightarrow> Inl (errmsg ''soroauth: format address: unsupported address type''))"

section \<open>Encodings\<close>

definition addressBytes :: "sdk \<Rightarrow> ScAddress \<Rightarrow> gerr + bytes" where
  "addressBytes S a = wrapE ''encoding address'' (ScAddress_MarshalBinary S a)"

definition formatAddressBytes :: "sdk \<Rightarrow> bytes \<Rightarrow> gerr + string" where
  "formatAddressBytes S encoded =
     bindE (wrapE ''decoding address'' (ScAddress_UnmarshalBinary S encoded)) (FormatAddress S)"

definition addressBytesFromStr :: "sdk \<Rightarrow> string \<Rightarrow> gerr + bytes" where
  "addressBytesFromStr S addr = bindE (ParseAddress S addr) (addressBytes S)"

text \<open>The fallback both delegate checks use when an address cannot be rendered.\<close>

definition formatOrPlaceholder :: "sdk \<Rightarrow> ScAddress \<Rightarrow> string" where
  "formatOrPlaceholder S a =
     (case FormatAddress S a of Inl _ \<Rightarrow> ''<unformattable address>'' | Inr s \<Rightarrow> s)"

section \<open>Properties\<close>

lemma addressBytes_Inr_iff [simp]:
  "addressBytes S a = Inr b \<longleftrightarrow> ScAddress_MarshalBinary S a = Inr b"
  by (simp add: addressBytes_def)

text \<open>The two addresses the parser can build, by the version byte it read.\<close>

lemma ParseAddress_Inr_iff:
  "ParseAddress S s = Inr a \<longleftrightarrow>
     (\<exists>p. length p = 32 \<and>
       (strkey_DecodeAny S s = Inr (VersionByteAccountID, p) \<and> a = accountAddress p \<or>
        strkey_DecodeAny S s = Inr (VersionByteContract, p) \<and> a = contractAddress p))"
proof (cases "strkey_DecodeAny S s")
  case (Inl e)
  then show ?thesis by (simp add: ParseAddress_def)
next
  case (Inr vp)
  then show ?thesis
    by (cases vp; cases "fst vp") (auto simp: ParseAddress_def scAddressPayloadLen_def)
qed

lemma ParseAddress_form:
  assumes "ParseAddress S s = Inr a"
  obtains p where "length p = 32" "a = accountAddress p \<or> a = contractAddress p"
  using assms by (auto simp: ParseAddress_Inr_iff)

text \<open>The arms the formatter accepts are the ones the parser builds.\<close>

lemma FormatAddress_ok_arm:
  "FormatAddress S a = Inr s \<Longrightarrow>
     (sa_Type a = ScAddressTypeAccount \<and> sa_AccountId a \<noteq> None) \<or>
     (sa_Type a = ScAddressTypeContract \<and> sa_ContractId a \<noteq> None)"
  by (auto simp: FormatAddress_def split: ScAddressType.splits option.splits)

text \<open>
  What the library assumes of the strkey codec: encoding inverts decoding for the two
  version bytes it accepts, in the direction SEP-23's canonical spelling gives.
\<close>

definition strkey_decode_encode :: "sdk \<Rightarrow> bool" where
  "strkey_decode_encode S \<longleftrightarrow>
     (\<forall>s p. strkey_DecodeAny S s = Inr (VersionByteContract, p) \<longrightarrow>
        strkey_Encode S VersionByteContract p = Inr s) \<and>
     (\<forall>s p. strkey_DecodeAny S s = Inr (VersionByteAccountID, p) \<longrightarrow>
        AccountId_GetAddress S \<lparr>aid_Ed25519 = Some p\<rparr> = Inr s)"

definition strkey_encode_decode :: "sdk \<Rightarrow> bool" where
  "strkey_encode_decode S \<longleftrightarrow>
     (\<forall>s p. strkey_Encode S VersionByteContract p = Inr s \<longrightarrow>
        strkey_DecodeAny S s = Inr (VersionByteContract, p)) \<and>
     (\<forall>s p. AccountId_GetAddress S \<lparr>aid_Ed25519 = Some p\<rparr> = Inr s \<longrightarrow>
        strkey_DecodeAny S s = Inr (VersionByteAccountID, p))"

lemma parse_then_format_helper:
  "strkey_decode_encode S \<Longrightarrow> ParseAddress S s = Inr a \<Longrightarrow> FormatAddress S a = Inr s"
  by (auto simp: ParseAddress_Inr_iff strkey_decode_encode_def FormatAddress_def
      accountAddress_def contractAddress_def)

lemma format_then_parse_helper:
  assumes "strkey_encode_decode S" "length p = 32"
    and "a = accountAddress p \<or> a = contractAddress p"
    and "FormatAddress S a = Inr s"
  shows "ParseAddress S s = Inr a"
  using assms
  by (auto simp: ParseAddress_Inr_iff strkey_encode_decode_def FormatAddress_def
      accountAddress_def contractAddress_def)

lemma addressBytesFromStr_Inr_iff:
  "addressBytesFromStr S t = Inr b \<longleftrightarrow> (\<exists>a. ParseAddress S t = Inr a \<and> addressBytes S a = Inr b)"
  by (simp add: addressBytesFromStr_def bindE_Inr_iff)

end
