(* ===== verification/Arms.thy ===== *)
theory Arms
  imports Address
begin

text \<open>
  The credential arms (\<^verbatim>\<open>src/arm.go\<close>), the accessor the address arms share
  (\<open>addressCredentials\<close> of \<^verbatim>\<open>src/preimage.go\<close>) and the placeholder test
  (\<open>isSigned\<close> of \<^verbatim>\<open>src/authorize.go\<close>).

  The Go interface \<open>ArmBehavior\<close> is a record of functions, one field per method, and its
  four implementations are four values of that record. A method that mutates
  \<open>creds *SorobanCredentials\<close> returns the updated credentials. The locale \<open>address_arm\<close>
  is the contract of the interface: what the getters read after the setters wrote. It is
  interpreted on the three address arms.
\<close>

section \<open>Signatures and placeholders\<close>

definition isSigned :: "ScVal \<Rightarrow> bool" where
  "isSigned value =
     (case value of
        ScvVoid \<Rightarrow> False
      | ScvVec v \<Rightarrow> (case v of Some (Some xs) \<Rightarrow> length xs > 0 | _ \<Rightarrow> False)
      | _ \<Rightarrow> True)"

lemma isSigned_placeholders [simp]:
  "\<not> isSigned ScvVoid"
  "\<not> isSigned (ScvVec (Some (Some [])))"
  by (simp_all add: isSigned_def)

section \<open>The shared accessor\<close>

definition addressCredentials :: "SorobanCredentials \<Rightarrow> gerr + SorobanAddressCredentials" where
  "addressCredentials c =
     (case cr_Type c of
        CredentialsSourceAccount \<Rightarrow> Inl (Sentinel ErrSourceAccountCredentials)
      | CredentialsAddress \<Rightarrow>
          (case cr_Address c of None \<Rightarrow> Inl (errmsg ''address credentials arm is empty'')
           | Some a \<Rightarrow> Inr a)
      | CredentialsAddressV2 \<Rightarrow>
          (case cr_AddressV2 c of None \<Rightarrow> Inl (errmsg ''address_v2 credentials arm is empty'')
           | Some a \<Rightarrow> Inr a)
      | CredentialsAddressWithDelegates \<Rightarrow>
          (case cr_AddressWithDelegates c of
             None \<Rightarrow> Inl (errmsg ''address_with_delegates credentials arm is empty'')
           | Some w \<Rightarrow> Inr (wd_AddressCredentials w))
      | CredentialsOther _ \<Rightarrow> Inl (Sentinel ErrUnsupportedCredentials))"

text \<open>
  The accessor returns a pointer into the entry; writing through it is an update of the
  struct the pointer aliases.
\<close>

definition updateAddressCredentials ::
  "(SorobanAddressCredentials \<Rightarrow> SorobanAddressCredentials) \<Rightarrow> SorobanCredentials \<Rightarrow> SorobanCredentials" where
  "updateAddressCredentials f c =
     (case cr_Type c of
        CredentialsAddress \<Rightarrow> c\<lparr>cr_Address := map_option f (cr_Address c)\<rparr>
      | CredentialsAddressV2 \<Rightarrow> c\<lparr>cr_AddressV2 := map_option f (cr_AddressV2 c)\<rparr>
      | CredentialsAddressWithDelegates \<Rightarrow>
          c\<lparr>cr_AddressWithDelegates :=
             map_option (\<lambda>w. w\<lparr>wd_AddressCredentials := f (wd_AddressCredentials w)\<rparr>)
               (cr_AddressWithDelegates c)\<rparr>
      | _ \<Rightarrow> c)"

definition credentialTypeName :: "SorobanCredentialsType \<Rightarrow> string" where
  "credentialTypeName t =
     (case t of
        CredentialsSourceAccount \<Rightarrow> ''source_account''
      | CredentialsAddress \<Rightarrow> ''address''
      | CredentialsAddressV2 \<Rightarrow> ''address_v2''
      | CredentialsAddressWithDelegates \<Rightarrow> ''address_with_delegates''
      | CredentialsOther _ \<Rightarrow> ''unknown'')"

section \<open>The interface and its implementations\<close>

record armBehavior =
  ab_PreimageVariant :: EnvelopeType
  ab_IsAddressBound :: bool
  ab_CredentialTypeName :: string
  ab_GetAddress :: "sdk \<Rightarrow> SorobanCredentials \<Rightarrow> gerr + string"
  ab_GetNonce :: "SorobanCredentials \<Rightarrow> int64"
  ab_GetExpiration :: "SorobanCredentials \<Rightarrow> uint32"
  ab_GetSignature :: "SorobanCredentials \<Rightarrow> ScVal"
  ab_SetSignature :: "SorobanCredentials \<Rightarrow> ScVal \<Rightarrow> SorobanCredentials"
  ab_SetExpiration :: "SorobanCredentials \<Rightarrow> uint32 \<Rightarrow> SorobanCredentials"
  ab_HasDelegates :: bool
  ab_GetDelegates :: "SorobanCredentials \<Rightarrow> SorobanDelegateSignature list"
  ab_SetDelegates :: "SorobanCredentials \<Rightarrow> SorobanDelegateSignature list \<Rightarrow> SorobanCredentials"
  ab_CanUpgradeToV2 :: bool
  ab_UpgradeToV2 :: "SorobanCredentials \<Rightarrow> gerr + SorobanCredentials"
  ab_ValidateForSigning :: "sdk \<Rightarrow> SorobanCredentials \<Rightarrow> string \<Rightarrow> gerr + unit"

definition sourceAccountArm :: armBehavior where
  "sourceAccountArm =
     \<lparr>ab_PreimageVariant = EnvelopeTypeOther 99,
      ab_IsAddressBound = False,
      ab_CredentialTypeName = ''source_account'',
      ab_GetAddress = (\<lambda>S creds. Inr ''''),
      ab_GetNonce = (\<lambda>creds. 0),
      ab_GetExpiration = (\<lambda>creds. 0),
      ab_GetSignature = (\<lambda>creds. ScvVoid),
      ab_SetSignature = (\<lambda>creds sig. creds),
      ab_SetExpiration = (\<lambda>creds ex. creds),
      ab_HasDelegates = False,
      ab_GetDelegates = (\<lambda>creds. []),
      ab_SetDelegates = (\<lambda>creds ds. creds),
      ab_CanUpgradeToV2 = False,
      ab_UpgradeToV2 = (\<lambda>creds. Inl (Sentinel ErrUnsupportedCredentials)),
      ab_ValidateForSigning = (\<lambda>S creds target. Inl (Sentinel ErrSourceAccountCredentials))\<rparr>"

definition legacyAddressArm :: armBehavior where
  "legacyAddressArm =
     \<lparr>ab_PreimageVariant = EnvelopeTypeSorobanAuthorization,
      ab_IsAddressBound = False,
      ab_CredentialTypeName = ''address'',
      ab_GetAddress = (\<lambda>S creds. case cr_Address creds of
          None \<Rightarrow> Inl (errmsg ''address credentials arm is empty'')
        | Some a \<Rightarrow> FormatAddress S (ac_Address a)),
      ab_GetNonce = (\<lambda>creds. case cr_Address creds of None \<Rightarrow> 0 | Some a \<Rightarrow> ac_Nonce a),
      ab_GetExpiration = (\<lambda>creds. case cr_Address creds of
          None \<Rightarrow> 0 | Some a \<Rightarrow> ac_SignatureExpirationLedger a),
      ab_GetSignature = (\<lambda>creds. case cr_Address creds of
          None \<Rightarrow> ScvVoid | Some a \<Rightarrow> ac_Signature a),
      ab_SetSignature = (\<lambda>creds sig. case cr_Address creds of
          None \<Rightarrow> creds | Some a \<Rightarrow> creds\<lparr>cr_Address := Some (a\<lparr>ac_Signature := sig\<rparr>)\<rparr>),
      ab_SetExpiration = (\<lambda>creds ex. case cr_Address creds of
          None \<Rightarrow> creds
        | Some a \<Rightarrow> creds\<lparr>cr_Address := Some (a\<lparr>ac_SignatureExpirationLedger := ex\<rparr>)\<rparr>),
      ab_HasDelegates = False,
      ab_GetDelegates = (\<lambda>creds. []),
      ab_SetDelegates = (\<lambda>creds ds. creds),
      ab_CanUpgradeToV2 = True,
      ab_UpgradeToV2 = (\<lambda>creds. case cr_Address creds of
          None \<Rightarrow> Inl (errmsg ''legacy credentials arm is empty'')
        | Some a \<Rightarrow>
            if isSigned (ac_Signature a) then Inl (Sentinel ErrAlreadySigned)
            else Inr \<lparr>cr_Type = CredentialsAddressV2, cr_Address = None,
                      cr_AddressV2 = Some \<lparr>ac_Address = ac_Address a, ac_Nonce = ac_Nonce a,
                        ac_SignatureExpirationLedger = ac_SignatureExpirationLedger a,
                        ac_Signature = ScvVoid\<rparr>,
                      cr_AddressWithDelegates = None\<rparr>),
      ab_ValidateForSigning = (\<lambda>S creds target. case cr_Address creds of
          None \<Rightarrow> Inl (errmsg ''legacy address credentials arm is empty'')
        | Some a \<Rightarrow> bindE (FormatAddress S (ac_Address a)) (\<lambda>addr.
            if addr \<noteq> target then Inl (Sentinel ErrNoMatchingCredentialNode) else Inr ()))\<rparr>"

definition addressV2Arm :: armBehavior where
  "addressV2Arm =
     \<lparr>ab_PreimageVariant = EnvelopeTypeSorobanAuthorizationWithAddress,
      ab_IsAddressBound = True,
      ab_CredentialTypeName = ''address_v2'',
      ab_GetAddress = (\<lambda>S creds. case cr_AddressV2 creds of
          None \<Rightarrow> Inl (errmsg ''address_v2 credentials arm is empty'')
        | Some a \<Rightarrow> FormatAddress S (ac_Address a)),
      ab_GetNonce = (\<lambda>creds. case cr_AddressV2 creds of None \<Rightarrow> 0 | Some a \<Rightarrow> ac_Nonce a),
      ab_GetExpiration = (\<lambda>creds. case cr_AddressV2 creds of
          None \<Rightarrow> 0 | Some a \<Rightarrow> ac_SignatureExpirationLedger a),
      ab_GetSignature = (\<lambda>creds. case cr_AddressV2 creds of
          None \<Rightarrow> ScvVoid | Some a \<Rightarrow> ac_Signature a),
      ab_SetSignature = (\<lambda>creds sig. case cr_AddressV2 creds of
          None \<Rightarrow> creds | Some a \<Rightarrow> creds\<lparr>cr_AddressV2 := Some (a\<lparr>ac_Signature := sig\<rparr>)\<rparr>),
      ab_SetExpiration = (\<lambda>creds ex. case cr_AddressV2 creds of
          None \<Rightarrow> creds
        | Some a \<Rightarrow> creds\<lparr>cr_AddressV2 := Some (a\<lparr>ac_SignatureExpirationLedger := ex\<rparr>)\<rparr>),
      ab_HasDelegates = False,
      ab_GetDelegates = (\<lambda>creds. []),
      ab_SetDelegates = (\<lambda>creds ds. creds),
      ab_CanUpgradeToV2 = False,
      ab_UpgradeToV2 = (\<lambda>creds. case cr_AddressV2 creds of
          None \<Rightarrow> Inl (errmsg ''address_v2 credentials arm is empty'')
        | Some a \<Rightarrow> Inr creds),
      ab_ValidateForSigning = (\<lambda>S creds target. case cr_AddressV2 creds of
          None \<Rightarrow> Inl (errmsg ''address_v2 credentials arm is empty'')
        | Some a \<Rightarrow> bindE (FormatAddress S (ac_Address a)) (\<lambda>addr.
            if addr \<noteq> target then Inl (Sentinel ErrNoMatchingCredentialNode) else Inr ()))\<rparr>"

definition delegatesArm :: armBehavior where
  "delegatesArm =
     \<lparr>ab_PreimageVariant = EnvelopeTypeSorobanAuthorizationWithAddress,
      ab_IsAddressBound = True,
      ab_CredentialTypeName = ''address_with_delegates'',
      ab_GetAddress = (\<lambda>S creds. case cr_AddressWithDelegates creds of
          None \<Rightarrow> Inl (errmsg ''address_with_delegates credentials arm is empty'')
        | Some w \<Rightarrow> FormatAddress S (ac_Address (wd_AddressCredentials w))),
      ab_GetNonce = (\<lambda>creds. case cr_AddressWithDelegates creds of
          None \<Rightarrow> 0 | Some w \<Rightarrow> ac_Nonce (wd_AddressCredentials w)),
      ab_GetExpiration = (\<lambda>creds. case cr_AddressWithDelegates creds of
          None \<Rightarrow> 0 | Some w \<Rightarrow> ac_SignatureExpirationLedger (wd_AddressCredentials w)),
      ab_GetSignature = (\<lambda>creds. case cr_AddressWithDelegates creds of
          None \<Rightarrow> ScvVoid | Some w \<Rightarrow> ac_Signature (wd_AddressCredentials w)),
      ab_SetSignature = (\<lambda>creds sig. case cr_AddressWithDelegates creds of
          None \<Rightarrow> creds
        | Some w \<Rightarrow> creds\<lparr>cr_AddressWithDelegates := Some (w\<lparr>wd_AddressCredentials :=
            (wd_AddressCredentials w)\<lparr>ac_Signature := sig\<rparr>\<rparr>)\<rparr>),
      ab_SetExpiration = (\<lambda>creds ex. case cr_AddressWithDelegates creds of
          None \<Rightarrow> creds
        | Some w \<Rightarrow> creds\<lparr>cr_AddressWithDelegates := Some (w\<lparr>wd_AddressCredentials :=
            (wd_AddressCredentials w)\<lparr>ac_SignatureExpirationLedger := ex\<rparr>\<rparr>)\<rparr>),
      ab_HasDelegates = True,
      ab_GetDelegates = (\<lambda>creds. case cr_AddressWithDelegates creds of
          None \<Rightarrow> [] | Some w \<Rightarrow> wd_Delegates w),
      ab_SetDelegates = (\<lambda>creds ds. case cr_AddressWithDelegates creds of
          None \<Rightarrow> creds
        | Some w \<Rightarrow> creds\<lparr>cr_AddressWithDelegates := Some (w\<lparr>wd_Delegates := ds\<rparr>)\<rparr>),
      ab_CanUpgradeToV2 = False,
      ab_UpgradeToV2 = (\<lambda>creds. Inl (Sentinel ErrUnsupportedCredentials)),
      ab_ValidateForSigning = (\<lambda>S creds target. case cr_AddressWithDelegates creds of
          None \<Rightarrow> Inl (errmsg ''address_with_delegates credentials arm is empty'')
        | Some w \<Rightarrow> bindE (FormatAddress S (ac_Address (wd_AddressCredentials w))) (\<lambda>addr.
            if addr \<noteq> target then Inl (Sentinel ErrNoMatchingCredentialNode) else Inr ()))\<rparr>"

section \<open>Choosing the behaviour\<close>

text \<open>\<open>CredentialArm\<close> is a string type; the empty string is the unknown arm.\<close>

definition credentialTypeToArm :: "SorobanCredentialsType \<Rightarrow> string" where
  "credentialTypeToArm t =
     (case t of
        CredentialsSourceAccount \<Rightarrow> ''source_account''
      | CredentialsAddress \<Rightarrow> ''address''
      | CredentialsAddressV2 \<Rightarrow> ''address_v2''
      | CredentialsAddressWithDelegates \<Rightarrow> ''address_with_delegates''
      | CredentialsOther _ \<Rightarrow> '''')"

definition armBehaviors :: "string \<rightharpoonup> armBehavior" where
  "armBehaviors =
     [''source_account'' \<mapsto> sourceAccountArm, ''address'' \<mapsto> legacyAddressArm,
      ''address_v2'' \<mapsto> addressV2Arm, ''address_with_delegates'' \<mapsto> delegatesArm]"

definition GetArmBehavior :: "SorobanCredentials \<Rightarrow> gerr + armBehavior" where
  "GetArmBehavior creds =
     (let arm = credentialTypeToArm (cr_Type creds) in
      if arm = '''' then Inl (Sentinel ErrUnsupportedCredentials)
      else case armBehaviors arm of
          None \<Rightarrow> Inl (Sentinel ErrUnsupportedCredentials)
        | Some behavior \<Rightarrow> Inr behavior)"

definition GetArmBehaviorByName :: "string \<Rightarrow> gerr + armBehavior" where
  "GetArmBehaviorByName armName =
     (case armBehaviors armName of
        None \<Rightarrow> Inl (Sentinel ErrUnsupportedCredentials)
      | Some behavior \<Rightarrow> Inr behavior)"

lemmas arm_defs = sourceAccountArm_def legacyAddressArm_def addressV2Arm_def delegatesArm_def

lemma GetArmBehavior_cases [simp]:
  "cr_Type c = CredentialsSourceAccount \<Longrightarrow> GetArmBehavior c = Inr sourceAccountArm"
  "cr_Type c = CredentialsAddress \<Longrightarrow> GetArmBehavior c = Inr legacyAddressArm"
  "cr_Type c = CredentialsAddressV2 \<Longrightarrow> GetArmBehavior c = Inr addressV2Arm"
  "cr_Type c = CredentialsAddressWithDelegates \<Longrightarrow> GetArmBehavior c = Inr delegatesArm"
  "cr_Type c = CredentialsOther n \<Longrightarrow> GetArmBehavior c = Inl (Sentinel ErrUnsupportedCredentials)"
  by (simp_all add: GetArmBehavior_def credentialTypeToArm_def armBehaviors_def)

section \<open>The contract of an address arm\<close>

text \<open>
  \<open>view\<close> is the address credentials an arm holds. The laws say that the getters read
  that struct and that each setter writes one field of it and nothing else: not the
  discriminant, not the other arms' view, and for the signature and expiration not the
  delegates.
\<close>

locale address_arm =
  fixes B :: armBehavior
    and view :: "SorobanCredentials \<Rightarrow> SorobanAddressCredentials option"
  assumes get_nonce: "view c = Some a \<Longrightarrow> ab_GetNonce B c = ac_Nonce a"
    and get_expiration: "view c = Some a \<Longrightarrow> ab_GetExpiration B c = ac_SignatureExpirationLedger a"
    and get_signature: "view c = Some a \<Longrightarrow> ab_GetSignature B c = ac_Signature a"
    and get_address: "view c = Some a \<Longrightarrow> ab_GetAddress B S c = FormatAddress S (ac_Address a)"
    and set_signature:
      "view (ab_SetSignature B c s) = map_option (\<lambda>a. a\<lparr>ac_Signature := s\<rparr>) (view c)"
    and set_expiration:
      "view (ab_SetExpiration B c x) = map_option (\<lambda>a. a\<lparr>ac_SignatureExpirationLedger := x\<rparr>) (view c)"
    and set_delegates: "view (ab_SetDelegates B c ds) = view c"
    and keeps_type:
      "cr_Type (ab_SetSignature B c s) = cr_Type c"
      "cr_Type (ab_SetExpiration B c x) = cr_Type c"
      "cr_Type (ab_SetDelegates B c ds) = cr_Type c"
    and keeps_delegates:
      "ab_GetDelegates B (ab_SetSignature B c s) = ab_GetDelegates B c"
      "ab_GetDelegates B (ab_SetExpiration B c x) = ab_GetDelegates B c"
    and validate: "view c = Some a \<Longrightarrow>
      isOk (ab_ValidateForSigning B S c t) \<longleftrightarrow> FormatAddress S (ac_Address a) = Inr t"
begin

lemma signature_roundtrip:
  "view c = Some a \<Longrightarrow> ab_GetSignature B (ab_SetSignature B c s) = s"
  by (simp add: set_signature get_signature [of _ "a\<lparr>ac_Signature := s\<rparr>"])

lemma expiration_roundtrip:
  "view c = Some a \<Longrightarrow> ab_GetExpiration B (ab_SetExpiration B c x) = x"
  by (simp add: set_expiration get_expiration [of _ "a\<lparr>ac_SignatureExpirationLedger := x\<rparr>"])

text \<open>
  Writing a signature changes no field the signed payload is built from, and writing the
  expiration changes only the expiration.
\<close>

lemma set_signature_frame:
  assumes "view c = Some a"
  shows "ab_GetNonce B (ab_SetSignature B c s) = ab_GetNonce B c"
    and "ab_GetExpiration B (ab_SetSignature B c s) = ab_GetExpiration B c"
    and "ab_GetAddress B S (ab_SetSignature B c s) = ab_GetAddress B S c"
proof -
  have v: "view (ab_SetSignature B c s) = Some (a\<lparr>ac_Signature := s\<rparr>)"
    using assms by (simp add: set_signature)
  show "ab_GetNonce B (ab_SetSignature B c s) = ab_GetNonce B c"
    using get_nonce [OF v] get_nonce [OF assms] by simp
  show "ab_GetExpiration B (ab_SetSignature B c s) = ab_GetExpiration B c"
    using get_expiration [OF v] get_expiration [OF assms] by simp
  show "ab_GetAddress B S (ab_SetSignature B c s) = ab_GetAddress B S c"
    using get_address [OF v] get_address [OF assms] by simp
qed

lemma set_expiration_frame:
  assumes "view c = Some a"
  shows "ab_GetNonce B (ab_SetExpiration B c x) = ab_GetNonce B c"
    and "ab_GetSignature B (ab_SetExpiration B c x) = ab_GetSignature B c"
    and "ab_GetAddress B S (ab_SetExpiration B c x) = ab_GetAddress B S c"
proof -
  have v: "view (ab_SetExpiration B c x) = Some (a\<lparr>ac_SignatureExpirationLedger := x\<rparr>)"
    using assms by (simp add: set_expiration)
  show "ab_GetNonce B (ab_SetExpiration B c x) = ab_GetNonce B c"
    using get_nonce [OF v] get_nonce [OF assms] by simp
  show "ab_GetSignature B (ab_SetExpiration B c x) = ab_GetSignature B c"
    using get_signature [OF v] get_signature [OF assms] by simp
  show "ab_GetAddress B S (ab_SetExpiration B c x) = ab_GetAddress B S c"
    using get_address [OF v] get_address [OF assms] by simp
qed

end

text \<open>The delegates arm adds a tree that can be read back.\<close>

locale delegating_arm = address_arm +
  assumes delegates_roundtrip:
    "view c = Some a \<Longrightarrow> ab_GetDelegates B (ab_SetDelegates B c ds) = ds"
begin

lemma set_delegates_frame:
  "view c = Some a \<Longrightarrow> ab_GetSignature B (ab_SetDelegates B c ds) = ab_GetSignature B c"
  using get_signature [of c a] get_signature [of "ab_SetDelegates B c ds" a] by (simp add: set_delegates)

end

lemma isOk_bind_eq_target:
  "isOk (bindE m (\<lambda>addr. if addr \<noteq> t then Inl e else Inr ())) \<longleftrightarrow> m = Inr t"
  by (cases m) auto

interpretation legacy: address_arm legacyAddressArm cr_Address
  by unfold_locales
    (auto simp: legacyAddressArm_def isOk_bind_eq_target [simplified] split: option.splits)

interpretation v2: address_arm addressV2Arm cr_AddressV2
  by unfold_locales
    (auto simp: addressV2Arm_def isOk_bind_eq_target [simplified] split: option.splits)

interpretation wrapped: delegating_arm delegatesArm
  "\<lambda>c. map_option wd_AddressCredentials (cr_AddressWithDelegates c)"
  by unfold_locales
    (auto simp: delegatesArm_def isOk_bind_eq_target [simplified] split: option.splits)

section \<open>The accessor and the arms agree\<close>

lemma addressCredentials_Inr_iff:
  "addressCredentials c = Inr a \<longleftrightarrow>
     (cr_Type c = CredentialsAddress \<and> cr_Address c = Some a \<or>
      cr_Type c = CredentialsAddressV2 \<and> cr_AddressV2 c = Some a \<or>
      cr_Type c = CredentialsAddressWithDelegates \<and>
        map_option wd_AddressCredentials (cr_AddressWithDelegates c) = Some a)"
  by (auto simp: addressCredentials_def split: SorobanCredentialsType.splits option.splits)

lemma addressCredentials_update [simp]:
  "addressCredentials (updateAddressCredentials f c) =
     (case addressCredentials c of Inl e \<Rightarrow> Inl e | Inr a \<Rightarrow> Inr (f a))"
  by (auto simp: addressCredentials_def updateAddressCredentials_def
      split: SorobanCredentialsType.splits option.splits)

lemma cr_Type_update [simp]: "cr_Type (updateAddressCredentials f c) = cr_Type c"
  by (auto simp: updateAddressCredentials_def split: SorobanCredentialsType.splits)

end
