(* ===== verification/Preimages.thy ===== *)
theory Preimages
  imports Arms
begin

text \<open>
  The deep copy of \<^verbatim>\<open>src/internal/xdrcopy/copy.go\<close> and the signature preimage of
  \<^verbatim>\<open>src/preimage.go\<close>. In a model without shared memory the copy is the XDR round trip
  and its errors; that the copy equals the original is a hypothesis on the codec
  (\<open>entry_roundtrips\<close>, \<open>preimage_roundtrips\<close>).
\<close>

section \<open>Deep copy\<close>

definition xdrcopy_Copy ::
  "('v \<Rightarrow> gerr + bytes) \<Rightarrow> (bytes \<Rightarrow> gerr + ('v \<times> nat)) \<Rightarrow> 'v \<Rightarrow> gerr + 'v" where
  "xdrcopy_Copy marshal decodeBytes v =
     bindE (wrapE ''soroauth: xdrcopy: marshal'' (marshal v)) (\<lambda>b.
     bindE (wrapE ''soroauth: xdrcopy: unmarshal'' (decodeBytes b)) (\<lambda>(out, n).
       if n \<noteq> length b
       then Inl (errmsg (''soroauth: xdrcopy: unmarshal: consumed '' @ itoa n @ '' of the '' @
              itoa (length b) @ '' encoded bytes''))
       else Inr out))"

abbreviation copyEntry :: "sdk \<Rightarrow> SorobanAuthorizationEntry \<Rightarrow> gerr + SorobanAuthorizationEntry" where
  "copyEntry S \<equiv> xdrcopy_Copy (Entry_MarshalBinary S) (Entry_DecodeBytes S)"

abbreviation copyPreimage :: "sdk \<Rightarrow> HashIdPreimage \<Rightarrow> gerr + HashIdPreimage" where
  "copyPreimage S \<equiv> xdrcopy_Copy (Preimage_MarshalBinary S) (Preimage_DecodeBytes S)"

lemma copyEntry_id: "entry_roundtrips S e \<Longrightarrow> copyEntry S e = Inr e"
  by (auto simp: entry_roundtrips_def xdrcopy_Copy_def)

lemma copyPreimage_id: "preimage_roundtrips S p \<Longrightarrow> copyPreimage S p = Inr p"
  by (auto simp: preimage_roundtrips_def xdrcopy_Copy_def)

lemma xdrcopy_Copy_Inr:
  "xdrcopy_Copy m d v = Inr out \<longleftrightarrow> (\<exists>b. m v = Inr b \<and> d b = Inr (out, length b))"
  by (auto simp: xdrcopy_Copy_def bindE_Inr_iff split: if_splits)

section \<open>Building the preimage\<close>

text \<open>The struct literal, before the copy that detaches it from the caller's entry.\<close>

definition buildPreimage ::
  "sdk \<Rightarrow> SorobanAuthorizationEntry \<Rightarrow> uint32 \<Rightarrow> string \<Rightarrow> gerr + HashIdPreimage" where
  "buildPreimage S entry validUntilLedger networkPassphrase =
     (if networkPassphrase = ''''
      then Inl (errmsg ''soroauth: build preimage: network passphrase is empty'')
      else
        bindE (wrapE ''soroauth: build preimage'' (GetArmBehavior (en_Credentials entry))) (\<lambda>behavior.
        if ab_CredentialTypeName behavior = ''source_account''
        then Inl (errw ''soroauth: build preimage'' (Sentinel ErrSourceAccountCredentials))
        else
          bindE (wrapE ''soroauth: build preimage'' (addressCredentials (en_Credentials entry)))
            (\<lambda>credentials.
          let networkID = network_ID S networkPassphrase in
          case ab_PreimageVariant behavior of
            EnvelopeTypeSorobanAuthorization \<Rightarrow>
              Inr \<lparr>hp_Type = ab_PreimageVariant behavior,
                   hp_SorobanAuthorization = Some
                     \<lparr>pa_NetworkId = networkID,
                      pa_Nonce = ac_Nonce credentials,
                      pa_SignatureExpirationLedger = validUntilLedger,
                      pa_Invocation = en_RootInvocation entry\<rparr>,
                   hp_SorobanAuthorizationWithAddress = None\<rparr>
          | EnvelopeTypeSorobanAuthorizationWithAddress \<Rightarrow>
              bindE (wrapE ''soroauth: build preimage'' (ab_GetAddress behavior S (en_Credentials entry)))
                (\<lambda>_.
              Inr \<lparr>hp_Type = ab_PreimageVariant behavior,
                   hp_SorobanAuthorization = None,
                   hp_SorobanAuthorizationWithAddress = Some
                     \<lparr>pw_NetworkId = networkID,
                      pw_Nonce = ac_Nonce credentials,
                      pw_SignatureExpirationLedger = validUntilLedger,
                      pw_Address = ac_Address credentials,
                      pw_Invocation = en_RootInvocation entry\<rparr>\<rparr>)
          | EnvelopeTypeOther _ \<Rightarrow>
              Inr \<lparr>hp_Type = ab_PreimageVariant behavior,
                   hp_SorobanAuthorization = None,
                   hp_SorobanAuthorizationWithAddress = None\<rparr>)))"

definition Preimage ::
  "sdk \<Rightarrow> SorobanAuthorizationEntry \<Rightarrow> uint32 \<Rightarrow> string \<Rightarrow> gerr + HashIdPreimage" where
  "Preimage S entry validUntilLedger networkPassphrase =
     bindE (buildPreimage S entry validUntilLedger networkPassphrase) (\<lambda>preimage.
       wrapE ''soroauth: build preimage'' (copyPreimage S preimage))"

definition Payload :: "sdk \<Rightarrow> HashIdPreimage \<Rightarrow> gerr + bytes" where
  "Payload S p =
     bindE (wrapE ''soroauth: hash preimage'' (Preimage_MarshalBinary S p)) (\<lambda>encoded.
       Inr (sha256_Sum256 S encoded))"

section \<open>Specification of the preimage\<close>

text \<open>
  The preimage CAP-46-11 and CAP-71-01 prescribe for an arm: the address is signed over for
  every arm but the legacy one.
\<close>

definition specPreimage ::
  "sdk \<Rightarrow> bool \<Rightarrow> SorobanAddressCredentials \<Rightarrow> SorobanAuthorizedInvocation \<Rightarrow> uint32 \<Rightarrow> string \<Rightarrow> HashIdPreimage" where
  "specPreimage S addressBound a ri validUntil net =
     (if addressBound
      then \<lparr>hp_Type = EnvelopeTypeSorobanAuthorizationWithAddress, hp_SorobanAuthorization = None,
            hp_SorobanAuthorizationWithAddress = Some
              \<lparr>pw_NetworkId = network_ID S net, pw_Nonce = ac_Nonce a,
               pw_SignatureExpirationLedger = validUntil, pw_Address = ac_Address a,
               pw_Invocation = ri\<rparr>\<rparr>
      else \<lparr>hp_Type = EnvelopeTypeSorobanAuthorization,
            hp_SorobanAuthorization = Some
              \<lparr>pa_NetworkId = network_ID S net, pa_Nonce = ac_Nonce a,
               pa_SignatureExpirationLedger = validUntil, pa_Invocation = ri\<rparr>,
            hp_SorobanAuthorizationWithAddress = None\<rparr>)"

lemma specPreimage_eq_iff:
  "specPreimage S b a ri v net = specPreimage S b' a' ri' v' net' \<longleftrightarrow>
     b = b' \<and> network_ID S net = network_ID S net' \<and> ac_Nonce a = ac_Nonce a' \<and> v = v' \<and> ri = ri' \<and>
     (b \<longrightarrow> ac_Address a = ac_Address a')"
  by (cases b; cases b') (auto simp: specPreimage_def)

text \<open>Where the code builds a preimage, and which one.\<close>

lemma buildPreimage_Inr_iff:
  "buildPreimage S e v net = Inr p \<longleftrightarrow>
     net \<noteq> '''' \<and>
     (\<exists>a. addressCredentials (en_Credentials e) = Inr a \<and>
        (cr_Type (en_Credentials e) \<noteq> CredentialsAddress \<longrightarrow> isOk (FormatAddress S (ac_Address a))) \<and>
        p = specPreimage S (cr_Type (en_Credentials e) \<noteq> CredentialsAddress) a
              (en_RootInvocation e) v net)"
proof (cases "cr_Type (en_Credentials e)")
  case CredentialsSourceAccount
  then show ?thesis
    by (auto simp: buildPreimage_def sourceAccountArm_def addressCredentials_def)
next
  case CredentialsAddress
  then show ?thesis
    by (auto simp: buildPreimage_def legacyAddressArm_def bindE_Inr_iff specPreimage_def)
next
  case CredentialsAddressV2
  then show ?thesis
    by (auto simp: buildPreimage_def addressV2Arm_def bindE_Inr_iff specPreimage_def
        addressCredentials_Inr_iff isOk_iff split: option.splits)
next
  case CredentialsAddressWithDelegates
  then show ?thesis
    by (auto simp: buildPreimage_def delegatesArm_def bindE_Inr_iff specPreimage_def
        addressCredentials_Inr_iff isOk_iff split: option.splits)
next
  case (CredentialsOther n)
  then show ?thesis
    by (auto simp: buildPreimage_def addressCredentials_def)
qed

lemma Preimage_Inr_build:
  "Preimage S e v net = Inr p \<longleftrightarrow>
     (\<exists>q. buildPreimage S e v net = Inr q \<and> copyPreimage S q = Inr p)"
  by (auto simp: Preimage_def bindE_Inr_iff)

lemma Payload_Inr_iff:
  "Payload S p = Inr h \<longleftrightarrow> (\<exists>b. Preimage_MarshalBinary S p = Inr b \<and> h = sha256_Sum256 S b)"
  by (auto simp: Payload_def bindE_Inr_iff)

text \<open>
  The preimage is a function of the arm, the address, the nonce and the invocation: the
  stored expiration, every signature and the delegate tree are not part of it.
\<close>

lemma buildPreimage_cong:
  assumes "cr_Type (en_Credentials e) = cr_Type (en_Credentials e')"
    and "addressCredentials (en_Credentials e) = Inr a"
    and "addressCredentials (en_Credentials e') = Inr a'"
    and "ac_Address a = ac_Address a'" "ac_Nonce a = ac_Nonce a'"
    and "en_RootInvocation e = en_RootInvocation e'"
  shows "buildPreimage S e v net = buildPreimage S e' v net"
proof (cases "cr_Type (en_Credentials e)")
  case CredentialsSourceAccount
  then show ?thesis using assms by (simp add: addressCredentials_def)
next
  case CredentialsAddress
  then show ?thesis using assms by (simp add: buildPreimage_def legacyAddressArm_def)
next
  case CredentialsAddressV2
  then show ?thesis using assms
    by (auto simp: buildPreimage_def addressV2Arm_def addressCredentials_def split: option.splits)
next
  case CredentialsAddressWithDelegates
  then show ?thesis using assms
    by (auto simp: buildPreimage_def delegatesArm_def addressCredentials_def split: option.splits)
next
  case (CredentialsOther n)
  then show ?thesis using assms by (simp add: addressCredentials_def)
qed

end
