(* ===== verification/Nodes.thy ===== *)
theory Nodes
  imports Walks Preimages
begin

text \<open>
  The credential nodes of an entry (\<open>delegateNodesOf\<close>, \<open>credentialNodes\<close> of
  \<^verbatim>\<open>src/authorize.go\<close>). The Go code returns pointers into the entry and writes
  signatures through them; here a pointer is a path, \<open>[]\<close> for the top-level signature
  and \<open>i # p\<close> for the node reached from delegate \<open>i\<close>, with a read (\<open>derefSig\<close>)
  and a write (\<open>storeSig\<close>).
\<close>

section \<open>Pointers into the delegate tree\<close>

type_synonym sigptr = "nat list"

fun derefDelegate :: "SorobanDelegateSignature list \<Rightarrow> sigptr \<Rightarrow> ScVal option" where
  "derefDelegate ns [] = None"
| "derefDelegate ns (i # p) =
     (if i < length ns
      then if p = [] then Some (ds_Signature (ns ! i))
           else derefDelegate (ds_NestedDelegates (ns ! i)) p
      else None)"

fun storeDelegate ::
  "SorobanDelegateSignature list \<Rightarrow> sigptr \<Rightarrow> ScVal \<Rightarrow> SorobanDelegateSignature list" where
  "storeDelegate ns [] s = ns"
| "storeDelegate ns (i # p) s =
     (if i < length ns
      then ns[i := (if p = []
             then DelegateSignature (ds_Address (ns ! i)) s (ds_NestedDelegates (ns ! i))
             else DelegateSignature (ds_Address (ns ! i)) (ds_Signature (ns ! i))
                    (storeDelegate (ds_NestedDelegates (ns ! i)) p s))]
      else ns)"

definition delegatesOf :: "SorobanAuthorizationEntry \<Rightarrow> SorobanDelegateSignature list" where
  "delegatesOf e =
     (if cr_Type (en_Credentials e) = CredentialsAddressWithDelegates
      then case cr_AddressWithDelegates (en_Credentials e) of None \<Rightarrow> [] | Some w \<Rightarrow> wd_Delegates w
      else [])"

definition setDelegatesOf ::
  "SorobanDelegateSignature list \<Rightarrow> SorobanAuthorizationEntry \<Rightarrow> SorobanAuthorizationEntry" where
  "setDelegatesOf ds e =
     e\<lparr>en_Credentials := (en_Credentials e)\<lparr>cr_AddressWithDelegates :=
         map_option (wd_Delegates_update (\<lambda>_. ds)) (cr_AddressWithDelegates (en_Credentials e))\<rparr>\<rparr>"

definition derefSig :: "SorobanAuthorizationEntry \<Rightarrow> sigptr \<Rightarrow> ScVal option" where
  "derefSig e p =
     (if p = []
      then case addressCredentials (en_Credentials e) of Inl _ \<Rightarrow> None | Inr a \<Rightarrow> Some (ac_Signature a)
      else derefDelegate (delegatesOf e) p)"

definition storeSig :: "ScVal \<Rightarrow> sigptr \<Rightarrow> SorobanAuthorizationEntry \<Rightarrow> SorobanAuthorizationEntry" where
  "storeSig s p e =
     (if p = []
      then e\<lparr>en_Credentials :=
               updateAddressCredentials (ac_Signature_update (\<lambda>_. s)) (en_Credentials e)\<rparr>
      else setDelegatesOf (storeDelegate (delegatesOf e) p s) e)"

section \<open>Collecting the nodes\<close>

record credentialNode =
  cn_encoded :: bytes
  cn_signature :: sigptr

text \<open>
  \<open>delegateNodesLoop\<close> is the \<open>for i := range nodes\<close> loop of \<open>delegateNodesOf\<close>;
  the pointers of a nested call are relative to the nested slice and are prefixed with the
  index of the node that holds it.
\<close>

function (sequential) delegateNodesOf ::
    "sdk \<Rightarrow> SorobanDelegateSignature list \<Rightarrow> nat \<Rightarrow> gerr + credentialNode list"
  and delegateNodesLoop ::
    "sdk \<Rightarrow> SorobanDelegateSignature list \<Rightarrow> nat \<Rightarrow> nat \<Rightarrow> gerr + credentialNode list" where
  "delegateNodesOf S nodes depth =
     bindE (checkTraversalDepth depth) (\<lambda>_. delegateNodesLoop S nodes depth 0)"
| "delegateNodesLoop S [] depth i = Inr []"
| "delegateNodesLoop S (n # ns) depth i =
     bindE (addressBytes S (ds_Address n)) (\<lambda>encoded.
     bindE (delegateNodesOf S (ds_NestedDelegates n) (depth + 1)) (\<lambda>nested.
     bindE (delegateNodesLoop S ns depth (i + 1)) (\<lambda>out.
       Inr (\<lparr>cn_encoded = encoded, cn_signature = [i]\<rparr>
            # map (cn_signature_update (Cons i)) nested @ out))))"
  by pat_completeness auto
termination
  by (relation "measure (case_sum (\<lambda>(S, nodes, d). 2 * size_list size nodes + 1)
                            (\<lambda>(S, nodes, d, i). 2 * size_list size nodes))")
    (auto simp: size_NestedDelegates_double)

declare delegateNodesOf.simps [simp del]

definition credentialNodes ::
  "sdk \<Rightarrow> SorobanAuthorizationEntry \<Rightarrow> gerr + credentialNode list" where
  "credentialNodes S entry =
     bindE (addressCredentials (en_Credentials entry)) (\<lambda>credentials.
     bindE (addressBytes S (ac_Address credentials)) (\<lambda>topLevel.
     let nodes = [\<lparr>cn_encoded = topLevel, cn_signature = []\<rparr>] in
     if cr_Type (en_Credentials entry) = CredentialsAddressWithDelegates
     then bindE (delegateNodesOf S (delegatesOf entry) 1) (\<lambda>delegates. Inr (nodes @ delegates))
     else Inr nodes))"

section \<open>Specification: the nodes of a tree in preorder\<close>

text \<open>
  \<open>nodePaths\<close> lists the nodes of a delegates array with their pointers, each node
  before the ones nested under it and a subtree before the next sibling.
\<close>

fun nodePaths :: "nat \<Rightarrow> SorobanDelegateSignature list \<Rightarrow> (sigptr \<times> SorobanDelegateSignature) list" where
  "nodePaths i [] = []"
| "nodePaths i (n # ns) =
     ([i], n) # map (apfst (Cons i)) (nodePaths 0 (ds_NestedDelegates n)) @ nodePaths (Suc i) ns"

definition nodeMatches :: "sdk \<Rightarrow> sigptr \<times> SorobanDelegateSignature \<Rightarrow> credentialNode \<Rightarrow> bool" where
  "nodeMatches S pn c \<longleftrightarrow>
     cn_signature c = fst pn \<and> ScAddress_MarshalBinary S (ds_Address (snd pn)) = Inr (cn_encoded c)"

lemma nodeMatches_prefix:
  "list_all2 (nodeMatches S) pns cs \<Longrightarrow>
   list_all2 (nodeMatches S) (map (apfst (Cons i)) pns) (map (cn_signature_update (Cons i)) cs)"
  by (auto simp: list_all2_conv_all_nth nodeMatches_def)

lemma delegateNodes_preorder:
  "delegateNodesOf S nodes depth = Inr out \<Longrightarrow> list_all2 (nodeMatches S) (nodePaths 0 nodes) out"
  "delegateNodesLoop S nodes depth i = Inr out \<Longrightarrow> list_all2 (nodeMatches S) (nodePaths i nodes) out"
proof (induction S nodes depth and S nodes depth i arbitrary: out and out
    rule: delegateNodesOf_delegateNodesLoop.induct)
  case (1 S nodes depth)
  then show ?case by (auto simp: bindE_Inr_iff delegateNodesOf.simps)
next
  case (2 S depth i)
  then show ?case by simp
next
  case (3 S n ns depth i)
  then obtain enc nested rest where
    enc: "ScAddress_MarshalBinary S (ds_Address n) = Inr enc"
    and nested: "delegateNodesOf S (ds_NestedDelegates n) (depth + 1) = Inr nested"
    and rest: "delegateNodesLoop S ns depth (i + 1) = Inr rest"
    and out: "out = \<lparr>cn_encoded = enc, cn_signature = [i]\<rparr>
                 # map (cn_signature_update (Cons i)) nested @ rest"
    by (auto simp: bindE_Inr_iff)
  have "list_all2 (nodeMatches S) (nodePaths 0 (ds_NestedDelegates n)) nested"
    using 3(1) enc nested by simp
  then have "list_all2 (nodeMatches S) (map (apfst (Cons i)) (nodePaths 0 (ds_NestedDelegates n)))
       (map (cn_signature_update (Cons i)) nested)"
    by (rule nodeMatches_prefix)
  moreover have "list_all2 (nodeMatches S) (nodePaths (Suc i) ns) rest"
    using 3(2) [OF _ nested] enc rest by simp
  moreover have "nodeMatches S ([i], n) \<lparr>cn_encoded = enc, cn_signature = [i]\<rparr>"
    using enc by (simp add: nodeMatches_def)
  ultimately show ?case
    by (simp add: out list_all2_appendI)
qed

section \<open>Which trees the walk accepts\<close>

definition encodableLevel :: "sdk \<Rightarrow> SorobanDelegateSignature list \<Rightarrow> bool" where
  "encodableLevel S ns \<longleftrightarrow> (\<forall>n \<in> set ns. isOk (ScAddress_MarshalBinary S (ds_Address n)))"

lemma isOk_addressBytes [simp]: "isOk (addressBytes S a) = isOk (ScAddress_MarshalBinary S a)"
  by (simp add: addressBytes_def)

lemma isOk_delegateNodesLoop:
  "isOk (delegateNodesLoop S nodes depth i) \<longleftrightarrow>
     encodableLevel S nodes \<and>
     (\<forall>n \<in> set nodes. isOk (delegateNodesOf S (ds_NestedDelegates n) (Suc depth)))"
proof (induction nodes arbitrary: i)
  case Nil
  then show ?case by (simp add: encodableLevel_def)
next
  case (Cons n ns)
  have "isOk (delegateNodesLoop S (n # ns) depth i) \<longleftrightarrow>
      isOk (ScAddress_MarshalBinary S (ds_Address n)) \<and>
      isOk (delegateNodesOf S (ds_NestedDelegates n) (Suc depth)) \<and>
      isOk (delegateNodesLoop S ns depth (Suc i))"
    by (auto simp: isOk_iff bindE_Inr_iff)
  then show ?case
    using Cons.IH [of "Suc i"] by (auto simp: encodableLevel_def)
qed

interpretation nodes_walk: bounded_walk ds_NestedDelegates "encodableLevel S" "delegateNodesOf S" for S
proof
  fix ts d
  show "isOk (delegateNodesOf S ts d) \<longleftrightarrow> d \<le> MaxDecodeDepth \<and> encodableLevel S ts \<and>
     (\<forall>t \<in> set ts. isOk (delegateNodesOf S (ds_NestedDelegates t) (Suc d)))"
    unfolding delegateNodesOf.simps(1) [of S ts d]
    by (auto simp: isOk_bindE isOk_delegateNodesLoop)
next
  fix d :: nat and ts
  assume "d > MaxDecodeDepth"
  then show "failsWith (delegateNodesOf S ts d) ErrDecodeLimit"
    by (simp add: checkTraversalDepth_def delegateNodesOf.simps)
qed

section \<open>Writing through every matching pointer\<close>

text \<open>The tree with a signature on every node that satisfies a predicate.\<close>

fun fillDelegates ::
  "(SorobanDelegateSignature \<Rightarrow> bool) \<Rightarrow> ScVal \<Rightarrow> SorobanDelegateSignature list \<Rightarrow> SorobanDelegateSignature list" where
  "fillDelegates Q s [] = []"
| "fillDelegates Q s (n # ns) =
     DelegateSignature (ds_Address n) (if Q n then s else ds_Signature n)
       (fillDelegates Q s (ds_NestedDelegates n))
     # fillDelegates Q s ns"

abbreviation storeAll ::
  "ScVal \<Rightarrow> sigptr list \<Rightarrow> SorobanDelegateSignature list \<Rightarrow> SorobanDelegateSignature list" where
  "storeAll s ps ns \<equiv> fold (\<lambda>p ns. storeDelegate ns p s) ps ns"

lemma nodePaths_nonempty: "(p, n) \<in> set (nodePaths i ns) \<Longrightarrow> p \<noteq> []"
  by (induction i ns rule: nodePaths.induct) auto

lemma storeDelegate_nested:
  "p \<noteq> [] \<Longrightarrow>
   storeDelegate (pre @ n # ns) (length pre # p) s =
     pre @ DelegateSignature (ds_Address n) (ds_Signature n) (storeDelegate (ds_NestedDelegates n) p s) # ns"
  by simp

lemma storeAll_nested:
  "(\<forall>p \<in> set ps. p \<noteq> []) \<Longrightarrow>
   storeAll s (map (Cons (length pre)) ps) (pre @ n # ns) =
     pre @ DelegateSignature (ds_Address n) (ds_Signature n) (storeAll s ps (ds_NestedDelegates n)) # ns"
  by (induction ps arbitrary: n) (auto simp: storeDelegate_nested simp del: storeDelegate.simps)

abbreviation matchingPtrs ::
  "(SorobanDelegateSignature \<Rightarrow> bool) \<Rightarrow> nat \<Rightarrow> SorobanDelegateSignature list \<Rightarrow> sigptr list" where
  "matchingPtrs Q i ns \<equiv> map fst (filter (\<lambda>pn. Q (snd pn)) (nodePaths i ns))"

lemma matchingPtrs_Cons:
  "matchingPtrs Q i (n # ns) =
     (if Q n then [[i]] else []) @ map (Cons i) (matchingPtrs Q 0 (ds_NestedDelegates n))
     @ matchingPtrs Q (Suc i) ns"
  by (simp add: filter_map comp_def)

text \<open>
  Writing one value through the pointers of the nodes that satisfy \<open>Q\<close> fills exactly
  those nodes: the pointers do not interfere, although nested ones go through their parents.
\<close>

lemma storeAll_matchingPtrs:
  "storeAll s (matchingPtrs Q (length pre) ns) (pre @ ns) = pre @ fillDelegates Q s ns"
proof (induction Q s ns arbitrary: pre rule: fillDelegates.induct)
  case (1 Q s)
  then show ?case by simp
next
  case (2 Q s n ns)
  let ?n' = "DelegateSignature (ds_Address n) (if Q n then s else ds_Signature n) (ds_NestedDelegates n)"
  let ?m = "DelegateSignature (ds_Address n) (if Q n then s else ds_Signature n)
              (fillDelegates Q s (ds_NestedDelegates n))"
  have head: "storeAll s (if Q n then [[length pre]] else []) (pre @ n # ns) = pre @ ?n' # ns"
    by (cases n) simp
  have "storeAll s (map (Cons (length pre)) (matchingPtrs Q 0 (ds_NestedDelegates n))) (pre @ ?n' # ns)
      = pre @ ?m # ns"
    using "2.IH"(1) [of "[]"] nodePaths_nonempty
    by (subst storeAll_nested) auto
  moreover have "storeAll s (matchingPtrs Q (Suc (length pre)) ns) (pre @ ?m # ns)
      = pre @ ?m # fillDelegates Q s ns"
    using "2.IH"(2) [of "pre @ [?m]"] by simp
  ultimately show ?case
    unfolding matchingPtrs_Cons fold_append comp_def head by simp
qed

section \<open>Reading a filled tree\<close>

lemma derefDelegate_skip:
  "derefDelegate (pre @ ns) (length pre # p) = derefDelegate ns (0 # p)"
  by (cases ns) auto

lemma derefDelegate_fill:
  "(p, n) \<in> set (nodePaths i ns) \<Longrightarrow> length pre = i \<Longrightarrow>
   derefDelegate (pre @ fillDelegates Q s ns) p = Some (if Q n then s else ds_Signature n)"
proof (induction i ns arbitrary: p n pre rule: nodePaths.induct)
  case (1 i)
  then show ?case by simp
next
  case (2 i m ns)
  let ?f = "fillDelegates Q s"
  let ?m' = "DelegateSignature (ds_Address m) (if Q m then s else ds_Signature m) (?f (ds_NestedDelegates m))"
  consider "p = [i]" "n = m"
    | q where "p = i # q" "(q, n) \<in> set (nodePaths 0 (ds_NestedDelegates m))"
    | "(p, n) \<in> set (nodePaths (Suc i) ns)"
    using "2.prems"(1) by (auto simp: apfst_def map_prod_def)
  then show ?case
  proof cases
    case 1
    then show ?thesis using "2.prems"(2) by auto
  next
    case (2 q)
    then have "derefDelegate ([] @ ?f (ds_NestedDelegates m)) q = Some (if Q n then s else ds_Signature n)"
      using "2.IH"(1) by auto
    moreover have "q \<noteq> []" using 2 nodePaths_nonempty by auto
    ultimately show ?thesis using 2 "2.prems"(2) by auto
  next
    case 3
    then show ?thesis using "2.IH"(2) [of p n "pre @ [?m']"] "2.prems"(2) by simp
  qed
qed

lemma fillDelegates_none [simp]: "fillDelegates (\<lambda>_. False) s ns = ns"
  by (induction "\<lambda>_::SorobanDelegateSignature. False" s ns rule: fillDelegates.induct) simp_all

lemma derefDelegate_node: "(p, n) \<in> set (nodePaths 0 ns) \<Longrightarrow> derefDelegate ns p = Some (ds_Signature n)"
  using derefDelegate_fill [of p n 0 ns "[]" "\<lambda>_. False"] by simp

text \<open>Filling signatures keeps the shape and the addresses, so the nodes are the same.\<close>

lemma delegateNodes_fill:
  "delegateNodesOf S (fillDelegates Q s nodes) depth = delegateNodesOf S nodes depth"
  "delegateNodesLoop S (fillDelegates Q s nodes) depth i = delegateNodesLoop S nodes depth i"
proof (induction S nodes depth and S nodes depth i rule: delegateNodesOf_delegateNodesLoop.induct)
  case (1 S nodes depth)
  then show ?case
    by (cases "checkTraversalDepth depth") (simp_all add: delegateNodesOf.simps)
next
  case (2 S depth i)
  then show ?case by simp
next
  case (3 S n ns depth i)
  then show ?case
    by (cases "addressBytes S (ds_Address n)";
        cases "delegateNodesOf S (ds_NestedDelegates n) (depth + 1)") simp_all
qed

end
