(* ===== verification/Delegates.thy ===== *)
theory Delegates
  imports Nodes "HOL-Library.Multiset"
begin

text \<open>
  The delegate trees of CAP-71-01 (\<^verbatim>\<open>src/delegates.go\<close>): building a tree from
  descriptors (\<open>buildDelegateNodes\<close>), wrapping an entry in the delegates arm
  (\<open>WithDelegates\<close>) and checking the ordering rule (\<open>ValidateDelegateOrder\<close>).
\<close>

section \<open>Descriptors and built nodes\<close>

datatype Delegate =
  Delegate (dg_Address: string) (dg_Signature: "ScVal option") (dg_Nested: "Delegate list")

record delegateNode =
  dn_node :: SorobanDelegateSignature
  dn_encoded :: bytes

lemma size_Nested: "size_list size (dg_Nested d) < size d"
  by (cases d) simp

lemma size_Nested_Suc [termination_simp]: "size_list size (dg_Nested d) < Suc (size d + k)"
  using size_Nested [of d] by simp

lemma size_Nested_double: "2 * size_list size (dg_Nested d) < Suc (2 * size d + k)"
  using size_Nested [of d] by simp

section \<open>Sorting one level\<close>

text \<open>The loop over adjacent pairs after the sort.\<close>

fun checkAdjacent :: "sdk \<Rightarrow> delegateNode list \<Rightarrow> gerr + unit" where
  "checkAdjacent S (a # b # rest) =
     (if dn_encoded a = dn_encoded b
      then let address = formatOrPlaceholder S (ds_Address (dn_node b))
           in Inl (errw address (DuplicateDelegateError address))
      else checkAdjacent S (b # rest))"
| "checkAdjacent S nodes = Inr ()"

text \<open>
  \<open>sort.Slice\<close> is not stable; the code returns the sorted array only when all keys
  differ, and then every sorting algorithm gives the same array.
\<close>

definition sortDelegateLevel :: "sdk \<Rightarrow> delegateNode list \<Rightarrow> gerr + delegateNode list" where
  "sortDelegateLevel S nodes =
     (let sorted = sort_key dn_encoded nodes in
      bindE (checkAdjacent S sorted) (\<lambda>_. Inr sorted))"

section \<open>Building a tree\<close>

function (sequential) buildDelegateNodes ::
    "sdk \<Rightarrow> Delegate list \<Rightarrow> nat \<Rightarrow> gerr + SorobanDelegateSignature list"
  and buildDelegateLoop :: "sdk \<Rightarrow> Delegate list \<Rightarrow> nat \<Rightarrow> gerr + delegateNode list" where
  "buildDelegateNodes S delegates depth =
     bindE (checkTraversalDepth depth) (\<lambda>_.
     if delegates = [] then Inr []
     else
       bindE (buildDelegateLoop S delegates depth) (\<lambda>built.
       bindE (sortDelegateLevel S built) (\<lambda>sorted.
         Inr (map dn_node sorted))))"
| "buildDelegateLoop S [] depth = Inr []"
| "buildDelegateLoop S (delegate # rest) depth =
     bindE (ParseAddress S (dg_Address delegate)) (\<lambda>address.
     bindE (addressBytes S address) (\<lambda>encoded.
     let signature = (case dg_Signature delegate of None \<Rightarrow> ScvVoid | Some s \<Rightarrow> s) in
     bindE (buildDelegateNodes S (dg_Nested delegate) (depth + 1)) (\<lambda>nested.
     bindE (buildDelegateLoop S rest depth) (\<lambda>built.
       Inr (\<lparr>dn_node = DelegateSignature address signature nested, dn_encoded = encoded\<rparr> # built)))))"
  by pat_completeness auto
termination
  by (relation "measure (case_sum (\<lambda>(S, ds, d). 2 * size_list size ds + 1)
                            (\<lambda>(S, ds, d). 2 * size_list size ds))")
    (auto simp: size_Nested_double)

declare buildDelegateNodes.simps [simp del]

section \<open>Wrapping an entry\<close>

definition WithDelegates ::
  "sdk \<Rightarrow> SorobanAuthorizationEntry \<Rightarrow> uint32 \<Rightarrow> Delegate list \<Rightarrow> ScVal option
     \<Rightarrow> gerr + SorobanAuthorizationEntry" where
  "WithDelegates S entry validUntilLedger delegates topSignature =
     bindE (case cr_Type (en_Credentials entry) of
              CredentialsAddress \<Rightarrow> Inr ()
            | CredentialsAddressV2 \<Rightarrow> Inr ()
            | CredentialsSourceAccount \<Rightarrow>
                Inl (errw ''soroauth: with delegates: source-account credentials carry no address to wrap''
                       (Sentinel ErrUnsupportedCredentials))
            | CredentialsAddressWithDelegates \<Rightarrow>
                Inl (errw ''soroauth: with delegates: the entry already uses the delegates arm''
                       (Sentinel ErrUnsupportedCredentials))
            | CredentialsOther _ \<Rightarrow>
                Inl (errw ''soroauth: with delegates'' (Sentinel ErrUnsupportedCredentials))) (\<lambda>_.
     bindE (wrapE ''soroauth: with delegates'' (addressCredentials (en_Credentials entry))) (\<lambda>credentials.
     if validUntilLedger = 0
     then Inl (errw ''soroauth: with delegates: expiration ledger is zero'' (Sentinel ErrInvalidExpiration))
     else if isSigned (ac_Signature credentials)
     then Inl (errw ''soroauth: with delegates: wrapping changes the signing payload, invalidating the existing signature''
                 (Sentinel ErrAlreadySigned))
     else
       bindE (wrapE ''soroauth: with delegates'' (buildDelegateNodes S delegates 1)) (\<lambda>nodes.
       let signature = (case topSignature of None \<Rightarrow> ScvVoid | Some s \<Rightarrow> s);
           wrapped =
             \<lparr>en_Credentials =
                \<lparr>cr_Type = CredentialsAddressWithDelegates, cr_Address = None, cr_AddressV2 = None,
                 cr_AddressWithDelegates = Some
                   \<lparr>wd_AddressCredentials =
                      \<lparr>ac_Address = ac_Address credentials, ac_Nonce = ac_Nonce credentials,
                       ac_SignatureExpirationLedger = validUntilLedger, ac_Signature = signature\<rparr>,
                    wd_Delegates = nodes\<rparr>\<rparr>,
              en_RootInvocation = en_RootInvocation entry\<rparr>
       in wrapE ''soroauth: with delegates'' (copyEntry S wrapped))))"

section \<open>Checking the order\<close>

definition compareWithPrevious :: "sdk \<Rightarrow> bytes option \<Rightarrow> bytes \<Rightarrow> nat \<Rightarrow> ScAddress \<Rightarrow> gerr + unit" where
  "compareWithPrevious S previous current i a =
     (case previous of
        None \<Rightarrow> Inr ()
      | Some p \<Rightarrow>
          let address = formatOrPlaceholder S a in
          if p = current then Inl (errw address (DuplicateDelegateError address))
          else if p > current
          then Inl (errmsg (''delegates are not in ascending address order at index '' @ itoa i @
                  '' ('' @ address @ '')''))
          else Inr ())"

function (sequential) validateDelegateLevel ::
    "sdk \<Rightarrow> SorobanDelegateSignature list \<Rightarrow> nat \<Rightarrow> gerr + unit"
  and validateDelegateLoop ::
    "sdk \<Rightarrow> SorobanDelegateSignature list \<Rightarrow> nat \<Rightarrow> nat \<Rightarrow> bytes option \<Rightarrow> gerr + unit" where
  "validateDelegateLevel S nodes depth =
     bindE (checkTraversalDepth depth) (\<lambda>_. validateDelegateLoop S nodes depth 0 None)"
| "validateDelegateLoop S [] depth i previous = Inr ()"
| "validateDelegateLoop S (n # ns) depth i previous =
     bindE (addressBytes S (ds_Address n)) (\<lambda>current.
     bindE (compareWithPrevious S previous current i (ds_Address n)) (\<lambda>_.
     bindE (validateDelegateLevel S (ds_NestedDelegates n) (depth + 1)) (\<lambda>_.
       validateDelegateLoop S ns depth (i + 1) (Some current))))"
  by pat_completeness auto
termination
  by (relation "measure (case_sum (\<lambda>(S, ns, d). 2 * size_list size ns + 1)
                            (\<lambda>(S, ns, d, i, p). 2 * size_list size ns))")
    (auto simp: size_NestedDelegates_double)

declare validateDelegateLevel.simps [simp del]

definition ValidateDelegateOrder :: "sdk \<Rightarrow> SorobanAuthorizationEntry \<Rightarrow> gerr + unit" where
  "ValidateDelegateOrder S entry =
     (if cr_Type (en_Credentials entry) \<noteq> CredentialsAddressWithDelegates
      then Inl (errw ''soroauth: validate delegate order'' (Sentinel ErrUnsupportedCredentials))
      else case cr_AddressWithDelegates (en_Credentials entry) of
          None \<Rightarrow> Inl (errmsg ''soroauth: validate delegate order: address_with_delegates credentials arm is empty'')
        | Some w \<Rightarrow> wrapE ''soroauth: validate delegate order'' (validateDelegateLevel S (wd_Delegates w) 1))"

section \<open>One level: sorted and free of duplicates\<close>

lemma checkAdjacent_ok_iff:
  "isOk (checkAdjacent S nodes) \<longleftrightarrow>
     (\<forall>i. Suc i < length nodes \<longrightarrow> dn_encoded (nodes ! i) \<noteq> dn_encoded (nodes ! Suc i))"
proof (induction S nodes rule: checkAdjacent.induct)
  case (1 S a b rest)
  have "(\<forall>i. Suc i < length (a # b # rest) \<longrightarrow>
            dn_encoded ((a # b # rest) ! i) \<noteq> dn_encoded ((a # b # rest) ! Suc i)) \<longleftrightarrow>
        dn_encoded a \<noteq> dn_encoded b \<and>
        (\<forall>i. Suc i < length (b # rest) \<longrightarrow>
            dn_encoded ((b # rest) ! i) \<noteq> dn_encoded ((b # rest) ! Suc i))"
    by (auto simp: All_less_Suc2 nth_Cons split: nat.splits)
  then show ?case using 1 by (auto simp: Let_def)
qed (auto simp: less_Suc_eq_0_disj)

lemma checkAdjacent_duplicate: "\<not> isOk (checkAdjacent S nodes) \<Longrightarrow> failsWith (checkAdjacent S nodes) ErrDuplicateDelegate"
  by (induction S nodes rule: checkAdjacent.induct) (auto simp: Let_def)

lemma checkAdjacent_sorted:
  "sorted (map dn_encoded nodes) \<Longrightarrow> isOk (checkAdjacent S nodes) \<longleftrightarrow> distinct (map dn_encoded nodes)"
  unfolding checkAdjacent_ok_iff
  by (subst sorted_adjacent_distinct) auto

lemma distinct_map_sort_key: "distinct (map f (sort_key f xs)) \<longleftrightarrow> distinct (map f xs)"
  by (metis distinct_map distinct_sort set_sort)

lemma sortDelegateLevel_Inr_iff:
  "sortDelegateLevel S nodes = Inr out \<longleftrightarrow>
     distinct (map dn_encoded nodes) \<and> out = sort_key dn_encoded nodes"
proof -
  have "isOk (checkAdjacent S (sort_key dn_encoded nodes)) \<longleftrightarrow> distinct (map dn_encoded nodes)"
    using checkAdjacent_sorted [of "sort_key dn_encoded nodes" S]
    by (simp add: distinct_map_sort_key)
  then show ?thesis
    by (auto simp: sortDelegateLevel_def bindE_Inr_iff isOk_iff Let_def)
qed

lemma sortDelegateLevel_duplicate:
  "\<not> distinct (map dn_encoded nodes) \<Longrightarrow> failsWith (sortDelegateLevel S nodes) ErrDuplicateDelegate"
proof -
  assume "\<not> distinct (map dn_encoded nodes)"
  then have "\<not> isOk (checkAdjacent S (sort_key dn_encoded nodes))"
    using checkAdjacent_sorted [of "sort_key dn_encoded nodes" S] by (simp add: distinct_map_sort_key)
  from this checkAdjacent_duplicate [OF this] show ?thesis
    by (cases "checkAdjacent S (sort_key dn_encoded nodes)") (auto simp: sortDelegateLevel_def)
qed

section \<open>Which trees pass validation\<close>

text \<open>CAP-71-01's rule for one delegates array: strictly increasing encoded addresses.\<close>

definition encodings :: "sdk \<Rightarrow> SorobanDelegateSignature list \<Rightarrow> gerr + bytes list" where
  "encodings S ns = mapE (\<lambda>n. ScAddress_MarshalBinary S (ds_Address n)) ns"

definition orderedLevel :: "sdk \<Rightarrow> SorobanDelegateSignature list \<Rightarrow> bool" where
  "orderedLevel S ns \<longleftrightarrow> (\<exists>ks. encodings S ns = Inr ks \<and> sorted_wrt (<) ks)"

lemma encodings_Cons_Inr_iff:
  "encodings S (n # ns) = Inr ks \<longleftrightarrow>
     (\<exists>k ks'. ks = k # ks' \<and> ScAddress_MarshalBinary S (ds_Address n) = Inr k \<and> encodings S ns = Inr ks')"
  by (auto simp: encodings_def bindE_Inr_iff)

lemma compareWithPrevious_ok_iff:
  "isOk (compareWithPrevious S prev cur i a) \<longleftrightarrow> (\<forall>p. prev = Some p \<longrightarrow> p < cur)"
  by (cases prev) (auto simp: compareWithPrevious_def Let_def)

lemma isOk_validateDelegateLoop:
  "isOk (validateDelegateLoop S ns depth i prev) \<longleftrightarrow>
     (\<exists>ks. encodings S ns = Inr ks \<and> sorted_wrt (<) (case prev of None \<Rightarrow> ks | Some p \<Rightarrow> p # ks)) \<and>
     (\<forall>n \<in> set ns. isOk (validateDelegateLevel S (ds_NestedDelegates n) (Suc depth)))"
proof (induction ns arbitrary: i prev)
  case Nil
  then show ?case by (cases prev) (auto simp: encodings_def)
next
  case (Cons n ns)
  have step: "isOk (validateDelegateLoop S (n # ns) depth i prev) \<longleftrightarrow>
     (\<exists>k. ScAddress_MarshalBinary S (ds_Address n) = Inr k \<and> (\<forall>p. prev = Some p \<longrightarrow> p < k) \<and>
        isOk (validateDelegateLevel S (ds_NestedDelegates n) (Suc depth)) \<and>
        isOk (validateDelegateLoop S ns depth (Suc i) (Some k)))"
    by (simp add: isOk_bindE isOk_iff [symmetric] ex_simps(1) [symmetric] del: ex_simps)
      (auto simp: compareWithPrevious_ok_iff [of S prev _ i "ds_Address n", symmetric] isOk_iff)
  have "sorted_wrt (<) (case prev of None \<Rightarrow> k # ks | Some p \<Rightarrow> p # k # ks) \<longleftrightarrow>
      (\<forall>p. prev = Some p \<longrightarrow> p < k) \<and> sorted_wrt (<) (k # ks)" for k :: bytes and ks
    by (cases prev) (auto intro: less_trans)
  then show ?case
    unfolding step encodings_Cons_Inr_iff Cons.IH by auto
qed

interpretation validate_walk: bounded_walk ds_NestedDelegates "orderedLevel S" "validateDelegateLevel S" for S
proof
  fix ts d
  show "isOk (validateDelegateLevel S ts d) \<longleftrightarrow> d \<le> MaxDecodeDepth \<and> orderedLevel S ts \<and>
     (\<forall>t \<in> set ts. isOk (validateDelegateLevel S (ds_NestedDelegates t) (Suc d)))"
    unfolding validateDelegateLevel.simps(1) [of S ts d]
    by (auto simp: isOk_bindE isOk_validateDelegateLoop orderedLevel_def)
next
  fix d :: nat and ts
  assume "d > MaxDecodeDepth"
  then show "failsWith (validateDelegateLevel S ts d) ErrDecodeLimit"
    by (simp add: checkTraversalDepth_def validateDelegateLevel.simps)
qed

lemma ValidateDelegateOrder_ok_iff:
  "isOk (ValidateDelegateOrder S e) \<longleftrightarrow>
     cr_Type (en_Credentials e) = CredentialsAddressWithDelegates \<and>
     cr_AddressWithDelegates (en_Credentials e) \<noteq> None \<and>
     fits ds_NestedDelegates (orderedLevel S) 63 (delegatesOf e)"
  by (auto simp: ValidateDelegateOrder_def delegatesOf_def validate_walk.walk_ok_top split: option.splits)

section \<open>Which descriptors can be built\<close>

definition descriptorKey :: "sdk \<Rightarrow> Delegate \<Rightarrow> gerr + bytes" where
  "descriptorKey S d = addressBytesFromStr S (dg_Address d)"

text \<open>A level can be built when its addresses parse, encode and differ.\<close>

definition buildableLevel :: "sdk \<Rightarrow> Delegate list \<Rightarrow> bool" where
  "buildableLevel S ds \<longleftrightarrow> (\<exists>ks. mapE (descriptorKey S) ds = Inr ks \<and> distinct ks)"

lemma buildDelegateLoop_Cons_Inr_iff:
  "buildDelegateLoop S (d # ds) depth = Inr out \<longleftrightarrow>
     (\<exists>a k nested rest. ParseAddress S (dg_Address d) = Inr a \<and> ScAddress_MarshalBinary S a = Inr k \<and>
        buildDelegateNodes S (dg_Nested d) (Suc depth) = Inr nested \<and>
        buildDelegateLoop S ds depth = Inr rest \<and>
        out = \<lparr>dn_node = DelegateSignature a (case dg_Signature d of None \<Rightarrow> ScvVoid | Some s \<Rightarrow> s) nested,
               dn_encoded = k\<rparr> # rest)"
  by (auto simp: bindE_Inr_iff Let_def)

text \<open>What the loop builds, element by element.\<close>

lemma buildDelegateLoop_elements:
  "buildDelegateLoop S ds depth = Inr out \<Longrightarrow>
   list_all2 (\<lambda>d b.
      descriptorKey S d = Inr (dn_encoded b) \<and>
      ScAddress_MarshalBinary S (ds_Address (dn_node b)) = Inr (dn_encoded b) \<and>
      ds_Signature (dn_node b) = (case dg_Signature d of None \<Rightarrow> ScvVoid | Some s \<Rightarrow> s) \<and>
      buildDelegateNodes S (dg_Nested d) (Suc depth) = Inr (ds_NestedDelegates (dn_node b))) ds out"
  by (induction ds arbitrary: out)
    (auto simp: buildDelegateLoop_Cons_Inr_iff descriptorKey_def addressBytesFromStr_Inr_iff
      simp del: buildDelegateLoop.simps(2))

lemma buildDelegateLoop_keys:
  "buildDelegateLoop S ds depth = Inr out \<Longrightarrow> mapE (descriptorKey S) ds = Inr (map dn_encoded out)"
  by (drule buildDelegateLoop_elements)
    (auto simp: mapE_Inr_iff list.rel_map elim: list_all2_mono)

lemma isOk_buildDelegateLoop:
  "isOk (buildDelegateLoop S ds depth) \<longleftrightarrow>
     isOk (mapE (descriptorKey S) ds) \<and>
     (\<forall>d \<in> set ds. isOk (buildDelegateNodes S (dg_Nested d) (Suc depth)))"
proof (induction ds)
  case Nil
  then show ?case by simp
next
  case (Cons d ds)
  have "isOk (buildDelegateLoop S (d # ds) depth) \<longleftrightarrow>
      isOk (descriptorKey S d) \<and> isOk (buildDelegateNodes S (dg_Nested d) (Suc depth)) \<and>
      isOk (buildDelegateLoop S ds depth)"
    by (auto simp: isOk_iff buildDelegateLoop_Cons_Inr_iff descriptorKey_def
        addressBytesFromStr_Inr_iff simp del: buildDelegateLoop.simps(2))
  then show ?case
    by (auto simp: Cons.IH isOk_mapE simp del: buildDelegateLoop.simps(2) mapE.simps(2))
qed

interpretation build_walk: bounded_walk dg_Nested "buildableLevel S" "buildDelegateNodes S" for S
proof
  fix ts d
  have "isOk (buildDelegateNodes S ts d) \<longleftrightarrow> d \<le> MaxDecodeDepth \<and>
      (ts = [] \<or> (\<exists>built. buildDelegateLoop S ts d = Inr built \<and> distinct (map dn_encoded built)))"
    unfolding buildDelegateNodes.simps(1) [of S ts d]
    by (auto simp: isOk_iff bindE_Inr_iff sortDelegateLevel_Inr_iff)
  moreover have "(\<exists>built. buildDelegateLoop S ts d = Inr built \<and> distinct (map dn_encoded built)) \<longleftrightarrow>
      buildableLevel S ts \<and> (\<forall>t \<in> set ts. isOk (buildDelegateNodes S (dg_Nested t) (Suc d)))"
    using isOk_buildDelegateLoop [of S ts d]
    by (auto simp: buildableLevel_def isOk_iff dest: buildDelegateLoop_keys) (metis buildDelegateLoop_keys sum.inject(2))+
  ultimately show "isOk (buildDelegateNodes S ts d) \<longleftrightarrow> d \<le> MaxDecodeDepth \<and> buildableLevel S ts \<and>
     (\<forall>t \<in> set ts. isOk (buildDelegateNodes S (dg_Nested t) (Suc d)))"
    by (auto simp: buildableLevel_def)
next
  fix d :: nat and ts
  assume "d > MaxDecodeDepth"
  then show "failsWith (buildDelegateNodes S ts d) ErrDecodeLimit"
    by (simp add: checkTraversalDepth_def buildDelegateNodes.simps)
qed

section \<open>A built tree is valid\<close>

lemma buildDelegateNodes_level:
  assumes "buildDelegateNodes S ds depth = Inr ns"
  obtains built where "buildDelegateLoop S ds depth = Inr built"
    "distinct (map dn_encoded built)" "ns = map dn_node (sort_key dn_encoded built)"
proof (cases "ds = []")
  case True
  then show ?thesis
    using assms that [of "[]"] by (auto simp: buildDelegateNodes.simps bindE_Inr_iff)
next
  case False
  then show ?thesis
    using assms that by (auto simp: buildDelegateNodes.simps bindE_Inr_iff sortDelegateLevel_Inr_iff)
qed

lemma buildDelegateLoop_nodes_encode:
  assumes "buildDelegateLoop S ds depth = Inr built" "b \<in> set built"
  shows "ScAddress_MarshalBinary S (ds_Address (dn_node b)) = Inr (dn_encoded b)"
    and "\<exists>d \<in> set ds. buildDelegateNodes S (dg_Nested d) (Suc depth) = Inr (ds_NestedDelegates (dn_node b))"
  using buildDelegateLoop_elements [OF assms(1)] assms(2)
  by (auto simp: list_all2_conv_all_nth in_set_conv_nth) (metis nth_mem)

lemma buildDelegateNodes_ordered:
  assumes "buildDelegateNodes S ds depth = Inr ns"
  shows "orderedLevel S ns"
proof -
  obtain built where b: "buildDelegateLoop S ds depth = Inr built"
    "distinct (map dn_encoded built)" "ns = map dn_node (sort_key dn_encoded built)"
    using buildDelegateNodes_level [OF assms] .
  have "encodings S ns = Inr (map dn_encoded (sort_key dn_encoded built))"
    using buildDelegateLoop_nodes_encode(1) [OF b(1)]
    by (auto simp: encodings_def b(3) mapE_Inr_iff list_all2_conv_all_nth in_set_conv_nth)
      (metis in_set_conv_nth length_sort set_sort)
  moreover have "sorted_wrt (<) (map dn_encoded (sort_key dn_encoded built))"
    using b(2) by (simp add: strict_sorted_iff distinct_map_sort_key)
  ultimately show ?thesis by (auto simp: orderedLevel_def)
qed

text \<open>
  Every tree \<open>buildDelegateNodes\<close> returns passes \<open>validateDelegateLevel\<close> at the same
  depth.
\<close>

lemma buildDelegateNodes_fits:
  "buildDelegateNodes S ds depth = Inr ns \<Longrightarrow> fits dg_Nested Q k ds \<Longrightarrow>
   fits ds_NestedDelegates (orderedLevel S) k ns"
proof (induction k arbitrary: ds ns depth)
  case 0
  then have "ds = []" by simp
  then show ?case
    using 0 by (auto simp: buildDelegateNodes.simps bindE_Inr_iff orderedLevel_def encodings_def)
next
  case (Suc k)
  obtain built where b: "buildDelegateLoop S ds depth = Inr built"
    "ns = map dn_node (sort_key dn_encoded built)"
    using buildDelegateNodes_level [OF Suc.prems(1)] .
  have "fits ds_NestedDelegates (orderedLevel S) k (ds_NestedDelegates (dn_node x))"
    if x: "x \<in> set built" for x
  proof -
    obtain d where "d \<in> set ds" "buildDelegateNodes S (dg_Nested d) (Suc depth) = Inr (ds_NestedDelegates (dn_node x))"
      using buildDelegateLoop_nodes_encode(2) [OF b(1) x] by blast
    moreover from this have "fits dg_Nested Q k (dg_Nested d)"
      using Suc.prems(2) by (auto simp: list_all_iff)
    ultimately show ?thesis using Suc.IH by blast
  qed
  then show ?case
    using buildDelegateNodes_ordered [OF Suc.prems(1)] by (auto simp: b(2) list_all_iff)
qed

lemma build_then_validate:
  "buildDelegateNodes S ds (Suc 0) = Inr ns \<Longrightarrow> isOk (validateDelegateLevel S ns (Suc 0))"
  using build_walk.walk_ok_top [of S ds]
  by (auto simp: validate_walk.walk_ok_top intro: buildDelegateNodes_fits)

section \<open>The wrapped entry\<close>

lemma WithDelegates_Inr_iff:
  "WithDelegates S e v ds topSig = Inr w \<longleftrightarrow>
     (\<exists>a ns. (cr_Type (en_Credentials e) = CredentialsAddress \<or> cr_Type (en_Credentials e) = CredentialsAddressV2) \<and>
        addressCredentials (en_Credentials e) = Inr a \<and> v \<noteq> 0 \<and> \<not> isSigned (ac_Signature a) \<and>
        buildDelegateNodes S ds (Suc 0) = Inr ns \<and>
        copyEntry S
          \<lparr>en_Credentials =
             \<lparr>cr_Type = CredentialsAddressWithDelegates, cr_Address = None, cr_AddressV2 = None,
              cr_AddressWithDelegates = Some
                \<lparr>wd_AddressCredentials =
                   \<lparr>ac_Address = ac_Address a, ac_Nonce = ac_Nonce a, ac_SignatureExpirationLedger = v,
                    ac_Signature = (case topSig of None \<Rightarrow> ScvVoid | Some s \<Rightarrow> s)\<rparr>,
                 wd_Delegates = ns\<rparr>\<rparr>,
           en_RootInvocation = en_RootInvocation e\<rparr> = Inr w)"
  by (auto simp: WithDelegates_def bindE_Inr_iff Let_def split: SorobanCredentialsType.splits if_splits)

end
