(* ===== verification/Authorize.thy ===== *)
theory Authorize
  imports Delegates
begin

text \<open>
  Signing one entry (\<open>AuthorizeEntry\<close> of \<^verbatim>\<open>src/authorize.go\<close>) and the lifecycle
  hooks of \<^verbatim>\<open>src/hooks.go\<close> it reports to. The result of a call is the trace of hook
  deliveries and the returned value or error.
\<close>

section \<open>Hooks\<close>

datatype HookPhase = HookPhasePreimage | HookPhaseSign | HookPhasePostSign | HookPhaseWrite

record HookEvent =
  he_Phase :: HookPhase
  he_CredentialType :: string
  he_TargetAddress :: string
  he_ValidUntilLedger :: uint32
  he_Duration :: int
  he_Error :: "gerr option"
  he_NodeCount :: int
  he_SignedNodeCount :: int

text \<open>A hook only observes, and its error is dropped: it is a name in the trace.\<close>

type_synonym hook = string
type_synonym trace = "(hook \<times> HookEvent) list"

definition newHookList :: "hook option list \<Rightarrow> hook list" where
  "newHookList hooks = concat (map (\<lambda>h. case h of None \<Rightarrow> [] | Some x \<Rightarrow> [x]) hooks)"

definition hasHooks :: "hook list \<Rightarrow> bool" where
  "hasHooks l = (length l > 0)"

definition emit :: "hook list \<Rightarrow> HookEvent \<Rightarrow> trace" where
  "emit l e = (if \<not> hasHooks l then [] else map (\<lambda>h. (h, e)) l)"

section \<open>Options\<close>

record authorizeConfig =
  cf_targetAddress :: string
  cf_hasTarget :: bool
  cf_allowResign :: bool
  cf_allowResignAddresses :: "string list"
  cf_hook :: "hook list"

definition zeroConfig :: authorizeConfig where
  "zeroConfig = \<lparr>cf_targetAddress = '''', cf_hasTarget = False, cf_allowResign = False,
                 cf_allowResignAddresses = [], cf_hook = []\<rparr>"

type_synonym AuthorizeOption = "authorizeConfig \<Rightarrow> authorizeConfig"

definition ForAddress :: "string \<Rightarrow> AuthorizeOption" where
  "ForAddress addr = (\<lambda>c. c\<lparr>cf_targetAddress := addr, cf_hasTarget := True\<rparr>)"

definition AllowResign :: "string list \<Rightarrow> AuthorizeOption" where
  "AllowResign addresses = (\<lambda>c. c\<lparr>cf_allowResign := True, cf_allowResignAddresses := addresses\<rparr>)"

definition WithHook :: "hook option \<Rightarrow> AuthorizeOption" where
  "WithHook h = (\<lambda>c. c\<lparr>cf_hook := newHookList [h]\<rparr>)"

definition applyOptions :: "AuthorizeOption list \<Rightarrow> authorizeConfig" where
  "applyOptions opts = fold (\<lambda>opt c. opt c) opts zeroConfig"

definition resignAllowedFor :: "bytes \<Rightarrow> bytes list \<Rightarrow> bool" where
  "resignAllowedFor targetEncoded scope =
     (if length scope = 0 then True else list_ex (\<lambda>encoded. targetEncoded = encoded) scope)"

section \<open>The guards\<close>

text \<open>
  Everything \<open>AuthorizeEntry\<close> checks between the source-account case and the first
  preimage, in the code's order: the target's address and encoding, the scope of
  \<open>AllowResign\<close>, the working copy, the order of the delegates, the matching nodes, the
  shared expiration and the overwrite guard.
\<close>

definition resolveTarget ::
  "sdk \<Rightarrow> authorizeConfig \<Rightarrow> signer \<Rightarrow> gerr + (string \<times> bytes)" where
  "resolveTarget S config sg =
     (let target = (if cf_hasTarget config then cf_targetAddress config else sg_Address sg) in
      if target = ''''
      then Inl (errw ''no target address; the signer has none and ForAddress was not given''
                  (Sentinel ErrMissingSigner))
      else
        bindE (ParseAddress S target) (\<lambda>targetAddress.
        bindE (addressBytes S targetAddress) (\<lambda>targetEncoded.
          Inr (target, targetEncoded))))"

definition resolveScope :: "sdk \<Rightarrow> string list \<Rightarrow> gerr + bytes list" where
  "resolveScope S addresses =
     mapE (\<lambda>addr.
       bindE (wrapE (''AllowResign address '' @ addr) (ParseAddress S addr)) (addressBytes S)) addresses"

definition signedAt :: "SorobanAuthorizationEntry \<Rightarrow> sigptr \<Rightarrow> bool" where
  "signedAt e p = (case derefSig e p of None \<Rightarrow> False | Some v \<Rightarrow> isSigned v)"

definition authorizeGuards ::
  "sdk \<Rightarrow> authorizeConfig \<Rightarrow> SorobanAuthorizationEntry \<Rightarrow> signer option \<Rightarrow> uint32
     \<Rightarrow> gerr + (signer \<times> string \<times> SorobanAuthorizationEntry \<times> sigptr list)" where
  "authorizeGuards S config entry sgo validUntilLedger =
     bindE (addressCredentials (en_Credentials entry)) (\<lambda>_.
     if validUntilLedger = 0
     then Inl (errw ''expiration ledger is zero'' (Sentinel ErrInvalidExpiration))
     else case sgo of
       None \<Rightarrow> Inl (Sentinel ErrMissingSigner)
     | Some sg \<Rightarrow>
       bindE (resolveTarget S config sg) (\<lambda>(target, targetEncoded).
       bindE (resolveScope S (cf_allowResignAddresses config)) (\<lambda>allowResignScope.
       let resignAllowed = (cf_allowResign config \<and> resignAllowedFor targetEncoded allowResignScope) in
       bindE (copyEntry S entry) (\<lambda>work.
       bindE (addressCredentials (en_Credentials work)) (\<lambda>existingCredentials.
       let isDelegates = (cr_Type (en_Credentials work) = CredentialsAddressWithDelegates) in
       bindE (if isDelegates then ValidateDelegateOrder S work else Inr ()) (\<lambda>_.
       bindE (credentialNodes S work) (\<lambda>nodes.
       let matches = map cn_signature (filter (\<lambda>node. cn_encoded node = targetEncoded) nodes) in
       if length matches = 0
       then Inl (errw target (NoMatchingCredentialNodeError target))
       else if isDelegates \<and> ac_SignatureExpirationLedger existingCredentials \<noteq> validUntilLedger \<and>
               list_ex (\<lambda>node. signedAt work (cn_signature node)) nodes
       then Inl (errw ''the entry already carries signatures over another expiration''
                   (Sentinel ErrInvalidExpiration))
       else if \<not> resignAllowed \<and> list_ex (signedAt work) matches
       then Inl (errw target (Sentinel ErrAlreadySigned))
       else Inr (sg, target, work, matches))))))))"

section \<open>Signing\<close>

definition hookEvent :: "HookPhase \<Rightarrow> SorobanAuthorizationEntry \<Rightarrow> string \<Rightarrow> uint32 \<Rightarrow> gerr option \<Rightarrow> HookEvent" where
  "hookEvent phase entry target validUntilLedger err =
     \<lparr>he_Phase = phase, he_CredentialType = credentialTypeName (cr_Type (en_Credentials entry)),
      he_TargetAddress = target, he_ValidUntilLedger = validUntilLedger,
      he_Duration = 0, he_Error = err, he_NodeCount = 0, he_SignedNodeCount = 0\<rparr>"

definition setExpiration :: "uint32 \<Rightarrow> SorobanAuthorizationEntry \<Rightarrow> SorobanAuthorizationEntry" where
  "setExpiration v e =
     e\<lparr>en_Credentials :=
         updateAddressCredentials (ac_SignatureExpirationLedger_update (\<lambda>_. v)) (en_Credentials e)\<rparr>"

definition AuthorizeEntry ::
  "sdk \<Rightarrow> ctx \<Rightarrow> SorobanAuthorizationEntry \<Rightarrow> signer option \<Rightarrow> uint32 \<Rightarrow> string \<Rightarrow> AuthorizeOption list
     \<Rightarrow> trace \<times> (gerr + SorobanAuthorizationEntry)" where
  "AuthorizeEntry S ctx entry sgo validUntilLedger networkPassphrase opts =
     (let op = ''soroauth: authorize entry''; config = applyOptions opts in
      case ctx of Some err \<Rightarrow> ([], Inl (errw op err))
      | None \<Rightarrow>
      if cr_Type (en_Credentials entry) = CredentialsSourceAccount
      then ([], wrapE op (copyEntry S entry))
      else case wrapE op (authorizeGuards S config entry sgo validUntilLedger) of
        Inl err \<Rightarrow> ([], Inl err)
      | Inr (sg, target, work, matches) \<Rightarrow>
      (let event = (\<lambda>phase err. emit (cf_hook config) (hookEvent phase entry target validUntilLedger err)) in
      case wrapE op (Preimage S work validUntilLedger networkPassphrase) of
        Inl err \<Rightarrow> ([], Inl err)
      | Inr preimage \<Rightarrow>
      case wrapE op (Payload S preimage) of
        Inl err \<Rightarrow> (event HookPhasePreimage None, Inl err)
      | Inr payload \<Rightarrow>
      case sg_Sign sg ctx preimage payload of
        Inl err \<Rightarrow>
          (event HookPhasePreimage None @ event HookPhaseSign None @ event HookPhaseSign (Some err),
           Inl (errw op err))
      | Inr signature \<Rightarrow>
          (event HookPhasePreimage None @ event HookPhaseSign None @ event HookPhaseWrite None @
             event HookPhasePostSign None,
           Inr (fold (storeSig signature) matches (setExpiration validUntilLedger work)))))"

text \<open>The returned value alone, for the callers that pass no hook.\<close>

abbreviation authorized ::
  "sdk \<Rightarrow> ctx \<Rightarrow> SorobanAuthorizationEntry \<Rightarrow> signer option \<Rightarrow> uint32 \<Rightarrow> string \<Rightarrow> AuthorizeOption list
     \<Rightarrow> gerr + SorobanAuthorizationEntry" where
  "authorized S ctx entry sgo v net opts \<equiv> snd (AuthorizeEntry S ctx entry sgo v net opts)"

section \<open>Specification of the signed entry\<close>

text \<open>
  The entry with the expiration set and one signature on every node, top-level or delegate,
  whose encoded address is the target's; nothing else changes.
\<close>

definition addressIs :: "sdk \<Rightarrow> bytes \<Rightarrow> ScAddress \<Rightarrow> bool" where
  "addressIs S t a = (ScAddress_MarshalBinary S a = Inr t)"

definition topMatches :: "sdk \<Rightarrow> bytes \<Rightarrow> SorobanAuthorizationEntry \<Rightarrow> bool" where
  "topMatches S t e =
     (case addressCredentials (en_Credentials e) of Inl _ \<Rightarrow> False | Inr a \<Rightarrow> addressIs S t (ac_Address a))"

definition signedEntry ::
  "sdk \<Rightarrow> bytes \<Rightarrow> ScVal \<Rightarrow> uint32 \<Rightarrow> SorobanAuthorizationEntry \<Rightarrow> SorobanAuthorizationEntry" where
  "signedEntry S t s v e =
     (let e1 = setExpiration v e;
          e2 = (if topMatches S t e then storeSig s [] e1 else e1)
      in if cr_Type (en_Credentials e) = CredentialsAddressWithDelegates
         then setDelegatesOf (fillDelegates (\<lambda>n. addressIs S t (ds_Address n)) s (delegatesOf e)) e2
         else e2)"

lemma setDelegatesOf_simps [simp]:
  "cr_Type (en_Credentials (setDelegatesOf ds e)) = cr_Type (en_Credentials e)"
  "cr_Address (en_Credentials (setDelegatesOf ds e)) = cr_Address (en_Credentials e)"
  "cr_AddressV2 (en_Credentials (setDelegatesOf ds e)) = cr_AddressV2 (en_Credentials e)"
  "cr_AddressWithDelegates (en_Credentials (setDelegatesOf ds e)) =
     map_option (wd_Delegates_update (\<lambda>_. ds)) (cr_AddressWithDelegates (en_Credentials e))"
  "en_RootInvocation (setDelegatesOf ds e) = en_RootInvocation e"
  by (simp_all add: setDelegatesOf_def)

lemma addressCredentials_setDelegatesOf [simp]:
  "addressCredentials (en_Credentials (setDelegatesOf ds e)) = addressCredentials (en_Credentials e)"
  by (cases "cr_AddressWithDelegates (en_Credentials e)"; cases "cr_Type (en_Credentials e)")
    (simp_all add: addressCredentials_def)

lemma setDelegatesOf_twice [simp]: "setDelegatesOf ds (setDelegatesOf ds' e) = setDelegatesOf ds e"
  by (cases "cr_AddressWithDelegates (en_Credentials e)") (simp_all add: setDelegatesOf_def)

lemma delegatesOf_setDelegatesOf [simp]:
  "cr_Type (en_Credentials e) = CredentialsAddressWithDelegates \<Longrightarrow>
   cr_AddressWithDelegates (en_Credentials e) \<noteq> None \<Longrightarrow> delegatesOf (setDelegatesOf ds e) = ds"
  by (auto simp: delegatesOf_def)

lemma setExpiration_simps [simp]:
  "cr_Type (en_Credentials (setExpiration v e)) = cr_Type (en_Credentials e)"
  "en_RootInvocation (setExpiration v e) = en_RootInvocation e"
  "delegatesOf (setExpiration v e) = delegatesOf e"
  "addressCredentials (en_Credentials (setExpiration v e)) =
     (case addressCredentials (en_Credentials e) of Inl x \<Rightarrow> Inl x
      | Inr a \<Rightarrow> Inr (a\<lparr>ac_SignatureExpirationLedger := v\<rparr>))"
  by (auto simp: setExpiration_def delegatesOf_def updateAddressCredentials_def addressCredentials_def
      split: SorobanCredentialsType.splits option.splits)

lemma storeSig_top_simps [simp]:
  "cr_Type (en_Credentials (storeSig s [] e)) = cr_Type (en_Credentials e)"
  "en_RootInvocation (storeSig s [] e) = en_RootInvocation e"
  "delegatesOf (storeSig s [] e) = delegatesOf e"
  "addressCredentials (en_Credentials (storeSig s [] e)) =
     (case addressCredentials (en_Credentials e) of Inl x \<Rightarrow> Inl x
      | Inr a \<Rightarrow> Inr (a\<lparr>ac_Signature := s\<rparr>))"
  by (auto simp: storeSig_def delegatesOf_def updateAddressCredentials_def addressCredentials_def
      split: SorobanCredentialsType.splits option.splits)

lemma setDelegatesOf_same:
  "cr_Type (en_Credentials e) = CredentialsAddressWithDelegates \<Longrightarrow> setDelegatesOf (delegatesOf e) e = e"
  by (cases "cr_AddressWithDelegates (en_Credentials e)") (auto simp: setDelegatesOf_def delegatesOf_def)

section \<open>The writes implement the specification\<close>

lemma fold_storeSig_delegates:
  assumes "cr_Type (en_Credentials e) = CredentialsAddressWithDelegates"
    and "cr_AddressWithDelegates (en_Credentials e) \<noteq> None" and "\<forall>p \<in> set ps. p \<noteq> []"
  shows "fold (storeSig s) ps e = setDelegatesOf (storeAll s ps (delegatesOf e)) e"
  using assms
proof (induction ps arbitrary: e)
  case Nil
  then show ?case by (simp add: setDelegatesOf_same)
next
  case (Cons p ps)
  let ?e' = "storeSig s p e"
  have e': "?e' = setDelegatesOf (storeDelegate (delegatesOf e) p s) e"
    using Cons.prems(3) by (simp add: storeSig_def)
  have "cr_AddressWithDelegates (en_Credentials ?e') \<noteq> None"
    using Cons.prems(2) by (simp add: e')
  then have "fold (storeSig s) ps ?e' = setDelegatesOf (storeAll s ps (delegatesOf ?e')) ?e'"
    using Cons.IH [of ?e'] Cons.prems by (simp add: e')
  moreover have "delegatesOf ?e' = storeDelegate (delegatesOf e) p s"
    using Cons.prems(1,2) by (simp add: e')
  ultimately show ?case by (simp add: e')
qed

lemma matching_ptrs_of_nodes:
  "list_all2 (nodeMatches S) pns cs \<Longrightarrow>
   map cn_signature (filter (\<lambda>c. cn_encoded c = t) cs) =
   map fst (filter (\<lambda>pn. addressIs S t (ds_Address (snd pn))) pns)"
  by (induction pns cs rule: list_all2_induct) (auto simp: nodeMatches_def addressIs_def)

lemma credentialNodes_Inr:
  assumes "credentialNodes S e = Inr nodes"
  obtains a top ds where "addressCredentials (en_Credentials e) = Inr a"
    "ScAddress_MarshalBinary S (ac_Address a) = Inr top"
    "nodes = \<lparr>cn_encoded = top, cn_signature = []\<rparr> # ds"
    "list_all2 (nodeMatches S) (nodePaths 0 (delegatesOf e)) ds"
  using assms
  by (auto simp: credentialNodes_def bindE_Inr_iff Let_def split: if_splits
      dest: delegateNodes_preorder) (auto simp: delegatesOf_def)

lemma writes_give_signedEntry:
  assumes "credentialNodes S e = Inr nodes"
  shows "fold (storeSig s) (map cn_signature (filter (\<lambda>c. cn_encoded c = t) nodes)) (setExpiration v e)
       = signedEntry S t s v e"
proof -
  obtain a top ds where a: "addressCredentials (en_Credentials e) = Inr a"
    and top: "ScAddress_MarshalBinary S (ac_Address a) = Inr top"
    and nodes: "nodes = \<lparr>cn_encoded = top, cn_signature = []\<rparr> # ds"
    and ds: "list_all2 (nodeMatches S) (nodePaths 0 (delegatesOf e)) ds"
    using credentialNodes_Inr [OF assms] .
  let ?Q = "\<lambda>n. addressIs S t (ds_Address n)"
  let ?e1 = "setExpiration v e"
  let ?e2 = "if topMatches S t e then storeSig s [] ?e1 else ?e1"
  have tm: "topMatches S t e \<longleftrightarrow> top = t"
    using a top by (auto simp: topMatches_def addressIs_def)
  have ptrs: "map cn_signature (filter (\<lambda>c. cn_encoded c = t) ds) = matchingPtrs ?Q 0 (delegatesOf e)"
    by (rule matching_ptrs_of_nodes [OF ds])
  have "fold (storeSig s) (map cn_signature (filter (\<lambda>c. cn_encoded c = t) nodes)) ?e1
      = fold (storeSig s) (matchingPtrs ?Q 0 (delegatesOf e)) ?e2"
    by (simp add: nodes tm ptrs)
  also have "\<dots> = signedEntry S t s v e"
  proof (cases "cr_Type (en_Credentials e) = CredentialsAddressWithDelegates")
    case True
    with a have w: "cr_AddressWithDelegates (en_Credentials ?e2) \<noteq> None"
      by (auto simp: addressCredentials_def setExpiration_def storeSig_def updateAddressCredentials_def
          split: option.splits)
    have "fold (storeSig s) (matchingPtrs ?Q 0 (delegatesOf e)) ?e2
        = setDelegatesOf (storeAll s (matchingPtrs ?Q 0 (delegatesOf e)) (delegatesOf ?e2)) ?e2"
      using True w nodePaths_nonempty by (intro fold_storeSig_delegates) auto
    also have "storeAll s (matchingPtrs ?Q 0 (delegatesOf e)) (delegatesOf ?e2)
        = fillDelegates ?Q s (delegatesOf e)"
      using storeAll_matchingPtrs [of s ?Q "[]" "delegatesOf e"] by simp
    finally show ?thesis using True by (simp add: signedEntry_def Let_def)
  next
    case False
    then have "delegatesOf e = []" by (simp add: delegatesOf_def)
    then show ?thesis
      using False by (simp add: signedEntry_def Let_def)
  qed
  finally show ?thesis .
qed

section \<open>What a successful call did\<close>

lemma signedEntry_simps [simp]:
  "cr_Type (en_Credentials (signedEntry S t s v e)) = cr_Type (en_Credentials e)"
  "en_RootInvocation (signedEntry S t s v e) = en_RootInvocation e"
  by (simp_all add: signedEntry_def Let_def)

lemma signedEntry_credentials:
  "addressCredentials (en_Credentials e) = Inr a \<Longrightarrow>
   addressCredentials (en_Credentials (signedEntry S t s v e)) =
     Inr (a\<lparr>ac_SignatureExpirationLedger := v,
            ac_Signature := (if addressIs S t (ac_Address a) then s else ac_Signature a)\<rparr>)"
  by (simp add: signedEntry_def Let_def topMatches_def)

lemma signedEntry_delegates:
  assumes "addressCredentials (en_Credentials e) = Inr a"
  shows "delegatesOf (signedEntry S t s v e) =
     fillDelegates (\<lambda>n. addressIs S t (ds_Address n)) s (delegatesOf e)"
proof (cases "cr_Type (en_Credentials e) = CredentialsAddressWithDelegates")
  case True
  let ?e2 = "if topMatches S t e then storeSig s [] (setExpiration v e) else setExpiration v e"
  have "\<exists>a2. addressCredentials (en_Credentials ?e2) = Inr a2"
    using assms by simp
  then have "cr_AddressWithDelegates (en_Credentials ?e2) \<noteq> None"
    using True by (fastforce simp: addressCredentials_Inr_iff split: if_splits)
  then show ?thesis
    using True by (simp add: signedEntry_def Let_def)
next
  case False
  then have "delegatesOf e = []" "delegatesOf (signedEntry S t s v e) = []"
    by (simp_all add: delegatesOf_def)
  then show ?thesis by simp
qed

lemma credentialNodes_signedEntry:
  "credentialNodes S (signedEntry S t s v e) = credentialNodes S e"
proof (cases "addressCredentials (en_Credentials e)")
  case (Inl x)
  then show ?thesis by (simp add: credentialNodes_def signedEntry_def Let_def)
next
  case (Inr a)
  then show ?thesis
    using signedEntry_delegates [OF Inr, of S t s v]
    by (cases "cr_Type (en_Credentials e) = CredentialsAddressWithDelegates")
      (simp_all add: credentialNodes_def signedEntry_credentials delegateNodes_fill)
qed

lemma derefSig_signedEntry:
  assumes nodes: "credentialNodes S e = Inr nodes" and c: "c \<in> set nodes"
  shows "derefSig (signedEntry S t s v e) (cn_signature c) =
     (if cn_encoded c = t then Some s else derefSig e (cn_signature c))"
proof -
  obtain a top ds where a: "addressCredentials (en_Credentials e) = Inr a"
    and top: "ScAddress_MarshalBinary S (ac_Address a) = Inr top"
    and ns: "nodes = \<lparr>cn_encoded = top, cn_signature = []\<rparr> # ds"
    and ds: "list_all2 (nodeMatches S) (nodePaths 0 (delegatesOf e)) ds"
    using credentialNodes_Inr [OF nodes] .
  show ?thesis
  proof (cases "c = \<lparr>cn_encoded = top, cn_signature = []\<rparr>")
    case True
    then show ?thesis
      using a top by (simp add: derefSig_def signedEntry_credentials addressIs_def)
  next
    case False
    with c ns have "c \<in> set ds" by auto
    then obtain p n where pn: "(p, n) \<in> set (nodePaths 0 (delegatesOf e))" "nodeMatches S (p, n) c"
      using ds by (auto simp: list_all2_conv_all_nth in_set_conv_nth) (metis prod.collapse)
    then have "p \<noteq> []" "cn_signature c = p" "addressIs S t (ds_Address n) \<longleftrightarrow> cn_encoded c = t"
      by (auto simp: nodeMatches_def addressIs_def dest: nodePaths_nonempty)
    then show ?thesis
      using derefDelegate_fill [OF pn(1), of "[]"] derefDelegate_node [OF pn(1)]
      by (auto simp: derefSig_def signedEntry_delegates [OF a])
  qed
qed

text \<open>The conditions under which the code signs, and what it then returns.\<close>

lemma authorizeGuards_Inr:
  assumes "authorizeGuards S cfg e sgo v = Inr (sg, target, w, ms)"
  obtains enc scope a nodes where
    "sgo = Some sg" "v \<noteq> 0" "resolveTarget S cfg sg = Inr (target, enc)"
    "resolveScope S (cf_allowResignAddresses cfg) = Inr scope"
    "copyEntry S e = Inr w" "addressCredentials (en_Credentials w) = Inr a"
    "cr_Type (en_Credentials w) = CredentialsAddressWithDelegates \<longrightarrow> isOk (ValidateDelegateOrder S w)"
    "credentialNodes S w = Inr nodes"
    "ms = map cn_signature (filter (\<lambda>node. cn_encoded node = enc) nodes)" "ms \<noteq> []"
    "cr_Type (en_Credentials w) = CredentialsAddressWithDelegates \<longrightarrow>
       ac_SignatureExpirationLedger a = v \<or> (\<forall>c \<in> set nodes. \<not> signedAt w (cn_signature c))"
    "(cf_allowResign cfg \<and> resignAllowedFor enc scope) \<or> (\<forall>p \<in> set ms. \<not> signedAt w p)"
proof -
  obtain c0 where c0: "addressCredentials (en_Credentials e) = Inr c0" and v: "v \<noteq> 0"
    and sgo: "sgo = Some sg"
    using assms by (auto simp: authorizeGuards_def bindE_Inr_iff Let_def split: if_splits option.splits)
  obtain enc scope a nodes where
    "resolveTarget S cfg sg = Inr (target, enc)"
    "resolveScope S (cf_allowResignAddresses cfg) = Inr scope"
    "copyEntry S e = Inr w" "addressCredentials (en_Credentials w) = Inr a"
    "cr_Type (en_Credentials w) = CredentialsAddressWithDelegates \<longrightarrow> isOk (ValidateDelegateOrder S w)"
    "credentialNodes S w = Inr nodes"
    "ms = map cn_signature (filter (\<lambda>node. cn_encoded node = enc) nodes)" "ms \<noteq> []"
    "\<not> (cr_Type (en_Credentials w) = CredentialsAddressWithDelegates \<and>
        ac_SignatureExpirationLedger a \<noteq> v \<and> list_ex (\<lambda>node. signedAt w (cn_signature node)) nodes)"
    "\<not> (\<not> (cf_allowResign cfg \<and> resignAllowedFor enc scope) \<and> list_ex (signedAt w) ms)"
    using assms c0 v sgo
    by (auto simp: authorizeGuards_def bindE_Inr_iff Let_def isOk_iff split: if_splits)
  then show ?thesis using that sgo v by (auto simp: list_ex_iff)
qed

lemma AuthorizeEntry_Inr:
  assumes "authorized S ctx e sgo v net opts = Inr e'"
    and "cr_Type (en_Credentials e) \<noteq> CredentialsSourceAccount"
  obtains sg target w ms p h sig where
    "ctx = None" "authorizeGuards S (applyOptions opts) e sgo v = Inr (sg, target, w, ms)"
    "Preimage S w v net = Inr p" "Payload S p = Inr h" "sg_Sign sg None p h = Inr sig"
    "e' = fold (storeSig sig) ms (setExpiration v w)"
  using assms
  by (auto simp: AuthorizeEntry_def Let_def split: option.splits sum.splits prod.splits)

lemma AuthorizeEntry_signs:
  assumes "authorized S ctx e sgo v net opts = Inr e'"
    and "cr_Type (en_Credentials e) \<noteq> CredentialsSourceAccount" and "entry_roundtrips S e"
  obtains sg target enc scope a nodes p h sig where
    "ctx = None" "sgo = Some sg" "v \<noteq> 0" "resolveTarget S (applyOptions opts) sg = Inr (target, enc)"
    "resolveScope S (cf_allowResignAddresses (applyOptions opts)) = Inr scope"
    "addressCredentials (en_Credentials e) = Inr a"
    "credentialNodes S e = Inr nodes" "\<exists>c \<in> set nodes. cn_encoded c = enc"
    "Preimage S e v net = Inr p" "Payload S p = Inr h" "sg_Sign sg None p h = Inr sig"
    "e' = signedEntry S enc sig v e"
    "cr_Type (en_Credentials e) = CredentialsAddressWithDelegates \<longrightarrow> isOk (ValidateDelegateOrder S e)"
    "cr_Type (en_Credentials e) = CredentialsAddressWithDelegates \<longrightarrow>
       ac_SignatureExpirationLedger a = v \<or> (\<forall>c \<in> set nodes. \<not> signedAt e (cn_signature c))"
    "(cf_allowResign (applyOptions opts) \<and> resignAllowedFor enc scope) \<or>
     (\<forall>c \<in> set nodes. cn_encoded c = enc \<longrightarrow> \<not> signedAt e (cn_signature c))"
proof -
  obtain sg target w ms p h sig where 1:
    "ctx = None" "authorizeGuards S (applyOptions opts) e sgo v = Inr (sg, target, w, ms)"
    "Preimage S w v net = Inr p" "Payload S p = Inr h" "sg_Sign sg None p h = Inr sig"
    "e' = fold (storeSig sig) ms (setExpiration v w)"
    using AuthorizeEntry_Inr [OF assms(1,2)] .
  obtain enc scope a nodes where 2:
    "sgo = Some sg" "v \<noteq> 0" "resolveTarget S (applyOptions opts) sg = Inr (target, enc)"
    "resolveScope S (cf_allowResignAddresses (applyOptions opts)) = Inr scope"
    "copyEntry S e = Inr w" "addressCredentials (en_Credentials w) = Inr a"
    "cr_Type (en_Credentials w) = CredentialsAddressWithDelegates \<longrightarrow> isOk (ValidateDelegateOrder S w)"
    "credentialNodes S w = Inr nodes"
    "ms = map cn_signature (filter (\<lambda>node. cn_encoded node = enc) nodes)" "ms \<noteq> []"
    "cr_Type (en_Credentials w) = CredentialsAddressWithDelegates \<longrightarrow>
       ac_SignatureExpirationLedger a = v \<or> (\<forall>c \<in> set nodes. \<not> signedAt w (cn_signature c))"
    "(cf_allowResign (applyOptions opts) \<and> resignAllowedFor enc scope) \<or> (\<forall>p \<in> set ms. \<not> signedAt w p)"
    using authorizeGuards_Inr [OF 1(2)] .
  have w: "w = e" using 2(5) copyEntry_id [OF assms(3)] by simp
  have "e' = signedEntry S enc sig v e"
    using writes_give_signedEntry [OF 2(8), of sig enc v] 1(6) 2(9) w by simp
  moreover have "\<exists>c \<in> set nodes. cn_encoded c = enc"
    using 2(9,10) by (auto simp: filter_empty_conv)
  moreover have "(cf_allowResign (applyOptions opts) \<and> resignAllowedFor enc scope) \<or>
     (\<forall>c \<in> set nodes. cn_encoded c = enc \<longrightarrow> \<not> signedAt e (cn_signature c))"
    using 2(9,12) w by auto
  ultimately show ?thesis
    using that [of sg target enc scope a nodes p h sig] 1(1,3,4,5) 2 unfolding w by blast
qed

text \<open>Signing does not change the preimage: it can be rebuilt from the signed entry.\<close>

lemma Preimage_signedEntry:
  assumes "addressCredentials (en_Credentials e) = Inr a"
  shows "Preimage S (signedEntry S t s v e) v' net = Preimage S e v' net"
proof -
  have "buildPreimage S (signedEntry S t s v e) v' net = buildPreimage S e v' net"
    by (rule buildPreimage_cong [OF _ signedEntry_credentials [OF assms] assms]) simp_all
  then show ?thesis by (simp add: Preimage_def)
qed

end
