(* ===== verification/Signers.thy ===== *)
theory Signers
  imports Address
begin

text \<open>
  The signers of \<^verbatim>\<open>src/signer.go\<close>, \<^verbatim>\<open>src/network_pinned_signer.go\<close> and
  \<^verbatim>\<open>src/signer_cache.go\<close>: the ed25519 signer of a classic account, its multi-signature
  form, the function and passkey adapters, the network pin, the retry policy and the address
  cache. A key pair, a caller's function and the answers of a remote signer are parameters.
\<close>

unbundle bit_operations_syntax

section \<open>Signature values\<close>

definition maxAccountSignatures :: nat where
  "maxAccountSignatures = 20"

definition scSymbol :: "string \<Rightarrow> ScVal" where
  "scSymbol s = ScvSymbol (Some s)"

definition scBytes :: "bytes \<Rightarrow> ScVal" where
  "scBytes b = ScvBytes (Some b)"

definition scVec :: "ScVal list \<Rightarrow> ScVal" where
  "scVec values = ScvVec (Some (Some values))"

definition accountSignature :: "bytes \<Rightarrow> bytes \<Rightarrow> ScVal" where
  "accountSignature rawPublicKey signature =
     ScvMap (Some (Some
       [(scSymbol ''public_key'', scBytes rawPublicKey),
        (scSymbol ''signature'', scBytes signature)]))"

definition ed25519_PublicKeySize :: nat where
  "ed25519_PublicKeySize = 32"

definition ed25519_SignatureSize :: nat where
  "ed25519_SignatureSize = 64"

definition Ed25519SignatureScVal :: "bytes \<Rightarrow> bytes \<Rightarrow> gerr + ScVal" where
  "Ed25519SignatureScVal rawPublicKey signature =
     (if length rawPublicKey \<noteq> ed25519_PublicKeySize
      then Inl (errmsg (''soroauth: ed25519 signature scval: public key is '' @
             itoa (length rawPublicKey) @ '' bytes, want '' @ itoa ed25519_PublicKeySize))
      else if length signature \<noteq> ed25519_SignatureSize
      then Inl (errmsg (''soroauth: ed25519 signature scval: signature is '' @
             itoa (length signature) @ '' bytes, want '' @ itoa ed25519_SignatureSize))
      else Inr (scVec [accountSignature rawPublicKey signature]))"

section \<open>The ed25519 signer\<close>

record ed25519Keypair =
  kp_Address :: string
  kp_Sign :: "bytes \<Rightarrow> gerr + bytes"
  kp_Verify :: "bytes \<Rightarrow> bytes \<Rightarrow> gerr option"

definition rawEd25519Key :: "sdk \<Rightarrow> string \<Rightarrow> gerr + bytes" where
  "rawEd25519Key S address =
     wrapE (address @ '' is not an account (G) address'') (strkey_Decode S VersionByteAccountID address)"

definition ed25519Sign ::
  "sdk \<Rightarrow> ed25519Keypair option \<Rightarrow> ctx \<Rightarrow> HashIdPreimage \<Rightarrow> bytes \<Rightarrow> gerr + ScVal" where
  "ed25519Sign S kpo ctx _ payload =
     wrapE ''soroauth: sign ed25519''
       (case ctx of Some err \<Rightarrow> Inl err
        | None \<Rightarrow>
          case kpo of None \<Rightarrow> Inl (Sentinel ErrMissingSigner)
          | Some kp \<Rightarrow>
            bindE (kp_Sign kp payload) (\<lambda>signature.
            if kp_Verify kp payload signature \<noteq> None then Inl (Sentinel ErrSignatureMismatch)
            else
              bindE (rawEd25519Key S (kp_Address kp)) (\<lambda>rawPublicKey.
                Inr (scVec [accountSignature rawPublicKey signature]))))"

definition NewEd25519Signer :: "sdk \<Rightarrow> ed25519Keypair option \<Rightarrow> signer" where
  "NewEd25519Signer S kpo =
     \<lparr>sg_Address = (case kpo of None \<Rightarrow> '''' | Some kp \<Rightarrow> kp_Address kp),
      sg_Sign = ed25519Sign S kpo\<rparr>"

section \<open>The multi-signature signer\<close>

record multiSignerKey =
  mk_kp :: ed25519Keypair
  mk_raw :: bytes

text \<open>The adjacent comparison after the sort; the error names the second key of the pair.\<close>

fun duplicateKey :: "multiSignerKey list \<Rightarrow> ed25519Keypair option" where
  "duplicateKey (a # b # ks) = (if mk_raw a = mk_raw b then Some (mk_kp b) else duplicateKey (b # ks))"
| "duplicateKey _ = None"

text \<open>
  The keys loop of the constructor (\<open>i\<close> is the loop index, for the error text) and the
  signing loop, which looks at the context before every key.
\<close>

fun collectKeys :: "sdk \<Rightarrow> nat \<Rightarrow> ed25519Keypair option list \<Rightarrow> gerr + multiSignerKey list" where
  "collectKeys S i [] = Inr []"
| "collectKeys S i (None # kps) =
     Inl (errw (''soroauth: new account multi signer: key '' @ itoa i @ '' is nil'') (Sentinel ErrMissingSigner))"
| "collectKeys S i (Some kp # kps) =
     bindE (wrapE ''soroauth: new account multi signer'' (rawEd25519Key S (kp_Address kp))) (\<lambda>raw.
     bindE (collectKeys S (Suc i) kps) (\<lambda>keys.
       Inr (\<lparr>mk_kp = kp, mk_raw = raw\<rparr> # keys)))"

definition newAccountMultiSigner ::
  "sdk \<Rightarrow> string \<Rightarrow> ed25519Keypair option list \<Rightarrow> gerr + (string \<times> multiSignerKey list)" where
  "newAccountMultiSigner S account kps =
     bindE (wrapE ''soroauth: new account multi signer'' (rawEd25519Key S account)) (\<lambda>_.
     if length kps = 0
     then Inl (errw (''soroauth: new account multi signer: '' @ account) (MissingSignerError account))
     else if length kps > maxAccountSignatures
     then Inl (errw (''soroauth: new account multi signer: '' @ itoa (length kps) @
                 '' keys, the host accepts at most '' @ itoa maxAccountSignatures)
                 (Sentinel ErrTooManySignatures))
     else
       bindE (collectKeys S 0 kps) (\<lambda>unsorted.
       let keys = sort_key mk_raw unsorted in
       case duplicateKey keys of
         Some kp \<Rightarrow> Inl (errmsg (''soroauth: new account multi signer: duplicate signing key '' @ kp_Address kp))
       | None \<Rightarrow> Inr (account, keys)))"

text \<open>The exported constructor refuses a nil key before anything else.\<close>

fun requireKeys :: "nat \<Rightarrow> ed25519Keypair option list \<Rightarrow> gerr + ed25519Keypair option list" where
  "requireKeys i [] = Inr []"
| "requireKeys i (None # kps) =
     Inl (errw (''soroauth: new account multi signer: key '' @ itoa i @ '' is nil'') (Sentinel ErrMissingSigner))"
| "requireKeys i (Some kp # kps) = bindE (requireKeys (Suc i) kps) (\<lambda>ks. Inr (Some kp # ks))"

definition NewAccountMultiSigner ::
  "sdk \<Rightarrow> string \<Rightarrow> ed25519Keypair option list \<Rightarrow> gerr + (string \<times> multiSignerKey list)" where
  "NewAccountMultiSigner S account kps = bindE (requireKeys 0 kps) (newAccountMultiSigner S account)"

definition multiSignKey :: "ctx \<Rightarrow> bytes \<Rightarrow> multiSignerKey \<Rightarrow> gerr + ScVal" where
  "multiSignKey ctx payload key =
     (case ctx of Some err \<Rightarrow> Inl (errw ''soroauth: sign account multisig'' err)
      | None \<Rightarrow>
        wrapE (''soroauth: sign account multisig: '' @ kp_Address (mk_kp key))
          (bindE (kp_Sign (mk_kp key) payload) (\<lambda>signature.
           if kp_Verify (mk_kp key) payload signature \<noteq> None then Inl (Sentinel ErrSignatureMismatch)
           else Inr (accountSignature (mk_raw key) signature))))"

definition multiSign ::
  "string \<times> multiSignerKey list \<Rightarrow> ctx \<Rightarrow> HashIdPreimage \<Rightarrow> bytes \<Rightarrow> gerr + ScVal" where
  "multiSign s ctx _ payload =
     (case ctx of Some err \<Rightarrow> Inl (errw ''soroauth: sign account multisig'' err)
      | None \<Rightarrow>
        bindE (mapE (multiSignKey ctx payload) (snd s)) (\<lambda>signatures. Inr (scVec signatures)))"

definition accountMultiSigner :: "string \<times> multiSignerKey list \<Rightarrow> signer" where
  "accountMultiSigner s = \<lparr>sg_Address = fst s, sg_Sign = multiSign s\<rparr>"

section \<open>Function and passkey adapters\<close>

definition SignerFunc ::
  "string \<Rightarrow> (ctx \<Rightarrow> HashIdPreimage \<Rightarrow> bytes \<Rightarrow> gerr + ScVal) option \<Rightarrow> signer" where
  "SignerFunc address fn =
     \<lparr>sg_Address = address,
      sg_Sign = (\<lambda>ctx preimage payload.
        case ctx of Some err \<Rightarrow> Inl (errw ''soroauth: sign func'' err)
        | None \<Rightarrow>
          case fn of None \<Rightarrow> Inl (errw ''soroauth: sign func'' (Sentinel ErrMissingSigner))
          | Some f \<Rightarrow> f ctx preimage payload)\<rparr>"

record passkeySignerConfig =
  pk_requireUserPresence :: bool
  pk_requireUserVerification :: bool

type_synonym PasskeySignerOption = "passkeySignerConfig \<Rightarrow> passkeySignerConfig"

definition RequireUserPresence :: "bool \<Rightarrow> PasskeySignerOption" where
  "RequireUserPresence required = (\<lambda>cfg. cfg\<lparr>pk_requireUserPresence := required\<rparr>)"

definition RequireUserVerification :: "bool \<Rightarrow> PasskeySignerOption" where
  "RequireUserVerification required = (\<lambda>cfg. cfg\<lparr>pk_requireUserVerification := required\<rparr>)"

definition passkeyConfig :: "PasskeySignerOption option list \<Rightarrow> passkeySignerConfig" where
  "passkeyConfig opts =
     fold (\<lambda>opt cfg. case opt of None \<Rightarrow> cfg | Some f \<Rightarrow> f cfg) opts
       \<lparr>pk_requireUserPresence = False, pk_requireUserVerification = False\<rparr>"

definition checkPasskeyFlags :: "passkeySignerConfig \<Rightarrow> bytes \<Rightarrow> gerr + unit" where
  "checkPasskeyFlags cfg authenticatorData =
     (if pk_requireUserPresence cfg \<or> pk_requireUserVerification cfg
      then if length authenticatorData < 37
           then Inl (errw (''soroauth: passkey signer: authenticatorData too short ('' @
                  itoa (length authenticatorData) @ '' bytes)'') (Sentinel ErrVerificationFailed))
           else
             let flags = authenticatorData ! 32; up = (flags AND 1 \<noteq> 0); uv = (flags AND 4 \<noteq> 0) in
             if pk_requireUserPresence cfg \<and> \<not> up
             then Inl (errw (''soroauth: passkey signer: user presence (UP) required but not set in flags 0x'' @
                    hex [flags]) (Sentinel ErrVerificationFailed))
             else if pk_requireUserVerification cfg \<and> \<not> uv
             then Inl (errw (''soroauth: passkey signer: user verification (UV) required but not set in flags 0x'' @
                    hex [flags]) (Sentinel ErrVerificationFailed))
             else Inr ()
      else Inr ())"

definition NewPasskeySigner ::
  "string \<Rightarrow> bytes \<Rightarrow> (ctx \<Rightarrow> HashIdPreimage \<Rightarrow> bytes \<Rightarrow> gerr + ScVal) option
     \<Rightarrow> PasskeySignerOption option list \<Rightarrow> signer" where
  "NewPasskeySigner address authenticatorData fn opts =
     SignerFunc address (Some (\<lambda>ctx preimage payload.
       bindE (checkPasskeyFlags (passkeyConfig opts) authenticatorData) (\<lambda>_.
       case fn of None \<Rightarrow> Inl (errw ''soroauth: passkey sign'' (Sentinel ErrMissingSigner))
       | Some f \<Rightarrow> f ctx preimage payload)))"

section \<open>The network pin\<close>

definition pinnedSign ::
  "bytes \<Rightarrow> signer \<Rightarrow> ctx \<Rightarrow> HashIdPreimage \<Rightarrow> bytes \<Rightarrow> gerr + ScVal" where
  "pinnedSign expectedID inner ctx preimage payload =
     (case ctx of Some err \<Rightarrow> Inl (errw ''soroauth: network pinned signer'' err)
      | None \<Rightarrow>
        bindE
          (case hp_Type preimage of
             EnvelopeTypeSorobanAuthorization \<Rightarrow>
               (case hp_SorobanAuthorization preimage of
                  None \<Rightarrow> Inl (errw ''soroauth: network pinned signer: nil soroban authorization preimage''
                            (Sentinel ErrWrongNetwork))
                | Some p \<Rightarrow> Inr (pa_NetworkId p))
           | EnvelopeTypeSorobanAuthorizationWithAddress \<Rightarrow>
               (case hp_SorobanAuthorizationWithAddress preimage of
                  None \<Rightarrow> Inl (errw ''soroauth: network pinned signer: nil soroban authorization with address preimage''
                            (Sentinel ErrWrongNetwork))
                | Some p \<Rightarrow> Inr (pw_NetworkId p))
           | EnvelopeTypeOther _ \<Rightarrow>
               Inl (errw ''soroauth: network pinned signer: unsupported or missing preimage type for network check''
                 (Sentinel ErrWrongNetwork)))
          (\<lambda>gotID.
           if gotID \<noteq> expectedID
           then Inl (errw (''soroauth: network pinned signer: network ID mismatch (got '' @ hex gotID @
                  '', want '' @ hex expectedID @ '')'') (Sentinel ErrWrongNetwork))
           else sg_Sign inner ctx preimage payload))"

definition PinSignerToNetwork :: "sdk \<Rightarrow> signer option \<Rightarrow> string \<Rightarrow> gerr + signer" where
  "PinSignerToNetwork S innero networkPassphrase =
     (case innero of None \<Rightarrow> Inl (errw ''soroauth: pin signer'' (Sentinel ErrMissingSigner))
      | Some inner \<Rightarrow>
          Inr \<lparr>sg_Address = sg_Address inner,
               sg_Sign = pinnedSign (network_ID S networkPassphrase) inner\<rparr>)"

definition PinSigner :: "sdk \<Rightarrow> signer option \<Rightarrow> string \<Rightarrow> gerr + signer" where
  "PinSigner S sg passphrase = PinSignerToNetwork S sg passphrase"

section \<open>The retry policy\<close>

definition IsSignatureRejection :: "gerr option \<Rightarrow> bool" where
  "IsSignatureRejection erro =
     (case erro of None \<Rightarrow> False
      | Some err \<Rightarrow>
          if errors_Is err ErrSignatureMismatch \<or> errors_Is err ErrMissingSigner \<or>
             errors_Is err ErrTooManySignatures
          then True
          else contains_str (error_text err) ''server refused'')"

text \<open>Durations are signed 64-bit nanosecond counts.\<close>

record RetryConfig =
  rc_Attempts :: int
  rc_InitialBackoff :: int
  rc_MaxBackoff :: int

definition WithRetry :: "RetryConfig \<Rightarrow> RetryConfig" where
  "WithRetry cfg = (if rc_Attempts cfg \<le> 0 then cfg\<lparr>rc_Attempts := 1\<rparr> else cfg)"

text \<open>
  What the outside does during a retried signature: \<open>re_Answer i\<close> is the inner signer's
  answer to attempt \<open>i\<close>, \<open>re_Err i k\<close> what the \<open>k\<close>-th look at the context in
  attempt \<open>i\<close> sees (0 before the attempt, 1 and 2 before the sleep, 3 the
  \<open>ctx.Done\<close> branch of the \<open>select\<close>, 4 and 5 after it), \<open>re_Rand i\<close> the random
  number drawn for the jitter.
\<close>

record retryEnv =
  re_Answer :: "nat \<Rightarrow> gerr + ScVal"
  re_Err :: "nat \<Rightarrow> nat \<Rightarrow> gerr option"
  re_Rand :: "nat \<Rightarrow> int"

definition sleepDuration :: "int \<Rightarrow> int \<Rightarrow> int \<Rightarrow> int" where
  "sleepDuration backoffDur maxBackoff r =
     (let jitter = (if backoffDur div 4 > 0 then r mod (backoffDur div 4) else 0);
          sleepDur = wrap64 (backoffDur + jitter)
      in if sleepDur > maxBackoff then maxBackoff else sleepDur)"

definition nextBackoff :: "int \<Rightarrow> int \<Rightarrow> int" where
  "nextBackoff backoffDur maxBackoff =
     (let b = wrap64 (backoffDur * 2) in if b > maxBackoff then maxBackoff else b)"

fun firstErr :: "(nat \<Rightarrow> gerr option) \<Rightarrow> nat list \<Rightarrow> gerr option" where
  "firstErr f [] = None"
| "firstErr f (k # ks) = (case f k of Some e \<Rightarrow> Some e | None \<Rightarrow> firstErr f ks)"

text \<open>
  The loop from attempt \<open>i\<close> with \<open>left\<close> attempts still allowed. The result is the
  list of sleeps, the number of attempts made and the answer.
\<close>

fun retryLoop ::
  "retryEnv \<Rightarrow> int \<Rightarrow> nat \<Rightarrow> nat \<Rightarrow> int \<Rightarrow> gerr option \<Rightarrow> int list \<times> nat \<times> (gerr + ScVal)" where
  "retryLoop env maxBackoff 0 i backoffDur lastErr =
     ([], i - 1, case lastErr of Some e \<Rightarrow> Inl e | None \<Rightarrow> Inr (ScvBool None))"
| "retryLoop env maxBackoff (Suc left) i backoffDur lastErr =
     (case re_Err env i 0 of
        Some err \<Rightarrow> ([], i - 1, Inl (errw ''soroauth: retry sign'' err))
      | None \<Rightarrow>
        case re_Answer env i of
          Inr val \<Rightarrow> ([], i, Inr val)
        | Inl err \<Rightarrow>
          if IsSignatureRejection (Some err) then ([], i, Inl err)
          else if left = 0 then ([], i, Inl err)
          else
            case firstErr (re_Err env i) [1, 2] of
              Some e \<Rightarrow> ([], i, Inl (errw ''soroauth: retry sign cancelled'' e))
            | None \<Rightarrow>
              let sleepDur = sleepDuration backoffDur maxBackoff (re_Rand env i) in
              case firstErr (re_Err env i) [3, 4, 5] of
                Some e \<Rightarrow> ([sleepDur], i, Inl (errw ''soroauth: retry sign cancelled'' e))
              | None \<Rightarrow>
                let (sleeps, n, r) =
                  retryLoop env maxBackoff left (Suc i) (nextBackoff backoffDur maxBackoff) (Some err)
                in (sleepDur # sleeps, n, r))"

definition retriedSign :: "RetryConfig \<Rightarrow> retryEnv \<Rightarrow> int list \<times> nat \<times> (gerr + ScVal)" where
  "retriedSign cfg env =
     (let attempts = (if rc_Attempts cfg \<le> 0 then 1 else rc_Attempts cfg);
          backoffDur = (if rc_InitialBackoff cfg \<le> 0 then 50000000 else rc_InitialBackoff cfg);
          maxBackoff = (if rc_MaxBackoff cfg \<le> 0 then 1000000000 else rc_MaxBackoff cfg)
      in retryLoop env maxBackoff (nat attempts) 1 backoffDur None)"

section \<open>The address cache\<close>

text \<open>
  Times are nanosecond counts; the zero time is 0. \<open>cs_err\<close> is the struct's \<open>err\<close>
  field, which no method sets.
\<close>

record CachedSigner =
  cs_ttl :: int
  cs_address :: string
  cs_err :: "gerr option"
  cs_fetchedAt :: int

definition NewCachedSigner :: "int \<Rightarrow> CachedSigner" where
  "NewCachedSigner ttl = \<lparr>cs_ttl = ttl, cs_address = '''', cs_err = None, cs_fetchedAt = 0\<rparr>"

text \<open>
  One call at time \<open>now\<close>, where \<open>inner\<close> is what the wrapped signer would answer now.
  The third component says whether the wrapped signer was asked.
\<close>

definition cachedAddress :: "CachedSigner \<Rightarrow> int \<Rightarrow> string \<Rightarrow> CachedSigner \<times> string \<times> bool" where
  "cachedAddress c now inner =
     (if (cs_address c \<noteq> '''' \<or> cs_err c \<noteq> None) \<and>
         (cs_ttl c \<le> 0 \<or> now - cs_fetchedAt c < cs_ttl c)
      then (c, cs_address c, False)
      else (c\<lparr>cs_address := inner, cs_fetchedAt := now\<rparr>, inner, True))"

definition cachedInvalidate :: "CachedSigner \<Rightarrow> CachedSigner" where
  "cachedInvalidate c = c\<lparr>cs_address := '''', cs_err := None, cs_fetchedAt := 0\<rparr>"

definition cachedSign :: "signer \<Rightarrow> ctx \<Rightarrow> HashIdPreimage \<Rightarrow> bytes \<Rightarrow> gerr + ScVal" where
  "cachedSign sg ctx preimage payload = sg_Sign sg ctx preimage payload"

section \<open>Laws of the signers\<close>

lemma ed25519Sign_Inr_iff:
  "ed25519Sign S kpo ctx p payload = Inr v \<longleftrightarrow>
     ctx = None \<and> (\<exists>kp sig raw. kpo = Some kp \<and> kp_Sign kp payload = Inr sig \<and>
       kp_Verify kp payload sig = None \<and> strkey_Decode S VersionByteAccountID (kp_Address kp) = Inr raw \<and>
       v = scVec [accountSignature raw sig])"
  by (auto simp: ed25519Sign_def rawEd25519Key_def bindE_Inr_iff split: option.splits if_splits)

lemma collectKeys_Inr:
  "collectKeys S i kps = Inr keys \<Longrightarrow>
   list_all2 (\<lambda>kpo key. kpo = Some (mk_kp key) \<and>
     strkey_Decode S VersionByteAccountID (kp_Address (mk_kp key)) = Inr (mk_raw key)) kps keys"
  by (induction S i kps arbitrary: keys rule: collectKeys.induct)
    (auto simp: bindE_Inr_iff rawEd25519Key_def)

lemma duplicateKey_None:
  "duplicateKey keys = None \<longleftrightarrow>
     (\<forall>i. Suc i < length keys \<longrightarrow> mk_raw (keys ! i) \<noteq> mk_raw (keys ! Suc i))"
  by (induction keys rule: duplicateKey.induct)
    (auto simp: nth_Cons less_Suc_eq_0_disj split: nat.splits)

lemma duplicateKey_sorted:
  assumes "duplicateKey (sort_key mk_raw keys) = None"
  shows "sorted_wrt (<) (map mk_raw (sort_key mk_raw keys))"
proof -
  let ?ks = "map mk_raw (sort_key mk_raw keys)"
  have "\<forall>i. Suc i < length ?ks \<longrightarrow> ?ks ! i \<noteq> ?ks ! Suc i"
    using assms by (simp add: duplicateKey_None)
  then have "distinct ?ks"
    using sorted_adjacent_distinct [of ?ks] by simp
  then show ?thesis by (simp add: strict_sorted_iff)
qed

lemma newAccountMultiSigner_Inr:
  assumes "newAccountMultiSigner S account kps = Inr s"
  shows "fst s = account" "sorted_wrt (<) (map mk_raw (snd s))" "snd s \<noteq> []"
    "length (snd s) \<le> maxAccountSignatures"
    "\<forall>key \<in> set (snd s). Some (mk_kp key) \<in> set kps \<and>
       strkey_Decode S VersionByteAccountID (kp_Address (mk_kp key)) = Inr (mk_raw key)"
proof -
  obtain keys where keys: "collectKeys S 0 kps = Inr keys" "snd s = sort_key mk_raw keys" "fst s = account"
    and dup: "duplicateKey (sort_key mk_raw keys) = None"
    and n: "length kps \<noteq> 0" "length kps \<le> maxAccountSignatures"
    using assms
    by (auto simp: newAccountMultiSigner_def bindE_Inr_iff Let_def split: if_splits option.splits)
  have all2: "list_all2 (\<lambda>kpo key. kpo = Some (mk_kp key) \<and>
     strkey_Decode S VersionByteAccountID (kp_Address (mk_kp key)) = Inr (mk_raw key)) kps keys"
    by (rule collectKeys_Inr [OF keys(1)])
  show "fst s = account" by (rule keys(3))
  show "sorted_wrt (<) (map mk_raw (snd s))" using duplicateKey_sorted [OF dup] keys(2) by simp
  have len: "length (snd s) = length kps"
    using list_all2_lengthD [OF all2] keys(2) by simp
  show "snd s \<noteq> []" using len n(1) by auto
  show "length (snd s) \<le> maxAccountSignatures" using len n(2) by simp
  show "\<forall>key \<in> set (snd s). Some (mk_kp key) \<in> set kps \<and>
       strkey_Decode S VersionByteAccountID (kp_Address (mk_kp key)) = Inr (mk_raw key)"
  proof
    fix key assume "key \<in> set (snd s)"
    then obtain i where i: "i < length keys" "keys ! i = key"
      using keys(2) by (auto simp: in_set_conv_nth)
    then show "Some (mk_kp key) \<in> set kps \<and>
       strkey_Decode S VersionByteAccountID (kp_Address (mk_kp key)) = Inr (mk_raw key)"
      using list_all2_nthD2 [OF all2 i(1)] list_all2_lengthD [OF all2] i
      by (metis nth_mem)
  qed
qed

lemma multiSignKey_Inr_iff:
  "multiSignKey ctx payload key = Inr v \<longleftrightarrow>
     ctx = None \<and> (\<exists>sig. kp_Sign (mk_kp key) payload = Inr sig \<and> kp_Verify (mk_kp key) payload sig = None \<and>
       v = accountSignature (mk_raw key) sig)"
  by (auto simp: multiSignKey_def bindE_Inr_iff split: option.splits if_splits)

lemma multiSign_Inr:
  assumes "multiSign s ctx p payload = Inr v"
  obtains sigs where "v = scVec (map2 accountSignature (map mk_raw (snd s)) sigs)"
    "list_all2 (\<lambda>key sig. kp_Verify (mk_kp key) payload sig = None) (snd s) sigs"
proof -
  obtain vs where vs: "v = scVec vs" "list_all2 (\<lambda>k v. multiSignKey ctx payload k = Inr v) (snd s) vs"
    using assms by (auto simp: multiSign_def bindE_Inr_iff mapE_Inr_iff split: option.splits)
  have "\<exists>sigs. vs = map2 accountSignature (map mk_raw (snd s)) sigs \<and>
      list_all2 (\<lambda>key sig. kp_Verify (mk_kp key) payload sig = None) (snd s) sigs"
    using vs(2)
  proof (induction "snd s" vs arbitrary: s rule: list_all2_induct)
    case Nil
    then show ?case by simp
  next
    case (Cons k ks v vs)
    then obtain sigs where "vs = map2 accountSignature (map mk_raw ks) sigs"
      "list_all2 (\<lambda>key sig. kp_Verify (mk_kp key) payload sig = None) ks sigs"
      using Cons.hyps(3) [of "(fst s, ks)"] by auto
    moreover obtain sig where "kp_Verify (mk_kp k) payload sig = None" "v = accountSignature (mk_raw k) sig"
      using Cons.hyps(1) by (auto simp: multiSignKey_Inr_iff)
    ultimately have "v # vs = map2 accountSignature (map mk_raw (k # ks)) (sig # sigs)"
      "list_all2 (\<lambda>key sig. kp_Verify (mk_kp key) payload sig = None) (k # ks) (sig # sigs)"
      by simp_all
    then show ?case using Cons.hyps by metis
  qed
  then show ?thesis using that vs(1) by blast
qed

section \<open>Laws of the retry loop\<close>

text \<open>An answer that ends the loop: a signature, or a rejection.\<close>

definition settles :: "gerr + ScVal \<Rightarrow> bool" where
  "settles a = (case a of Inl e \<Rightarrow> IsSignatureRejection (Some e) | Inr _ \<Rightarrow> True)"

lemma sleepDuration_le: "sleepDuration b mb r \<le> mb"
  by (simp add: sleepDuration_def Let_def)

lemma retryLoop_sleeps:
  "retryLoop env mb left i b le = (sleeps, k, r) \<Longrightarrow>
   (\<forall>d \<in> set sleeps. d \<le> mb) \<and> length sleeps \<le> left"
  by (induction env mb left i b le arbitrary: sleeps k r rule: retryLoop.induct)
    (force simp: sleepDuration_le Let_def split: option.splits sum.splits if_splits prod.splits)+

lemma retryLoop_cases:
  assumes "retryLoop env mb (Suc left) i b le = (sleeps, k, r)" and "0 < i"
  obtains (stop) "k \<le> i" "i \<le> Suc k"
  | (again) e d sleeps' where "re_Answer env i = Inl e" "\<not> IsSignatureRejection (Some e)" "left \<noteq> 0"
      "sleeps = d # sleeps'"
      "retryLoop env mb left (Suc i) (nextBackoff b mb) (Some e) = (sleeps', k, r)"
  using assms by (auto simp: Let_def split: option.splits sum.splits if_splits prod.splits)

lemma retryLoop_bound:
  "retryLoop env mb (Suc left) i b le = (sleeps, k, r) \<Longrightarrow> 0 < i \<Longrightarrow>
   k \<le> i + left \<and> i \<le> Suc k \<and> (\<forall>j. i \<le> j \<and> j < k \<longrightarrow> \<not> settles (re_Answer env j))"
proof (induction left arbitrary: i b le sleeps k r)
  case 0
  then show ?case by (cases rule: retryLoop_cases [OF 0]) auto
next
  case (Suc left)
  from Suc.prems show ?case
  proof (cases rule: retryLoop_cases)
    case stop
    then show ?thesis by auto
  next
    case (again e d sleeps')
    then have "\<not> settles (re_Answer env i)" by (simp add: settles_def)
    moreover have "k \<le> Suc i + left" "Suc i \<le> Suc k"
      "\<forall>j. Suc i \<le> j \<and> j < k \<longrightarrow> \<not> settles (re_Answer env j)"
      using Suc.IH [OF again(5)] by auto
    ultimately show ?thesis by (auto simp: Suc_le_eq) (metis le_neq_implies_less)
  qed
qed

lemma retryLoop_uncancelled:
  "retryLoop env mb (Suc left) i b le = (sleeps, k, r) \<Longrightarrow> (\<And>i m. re_Err env i m = None) \<Longrightarrow>
   i \<le> k \<and> r = re_Answer env k \<and> (settles (re_Answer env k) \<or> k = i + left) \<and> length sleeps = k - i"
proof (induction left arbitrary: i b le sleeps k r)
  case 0
  then show ?case by (auto simp: settles_def split: option.splits sum.splits if_splits)
next
  case (Suc left)
  show ?case
  proof (cases "settles (re_Answer env i)")
    case True
    with Suc.prems show ?thesis
      by (auto simp: settles_def split: sum.splits)
  next
    case False
    with Suc.prems obtain e sleeps' d where "sleeps = d # sleeps'" 
      "retryLoop env mb (Suc left) (Suc i) (nextBackoff b mb) (Some e) = (sleeps', k, r)"
      by (auto simp: Let_def settles_def simp del: retryLoop.simps(2)
          simp: retryLoop.simps(2) [of env mb "Suc left"] split: sum.splits if_splits prod.splits)
    then show ?thesis using Suc.IH Suc.prems(2) by force
  qed
qed

end
