(* ===== verification/Verify.thy ===== *)
theory Verify
  imports Authorize Signers
begin

text \<open>
  Offline verification (\<^verbatim>\<open>src/verify.go\<close>): the payload is rebuilt from the entry as it
  stands, and each credential node gets one of four verdicts.
\<close>

section \<open>Verdicts and reports\<close>

datatype VerifyVerdict = VerdictVerified | VerdictUnsigned | VerdictInvalid | VerdictCannotCheck

primrec verdictString :: "VerifyVerdict \<Rightarrow> string" where
  "verdictString VerdictVerified = ''verified''"
| "verdictString VerdictUnsigned = ''unsigned''"
| "verdictString VerdictInvalid = ''invalid''"
| "verdictString VerdictCannotCheck = ''cannot_check''"

record NodeVerdict =
  nv_Address :: string
  nv_Verdict :: VerifyVerdict
  nv_Reason :: string

record VerificationReport =
  vr_CredentialType :: string
  vr_AddressBound :: bool
  vr_Address :: string
  vr_ValidUntilLedger :: uint32
  vr_Nodes :: "NodeVerdict list"
  vr_Note :: string

definition Verified :: "VerificationReport \<Rightarrow> bool" where
  "Verified r = list_all (\<lambda>node. nv_Verdict node = VerdictVerified) (vr_Nodes r)"

definition HasUnsignedNodes :: "VerificationReport \<Rightarrow> bool" where
  "HasUnsignedNodes r = list_ex (\<lambda>node. nv_Verdict node = VerdictUnsigned) (vr_Nodes r)"

definition reportString :: "VerificationReport \<Rightarrow> string" where
  "reportString r =
     (let nl = [CHR 0x0A] in
      if vr_CredentialType r = ''source_account''
      then ''source_account (no payload to verify)'' @
           (if vr_Note r \<noteq> '''' then '': '' @ vr_Note r else '''') @ nl
      else
        (if Verified r then ''VERIFIED: all credential nodes verified''
         else if HasUnsignedNodes r then ''NOT VERIFIED: unsigned node(s) present''
         else ''NOT VERIFIED: invalid or uncheckable node(s)'') @
        (if vr_Address r \<noteq> '''' then '' ['' @ vr_Address r @ '']'' else '''') @
        (if vr_CredentialType r \<noteq> '''' then '' ['' @ vr_CredentialType r @ '']'' else '''') @ nl @
        (if vr_ValidUntilLedger r \<noteq> 0
         then ''  valid until ledger: '' @ itoa (unat (vr_ValidUntilLedger r)) @ nl else '''') @
        (if vr_AddressBound r then ''  address-bound: yes'' @ nl else '''') @
        (if length (vr_Nodes r) > 0
         then nl @ ''credential nodes:'' @ nl @
              concat (map (\<lambda>node. ''  '' @ nv_Address node @ '': '' @ verdictString (nv_Verdict node) @
                (if nv_Reason node \<noteq> '''' then '' ('' @ nv_Reason node @ '')'' else '''') @ nl) (vr_Nodes r))
         else '''') @
        (if vr_Note r \<noteq> '''' then nl @ ''note: '' @ vr_Note r @ nl else ''''))"

section \<open>Reading a signature back\<close>

text \<open>
  The loop over the map: \<open>acc\<close> holds the two byte strings found so far. A key that is not
  a symbol is skipped; a symbol key with a value that is not bytes ends the loop.
\<close>

fun signatureFields ::
  "sdk \<Rightarrow> (ScVal \<times> ScVal) list \<Rightarrow> bytes option \<times> bytes option \<Rightarrow> gerr + (bytes option \<times> bytes option)" where
  "signatureFields S [] acc = Inr acc"
| "signatureFields S ((key, val) # entries) acc =
     (case key of
        ScvSymbol (Some field) \<Rightarrow>
          (case val of
             ScvBytes (Some b) \<Rightarrow>
               signatureFields S entries
                 (if field = ''public_key'' then (Some b, snd acc)
                  else if field = ''signature'' then (fst acc, Some b) else acc)
           | _ \<Rightarrow> Inl (errmsg (''signature field '' @ field @ '' is '' @ ScVal_TypeString S val @ '', not bytes'')))
      | _ \<Rightarrow> signatureFields S entries acc)"

definition parseAccountSignature :: "sdk \<Rightarrow> ScVal \<Rightarrow> gerr + (bytes \<times> bytes)" where
  "parseAccountSignature S value =
     (case value of
        ScvVec (Some (Some entries)) \<Rightarrow>
          (case entries of
             [element] \<Rightarrow>
               (case element of
                  ScvMap (Some (Some m)) \<Rightarrow>
                    bindE (signatureFields S m (None, None)) (\<lambda>(pk, sg).
                    case (pk, sg) of
                      (Some publicKey, Some signature) \<Rightarrow>
                        if length publicKey \<noteq> ed25519_PublicKeySize
                        then Inl (errmsg (''signature public key is '' @ itoa (length publicKey) @
                               '' bytes, want '' @ itoa ed25519_PublicKeySize))
                        else if length signature \<noteq> ed25519_SignatureSize
                        then Inl (errmsg (''signature is '' @ itoa (length signature) @ '' bytes, want '' @
                               itoa ed25519_SignatureSize))
                        else Inr (publicKey, signature)
                    | _ \<Rightarrow> Inl (errmsg ''signature map is missing public_key or signature''))
                | _ \<Rightarrow> Inl (errmsg (''signature vector holds '' @ ScVal_TypeString S element @ '', not a map'')))
           | _ \<Rightarrow> Inl (errmsg (''signature vector holds '' @ itoa (length entries) @ '' entries, want exactly 1'')))
      | _ \<Rightarrow> Inl (errmsg (''signature is '' @ ScVal_TypeString S value @ '', not the built-in account vector'')))"

section \<open>Verifying\<close>

definition contractAccountNote :: string where
  "contractAccountNote = ''the node addresses a C contract; only the contract's __check_auth defines whether its signature is valid, so this cannot be checked offline''"

definition shapeNote :: string where
  "shapeNote = ''the signature is not the built-in {public_key, signature} account shape; only the account's own logic defines its validity, so this cannot be checked offline''"

definition verifyNode :: "sdk \<Rightarrow> ScVal \<Rightarrow> bytes \<Rightarrow> bytes \<Rightarrow> gerr + NodeVerdict" where
  "verifyNode S signature encoded payload =
     bindE (wrapE ''decoding credential node address'' (ScAddress_UnmarshalBinary S encoded)) (\<lambda>address.
     bindE (FormatAddress S address) (\<lambda>formatted.
     if sa_Type address \<noteq> ScAddressTypeAccount
     then Inr \<lparr>nv_Address = formatted, nv_Verdict = VerdictCannotCheck, nv_Reason = contractAccountNote\<rparr>
     else if \<not> isSigned signature
     then Inr \<lparr>nv_Address = formatted, nv_Verdict = VerdictUnsigned,
               nv_Reason = ''the node carries no signature (Void or an empty vector)''\<rparr>
     else case parseAccountSignature S signature of
       Inl err \<Rightarrow> Inr \<lparr>nv_Address = formatted, nv_Verdict = VerdictCannotCheck,
                       nv_Reason = shapeNote @ '' ('' @ error_text err @ '')''\<rparr>
     | Inr (publicKey, rawSignature) \<Rightarrow>
         if \<not> ed25519_Verify S publicKey payload rawSignature
         then Inr \<lparr>nv_Address = formatted, nv_Verdict = VerdictInvalid,
                   nv_Reason = ''the stored signature does not verify over the payload the entry commits to''\<rparr>
         else Inr \<lparr>nv_Address = formatted, nv_Verdict = VerdictVerified, nv_Reason = ''''\<rparr>))"

text \<open>Reading through a node's pointer; the pointers of an entry's own nodes are never nil.\<close>

definition sigAt :: "SorobanAuthorizationEntry \<Rightarrow> sigptr \<Rightarrow> ScVal" where
  "sigAt e p = (case derefSig e p of Some v \<Rightarrow> v | None \<Rightarrow> ScvBool None)"

definition sourceAccountReport :: VerificationReport where
  "sourceAccountReport =
     \<lparr>vr_CredentialType = ''source_account'', vr_AddressBound = False, vr_Address = '''',
      vr_ValidUntilLedger = 0, vr_Nodes = [],
      vr_Note = ''source-account credentials carry no signature payload of their own; the transaction envelope's signature covers them, so there is nothing here to verify''\<rparr>"

definition VerifyEntryContext ::
  "sdk \<Rightarrow> ctx \<Rightarrow> SorobanAuthorizationEntry \<Rightarrow> string \<Rightarrow> gerr + VerificationReport" where
  "VerifyEntryContext S ctx entry networkPassphrase =
     (let op = ''soroauth: verify entry'' in
      case ctx of Some err \<Rightarrow> Inl (errw op err)
      | None \<Rightarrow>
      case cr_Type (en_Credentials entry) of
        CredentialsSourceAccount \<Rightarrow> Inr sourceAccountReport
      | CredentialsOther _ \<Rightarrow> Inl (errw op (Sentinel ErrUnsupportedCredentials))
      | _ \<Rightarrow>
        bindE (wrapE op (addressCredentials (en_Credentials entry))) (\<lambda>credentials.
        bindE (wrapE op (FormatAddress S (ac_Address credentials))) (\<lambda>address.
        let expiration = ac_SignatureExpirationLedger credentials in
        bindE (wrapE (op @ '' for '' @ address) (Preimage S entry expiration networkPassphrase)) (\<lambda>preimage.
        bindE (wrapE (op @ '' for '' @ address) (Payload S preimage)) (\<lambda>payload.
        bindE (wrapE op (credentialNodes S entry)) (\<lambda>nodes.
        bindE (wrapE op (mapE (\<lambda>node. verifyNode S (sigAt entry (cn_signature node)) (cn_encoded node) payload) nodes))
          (\<lambda>verdicts.
          Inr \<lparr>vr_CredentialType = credentialTypeName (cr_Type (en_Credentials entry)),
               vr_AddressBound = (cr_Type (en_Credentials entry) \<noteq> CredentialsAddress),
               vr_Address = address, vr_ValidUntilLedger = expiration,
               vr_Nodes = verdicts, vr_Note = ''''\<rparr>)))))))"

definition VerifyEntry :: "sdk \<Rightarrow> SorobanAuthorizationEntry \<Rightarrow> string \<Rightarrow> gerr + VerificationReport" where
  "VerifyEntry S entry networkPassphrase = VerifyEntryContext S None entry networkPassphrase"

section \<open>Laws\<close>

lemma parse_accountSignature:
  "length pk = ed25519_PublicKeySize \<Longrightarrow> length sig = ed25519_SignatureSize \<Longrightarrow>
   parseAccountSignature S (scVec [accountSignature pk sig]) = Inr (pk, sig)"
  by (simp add: parseAccountSignature_def scVec_def accountSignature_def scSymbol_def scBytes_def)

lemma isSigned_accountSignature [simp]: "isSigned (scVec [accountSignature pk sig])"
  by (simp add: isSigned_def scVec_def)

lemma parseAccountSignature_lengths:
  "parseAccountSignature S v = Inr (pk, sig) \<Longrightarrow>
   length pk = ed25519_PublicKeySize \<and> length sig = ed25519_SignatureSize"
  by (auto simp: parseAccountSignature_def bindE_Inr_iff
      split: ScVal.splits option.splits list.splits if_splits)

lemma verifyNode_verified_iff:
  "verifyNode S sig enc payload = Inr nv \<Longrightarrow>
   nv_Verdict nv = VerdictVerified \<longleftrightarrow>
     (\<exists>a pk raw. ScAddress_UnmarshalBinary S enc = Inr a \<and> sa_Type a = ScAddressTypeAccount \<and>
        isSigned sig \<and> parseAccountSignature S sig = Inr (pk, raw) \<and> ed25519_Verify S pk payload raw)"
  by (auto simp: verifyNode_def bindE_Inr_iff split: if_splits sum.splits)

lemma verifyNode_ok_iff:
  "isOk (verifyNode S sig enc payload) \<longleftrightarrow> isOk (formatAddressBytes S enc)"
proof (cases "ScAddress_UnmarshalBinary S enc")
  case (Inr a)
  then show ?thesis
    by (cases "FormatAddress S a"; cases "parseAccountSignature S sig")
      (simp_all add: verifyNode_def formatAddressBytes_def split: prod.splits)
qed (simp add: verifyNode_def formatAddressBytes_def)

text \<open>The pointers of an entry's nodes lead to signatures.\<close>

lemma credentialNodes_deref:
  assumes "credentialNodes S e = Inr nodes" and "c \<in> set nodes"
  shows "derefSig e (cn_signature c) \<noteq> None"
proof -
  obtain a topEnc ds where a: "addressCredentials (en_Credentials e) = Inr a"
    and ns: "nodes = \<lparr>cn_encoded = topEnc, cn_signature = []\<rparr> # ds"
    and ds: "list_all2 (nodeMatches S) (nodePaths 0 (delegatesOf e)) ds"
    using credentialNodes_Inr [OF assms(1)] .
  show ?thesis
  proof (cases "c \<in> set ds")
    case True
    then obtain p n where pn: "(p, n) \<in> set (nodePaths 0 (delegatesOf e))" "nodeMatches S (p, n) c"
      using ds by (auto simp: list_all2_conv_all_nth in_set_conv_nth) (metis prod.collapse)
    then have "p \<noteq> []" "cn_signature c = p"
      by (auto simp: nodeMatches_def dest: nodePaths_nonempty)
    then show ?thesis using derefDelegate_node [OF pn(1)] by (auto simp: derefSig_def)
  next
    case False
    with assms(2) ns a show ?thesis by (simp add: derefSig_def)
  qed
qed

lemma sigAt_signedEntry:
  assumes "credentialNodes S e = Inr nodes" and "c \<in> set nodes"
  shows "sigAt (signedEntry S t s v e) (cn_signature c) =
     (if cn_encoded c = t then s else sigAt e (cn_signature c))"
  by (simp add: sigAt_def derefSig_signedEntry [OF assms])

text \<open>The report on a freshly signed entry: one verdict per node, over the payload that was signed.\<close>

lemma VerifyEntry_signedEntry:
  assumes a: "addressCredentials (en_Credentials e) = Inr a"
    and nodes: "credentialNodes S e = Inr nodes"
    and p: "Preimage S e v net = Inr p" and h: "Payload S p = Inr h"
    and fmt: "isOk (FormatAddress S (ac_Address a))"
      "\<forall>c \<in> set nodes. isOk (formatAddressBytes S (cn_encoded c))"
  obtains r where "VerifyEntry S (signedEntry S t s v e) net = Inr r"
    "list_all2 (\<lambda>c nv. verifyNode S (if cn_encoded c = t then s else sigAt e (cn_signature c))
       (cn_encoded c) h = Inr nv) nodes (vr_Nodes r)"
proof -
  let ?e' = "signedEntry S t s v e"
  let ?f = "\<lambda>c. verifyNode S (if cn_encoded c = t then s else sigAt e (cn_signature c)) (cn_encoded c) h"
  have "isOk (mapE ?f nodes)"
    using fmt(2) by (simp add: isOk_mapE verifyNode_ok_iff)
  then obtain vs where vs: "mapE ?f nodes = Inr vs" by (auto simp: isOk_iff)
  have "mapE (\<lambda>c. verifyNode S (sigAt ?e' (cn_signature c)) (cn_encoded c) h) nodes = mapE ?f nodes"
    by (rule mapE_cong) (simp_all add: sigAt_signedEntry [OF nodes])
  then have m: "mapE (\<lambda>c. verifyNode S (sigAt ?e' (cn_signature c)) (cn_encoded c) h) nodes = Inr vs"
    using vs by simp
  obtain addr where addr: "FormatAddress S (ac_Address a) = Inr addr"
    using fmt(1) by (auto simp: isOk_iff)
  have p': "Preimage S ?e' v net = Inr p"
    using p Preimage_signedEntry [OF a] by simp
  have n': "credentialNodes S ?e' = Inr nodes"
    using nodes credentialNodes_signedEntry by simp
  have "\<exists>r. VerifyEntry S ?e' net = Inr r \<and> vr_Nodes r = vs"
    using a addr p' h n' m signedEntry_credentials [OF a, of S t s v]
    by (cases "cr_Type (en_Credentials e)")
      (simp_all add: VerifyEntry_def VerifyEntryContext_def Let_def addressCredentials_def)
  then show ?thesis using that vs by (auto simp: mapE_Inr_iff)
qed

end
