(* ===== verification/Encoding.thy ===== *)
theory Encoding
  imports Prelude
begin

text \<open>
  The text encodings of Go's standard library the canonical form uses: standard base64 with
  strict padding (\<open>encoding/base64\<close>), hexadecimal (\<open>encoding/hex\<close>), decimal integers
  (\<open>strconv\<close>) and the check that a string is UTF-8 (\<open>unicode/utf8\<close>). Each decoder is
  shown to invert its encoder. A Go string is a list of bytes written as characters.
\<close>

section \<open>Bytes and strings\<close>

definition bytesString :: "bytes \<Rightarrow> string" where
  "bytesString b = map (\<lambda>w. char_of (unat w)) b"

definition stringBytes :: "string \<Rightarrow> bytes" where
  "stringBytes s = map (\<lambda>c. word_of_nat (of_char c)) s"

lemma bytesString_stringBytes [simp]: "bytesString (stringBytes s) = s"
proof -
  have "char_of (unat (word_of_nat (of_char c) :: byte)) = c" for c
    by (simp add: unat_of_nat)
  then show ?thesis by (simp add: bytesString_def stringBytes_def map_idI comp_def)
qed

section \<open>Big-endian numbers\<close>

text \<open>
  The number a byte string holds, most significant byte first (\<open>binary.BigEndian\<close>,
  \<open>big.Int.SetBytes\<close>), and a number written in a fixed number of bytes
  (\<open>big.Int.FillBytes\<close>, for a number that fits).
\<close>

definition bigEndian :: "bytes \<Rightarrow> nat" where
  "bigEndian b = foldl (\<lambda>acc w. acc * 256 + unat w) 0 b"

primrec fillBytes :: "nat \<Rightarrow> nat \<Rightarrow> bytes" where
  "fillBytes 0 n = []"
| "fillBytes (Suc k) n = fillBytes k (n div 256) @ [word_of_nat (n mod 256)]"

lemma length_fillBytes [simp]: "length (fillBytes k n) = k"
  by (induction k arbitrary: n) simp_all

lemma bigEndian_append: "bigEndian (b @ [w]) = bigEndian b * 256 + unat w"
  by (simp add: bigEndian_def)

lemma bigEndian_Nil [simp]: "bigEndian [] = 0"
  by (simp add: bigEndian_def)

lemma bigEndian_fillBytes: "n < 256 ^ k \<Longrightarrow> bigEndian (fillBytes k n) = n"
proof (induction k arbitrary: n)
  case 0
  then show ?case by simp
next
  case (Suc k)
  have "n div 256 < 256 ^ k" using Suc.prems by (simp add: less_mult_imp_div_less mult.commute)
  then show ?case using Suc.IH by (simp add: bigEndian_append unat_of_nat)
qed

lemma bigEndian_less: "bigEndian b < 256 ^ length b"
proof (induction b rule: rev_induct)
  case Nil
  then show ?case by simp
next
  case (snoc w b)
  have "unat w < 256" using unsigned_less [of w] by simp
  then have "bigEndian b * 256 + unat w < Suc (bigEndian b) * 256" by simp
  also have "\<dots> \<le> 256 ^ length b * 256" using snoc by (intro mult_right_mono) simp_all
  finally show ?case by (simp add: bigEndian_append)
qed

lemma fillBytes_bigEndian: "length b = k \<Longrightarrow> fillBytes k (bigEndian b) = b"
proof (induction b arbitrary: k rule: rev_induct)
  case Nil
  then show ?case by simp
next
  case (snoc w b)
  have "unat w < 256" using unsigned_less [of w] by simp
  then have "(bigEndian b * 256 + unat w) div 256 = bigEndian b" "(bigEndian b * 256 + unat w) mod 256 = unat w"
    by simp_all
  with snoc show ?case by (cases k) (simp_all add: bigEndian_append)
qed

section \<open>Base64\<close>

definition base64_alphabet :: string where
  "base64_alphabet = ''ABCDEFGHIJKLMNOPQRSTUVWXYZabcdefghijklmnopqrstuvwxyz0123456789+/''"

definition b64Char :: "nat \<Rightarrow> char" where
  "b64Char n = base64_alphabet ! n"

definition b64Val :: "char \<Rightarrow> nat option" where
  "b64Val c = indexOf base64_alphabet c"

fun base64_EncodeToString :: "bytes \<Rightarrow> string" where
  "base64_EncodeToString [] = []"
| "base64_EncodeToString [a] =
     [b64Char (unat a div 4), b64Char (unat a mod 4 * 16), CHR ''='', CHR ''='']"
| "base64_EncodeToString [a, b] =
     [b64Char (unat a div 4), b64Char (unat a mod 4 * 16 + unat b div 16), b64Char (unat b mod 16 * 4), CHR ''='']"
| "base64_EncodeToString (a # b # c # rest) =
     b64Char (unat a div 4) # b64Char (unat a mod 4 * 16 + unat b div 16) #
     b64Char (unat b mod 16 * 4 + unat c div 64) # b64Char (unat c mod 64) # base64_EncodeToString rest"

text \<open>
  The strict decoder, four characters at a time. Padding ends the input, and the bits it
  leaves unused have to be zero.
\<close>

fun decodeQuads :: "string \<Rightarrow> bytes option" where
  "decodeQuads [] = Some []"
| "decodeQuads (w # x # y # z # rest) =
     (case (b64Val w, b64Val x) of
        (Some p, Some q) \<Rightarrow>
          if y = CHR ''=''
          then if z = CHR ''='' \<and> rest = [] \<and> q mod 16 = 0 then Some [word_of_nat (p * 4 + q div 16)] else None
          else (case b64Val y of None \<Rightarrow> None
                | Some r \<Rightarrow>
                    if z = CHR ''=''
                    then if rest = [] \<and> r mod 4 = 0
                         then Some [word_of_nat (p * 4 + q div 16), word_of_nat (q mod 16 * 16 + r div 4)] else None
                    else (case b64Val z of None \<Rightarrow> None
                          | Some s \<Rightarrow>
                              (case decodeQuads rest of None \<Rightarrow> None
                               | Some bs \<Rightarrow> Some (word_of_nat (p * 4 + q div 16) #
                                   word_of_nat (q mod 16 * 16 + r div 4) # word_of_nat (r mod 4 * 64 + s) # bs))))
      | _ \<Rightarrow> None)"
| "decodeQuads _ = None"

text \<open>Go's decoder skips carriage returns and newlines wherever they stand.\<close>

definition base64_DecodeString :: "string \<Rightarrow> bytes option" where
  "base64_DecodeString s = decodeQuads (filter (\<lambda>c. c \<noteq> CHR 0x0A \<and> c \<noteq> CHR 0x0D) s)"

lemma distinct_base64_alphabet: "distinct base64_alphabet" "length base64_alphabet = 64"
  by (simp_all add: base64_alphabet_def)

lemma b64Val_b64Char [simp]: "n < 64 \<Longrightarrow> b64Val (b64Char n) = Some n"
  using distinct_base64_alphabet by (simp add: b64Val_def b64Char_def indexOf_nth)

lemma b64Char_in: "n < 64 \<Longrightarrow> b64Char n \<in> set base64_alphabet"
  using distinct_base64_alphabet(2) by (simp add: b64Char_def)

lemma b64Char_not [simp]:
  assumes "n < 64"
  shows "b64Char n \<noteq> CHR ''=''" "b64Char n \<noteq> CHR 0x0A" "b64Char n \<noteq> CHR 0x0D"
proof -
  have "CHR ''='' \<notin> set base64_alphabet" "CHR 0x0A \<notin> set base64_alphabet" "CHR 0x0D \<notin> set base64_alphabet"
    by (simp_all add: base64_alphabet_def)
  then show "b64Char n \<noteq> CHR ''=''" "b64Char n \<noteq> CHR 0x0A" "b64Char n \<noteq> CHR 0x0D"
    using b64Char_in [OF assms] by metis+
qed

lemma byte_less: "unat (a :: byte) < 256"
  using unsigned_less [of a] by simp

lemma sextets:
  fixes a b c :: byte
  shows "unat a div 4 < 64" "unat a mod 4 * 16 < 64" "unat a mod 4 * 16 + unat b div 16 < 64"
    "unat b mod 16 * 4 < 64" "unat b mod 16 * 4 + unat c div 64 < 64" "unat c mod 64 < 64"
  using byte_less [of a] byte_less [of b] byte_less [of c] by auto

lemma octets:
  fixes a b c :: byte
  shows "unat a div 4 * 4 + (unat a mod 4 * 16 + unat b div 16) div 16 = unat a"
    "(unat a mod 4 * 16 + unat b div 16) mod 16 * 16 + (unat b mod 16 * 4 + unat c div 64) div 4 = unat b"
    "(unat b mod 16 * 4 + unat c div 64) mod 4 * 64 + unat c mod 64 = unat c"
proof -
  have b: "unat b div 16 < 16" and c: "unat c div 64 < 4"
    using byte_less [of b] byte_less [of c] by auto
  show "unat a div 4 * 4 + (unat a mod 4 * 16 + unat b div 16) div 16 = unat a"
    using b by simp
  show "(unat a mod 4 * 16 + unat b div 16) mod 16 * 16 + (unat b mod 16 * 4 + unat c div 64) div 4 = unat b"
    using b c by simp
  show "(unat b mod 16 * 4 + unat c div 64) mod 4 * 64 + unat c mod 64 = unat c"
    using c by simp
qed

lemma octets_padded:
  fixes a b :: byte
  shows "unat a div 4 * 4 + unat a mod 4 * 16 div 16 = unat a"
    "(unat a mod 4 * 16 + unat b div 16) mod 16 * 16 + unat b mod 16 * 4 div 4 = unat b"
  using byte_less [of b] by auto

lemma decodeQuads_encode: "decodeQuads (base64_EncodeToString b) = Some b"
proof (induction b rule: base64_EncodeToString.induct)
  case 1
  then show ?case by simp
next
  case (2 a)
  define p where "p = unat a div 4"
  define q where "q = unat a mod 4 * 16"
  have "p < 64" "q < 64" "q mod 16 = 0" "p * 4 + q div 16 = unat a"
    unfolding p_def q_def by (simp_all add: sextets octets_padded)
  then have "decodeQuads [b64Char p, b64Char q, CHR ''='', CHR ''=''] = Some [a]" by simp
  then show ?case by (simp add: p_def q_def)
next
  case (3 a b)
  define p where "p = unat a div 4"
  define q where "q = unat a mod 4 * 16 + unat b div 16"
  define r where "r = unat b mod 16 * 4"
  have "p < 64" "q < 64" "r < 64" "r mod 4 = 0" "p * 4 + q div 16 = unat a" "q mod 16 * 16 + r div 4 = unat b"
    unfolding p_def q_def r_def by (simp_all only: sextets octets octets_padded mod_mult_self2_is_0)
  then have "decodeQuads [b64Char p, b64Char q, b64Char r, CHR ''=''] = Some [a, b]" by simp
  then show ?case by (simp add: p_def q_def r_def)
next
  case (4 a b c rest)
  define p where "p = unat a div 4"
  define q where "q = unat a mod 4 * 16 + unat b div 16"
  define r where "r = unat b mod 16 * 4 + unat c div 64"
  define s where "s = unat c mod 64"
  have "p < 64" "q < 64" "r < 64" "s < 64" "p * 4 + q div 16 = unat a" "q mod 16 * 16 + r div 4 = unat b"
    "r mod 4 * 64 + s = unat c"
    unfolding p_def q_def r_def s_def by (simp_all only: sextets octets)
  then have "decodeQuads (b64Char p # b64Char q # b64Char r # b64Char s # base64_EncodeToString rest) =
      Some (a # b # c # rest)"
    using 4 by simp
  then show ?case by (simp add: p_def q_def r_def s_def)
qed

lemma filter_base64 [simp]:
  "filter (\<lambda>c. c \<noteq> CHR 0x0A \<and> c \<noteq> CHR 0x0D) (base64_EncodeToString b) = base64_EncodeToString b"
  by (induction b rule: base64_EncodeToString.induct) (simp_all add: sextets)

lemma base64_roundtrip [simp]: "base64_DecodeString (base64_EncodeToString b) = Some b"
  by (simp add: base64_DecodeString_def decodeQuads_encode)

lemma base64_empty [simp]: "base64_EncodeToString b = [] \<longleftrightarrow> b = []"
  by (cases b rule: base64_EncodeToString.cases) simp_all

section \<open>Hexadecimal\<close>

definition hexVal :: "char \<Rightarrow> nat option" where
  "hexVal c =
     (let n = of_char c :: nat in
      if 48 \<le> n \<and> n \<le> 57 then Some (n - 48)
      else if 97 \<le> n \<and> n \<le> 102 then Some (n - 87)
      else if 65 \<le> n \<and> n \<le> 70 then Some (n - 55) else None)"

fun hex_DecodeString :: "string \<Rightarrow> bytes option" where
  "hex_DecodeString [] = Some []"
| "hex_DecodeString (x # y # rest) =
     (case (hexVal x, hexVal y, hex_DecodeString rest) of
        (Some h, Some l, Some bs) \<Rightarrow> Some (word_of_nat (16 * h + l) # bs)
      | _ \<Rightarrow> None)"
| "hex_DecodeString _ = None"

lemma hexVal_hexDigit [simp]: "n < 16 \<Longrightarrow> hexVal (hexDigit n) = Some n"
  by (auto simp: hexVal_def hexDigit_def Let_def)

lemma hex_Cons: "hex (w # b) = hexDigit (unat w div 16) # hexDigit (unat w mod 16) # hex b"
  by (simp add: hex_def)

lemma hex_Nil [simp]: "hex [] = []"
  by (simp add: hex_def)

lemma hex_roundtrip [simp]: "hex_DecodeString (hex b) = Some b"
proof (induction b)
  case Nil
  then show ?case by simp
next
  case (Cons w b)
  have "unat w div 16 < 16" using byte_less [of w] by auto
  then show ?case using Cons by (simp add: hex_Cons)
qed

lemma length_hex [simp]: "length (hex b) = 2 * length b"
  by (induction b) (simp_all add: hex_Cons)

section \<open>Decimal integers\<close>

definition digitVal :: "char \<Rightarrow> nat option" where
  "digitVal c = (let n = of_char c :: nat in if 48 \<le> n \<and> n \<le> 57 then Some (n - 48) else None)"

fun digitsVal :: "nat \<Rightarrow> string \<Rightarrow> nat option" where
  "digitsVal acc [] = Some acc"
| "digitsVal acc (c # cs) =
     (case digitVal c of None \<Rightarrow> None | Some d \<Rightarrow> digitsVal (acc * 10 + d) cs)"

text \<open>\<open>strconv.ParseUint(s, 10, 64)\<close> and \<open>strconv.ParseInt(s, 10, 64)\<close>, errors as \<open>None\<close>.\<close>

definition ParseUint64 :: "string \<Rightarrow> 64 word option" where
  "ParseUint64 s =
     (if s = [] then None
      else case digitsVal 0 s of None \<Rightarrow> None
      | Some n \<Rightarrow> if n < 2 ^ 64 then Some (word_of_nat n) else None)"

definition ParseInt64 :: "string \<Rightarrow> 64 word option" where
  "ParseInt64 s =
     (let neg = (s \<noteq> [] \<and> hd s = CHR ''-'');
          digits = (if s \<noteq> [] \<and> (hd s = CHR ''-'' \<or> hd s = CHR ''+'') then tl s else s)
      in if digits = [] then None
         else case digitsVal 0 digits of None \<Rightarrow> None
         | Some n \<Rightarrow>
             if neg then if n \<le> 2 ^ 63 then Some (word_of_int (- int n)) else None
             else if n < 2 ^ 63 then Some (word_of_nat n) else None)"

definition FormatUint64 :: "64 word \<Rightarrow> string" where
  "FormatUint64 w = itoa (unat w)"

definition FormatInt64 :: "64 word \<Rightarrow> string" where
  "FormatInt64 w = itoa_int (sint w)"

lemma digitVal_digit [simp]: "n < 10 \<Longrightarrow> digitVal (char_of (48 + n)) = Some n"
  by (simp add: digitVal_def Let_def)

lemma digitsVal_append: "digitsVal acc (xs @ ys) = Option.bind (digitsVal acc xs) (\<lambda>a. digitsVal a ys)"
  by (induction acc xs rule: digitsVal.induct) (auto split: option.splits)

lemma digitsVal_itoa: "digitsVal 0 (itoa n) = Some n"
proof (induction n rule: itoa.induct)
  case (1 n)
  show ?case
  proof (cases "n < 10")
    case True
    then show ?thesis by (simp add: itoa.simps [of n])
  next
    case False
    then show ?thesis
      using 1 by (simp add: itoa.simps [of n] digitsVal_append)
  qed
qed

lemma itoa_ne [simp]: "itoa n \<noteq> []"
  by (subst itoa.simps) simp

lemma hd_itoa: "\<exists>d < 10. hd (itoa n) = char_of (48 + d :: nat)"
proof (induction n rule: itoa.induct)
  case (1 n)
  then show ?case by (cases "n < 10") (auto simp: itoa.simps [of n] hd_append)
qed

lemma hd_itoa_not_sign: "hd (itoa n) \<noteq> CHR ''-''" "hd (itoa n) \<noteq> CHR ''+''"
proof -
  obtain d where d: "d < 10" "hd (itoa n) = char_of (48 + d :: nat)" using hd_itoa by blast
  have "(of_char (char_of (48 + d :: nat)) :: nat) = 48 + d" using d(1) by simp
  moreover have "(of_char CHR ''-'' :: nat) = 45" "(of_char CHR ''+'' :: nat) = 43" by simp_all
  ultimately show "hd (itoa n) \<noteq> CHR ''-''" "hd (itoa n) \<noteq> CHR ''+''" using d(2) by (metis add_lessD1 less_irrefl numeral_less_iff order_less_le_trans le_add1 semiring_norm)+
qed

lemma uint64_roundtrip [simp]: "ParseUint64 (FormatUint64 w) = Some w"
  using unsigned_less [of w] by (simp add: ParseUint64_def FormatUint64_def digitsVal_itoa)

lemma FormatUint64_ne [simp]: "FormatUint64 w \<noteq> []"
  by (simp add: FormatUint64_def)

lemma FormatInt64_ne [simp]: "FormatInt64 w \<noteq> []"
  by (simp add: FormatInt64_def itoa_int_def)

lemma int64_roundtrip [simp]: "ParseInt64 (FormatInt64 w) = Some w"
proof (cases "sint w < 0")
  case True
  have "- sint w \<le> 2 ^ 63" using sint_ge [of w] by simp
  then have "nat (- sint w) \<le> 2 ^ 63" by (simp add: nat_le_iff)
  then show ?thesis using True
    by (simp add: ParseInt64_def FormatInt64_def itoa_int_def Let_def digitsVal_itoa)
next
  case False
  have "sint w < 2 ^ 63" using sint_lt [of w] by simp
  then have "nat (sint w) < 2 ^ 63" using False by (simp add: nat_less_iff)
  then show ?thesis using False hd_itoa_not_sign [of "nat (sint w)"]
    by (simp add: ParseInt64_def FormatInt64_def itoa_int_def Let_def digitsVal_itoa)
qed

section \<open>UTF-8\<close>

definition between :: "nat \<Rightarrow> nat \<Rightarrow> nat \<Rightarrow> bool" where
  "between lo hi n \<longleftrightarrow> lo \<le> n \<and> n \<le> hi"

text \<open>The acceptance ranges of \<open>utf8.ValidString\<close>, on byte values.\<close>

fun utf8Bytes :: "nat list \<Rightarrow> bool" where
  "utf8Bytes [] = True"
| "utf8Bytes (a # rest) =
     (if a < 128 then utf8Bytes rest
      else case rest of
        b # rest1 \<Rightarrow>
          if between 194 223 a then between 128 191 b \<and> utf8Bytes rest1
          else (case rest1 of
            c # rest2 \<Rightarrow>
              if between 224 239 a
              then (if a = 224 then between 160 191 b else if a = 237 then between 128 159 b else between 128 191 b) \<and>
                   between 128 191 c \<and> utf8Bytes rest2
              else (case rest2 of
                d # rest3 \<Rightarrow>
                  between 240 244 a \<and>
                  (if a = 240 then between 144 191 b else if a = 244 then between 128 143 b else between 128 191 b) \<and>
                  between 128 191 c \<and> between 128 191 d \<and> utf8Bytes rest3
              | [] \<Rightarrow> False)
          | [] \<Rightarrow> False)
      | [] \<Rightarrow> False)"

definition utf8_ValidString :: "string \<Rightarrow> bool" where
  "utf8_ValidString s = utf8Bytes (map of_char s)"

end
