(* ===== verification/Sample_Sdk.thy ===== *)
theory Sample_Sdk
  imports Verify Encoding
begin

text \<open>
  A concrete SDK and concrete entries, on which the theorems with hypotheses about the SDK
  are applied. The codecs of entries and preimages number the members of a finite table;
  addresses are encoded as a tag and their 32 bytes; strkeys are the rows of a table; the
  hash keeps the first 32 bytes, and a signature is the public key followed by the hash of the
  message.
\<close>

section \<open>A table-driven SDK\<close>

definition tableEncode :: "'a list \<Rightarrow> 'a \<Rightarrow> gerr + bytes" where
  "tableEncode t v =
     (case indexOf t v of None \<Rightarrow> Inl (errmsg ''no encoding'') | Some i \<Rightarrow> Inr [word_of_nat i])"

definition tableDecode :: "'a list \<Rightarrow> bytes \<Rightarrow> gerr + ('a \<times> nat)" where
  "tableDecode t b =
     (case b of [w] \<Rightarrow> if unat w < length t then Inr (t ! unat w, 1) else Inl (errmsg ''bad encoding'')
      | _ \<Rightarrow> Inl (errmsg ''bad encoding''))"

definition sampleHash :: "bytes \<Rightarrow> bytes" where
  "sampleHash b = take 32 (b @ replicate 32 0)"

definition keyOf :: "byte \<Rightarrow> bytes" where
  "keyOf w = w # replicate 31 0"

lemma length_keyOf [simp]: "length (keyOf w) = 32"
  by (simp add: keyOf_def)

lemma keyOf_eq [simp]: "keyOf v = keyOf w \<longleftrightarrow> v = w"
  by (simp add: keyOf_def)

lemma keyOf_less [simp]: "keyOf v < keyOf w \<longleftrightarrow> v < w"
  by (simp add: keyOf_def)

lemma keyOf_le [simp]: "keyOf v \<le> keyOf w \<longleftrightarrow> v \<le> w"
  by (auto simp: keyOf_def)

definition strkeys :: "(string \<times> VersionByte \<times> bytes) list" where
  "strkeys = [(''GA'', VersionByteAccountID, keyOf 1), (''GB'', VersionByteAccountID, keyOf 2),
              (''GD'', VersionByteAccountID, keyOf 4), (''CA'', VersionByteContract, keyOf 3),
              (''MA'', VersionByteMuxedAccount, keyOf 9)]"

definition strkeyDecode :: "string \<Rightarrow> gerr + (VersionByte \<times> bytes)" where
  "strkeyDecode s = (case map_of strkeys s of None \<Rightarrow> Inl (errmsg ''bad strkey'') | Some r \<Rightarrow> Inr r)"

definition strkeyEncode :: "VersionByte \<Rightarrow> bytes \<Rightarrow> gerr + string" where
  "strkeyEncode v b =
     (case find (\<lambda>r. snd r = (v, b)) strkeys of None \<Rightarrow> Inl (errmsg ''bad key'') | Some r \<Rightarrow> Inr (fst r))"

definition addressMarshal :: "ScAddress \<Rightarrow> gerr + bytes" where
  "addressMarshal a =
     (case (sa_Type a, map_option aid_Ed25519 (sa_AccountId a), sa_ContractId a) of
        (ScAddressTypeAccount, Some (Some k), _) \<Rightarrow> Inr (0 # k)
      | (ScAddressTypeContract, _, Some k) \<Rightarrow> Inr (1 # k)
      | _ \<Rightarrow> Inl (errmsg ''bad address''))"

definition addressUnmarshal :: "bytes \<Rightarrow> gerr + ScAddress" where
  "addressUnmarshal b =
     (case b of w # k \<Rightarrow> if w = 0 then Inr (accountAddress k) else if w = 1 then Inr (contractAddress k)
                       else Inl (errmsg ''bad address'')
      | [] \<Rightarrow> Inl (errmsg ''bad address''))"

definition tableSdk :: "SorobanAuthorizationEntry list \<Rightarrow> HashIdPreimage list \<Rightarrow> sdk" where
  "tableSdk es ps =
     \<lparr>strkey_DecodeAny = strkeyDecode,
      strkey_Decode = (\<lambda>v s. bindE (strkeyDecode s) (\<lambda>(v', b). if v = v' then Inr b else Inl (errmsg ''bad version''))),
      strkey_Encode = strkeyEncode,
      AccountId_GetAddress = (\<lambda>a. case aid_Ed25519 a of None \<Rightarrow> Inl (errmsg ''no key'')
                                 | Some k \<Rightarrow> strkeyEncode VersionByteAccountID k),
      ScAddress_MarshalBinary = addressMarshal, ScAddress_UnmarshalBinary = addressUnmarshal,
      ScVal_TypeString = (\<lambda>v. ''ScVal''),
      ScVal_MarshalBinary = (\<lambda>v. Inr [word_of_nat (size v)]),
      Function_MarshalBinary = (\<lambda>f. Inl (errmsg ''no encoding'')),
      ScAddress_MarshalBase64 = (\<lambda>a. bindE (addressMarshal a) (\<lambda>b. Inr (base64_EncodeToString b))),
      ScAddress_SafeUnmarshalBase64WithOptions = (\<lambda>s d. case base64_DecodeString s of
         None \<Rightarrow> Inl (errmsg ''bad base64'') | Some b \<Rightarrow> addressUnmarshal b),
      ScVal_MarshalBase64 = (\<lambda>v. Inl (errmsg ''no encoding'')),
      ScVal_SafeUnmarshalBase64WithOptions = (\<lambda>s d. Inl (errmsg ''no encoding'')),
      Asset_SafeUnmarshalBase64WithOptions = (\<lambda>s d. Inl (errmsg ''no encoding'')),
      Asset_MarshalBinary = (\<lambda>b. Inr b),
      CredentialsType_value = (\<lambda>_. 0),
      Entry_MarshalBinary = tableEncode es, Entry_DecodeBytes = tableDecode es,
      Entry_SafeUnmarshalBase64 = (\<lambda>s. bindE (tableDecode es (map (\<lambda>c. of_char c) s)) (\<lambda>(e, n). Inr e)),
      Entry_SafeUnmarshalBase64WithOptions =
        (\<lambda>s d. bindE (tableDecode es (map (\<lambda>c. of_char c) s)) (\<lambda>(e, n). Inr e)),
      Preimage_MarshalBinary = tableEncode ps, Preimage_DecodeBytes = tableDecode ps,
      network_ID = (\<lambda>s. sampleHash (map (\<lambda>c. of_char c) s)),
      sha256_Sum256 = sampleHash,
      ed25519_Verify = (\<lambda>k m s. s = k @ sampleHash m)\<rparr>"

lemmas sample_defs = tableSdk_def strkeyDecode_def strkeyEncode_def strkeys_def
  addressMarshal_def addressUnmarshal_def tableEncode_def tableDecode_def

section \<open>Sample entries\<close>

definition sampleInvocation :: SorobanAuthorizedInvocation where
  "sampleInvocation =
     Invocation (FnContractFn (Some \<lparr>ica_ContractAddress = contractAddress (keyOf 3),
        ica_FunctionName = ''transfer'', ica_Args = []\<rparr>)) []"

definition sampleCredentials :: "ScAddress \<Rightarrow> SorobanAddressCredentials" where
  "sampleCredentials a =
     \<lparr>ac_Address = a, ac_Nonce = 7, ac_SignatureExpirationLedger = 0, ac_Signature = ScvVoid\<rparr>"

definition entrySource :: SorobanAuthorizationEntry where
  "entrySource =
     \<lparr>en_Credentials = \<lparr>cr_Type = CredentialsSourceAccount, cr_Address = None, cr_AddressV2 = None,
        cr_AddressWithDelegates = None\<rparr>, en_RootInvocation = sampleInvocation\<rparr>"

definition entryLegacy :: SorobanAuthorizationEntry where
  "entryLegacy =
     \<lparr>en_Credentials = \<lparr>cr_Type = CredentialsAddress,
        cr_Address = Some (sampleCredentials (accountAddress (keyOf 1))), cr_AddressV2 = None,
        cr_AddressWithDelegates = None\<rparr>, en_RootInvocation = sampleInvocation\<rparr>"

definition entryV2 :: SorobanAuthorizationEntry where
  "entryV2 =
     \<lparr>en_Credentials = \<lparr>cr_Type = CredentialsAddressV2, cr_Address = None,
        cr_AddressV2 = Some (sampleCredentials (accountAddress (keyOf 1))),
        cr_AddressWithDelegates = None\<rparr>, en_RootInvocation = sampleInvocation\<rparr>"

definition sampleDelegates :: "ScVal \<Rightarrow> SorobanDelegateSignature list" where
  "sampleDelegates s =
     [DelegateSignature (accountAddress (keyOf 1)) s [],
      DelegateSignature (accountAddress (keyOf 2)) ScvVoid
        [DelegateSignature (accountAddress (keyOf 1)) s []]]"

definition entryDelegates :: SorobanAuthorizationEntry where
  "entryDelegates =
     \<lparr>en_Credentials = \<lparr>cr_Type = CredentialsAddressWithDelegates, cr_Address = None, cr_AddressV2 = None,
        cr_AddressWithDelegates = Some
          \<lparr>wd_AddressCredentials = sampleCredentials (contractAddress (keyOf 3)),
           wd_Delegates = sampleDelegates ScvVoid\<rparr>\<rparr>,
      en_RootInvocation = sampleInvocation\<rparr>"

text \<open>A delegates entry on which the second delegate has already signed.\<close>

definition entryPartial :: SorobanAuthorizationEntry where
  "entryPartial =
     \<lparr>en_Credentials = \<lparr>cr_Type = CredentialsAddressWithDelegates, cr_Address = None, cr_AddressV2 = None,
        cr_AddressWithDelegates = Some
          \<lparr>wd_AddressCredentials = (sampleCredentials (contractAddress (keyOf 3)))\<lparr>ac_SignatureExpirationLedger := 100\<rparr>,
           wd_Delegates =
             [DelegateSignature (accountAddress (keyOf 1)) ScvVoid [],
              DelegateSignature (accountAddress (keyOf 2)) (ScvBytes (Some [1])) []]\<rparr>\<rparr>,
      en_RootInvocation = sampleInvocation\<rparr>"

definition sampleNetwork :: string where
  "sampleNetwork = ''net''"

definition sampleNetworkId :: bytes where
  "sampleNetworkId = sampleHash (map (\<lambda>c. of_char c) sampleNetwork)"

definition preimageLegacy :: HashIdPreimage where
  "preimageLegacy =
     \<lparr>hp_Type = EnvelopeTypeSorobanAuthorization,
      hp_SorobanAuthorization = Some \<lparr>pa_NetworkId = sampleNetworkId, pa_Nonce = 7,
        pa_SignatureExpirationLedger = 100, pa_Invocation = sampleInvocation\<rparr>,
      hp_SorobanAuthorizationWithAddress = None\<rparr>"

definition preimageBound :: "ScAddress \<Rightarrow> HashIdPreimage" where
  "preimageBound a =
     \<lparr>hp_Type = EnvelopeTypeSorobanAuthorizationWithAddress, hp_SorobanAuthorization = None,
      hp_SorobanAuthorizationWithAddress = Some \<lparr>pw_NetworkId = sampleNetworkId, pw_Nonce = 7,
        pw_SignatureExpirationLedger = 100, pw_Address = a, pw_Invocation = sampleInvocation\<rparr>\<rparr>"

definition sampleSdk :: sdk where
  "sampleSdk = tableSdk [entrySource, entryLegacy, entryV2, entryDelegates, entryPartial]
     [preimageLegacy, preimageBound (accountAddress (keyOf 1)), preimageBound (contractAddress (keyOf 3))]"

definition sampleKeypair :: ed25519Keypair where
  "sampleKeypair =
     \<lparr>kp_Address = ''GA'', kp_Sign = (\<lambda>m. Inr (keyOf 1 @ sampleHash m)),
      kp_Verify = (\<lambda>m s. if s = keyOf 1 @ sampleHash m then None else Some (errmsg ''bad signature''))\<rparr>"

definition sampleSigner :: signer where
  "sampleSigner = NewEd25519Signer sampleSdk (Some sampleKeypair)"

text \<open>The signature the sample key makes over the \<open>i\<close>-th preimage of the table.\<close>

definition sampleSignature :: "byte \<Rightarrow> ScVal" where
  "sampleSignature i = scVec [accountSignature (keyOf 1) (keyOf 1 @ keyOf i)]"

lemmas sample_entries = entrySource_def entryLegacy_def entryV2_def entryDelegates_def
  sampleDelegates_def sampleCredentials_def sampleNetwork_def preimageLegacy_def preimageBound_def

section \<open>The sample SDK at work\<close>

lemma length_sampleHash [simp]: "length (sampleHash b) = 32"
  by (simp add: sampleHash_def)

lemma sampleHash_keyOf [simp]: "sampleHash (keyOf w) = keyOf w"
  by (simp add: sampleHash_def keyOf_def)

lemma sample_crypto [simp]:
  "strkey_DecodeAny sampleSdk ''GA'' = Inr (VersionByteAccountID, keyOf 1)"
  "strkey_Decode sampleSdk VersionByteAccountID ''GA'' = Inr (keyOf 1)"
  "ed25519_Verify sampleSdk k m s \<longleftrightarrow> s = k @ sampleHash m"
  "kp_Address sampleKeypair = ''GA''"
  "kp_Sign sampleKeypair m = Inr (keyOf 1 @ sampleHash m)"
  "kp_Verify sampleKeypair m s = None \<longleftrightarrow> s = keyOf 1 @ sampleHash m"
  by (simp_all add: sampleSdk_def tableSdk_def strkeyDecode_def strkeys_def sampleKeypair_def)

lemma sample_addresses [simp]:
  "ParseAddress sampleSdk ''GA'' = Inr (accountAddress (keyOf 1))"
  "ParseAddress sampleSdk ''GB'' = Inr (accountAddress (keyOf 2))"
  "ParseAddress sampleSdk ''CA'' = Inr (contractAddress (keyOf 3))"
  "FormatAddress sampleSdk (accountAddress (keyOf 1)) = Inr ''GA''"
  "FormatAddress sampleSdk (accountAddress (keyOf 2)) = Inr ''GB''"
  "FormatAddress sampleSdk (contractAddress (keyOf 3)) = Inr ''CA''"
  by (simp_all add: ParseAddress_def FormatAddress_def sampleSdk_def sample_defs accountAddress_def
      contractAddress_def scAddressPayloadLen_def)

lemma sample_encodings [simp]:
  "ScAddress_MarshalBinary sampleSdk (accountAddress k) = Inr (0 # k)"
  "ScAddress_MarshalBinary sampleSdk (contractAddress k) = Inr (1 # k)"
  "ScAddress_UnmarshalBinary sampleSdk (0 # k) = Inr (accountAddress k)"
  "ScAddress_UnmarshalBinary sampleSdk (1 # k) = Inr (contractAddress k)"
  by (simp_all add: sampleSdk_def sample_defs accountAddress_def contractAddress_def)

lemma table_roundtrip:
  assumes "v \<in> set t" and "length t \<le> 256"
  shows "\<exists>b. tableEncode t v = Inr b \<and> tableDecode t b = Inr (v, length b)"
proof -
  obtain i where i: "i < length t" "indexOf t v = Some i" "t ! i = v"
    using indexOf_Some [OF assms(1)] by blast
  then have "unat (word_of_nat i :: byte) = i"
    using assms(2) by (simp add: unat_of_nat)
  with i show ?thesis by (simp add: tableEncode_def tableDecode_def)
qed

lemma tableSdk_entry_roundtrips: "e \<in> set es \<Longrightarrow> length es \<le> 256 \<Longrightarrow> entry_roundtrips (tableSdk es ps) e"
  using table_roundtrip [of e es] by (simp add: entry_roundtrips_def tableSdk_def)

lemma tableSdk_preimage_roundtrips:
  "p \<in> set ps \<Longrightarrow> length ps \<le> 256 \<Longrightarrow> preimage_roundtrips (tableSdk es ps) p"
  using table_roundtrip [of p ps] by (simp add: preimage_roundtrips_def tableSdk_def)

lemma sample_roundtrips [simp]:
  "entry_roundtrips sampleSdk entrySource" "entry_roundtrips sampleSdk entryLegacy"
  "entry_roundtrips sampleSdk entryV2" "entry_roundtrips sampleSdk entryDelegates"
  "entry_roundtrips sampleSdk entryPartial"
  "preimage_roundtrips sampleSdk preimageLegacy"
  "preimage_roundtrips sampleSdk (preimageBound (accountAddress (keyOf 1)))"
  "preimage_roundtrips sampleSdk (preimageBound (contractAddress (keyOf 3)))"
  by (simp_all add: sampleSdk_def tableSdk_entry_roundtrips tableSdk_preimage_roundtrips)

lemma accountAddress_neq [simp]:
  "accountAddress k \<noteq> contractAddress k'" "contractAddress k \<noteq> accountAddress k'"
  "accountAddress k = accountAddress k' \<longleftrightarrow> k = k'"
  "contractAddress k = contractAddress k' \<longleftrightarrow> k = k'"
  by (simp_all add: accountAddress_def contractAddress_def)

lemma sample_preimages [simp]:
  "Preimage_MarshalBinary sampleSdk preimageLegacy = Inr [0]"
  "Preimage_MarshalBinary sampleSdk (preimageBound (accountAddress (keyOf 1))) = Inr [1]"
  "Preimage_MarshalBinary sampleSdk (preimageBound (contractAddress (keyOf 3))) = Inr [2]"
  by (simp_all add: sampleSdk_def tableSdk_def tableEncode_def preimageLegacy_def preimageBound_def)

lemma sample_hash [simp]: "sha256_Sum256 sampleSdk [i] = keyOf i"
  by (simp add: sampleSdk_def tableSdk_def sampleHash_def keyOf_def)

lemma sample_network [simp]: "network_ID sampleSdk sampleNetwork = sampleNetworkId"
  by (simp add: sampleSdk_def tableSdk_def sampleNetworkId_def)

lemma sample_payloads [simp]:
  "Payload sampleSdk preimageLegacy = Inr (keyOf 0)"
  "Payload sampleSdk (preimageBound (accountAddress (keyOf 1))) = Inr (keyOf 1)"
  "Payload sampleSdk (preimageBound (contractAddress (keyOf 3))) = Inr (keyOf 2)"
  by (simp_all add: Payload_def)

lemma sample_builds [simp]:
  "Preimage sampleSdk entryLegacy 100 sampleNetwork = Inr preimageLegacy"
  "Preimage sampleSdk entryV2 100 sampleNetwork = Inr (preimageBound (accountAddress (keyOf 1)))"
  "Preimage sampleSdk entryDelegates 100 sampleNetwork = Inr (preimageBound (contractAddress (keyOf 3)))"
  "Preimage sampleSdk entryPartial 100 sampleNetwork = Inr (preimageBound (contractAddress (keyOf 3)))"
proof -
  have net: "sampleNetwork \<noteq> ''''" by (simp add: sampleNetwork_def)
  have "buildPreimage sampleSdk entryLegacy 100 sampleNetwork = Inr preimageLegacy"
    "buildPreimage sampleSdk entryV2 100 sampleNetwork = Inr (preimageBound (accountAddress (keyOf 1)))"
    "buildPreimage sampleSdk entryDelegates 100 sampleNetwork = Inr (preimageBound (contractAddress (keyOf 3)))"
    "buildPreimage sampleSdk entryPartial 100 sampleNetwork = Inr (preimageBound (contractAddress (keyOf 3)))"
    unfolding buildPreimage_Inr_iff
    by (simp_all add: net entryLegacy_def entryV2_def entryDelegates_def entryPartial_def sampleCredentials_def
        addressCredentials_def specPreimage_def preimageLegacy_def preimageBound_def)
  then show "Preimage sampleSdk entryLegacy 100 sampleNetwork = Inr preimageLegacy"
    "Preimage sampleSdk entryV2 100 sampleNetwork = Inr (preimageBound (accountAddress (keyOf 1)))"
    "Preimage sampleSdk entryDelegates 100 sampleNetwork = Inr (preimageBound (contractAddress (keyOf 3)))"
    "Preimage sampleSdk entryPartial 100 sampleNetwork = Inr (preimageBound (contractAddress (keyOf 3)))"
    by (simp_all add: Preimage_def copyPreimage_id)
qed

lemma sample_signs [simp]:
  "sg_Sign sampleSigner None p (keyOf i) = Inr (sampleSignature i)"
  "sg_Address sampleSigner = ''GA''"
  by (simp_all add: sampleSigner_def NewEd25519Signer_def ed25519Sign_Inr_iff sampleSignature_def)

lemma sample_address_roundtrips [simp]:
  "address_roundtrips sampleSdk (accountAddress k)" "address_roundtrips sampleSdk (contractAddress k)"
  by (simp_all add: address_roundtrips_def)

lemma sample_target [simp]:
  "resolveTarget sampleSdk zeroConfig sampleSigner = Inr (''GA'', 0 # keyOf 1)"
  by (simp add: resolveTarget_def zeroConfig_def addressBytes_def)

lemma sample_nodes [simp]:
  "credentialNodes sampleSdk entryLegacy = Inr [\<lparr>cn_encoded = 0 # keyOf 1, cn_signature = []\<rparr>]"
  "credentialNodes sampleSdk entryV2 = Inr [\<lparr>cn_encoded = 0 # keyOf 1, cn_signature = []\<rparr>]"
  "credentialNodes sampleSdk entryDelegates =
     Inr [\<lparr>cn_encoded = 1 # keyOf 3, cn_signature = []\<rparr>, \<lparr>cn_encoded = 0 # keyOf 1, cn_signature = [0]\<rparr>,
          \<lparr>cn_encoded = 0 # keyOf 2, cn_signature = [1]\<rparr>, \<lparr>cn_encoded = 0 # keyOf 1, cn_signature = [1, 0]\<rparr>]"
  "credentialNodes sampleSdk entryPartial =
     Inr [\<lparr>cn_encoded = 1 # keyOf 3, cn_signature = []\<rparr>, \<lparr>cn_encoded = 0 # keyOf 1, cn_signature = [0]\<rparr>,
          \<lparr>cn_encoded = 0 # keyOf 2, cn_signature = [1]\<rparr>]"
  by (simp_all add: credentialNodes_def entryLegacy_def entryV2_def entryDelegates_def entryPartial_def sampleCredentials_def
      addressCredentials_def addressBytes_def delegatesOf_def sampleDelegates_def delegateNodesOf.simps
      MaxDecodeDepth_def)

lemma sample_order [simp]:
  "ValidateDelegateOrder sampleSdk entryDelegates = Inr ()"
  "ValidateDelegateOrder sampleSdk entryPartial = Inr ()"
  by (simp_all add: ValidateDelegateOrder_def entryDelegates_def entryPartial_def sampleDelegates_def addressBytes_def
      validateDelegateLevel.simps compareWithPrevious_def MaxDecodeDepth_def)

text \<open>
  Where the guards pass and the signer answers, the call returns the specified entry.
\<close>

lemma AuthorizeEntry_fresh:
  assumes "copyEntry S e = Inr e" "addressCredentials (en_Credentials e) = Inr a" "v \<noteq> 0"
    and "resolveTarget S zeroConfig sg = Inr (target, enc)"
    and "cr_Type (en_Credentials e) = CredentialsAddressWithDelegates \<Longrightarrow> ValidateDelegateOrder S e = Inr ()"
    and nodes: "credentialNodes S e = Inr nodes"
    and "\<exists>c \<in> set nodes. cn_encoded c = enc" "\<forall>c \<in> set nodes. cn_encoded c = enc \<longrightarrow> \<not> signedAt e (cn_signature c)"
    and "Preimage S e v net = Inr p" "Payload S p = Inr h" "sg_Sign sg None p h = Inr sig"
    and "ac_SignatureExpirationLedger a = v \<or> (\<forall>c \<in> set nodes. \<not> signedAt e (cn_signature c))"
  shows "authorized S None e (Some sg) v net [] = Inr (signedEntry S enc sig v e)"
proof -
  let ?ms = "map cn_signature (filter (\<lambda>node. cn_encoded node = enc) nodes)"
  have "filter (\<lambda>node. cn_encoded node = enc) nodes \<noteq> []"
    using assms(7) by (auto simp: filter_empty_conv)
  then have "authorizeGuards S zeroConfig e (Some sg) v = Inr (sg, target, e, ?ms)"
    using assms(1-6,8,12)
    by (auto simp: authorizeGuards_def resolveScope_def zeroConfig_def Let_def list_ex_iff)
  moreover have "cr_Type (en_Credentials e) \<noteq> CredentialsSourceAccount"
    using assms(2) by (auto simp: addressCredentials_def)
  ultimately show ?thesis
    using assms(9-11) writes_give_signedEntry [OF nodes, of sig enc v]
    by (simp add: AuthorizeEntry_def applyOptions_def Let_def)
qed

lemma sample_unsigned [simp]:
  "\<not> signedAt entryLegacy []" "\<not> signedAt entryV2 []" "\<not> signedAt entryDelegates []"
  "\<not> signedAt entryPartial []" "\<not> signedAt entryPartial [0]" "signedAt entryPartial [Suc 0]"
  "\<not> signedAt entryDelegates [0]" "\<not> signedAt entryDelegates [Suc 0]" "\<not> signedAt entryDelegates [Suc 0, 0]"
  by (simp_all add: signedAt_def derefSig_def delegatesOf_def entryLegacy_def entryV2_def entryDelegates_def
      entryPartial_def sampleDelegates_def sampleCredentials_def addressCredentials_def isSigned_def)

lemma sample_credentials [simp]:
  "addressCredentials (en_Credentials entryLegacy) = Inr (sampleCredentials (accountAddress (keyOf 1)))"
  "addressCredentials (en_Credentials entryV2) = Inr (sampleCredentials (accountAddress (keyOf 1)))"
  "addressCredentials (en_Credentials entryDelegates) = Inr (sampleCredentials (contractAddress (keyOf 3)))"
  "addressCredentials (en_Credentials entryPartial) =
     Inr ((sampleCredentials (contractAddress (keyOf 3)))\<lparr>ac_SignatureExpirationLedger := 100\<rparr>)"
  "cr_Type (en_Credentials entryPartial) = CredentialsAddressWithDelegates"
  "cr_Type (en_Credentials entryLegacy) = CredentialsAddress"
  "cr_Type (en_Credentials entryV2) = CredentialsAddressV2"
  "cr_Type (en_Credentials entryDelegates) = CredentialsAddressWithDelegates"
  by (simp_all add: addressCredentials_def entryLegacy_def entryV2_def entryDelegates_def entryPartial_def)

lemma sampleCredentials_fields [simp]:
  "ac_Address (sampleCredentials a) = a" "ac_Nonce (sampleCredentials a) = 7"
  "ac_SignatureExpirationLedger (sampleCredentials a) = 0" "ac_Signature (sampleCredentials a) = ScvVoid"
  by (simp_all add: sampleCredentials_def)

lemma sample_frames [simp]:
  "cr_Type (en_Credentials entrySource) = CredentialsSourceAccount"
  "en_RootInvocation entryLegacy = sampleInvocation" "en_RootInvocation entryV2 = sampleInvocation"
  "en_RootInvocation entryDelegates = sampleInvocation" "en_RootInvocation entryPartial = sampleInvocation"
  by (simp_all add: entrySource_def entryLegacy_def entryV2_def entryDelegates_def entryPartial_def)

lemma sample_spec [simp]:
  "specPreimage sampleSdk True (sampleCredentials a) sampleInvocation 100 sampleNetwork = preimageBound a"
  "specPreimage sampleSdk False (sampleCredentials a) sampleInvocation 100 sampleNetwork = preimageLegacy"
  by (simp_all add: specPreimage_def preimageBound_def preimageLegacy_def sampleCredentials_def)

lemma sample_authorizes_legacy [simp]:
  "authorized sampleSdk None entryLegacy (Some sampleSigner) 100 sampleNetwork [] =
     Inr (signedEntry sampleSdk (0 # keyOf 1) (sampleSignature 0) 100 entryLegacy)"
  by (rule AuthorizeEntry_fresh [OF copyEntry_id [OF sample_roundtrips(2)] sample_credentials(1) _ sample_target _
        sample_nodes(1) _ _ sample_builds(1) sample_payloads(1) sample_signs(1)]) simp_all

lemma sample_authorizes_v2 [simp]:
  "authorized sampleSdk None entryV2 (Some sampleSigner) 100 sampleNetwork [] =
     Inr (signedEntry sampleSdk (0 # keyOf 1) (sampleSignature 1) 100 entryV2)"
  by (rule AuthorizeEntry_fresh [OF copyEntry_id [OF sample_roundtrips(3)] sample_credentials(2) _ sample_target _
        sample_nodes(2) _ _ sample_builds(2) sample_payloads(2) sample_signs(1)]) simp_all

lemma sample_authorizes_delegates [simp]:
  "authorized sampleSdk None entryDelegates (Some sampleSigner) 100 sampleNetwork [] =
     Inr (signedEntry sampleSdk (0 # keyOf 1) (sampleSignature 2) 100 entryDelegates)"
  by (rule AuthorizeEntry_fresh [OF copyEntry_id [OF sample_roundtrips(4)] sample_credentials(3) _ sample_target _
        sample_nodes(3) _ _ sample_builds(3) sample_payloads(3) sample_signs(1)]) simp_all

lemma sample_authorizes_partial [simp]:
  "authorized sampleSdk None entryPartial (Some sampleSigner) 100 sampleNetwork [] =
     Inr (signedEntry sampleSdk (0 # keyOf 1) (sampleSignature 2) 100 entryPartial)"
  by (rule AuthorizeEntry_fresh [OF copyEntry_id [OF sample_roundtrips(5)] sample_credentials(4) _ sample_target _
        sample_nodes(4) _ _ sample_builds(4) sample_payloads(3) sample_signs(1)]) simp_all

lemma sample_verifies:
  "\<exists>r. VerifyEntry sampleSdk (signedEntry sampleSdk (0 # keyOf 1) (sampleSignature 1) 100 entryV2)
     sampleNetwork = Inr r \<and> Verified r"
proof -
  obtain r where r: "VerifyEntry sampleSdk (signedEntry sampleSdk (0 # keyOf 1) (sampleSignature 1) 100 entryV2)
      sampleNetwork = Inr r"
    "list_all2 (\<lambda>c nv. verifyNode sampleSdk (if cn_encoded c = 0 # keyOf 1 then sampleSignature 1
       else sigAt entryV2 (cn_signature c)) (cn_encoded c) (keyOf 1) = Inr nv)
       [\<lparr>cn_encoded = 0 # keyOf 1, cn_signature = []\<rparr>] (vr_Nodes r)"
    by (rule VerifyEntry_signedEntry [OF sample_credentials(2) sample_nodes(2) sample_builds(2) sample_payloads(2),
          where t = "0 # keyOf 1" and s = "sampleSignature 1"])
      (simp_all add: sampleCredentials_def formatAddressBytes_def)
  have "verifyNode sampleSdk (sampleSignature 1) (0 # keyOf 1) (keyOf 1) =
      Inr \<lparr>nv_Address = ''GA'', nv_Verdict = VerdictVerified, nv_Reason = ''''\<rparr>"
    by (simp add: verifyNode_def sampleSignature_def parse_accountSignature ed25519_PublicKeySize_def
        ed25519_SignatureSize_def) (simp add: accountAddress_def)
  then have "Verified r" using r(2) by (auto simp: list_all2_Cons1 Verified_def)
  then show ?thesis using r(1) by blast
qed

end
