(* ===== verification/Key_Store.thy ===== *)
theory Key_Store
  imports Verify
begin

text \<open>
  The contract of a signer for a classic account, wherever its key is kept: every answer is one
  classic signature that the account's key verifies over the payload. The library of the contract
  is that \<open>VerifyEntry\<close> accepts what \<open>AuthorizeEntry\<close> made of such an answer; the in-process
  signer of \<^verbatim>\<open>src/signer.go\<close>, the Ledger and the Vault signers interpret it.
\<close>

section \<open>The contract\<close>

text \<open>
  \<open>accountKey S s raw\<close> says that \<open>s\<close> signs with the key \<open>raw\<close>, under what is relied on about
  the key pair and the SDK.
\<close>

locale classic_signer =
  fixes signs :: "sdk \<Rightarrow> 's \<Rightarrow> signer" and accountKey :: "sdk \<Rightarrow> 's \<Rightarrow> bytes \<Rightarrow> bool"
  assumes answers: "accountKey S s raw \<Longrightarrow> sg_Sign (signs S s) ctx preimage payload = Inr v \<Longrightarrow>
      \<exists>sig. v = scVec [accountSignature raw sig] \<and> length sig = 64 \<and> ed25519_Verify S raw payload sig"
    and key_length: "accountKey S s raw \<Longrightarrow> length raw = 32"
begin

lemma resolved_target:
  assumes "accountKey S s raw" "strkey_DecodeAny S (sg_Address (signs S s)) = Inr (VersionByteAccountID, raw)"
    and "resolveTarget S (applyOptions []) (signs S s) = Inr (target, enc)"
  shows "ScAddress_MarshalBinary S (accountAddress raw) = Inr enc"
proof -
  have "ParseAddress S (sg_Address (signs S s)) = Inr (accountAddress raw)"
    using assms(1,2) key_length by (simp add: ParseAddress_Inr_iff)
  then show ?thesis
    using assms(3) by (auto simp: resolveTarget_def applyOptions_def zeroConfig_def bindE_Inr_iff Let_def split: if_splits)
qed

lemma answer_verifies:
  assumes "accountKey S s raw" "sg_Sign (signs S s) ctx preimage h = Inr sig"
    and "ScAddress_UnmarshalBinary S enc = Inr (accountAddress raw)" "verifyNode S sig enc h = Inr nv"
  shows "nv_Verdict nv = VerdictVerified"
proof -
  obtain sigb where "sig = scVec [accountSignature raw sigb]" "length sigb = 64" "ed25519_Verify S raw h sigb"
    using answers [OF assms(1,2)] by blast
  then show ?thesis
    using verifyNode_verified_iff [OF assms(4)] assms(3) key_length [OF assms(1)]
    by (simp add: parse_accountSignature ed25519_PublicKeySize_def ed25519_SignatureSize_def accountAddress_def)
qed

lemma signed_then_verified:
  assumes "authorized S None e (Some (signs S s)) v net [] = Inr e'"
    and "cr_Type (en_Credentials e) \<noteq> CredentialsSourceAccount" and "entry_roundtrips S e"
    and "accountKey S s raw"
    and "strkey_DecodeAny S (sg_Address (signs S s)) = Inr (VersionByteAccountID, raw)"
    and "address_roundtrips S (accountAddress raw)"
    and "credentialNodes S e = Inr nodes"
    and "\<And>a. addressCredentials (en_Credentials e) = Inr a \<Longrightarrow> isOk (FormatAddress S (ac_Address a))"
    and "\<forall>c \<in> set nodes. isOk (formatAddressBytes S (cn_encoded c))"
  shows "\<exists>enc r. ScAddress_MarshalBinary S (accountAddress raw) = Inr enc \<and> VerifyEntry S e' net = Inr r \<and>
     list_all2 (\<lambda>c nv. cn_encoded c = enc \<longrightarrow> nv_Verdict nv = VerdictVerified) nodes (vr_Nodes r)"
proof -
  obtain sg target enc a nodes' p h sig where s: "Some (signs S s) = Some sg"
    "resolveTarget S (applyOptions []) sg = Inr (target, enc)" "addressCredentials (en_Credentials e) = Inr a"
    "credentialNodes S e = Inr nodes'" "Preimage S e v net = Inr p" "Payload S p = Inr h"
    "sg_Sign sg None p h = Inr sig" "e' = signedEntry S enc sig v e"
    using AuthorizeEntry_signs [OF assms(1-3)] by metis
  have enc: "ScAddress_MarshalBinary S (accountAddress raw) = Inr enc"
    using resolved_target [OF assms(4,5)] s(1,2) by simp
  then have dec: "ScAddress_UnmarshalBinary S enc = Inr (accountAddress raw)"
    using assms(6) by (simp add: address_roundtrips_def)
  obtain r where r: "VerifyEntry S e' net = Inr r"
    "list_all2 (\<lambda>c nv. verifyNode S (if cn_encoded c = enc then sig else sigAt e (cn_signature c))
       (cn_encoded c) h = Inr nv) nodes (vr_Nodes r)"
    unfolding s(8)
    by (rule VerifyEntry_signedEntry [OF s(3) assms(7) s(5,6) assms(8) [OF s(3)] assms(9), of enc sig])
  have "nv_Verdict nv = VerdictVerified" if "verifyNode S sig enc h = Inr nv" for nv
    by (rule answer_verifies [OF assms(4) _ dec that]) (use s(1,7) in simp)
  then have "list_all2 (\<lambda>c nv. cn_encoded c = enc \<longrightarrow> nv_Verdict nv = VerdictVerified) nodes (vr_Nodes r)"
    using r(2) by (auto elim!: list_all2_mono)
  then show ?thesis using enc r(1) by blast
qed

end

section \<open>The in-process key pair\<close>

definition keypairKey :: "sdk \<Rightarrow> ed25519Keypair \<Rightarrow> bytes \<Rightarrow> bool" where
  "keypairKey S kp raw \<longleftrightarrow> strkey_Decode S VersionByteAccountID (kp_Address kp) = Inr raw \<and> length raw = 32 \<and>
     (\<forall>m s. kp_Verify kp m s = None \<longrightarrow> length s = 64 \<and> ed25519_Verify S raw m s)"

interpretation local_key: classic_signer "\<lambda>S kp. NewEd25519Signer S (Some kp)" keypairKey
  by unfold_locales (auto simp: keypairKey_def NewEd25519Signer_def ed25519Sign_Inr_iff)

end
