(* ===== verification/Signing_Properties.thy ===== *)
theory Signing_Properties
  imports Sample_Sdk Key_Store
begin

text \<open>
  What signing, verifying and the preimage guarantee, stated over the definitions of
  \<^verbatim>\<open>Preimages\<close>, \<^verbatim>\<open>Nodes\<close>, \<^verbatim>\<open>Delegates\<close>, \<^verbatim>\<open>Authorize\<close> and \<^verbatim>\<open>Verify\<close>,
  each theorem applied to the entries of \<^verbatim>\<open>Sample_Sdk\<close>.
\<close>

section \<open>Signing an entry\<close>



text \<open>
  The expiration stored on the returned entry is the one signed over, and the preimage
  rebuilt from the returned entry with its own stored expiration is the preimage that was
  signed.
\<close>

lemma authorize_payload_rebuilds:
  assumes "authorized S ctx e sgo v net opts = Inr e'"
    and "cr_Type (en_Credentials e) \<noteq> CredentialsSourceAccount" and "entry_roundtrips S e"
  shows "\<exists>a'. addressCredentials (en_Credentials e') = Inr a' \<and> ac_SignatureExpirationLedger a' = v \<and>
     v \<noteq> 0 \<and> isOk (Preimage S e v net) \<and>
     Preimage S e' (ac_SignatureExpirationLedger a') net = Preimage S e v net"
proof -
  obtain sg target enc scope a nodes p h sig where s: "v \<noteq> 0"
    "addressCredentials (en_Credentials e) = Inr a" "Preimage S e v net = Inr p"
    "e' = signedEntry S enc sig v e"
    using AuthorizeEntry_signs [OF assms] .
  then show ?thesis
    by (simp add: signedEntry_credentials Preimage_signedEntry)
qed

text \<open>
  C4: a call without \<open>AllowResign\<close> never replaces a signature: every node of the entry
  that carried one still carries the same one, the nodes and the invocation are unchanged,
  and so is the arm.
\<close>

theorem authorize_preserves_signatures:
  assumes "authorized S ctx e sgo v net opts = Inr e'"
    and "cr_Type (en_Credentials e) \<noteq> CredentialsSourceAccount" and "entry_roundtrips S e"
    and "\<not> cf_allowResign (applyOptions opts)"
  shows "\<exists>nodes. credentialNodes S e = Inr nodes \<and> credentialNodes S e' = Inr nodes \<and>
     (\<forall>c \<in> set nodes. signedAt e (cn_signature c) \<longrightarrow> derefSig e' (cn_signature c) = derefSig e (cn_signature c)) \<and>
     en_RootInvocation e' = en_RootInvocation e \<and>
     cr_Type (en_Credentials e') = cr_Type (en_Credentials e)"
proof -
  obtain sg target enc scope a nodes p h sig where s: "credentialNodes S e = Inr nodes"
    "e' = signedEntry S enc sig v e"
    "(cf_allowResign (applyOptions opts) \<and> resignAllowedFor enc scope) \<or>
     (\<forall>c \<in> set nodes. cn_encoded c = enc \<longrightarrow> \<not> signedAt e (cn_signature c))"
    using AuthorizeEntry_signs [OF assms(1-3)] .
  then have "\<forall>c \<in> set nodes. signedAt e (cn_signature c) \<longrightarrow>
      derefSig e' (cn_signature c) = derefSig e (cn_signature c)"
    using assms(4) derefSig_signedEntry [OF s(1)] by auto
  then show ?thesis using s(1,2) credentialNodes_signedEntry by simp
qed

theorem authorize_preserves_signatures_witness:
  "\<exists>nodes. credentialNodes sampleSdk entryDelegates = Inr nodes \<and>
     credentialNodes sampleSdk (signedEntry sampleSdk (0 # keyOf 1) (sampleSignature 2) 100 entryDelegates) = Inr nodes \<and>
     (\<forall>c \<in> set nodes. signedAt entryDelegates (cn_signature c) \<longrightarrow>
        derefSig (signedEntry sampleSdk (0 # keyOf 1) (sampleSignature 2) 100 entryDelegates) (cn_signature c) =
        derefSig entryDelegates (cn_signature c)) \<and>
     en_RootInvocation (signedEntry sampleSdk (0 # keyOf 1) (sampleSignature 2) 100 entryDelegates) =
       en_RootInvocation entryDelegates \<and>
     cr_Type (en_Credentials (signedEntry sampleSdk (0 # keyOf 1) (sampleSignature 2) 100 entryDelegates)) =
       cr_Type (en_Credentials entryDelegates)"
  by (rule authorize_preserves_signatures [OF sample_authorizes_delegates])
    (simp_all add: applyOptions_def zeroConfig_def)

text \<open>
  On the delegates arm one expiration covers every signature: when any node was already
  signed, a successful call used the expiration the entry already stored.
\<close>

lemma authorize_shares_expiration:
  assumes "authorized S ctx e sgo v net opts = Inr e'"
    and "cr_Type (en_Credentials e) = CredentialsAddressWithDelegates" and "entry_roundtrips S e"
    and "credentialNodes S e = Inr nodes" and "\<exists>c \<in> set nodes. signedAt e (cn_signature c)"
  shows "\<exists>a. addressCredentials (en_Credentials e) = Inr a \<and> ac_SignatureExpirationLedger a = v"
proof -
  have "cr_Type (en_Credentials e) \<noteq> CredentialsSourceAccount" using assms(2) by simp
  then obtain sg target enc scope a nodes' p h sig where
    "addressCredentials (en_Credentials e) = Inr a" "credentialNodes S e = Inr nodes'"
    "cr_Type (en_Credentials e) = CredentialsAddressWithDelegates \<longrightarrow>
       ac_SignatureExpirationLedger a = v \<or> (\<forall>c \<in> set nodes'. \<not> signedAt e (cn_signature c))"
    using AuthorizeEntry_signs [OF assms(1) _ assms(3)] by metis
  then show ?thesis using assms(2,4,5) by auto
qed

text \<open>
  A node that already carries a signature stops the call with \<open>ErrAlreadySigned\<close>
  unless the caller allowed re-signing for its address: for an entry whose guards before
  that one pass, no signer is consulted and no hook is called.
\<close>

lemma authorize_refuses_resign:
  assumes "cr_Type (en_Credentials e) \<noteq> CredentialsSourceAccount" "copyEntry S e = Inr e"
    and "addressCredentials (en_Credentials e) = Inr a" "ac_SignatureExpirationLedger a = v" "v \<noteq> 0"
    and "resolveTarget S (applyOptions opts) sg = Inr (target, enc)"
    and "resolveScope S (cf_allowResignAddresses (applyOptions opts)) = Inr scope"
    and "cr_Type (en_Credentials e) = CredentialsAddressWithDelegates \<longrightarrow> isOk (ValidateDelegateOrder S e)"
    and "credentialNodes S e = Inr nodes" "c \<in> set nodes" "cn_encoded c = enc" "signedAt e (cn_signature c)"
    and "\<not> (cf_allowResign (applyOptions opts) \<and> resignAllowedFor enc scope)"
  shows "fst (AuthorizeEntry S None e (Some sg) v net opts) = [] \<and>
     failsWith (snd (AuthorizeEntry S None e (Some sg) v net opts)) ErrAlreadySigned"
proof -
  let ?ms = "filter (\<lambda>node. cn_encoded node = enc) nodes"
  have ms: "?ms \<noteq> []" "list_ex (signedAt e) (map cn_signature ?ms)"
    using assms(10-12) by (auto simp: filter_empty_conv list_ex_iff)
  have "failsWith (authorizeGuards S (applyOptions opts) e (Some sg) v) ErrAlreadySigned"
    using assms(2-9,13) ms
    by (cases "cr_Type (en_Credentials e) = CredentialsAddressWithDelegates")
      (auto simp: authorizeGuards_def Let_def isOk_iff)
  then show ?thesis
    using assms(1)
    by (cases "authorizeGuards S (applyOptions opts) e (Some sg) v") (auto simp: AuthorizeEntry_def Let_def)
qed

text \<open>
  Source-account credentials pass through: the entry comes back as it is, whatever the
  signer, the expiration and the options, and no hook is called.
\<close>

lemma authorize_source_account:
  assumes "cr_Type (en_Credentials e) = CredentialsSourceAccount" and "entry_roundtrips S e"
  shows "AuthorizeEntry S None e sgo v net opts = ([], Inr e)"
  using assms by (simp add: AuthorizeEntry_def copyEntry_id Let_def)

text \<open>
  What the hooks hear. A call that signs delivers exactly four events to every hook, in
  the order preimage, sign, write, post-sign; a call refused by a guard delivers none.
\<close>

lemma authorize_hook_trace:
  assumes "cr_Type (en_Credentials e) \<noteq> CredentialsSourceAccount"
    and "AuthorizeEntry S ctx e sgo v net opts = (events, Inr e')"
  shows "\<exists>target. events = concat (map (\<lambda>phase.
     map (\<lambda>h. (h, hookEvent phase e target v None)) (cf_hook (applyOptions opts)))
       [HookPhasePreimage, HookPhaseSign, HookPhaseWrite, HookPhasePostSign])"
  using assms
  by (auto simp: AuthorizeEntry_def Let_def emit_def hasHooks_def
      split: option.splits sum.splits prod.splits if_splits)

section \<open>The preimage\<close>

text \<open>
  C6: \<open>Preimage\<close> implements the specification: it succeeds exactly for a non-empty
  passphrase and an address arm whose address can be rendered (the legacy arm needs no
  address), and returns the preimage the protocol prescribes for the arm. Neither the stored
  expiration, nor any signature, nor the delegate tree is part of it.
\<close>

theorem preimage_implements_spec:
  assumes "\<And>a. addressCredentials (en_Credentials e) = Inr a \<Longrightarrow>
     preimage_roundtrips S (specPreimage S (cr_Type (en_Credentials e) \<noteq> CredentialsAddress) a
       (en_RootInvocation e) v net)"
  shows "Preimage S e v net = Inr p \<longleftrightarrow>
     net \<noteq> '''' \<and> (\<exists>a. addressCredentials (en_Credentials e) = Inr a \<and>
       (cr_Type (en_Credentials e) \<noteq> CredentialsAddress \<longrightarrow> isOk (FormatAddress S (ac_Address a))) \<and>
       p = specPreimage S (cr_Type (en_Credentials e) \<noteq> CredentialsAddress) a (en_RootInvocation e) v net)"
proof (cases "addressCredentials (en_Credentials e)")
  case (Inl x)
  then show ?thesis by (simp add: Preimage_Inr_build buildPreimage_Inr_iff)
next
  case (Inr a)
  then show ?thesis
    using copyPreimage_id [OF assms [OF Inr]]
    by (auto simp: Preimage_Inr_build buildPreimage_Inr_iff)
qed

theorem preimage_implements_spec_witness:
  "Preimage sampleSdk entryV2 100 sampleNetwork = Inr (preimageBound (accountAddress (keyOf 1))) \<longleftrightarrow>
     sampleNetwork \<noteq> '''' \<and> (\<exists>a. addressCredentials (en_Credentials entryV2) = Inr a \<and>
       (cr_Type (en_Credentials entryV2) \<noteq> CredentialsAddress \<longrightarrow> isOk (FormatAddress sampleSdk (ac_Address a))) \<and>
       preimageBound (accountAddress (keyOf 1)) =
         specPreimage sampleSdk (cr_Type (en_Credentials entryV2) \<noteq> CredentialsAddress) a
           (en_RootInvocation entryV2) 100 sampleNetwork)"
  by (rule preimage_implements_spec) auto



section \<open>Verifying what was signed\<close>

text \<open>
  C2: signing and then verifying agrees. When the ed25519 signer signed an entry for its own
  account, and the key pair's check is the ed25519 check on the key its address names,
  \<open>VerifyEntry\<close> on the returned entry succeeds and reports every node with that address
  as verified.
\<close>

theorem sign_then_verify:
  assumes "authorized S None e (Some (NewEd25519Signer S (Some kp))) v net [] = Inr e'"
    and "cr_Type (en_Credentials e) \<noteq> CredentialsSourceAccount" and "entry_roundtrips S e"
    and "strkey_DecodeAny S (kp_Address kp) = Inr (VersionByteAccountID, raw)"
    and "strkey_Decode S VersionByteAccountID (kp_Address kp) = Inr raw" and "length raw = 32"
    and "address_roundtrips S (accountAddress raw)"
    and "\<And>m s. kp_Verify kp m s = None \<Longrightarrow> length s = 64 \<and> ed25519_Verify S raw m s"
    and "credentialNodes S e = Inr nodes"
    and "\<And>a. addressCredentials (en_Credentials e) = Inr a \<Longrightarrow> isOk (FormatAddress S (ac_Address a))"
    and "\<forall>c \<in> set nodes. isOk (formatAddressBytes S (cn_encoded c))"
  shows "\<exists>enc r. ScAddress_MarshalBinary S (accountAddress raw) = Inr enc \<and> VerifyEntry S e' net = Inr r \<and>
     list_all2 (\<lambda>c nv. cn_encoded c = enc \<longrightarrow> nv_Verdict nv = VerdictVerified) nodes (vr_Nodes r)"
proof (rule local_key.signed_then_verified [OF assms(1-3) _ _ assms(7,9,10,11)])
  show "keypairKey S kp raw" using assms(5,6,8) by (simp add: keypairKey_def)
  show "strkey_DecodeAny S (sg_Address (NewEd25519Signer S (Some kp))) = Inr (VersionByteAccountID, raw)"
    using assms(4) by (simp add: NewEd25519Signer_def)
qed

theorem sign_then_verify_witness:
  "\<exists>enc r. ScAddress_MarshalBinary sampleSdk (accountAddress (keyOf 1)) = Inr enc \<and>
     VerifyEntry sampleSdk (signedEntry sampleSdk (0 # keyOf 1) (sampleSignature 2) 100 entryDelegates)
       sampleNetwork = Inr r \<and>
     list_all2 (\<lambda>c nv. cn_encoded c = enc \<longrightarrow> nv_Verdict nv = VerdictVerified)
       [\<lparr>cn_encoded = 1 # keyOf 3, cn_signature = []\<rparr>, \<lparr>cn_encoded = 0 # keyOf 1, cn_signature = [0]\<rparr>,
        \<lparr>cn_encoded = 0 # keyOf 2, cn_signature = [1]\<rparr>, \<lparr>cn_encoded = 0 # keyOf 1, cn_signature = [1, 0]\<rparr>]
       (vr_Nodes r)"
  by (rule sign_then_verify [OF sample_authorizes_delegates [unfolded sampleSigner_def] _ _ _ _ _ _ _ sample_nodes(3)])
    (auto simp: formatAddressBytes_def sampleCredentials_def)

text \<open>
  C3: \<open>Verified\<close> is never wrong. If the report on an address-arm entry says every node
  verified, then every node belongs to an account address and carries a 64-byte signature
  and a 32-byte key for which the ed25519 check accepts the payload rebuilt from the entry
  with its own stored expiration.
\<close>

theorem verified_is_sound:
  assumes "VerifyEntry S e net = Inr r" and "Verified r"
    and "cr_Type (en_Credentials e) \<noteq> CredentialsSourceAccount"
  shows "\<exists>a p h nodes. addressCredentials (en_Credentials e) = Inr a \<and>
     Preimage S e (ac_SignatureExpirationLedger a) net = Inr p \<and> Payload S p = Inr h \<and>
     credentialNodes S e = Inr nodes \<and> nodes \<noteq> [] \<and>
     (\<forall>c \<in> set nodes. \<exists>x pk sg v. ScAddress_UnmarshalBinary S (cn_encoded c) = Inr x \<and>
        sa_Type x = ScAddressTypeAccount \<and> derefSig e (cn_signature c) = Some v \<and>
        parseAccountSignature S v = Inr (pk, sg) \<and> length pk = 32 \<and> length sg = 64 \<and>
        ed25519_Verify S pk h sg)"
proof -
  obtain a p h nodes vs where
    a: "addressCredentials (en_Credentials e) = Inr a"
    and p: "Preimage S e (ac_SignatureExpirationLedger a) net = Inr p" and h: "Payload S p = Inr h"
    and n: "credentialNodes S e = Inr nodes"
    and vs: "mapE (\<lambda>node. verifyNode S (sigAt e (cn_signature node)) (cn_encoded node) h) nodes = Inr vs"
    and r: "vr_Nodes r = vs"
    using assms(1,3)
    by (auto simp: VerifyEntry_def VerifyEntryContext_def Let_def bindE_Inr_iff
        split: SorobanCredentialsType.splits)
  have "nodes \<noteq> []" using credentialNodes_Inr [OF n] by (metis list.distinct(1))
  moreover have "\<exists>x pk sg v. ScAddress_UnmarshalBinary S (cn_encoded c) = Inr x \<and>
        sa_Type x = ScAddressTypeAccount \<and> derefSig e (cn_signature c) = Some v \<and>
        parseAccountSignature S v = Inr (pk, sg) \<and> length pk = 32 \<and> length sg = 64 \<and>
        ed25519_Verify S pk h sg" if c: "c \<in> set nodes" for c
  proof -
    obtain v where v: "derefSig e (cn_signature c) = Some v"
      using credentialNodes_deref [OF n c] by auto
    obtain nv where nv: "verifyNode S v (cn_encoded c) h = Inr nv" "nv \<in> set vs"
      using vs c v
      by (fastforce simp: mapE_Inr_iff list_all2_conv_all_nth in_set_conv_nth sigAt_def)
    then have "nv_Verdict nv = VerdictVerified"
      using assms(2) r by (auto simp: Verified_def list_all_iff)
    then show ?thesis
      using verifyNode_verified_iff [OF nv(1)] v parseAccountSignature_lengths
      by (fastforce simp: ed25519_PublicKeySize_def ed25519_SignatureSize_def)
  qed
  ultimately show ?thesis using a p h n by blast
qed

theorem verified_is_sound_witness:
  "\<exists>e r. VerifyEntry sampleSdk e sampleNetwork = Inr r \<and>
     (\<exists>a p h nodes. addressCredentials (en_Credentials e) = Inr a \<and>
     Preimage sampleSdk e (ac_SignatureExpirationLedger a) sampleNetwork = Inr p \<and> Payload sampleSdk p = Inr h \<and>
     credentialNodes sampleSdk e = Inr nodes \<and> nodes \<noteq> [] \<and>
     (\<forall>c \<in> set nodes. \<exists>x pk sg v. ScAddress_UnmarshalBinary sampleSdk (cn_encoded c) = Inr x \<and>
        sa_Type x = ScAddressTypeAccount \<and> derefSig e (cn_signature c) = Some v \<and>
        parseAccountSignature sampleSdk v = Inr (pk, sg) \<and> length pk = 32 \<and> length sg = 64 \<and>
        ed25519_Verify sampleSdk pk h sg))"
proof -
  let ?e = "signedEntry sampleSdk (0 # keyOf 1) (sampleSignature 1) 100 entryV2"
  obtain r where r: "VerifyEntry sampleSdk ?e sampleNetwork = Inr r" "Verified r"
    using sample_verifies by blast
  have t: "cr_Type (en_Credentials ?e) \<noteq> CredentialsSourceAccount" by simp
  show ?thesis
    by (rule exI [where x = ?e], rule exI [where x = r], rule conjI [OF r(1) verified_is_sound [OF r t]])
qed

end
