(* ===== verification/Structure_Properties.thy ===== *)
theory Structure_Properties
  imports Sample_Sdk
begin

text \<open>
  What the codec guards, the address forms, the credential arms and the delegate trees
  guarantee, stated over the definitions of \<^verbatim>\<open>Address\<close>, \<^verbatim>\<open>Decode\<close>, \<^verbatim>\<open>Arms\<close>,
  \<^verbatim>\<open>Nodes\<close> and \<^verbatim>\<open>Delegates\<close>.
\<close>

section \<open>Delegate trees\<close>

text \<open>
  The entry \<open>WithDelegates\<close> is meant to return: the account's address and nonce, the
  given expiration and top-level signature, the built tree, the caller's invocation.
\<close>

definition wrappedEntry ::
  "SorobanAuthorizationEntry \<Rightarrow> SorobanAddressCredentials \<Rightarrow> uint32 \<Rightarrow> SorobanDelegateSignature list
     \<Rightarrow> ScVal option \<Rightarrow> SorobanAuthorizationEntry" where
  "wrappedEntry e a v ns topSig =
     \<lparr>en_Credentials =
        \<lparr>cr_Type = CredentialsAddressWithDelegates, cr_Address = None, cr_AddressV2 = None,
         cr_AddressWithDelegates = Some
           \<lparr>wd_AddressCredentials =
              \<lparr>ac_Address = ac_Address a, ac_Nonce = ac_Nonce a, ac_SignatureExpirationLedger = v,
               ac_Signature = (case topSig of None \<Rightarrow> ScvVoid | Some s \<Rightarrow> s)\<rparr>,
            wd_Delegates = ns\<rparr>\<rparr>,
      en_RootInvocation = en_RootInvocation e\<rparr>"

lemma WithDelegates_wrapped:
  assumes "WithDelegates S e v ds topSig = Inr w"
    and "\<And>a ns. addressCredentials (en_Credentials e) = Inr a \<Longrightarrow> buildDelegateNodes S ds (Suc 0) = Inr ns \<Longrightarrow>
       entry_roundtrips S (wrappedEntry e a v ns topSig)"
  obtains a ns where "addressCredentials (en_Credentials e) = Inr a" "v \<noteq> 0" "\<not> isSigned (ac_Signature a)"
    "buildDelegateNodes S ds (Suc 0) = Inr ns" "w = wrappedEntry e a v ns topSig"
proof -
  obtain a ns where a: "addressCredentials (en_Credentials e) = Inr a" "v \<noteq> 0" "\<not> isSigned (ac_Signature a)"
    "buildDelegateNodes S ds (Suc 0) = Inr ns" "copyEntry S (wrappedEntry e a v ns topSig) = Inr w"
    using assms(1) by (auto simp: WithDelegates_Inr_iff wrappedEntry_def)
  then show ?thesis using that copyEntry_id [OF assms(2) [OF a(1,4)]] by simp
qed

text \<open>
  C7: a wrapped entry is well-formed: its tree passes \<open>ValidateDelegateOrder\<close>, it keeps
  the account's address and nonce and the invocation, stores the given expiration, and its
  preimage is the address-bound one of that account, whichever arm the entry had before.
\<close>

theorem with_delegates_well_formed:
  assumes "WithDelegates S e v ds topSig = Inr w"
    and "\<And>a ns. addressCredentials (en_Credentials e) = Inr a \<Longrightarrow> buildDelegateNodes S ds (Suc 0) = Inr ns \<Longrightarrow>
       entry_roundtrips S (wrappedEntry e a v ns topSig)"
  shows "isOk (ValidateDelegateOrder S w) \<and>
     (\<exists>a b. addressCredentials (en_Credentials e) = Inr a \<and> addressCredentials (en_Credentials w) = Inr b \<and>
        ac_Address b = ac_Address a \<and> ac_Nonce b = ac_Nonce a \<and> ac_SignatureExpirationLedger b = v \<and>
        en_RootInvocation w = en_RootInvocation e \<and>
        (\<forall>v' net p. buildPreimage S w v' net = Inr p \<longrightarrow>
           p = specPreimage S True a (en_RootInvocation e) v' net))"
proof -
  obtain a ns where a: "addressCredentials (en_Credentials e) = Inr a"
    "buildDelegateNodes S ds (Suc 0) = Inr ns" "w = wrappedEntry e a v ns topSig"
    using WithDelegates_wrapped [OF assms] .
  have "isOk (ValidateDelegateOrder S w)"
    using build_then_validate [OF a(2)] by (simp add: ValidateDelegateOrder_def a(3) wrappedEntry_def)
  moreover have "addressCredentials (en_Credentials w) =
      Inr \<lparr>ac_Address = ac_Address a, ac_Nonce = ac_Nonce a, ac_SignatureExpirationLedger = v,
           ac_Signature = (case topSig of None \<Rightarrow> ScvVoid | Some s \<Rightarrow> s)\<rparr>"
    by (simp add: a(3) wrappedEntry_def addressCredentials_def)
  moreover have "cr_Type (en_Credentials w) \<noteq> CredentialsAddress" "en_RootInvocation w = en_RootInvocation e"
    by (simp_all add: a(3) wrappedEntry_def)
  ultimately show ?thesis
    using a(1) by (simp add: buildPreimage_Inr_iff specPreimage_def)
qed

text \<open>A descriptor tree whose built form is the tree of the sample delegates entry.\<close>

definition sampleDescriptors :: "Delegate list" where
  "sampleDescriptors = [Delegate ''GB'' None [Delegate ''GA'' None []], Delegate ''GA'' None []]"

text \<open>An SDK whose table holds the wrapped form of the sample entry of a contract account.\<close>

definition entryContract :: SorobanAuthorizationEntry where
  "entryContract =
     \<lparr>en_Credentials = \<lparr>cr_Type = CredentialsAddress,
        cr_Address = Some (sampleCredentials (contractAddress (keyOf 3))), cr_AddressV2 = None,
        cr_AddressWithDelegates = None\<rparr>, en_RootInvocation = sampleInvocation\<rparr>"

definition wrapSdk :: sdk where
  "wrapSdk = tableSdk [wrappedEntry entryContract (sampleCredentials (contractAddress (keyOf 3))) 100
     (sampleDelegates ScvVoid) None] []"

lemma wrapSdk_builds:
  "buildDelegateNodes wrapSdk sampleDescriptors (Suc 0) = Inr (sampleDelegates ScvVoid)"
  by (simp add: sampleDescriptors_def sampleDelegates_def buildDelegateNodes.simps addressBytes_def
      sortDelegateLevel_def MaxDecodeDepth_def ParseAddress_def wrapSdk_def sample_defs accountAddress_def
      scAddressPayloadLen_def not_le)

lemma wrapSdk_wraps:
  "WithDelegates wrapSdk entryContract 100 sampleDescriptors None =
     Inr (wrappedEntry entryContract (sampleCredentials (contractAddress (keyOf 3))) 100 (sampleDelegates ScvVoid) None)"
  "entry_roundtrips wrapSdk
     (wrappedEntry entryContract (sampleCredentials (contractAddress (keyOf 3))) 100 (sampleDelegates ScvVoid) None)"
proof -
  show r: "entry_roundtrips wrapSdk
     (wrappedEntry entryContract (sampleCredentials (contractAddress (keyOf 3))) 100 (sampleDelegates ScvVoid) None)"
    by (simp add: wrapSdk_def tableSdk_entry_roundtrips)
  show "WithDelegates wrapSdk entryContract 100 sampleDescriptors None =
     Inr (wrappedEntry entryContract (sampleCredentials (contractAddress (keyOf 3))) 100 (sampleDelegates ScvVoid) None)"
    using copyEntry_id [OF r]
    by (simp add: WithDelegates_Inr_iff wrapSdk_builds wrappedEntry_def)
      (simp add: entryContract_def addressCredentials_def sampleCredentials_def)
qed

theorem with_delegates_well_formed_witness:
  "isOk (ValidateDelegateOrder wrapSdk
     (wrappedEntry entryContract (sampleCredentials (contractAddress (keyOf 3))) 100 (sampleDelegates ScvVoid) None))"
proof (rule conjunct1 [OF with_delegates_well_formed [OF wrapSdk_wraps(1)]])
  fix a ns
  assume "addressCredentials (en_Credentials entryContract) = Inr a"
    "buildDelegateNodes wrapSdk sampleDescriptors (Suc 0) = Inr ns"
  then have "a = sampleCredentials (contractAddress (keyOf 3))" "ns = sampleDelegates ScvVoid"
    by (simp_all add: wrapSdk_builds entryContract_def addressCredentials_def)
  then show "entry_roundtrips wrapSdk (wrappedEntry entryContract a 100 ns None)"
    using wrapSdk_wraps(2) by simp
qed

text \<open>
  C8: which trees \<open>ValidateDelegateOrder\<close> accepts: exactly those of at most 63 levels in
  which every delegates array, at every level, is strictly increasing by encoded address.
\<close>

theorem validate_order_exact:
  "isOk (ValidateDelegateOrder S e) \<longleftrightarrow>
     cr_Type (en_Credentials e) = CredentialsAddressWithDelegates \<and>
     cr_AddressWithDelegates (en_Credentials e) \<noteq> None \<and>
     fits ds_NestedDelegates (orderedLevel S) 63 (delegatesOf e)"
  by (rule ValidateDelegateOrder_ok_iff)

text \<open>
  Which descriptor trees can be built: exactly those of at most 63 levels in which every
  address parses and encodes and no address occurs twice in one array; and what is built
  passes the ordering check.
\<close>

lemma build_delegates_exact:
  "(isOk (buildDelegateNodes S ds 1) \<longleftrightarrow> fits dg_Nested (buildableLevel S) 63 ds) \<and>
   (case buildDelegateNodes S ds 1 of Inl _ \<Rightarrow> True | Inr ns \<Rightarrow> isOk (validateDelegateLevel S ns 1))"
  using build_walk.walk_ok_top [of S ds] build_then_validate [of S ds]
  by (auto split: sum.splits)

text \<open>
  A repeated address in one array is refused as \<open>ErrDuplicateDelegate\<close>, whatever the
  order the caller listed the delegates in, once the addresses and the nested levels are
  good.
\<close>

lemma build_delegates_duplicate:
  assumes "depth \<le> MaxDecodeDepth" "mapE (descriptorKey S) ds = Inr ks" "\<not> distinct ks"
    and "\<forall>d \<in> set ds. isOk (buildDelegateNodes S (dg_Nested d) (Suc depth))"
  shows "failsWith (buildDelegateNodes S ds depth) ErrDuplicateDelegate"
proof -
  obtain built where b: "buildDelegateLoop S ds depth = Inr built"
    using isOk_buildDelegateLoop [of S ds depth] assms(2,4) by (auto simp: isOk_iff)
  then have "map dn_encoded built = ks"
    using buildDelegateLoop_keys [OF b] assms(2) by simp
  moreover have "ds \<noteq> []" using assms(2,3) by auto
  moreover from calculation have "failsWith (sortDelegateLevel S built) ErrDuplicateDelegate"
    using sortDelegateLevel_duplicate [of built S] assms(3) by simp
  ultimately show ?thesis
    using b assms(1)
    by (cases "sortDelegateLevel S built") (simp_all add: buildDelegateNodes.simps)
qed

text \<open>
  The nodes the library signs: on success \<open>credentialNodes\<close> returns the top-level
  node and then every delegate of the tree, each before the ones nested under it, with the
  encoding of its address and a pointer to its signature; and it succeeds on the delegates
  arm exactly for trees of at most 63 levels whose addresses encode.
\<close>

lemma credential_nodes_complete:
  assumes "addressCredentials (en_Credentials e) = Inr a"
    and "isOk (ScAddress_MarshalBinary S (ac_Address a))"
  shows "(isOk (credentialNodes S e) \<longleftrightarrow> fits ds_NestedDelegates (encodableLevel S) 63 (delegatesOf e)) \<and>
     (\<forall>nodes. credentialNodes S e = Inr nodes \<longrightarrow>
        (\<exists>enc rest. nodes = \<lparr>cn_encoded = enc, cn_signature = []\<rparr> # rest \<and>
           ScAddress_MarshalBinary S (ac_Address a) = Inr enc \<and>
           list_all2 (nodeMatches S) (nodePaths 0 (delegatesOf e)) rest))"
proof
  show "isOk (credentialNodes S e) \<longleftrightarrow> fits ds_NestedDelegates (encodableLevel S) 63 (delegatesOf e)"
  proof (cases "cr_Type (en_Credentials e) = CredentialsAddressWithDelegates")
    case True
    then show ?thesis
      using assms nodes_walk.walk_ok_top [of S "delegatesOf e"]
      by (auto simp: credentialNodes_def isOk_iff bindE_Inr_iff Let_def)
  next
    case False
    moreover have "fits ds_NestedDelegates (encodableLevel S) 63 []"
      by (simp add: encodableLevel_def numeral_eq_Suc)
    ultimately show ?thesis
      using assms by (auto simp: credentialNodes_def isOk_iff bindE_Inr_iff Let_def delegatesOf_def)
  qed
  show "\<forall>nodes. credentialNodes S e = Inr nodes \<longrightarrow>
        (\<exists>enc rest. nodes = \<lparr>cn_encoded = enc, cn_signature = []\<rparr> # rest \<and>
           ScAddress_MarshalBinary S (ac_Address a) = Inr enc \<and>
           list_all2 (nodeMatches S) (nodePaths 0 (delegatesOf e)) rest)"
    using assms(1) by (auto elim!: credentialNodes_Inr)
qed

section \<open>Addresses\<close>

text \<open>
  Parsing and formatting invert each other: a string that parses is what the address
  formats to, and the string an account or contract address formats to parses to that
  address. No other arm formats at all.
\<close>

lemma address_round_trip:
  assumes "strkey_decode_encode S" "strkey_encode_decode S"
  shows "(ParseAddress S s = Inr a \<longrightarrow> FormatAddress S a = Inr s) \<and>
     (length p = 32 \<and> a \<in> {accountAddress p, contractAddress p} \<and> FormatAddress S a = Inr s \<longrightarrow>
        ParseAddress S s = Inr a) \<and>
     (sa_Type a \<notin> {ScAddressTypeAccount, ScAddressTypeContract} \<longrightarrow> \<not> isOk (FormatAddress S a))"
proof (intro conjI impI)
  show "FormatAddress S a = Inr s" if "ParseAddress S s = Inr a"
    using parse_then_format_helper [OF assms(1) that] .
  show "ParseAddress S s = Inr a"
    if "length p = 32 \<and> a \<in> {accountAddress p, contractAddress p} \<and> FormatAddress S a = Inr s"
    using format_then_parse_helper [OF assms(2), of p a s] that by auto
  show "\<not> isOk (FormatAddress S a)" if "sa_Type a \<notin> {ScAddressTypeAccount, ScAddressTypeContract}"
    using FormatAddress_ok_arm [of S a] that by (auto simp: isOk_iff)
qed

lemma strkeyDecode_Inr_iff: "strkeyDecode s = Inr r \<longleftrightarrow> (s, r) \<in> set strkeys"
proof -
  have "distinct (map fst strkeys)" by (simp add: strkeys_def)
  from map_of_eq_Some_iff [OF this, of s r] show ?thesis
    by (auto simp: strkeyDecode_def split: option.splits)
qed

lemma find_snd: "distinct (map snd t) \<Longrightarrow> find (\<lambda>r. snd r = x) t = Some r \<longleftrightarrow> r \<in> set t \<and> snd r = x"
  by (induction t) (auto simp: image_iff)

lemma strkeyEncode_Inr_iff: "strkeyEncode v b = Inr s \<longleftrightarrow> (s, v, b) \<in> set strkeys"
proof -
  have "distinct (map snd strkeys)" by (simp add: strkeys_def)
  note f = find_snd [OF this, of "(v, b)"]
  have "strkeyEncode v b = Inr s \<longleftrightarrow> (\<exists>r. find (\<lambda>r. snd r = (v, b)) strkeys = Some r \<and> fst r = s)"
    by (cases "find (\<lambda>r. snd r = (v, b)) strkeys") (simp_all add: strkeyEncode_def)
  then show ?thesis unfolding f by auto
qed

lemma sample_strkeys: "strkey_decode_encode sampleSdk" "strkey_encode_decode sampleSdk"
  by (simp_all add: strkey_decode_encode_def strkey_encode_decode_def sampleSdk_def tableSdk_def
      strkeyDecode_Inr_iff strkeyEncode_Inr_iff)

section \<open>Decode limits\<close>

text \<open>
  A decoded entry came from an input within the limits: the decoder ran with a nesting
  limit of at most 64, and an input that is the base64 form of \<open>3 * m\<close> bytes was at most
  two bytes over the effective byte limit, itself at most 1 MiB. Options can only tighten
  the two limits.
\<close>

lemma decode_entry_bounded:
  assumes "DecodeAuthorizationEntry S encoded opts = Inr e" and "length encoded = 4 * m"
  shows "\<exists>depth. depth \<le> 64 \<and> Entry_SafeUnmarshalBase64WithOptions S encoded depth = Inr e \<and>
     3 * m \<le> effectiveMaxInput opts + 2 \<and> effectiveMaxInput opts \<le> MaxDecodeInputBytes"
proof -
  have dec: "decodeWithLimits (Entry_SafeUnmarshalBase64WithOptions S)
      ''soroauth: decode authorization entry'' encoded opts = Inr e"
    using assms(1) by (simp add: DecodeAuthorizationEntry_def)
  note ok = decodeWithLimits_ok [OF dec]
  then show ?thesis
    using base64_EncodedLen_bound [of m "effectiveMaxInput opts"] assms(2)
    by (auto simp: MaxDecodeDepth_def MaxDecodeInputBytes_def)
qed

definition decodeSdk :: sdk where
  "decodeSdk = sampleSdk\<lparr>Entry_SafeUnmarshalBase64WithOptions := (\<lambda>s d. Inr entryV2)\<rparr>"

text \<open>
  An oversized or too deeply nested input is refused with \<open>ErrDecodeLimit\<close>, and
  options that would loosen a limit are refused before anything is decoded.
\<close>

lemma decode_entry_refuses:
  assumes "encoded \<noteq> []"
  shows "(length encoded > base64_EncodedLen MaxDecodeInputBytes \<longrightarrow>
      failsWith (DecodeAuthorizationEntry S encoded []) ErrDecodeLimit) \<and>
     (Entry_SafeUnmarshalBase64WithOptions S encoded 64 = Inl err \<and> errors_Is err XdrErrMaxDecodingDepthReached \<and>
        length encoded \<le> base64_EncodedLen MaxDecodeInputBytes \<longrightarrow>
      failsWith (DecodeAuthorizationEntry S encoded []) ErrDecodeLimit) \<and>
     (effectiveMaxDepth (o1 # os) > 64 \<or> effectiveMaxInput (o1 # os) > MaxDecodeInputBytes \<longrightarrow>
      \<not> isOk (DecodeAuthorizationEntry S encoded (o1 # os)))"
proof (intro conjI impI)
  assume "length encoded > base64_EncodedLen MaxDecodeInputBytes"
  then show "failsWith (DecodeAuthorizationEntry S encoded []) ErrDecodeLimit"
    using assms by (simp add: DecodeAuthorizationEntry_def decodeWithLimits_def effectiveMaxInput_def)
next
  assume "Entry_SafeUnmarshalBase64WithOptions S encoded 64 = Inl err \<and>
     errors_Is err XdrErrMaxDecodingDepthReached \<and> length encoded \<le> base64_EncodedLen MaxDecodeInputBytes"
  then show "failsWith (DecodeAuthorizationEntry S encoded []) ErrDecodeLimit"
    using assms by (simp add: DecodeAuthorizationEntry_def decodeWithLimits_def effectiveMaxInput_def
        effectiveMaxDepth_def MaxDecodeDepth_def)
next
  assume "effectiveMaxDepth (o1 # os) > 64 \<or> effectiveMaxInput (o1 # os) > MaxDecodeInputBytes"
  then show "\<not> isOk (DecodeAuthorizationEntry S encoded (o1 # os))"
    using decodeWithLimits_ok(2,3) [of "Entry_SafeUnmarshalBase64WithOptions S"
        "''soroauth: decode authorization entry''" encoded "o1 # os"]
    by (fastforce simp: DecodeAuthorizationEntry_def isOk_iff MaxDecodeDepth_def)
qed

section \<open>Credential arms\<close>

text \<open>
  The behaviour registered for a credential type reads and writes that arm's own fields:
  what was set is read back, setting a signature leaves the nonce, the expiration and the
  address alone, and setting the expiration leaves the signature alone, for each of the three
  address arms.
\<close>

lemma arm_contract:
  assumes "addressCredentials c = Inr a"
  shows "\<exists>B. GetArmBehavior c = Inr B \<and>
     ab_GetSignature B (ab_SetSignature B c s) = s \<and> ab_GetExpiration B (ab_SetExpiration B c x) = x \<and>
     ab_GetNonce B (ab_SetSignature B c s) = ac_Nonce a \<and>
     ab_GetExpiration B (ab_SetSignature B c s) = ac_SignatureExpirationLedger a \<and>
     ab_GetAddress B S (ab_SetSignature B c s) = FormatAddress S (ac_Address a) \<and>
     ab_GetSignature B (ab_SetExpiration B c x) = ac_Signature a \<and>
     addressCredentials (ab_SetSignature B c s) = Inr (a\<lparr>ac_Signature := s\<rparr>)"
proof -
  consider "cr_Type c = CredentialsAddress" "cr_Address c = Some a"
    | "cr_Type c = CredentialsAddressV2" "cr_AddressV2 c = Some a"
    | "cr_Type c = CredentialsAddressWithDelegates"
      "map_option wd_AddressCredentials (cr_AddressWithDelegates c) = Some a"
    using assms by (auto simp: addressCredentials_Inr_iff)
  then show ?thesis
  proof cases
    case 1
    note t = 1(1) and w = 1(2)
    show ?thesis
      using t legacy.signature_roundtrip [OF w] legacy.expiration_roundtrip [OF w]
        legacy.set_signature_frame [OF w] legacy.set_expiration_frame(2) [OF w] legacy.get_nonce [OF w]
        legacy.get_expiration [OF w] legacy.get_address [OF w] legacy.get_signature [OF w]
        legacy.set_signature [of c s] legacy.keeps_type(1) [of c s] w
      by (simp add: addressCredentials_Inr_iff)
  next
    case 2
    note t = 2(1) and w = 2(2)
    show ?thesis
      using t v2.signature_roundtrip [OF w] v2.expiration_roundtrip [OF w]
        v2.set_signature_frame [OF w] v2.set_expiration_frame(2) [OF w] v2.get_nonce [OF w]
        v2.get_expiration [OF w] v2.get_address [OF w] v2.get_signature [OF w]
        v2.set_signature [of c s] v2.keeps_type(1) [of c s] w
      by (simp add: addressCredentials_Inr_iff)
  next
    case 3
    note t = 3(1) and w = 3(2)
    show ?thesis
      using t wrapped.signature_roundtrip [OF w] wrapped.expiration_roundtrip [OF w]
        wrapped.set_signature_frame [OF w] wrapped.set_expiration_frame(2) [OF w] wrapped.get_nonce [OF w]
        wrapped.get_expiration [OF w] wrapped.get_address [OF w] wrapped.get_signature [OF w]
        wrapped.set_signature [of c s] wrapped.keeps_type(1) [of c s] w
      by (simp add: addressCredentials_Inr_iff)
  qed
qed

end
