(* ===== verification/Signer_Properties.thy ===== *)
theory Signer_Properties
  imports Sample_Sdk
begin

text \<open>
  What the signers guarantee, over the definitions of \<^verbatim>\<open>Signers\<close>.
\<close>

unbundle bit_operations_syntax

text \<open>What the two passkey options demand of the authenticator data (WebAuthn, section 6.1).\<close>

definition passkeyFlagsOk :: "passkeySignerConfig \<Rightarrow> bytes \<Rightarrow> bool" where
  "passkeyFlagsOk cfg auth \<longleftrightarrow>
     (pk_requireUserPresence cfg \<or> pk_requireUserVerification cfg \<longrightarrow>
        37 \<le> length auth \<and>
        (pk_requireUserPresence cfg \<longrightarrow> bit (auth ! 32) 0) \<and>
        (pk_requireUserVerification cfg \<longrightarrow> bit (auth ! 32) 2))"

section \<open>Account signatures\<close>

text \<open>
  C12: the multi-signature signer writes what the host accepts: a non-empty vector of at most
  20 signatures, one per key the caller gave, in strictly ascending order of the raw public
  keys, each accepted by its own key's check over the payload.
\<close>

theorem multi_signer_host_order:
  assumes "NewAccountMultiSigner S account kps = Inr s"
    and "sg_Sign (accountMultiSigner s) ctx p payload = Inr v"
  shows "\<exists>raws sigs. v = scVec (map2 accountSignature raws sigs) \<and> length sigs = length raws \<and>
     0 < length raws \<and> length raws \<le> 20 \<and> sorted_wrt (<) raws \<and>
     (\<forall>i < length raws. \<exists>kp. Some kp \<in> set kps \<and>
        strkey_Decode S VersionByteAccountID (kp_Address kp) = Inr (raws ! i) \<and>
        kp_Verify kp payload (sigs ! i) = None)"
proof -
  obtain ks where ks: "requireKeys 0 kps = Inr ks" "newAccountMultiSigner S account ks = Inr s"
    using assms(1) by (auto simp: NewAccountMultiSigner_def bindE_Inr_iff)
  have req: "requireKeys i kps' = Inr ks' \<Longrightarrow> ks' = kps'" for i kps' ks'
    by (induction i kps' arbitrary: ks' rule: requireKeys.induct) (auto simp: bindE_Inr_iff)
  note n = newAccountMultiSigner_Inr [OF ks(2)]
  have kps: "ks = kps" by (rule req [OF ks(1)])
  obtain sigs where v: "v = scVec (map2 accountSignature (map mk_raw (snd s)) sigs)"
    and sigs: "list_all2 (\<lambda>key sig. kp_Verify (mk_kp key) payload sig = None) (snd s) sigs"
    using multiSign_Inr assms(2) by (metis accountMultiSigner_def signer.select_convs(2))
  have "\<exists>kp. Some kp \<in> set kps \<and> strkey_Decode S VersionByteAccountID (kp_Address kp) = Inr (map mk_raw (snd s) ! i) \<and>
      kp_Verify kp payload (sigs ! i) = None" if "i < length (snd s)" for i
    using n(5) nth_mem [OF that] list_all2_nthD [OF sigs that] that kps
    by (intro exI [of _ "mk_kp (snd s ! i)"]) auto
  then have "length sigs = length (map mk_raw (snd s)) \<and> 0 < length (map mk_raw (snd s)) \<and>
      length (map mk_raw (snd s)) \<le> 20 \<and> sorted_wrt (<) (map mk_raw (snd s)) \<and>
      (\<forall>i < length (map mk_raw (snd s)). \<exists>kp. Some kp \<in> set kps \<and>
         strkey_Decode S VersionByteAccountID (kp_Address kp) = Inr (map mk_raw (snd s) ! i) \<and>
         kp_Verify kp payload (sigs ! i) = None)"
    using n(2,3,4) list_all2_lengthD [OF sigs] by (auto simp: maxAccountSignatures_def)
  then show ?thesis using v by blast
qed

definition secondKeypair :: ed25519Keypair where
  "secondKeypair =
     \<lparr>kp_Address = ''GB'', kp_Sign = (\<lambda>m. Inr (keyOf 2 @ sampleHash m)),
      kp_Verify = (\<lambda>m s. if s = keyOf 2 @ sampleHash m then None else Some (errmsg ''bad signature''))\<rparr>"

lemma second_decodes [simp]: "strkey_Decode sampleSdk VersionByteAccountID ''GB'' = Inr (keyOf 2)"
  by (simp add: sampleSdk_def tableSdk_def strkeyDecode_def strkeys_def)

theorem multi_signer_host_order_witness:
  "\<exists>s v. NewAccountMultiSigner sampleSdk ''GA'' [Some secondKeypair, Some sampleKeypair] = Inr s \<and>
     (\<exists>raws sigs. v = scVec (map2 accountSignature raws sigs) \<and> length sigs = length raws \<and>
     0 < length raws \<and> length raws \<le> 20 \<and> sorted_wrt (<) raws \<and>
     (\<forall>i < length raws. \<exists>kp. Some kp \<in> set [Some secondKeypair, Some sampleKeypair] \<and>
        strkey_Decode sampleSdk VersionByteAccountID (kp_Address kp) = Inr (raws ! i) \<and>
        kp_Verify kp (keyOf 0) (sigs ! i) = None))"
proof -
  let ?s = "(''GA'', [\<lparr>mk_kp = sampleKeypair, mk_raw = keyOf 1\<rparr>, \<lparr>mk_kp = secondKeypair, mk_raw = keyOf 2\<rparr>])"
  let ?v = "scVec [accountSignature (keyOf 1) (keyOf 1 @ keyOf 0), accountSignature (keyOf 2) (keyOf 2 @ keyOf 0)]"
  have new: "NewAccountMultiSigner sampleSdk ''GA'' [Some secondKeypair, Some sampleKeypair] = Inr ?s"
    by (simp add: NewAccountMultiSigner_def newAccountMultiSigner_def rawEd25519Key_def maxAccountSignatures_def
        secondKeypair_def not_le)
  have "sg_Sign (accountMultiSigner ?s) None preimageLegacy (keyOf 0) = Inr ?v"
    by (simp add: accountMultiSigner_def multiSign_def multiSignKey_def secondKeypair_def)
  from multi_signer_host_order [OF new this] new show ?thesis by blast
qed

text \<open>
  The ed25519 signer returns a signature only after its own key's check accepted it over
  the payload; a signature that does not check is refused as \<open>ErrSignatureMismatch\<close>.
\<close>

lemma ed25519_self_verifies:
  "(\<forall>v. sg_Sign (NewEd25519Signer S (Some kp)) ctx p payload = Inr v \<longrightarrow>
      (\<exists>raw sig. v = scVec [accountSignature raw sig] \<and> kp_Sign kp payload = Inr sig \<and>
         kp_Verify kp payload sig = None \<and>
         strkey_Decode S VersionByteAccountID (kp_Address kp) = Inr raw)) \<and>
   (ctx = None \<and> kp_Sign kp payload = Inr sig0 \<and> kp_Verify kp payload sig0 \<noteq> None \<longrightarrow>
      failsWith (sg_Sign (NewEd25519Signer S (Some kp)) ctx p payload) ErrSignatureMismatch)"
  by (auto simp: NewEd25519Signer_def ed25519Sign_Inr_iff) (simp add: ed25519Sign_def)

section \<open>The network pin\<close>

text \<open>
  An entry can be signed through a pinned signer only for the pinned network: whenever
  \<open>AuthorizeEntry\<close> succeeds with one, the network id in the signed preimage is the pinned
  network's, and the wrapped signer gave the signature.
\<close>

lemma pinned_signer_network:
  assumes "PinSignerToNetwork S (Some inner) pass = Inr pinned"
    and "authorized S ctx e (Some pinned) v net opts = Inr e'"
    and "cr_Type (en_Credentials e) \<noteq> CredentialsSourceAccount" "entry_roundtrips S e"
    and "\<And>a. addressCredentials (en_Credentials e) = Inr a \<Longrightarrow>
       preimage_roundtrips S (specPreimage S (cr_Type (en_Credentials e) \<noteq> CredentialsAddress) a
         (en_RootInvocation e) v net)"
  shows "network_ID S net = network_ID S pass \<and>
     (\<exists>p h enc sig. Preimage S e v net = Inr p \<and> Payload S p = Inr h \<and> sg_Sign inner None p h = Inr sig \<and>
        e' = signedEntry S enc sig v e)"
proof -
  obtain sg target enc a p h sig where s: "Some pinned = Some sg"
    "addressCredentials (en_Credentials e) = Inr a" "Preimage S e v net = Inr p" "Payload S p = Inr h"
    "sg_Sign sg None p h = Inr sig" "e' = signedEntry S enc sig v e"
    using AuthorizeEntry_signs [OF assms(2-4)] by metis
  have p: "p = specPreimage S (cr_Type (en_Credentials e) \<noteq> CredentialsAddress) a (en_RootInvocation e) v net"
    using s(2,3) copyPreimage_id [OF assms(5) [OF s(2)]]
    by (auto simp: Preimage_Inr_build buildPreimage_Inr_iff)
  have "pinnedSign (network_ID S pass) inner None p h = Inr sig"
    using s(1,5) assms(1) by (auto simp: PinSignerToNetwork_def)
  then have "network_ID S net = network_ID S pass" "sg_Sign inner None p h = Inr sig"
    by (auto simp: pinnedSign_def p specPreimage_def bindE_Inr_iff split: if_splits)
  then show ?thesis using s by blast
qed

section \<open>Retrying\<close>

text \<open>
  The retry policy with a context that is never cancelled: the answer is the inner
  signer's answer to attempt \<open>k\<close>, where \<open>k\<close> is the first attempt that signed or was
  rejected, or the last allowed attempt; nothing is asked after that, a rejection is never
  retried, there is one sleep between two attempts and none is longer than the maximum.
\<close>

lemma retry_first_settled:
  assumes "retriedSign cfg env = (sleeps, k, r)" and "\<And>i m. re_Err env i m = None"
    and "rc_Attempts cfg > 0" "rc_MaxBackoff cfg > 0"
  shows "1 \<le> k \<and> k \<le> nat (rc_Attempts cfg) \<and> r = re_Answer env k \<and>
     (\<forall>j. 1 \<le> j \<and> j < k \<longrightarrow> \<not> settles (re_Answer env j)) \<and>
     (settles (re_Answer env k) \<or> k = nat (rc_Attempts cfg)) \<and>
     length sleeps = k - 1 \<and> (\<forall>d \<in> set sleeps. d \<le> rc_MaxBackoff cfg)"
proof -
  obtain n where n: "nat (rc_Attempts cfg) = Suc n"
    using assms(3) by (cases "nat (rc_Attempts cfg)") auto
  obtain b where loop: "retryLoop env (rc_MaxBackoff cfg) (Suc n) 1 b None = (sleeps, k, r)"
    using assms(1,3,4) n unfolding retriedSign_def Let_def by (auto simp del: retryLoop.simps)
  show ?thesis
    using retryLoop_bound [OF loop] retryLoop_uncancelled [OF loop assms(2)] retryLoop_sleeps [OF loop] n
    by auto
qed

definition flakyEnv :: retryEnv where
  "flakyEnv = \<lparr>re_Answer = (\<lambda>i. if i < 3 then Inl (errmsg ''connection reset'') else Inr ScvVoid),
     re_Err = (\<lambda>_ _. None), re_Rand = (\<lambda>_. 5)\<rparr>"

definition flakyConfig :: RetryConfig where
  "flakyConfig = \<lparr>rc_Attempts = 4, rc_InitialBackoff = 100, rc_MaxBackoff = 150\<rparr>"

lemma flaky_run: "retriedSign flakyConfig flakyEnv = ([105, 150], 3, Inr ScvVoid)"
  by (simp add: retriedSign_def flakyConfig_def flakyEnv_def eval_nat_numeral IsSignatureRejection_def
      errmsg_def sleepDuration_def nextBackoff_def wrap64_def)

section \<open>Passkey flags and the address cache\<close>

text \<open>
  A passkey signer that requires user presence or verification consults the caller's
  function only when the authenticator data is long enough and has the flag bits set;
  otherwise it fails with \<open>ErrVerificationFailed\<close>, whatever the function would return.
\<close>

lemma passkey_flags_enforced:
  "(passkeyFlagsOk (passkeyConfig opts) auth \<longrightarrow>
      sg_Sign (NewPasskeySigner address auth (Some f) opts) None p h = f None p h) \<and>
   (\<not> passkeyFlagsOk (passkeyConfig opts) auth \<longrightarrow>
      failsWith (sg_Sign (NewPasskeySigner address auth (Some f) opts) None p h) ErrVerificationFailed)"
proof -
  have b: "(w AND 1 = 0) = (\<not> bit w 0)" "(w AND 4 = 0) = (\<not> bit w 2)" for w :: byte
    using and_exp_eq_0_iff_not_bit [of w 0] and_exp_eq_0_iff_not_bit [of w 2] by simp_all
  show ?thesis
    by (auto simp: NewPasskeySigner_def SignerFunc_def checkPasskeyFlags_def passkeyFlagsOk_def Let_def b)
qed

text \<open>
  The address cache. Within the time to live, or with none set, a second call returns
  the first answer without asking the wrapped signer; once the time to live has passed, or
  after \<open>Invalidate\<close>, the next call asks again and returns the signer's current answer.
\<close>

lemma cached_address_protocol:
  assumes "cachedAddress c t0 a0 = (c', addr, True)" and "addr \<noteq> ''''"
  shows "(cs_ttl c \<le> 0 \<or> t1 - t0 < cs_ttl c \<longrightarrow> cachedAddress c' t1 a1 = (c', addr, False)) \<and>
     (0 < cs_ttl c \<and> cs_ttl c \<le> t1 - t0 \<longrightarrow> snd (cachedAddress c' t1 a1) = (a1, True)) \<and>
     snd (cachedAddress (cachedInvalidate c') t1 a1) = (a1, True) \<and> addr = a0"
  using assms by (auto simp: cachedAddress_def cachedInvalidate_def split: if_splits)

end
