(* ===== verification/Batch.thy ===== *)
theory Batch
  imports Verify
begin

text \<open>
  Signing and verifying many entries (\<^verbatim>\<open>src/batch.go\<close>, \<^verbatim>\<open>src/batch_sign.go\<close>):
  \<open>AuthorizeAll\<close> with its validation pass and delegate plans, \<open>AuthorizeBatch\<close> and
  \<open>VerifyAll\<close> with their worker pools. A pool is a step relation over result slots; the
  functional definitions collect the slots in input order, and the pool theorems say that
  every schedule ends with those slots.
\<close>

section \<open>Matching signers to an entry\<close>

text \<open>
  \<open>matchSigners\<close> is the loop over the signers: nil signers and signers whose address
  does not parse are skipped, an address that does not encode ends the loop.
\<close>

fun matchSigners ::
  "sdk \<Rightarrow> credentialNode list \<Rightarrow> bytes \<Rightarrow> signer option list \<Rightarrow> gerr + (signer list \<times> bool)" where
  "matchSigners S nodes topLevel [] = Inr ([], False)"
| "matchSigners S nodes topLevel (None # signers) = matchSigners S nodes topLevel signers"
| "matchSigners S nodes topLevel (Some sg # signers) =
     (case ParseAddress S (sg_Address sg) of
        Inl _ \<Rightarrow> matchSigners S nodes topLevel signers
      | Inr address \<Rightarrow>
          bindE (addressBytes S address) (\<lambda>encoded.
          bindE (matchSigners S nodes topLevel signers) (\<lambda>(matched, topLevelMatched).
            if list_ex (\<lambda>node. cn_encoded node = encoded) nodes
            then Inr (sg # matched, encoded = topLevel \<or> topLevelMatched)
            else Inr (matched, topLevelMatched))))"

definition signersForEntry ::
  "sdk \<Rightarrow> SorobanAuthorizationEntry \<Rightarrow> signer option list \<Rightarrow> gerr + (signer list \<times> bool)" where
  "signersForEntry S entry signers =
     bindE (credentialNodes S entry) (\<lambda>nodes.
     case nodes of
       [] \<Rightarrow> Inl (errmsg ''entry has no credential nodes'')
     | topNode # _ \<Rightarrow> matchSigners S nodes (cn_encoded topNode) signers)"

section \<open>Options\<close>

record DelegatePlan =
  dp_Delegates :: "Delegate list"
  dp_TopSignature :: "ScVal option"

text \<open>The plans are a Go map; the list is in the order the code iterates it.\<close>

record authorizeAllConfig =
  aa_requireAllSigned :: bool
  aa_delegatePlans :: "(string \<times> DelegatePlan) list"

type_synonym AuthorizeAllOption = "authorizeAllConfig \<Rightarrow> authorizeAllConfig"

definition RequireAllSigned :: AuthorizeAllOption where
  "RequireAllSigned = (\<lambda>c. c\<lparr>aa_requireAllSigned := True\<rparr>)"

definition WithDelegatePlans :: "(string \<times> DelegatePlan) list \<Rightarrow> AuthorizeAllOption" where
  "WithDelegatePlans plans = (\<lambda>c. c\<lparr>aa_delegatePlans := plans\<rparr>)"

definition applyAllOptions :: "AuthorizeAllOption option list \<Rightarrow> authorizeAllConfig" where
  "applyAllOptions opts =
     fold (\<lambda>opt c. case opt of None \<Rightarrow> c | Some f \<Rightarrow> f c) opts
       \<lparr>aa_requireAllSigned = False, aa_delegatePlans = []\<rparr>"

section \<open>The validation pass of AuthorizeAll\<close>

text \<open>
  One entry of the first loop: what was prepared for it (its address, the entry to sign,
  wrapped when a plan names it, and the matched signers; a source-account entry has none of
  the last two), or its validation error; and the plan address that was used.
\<close>

record preparedEntry =
  pe_address :: string
  pe_entry :: SorobanAuthorizationEntry
  pe_signers :: "signer list"

definition entryLabel :: "nat \<Rightarrow> string \<Rightarrow> string" where
  "entryLabel i what = ''entry '' @ itoa i @ '' ('' @ what @ '')''"

definition prepareSigners ::
  "sdk \<Rightarrow> signer option list \<Rightarrow> nat \<Rightarrow> string \<Rightarrow> SorobanAuthorizationEntry \<Rightarrow> gerr + preparedEntry" where
  "prepareSigners S signers i address entry =
     bindE (wrapE (entryLabel i address) (signersForEntry S entry signers)) (\<lambda>(matched, _).
     if length matched = 0
     then Inl (errw (entryLabel i address) (MissingSignerError address))
     else Inr \<lparr>pe_address = address, pe_entry = entry, pe_signers = matched\<rparr>)"

definition prepareEntry ::
  "sdk \<Rightarrow> (string \<times> DelegatePlan) list \<Rightarrow> signer option list \<Rightarrow> uint32 \<Rightarrow> nat \<Rightarrow> SorobanAuthorizationEntry
     \<Rightarrow> (gerr + preparedEntry) \<times> string option" where
  "prepareEntry S plans signers validUntilLedger i entry =
     (if cr_Type (en_Credentials entry) = CredentialsSourceAccount
      then (bindE (wrapE (entryLabel i ''source account'') (copyEntry S entry)) (\<lambda>copied.
              Inr \<lparr>pe_address = '''', pe_entry = copied, pe_signers = []\<rparr>), None)
      else case addressCredentials (en_Credentials entry) of
        Inl err \<Rightarrow> (Inl (errw (entryLabel i (''credentials type '' @
                     itoa (CredentialsType_value S (cr_Type (en_Credentials entry))))) err), None)
      | Inr credentials \<Rightarrow>
        (case FormatAddress S (ac_Address credentials) of
           Inl err \<Rightarrow> (Inl (errw (entryLabel i ''<unformattable address>'') err), None)
         | Inr address \<Rightarrow>
           (case map_of plans address of
              None \<Rightarrow> (prepareSigners S signers i address entry, None)
            | Some plan \<Rightarrow>
                (case WithDelegates S entry validUntilLedger (dp_Delegates plan) (dp_TopSignature plan) of
                   Inl err \<Rightarrow> (Inl (errw (entryLabel i address @ '': delegate plan'') err), None)
                 | Inr wrapped \<Rightarrow> (prepareSigners S signers i address wrapped, Some address)))))"

definition errorsOf :: "(gerr + 'a) list \<Rightarrow> gerr list" where
  "errorsOf rs = concat (map (\<lambda>r. case r of Inl e \<Rightarrow> [e] | Inr _ \<Rightarrow> []) rs)"

definition prepareAll ::
  "sdk \<Rightarrow> (string \<times> DelegatePlan) list \<Rightarrow> signer option list \<Rightarrow> uint32 \<Rightarrow> SorobanAuthorizationEntry list
     \<Rightarrow> gerr list \<times> (gerr + preparedEntry) list" where
  "prepareAll S plans signers validUntilLedger entries =
     (let steps = map (\<lambda>(i, e). prepareEntry S plans signers validUntilLedger i e) (enumerate 0 entries);
          used = concat (map (\<lambda>s. case snd s of None \<Rightarrow> [] | Some a \<Rightarrow> [a]) steps);
          unmatched = map (\<lambda>a. errw a (DelegatePlanUnmatchedError a)) (filter (\<lambda>a. a \<notin> set used) (map fst plans))
      in (errorsOf (map fst steps) @ unmatched, map fst steps))"

section \<open>The signing pass of AuthorizeAll\<close>

text \<open>The inner loop: each matched signer signs the result of the one before it.\<close>

definition signChain ::
  "sdk \<Rightarrow> ctx \<Rightarrow> uint32 \<Rightarrow> string \<Rightarrow> (signer \<Rightarrow> string) \<Rightarrow> signer list \<Rightarrow> SorobanAuthorizationEntry
     \<Rightarrow> gerr + SorobanAuthorizationEntry" where
  "signChain S ctx validUntilLedger networkPassphrase label =
     foldE (\<lambda>sg signed.
       wrapE (label sg)
         (authorized S ctx signed (Some sg) validUntilLedger networkPassphrase [ForAddress (sg_Address sg)]))"

definition signPrepared ::
  "sdk \<Rightarrow> ctx \<Rightarrow> uint32 \<Rightarrow> string \<Rightarrow> nat \<times> SorobanAuthorizationEntry \<times> preparedEntry
     \<Rightarrow> gerr + SorobanAuthorizationEntry" where
  "signPrepared S ctx validUntilLedger networkPassphrase t =
     (case t of (i, entry, p) \<Rightarrow>
        if cr_Type (en_Credentials entry) = CredentialsSourceAccount then Inr (pe_entry p)
        else signChain S ctx validUntilLedger networkPassphrase
               (\<lambda>sg. ''soroauth: authorize all: '' @ entryLabel i (pe_address p) @ '': signer '' @ sg_Address sg)
               (pe_signers p) (pe_entry p))"

definition checkSigned ::
  "sdk \<Rightarrow> nat \<times> SorobanAuthorizationEntry \<times> preparedEntry \<Rightarrow> gerr + unit" where
  "checkSigned S t =
     (case t of (i, out, p) \<Rightarrow>
        if cr_Type (en_Credentials out) = CredentialsSourceAccount then Inr ()
        else
          bindE (wrapE (''soroauth: authorize all: '' @ entryLabel i (pe_address p)) (credentialNodes S out)) (\<lambda>nodes.
          case find (\<lambda>node. \<not> isSigned (sigAt out (cn_signature node))) nodes of
            None \<Rightarrow> Inr ()
          | Some node \<Rightarrow>
              let address = (case formatAddressBytes S (cn_encoded node) of
                               Inl _ \<Rightarrow> ''<unformattable address>'' | Inr a \<Rightarrow> a)
              in Inl (errw (''soroauth: authorize all: '' @ entryLabel i address) (UnsignedCredentialNodeError address))))"

definition oks :: "(gerr + 'a) list \<Rightarrow> 'a list" where
  "oks rs = concat (map (\<lambda>r. case r of Inl _ \<Rightarrow> [] | Inr x \<Rightarrow> [x]) rs)"

definition AuthorizeAll ::
  "sdk \<Rightarrow> ctx \<Rightarrow> SorobanAuthorizationEntry list \<Rightarrow> signer option list \<Rightarrow> uint32 \<Rightarrow> string
     \<Rightarrow> AuthorizeAllOption option list \<Rightarrow> gerr + SorobanAuthorizationEntry list" where
  "AuthorizeAll S ctx entries signers validUntilLedger networkPassphrase opts =
     (case ctx of Some err \<Rightarrow> Inl (errw ''soroauth: authorize all'' err)
      | None \<Rightarrow>
        let config = applyAllOptions opts;
            (validationErrors, prepared) =
              prepareAll S (aa_delegatePlans config) signers validUntilLedger entries
        in if length validationErrors > 0
           then Inl (errw ''soroauth: authorize all'' (JoinError validationErrors))
           else
             bindE (mapE (signPrepared S ctx validUntilLedger networkPassphrase)
                      (enumerate 0 (zip entries (oks prepared)))) (\<lambda>out.
             bindE (if aa_requireAllSigned config
                    then mapE (checkSigned S) (enumerate 0 (zip out (oks prepared)))
                    else Inr []) (\<lambda>_.
               Inr out)))"

section \<open>AuthorizeBatch\<close>

record batchConfig =
  bc_maxWorkers :: int

definition WithMaxWorkers :: "int \<Rightarrow> batchConfig \<Rightarrow> batchConfig" where
  "WithMaxWorkers n = (\<lambda>c. c\<lparr>bc_maxWorkers := (if n < 1 then 1 else n)\<rparr>)"

definition batchWorkers :: "(batchConfig \<Rightarrow> batchConfig) list \<Rightarrow> nat" where
  "batchWorkers opts =
     (let workers = bc_maxWorkers (fold (\<lambda>opt c. opt c) opts \<lparr>bc_maxWorkers = 0\<rparr>)
      in if workers < 1 then 1 else nat workers)"

definition authorizeOne ::
  "sdk \<Rightarrow> ctx \<Rightarrow> SorobanAuthorizationEntry \<Rightarrow> signer option list \<Rightarrow> uint32 \<Rightarrow> string
     \<Rightarrow> gerr + SorobanAuthorizationEntry" where
  "authorizeOne S ctx entry signers validUntilLedger networkPassphrase =
     (if cr_Type (en_Credentials entry) = CredentialsSourceAccount then copyEntry S entry
      else
        let op = ''soroauth: authorize batch'' in
        bindE (wrapE op (addressCredentials (en_Credentials entry))) (\<lambda>credentials.
        bindE (wrapE op (FormatAddress S (ac_Address credentials))) (\<lambda>address.
        bindE (wrapE op (signersForEntry S entry signers)) (\<lambda>(matched, _).
        if length matched = 0
        then Inl (errw (op @ '': '' @ address) (MissingSignerError address))
        else signChain S ctx validUntilLedger networkPassphrase
               (\<lambda>sg. op @ '': signer '' @ sg_Address sg) matched entry))))"

text \<open>After the pool: the first failing slot in input order, or the results in order.\<close>

definition collectSlots :: "(gerr + SorobanAuthorizationEntry) list \<Rightarrow> gerr + SorobanAuthorizationEntry list" where
  "collectSlots slots =
     (let errs = filter (\<lambda>(i, r). \<not> isOk r) (enumerate 0 slots) in
      case errs of
        [] \<Rightarrow> Inr (oks slots)
      | (firstFailure, r) # _ \<Rightarrow>
          Inl (errw (''soroauth: authorize batch: '' @ itoa (length errs) @ '' of '' @ itoa (length slots) @
                 '' entries failed, first at entry '' @ itoa firstFailure)
               (case r of Inl e \<Rightarrow> e | Inr _ \<Rightarrow> errmsg '''')))"

text \<open>\<open>ctxAfter\<close> is what the context reports once the workers are done.\<close>

definition AuthorizeBatch ::
  "sdk \<Rightarrow> ctx \<Rightarrow> ctx \<Rightarrow> SorobanAuthorizationEntry list \<Rightarrow> signer option list \<Rightarrow> uint32 \<Rightarrow> string
     \<Rightarrow> gerr + SorobanAuthorizationEntry list" where
  "AuthorizeBatch S ctx ctxAfter entries signers validUntilLedger networkPassphrase =
     (case ctx of Some err \<Rightarrow> Inl (errw ''soroauth: authorize batch'' err)
      | None \<Rightarrow>
        let slots = map (\<lambda>entry. authorizeOne S ctx entry signers validUntilLedger networkPassphrase) entries in
        case ctxAfter of Some err \<Rightarrow> Inl (errw ''soroauth: authorize batch'' err)
        | None \<Rightarrow> collectSlots slots)"

section \<open>VerifyAll\<close>

record VerifyResult =
  vs_Index :: nat
  vs_Address :: string
  vs_Error :: "gerr option"

definition verifyWorkers :: "int \<Rightarrow> nat \<Rightarrow> nat" where
  "verifyWorkers concurrency n = (if concurrency \<le> 0 then n else if concurrency > int n then n else nat concurrency)"

text \<open>The body of a worker for one job.\<close>

definition verifyJob :: "sdk \<Rightarrow> string \<Rightarrow> nat \<Rightarrow> SorobanAuthorizationEntry \<Rightarrow> VerifyResult" where
  "verifyJob S networkPassphrase i local =
     (if cr_Type (en_Credentials local) = CredentialsSourceAccount
      then \<lparr>vs_Index = i, vs_Address = '''', vs_Error = None\<rparr>
      else case addressCredentials (en_Credentials local) of
        Inl err \<Rightarrow> \<lparr>vs_Index = i, vs_Address = '''', vs_Error = Some err\<rparr>
      | Inr credentials \<Rightarrow>
        let address = (case FormatAddress S (ac_Address credentials) of Inl _ \<Rightarrow> '''' | Inr a \<Rightarrow> a);
            err = (case VerifyEntry S local networkPassphrase of
                     Inl e \<Rightarrow> Some e
                   | Inr rep \<Rightarrow>
                       if Verified rep then None
                       else map_option (\<lambda>n. errmsg (''node '' @ nv_Address n @ '' verdict '' @
                              verdictString (nv_Verdict n) @ '': '' @ nv_Reason n))
                            (find (\<lambda>n. nv_Verdict n \<noteq> VerdictVerified \<and> nv_Verdict n \<noteq> VerdictUnsigned) (vr_Nodes rep)))
        in \<lparr>vs_Index = i, vs_Address = address, vs_Error = err\<rparr>)"

definition VerifyAll ::
  "sdk \<Rightarrow> ctx \<Rightarrow> SorobanAuthorizationEntry list \<Rightarrow> string \<Rightarrow> gerr + VerifyResult list" where
  "VerifyAll S ctx entries networkPassphrase =
     (case ctx of Some err \<Rightarrow> Inl (errw ''soroauth: verify all'' err)
      | None \<Rightarrow> Inr (map (\<lambda>(i, e). verifyJob S networkPassphrase i e) (enumerate 0 entries)))"

section \<open>The worker pools\<close>

text \<open>
  Both pools give every input position one job and one result slot. A worker takes a
  position that is still pending when a place is free (the semaphore of
  \<open>AuthorizeBatch\<close>, the fixed number of goroutines of \<open>VerifyAll\<close>) and later writes
  the result into its own slot; \<open>f\<close> is what the job computes.
\<close>

record 'r pool =
  pl_pending :: "nat list"
  pl_running :: "nat list"
  pl_slots :: "'r option list"

definition poolInit :: "nat \<Rightarrow> 'r pool" where
  "poolInit n = \<lparr>pl_pending = [0..<n], pl_running = [], pl_slots = replicate n None\<rparr>"

inductive pool_step :: "(nat \<Rightarrow> 'r) \<Rightarrow> nat \<Rightarrow> 'r pool \<Rightarrow> 'r pool \<Rightarrow> bool" for f workers where
  start: "i \<in> set (pl_pending s) \<Longrightarrow> length (pl_running s) < workers \<Longrightarrow>
     pool_step f workers s (s\<lparr>pl_pending := remove1 i (pl_pending s), pl_running := i # pl_running s\<rparr>)"
| finish: "i \<in> set (pl_running s) \<Longrightarrow>
     pool_step f workers s (s\<lparr>pl_running := remove1 i (pl_running s), pl_slots := (pl_slots s)[i := Some (f i)]\<rparr>)"

inductive_cases pool_stepE: "pool_step f workers s s'"

definition poolDone :: "'r pool \<Rightarrow> bool" where
  "poolDone s \<longleftrightarrow> pl_pending s = [] \<and> pl_running s = []"

text \<open>
  Between steps every position is pending, running, or done with its own result; no position
  is in two places and never more than \<open>workers\<close> run.
\<close>

definition poolInv :: "(nat \<Rightarrow> 'r) \<Rightarrow> nat \<Rightarrow> nat \<Rightarrow> 'r pool \<Rightarrow> bool" where
  "poolInv f workers n s \<longleftrightarrow>
     distinct (pl_pending s @ pl_running s) \<and> length (pl_slots s) = n \<and> length (pl_running s) \<le> workers \<and>
     (\<forall>i < n. i \<in> set (pl_pending s) \<union> set (pl_running s) \<or> pl_slots s ! i = Some (f i))"

lemma poolInv_init: "poolInv f workers n (poolInit n)"
  by (simp add: poolInv_def poolInit_def)

lemma poolInv_step: "poolInv f workers n s \<Longrightarrow> pool_step f workers s s' \<Longrightarrow> poolInv f workers n s'"
  by (erule pool_stepE)
    (auto simp: poolInv_def length_remove1 set_remove1_eq distinct_remove1,
      metis nth_list_update_eq nth_list_update_neq)

lemma poolInv_reachable: "(pool_step f workers)\<^sup>*\<^sup>* (poolInit n) s \<Longrightarrow> poolInv f workers n s"
  by (induction rule: rtranclp_induct) (auto intro: poolInv_init poolInv_step)

lemma pool_done_slots:
  assumes "(pool_step f workers)\<^sup>*\<^sup>* (poolInit n) s" and "poolDone s"
  shows "pl_slots s = map (\<lambda>i. Some (f i)) [0..<n]"
  using poolInv_reachable [OF assms(1)] assms(2)
  by (auto simp: poolInv_def poolDone_def intro!: nth_equalityI)

lemma pool_progress: "0 < workers \<Longrightarrow> \<not> poolDone s \<Longrightarrow> \<exists>s'. pool_step f workers s s'"
proof (cases "pl_running s")
  case Nil
  assume "0 < workers" "\<not> poolDone s"
  with Nil obtain i where "i \<in> set (pl_pending s)" by (cases "pl_pending s") (auto simp: poolDone_def)
  then show ?thesis using Nil \<open>0 < workers\<close> pool_step.start [of i s workers f] by auto
next
  case (Cons i rest)
  then show ?thesis using pool_step.finish [of i s f workers] by auto
qed

lemma pool_step_decreases:
  "pool_step f workers s s' \<Longrightarrow>
   2 * length (pl_pending s') + length (pl_running s') < 2 * length (pl_pending s) + length (pl_running s)"
proof (erule pool_stepE)
  fix i
  assume i: "i \<in> set (pl_pending s)"
    and s': "s' = s\<lparr>pl_pending := remove1 i (pl_pending s), pl_running := i # pl_running s\<rparr>"
  obtain k where "length (pl_pending s) = Suc k" using i by (cases "pl_pending s") auto
  then show ?thesis using i s' by (simp add: length_remove1)
next
  fix i
  assume i: "i \<in> set (pl_running s)"
    and s': "s' = s\<lparr>pl_running := remove1 i (pl_running s), pl_slots := (pl_slots s)[i := Some (f i)]\<rparr>"
  obtain k where "length (pl_running s) = Suc k" using i by (cases "pl_running s") auto
  then show ?thesis using i s' by (simp add: length_remove1)
qed

text \<open>Every schedule can be completed, and a completed one has the results in input order.\<close>

lemma pool_completes:
  assumes "0 < workers"
  shows "\<exists>s'. (pool_step f workers)\<^sup>*\<^sup>* s s' \<and> poolDone s'"
proof (induction "2 * length (pl_pending s) + length (pl_running s)" arbitrary: s rule: less_induct)
  case less
  show ?case
  proof (cases "poolDone s")
    case True
    then show ?thesis by blast
  next
    case False
    then obtain s1 where s1: "pool_step f workers s s1" using pool_progress assms by blast
    then obtain s2 where "(pool_step f workers)\<^sup>*\<^sup>* s1 s2" "poolDone s2"
      using less pool_step_decreases by blast
    then show ?thesis using s1 by (meson converse_rtranclp_into_rtranclp)
  qed
qed

section \<open>Laws of the batch\<close>

lemma oks_map_Inr [simp]: "oks (map Inr xs) = xs"
  by (induction xs) (simp_all add: oks_def)

lemma errorsOf_empty_iff: "errorsOf rs = [] \<longleftrightarrow> (\<forall>r \<in> set rs. isOk r)"
  by (induction rs) (auto simp: errorsOf_def split: sum.splits)

lemma all_ok_map_oks: "\<forall>r \<in> set rs. isOk r \<Longrightarrow> rs = map Inr (oks rs)"
  by (induction rs) (auto simp: oks_def isOk_iff)

lemma filter_enumerate_empty:
  "filter (\<lambda>(i, r). \<not> isOk r) (enumerate k rs) = [] \<longleftrightarrow> (\<forall>r \<in> set rs. isOk r)"
  by (induction rs arbitrary: k) auto

lemma collectSlots_Inr_iff: "collectSlots slots = Inr out \<longleftrightarrow> slots = map Inr out"
proof
  assume c: "collectSlots slots = Inr out"
  then have "filter (\<lambda>(i, r). \<not> isOk r) (enumerate 0 slots) = []" "oks slots = out"
    by (auto simp: collectSlots_def Let_def split: list.splits)
  then show "slots = map Inr out"
    using all_ok_map_oks filter_enumerate_empty by metis
next
  assume "slots = map Inr out"
  then show "collectSlots slots = Inr out"
    using filter_enumerate_empty [of 0 slots] by (simp add: collectSlots_def Let_def)
qed

lemma wrapE_map_Inr: "foldE (\<lambda>x s. wrapE (l x) (g x s)) xs s = Inr t \<longleftrightarrow> foldE g xs s = Inr t"
  by (induction xs arbitrary: s) (auto simp: bindE_Inr_iff)

lemma signChain_label:
  "signChain S ctx v net l sgs e = Inr e' \<longleftrightarrow>
     foldE (\<lambda>sg signed. authorized S ctx signed (Some sg) v net [ForAddress (sg_Address sg)]) sgs e = Inr e'"
  by (simp add: signChain_def wrapE_map_Inr)

text \<open>Without plans and options, both functions do the same to one entry.\<close>

lemma prepare_then_sign:
  "(\<exists>p. fst (prepareEntry S [] signers v i e) = Inr p \<and> signPrepared S ctx v net (i, e, p) = Inr e') \<longleftrightarrow>
   authorizeOne S ctx e signers v net = Inr e'"
proof (cases "cr_Type (en_Credentials e) = CredentialsSourceAccount")
  case True
  then show ?thesis
    by (auto simp: prepareEntry_def signPrepared_def authorizeOne_def bindE_Inr_iff)
next
  case False
  show ?thesis
  proof (cases "addressCredentials (en_Credentials e)")
    case (Inl err)
    with False show ?thesis by (simp add: prepareEntry_def authorizeOne_def)
  next
    case (Inr a)
    note a = Inr
    show ?thesis
    proof (cases "FormatAddress S (ac_Address a)")
      case (Inl err)
      with False a show ?thesis by (simp add: prepareEntry_def authorizeOne_def)
    next
      case (Inr address)
      with False a show ?thesis
        by (cases "signersForEntry S e signers")
          (auto simp: prepareEntry_def signPrepared_def authorizeOne_def prepareSigners_def Let_def signChain_label)
    qed
  qed
qed

lemma prepareAll_no_plans:
  "prepareAll S [] signers v entries =
     (errorsOf (map (\<lambda>(i, e). fst (prepareEntry S [] signers v i e)) (enumerate 0 entries)),
      map (\<lambda>(i, e). fst (prepareEntry S [] signers v i e)) (enumerate 0 entries))"
  by (simp add: prepareAll_def Let_def comp_def case_prod_unfold)

lemma list_all2_enumerate_zip:
  "length xs = length ps \<Longrightarrow>
   list_all2 R (enumerate k (zip xs ps)) ys \<longleftrightarrow>
     length ys = length xs \<and> (\<forall>i < length xs. R (k + i, xs ! i, ps ! i) (ys ! i))"
  by (auto simp: list_all2_conv_all_nth nth_enumerate_eq)

text \<open>A successful \<open>AuthorizeAll\<close>: every entry was prepared, and signed in its place.\<close>

lemma AuthorizeAll_Inr:
  assumes "AuthorizeAll S ctx entries signers v net opts = Inr out"
  obtains ps where "ctx = None" "length ps = length entries" "length out = length entries"
    "\<forall>i < length entries.
       fst (prepareEntry S (aa_delegatePlans (applyAllOptions opts)) signers v i (entries ! i)) = Inr (ps ! i) \<and>
       signPrepared S None v net (i, entries ! i, ps ! i) = Inr (out ! i)"
    "\<forall>a \<in> fst ` set (aa_delegatePlans (applyAllOptions opts)). \<exists>i < length entries.
       snd (prepareEntry S (aa_delegatePlans (applyAllOptions opts)) signers v i (entries ! i)) = Some a"
    "aa_requireAllSigned (applyAllOptions opts) \<longrightarrow>
       (\<forall>i < length entries. isOk (checkSigned S (i, out ! i, ps ! i)))"
proof -
  let ?plans = "aa_delegatePlans (applyAllOptions opts)"
  let ?f = "\<lambda>(i, e). prepareEntry S ?plans signers v i e"
  let ?steps = "map ?f (enumerate 0 entries)"
  have ctx: "ctx = None" using assms by (auto simp: AuthorizeAll_def split: option.splits)
  obtain prepared where prep: "prepareAll S ?plans signers v entries = ([], prepared)"
    using assms by (auto simp: AuthorizeAll_def Let_def split: option.splits prod.splits if_splits)
  then have p: "prepared = map fst ?steps" "errorsOf (map fst ?steps) = []"
    "filter (\<lambda>a. a \<notin> set (concat (map (\<lambda>s. case snd s of None \<Rightarrow> [] | Some a \<Rightarrow> [a]) ?steps))) (map fst ?plans) = []"
    unfolding prepareAll_def Let_def by (auto simp del: filter_empty_conv)
  define ps where "ps = oks prepared"
  have ps: "map fst ?steps = map Inr ps"
    using p(1,2) all_ok_map_oks [of "map fst ?steps"] by (simp add: ps_def errorsOf_empty_iff)
  have len: "length ps = length entries"
    using arg_cong [OF ps, of length] by simp
  have prepi: "fst (prepareEntry S ?plans signers v i (entries ! i)) = Inr (ps ! i)" if "i < length entries" for i
    using arg_cong [OF ps, of "\<lambda>xs. xs ! i"] that len by (simp add: nth_enumerate_eq)
  have sign: "mapE (signPrepared S None v net) (enumerate 0 (zip entries ps)) = Inr out"
    and chk: "aa_requireAllSigned (applyAllOptions opts) \<longrightarrow> isOk (mapE (checkSigned S) (enumerate 0 (zip out ps)))"
    using assms ctx prep
    by (auto simp: AuthorizeAll_def Let_def bindE_Inr_iff ps_def isOk_iff split: if_splits)
  have out: "length out = length entries"
    "\<forall>i < length entries. signPrepared S None v net (i, entries ! i, ps ! i) = Inr (out ! i)"
    using sign len unfolding mapE_Inr_iff by (auto simp: list_all2_enumerate_zip)
  have "\<exists>i < length entries. snd (prepareEntry S ?plans signers v i (entries ! i)) = Some a"
    if "a \<in> fst ` set ?plans" for a
  proof -
    have "a \<in> set (concat (map (\<lambda>s. case snd s of None \<Rightarrow> [] | Some a \<Rightarrow> [a]) ?steps))"
      using p(3) that unfolding filter_empty_conv by auto
    then show ?thesis
      by (auto simp: in_set_enumerate_eq split: option.splits)
  qed
  moreover have "\<forall>i < length entries. isOk (checkSigned S (i, out ! i, ps ! i))"
    if "aa_requireAllSigned (applyAllOptions opts)"
    using chk that len out(1) by (auto simp: isOk_mapE in_set_enumerate_eq)
  ultimately show ?thesis using that [OF ctx len out(1)] prepi out(2) by blast
qed

lemma prepareSigners_Inr:
  "prepareSigners S signers i address e = Inr p \<longleftrightarrow>
     (\<exists>matched b. signersForEntry S e signers = Inr (matched, b) \<and> matched \<noteq> [] \<and>
        p = \<lparr>pe_address = address, pe_entry = e, pe_signers = matched\<rparr>)"
  by (auto simp: prepareSigners_def bindE_Inr_iff)

lemma prepareEntry_Inr:
  assumes "fst (prepareEntry S plans signers v i e) = Inr p"
    and "cr_Type (en_Credentials e) \<noteq> CredentialsSourceAccount"
  obtains w matched b address where "signersForEntry S w signers = Inr (matched, b)" "matched \<noteq> []"
    "p = \<lparr>pe_address = address, pe_entry = w, pe_signers = matched\<rparr>"
    "w = e \<or> (\<exists>plan \<in> snd ` set plans. WithDelegates S e v (dp_Delegates plan) (dp_TopSignature plan) = Inr w)"
proof -
  obtain a where a: "addressCredentials (en_Credentials e) = Inr a"
    using assms by (cases "addressCredentials (en_Credentials e)") (auto simp: prepareEntry_def)
  obtain address where ad: "FormatAddress S (ac_Address a) = Inr address"
    using assms a by (cases "FormatAddress S (ac_Address a)") (auto simp: prepareEntry_def)
  show ?thesis
  proof (cases "map_of plans address")
    case None
    then have "prepareSigners S signers i address e = Inr p"
      using assms a ad by (simp add: prepareEntry_def)
    then show ?thesis using that by (auto simp: prepareSigners_Inr)
  next
    case (Some plan)
    then obtain w where w: "WithDelegates S e v (dp_Delegates plan) (dp_TopSignature plan) = Inr w"
      using assms a ad
      by (cases "WithDelegates S e v (dp_Delegates plan) (dp_TopSignature plan)") (auto simp: prepareEntry_def)
    then have "prepareSigners S signers i address w = Inr p"
      using assms a ad Some by (simp add: prepareEntry_def)
    moreover have "\<exists>plan \<in> snd ` set plans.
        WithDelegates S e v (dp_Delegates plan) (dp_TopSignature plan) = Inr w"
      using map_of_SomeD [OF Some] w by force
    ultimately show ?thesis using that unfolding prepareSigners_Inr by metis
  qed
qed

lemma prepareEntry_plan:
  "snd (prepareEntry S plans signers v i e) = Some a \<Longrightarrow>
   \<exists>c. addressCredentials (en_Credentials e) = Inr c \<and> FormatAddress S (ac_Address c) = Inr a"
  by (auto simp: prepareEntry_def split: if_splits sum.splits option.splits)

lemma checkSigned_ok:
  assumes "isOk (checkSigned S (i, out, p))" and "cr_Type (en_Credentials out) \<noteq> CredentialsSourceAccount"
  shows "\<exists>nodes. credentialNodes S out = Inr nodes \<and> (\<forall>c \<in> set nodes. signedAt out (cn_signature c))"
proof -
  obtain nodes where n: "credentialNodes S out = Inr nodes"
    and f: "find (\<lambda>node. \<not> isSigned (sigAt out (cn_signature node))) nodes = None"
    using assms by (auto simp: checkSigned_def isOk_bindE Let_def split: option.splits)
  have "signedAt out (cn_signature c)" if c: "c \<in> set nodes" for c
    using f c credentialNodes_deref [OF n c] by (auto simp: find_None_iff signedAt_def sigAt_def)
  then show ?thesis using n by blast
qed

end
