(* ===== verification/Batch_Properties.thy ===== *)
theory Batch_Properties
  imports Batch Sample_Sdk
begin

text \<open>
  What the batch operations guarantee, over the definitions of \<^verbatim>\<open>Batch\<close>.
\<close>

section \<open>AuthorizeAll\<close>

text \<open>The signers of an entry, one after the other, each for its own address.\<close>

definition signEach ::
  "sdk \<Rightarrow> uint32 \<Rightarrow> string \<Rightarrow> signer list \<Rightarrow> SorobanAuthorizationEntry \<Rightarrow> gerr + SorobanAuthorizationEntry" where
  "signEach S v net =
     foldE (\<lambda>sg signed. authorized S None signed (Some sg) v net [ForAddress (sg_Address sg)])"


text \<open>The sample batch: a source-account entry and an entry of the account \<open>GA\<close>.\<close>

lemma sample_target_for [simp]:
  "resolveTarget sampleSdk (applyOptions [ForAddress ''GA'']) sampleSigner = Inr (''GA'', 0 # keyOf 1)"
  by (simp add: resolveTarget_def applyOptions_def ForAddress_def zeroConfig_def addressBytes_def)

lemma sample_authorizes_for [simp]:
  "authorized sampleSdk None entryV2 (Some sampleSigner) 100 sampleNetwork [ForAddress ''GA''] =
     Inr (signedEntry sampleSdk (0 # keyOf 1) (sampleSignature 1) 100 entryV2)"
proof -
  have "authorizeGuards sampleSdk (applyOptions [ForAddress ''GA'']) entryV2 (Some sampleSigner) 100 =
      Inr (sampleSigner, ''GA'', entryV2, [[]])"
    by (simp add: authorizeGuards_def copyEntry_id resolveScope_def Let_def)
      (simp add: applyOptions_def ForAddress_def zeroConfig_def resolveScope_def)
  then show ?thesis
    using writes_give_signedEntry [OF sample_nodes(2), of "sampleSignature 1" "0 # keyOf 1" 100]
    by (simp add: AuthorizeEntry_def Let_def)
qed

lemma sample_signers [simp]:
  "signersForEntry sampleSdk entryV2 [None, Some sampleSigner] = Inr ([sampleSigner], True)"
  by (simp add: signersForEntry_def addressBytes_def)

lemma sample_batch_one [simp]:
  "authorizeOne sampleSdk None entryV2 [None, Some sampleSigner] 100 sampleNetwork =
     Inr (signedEntry sampleSdk (0 # keyOf 1) (sampleSignature 1) 100 entryV2)"
  "authorizeOne sampleSdk None entrySource [None, Some sampleSigner] 100 sampleNetwork = Inr entrySource"
  by (simp_all add: authorizeOne_def copyEntry_id signChain_label Let_def)

lemma sample_batch_prepared:
  "fst (prepareEntry sampleSdk [] [None, Some sampleSigner] 100 i entrySource) =
     Inr \<lparr>pe_address = '''', pe_entry = entrySource, pe_signers = []\<rparr>"
  "fst (prepareEntry sampleSdk [] [None, Some sampleSigner] 100 i entryV2) =
     Inr \<lparr>pe_address = ''GA'', pe_entry = entryV2, pe_signers = [sampleSigner]\<rparr>"
  by (simp_all add: prepareEntry_def prepareSigners_def copyEntry_id)

lemma sample_authorize_all:
  "AuthorizeAll sampleSdk None [entrySource, entryV2] [None, Some sampleSigner] 100 sampleNetwork [Some RequireAllSigned] =
     Inr [entrySource, signedEntry sampleSdk (0 # keyOf 1) (sampleSignature 1) 100 entryV2]"
proof -
  let ?ps = "[\<lparr>pe_address = '''', pe_entry = entrySource, pe_signers = []\<rparr>,
    \<lparr>pe_address = ''GA'', pe_entry = entryV2, pe_signers = [sampleSigner]\<rparr>]"
  let ?signed = "signedEntry sampleSdk (0 # keyOf 1) (sampleSignature 1) 100 entryV2"
  have prep: "prepareAll sampleSdk [] [None, Some sampleSigner] 100 [entrySource, entryV2] = ([], map Inr ?ps)"
    by (simp add: prepareAll_no_plans sample_batch_prepared errorsOf_def)
  have sign: "signPrepared sampleSdk None 100 sampleNetwork (i, entrySource, ?ps ! 0) = Inr entrySource"
    "signPrepared sampleSdk None 100 sampleNetwork (i, entryV2, ?ps ! 1) = Inr ?signed" for i
    by (simp_all add: signPrepared_def signChain_label)
  have "credentialNodes sampleSdk ?signed = Inr [\<lparr>cn_encoded = 0 # keyOf 1, cn_signature = []\<rparr>]"
    by (simp add: credentialNodes_signedEntry)
  then have chk: "checkSigned sampleSdk (i, entrySource, p) = Inr ()" "checkSigned sampleSdk (i, ?signed, p) = Inr ()" for i p
    using sigAt_signedEntry [OF sample_nodes(2), of "\<lparr>cn_encoded = 0 # keyOf 1, cn_signature = []\<rparr>" "0 # keyOf 1"
        "sampleSignature 1" 100]
    by (simp_all add: checkSigned_def) (simp add: sampleSignature_def)
  show ?thesis
    using sign chk oks_map_Inr [of ?ps]
    by (simp add: AuthorizeAll_def applyAllOptions_def RequireAllSigned_def prep)
qed


text \<open>
  With \<open>RequireAllSigned\<close> a batch that succeeds left no node unsigned: every
  credential node of every output entry that is not source-account carries a signature.
\<close>

lemma require_all_signed:
  assumes "AuthorizeAll S ctx entries signers v net opts = Inr out"
    and "aa_requireAllSigned (applyAllOptions opts)"
  shows "\<forall>e \<in> set out. cr_Type (en_Credentials e) \<noteq> CredentialsSourceAccount \<longrightarrow>
     (\<exists>nodes. credentialNodes S e = Inr nodes \<and> (\<forall>c \<in> set nodes. signedAt e (cn_signature c)))"
proof -
  obtain ps where "length out = length entries"
    "aa_requireAllSigned (applyAllOptions opts) \<longrightarrow>
       (\<forall>i < length entries. isOk (checkSigned S (i, out ! i, ps ! i)))"
    using AuthorizeAll_Inr [OF assms(1)] by metis
  then have ok: "\<exists>i p. isOk (checkSigned S (i, e, p))" if "e \<in> set out" for e
    using assms(2) that by (metis in_set_conv_nth)
  show ?thesis using checkSigned_ok ok by metis
qed

section \<open>AuthorizeBatch\<close>

text \<open>
  \<open>AuthorizeBatch\<close> and \<open>AuthorizeAll\<close> without options agree: one succeeds exactly
  when the other does, with the same entries in the same order.
\<close>

lemma batch_equals_all:
  "AuthorizeBatch S None None entries signers v net = Inr out \<longleftrightarrow>
   AuthorizeAll S None entries signers v net [] = Inr out"
proof
  assume "AuthorizeBatch S None None entries signers v net = Inr out"
  then have slots: "map (\<lambda>e. authorizeOne S None e signers v net) entries = map Inr out"
    by (simp add: AuthorizeBatch_def Let_def collectSlots_Inr_iff)
  then have len: "length out = length entries" by (metis length_map)
  have "\<forall>i < length entries. \<exists>p. fst (prepareEntry S [] signers v i (entries ! i)) = Inr p \<and>
      signPrepared S None v net (i, entries ! i, p) = Inr (out ! i)"
    unfolding prepare_then_sign using slots len by (metis nth_map)
  then obtain P where P: "\<forall>i < length entries. fst (prepareEntry S [] signers v i (entries ! i)) = Inr (P i) \<and>
      signPrepared S None v net (i, entries ! i, P i) = Inr (out ! i)" by metis
  let ?ps = "map P [0..<length entries]"
  have prep: "map (\<lambda>(i, e). fst (prepareEntry S [] signers v i e)) (enumerate 0 entries) = map Inr ?ps"
    using P by (auto simp: nth_enumerate_eq intro!: nth_equalityI)
  have "mapE (signPrepared S None v net) (enumerate 0 (zip entries ?ps)) = Inr out"
    using P len by (simp add: mapE_Inr_iff list_all2_enumerate_zip)
  moreover have "errorsOf (map Inr ?ps :: (gerr + preparedEntry) list) = []"
    by (simp add: errorsOf_empty_iff)
  ultimately show "AuthorizeAll S None entries signers v net [] = Inr out"
    unfolding AuthorizeAll_def applyAllOptions_def
    using oks_map_Inr [of ?ps] by (simp add: prepareAll_no_plans prep del: map_map oks_map_Inr)
next
  assume a: "AuthorizeAll S None entries signers v net [] = Inr out"
  obtain ps where "length out = length entries" "\<forall>i < length entries.
       fst (prepareEntry S (aa_delegatePlans (applyAllOptions [])) signers v i (entries ! i)) = Inr (ps ! i) \<and>
       signPrepared S None v net (i, entries ! i, ps ! i) = Inr (out ! i)"
    using AuthorizeAll_Inr [OF a] by metis
  note ps = this
  have "authorizeOne S None (entries ! i) signers v net = Inr (out ! i)" if "i < length entries" for i
    using ps(2) that prepare_then_sign [of S signers v i "entries ! i" None net "out ! i"]
    by (auto simp: applyAllOptions_def)
  then have "map (\<lambda>e. authorizeOne S None e signers v net) entries = map Inr out"
    using ps(1) by (auto intro!: nth_equalityI)
  then show "AuthorizeBatch S None None entries signers v net = Inr out"
    by (simp add: AuthorizeBatch_def Let_def collectSlots_Inr_iff)
qed



section \<open>VerifyAll\<close>

text \<open>
  When \<open>VerifyAll\<close> reports no error for an address entry: exactly when verification
  produced a report in which every node is verified or unsigned. The result for an entry
  does not depend on the others.
\<close>

lemma verify_all_error_exact:
  assumes "VerifyAll S None entries net = Inr results" and "i < length entries"
    and "addressCredentials (en_Credentials (entries ! i)) = Inr a"
  shows "length results = length entries \<and> vs_Index (results ! i) = i \<and>
     (vs_Error (results ! i) = None \<longleftrightarrow>
        (\<exists>r. VerifyEntry S (entries ! i) net = Inr r \<and>
           (\<forall>n \<in> set (vr_Nodes r). nv_Verdict n = VerdictVerified \<or> nv_Verdict n = VerdictUnsigned)))"
proof -
  let ?e = "entries ! i"
  have t: "cr_Type (en_Credentials ?e) \<noteq> CredentialsSourceAccount"
    using assms(3) by (auto simp: addressCredentials_def)
  have res: "length results = length entries" "results ! i = verifyJob S net i ?e"
    using assms(1,2) by (auto simp: VerifyAll_def nth_enumerate_eq)
  have "vs_Error (verifyJob S net i ?e) = None \<longleftrightarrow>
        (\<exists>r. VerifyEntry S ?e net = Inr r \<and>
           (\<forall>n \<in> set (vr_Nodes r). nv_Verdict n = VerdictVerified \<or> nv_Verdict n = VerdictUnsigned))"
    using t assms(3)
    by (cases "VerifyEntry S ?e net")
      (auto simp: verifyJob_def Let_def Verified_def list_all_iff find_None_iff)
  moreover have "vs_Index (verifyJob S net i ?e) = i"
    using t assms(3) by (simp add: verifyJob_def Let_def)
  ultimately show ?thesis using res by simp
qed

end
