(* ===== verification/Chain.thy ===== *)
theory Chain
  imports Signers
begin

text \<open>
  Signer chains (\<^verbatim>\<open>src/chain.go\<close>): fallback over interchangeable signers and a quorum
  of identical signatures, with the audit record of every call. The context is polled as the
  code polls it: \<open>poll i 0\<close> is what it reports before signer \<open>i\<close> is called and
  \<open>poll i 1\<close> after that signer failed.
\<close>

section \<open>Outcomes and audit records\<close>

definition MarkTransient :: "gerr option \<Rightarrow> gerr option" where
  "MarkTransient erro = map_option TransientError erro"

record ChainAttempt =
  at_Index :: nat
  at_Address :: string
  at_Outcome :: ChainOutcome
  at_Reason :: string
  at_Err :: "gerr option"

definition chainError :: "ChainAttempt list \<Rightarrow> gerr \<Rightarrow> gerr" where
  "chainError attempts cause =
     ChainError (map (\<lambda>a. (at_Index a, at_Address a, at_Outcome a, at_Reason a, at_Err a)) attempts) cause"

record chainSigner =
  ch_address :: string
  ch_signers :: "signer list"
  ch_quorum :: nat

section \<open>Construction\<close>

text \<open>The loop of \<open>newChain\<close>: \<open>address\<close> is signer 0's once it has been seen.\<close>

fun checkChain :: "nat \<Rightarrow> string option \<Rightarrow> signer option list \<Rightarrow> gerr + (string option \<times> signer list)" where
  "checkChain i address [] = Inr (address, [])"
| "checkChain i address (None # rest) =
     Inl (errw (''soroauth: new signer chain: signer '' @ itoa i @ '' is nil'') (Sentinel ErrMissingSigner))"
| "checkChain i address (Some sg # rest) =
     (let a = sg_Address sg in
      if a = ''''
      then Inl (errw (''soroauth: new signer chain: signer '' @ itoa i @ '' has an empty address'')
                  (Sentinel ErrMissingSigner))
      else case address of
        None \<Rightarrow> bindE (checkChain (Suc i) (Some a) rest) (\<lambda>(ad, sgs). Inr (ad, sg # sgs))
      | Some first \<Rightarrow>
          if a \<noteq> first
          then Inl (errw (''soroauth: new signer chain: signer '' @ itoa i @ '' is for '' @ a @
                 '', signer 0 is for '' @ first) (Sentinel ErrSignerAddressMismatch))
          else bindE (checkChain (Suc i) address rest) (\<lambda>(ad, sgs). Inr (ad, sg # sgs)))"

definition newChain :: "nat \<Rightarrow> signer option list \<Rightarrow> gerr + chainSigner" where
  "newChain quorum signers =
     (if length signers = 0
      then Inl (errw ''soroauth: new signer chain: no signers'' (Sentinel ErrMissingSigner))
      else bindE (checkChain 0 None signers) (\<lambda>(address, sgs).
        Inr \<lparr>ch_address = (case address of None \<Rightarrow> '''' | Some a \<Rightarrow> a), ch_signers = sgs, ch_quorum = quorum\<rparr>))"

definition NewFallbackSigner :: "signer option list \<Rightarrow> gerr + chainSigner" where
  "NewFallbackSigner signers = newChain 0 signers"

definition NewQuorumSigner :: "int \<Rightarrow> signer option list \<Rightarrow> gerr + chainSigner" where
  "NewQuorumSigner quorum signers =
     (if quorum < 1 \<or> quorum > int (length signers)
      then Inl (errw (''soroauth: new quorum signer: quorum '' @ itoa_int quorum @ '' is outside 1..'' @ itoa (length signers))
                  (Sentinel ErrMissingSigner))
      else newChain (nat quorum) signers)"

section \<open>Signing\<close>

text \<open>\<open>errors.Is\<close> against the policy refusal or a rejection wins over the transient mark.\<close>

definition classify :: "gerr \<Rightarrow> ChainOutcome" where
  "classify err =
     (if errors_Is err ErrPolicyRefusal \<or> IsSignatureRejection (Some err) then ChainTerminalFailure
      else if errors_Is err ErrSignerTransient then ChainTransientFailure
      else ChainTerminalFailure)"

definition terminalReason :: "gerr \<Rightarrow> string" where
  "terminalReason err =
     (if errors_Is err ErrPolicyRefusal then ''policy refusal''
      else if IsSignatureRejection (Some err) then ''signature rejection''
      else ''error not marked transient'')"

definition attempt :: "chainSigner \<Rightarrow> nat \<Rightarrow> ChainOutcome \<Rightarrow> string \<Rightarrow> gerr option \<Rightarrow> ChainAttempt" where
  "attempt c i outcome reason err =
     \<lparr>at_Index = i, at_Address = ch_address c, at_Outcome = outcome, at_Reason = reason, at_Err = err\<rparr>"

definition skipFrom :: "chainSigner \<Rightarrow> nat \<Rightarrow> string \<Rightarrow> ChainAttempt list" where
  "skipFrom c i reason = map (\<lambda>j. attempt c j ChainSkipped reason None) [i..<length (ch_signers c)]"

type_synonym chainResult = "ChainAttempt list \<times> (gerr + ScVal)"

definition chainFail :: "ChainAttempt list \<Rightarrow> gerr \<Rightarrow> chainResult" where
  "chainFail attempts cause = (attempts, Inl (chainError attempts cause))"

fun fallbackLoop ::
  "chainSigner \<Rightarrow> (nat \<Rightarrow> nat \<Rightarrow> gerr option) \<Rightarrow> HashIdPreimage \<Rightarrow> bytes \<Rightarrow> nat \<Rightarrow> signer list
     \<Rightarrow> ChainAttempt list \<Rightarrow> chainResult" where
  "fallbackLoop c poll preimage payload i [] attempts =
     chainFail attempts (errw (''soroauth: sign signer chain: '' @ itoa (length (ch_signers c)) @ '' signers'')
       (Sentinel ErrChainExhausted))"
| "fallbackLoop c poll preimage payload i (s # rest) attempts =
     (case poll i 0 of
        Some err \<Rightarrow>
          chainFail (attempts @ skipFrom c i ''context cancelled before this signer was called'')
            (errw ''soroauth: sign signer chain'' err)
      | None \<Rightarrow>
        (case sg_Sign s None preimage payload of
           Inr val \<Rightarrow>
             (attempts @ [attempt c i ChainSucceeded ''returned a signature'' None] @
                skipFrom c (Suc i) (''signer '' @ itoa i @ '' succeeded''), Inr val)
         | Inl err \<Rightarrow>
             (case poll i 1 of
                Some ctxErr \<Rightarrow>
                  chainFail (attempts @ [attempt c i ChainTerminalFailure ''context cancelled during signing'' (Some err)] @
                      skipFrom c (Suc i) ''context cancelled'')
                    (errw ''soroauth: sign signer chain'' ctxErr)
              | None \<Rightarrow>
                  if classify err = ChainTerminalFailure
                  then chainFail (attempts @ [attempt c i ChainTerminalFailure
                           (''terminal failure; the chain does not fall through: '' @ terminalReason err) (Some err)] @
                           skipFrom c (Suc i) (''signer '' @ itoa i @ '' failed terminally''))
                         (errw (''soroauth: sign signer chain: signer '' @ itoa i) err)
                  else fallbackLoop c poll preimage payload (Suc i) rest
                         (attempts @ [attempt c i (classify err) ''transient failure; trying the next signer'' (Some err)]))))"

definition signFallback ::
  "chainSigner \<Rightarrow> (nat \<Rightarrow> nat \<Rightarrow> gerr option) \<Rightarrow> HashIdPreimage \<Rightarrow> bytes \<Rightarrow> chainResult" where
  "signFallback c poll preimage payload = fallbackLoop c poll preimage payload 0 (ch_signers c) []"

definition joinIndexes :: "nat list \<Rightarrow> string" where
  "joinIndexes idx =
     ''['' @ (case map itoa idx of [] \<Rightarrow> [] | p # ps \<Rightarrow> p @ concat (map (\<lambda>q. '' '' @ q) ps)) @ '']''"

text \<open>
  The quorum loop; \<open>agreed\<close> is the signature in hand with its encoding and
  \<open>agreedBy\<close> the signers that returned it.
\<close>

fun quorumLoop ::
  "sdk \<Rightarrow> chainSigner \<Rightarrow> (nat \<Rightarrow> nat \<Rightarrow> gerr option) \<Rightarrow> HashIdPreimage \<Rightarrow> bytes \<Rightarrow> nat \<Rightarrow> signer list
     \<Rightarrow> bytes \<Rightarrow> nat list \<Rightarrow> ChainAttempt list \<Rightarrow> chainResult" where
  "quorumLoop S c poll preimage payload i [] agreedBytes agreedBy attempts =
     chainFail attempts (errw (''soroauth: sign signer quorum: '' @ itoa (ch_quorum c) @ '' of '' @
       itoa (length (ch_signers c)) @ '' required, '' @ itoa (length agreedBy) @ '' agreed'') (Sentinel ErrQuorumNotMet))"
| "quorumLoop S c poll preimage payload i (s # rest) agreedBytes agreedBy attempts =
     (case poll i 0 of
        Some err \<Rightarrow>
          chainFail (attempts @ skipFrom c i ''context cancelled before this signer was called'')
            (errw ''soroauth: sign signer quorum'' err)
      | None \<Rightarrow>
        if length agreedBy + (length (ch_signers c) - i) < ch_quorum c
        then chainFail (attempts @ skipFrom c i ''quorum can no longer be reached'')
               (errw (''soroauth: sign signer quorum: '' @ itoa (ch_quorum c) @ '' of '' @
                  itoa (length (ch_signers c)) @ '' required, '' @ itoa (length agreedBy) @ '' agreed'')
                  (Sentinel ErrQuorumNotMet))
        else (case sg_Sign s None preimage payload of
           Inl err \<Rightarrow>
             (case poll i 1 of
                Some ctxErr \<Rightarrow>
                  chainFail (attempts @ [attempt c i ChainTerminalFailure ''context cancelled during signing'' (Some err)] @
                      skipFrom c (Suc i) ''context cancelled'')
                    (errw ''soroauth: sign signer quorum'' ctxErr)
              | None \<Rightarrow>
                  if classify err = ChainTerminalFailure
                  then chainFail (attempts @ [attempt c i ChainTerminalFailure
                           (''terminal failure; the quorum is abandoned: '' @ terminalReason err) (Some err)] @
                           skipFrom c (Suc i) (''signer '' @ itoa i @ '' failed terminally''))
                         (errw (''soroauth: sign signer quorum: signer '' @ itoa i) err)
                  else quorumLoop S c poll preimage payload (Suc i) rest agreedBytes agreedBy
                         (attempts @ [attempt c i (classify err)
                            ''transient failure; the quorum may still be reached'' (Some err)]))
         | Inr val \<Rightarrow>
             (case ScVal_MarshalBinary S val of
                Inl err \<Rightarrow>
                  chainFail (attempts @ [attempt c i ChainTerminalFailure ''signature is not encodable'' (Some err)] @
                      skipFrom c (Suc i) (''signer '' @ itoa i @ '' returned an unencodable signature''))
                    (errw (''soroauth: sign signer quorum: signer '' @ itoa i) err)
              | Inr encoded \<Rightarrow>
                  if agreedBy \<noteq> [] \<and> encoded \<noteq> agreedBytes
                  then chainFail (attempts @ [attempt c i ChainTerminalFailure
                           ''returned a different signature from the signers before it'' None] @
                           skipFrom c (Suc i) ''signers disagree'')
                         (errw (''soroauth: sign signer quorum: signers '' @ joinIndexes agreedBy @
                            '' returned one signature and signer '' @ itoa i @ '' another'')
                            (Sentinel ErrQuorumDisagreement))
                  else
                    let attempts' = attempts @ [attempt c i ChainSucceeded ''returned a signature'' None];
                        agreedBy' = agreedBy @ [i]
                    in if length agreedBy' = ch_quorum c
                       then (attempts' @ skipFrom c (Suc i) ''quorum reached'', Inr val)
                       else quorumLoop S c poll preimage payload (Suc i) rest encoded agreedBy' attempts')))"

definition signQuorum ::
  "sdk \<Rightarrow> chainSigner \<Rightarrow> (nat \<Rightarrow> nat \<Rightarrow> gerr option) \<Rightarrow> HashIdPreimage \<Rightarrow> bytes \<Rightarrow> chainResult" where
  "signQuorum S c poll preimage payload = quorumLoop S c poll preimage payload 0 (ch_signers c) [] [] []"

definition chainSign ::
  "sdk \<Rightarrow> chainSigner \<Rightarrow> (nat \<Rightarrow> nat \<Rightarrow> gerr option) \<Rightarrow> HashIdPreimage \<Rightarrow> bytes \<Rightarrow> chainResult" where
  "chainSign S c poll preimage payload =
     (if ch_quorum c > 0 then signQuorum S c poll preimage payload else signFallback c poll preimage payload)"

section \<open>One record per signer\<close>

lemma at_Index_attempt [simp]: "at_Index (attempt c i out reason err) = i"
  by (simp add: attempt_def)

lemma map_at_Index_skipFrom [simp]: "map at_Index (skipFrom c i reason) = [i..<length (ch_signers c)]"
  by (simp add: skipFrom_def comp_def)

lemma fst_chainFail [simp]: "fst (chainFail as e) = as"
  by (simp add: chainFail_def)

lemma fallbackLoop_audit:
  "i + length rest = length (ch_signers c) \<Longrightarrow>
   map at_Index (fst (fallbackLoop c poll p h i rest as)) = map at_Index as @ [i..<length (ch_signers c)]"
proof (induction c poll p h i rest as rule: fallbackLoop.induct)
  case (1 c poll p h i as)
  then show ?case by simp
next
  case (2 c poll p h i s rest as)
  then have upt: "[i..<length (ch_signers c)] = i # [Suc i..<length (ch_signers c)]"
    by (simp add: upt_conv_Cons)
  show ?case using 2 by (auto simp: upt split: option.splits sum.splits)
qed

lemma quorumLoop_audit:
  "i + length rest = length (ch_signers c) \<Longrightarrow>
   map at_Index (fst (quorumLoop S c poll p h i rest ab ag as)) = map at_Index as @ [i..<length (ch_signers c)]"
proof (induction S c poll p h i rest ab ag as rule: quorumLoop.induct)
  case (1 S c poll p h i ab ag as)
  then show ?case by simp
next
  case (2 S c poll p h i s rest ab ag as)
  then have upt: "[i..<length (ch_signers c)] = i # [Suc i..<length (ch_signers c)]"
    by (simp add: upt_conv_Cons)
  show ?case using 2 by (auto simp: upt Let_def split: option.splits sum.splits)
qed

section \<open>Fallback\<close>

definition transientAt :: "signer list \<Rightarrow> HashIdPreimage \<Rightarrow> bytes \<Rightarrow> nat \<Rightarrow> bool" where
  "transientAt sgs p h j \<longleftrightarrow>
     (\<exists>e. sg_Sign (sgs ! j) None p h = Inl e \<and> classify e = ChainTransientFailure)"

lemma classify_two: "classify e = ChainTerminalFailure \<or> classify e = ChainTransientFailure"
  by (simp add: classify_def)

lemma fallbackLoop_Inr:
  "snd (fallbackLoop c poll p h i rest as) = Inr val \<Longrightarrow>
   \<exists>k < length rest. sg_Sign (rest ! k) None p h = Inr val \<and> (\<forall>j < k. transientAt rest p h j)"
proof (induction c poll p h i rest as rule: fallbackLoop.induct)
  case (1 c poll p h i as)
  then show ?case by (simp add: chainFail_def)
next
  case (2 c poll p h i s rest as)
  show ?case
  proof (cases "sg_Sign s None p h")
    case (Inr v)
    then show ?thesis using 2(2) by (auto simp: chainFail_def split: option.splits)
  next
    case (Inl e)
    then have none: "poll i 0 = None" "poll i 1 = None" "classify e \<noteq> ChainTerminalFailure"
      using 2(2) by (auto simp: chainFail_def split: option.splits if_splits)
    then obtain k where k: "k < length rest" "sg_Sign (rest ! k) None p h = Inr val" "\<forall>j < k. transientAt rest p h j"
      using 2 Inl by auto
    have "transientAt (s # rest) p h j" if "j < Suc k" for j
      using that k(3) Inl none(3) classify_two [of e] by (cases j) (auto simp: transientAt_def)
    then show ?thesis using k(1,2) by (intro exI [of _ "Suc k"]) auto
  qed
qed

lemma fallbackLoop_complete:
  assumes "\<And>i m. poll i m = None"
  shows "k < length rest \<Longrightarrow> sg_Sign (rest ! k) None p h = Inr val \<Longrightarrow> (\<forall>j < k. transientAt rest p h j) \<Longrightarrow>
   snd (fallbackLoop c poll p h i rest as) = Inr val"
proof (induction rest arbitrary: k i as)
  case Nil
  then show ?case by simp
next
  case (Cons s rest)
  show ?case
  proof (cases k)
    case 0
    then show ?thesis using Cons.prems assms by simp
  next
    case (Suc k')
    then obtain e where e: "sg_Sign s None p h = Inl e" "classify e = ChainTransientFailure"
      using Cons.prems(3) by (auto simp: transientAt_def)
    have "\<forall>j < k'. transientAt rest p h j"
      using Cons.prems(3) Suc by (auto simp: transientAt_def)
    then show ?thesis using Cons.IH [of k'] Cons.prems Suc e assms by simp
  qed
qed

section \<open>Quorum\<close>

text \<open>
  What the loop knows before signer \<open>i\<close>: the signers in \<open>agreedBy\<close> returned values
  with the encoding in hand, and every other signer asked so far failed transiently.
\<close>

definition quorumInv ::
  "sdk \<Rightarrow> signer list \<Rightarrow> HashIdPreimage \<Rightarrow> bytes \<Rightarrow> nat \<Rightarrow> bytes \<Rightarrow> nat list \<Rightarrow> bool" where
  "quorumInv S sgs p h i ab ag \<longleftrightarrow>
     sorted_wrt (<) ag \<and> (\<forall>k \<in> set ag. k < i) \<and>
     (\<forall>k \<in> set ag. \<exists>v. sg_Sign (sgs ! k) None p h = Inr v \<and> ScVal_MarshalBinary S v = Inr ab) \<and>
     (\<forall>j < i. j \<in> set ag \<or> transientAt sgs p h j)"

definition quorumReached ::
  "sdk \<Rightarrow> signer list \<Rightarrow> HashIdPreimage \<Rightarrow> bytes \<Rightarrow> nat \<Rightarrow> ScVal \<Rightarrow> bool" where
  "quorumReached S sgs p h q val \<longleftrightarrow>
     (\<exists>ag ab. length ag = q \<and> sorted_wrt (<) ag \<and> (\<forall>k \<in> set ag. k < length sgs) \<and>
        ScVal_MarshalBinary S val = Inr ab \<and>
        (\<forall>k \<in> set ag. \<exists>v. sg_Sign (sgs ! k) None p h = Inr v \<and> ScVal_MarshalBinary S v = Inr ab) \<and>
        (\<forall>j \<le> last ag. j \<in> set ag \<or> transientAt sgs p h j) \<and>
        sg_Sign (sgs ! last ag) None p h = Inr val)"

lemma quorumLoop_Inr:
  "snd (quorumLoop S c poll p h i rest ab ag as) = Inr val \<Longrightarrow> rest = drop i (ch_signers c) \<Longrightarrow>
   quorumInv S (ch_signers c) p h i ab ag \<Longrightarrow> quorumReached S (ch_signers c) p h (ch_quorum c) val"
proof (induction S c poll p h i rest ab ag as rule: quorumLoop.induct)
  case (1 S c poll p h i ab ag as)
  then show ?case by (simp add: chainFail_def)
next
  case (2 S c poll p h i s rest ab ag as)
  have "i < length (ch_signers c)" using 2(4) by (metis drop_eq_Nil leI list.distinct(1))
  moreover from this have "ch_signers c ! i # drop (Suc i) (ch_signers c) = s # rest"
    using 2(4) by (simp add: Cons_nth_drop_Suc)
  ultimately have i: "i < length (ch_signers c)" "ch_signers c ! i = s" "rest = drop (Suc i) (ch_signers c)"
    by auto
  show ?case
  proof (cases "sg_Sign s None p h")
    case (Inl e)
    then have none: "poll i 0 = None" "poll i 1 = None" "classify e \<noteq> ChainTerminalFailure"
      "\<not> length ag + (length (ch_signers c) - i) < ch_quorum c"
      using 2(3) by (auto simp: chainFail_def split: option.splits if_splits)
    have "quorumInv S (ch_signers c) p h (Suc i) ab ag"
      using 2(5) Inl none(3) classify_two [of e] i(2)
      by (auto simp: quorumInv_def transientAt_def less_Suc_eq)
    then show ?thesis using 2(1) none Inl 2(3) i(3) by auto
  next
    case (Inr v)
    obtain enc where enc: "ScVal_MarshalBinary S v = Inr enc" "ag = [] \<or> enc = ab"
      and none: "poll i 0 = None" "\<not> length ag + (length (ch_signers c) - i) < ch_quorum c"
      using 2(3) Inr by (auto simp: chainFail_def split: option.splits if_splits sum.splits)
    have inv': "quorumInv S (ch_signers c) p h (Suc i) enc (ag @ [i])"
      using 2(5) Inr enc i(2)
      by (auto simp: quorumInv_def sorted_wrt_append less_Suc_eq)
    show ?thesis
    proof (cases "length (ag @ [i]) = ch_quorum c")
      case True
      then have "v = val" using 2(3) Inr enc none by (auto split: if_splits)
      then show ?thesis
        using inv' True enc i(1,2) Inr unfolding quorumReached_def quorumInv_def
        by (intro exI [of _ "ag @ [i]"] exI [of _ enc]) (auto simp: less_Suc_eq_le)
    next
      case False
      then show ?thesis using 2(2) [OF none(1,2) Inr enc(1)] enc(2) inv' i(3) 2(3) Inr enc(1) none by auto
    qed
  qed
qed

lemma signQuorum_Inr:
  "snd (signQuorum S c poll p h) = Inr val \<Longrightarrow> quorumReached S (ch_signers c) p h (ch_quorum c) val"
  unfolding signQuorum_def
  by (rule quorumLoop_Inr) (auto simp: quorumInv_def)

end
