(* ===== verification/Chain_Properties.thy ===== *)
theory Chain_Properties
  imports Chain Sample_Sdk
begin

text \<open>
  What the signer chains guarantee, over the definitions of \<^verbatim>\<open>Chain\<close>.
\<close>

definition fixedSigner :: "gerr + ScVal \<Rightarrow> signer" where
  "fixedSigner answer = \<lparr>sg_Address = ''GA'', sg_Sign = (\<lambda>_ _ _. answer)\<rparr>"

definition timeoutError :: gerr where
  "timeoutError = TransientError (errmsg ''timeout'')"

lemma timeout_transient [simp]: "classify timeoutError = ChainTransientFailure"
  by (simp add: classify_def timeoutError_def IsSignatureRejection_def errmsg_def)

text \<open>
  The fallback chain, with a context that is not cancelled, returns a signature exactly
  when some signer returned it and every signer before that one failed transiently; so a
  refusal, a rejection or an unclassified failure is never passed over.
\<close>

lemma fallback_first_success:
  assumes "\<And>i m. poll i m = None" and "ch_quorum c = 0"
  shows "snd (chainSign S c poll p h) = Inr val \<longleftrightarrow>
     (\<exists>k < length (ch_signers c). sg_Sign (ch_signers c ! k) None p h = Inr val \<and>
        (\<forall>j < k. transientAt (ch_signers c) p h j))"
  using fallbackLoop_Inr [of c poll p h 0 "ch_signers c" "[]" val] fallbackLoop_complete [OF assms(1)] assms(2)
  by (auto simp: chainSign_def signFallback_def)

text \<open>
  C25: a quorum chain returns a signature only when the required number of different signers
  returned values with the same encoding, the returned one among them, and every other signer
  asked before failed transiently: no signer disagreed.
\<close>

theorem quorum_agreement:
  assumes "NewQuorumSigner q signers = Inr c" and "chainSign S c poll p h = (attempts, Inr val)"
  shows "1 \<le> q \<and> quorumReached S (ch_signers c) p h (nat q) val"
proof -
  have q: "1 \<le> q" "ch_quorum c = nat q"
    using assms(1) by (auto simp: NewQuorumSigner_def newChain_def bindE_Inr_iff split: if_splits)
  then have "snd (signQuorum S c poll p h) = Inr val"
    using assms(2) by (simp add: chainSign_def)
  from signQuorum_Inr [OF this] q show ?thesis by simp
qed

lemma sample_quorum:
  "NewQuorumSigner 2 [Some (fixedSigner (Inr ScvVoid)), Some (fixedSigner (Inl timeoutError)), Some (fixedSigner (Inr ScvVoid))] =
     Inr \<lparr>ch_address = ''GA'', ch_signers = [fixedSigner (Inr ScvVoid), fixedSigner (Inl timeoutError),
            fixedSigner (Inr ScvVoid)], ch_quorum = 2\<rparr>"
  by (simp add: NewQuorumSigner_def newChain_def fixedSigner_def Let_def)

lemma sample_quorum_signs:
  "snd (chainSign sampleSdk \<lparr>ch_address = ''GA'', ch_signers = [fixedSigner (Inr ScvVoid), fixedSigner (Inl timeoutError),
            fixedSigner (Inr ScvVoid)], ch_quorum = 2\<rparr> (\<lambda>_ _. None) preimageLegacy (keyOf 0)) = Inr ScvVoid"
  by (simp add: chainSign_def signQuorum_def fixedSigner_def Let_def) (simp add: sampleSdk_def tableSdk_def)

theorem quorum_agreement_witness:
  "1 \<le> (2 :: int) \<and> quorumReached sampleSdk [fixedSigner (Inr ScvVoid), fixedSigner (Inl timeoutError),
     fixedSigner (Inr ScvVoid)] preimageLegacy (keyOf 0) (nat 2) ScvVoid"
proof -
  let ?sgs = "[fixedSigner (Inr ScvVoid), fixedSigner (Inl timeoutError), fixedSigner (Inr ScvVoid)]"
  let ?c = "\<lparr>ch_address = ''GA'', ch_signers = ?sgs, ch_quorum = 2\<rparr>"
  obtain attempts where "chainSign sampleSdk ?c (\<lambda>_ _. None) preimageLegacy (keyOf 0) = (attempts, Inr ScvVoid)"
    using sample_quorum_signs by (metis prod.collapse)
  from quorum_agreement [OF sample_quorum this] show ?thesis by simp
qed

text \<open>
  The audit record is complete: whatever happens, every call of a chain produces exactly
  one record per signer, in chain order, the signers that were never asked included.
\<close>

lemma chain_audit_complete:
  "map at_Index (fst (chainSign S c poll p h)) = [0..<length (ch_signers c)]"
  using fallbackLoop_audit [of 0 "ch_signers c" c poll p h "[]"]
    quorumLoop_audit [of 0 "ch_signers c" c S poll p h "[]" "[]" "[]"]
  by (simp add: chainSign_def signFallback_def signQuorum_def)

end
