(* ===== verification/Lifecycle.thy ===== *)
theory Lifecycle
  imports Authorize Signers
begin

text \<open>
  Making and upgrading entries: expirations (\<^verbatim>\<open>src/expiration.go\<close>), the upgrade of a
  legacy entry to the address-bound arm (\<^verbatim>\<open>src/upgrade.go\<close>), signing an invocation from
  scratch (\<^verbatim>\<open>src/invocation.go\<close>) and nonce reservation (\<^verbatim>\<open>src/noncetracker.go\<close>).
  Randomness is a parameter: the bytes the reader delivers, or its error.
\<close>

section \<open>Expirations\<close>

definition ExpirationAfter :: "uint32 \<Rightarrow> uint32 \<Rightarrow> gerr + uint32" where
  "ExpirationAfter latestLedger ledgers =
     (if ledgers = 0
      then Inl (errw ''soroauth: expiration after: ledgers must be at least 1'' (Sentinel ErrInvalidExpiration))
      else if latestLedger > - 1 - ledgers
      then Inl (errw (''soroauth: expiration after: '' @ itoa (unat latestLedger) @ '' + '' @ itoa (unat ledgers) @
             '' overflows a ledger sequence'') (Sentinel ErrInvalidExpiration))
      else Inr (latestLedger + ledgers))"

section \<open>Upgrading\<close>

definition UpgradeToV2 :: "sdk \<Rightarrow> SorobanAuthorizationEntry \<Rightarrow> gerr + SorobanAuthorizationEntry" where
  "UpgradeToV2 S entry =
     (case cr_Type (en_Credentials entry) of
        CredentialsAddressV2 \<Rightarrow> wrapE ''soroauth: upgrade to v2'' (copyEntry S entry)
      | CredentialsAddress \<Rightarrow>
          (case cr_Address (en_Credentials entry) of
             None \<Rightarrow> Inl (errmsg ''soroauth: upgrade to v2: address credentials arm is empty'')
           | Some a \<Rightarrow>
               if isSigned (ac_Signature a)
               then Inl (errw ''soroauth: upgrade to v2: the upgrade changes the signing payload, invalidating the existing signature''
                      (Sentinel ErrAlreadySigned))
               else
                 bindE (wrapE ''soroauth: upgrade to v2'' (copyEntry S entry)) (\<lambda>upgraded.
                   Inr (upgraded\<lparr>en_Credentials :=
                     \<lparr>cr_Type = CredentialsAddressV2, cr_Address = None,
                      cr_AddressV2 = cr_Address (en_Credentials upgraded), cr_AddressWithDelegates = None\<rparr>\<rparr>)))
      | CredentialsSourceAccount \<Rightarrow>
          Inl (errw ''soroauth: upgrade to v2: source-account credentials have no address arm to upgrade''
            (Sentinel ErrUnsupportedCredentials))
      | CredentialsAddressWithDelegates \<Rightarrow>
          Inl (errw ''soroauth: upgrade to v2: the delegates arm is already address-bound''
            (Sentinel ErrUnsupportedCredentials))
      | CredentialsOther _ \<Rightarrow> Inl (errw ''soroauth: upgrade to v2'' (Sentinel ErrUnsupportedCredentials)))"

section \<open>Signing an invocation\<close>

record AuthorizeInvocationParams =
  ip_Signer :: "signer option"
  ip_Invocation :: SorobanAuthorizedInvocation
  ip_ValidUntilLedger :: uint32
  ip_NetworkPassphrase :: string
  ip_Legacy :: bool

text \<open>\<open>binary.BigEndian.Uint64\<close> of the eight random bytes, reinterpreted as signed.\<close>

definition newNonce :: "gerr + bytes \<Rightarrow> gerr + int64" where
  "newNonce random =
     bindE (wrapE ''reading a random nonce'' random) (\<lambda>buf.
       Inr (foldl (\<lambda>acc b. acc * 256 + ucast b) 0 buf))"

definition freshEntry :: "AuthorizeInvocationParams \<Rightarrow> ScAddress \<Rightarrow> int64 \<Rightarrow> SorobanAuthorizationEntry" where
  "freshEntry p address nonce =
     (let credentials = \<lparr>ac_Address = address, ac_Nonce = nonce, ac_SignatureExpirationLedger = 0,
                         ac_Signature = scVec []\<rparr>
      in \<lparr>en_Credentials =
            (if ip_Legacy p
             then \<lparr>cr_Type = CredentialsAddress, cr_Address = Some credentials, cr_AddressV2 = None,
                   cr_AddressWithDelegates = None\<rparr>
             else \<lparr>cr_Type = CredentialsAddressV2, cr_Address = None, cr_AddressV2 = Some credentials,
                   cr_AddressWithDelegates = None\<rparr>),
          en_RootInvocation = ip_Invocation p\<rparr>)"

definition AuthorizeInvocation ::
  "sdk \<Rightarrow> gerr + bytes \<Rightarrow> ctx \<Rightarrow> AuthorizeInvocationParams \<Rightarrow> gerr + SorobanAuthorizationEntry" where
  "AuthorizeInvocation S random ctx p =
     wrapE ''soroauth: authorize invocation''
       (case ctx of Some err \<Rightarrow> Inl err
        | None \<Rightarrow>
          case ip_Signer p of None \<Rightarrow> Inl (Sentinel ErrMissingSigner)
          | Some sg \<Rightarrow>
            bindE (ParseAddress S (sg_Address sg)) (\<lambda>address.
            bindE (newNonce random) (\<lambda>nonce.
              authorized S ctx (freshEntry p address nonce) (Some sg) (ip_ValidUntilLedger p)
                (ip_NetworkPassphrase p) [])))"

section \<open>Nonce reservation\<close>

text \<open>
  A history of calls, in the order the mutex admits them, and the pairs that were granted.
\<close>

fun grants ::
  "(ctx \<Rightarrow> string \<Rightarrow> int64 \<Rightarrow> 't \<Rightarrow> 't \<times> gerr option) \<Rightarrow> (ctx \<times> string \<times> int64) list \<Rightarrow> 't
     \<Rightarrow> (string \<times> int64) list" where
  "grants reserve [] t = []"
| "grants reserve ((c, a, n) # calls) t =
     (case reserve c a n t of
        (t', None) \<Rightarrow> (a, n) # grants reserve calls t'
      | (t', Some _) \<Rightarrow> grants reserve calls t')"

text \<open>
  The interface \<open>NonceTracker\<close>: \<open>Reserve\<close> changes the tracker's state and returns an
  error or nil; \<open>taken\<close> is the set of reservations a state holds. An implementation
  refuses a reserved pair, records a free one, and changes nothing when it returns an error.
\<close>

locale nonce_tracker =
  fixes reserve :: "ctx \<Rightarrow> string \<Rightarrow> int64 \<Rightarrow> 't \<Rightarrow> 't \<times> gerr option"
    and taken :: "'t \<Rightarrow> (string \<times> int64) set"
  assumes reserve_free: "(a, n) \<notin> taken t \<Longrightarrow>
      snd (reserve None a n t) = None \<and> taken (fst (reserve None a n t)) = insert (a, n) (taken t)"
    and reserve_taken: "(a, n) \<in> taken t \<Longrightarrow>
      (\<exists>e. snd (reserve None a n t) = Some e \<and> errors_Is e ErrNonceAlreadyReserved) \<and>
      taken (fst (reserve None a n t)) = taken t"
    and reserve_cancelled: "snd (reserve (Some e) a n t) \<noteq> None \<and> taken (fst (reserve (Some e) a n t)) = taken t"
begin

lemma granted_was_free:
  "snd (reserve c a n t) = None \<Longrightarrow>
   c = None \<and> (a, n) \<notin> taken t \<and> taken (fst (reserve c a n t)) = insert (a, n) (taken t)"
  using reserve_free [of a n t] reserve_taken [of a n t] reserve_cancelled [of _ a n t] by (cases c) auto

lemma refused_keeps: "snd (reserve c a n t) \<noteq> None \<Longrightarrow> taken (fst (reserve c a n t)) = taken t"
  using reserve_free [of a n t] reserve_taken [of a n t] reserve_cancelled [of _ a n t]
  by (cases c; cases "(a, n) \<in> taken t") simp_all

lemma grants_once: "distinct (grants reserve calls t) \<and> set (grants reserve calls t) \<inter> taken t = {}"
proof (induction calls arbitrary: t)
  case Nil
  then show ?case by simp
next
  case (Cons call calls)
  obtain c a n where call: "call = (c, a, n)" by (cases call)
  obtain t' r where r: "reserve c a n t = (t', r)" by (cases "reserve c a n t")
  show ?case
  proof (cases r)
    case None
    then have "(a, n) \<notin> taken t" "taken t' = insert (a, n) (taken t)"
      using granted_was_free [of c a n t] r by auto
    then show ?thesis using Cons.IH [of t'] r None call by auto
  next
    case (Some e)
    then have "taken t' = taken t" using refused_keeps [of c a n t] r by simp
    then show ?thesis using Cons.IH [of t'] r Some call by simp
  qed
qed

lemma grants_all:
  "set (grants reserve calls t) \<union> taken t = taken t \<union> {(a, n). (None, a, n) \<in> set calls}"
proof (induction calls arbitrary: t)
  case Nil
  then show ?case by simp
next
  case (Cons call calls)
  obtain c a n where call: "call = (c, a, n)" by (cases call)
  obtain t' r where r: "reserve c a n t = (t', r)" by (cases "reserve c a n t")
  show ?case
  proof (cases r)
    case None
    then have "c = None" "taken t' = insert (a, n) (taken t)"
      using granted_was_free [of c a n t] r by auto
    then show ?thesis using Cons.IH [of t'] r None call by auto
  next
    case (Some e)
    then have "taken t' = taken t" using refused_keeps [of c a n t] r by simp
    moreover have "c \<noteq> None \<or> (a, n) \<in> taken t"
      using reserve_free [of a n t] r Some by (cases c) auto
    ultimately show ?thesis using Cons.IH [of t'] r Some call by auto
  qed
qed

end

record inMemoryNonceTracker =
  nt_reserved :: "string \<rightharpoonup> int64 set"

definition NewInMemoryNonceTracker :: inMemoryNonceTracker where
  "NewInMemoryNonceTracker = \<lparr>nt_reserved = Map.empty\<rparr>"

definition Reserve ::
  "ctx \<Rightarrow> string \<Rightarrow> int64 \<Rightarrow> inMemoryNonceTracker \<Rightarrow> inMemoryNonceTracker \<times> gerr option" where
  "Reserve ctx address nonce t =
     (case ctx of Some err \<Rightarrow> (t, Some (errw ''soroauth: nonce tracker reserve'' err))
      | None \<Rightarrow>
        let nonces = (case nt_reserved t address of None \<Rightarrow> {} | Some s \<Rightarrow> s);
            t1 = (if nt_reserved t address = None then t\<lparr>nt_reserved := (nt_reserved t)(address \<mapsto> {})\<rparr> else t)
        in if nonce \<in> nonces
           then (t1, Some (errw (''soroauth: nonce tracker reserve: '' @ address) (NonceAlreadyReservedError address nonce)))
           else (t1\<lparr>nt_reserved := (nt_reserved t1)(address \<mapsto> insert nonce nonces)\<rparr>, None))"

definition reservedPairs :: "inMemoryNonceTracker \<Rightarrow> (string \<times> int64) set" where
  "reservedPairs t = {(a, n). \<exists>s. nt_reserved t a = Some s \<and> n \<in> s}"

interpretation memory: nonce_tracker Reserve reservedPairs
  by unfold_locales
    (auto simp: Reserve_def reservedPairs_def Let_def split: option.splits if_splits)

end
