(* ===== verification/Coordination.thy ===== *)
theory Coordination
  imports Verify
begin

text \<open>
  Planning a delegate tree (\<^verbatim>\<open>src/planner.go\<close>) and collecting its signatures over
  several calls (\<^verbatim>\<open>src/coordinator.go\<close>). The JSON of the session state is not
  modelled.
\<close>

section \<open>The planner\<close>

datatype DelegatePolicy = DelegatePolicy (po_Address: string) (po_Nested: "DelegatePolicy list")

record SignerRegistration =
  rg_Address :: string
  rg_Signer :: "signer option"

record PlannedTree =
  pt_Delegates :: "Delegate list"
  pt_ValidUntilLedger :: uint32

lemma size_po_Nested [termination_simp]: "size_list size (po_Nested p) < Suc (size p + k)"
  by (cases p) simp

text \<open>The Go function has an error result and never returns one.\<close>

fun buildDelegatePolicies :: "DelegatePolicy list \<Rightarrow> Delegate list" where
  "buildDelegatePolicies [] = []"
| "buildDelegatePolicies (p # ps) =
     Delegate (po_Address p) None (buildDelegatePolicies (po_Nested p)) # buildDelegatePolicies ps"

text \<open>\<open>validateAgainstRegistrations\<close> on each delegate of a list, and recursively.\<close>

fun validateAgainstRegistrations :: "Delegate list \<Rightarrow> string set \<Rightarrow> gerr + unit" where
  "validateAgainstRegistrations [] regMap = Inr ()"
| "validateAgainstRegistrations (d # ds) regMap =
     (if dg_Address d \<notin> regMap
      then Inl (errw (''soroauth: plan: '' @ dg_Address d @ '' is not a registered signer'') (Sentinel ErrMissingSigner))
      else bindE (validateAgainstRegistrations (dg_Nested d) regMap) (\<lambda>_. validateAgainstRegistrations ds regMap))"

definition planTestEntry :: "uint32 \<Rightarrow> SorobanDelegateSignature list \<Rightarrow> SorobanAuthorizationEntry" where
  "planTestEntry validUntilLedger nodes =
     \<lparr>en_Credentials =
        \<lparr>cr_Type = CredentialsAddressWithDelegates, cr_Address = None, cr_AddressV2 = None,
         cr_AddressWithDelegates = Some
           \<lparr>wd_AddressCredentials =
              \<lparr>ac_Address = \<lparr>sa_Type = ScAddressTypeAccount, sa_AccountId = None, sa_ContractId = None, sa_OtherArm = None\<rparr>,
               ac_Nonce = 0, ac_SignatureExpirationLedger = validUntilLedger, ac_Signature = ScvVoid\<rparr>,
            wd_Delegates = nodes\<rparr>\<rparr>,
      en_RootInvocation = Invocation (FnContractFn None) []\<rparr>"

definition Plan :: "sdk \<Rightarrow> uint32 \<Rightarrow> DelegatePolicy list \<Rightarrow> SignerRegistration list \<Rightarrow> gerr + PlannedTree" where
  "Plan S validUntilLedger policy registrations =
     (if validUntilLedger = 0 then Inl (errw ''soroauth: plan'' (Sentinel ErrInvalidExpiration))
      else
        bindE (mapE (\<lambda>r. wrapE (''soroauth: plan: invalid registration '' @ rg_Address r)
                            (ParseAddress S (rg_Address r))) registrations) (\<lambda>_.
        let regMap = set (map rg_Address registrations);
            delegates = buildDelegatePolicies policy in
        bindE (if length registrations > 0 then validateAgainstRegistrations delegates regMap else Inr ()) (\<lambda>_.
        bindE (buildDelegateNodes S delegates 1) (\<lambda>nodes.
        bindE (wrapE ''soroauth: plan: output does not pass ValidateDelegateOrder''
                 (ValidateDelegateOrder S (planTestEntry validUntilLedger nodes))) (\<lambda>_.
          Inr \<lparr>pt_Delegates = delegates, pt_ValidUntilLedger = validUntilLedger\<rparr>)))))"

definition Wrap ::
  "sdk \<Rightarrow> PlannedTree \<Rightarrow> SorobanAuthorizationEntry \<Rightarrow> ScVal option \<Rightarrow> gerr + SorobanAuthorizationEntry" where
  "Wrap S p entry topSignature = WithDelegates S entry (pt_ValidUntilLedger p) (pt_Delegates p) topSignature"

fun describeDelegates :: "Delegate list \<Rightarrow> DelegatePolicy list" where
  "describeDelegates [] = []"
| "describeDelegates (d # ds) =
     DelegatePolicy (dg_Address d) (describeDelegates (dg_Nested d)) # describeDelegates ds"

definition Describe :: "PlannedTree \<Rightarrow> DelegatePolicy list" where
  "Describe p = describeDelegates (pt_Delegates p)"

section \<open>The coordinator\<close>

record NodeState =
  ns_Address :: string
  ns_Signed :: bool
  ns_Depth :: nat

record SessionState =
  ss_CredentialType :: string
  ss_TopLevel :: string
  ss_ValidUntilLedger :: uint32
  ss_Nodes :: "NodeState list"
  ss_SignedCount :: nat
  ss_TotalNodes :: nat

record trackedNode =
  tn_node :: SorobanDelegateSignature
  tn_encoded :: bytes
  tn_depth :: nat

text \<open>
  \<open>co_signed\<close> is the map from encoded addresses to a flag, as an association list with
  one row per key.
\<close>

record Coordinator =
  co_entry :: SorobanAuthorizationEntry
  co_validUntilLedger :: uint32
  co_networkPassphrase :: string
  co_nodes :: "trackedNode list"
  co_signed :: "(bytes \<times> bool) list"

definition getFlag :: "(bytes \<times> bool) list \<Rightarrow> bytes \<Rightarrow> bool" where
  "getFlag m k = (map_of m k = Some True)"

fun setFlag :: "bytes \<Rightarrow> bool \<Rightarrow> (bytes \<times> bool) list \<Rightarrow> (bytes \<times> bool) list" where
  "setFlag k b [] = [(k, b)]"
| "setFlag k b ((k', b') # m) = (if k = k' then (k, b) # m else (k', b') # setFlag k b m)"

fun flattenDelegates :: "sdk \<Rightarrow> SorobanDelegateSignature list \<Rightarrow> nat \<Rightarrow> trackedNode list" where
  "flattenDelegates S [] depth = []"
| "flattenDelegates S (n # ns) depth =
     (case addressBytes S (ds_Address n) of
        Inl _ \<Rightarrow> flattenDelegates S ns depth
      | Inr encoded \<Rightarrow>
          \<lparr>tn_node = n, tn_encoded = encoded, tn_depth = depth\<rparr>
          # flattenDelegates S (ds_NestedDelegates n) (depth + 1) @ flattenDelegates S ns depth)"

definition NewCoordinator ::
  "sdk \<Rightarrow> SorobanAuthorizationEntry \<Rightarrow> uint32 \<Rightarrow> string \<Rightarrow> gerr + Coordinator" where
  "NewCoordinator S entry validUntilLedger networkPassphrase =
     (if cr_Type (en_Credentials entry) \<noteq> CredentialsAddressWithDelegates
      then Inl (errw ''soroauth: new coordinator'' (Sentinel ErrUnsupportedCredentials))
      else if validUntilLedger = 0
      then Inl (errw ''soroauth: new coordinator'' (Sentinel ErrInvalidExpiration))
      else case cr_AddressWithDelegates (en_Credentials entry) of
        None \<Rightarrow> Inl (errw ''soroauth: new coordinator: address_with_delegates credentials arm is empty''
                  (Sentinel ErrUnsupportedCredentials))
      | Some w \<Rightarrow>
          let nodes = flattenDelegates S (wd_Delegates w) 0 in
          Inr \<lparr>co_entry = entry, co_validUntilLedger = validUntilLedger, co_networkPassphrase = networkPassphrase,
               co_nodes = nodes, co_signed = fold (\<lambda>n. setFlag (tn_encoded n) False) nodes []\<rparr>)"

text \<open>\<open>FormatAddress\<close> with its error dropped, as the reporting methods do.\<close>

definition formatOrEmpty :: "sdk \<Rightarrow> ScAddress \<Rightarrow> string" where
  "formatOrEmpty S a = (case FormatAddress S a of Inl _ \<Rightarrow> '''' | Inr s \<Rightarrow> s)"

definition State :: "sdk \<Rightarrow> Coordinator \<Rightarrow> SessionState" where
  "State S c =
     (let nodeStates = map (\<lambda>n. \<lparr>ns_Address = formatOrEmpty S (ds_Address (tn_node n)),
                               ns_Signed = getFlag (co_signed c) (tn_encoded n), ns_Depth = tn_depth n\<rparr>) (co_nodes c)
      in \<lparr>ss_CredentialType = ''address_with_delegates'',
          ss_TopLevel = (case cr_AddressWithDelegates (en_Credentials (co_entry c)) of
                           None \<Rightarrow> '''' | Some w \<Rightarrow> formatOrEmpty S (ac_Address (wd_AddressCredentials w))),
          ss_ValidUntilLedger = co_validUntilLedger c,
          ss_Nodes = sort_key ns_Address nodeStates,
          ss_SignedCount = length (filter ns_Signed nodeStates),
          ss_TotalNodes = length (co_nodes c)\<rparr>)"

definition IsComplete :: "Coordinator \<Rightarrow> bool" where
  "IsComplete c \<longleftrightarrow> list_all snd (co_signed c) \<and> length (co_nodes c) > 0"

definition Remaining :: "sdk \<Rightarrow> Coordinator \<Rightarrow> string list" where
  "Remaining S c =
     sort (map (\<lambda>n. formatOrEmpty S (ds_Address (tn_node n)))
             (filter (\<lambda>n. \<not> getFlag (co_signed c) (tn_encoded n)) (co_nodes c)))"

definition Record ::
  "sdk \<Rightarrow> ctx \<Rightarrow> string \<Rightarrow> signer option \<Rightarrow> Coordinator \<Rightarrow> Coordinator \<times> gerr option" where
  "Record S ctx target sgo c =
     (let op = ''soroauth: coordinator record'' in
      case wrapE op
        (case ctx of Some err \<Rightarrow> Inl err
         | None \<Rightarrow>
           bindE (copyEntry S (co_entry c)) (\<lambda>work.
           bindE (addressCredentials (en_Credentials work)) (\<lambda>existingCredentials.
           let stored = ac_SignatureExpirationLedger existingCredentials in
           if stored \<noteq> co_validUntilLedger c \<and>
              list_ex (\<lambda>n. getFlag (co_signed c) (tn_encoded n) \<and> stored \<noteq> co_validUntilLedger c) (co_nodes c)
           then Inl (errw (''the entry already carries signatures over expiration '' @ itoa (unat stored) @
                  '', but '' @ itoa (unat (co_validUntilLedger c)) @ '' was requested'') (Sentinel ErrInvalidExpiration))
           else
             bindE (authorized S ctx work sgo (co_validUntilLedger c) (co_networkPassphrase c) [ForAddress target]) (\<lambda>_.
             bindE (addressBytesFromStr S target) (\<lambda>targetEncoded.
               Inr (c\<lparr>co_signed := setFlag targetEncoded True (co_signed c), co_entry := work\<rparr>)))))) of
        Inl err \<Rightarrow> (c, Some err)
      | Inr c' \<Rightarrow> (c', None))"

definition ValidateExpirationConsistency :: "Coordinator \<Rightarrow> gerr + unit" where
  "ValidateExpirationConsistency c =
     bindE (addressCredentials (en_Credentials (co_entry c))) (\<lambda>existingCredentials.
     let stored = ac_SignatureExpirationLedger existingCredentials in
     if stored \<noteq> co_validUntilLedger c \<and>
        list_ex (\<lambda>n. isSigned (ds_Signature (tn_node n)) \<and> stored \<noteq> co_validUntilLedger c) (co_nodes c)
     then Inl (errw ''soroauth: coordinator: expiration mismatch'' (Sentinel ErrInvalidExpiration))
     else Inr ())"

definition SignedCount :: "Coordinator \<Rightarrow> nat" where
  "SignedCount c = length (filter snd (co_signed c))"

definition TotalCount :: "Coordinator \<Rightarrow> nat" where
  "TotalCount c = length (co_nodes c)"

definition TopLevelAddress :: "sdk \<Rightarrow> Coordinator \<Rightarrow> gerr + string" where
  "TopLevelAddress S c =
     (case cr_AddressWithDelegates (en_Credentials (co_entry c)) of
        None \<Rightarrow> Inl (errmsg ''soroauth: coordinator: not a delegates entry'')
      | Some w \<Rightarrow> FormatAddress S (ac_Address (wd_AddressCredentials w)))"

definition Entry :: "sdk \<Rightarrow> Coordinator \<Rightarrow> gerr + SorobanAuthorizationEntry" where
  "Entry S c = copyEntry S (co_entry c)"

section \<open>Laws of the planner\<close>

lemma describe_build: "describeDelegates (buildDelegatePolicies ps) = ps"
  by (induction ps rule: buildDelegatePolicies.induct) simp_all

fun delegateAddresses :: "Delegate list \<Rightarrow> string set" where
  "delegateAddresses [] = {}"
| "delegateAddresses (d # ds) = insert (dg_Address d) (delegateAddresses (dg_Nested d) \<union> delegateAddresses ds)"

lemma validateAgainstRegistrations_ok_iff:
  "isOk (validateAgainstRegistrations ds regs) \<longleftrightarrow> delegateAddresses ds \<subseteq> regs"
proof (induction ds regs rule: validateAgainstRegistrations.induct)
  case (1 regs)
  then show ?case by simp
next
  case (2 d ds regs)
  then show ?case
    by (cases "validateAgainstRegistrations (dg_Nested d) regs") auto
qed

lemma Plan_Inr_iff:
  "Plan S v policy regs = Inr t \<longleftrightarrow>
     v \<noteq> 0 \<and> (\<forall>r \<in> set regs. isOk (ParseAddress S (rg_Address r))) \<and>
     (regs \<noteq> [] \<longrightarrow> delegateAddresses (buildDelegatePolicies policy) \<subseteq> set (map rg_Address regs)) \<and>
     isOk (buildDelegateNodes S (buildDelegatePolicies policy) 1) \<and>
     t = \<lparr>pt_Delegates = buildDelegatePolicies policy, pt_ValidUntilLedger = v\<rparr>"
proof -
  have val: "isOk (ValidateDelegateOrder S (planTestEntry v ns))"
    if "buildDelegateNodes S (buildDelegatePolicies policy) (Suc 0) = Inr ns" for ns
    using build_then_validate [OF that] by (simp add: ValidateDelegateOrder_def planTestEntry_def)
  have nodes: "bindE (buildDelegateNodes S (buildDelegatePolicies policy) (Suc 0)) (\<lambda>nodes.
      bindE (wrapE l (ValidateDelegateOrder S (planTestEntry v nodes))) (\<lambda>_. Inr u)) = Inr t \<longleftrightarrow>
      isOk (buildDelegateNodes S (buildDelegatePolicies policy) (Suc 0)) \<and> t = u" for l u
    using val by (cases "buildDelegateNodes S (buildDelegatePolicies policy) (Suc 0)")
      (auto simp: bindE_const_Inr_iff)
  show ?thesis
    by (cases "v = 0"; cases "regs = []")
      (simp_all add: Plan_def Let_def nodes bindE_const_Inr_iff isOk_mapE validateAgainstRegistrations_ok_iff)
qed

section \<open>Laws of the coordinator\<close>

lemma getFlag_setFlag: "getFlag (setFlag k b m) k' = (if k = k' then b else getFlag m k')"
  by (induction k b m rule: setFlag.induct) (auto simp: getFlag_def)

lemma Record_ok:
  assumes "Record S ctx target sgo c = (c', None)"
  obtains w enc e' where "ctx = None" "copyEntry S (co_entry c) = Inr w"
    "authorized S None w sgo (co_validUntilLedger c) (co_networkPassphrase c) [ForAddress target] = Inr e'"
    "addressBytesFromStr S target = Inr enc"
    "c' = c\<lparr>co_signed := setFlag enc True (co_signed c), co_entry := w\<rparr>"
  using assms
  by (auto simp: Record_def Let_def bindE_Inr_iff split: sum.splits option.splits if_splits)

lemma Record_error: "Record S ctx target sgo c = (c', Some e) \<Longrightarrow> c' = c"
  by (auto simp: Record_def Let_def split: sum.splits)

section \<open>Sessions\<close>

inductive coordinator_step :: "sdk \<Rightarrow> Coordinator \<Rightarrow> Coordinator \<Rightarrow> bool" for S where
  record_step: "coordinator_step S c (fst (Record S ctx target sgo c))"

inductive_cases coordinator_stepE: "coordinator_step S c c'"

lemma setFlag_keys: "fst ` set (setFlag k b m) = insert k (fst ` set m)"
  by (induction k b m rule: setFlag.induct) auto

lemma distinct_setFlag: "distinct (map fst m) \<Longrightarrow> distinct (map fst (setFlag k b m))"
  by (induction k b m rule: setFlag.induct) (auto simp: setFlag_keys)

text \<open>
  The session invariant: the entry, expiration and network are those the session was made
  with, each tracked node has a row, and a row is true only for an address for which
  \<open>AuthorizeEntry\<close> returned a signed entry.
\<close>

definition coordinatorInv :: "sdk \<Rightarrow> SorobanAuthorizationEntry \<Rightarrow> uint32 \<Rightarrow> string \<Rightarrow> Coordinator \<Rightarrow> bool" where
  "coordinatorInv S e v net c \<longleftrightarrow>
     co_entry c = e \<and> co_validUntilLedger c = v \<and> co_networkPassphrase c = net \<and>
     co_nodes c = flattenDelegates S (delegatesOf e) 0 \<and> distinct (map fst (co_signed c)) \<and>
     tn_encoded ` set (co_nodes c) \<subseteq> fst ` set (co_signed c) \<and>
     (\<forall>k. getFlag (co_signed c) k \<longrightarrow> (\<exists>target sgo e'. addressBytesFromStr S target = Inr k \<and>
        authorized S None e sgo v net [ForAddress target] = Inr e'))"

lemma fold_setFlag_False:
  assumes "distinct (map fst m)"
  shows "distinct (map fst (fold (\<lambda>n. setFlag (f n) False) ns m)) \<and>
    fst ` set (fold (\<lambda>n. setFlag (f n) False) ns m) = f ` set ns \<union> fst ` set m \<and>
    (\<forall>k. getFlag (fold (\<lambda>n. setFlag (f n) False) ns m) k \<longrightarrow> getFlag m k)"
  using assms
proof (induction ns arbitrary: m)
  case Nil
  then show ?case by simp
next
  case (Cons n ns)
  then show ?case
    using Cons.IH [OF distinct_setFlag [OF Cons.prems, of "f n" False]]
    by (auto simp: setFlag_keys getFlag_setFlag split: if_splits)
qed

lemma coordinatorInv_new:
  assumes "NewCoordinator S e v net = Inr c"
  shows "coordinatorInv S e v net c"
  using assms fold_setFlag_False [of "[]" tn_encoded "flattenDelegates S (delegatesOf e) 0"]
  by (auto simp: NewCoordinator_def coordinatorInv_def delegatesOf_def getFlag_def Let_def
      split: if_splits option.splits)

lemma coordinatorInv_record:
  assumes "coordinatorInv S e v net c" "entry_roundtrips S e"
  shows "coordinatorInv S e v net (fst (Record S ctx target sgo c))"
proof (cases "Record S ctx target sgo c")
  case (Pair c' r)
  show ?thesis
  proof (cases r)
    case (Some err)
    then show ?thesis using assms(1) Record_error Pair by fastforce
  next
    case None
    obtain w enc e' where r: "copyEntry S (co_entry c) = Inr w"
      "authorized S None w sgo (co_validUntilLedger c) (co_networkPassphrase c) [ForAddress target] = Inr e'"
      "addressBytesFromStr S target = Inr enc"
      "c' = c\<lparr>co_signed := setFlag enc True (co_signed c), co_entry := w\<rparr>"
      using Record_ok Pair None by metis
    have "w = e" using r(1) copyEntry_id [OF assms(2)] assms(1) by (simp add: coordinatorInv_def)
    then show ?thesis
      using assms(1) r Pair distinct_setFlag
      by (auto simp: coordinatorInv_def getFlag_setFlag setFlag_keys subset_iff split: if_splits)
  qed
qed

lemma coordinatorInv_reachable:
  "(coordinator_step S)\<^sup>*\<^sup>* c0 c \<Longrightarrow> coordinatorInv S e v net c0 \<Longrightarrow> entry_roundtrips S e \<Longrightarrow>
   coordinatorInv S e v net c"
  by (induction rule: rtranclp_induct) (auto elim!: coordinator_stepE intro: coordinatorInv_record)

lemma IsComplete_all:
  assumes "IsComplete c" "coordinatorInv S e v net c" "n \<in> set (co_nodes c)"
  shows "getFlag (co_signed c) (tn_encoded n)"
proof -
  obtain b where b: "(tn_encoded n, b) \<in> set (co_signed c)"
    using assms(2,3) by (force simp: coordinatorInv_def)
  then have b1: b using assms(1) by (auto simp: IsComplete_def list_all_iff)
  have "map_of (co_signed c) (tn_encoded n) = Some b"
    using b assms(2) by (simp add: coordinatorInv_def)
  then show ?thesis using b1 by (simp add: getFlag_def)
qed

end
