(* ===== verification/Threshold.thy ===== *)
theory Threshold
  imports Signers "HOL-Library.Multiset"
begin

text \<open>
  The threshold session of \<^verbatim>\<open>src/threshold.go\<close>: rounds, contributed shares and the
  combined signature. The operations hold a mutex, so a history is a sequence of calls.
\<close>

section \<open>State and construction\<close>

text \<open>
  The session and the signer that owns it. \<open>th_shares\<close> is the map from party ids to
  shares, one row per key.
\<close>

record thresholdSigner =
  th_account :: string
  th_threshold :: int
  th_parties :: "string list"
  th_round :: int64
  th_shares :: "(bytes \<times> bytes) list"
  th_complete :: bool
  th_signature :: bytes

fun firstDuplicate :: "string set \<Rightarrow> string list \<Rightarrow> string option" where
  "firstDuplicate seen [] = None"
| "firstDuplicate seen (p # ps) = (if p \<in> seen then Some p else firstDuplicate (insert p seen) ps)"

definition NewThresholdSigner :: "sdk \<Rightarrow> string \<Rightarrow> int \<Rightarrow> string list \<Rightarrow> gerr + thresholdSigner" where
  "NewThresholdSigner S account threshold parties =
     (if account = ''''
      then Inl (errw ''soroauth: new threshold signer: empty account'' (Sentinel ErrMissingSigner))
      else if length parties = 0
      then Inl (errw ''soroauth: new threshold signer: no parties'' (Sentinel ErrMissingSigner))
      else case firstDuplicate {} parties of
        Some p \<Rightarrow> Inl (errmsg (''soroauth: new threshold signer: duplicate party '' @ p))
      | None \<Rightarrow>
        if threshold < 1 \<or> threshold > int (length parties)
        then Inl (errmsg (''soroauth: new threshold signer: threshold '' @ itoa_int threshold @
               '' must be between 1 and '' @ itoa (length parties)))
        else if threshold > int maxAccountSignatures
        then Inl (errw (''soroauth: new threshold signer: threshold '' @ itoa_int threshold @ '' exceeds maximum '' @
               itoa maxAccountSignatures) (Sentinel ErrTooManySignatures))
        else
          bindE (mapE (\<lambda>p. wrapE (''soroauth: new threshold signer: invalid party '' @ p) (ParseAddress S p)) parties) (\<lambda>_.
            Inr \<lparr>th_account = account, th_threshold = threshold, th_parties = sort parties,
                 th_round = 0, th_shares = [], th_complete = False, th_signature = []\<rparr>))"

section \<open>Rounds\<close>

definition thresholdSign :: "thresholdSigner \<Rightarrow> ctx \<Rightarrow> HashIdPreimage \<Rightarrow> bytes \<Rightarrow> gerr + ScVal" where
  "thresholdSign s ctx _ payload =
     (case ctx of Some err \<Rightarrow> Inl (errw ''soroauth: threshold signer sign'' err)
      | None \<Rightarrow>
        if \<not> th_complete s
        then Inl (errw ''soroauth: threshold signer sign: threshold not met'' (Sentinel ErrMissingSigner))
        else Inr (scVec [scBytes (th_signature s)]))"

definition Begin :: "gerr + bytes \<Rightarrow> ctx \<Rightarrow> thresholdSigner \<Rightarrow> thresholdSigner \<times> (gerr + int64)" where
  "Begin random ctx s =
     (case ctx of Some err \<Rightarrow> (s, Inl (errw ''soroauth: threshold signer begin'' err))
      | None \<Rightarrow>
        (case random of
           Inl err \<Rightarrow> (s, Inl (errw ''soroauth: threshold signer begin'' err))
         | Inr buf \<Rightarrow>
             let r = foldl (\<lambda>acc b. acc * 256 + ucast b) 0 buf
             in (s\<lparr>th_round := r, th_shares := [], th_complete := False, th_signature := []\<rparr>, Inr r)))"

fun putShare :: "bytes \<Rightarrow> bytes \<Rightarrow> (bytes \<times> bytes) list \<Rightarrow> (bytes \<times> bytes) list" where
  "putShare k v [] = [(k, v)]"
| "putShare k v ((k', v') # m) = (if k = k' then (k, v) # m else (k', v') # putShare k v m)"

text \<open>\<open>sig[i] ^= sh[i]\<close> for every \<open>i\<close> below both 64 and the length of the share.\<close>

definition xorShare :: "bytes \<Rightarrow> bytes \<Rightarrow> bytes" where
  "xorShare sh sig = map (\<lambda>i. if i < length sh then xor (sig ! i) (sh ! i) else sig ! i) [0..<length sig]"

definition combineShares :: "bytes list \<Rightarrow> bytes" where
  "combineShares shares = fold xorShare shares (replicate 64 0)"

definition Contribute ::
  "ctx \<Rightarrow> int64 \<Rightarrow> bytes \<Rightarrow> thresholdSigner \<Rightarrow> thresholdSigner \<times> (gerr + bytes)" where
  "Contribute ctx round share s =
     (case ctx of Some err \<Rightarrow> (s, Inl (errw ''soroauth: threshold signer contribute'' err))
      | None \<Rightarrow>
        if round \<noteq> th_round s
        then (s, Inl (errmsg (''soroauth: threshold signer contribute: round '' @ itoa_int (sint round) @
                '' does not match active round '' @ itoa_int (sint (th_round s)))))
        else if length share = 0
        then (s, Inl (errw ''soroauth: threshold signer contribute: empty share'' (Sentinel ErrMissingSigner)))
        else
          let partyID = (if length share > 32 then take 32 share else share);
              s1 = s\<lparr>th_shares := putShare partyID share (th_shares s)\<rparr>;
              s2 = (if int (length (th_shares s1)) \<ge> th_threshold s1
                    then s1\<lparr>th_signature := combineShares (map snd (th_shares s1)), th_complete := True\<rparr>
                    else s1)
          in (s2, Inr (if th_complete s2 then th_signature s2 else [])))"

record ThresholdPartySigner =
  tp_party :: string
  tp_inner :: signer
  tp_round :: int64

definition NewThresholdPartySigner :: "sdk \<Rightarrow> string \<Rightarrow> signer option \<Rightarrow> gerr + ThresholdPartySigner" where
  "NewThresholdPartySigner S party innero =
     bindE (wrapE ''soroauth: new threshold party signer'' (ParseAddress S party)) (\<lambda>_.
     case innero of None \<Rightarrow> Inl (errw ''soroauth: new threshold party signer'' (Sentinel ErrMissingSigner))
     | Some inner \<Rightarrow> Inr \<lparr>tp_party = party, tp_inner = inner, tp_round = 0\<rparr>)"

definition partySign :: "ThresholdPartySigner \<Rightarrow> ctx \<Rightarrow> HashIdPreimage \<Rightarrow> bytes \<Rightarrow> gerr + ScVal" where
  "partySign s ctx preimage payload = sg_Sign (tp_inner s) ctx preimage payload"

definition SetRound :: "int64 \<Rightarrow> ThresholdPartySigner \<Rightarrow> ThresholdPartySigner" where
  "SetRound r s = s\<lparr>tp_round := r\<rparr>"

section \<open>Histories\<close>

inductive threshold_step :: "thresholdSigner \<Rightarrow> thresholdSigner \<Rightarrow> bool" where
  begin_step: "threshold_step s (fst (Begin random ctx s))"
| contribute_step: "threshold_step s (fst (Contribute ctx round share s))"

inductive_cases threshold_stepE: "threshold_step s s'"

text \<open>
  The session invariant: party ids are keys, each the leading 32 bytes of its share; the
  session is complete only with enough of them, and then the signature is their combination.
\<close>

definition thresholdInv :: "thresholdSigner \<Rightarrow> bool" where
  "thresholdInv s \<longleftrightarrow>
     1 \<le> th_threshold s \<and> distinct (map fst (th_shares s)) \<and>
     (\<forall>(k, v) \<in> set (th_shares s). v \<noteq> [] \<and> k = take 32 v) \<and>
     (th_complete s \<longleftrightarrow> th_threshold s \<le> int (length (th_shares s))) \<and>
     (th_complete s \<longrightarrow> th_signature s = combineShares (map snd (th_shares s)))"

lemma putShare_keys: "fst ` set (putShare k v m) = insert k (fst ` set m)"
  by (induction k v m rule: putShare.induct) auto

lemma distinct_putShare: "distinct (map fst m) \<Longrightarrow> distinct (map fst (putShare k v m))"
  by (induction k v m rule: putShare.induct) (auto simp: putShare_keys)

lemma putShare_rows: "set (putShare k v m) \<subseteq> insert (k, v) (set m)"
  by (induction k v m rule: putShare.induct) auto

lemma length_putShare_ge: "length m \<le> length (putShare k v m)"
  by (induction k v m rule: putShare.induct) auto

lemma thresholdInv_new: "NewThresholdSigner S account t parties = Inr s \<Longrightarrow> thresholdInv s"
  by (auto simp: NewThresholdSigner_def thresholdInv_def bindE_Inr_iff split: if_splits option.splits)

lemma thresholdInv_begin: "thresholdInv s \<Longrightarrow> thresholdInv (fst (Begin random ctx s))"
  by (auto simp: Begin_def thresholdInv_def Let_def split: option.splits sum.splits)

lemma thresholdInv_contribute:
  assumes "thresholdInv s"
  shows "thresholdInv (fst (Contribute ctx round share s))"
proof (cases "ctx = None \<and> round = th_round s \<and> share \<noteq> []")
  case False
  then show ?thesis using assms by (auto simp: Contribute_def Let_def split: option.splits)
next
  case True
  let ?k = "take 32 share"
  let ?m = "putShare ?k share (th_shares s)"
  have k: "(if length share > 32 then take 32 share else share) = ?k" by simp
  have "distinct (map fst ?m)" using assms distinct_putShare by (simp add: thresholdInv_def)
  moreover have "\<forall>(k, v) \<in> set ?m. v \<noteq> [] \<and> k = take 32 v"
    using assms True putShare_rows [of ?k share "th_shares s"] by (fastforce simp: thresholdInv_def)
  ultimately show ?thesis
    using assms True length_putShare_ge [of "th_shares s" ?k share]
    by (auto simp: Contribute_def Let_def thresholdInv_def k)
qed

lemma thresholdInv_reachable:
  "threshold_step\<^sup>*\<^sup>* s0 s \<Longrightarrow> thresholdInv s0 \<Longrightarrow> thresholdInv s"
  by (induction rule: rtranclp_induct)
    (auto elim!: threshold_stepE intro: thresholdInv_begin thresholdInv_contribute)

lemma threshold_kept: "threshold_step\<^sup>*\<^sup>* s0 s \<Longrightarrow> th_threshold s = th_threshold s0"
  by (induction rule: rtranclp_induct)
    (auto elim!: threshold_stepE simp: Begin_def Contribute_def Let_def split: option.splits sum.splits)

section \<open>The combination does not depend on the order\<close>

lemma length_xorShare [simp]: "length (xorShare sh sig) = length sig"
  by (simp add: xorShare_def)

lemma xorShare_commute: "xorShare a (xorShare b sig) = xorShare b (xorShare a sig)"
  by (rule nth_equalityI) (auto simp: xorShare_def ac_simps)

lemma fold_xorShare_Cons: "fold xorShare shares (xorShare a sig) = xorShare a (fold xorShare shares sig)"
proof (induction shares arbitrary: sig)
  case Nil
  then show ?case by simp
next
  case (Cons b shares)
  have "fold xorShare (b # shares) (xorShare a sig) = fold xorShare shares (xorShare a (xorShare b sig))"
    using xorShare_commute [of b a sig] by simp
  then show ?case using Cons.IH [of "xorShare b sig"] by simp
qed

lemma fold_xorShare_perm:
  "mset xs = mset ys \<Longrightarrow> fold xorShare xs sig = fold xorShare ys sig"
proof (induction xs arbitrary: ys sig)
  case Nil
  then show ?case by simp
next
  case (Cons x xs)
  then have "x \<in> set ys" by (metis list.set_intros(1) set_mset_mset)
  then obtain us vs where ys: "ys = us @ x # vs" by (meson split_list)
  then have "mset xs = mset (us @ vs)" using Cons.prems by simp
  then have "fold xorShare xs (xorShare x sig) = fold xorShare (us @ vs) (xorShare x sig)"
    using Cons.IH by blast
  then show ?case using ys by (simp add: fold_xorShare_Cons)
qed

lemma length_combineShares [simp]: "length (combineShares shares) = 64"
proof -
  have "length (fold xorShare shares sig) = length sig" for sig
    by (induction shares arbitrary: sig) simp_all
  then show ?thesis by (simp add: combineShares_def)
qed

end
