(* ===== verification/Inspection.thy ===== *)
theory Inspection
  imports Nodes Encoding
begin

text \<open>
  Looking at entries: the structural summary (\<^verbatim>\<open>src/inspect.go\<close>), the iterator over
  credential nodes (\<^verbatim>\<open>src/credential_nodes.go\<close>), equality and cloning
  (\<^verbatim>\<open>src/equal.go\<close>).
\<close>

section \<open>Signature shapes\<close>

datatype SignatureShapeType = SignatureShapePasskey | SignatureShapeMap | SignatureShapeUnknown

record SignatureShape =
  sh_Type :: SignatureShapeType
  sh_Description :: string

definition DescribeSignature :: "sdk \<Rightarrow> ScVal \<Rightarrow> SignatureShape" where
  "DescribeSignature S sig =
     (case sig of
        ScvVoid \<Rightarrow> \<lparr>sh_Type = SignatureShapeUnknown, sh_Description = ''void (unsigned placeholder)''\<rparr>
      | ScvBytes bo \<Rightarrow>
          let len = (case bo of None \<Rightarrow> 0 | Some b \<Rightarrow> length b) in
          if len = 64
          then \<lparr>sh_Type = SignatureShapePasskey, sh_Description = ''64-byte binary passkey signature''\<rparr>
          else \<lparr>sh_Type = SignatureShapeUnknown, sh_Description = ''binary signature of length '' @ itoa len\<rparr>
      | ScvMap _ \<Rightarrow> \<lparr>sh_Type = SignatureShapeMap, sh_Description = ''map structure signature''\<rparr>
      | ScvVec _ \<Rightarrow> \<lparr>sh_Type = SignatureShapeUnknown, sh_Description = ''vector structure signature''\<rparr>
      | _ \<Rightarrow> \<lparr>sh_Type = SignatureShapeUnknown, sh_Description = ''unknown scval type '' @ ScVal_TypeString S sig\<rparr>)"

section \<open>The summary\<close>

datatype NodeInfo =
  NodeInfo (ni_Address: string) (ni_Signed: bool) (ni_Shape: "SignatureShape option") (ni_Nested: "NodeInfo list")

record EntryInfo =
  ei_CredentialType :: string
  ei_AddressBound :: bool
  ei_Address :: string
  ei_Nonce :: int64
  ei_ValidUntilLedger :: uint32
  ei_TopLevelSigned :: bool
  ei_Delegates :: "NodeInfo list"
  ei_RootContract :: string
  ei_RootFunction :: string
  ei_SubInvocations :: nat

function (sequential) countSubInvocations :: "SorobanAuthorizedInvocation list \<Rightarrow> nat \<Rightarrow> gerr + nat"
  and countLoop :: "SorobanAuthorizedInvocation list \<Rightarrow> nat \<Rightarrow> gerr + nat" where
  "countSubInvocations invocations depth =
     bindE (checkTraversalDepth depth) (\<lambda>_. countLoop invocations depth)"
| "countLoop [] depth = Inr 0"
| "countLoop (n # ns) depth =
     bindE (countSubInvocations (inv_SubInvocations n) (depth + 1)) (\<lambda>nested.
     bindE (countLoop ns depth) (\<lambda>total. Inr (1 + nested + total)))"
  by pat_completeness auto
termination
  by (relation "measure (case_sum (\<lambda>(ns, d). 2 * size_list size ns + 1) (\<lambda>(ns, d). 2 * size_list size ns))")
    (auto simp: size_SubInvocations_double)

declare countSubInvocations.simps [simp del]

function (sequential) inspectDelegates ::
    "sdk \<Rightarrow> SorobanDelegateSignature list \<Rightarrow> nat \<Rightarrow> gerr + NodeInfo list"
  and inspectLoop :: "sdk \<Rightarrow> SorobanDelegateSignature list \<Rightarrow> nat \<Rightarrow> gerr + NodeInfo list" where
  "inspectDelegates S nodes depth =
     bindE (checkTraversalDepth depth) (\<lambda>_. if length nodes = 0 then Inr [] else inspectLoop S nodes depth)"
| "inspectLoop S [] depth = Inr []"
| "inspectLoop S (n # ns) depth =
     bindE (FormatAddress S (ds_Address n)) (\<lambda>address.
     bindE (inspectDelegates S (ds_NestedDelegates n) (depth + 1)) (\<lambda>nested.
     bindE (inspectLoop S ns depth) (\<lambda>out.
       Inr (NodeInfo address (isSigned (ds_Signature n)) (Some (DescribeSignature S (ds_Signature n))) nested # out))))"
  by pat_completeness auto
termination
  by (relation "measure (case_sum (\<lambda>(S, ns, d). 2 * size_list size ns + 1) (\<lambda>(S, ns, d). 2 * size_list size ns))")
    (auto simp: size_NestedDelegates_double)

declare inspectDelegates.simps [simp del]

definition emptyInfo :: EntryInfo where
  "emptyInfo = \<lparr>ei_CredentialType = '''', ei_AddressBound = False, ei_Address = '''', ei_Nonce = 0,
     ei_ValidUntilLedger = 0, ei_TopLevelSigned = False, ei_Delegates = [], ei_RootContract = '''',
     ei_RootFunction = '''', ei_SubInvocations = 0\<rparr>"

definition inspectCredentials :: "sdk \<Rightarrow> SorobanAuthorizationEntry \<Rightarrow> gerr + EntryInfo" where
  "inspectCredentials S entry =
     (let info = emptyInfo\<lparr>ei_CredentialType := credentialTypeName (cr_Type (en_Credentials entry)),
                         ei_AddressBound := (cr_Type (en_Credentials entry) = CredentialsAddressV2 \<or>
                           cr_Type (en_Credentials entry) = CredentialsAddressWithDelegates)\<rparr> in
      case cr_Type (en_Credentials entry) of
        CredentialsOther _ \<Rightarrow> Inl (Sentinel ErrUnsupportedCredentials)
      | CredentialsSourceAccount \<Rightarrow> Inr info
      | _ \<Rightarrow>
        bindE (addressCredentials (en_Credentials entry)) (\<lambda>credentials.
        bindE (FormatAddress S (ac_Address credentials)) (\<lambda>address.
        let info1 = info\<lparr>ei_Address := address, ei_Nonce := ac_Nonce credentials,
                        ei_ValidUntilLedger := ac_SignatureExpirationLedger credentials,
                        ei_TopLevelSigned := isSigned (ac_Signature credentials)\<rparr> in
        if cr_Type (en_Credentials entry) = CredentialsAddressWithDelegates
        then bindE (inspectDelegates S (delegatesOf entry) 1) (\<lambda>delegates. Inr (info1\<lparr>ei_Delegates := delegates\<rparr>))
        else Inr info1)))"

definition Inspect :: "sdk \<Rightarrow> SorobanAuthorizationEntry \<Rightarrow> gerr + EntryInfo" where
  "Inspect S entry =
     wrapE ''soroauth: inspect''
       (bindE (inspectCredentials S entry) (\<lambda>info.
        bindE (case inv_Function (en_RootInvocation entry) of
                 FnContractFn None \<Rightarrow> Inl (errmsg ''contract_fn invocation arm is empty'')
               | FnContractFn (Some contractFn) \<Rightarrow>
                   bindE (FormatAddress S (ica_ContractAddress contractFn)) (\<lambda>contract.
                     Inr (info\<lparr>ei_RootContract := contract, ei_RootFunction := ica_FunctionName contractFn\<rparr>))
               | FnCreateContractHostFn _ \<Rightarrow> Inr info
               | FnCreateContractV2HostFn _ \<Rightarrow> Inr info
               | FnOther _ \<Rightarrow> Inl (Sentinel ErrUnsupportedFunctionType)) (\<lambda>info1.
        bindE (countSubInvocations (inv_SubInvocations (en_RootInvocation entry)) 1) (\<lambda>subInvocations.
          Inr (info1\<lparr>ei_SubInvocations := subInvocations\<rparr>)))))"

section \<open>Rendering\<close>

text \<open>The connectors are UTF-8, three bytes per box-drawing character.\<close>

definition teeConnector :: string where
  "teeConnector = [CHR 0xE2, CHR 0x94, CHR 0x9C, CHR 0xE2, CHR 0x94, CHR 0x80, CHR 0xE2, CHR 0x94, CHR 0x80, CHR 0x20]"

definition lastConnector :: string where
  "lastConnector = [CHR 0xE2, CHR 0x94, CHR 0x94, CHR 0xE2, CHR 0x94, CHR 0x80, CHR 0xE2, CHR 0x94, CHR 0x80, CHR 0x20]"

definition barPrefix :: string where
  "barPrefix = [CHR 0xE2, CHR 0x94, CHR 0x82, CHR 0x20, CHR 0x20, CHR 0x20]"

lemma size_ni_Nested [termination_simp]: "size_list size (ni_Nested n) < Suc (size n + k)"
  by (cases n) simp

fun writeDelegateTreeString :: "NodeInfo list \<Rightarrow> string \<Rightarrow> string" where
  "writeDelegateTreeString [] prefix = []"
| "writeDelegateTreeString (node # nodes) prefix =
     (let last = (nodes = []);
          connector = (if last then lastConnector else teeConnector);
          nextPrefix = prefix @ (if last then ''    '' else barPrefix);
          nl = [CHR 0x0A]
      in prefix @ connector @ ni_Address node @ '' ('' @ (if ni_Signed node then ''signed'' else ''unsigned'') @ '')'' @ nl @
         (case ni_Shape node of None \<Rightarrow> []
          | Some shape \<Rightarrow> prefix @ replicate (length connector) CHR 0x20 @ ''    shape: '' @ sh_Description shape @ nl) @
         writeDelegateTreeString (ni_Nested node) nextPrefix @ writeDelegateTreeString nodes prefix)"

definition infoString :: "EntryInfo \<Rightarrow> string" where
  "infoString i =
     (let nl = [CHR 0x0A];
          arm = (if ei_CredentialType i = '''' then ''unknown'' else ei_CredentialType i) in
      (if ei_Address i \<noteq> ''''
       then ei_Address i @ '' ('' @ (if ei_TopLevelSigned i then ''signed'' else ''unsigned'') @ '') ['' @ arm @ '']''
       else ''(no address) (unsigned) ['' @ arm @ '']'') @ nl @
      (if ei_Nonce i \<noteq> 0 then ''  nonce: '' @ itoa_int (sint (ei_Nonce i)) @ nl else '''') @
      (if ei_ValidUntilLedger i \<noteq> 0
       then ''  valid until ledger: '' @ itoa (unat (ei_ValidUntilLedger i)) @ nl else '''') @
      (if ei_AddressBound i then ''  address-bound: yes'' @ nl else '''') @
      (if length (ei_Delegates i) > 0
       then nl @ ''delegate tree:'' @ nl @ writeDelegateTreeString (ei_Delegates i) '''' else '''') @
      (if ei_RootContract i \<noteq> '''' \<or> ei_RootFunction i \<noteq> ''''
       then nl @ ''invocation:'' @ nl @ ''  '' @ ei_RootFunction i @ '' ('' @ ei_RootContract i @ '')'' @ nl else '''') @
      (if ei_SubInvocations i > 0 then ''  '' @ itoa (ei_SubInvocations i) @ '' sub-invocation(s)'' @ nl else ''''))"

section \<open>The iterator over credential nodes\<close>

record CredentialNode =
  no_Address :: string
  no_Path :: string
  no_Signed :: bool

text \<open>
  The consumer of the iterator is \<open>cont\<close>: whether its call number \<open>n\<close> asks for more.
  The functions thread the list of values yielded so far.
\<close>

type_synonym yields = "(CredentialNode \<times> gerr option) list"

definition emptyNode :: CredentialNode where
  "emptyNode = \<lparr>no_Address = '''', no_Path = '''', no_Signed = False\<rparr>"

function (sequential) yieldDelegateNodes ::
    "sdk \<Rightarrow> (nat \<Rightarrow> bool) \<Rightarrow> SorobanDelegateSignature list \<Rightarrow> string \<Rightarrow> nat \<Rightarrow> yields \<Rightarrow> yields \<times> gerr option"
  and yieldLoop ::
    "sdk \<Rightarrow> (nat \<Rightarrow> bool) \<Rightarrow> SorobanDelegateSignature list \<Rightarrow> string \<Rightarrow> nat \<Rightarrow> string list \<Rightarrow> yields
       \<Rightarrow> yields \<times> gerr option" where
  "yieldDelegateNodes S cont delegates prefix depth out =
     (case checkTraversalDepth depth of
        Inl err \<Rightarrow> (out, Some err)
      | Inr _ \<Rightarrow> yieldLoop S cont delegates prefix depth [] out)"
| "yieldLoop S cont [] prefix depth seen out = (out, None)"
| "yieldLoop S cont (d # ds) prefix depth seen out =
     (case FormatAddress S (ds_Address d) of
        Inl err \<Rightarrow> (out, Some err)
      | Inr address \<Rightarrow>
        let path0 = prefix @ ''['' @ address @ '']'';
            n = Suc (count_list seen path0);
            path = (if n > 1 then path0 @ ''#'' @ itoa n else path0);
            node = \<lparr>no_Address = address, no_Path = path, no_Signed = isSigned (ds_Signature d)\<rparr>;
            out1 = out @ [(node, None)]
        in if \<not> cont (length out) then (out1, None)
           else if length (ds_NestedDelegates d) > 0
           then (case yieldDelegateNodes S cont (ds_NestedDelegates d) (path @ ''.nested'') (depth + 1) out1 of
                   (out2, Some err) \<Rightarrow> (out2, Some err)
                 | (out2, None) \<Rightarrow> yieldLoop S cont ds prefix depth (path0 # seen) out2)
           else yieldLoop S cont ds prefix depth (path0 # seen) out1)"
  by pat_completeness auto
termination
  by (relation "measure (case_sum (\<lambda>(S, c, ns, p, d, out). 2 * size_list size ns + 1)
                            (\<lambda>(S, c, ns, p, d, seen, out). 2 * size_list size ns))")
    (auto simp: size_NestedDelegates_double)

declare yieldDelegateNodes.simps [simp del]

definition CredentialNodes :: "sdk \<Rightarrow> SorobanAuthorizationEntry \<Rightarrow> (nat \<Rightarrow> bool) \<Rightarrow> yields" where
  "CredentialNodes S entry cont =
     (let op = ''soroauth: credential nodes'' in
      if cr_Type (en_Credentials entry) = CredentialsSourceAccount then []
      else case addressCredentials (en_Credentials entry) of
        Inl err \<Rightarrow> [(emptyNode, Some (errw op err))]
      | Inr credentials \<Rightarrow>
        (case FormatAddress S (ac_Address credentials) of
           Inl err \<Rightarrow> [(emptyNode, Some (errw op err))]
         | Inr address \<Rightarrow>
           let topNode = \<lparr>no_Address = address, no_Path = ''credentials'',
                          no_Signed = isSigned (ac_Signature credentials)\<rparr>
           in if \<not> cont 0 then [(topNode, None)]
              else if cr_Type (en_Credentials entry) = CredentialsAddressWithDelegates
              then (case yieldDelegateNodes S cont (delegatesOf entry) ''credentials.delegates'' 1 [(topNode, None)] of
                      (out, Some err) \<Rightarrow> out @ [(emptyNode, Some (errw op err))]
                    | (out, None) \<Rightarrow> out)
              else [(topNode, None)]))"

section \<open>Equality and cloning\<close>

definition Equal :: "sdk \<Rightarrow> SorobanAuthorizationEntry \<Rightarrow> SorobanAuthorizationEntry \<Rightarrow> bool" where
  "Equal S a b =
     (case Entry_MarshalBinary S a of
        Inl _ \<Rightarrow> False
      | Inr ba \<Rightarrow> (case Entry_MarshalBinary S b of Inl _ \<Rightarrow> False | Inr bb \<Rightarrow> length ba = length bb \<and> ba = bb))"

definition Clone :: "sdk \<Rightarrow> SorobanAuthorizationEntry \<Rightarrow> gerr + SorobanAuthorizationEntry" where
  "Clone S entry =
     bindE (wrapE ''soroauth: clone: marshal'' (Entry_MarshalBinary S entry)) (\<lambda>b.
       wrapE ''soroauth: clone: unmarshal'' (Entry_SafeUnmarshalBase64 S (bytesString b)))"

section \<open>What the summary says\<close>

text \<open>The tree the summary is meant to show, and the number of nodes below an invocation.\<close>

fun describedTree :: "sdk \<Rightarrow> SorobanDelegateSignature list \<Rightarrow> NodeInfo list" where
  "describedTree S [] = []"
| "describedTree S (n # ns) =
     NodeInfo (projr (FormatAddress S (ds_Address n))) (isSigned (ds_Signature n))
       (Some (DescribeSignature S (ds_Signature n))) (describedTree S (ds_NestedDelegates n))
     # describedTree S ns"

fun invocationCount :: "SorobanAuthorizedInvocation list \<Rightarrow> nat" where
  "invocationCount [] = 0"
| "invocationCount (n # ns) = 1 + invocationCount (inv_SubInvocations n) + invocationCount ns"

text \<open>Every contract call of a tree, in preorder.\<close>

fun contractCalls :: "SorobanAuthorizedInvocation list \<Rightarrow> InvokeContractArgs list" where
  "contractCalls [] = []"
| "contractCalls (n # ns) =
     (case inv_Function n of FnContractFn (Some fn) \<Rightarrow> [fn] | _ \<Rightarrow> []) @
     contractCalls (inv_SubInvocations n) @ contractCalls ns"

lemma set_contractCalls:
  "set (contractCalls ns) = (\<Union>n \<in> set ns. set (contractCalls [n]))"
  by (induction ns) auto

lemma size_SubInvocation: "x \<in> set (inv_SubInvocations n) \<Longrightarrow> size x < size n"
  by (cases n) (auto dest: size_list_estimation' [where f = size, OF _ order_refl])

definition formattableLevel :: "sdk \<Rightarrow> SorobanDelegateSignature list \<Rightarrow> bool" where
  "formattableLevel S ns \<longleftrightarrow> (\<forall>n \<in> set ns. isOk (FormatAddress S (ds_Address n)))"

lemma inspect_describes:
  "inspectDelegates S ns d = Inr out \<Longrightarrow> out = describedTree S ns"
  "inspectLoop S ns d = Inr out \<Longrightarrow> out = describedTree S ns"
  by (induction S ns d and S ns d arbitrary: out and out rule: inspectDelegates_inspectLoop.induct)
    (auto simp: inspectDelegates.simps(1) bindE_Inr_iff split: if_splits)

lemma count_counts:
  "countSubInvocations is d = Inr k \<Longrightarrow> k = invocationCount is"
  "countLoop is d = Inr k \<Longrightarrow> k = invocationCount is"
  by (induction "is" d and "is" d arbitrary: k and k rule: countSubInvocations_countLoop.induct)
    (auto simp: countSubInvocations.simps(1) bindE_Inr_iff)

lemma isOk_countLoop:
  "isOk (countLoop ns d) \<longleftrightarrow> (\<forall>n \<in> set ns. isOk (countSubInvocations (inv_SubInvocations n) (Suc d)))"
  by (induction ns) (auto simp: isOk_bindE isOk_iff bindE_Inr_iff)

lemma isOk_inspectLoop:
  "isOk (inspectLoop S ns d) \<longleftrightarrow>
     formattableLevel S ns \<and> (\<forall>n \<in> set ns. isOk (inspectDelegates S (ds_NestedDelegates n) (Suc d)))"
  by (induction ns) (auto simp: formattableLevel_def isOk_iff bindE_Inr_iff)

interpretation count_walk: bounded_walk inv_SubInvocations "\<lambda>_. True" countSubInvocations
proof
  fix ts d
  show "isOk (countSubInvocations ts d) \<longleftrightarrow> d \<le> MaxDecodeDepth \<and> True \<and>
     (\<forall>t \<in> set ts. isOk (countSubInvocations (inv_SubInvocations t) (Suc d)))"
    unfolding countSubInvocations.simps(1) [of ts d] by (simp add: isOk_bindE isOk_countLoop)
next
  fix d :: nat and ts
  assume "d > MaxDecodeDepth"
  then show "failsWith (countSubInvocations ts d) ErrDecodeLimit"
    by (simp add: checkTraversalDepth_def countSubInvocations.simps)
qed

interpretation inspect_walk: bounded_walk ds_NestedDelegates "formattableLevel S" "inspectDelegates S" for S
proof
  fix ts d
  have "inspectLoop S [] d = Inr []" by simp
  then show "isOk (inspectDelegates S ts d) \<longleftrightarrow> d \<le> MaxDecodeDepth \<and> formattableLevel S ts \<and>
     (\<forall>t \<in> set ts. isOk (inspectDelegates S (ds_NestedDelegates t) (Suc d)))"
    unfolding inspectDelegates.simps(1) [of S ts d]
    by (cases "ts = []") (auto simp: isOk_bindE isOk_inspectLoop formattableLevel_def)
next
  fix d :: nat and ts
  assume "d > MaxDecodeDepth"
  then show "failsWith (inspectDelegates S ts d) ErrDecodeLimit"
    by (simp add: checkTraversalDepth_def inspectDelegates.simps)
qed

text \<open>The part of the summary that comes from the credentials.\<close>

definition sameCredentials :: "EntryInfo \<Rightarrow> EntryInfo \<Rightarrow> bool" where
  "sameCredentials i j \<longleftrightarrow>
     ei_CredentialType i = ei_CredentialType j \<and> ei_AddressBound i = ei_AddressBound j \<and>
     ei_Address i = ei_Address j \<and> ei_Nonce i = ei_Nonce j \<and>
     ei_ValidUntilLedger i = ei_ValidUntilLedger j \<and> ei_TopLevelSigned i = ei_TopLevelSigned j \<and>
     ei_Delegates i = ei_Delegates j"

lemma Inspect_Inr:
  assumes "Inspect S e = Inr info"
  obtains info0 info1 k where "inspectCredentials S e = Inr info0"
    "countSubInvocations (inv_SubInvocations (en_RootInvocation e)) (Suc 0) = Inr k"
    "info = info1\<lparr>ei_SubInvocations := k\<rparr>" "sameCredentials info1 info0"
proof -
  obtain info0 where i: "inspectCredentials S e = Inr info0"
    using assms by (auto simp: Inspect_def bindE_Inr_iff)
  show ?thesis
    using assms i that [OF i]
    by (cases "inv_Function (en_RootInvocation e)")
      (auto simp: Inspect_def bindE_Inr_iff sameCredentials_def split: option.splits)
qed

section \<open>What equality and cloning do\<close>

lemma Equal_iff:
  "entry_roundtrips S a \<Longrightarrow> entry_roundtrips S b \<Longrightarrow> Equal S a b \<longleftrightarrow> a = b"
  by (auto simp: Equal_def entry_roundtrips_def)

text \<open>
  \<open>Clone\<close> hands the XDR bytes themselves to the base64 decoder. XDR begins with the
  big-endian credentials type, whose first byte is zero, and the standard base64 alphabet
  has no NUL, so the call fails on every entry.
\<close>

lemma Clone_fails:
  assumes "\<And>b. Entry_MarshalBinary S e = Inr b \<Longrightarrow> 0 \<in> set b"
    and "\<And>s. CHR 0x00 \<in> set s \<Longrightarrow> \<not> isOk (Entry_SafeUnmarshalBase64 S s)"
  shows "\<not> isOk (Clone S e)"
proof (cases "Entry_MarshalBinary S e")
  case (Inl err)
  then show ?thesis by (simp add: Clone_def)
next
  case (Inr b)
  then have "0 \<in> set b" using assms(1) by blast
  then have "(char_of (unat (0 :: byte)) :: char) \<in> set (bytesString b)"
    unfolding bytesString_def set_map by (rule imageI)
  then have "CHR 0x00 \<in> set (bytesString b)" by (simp add: char_of_def)
  then show ?thesis using Inr assms(2) by (simp add: Clone_def isOk_bindE)
qed

end
