(* ===== verification/Session_Properties.thy ===== *)
theory Session_Properties
  imports Lifecycle Coordination Threshold Inspection Structure_Properties
begin

text \<open>
  What the operations around signing guarantee: expirations, nonces, invocations signed from
  scratch, planned delegate trees, coordination and threshold sessions, and the summary of
  an entry, stated over \<^verbatim>\<open>Lifecycle\<close>, \<^verbatim>\<open>Coordination\<close>, \<^verbatim>\<open>Threshold\<close> and
  \<^verbatim>\<open>Inspection\<close>.
\<close>

section \<open>Expirations and nonces\<close>

lemma word_add_no_wrap: "(x :: 32 word) > - 1 - y \<longleftrightarrow> unat x + unat y \<ge> 2 ^ 32"
proof -
  have "unat (- 1 - y) = 2 ^ 32 - 1 - unat y"
    by (simp add: unat_sub unsigned_minus_1_eq_mask mask_eq_exp_minus_1)
  moreover have "unat y < 2 ^ 32" using unsigned_less [of y] by simp
  ultimately show ?thesis by (auto simp: word_less_nat_alt)
qed

text \<open>
  \<open>ExpirationAfter\<close> returns the true sum of its arguments exactly when the distance
  is at least one ledger and the sum is a ledger sequence, so the expiration is always later
  than the latest ledger; otherwise it fails with \<open>ErrInvalidExpiration\<close>.
\<close>

lemma expiration_after_exact:
  "(if ledgers \<noteq> 0 \<and> unat latest + unat ledgers < 2 ^ 32
    then \<exists>v. ExpirationAfter latest ledgers = Inr v \<and> unat v = unat latest + unat ledgers \<and> latest < v
    else failsWith (ExpirationAfter latest ledgers) ErrInvalidExpiration)"
proof (cases "ledgers \<noteq> 0 \<and> unat latest + unat ledgers < 2 ^ 32")
  case True
  then have v: "unat (latest + ledgers) = unat latest + unat ledgers" by (simp add: unat_word_ariths)
  moreover have "0 < unat ledgers" using True by (simp add: unat_gt_0)
  ultimately have "latest < latest + ledgers" by (simp add: word_less_nat_alt)
  then show ?thesis using True v by (simp add: ExpirationAfter_def word_add_no_wrap)
next
  case False
  then show ?thesis by (auto simp: ExpirationAfter_def word_add_no_wrap)
qed

text \<open>
  C27: over any history of calls to a fresh tracker, each address and nonce is granted at most
  once, and every pair that some call with a live context asks for is granted to one of them.
\<close>

theorem nonce_granted_once:
  "distinct (grants Reserve calls NewInMemoryNonceTracker) \<and>
   set (grants Reserve calls NewInMemoryNonceTracker) = {(a, n). (None, a, n) \<in> set calls}"
proof -
  have "reservedPairs NewInMemoryNonceTracker = {}"
    by (simp add: reservedPairs_def NewInMemoryNonceTracker_def)
  then show ?thesis
    using memory.grants_once [of calls NewInMemoryNonceTracker] memory.grants_all [of calls NewInMemoryNonceTracker]
    by simp
qed

section \<open>Signing an invocation from scratch\<close>

text \<open>
  The entry \<open>AuthorizeInvocation\<close> returns carries the signer's own address, the
  nonce of the random bytes, the requested expiration, arm and invocation, and a signature
  the signer made over the preimage that is rebuilt from that very entry.
\<close>

lemma invocation_is_signed:
  assumes "AuthorizeInvocation S random ctx p = Inr e"
    and "\<And>sg a n. ip_Signer p = Some sg \<Longrightarrow> ParseAddress S (sg_Address sg) = Inr a \<Longrightarrow>
       newNonce random = Inr n \<Longrightarrow> entry_roundtrips S (freshEntry p a n)"
  shows "\<exists>sg a n sig pre h. ip_Signer p = Some sg \<and> ParseAddress S (sg_Address sg) = Inr a \<and>
     newNonce random = Inr n \<and>
     addressCredentials (en_Credentials e) =
       Inr \<lparr>ac_Address = a, ac_Nonce = n, ac_SignatureExpirationLedger = ip_ValidUntilLedger p, ac_Signature = sig\<rparr> \<and>
     cr_Type (en_Credentials e) = (if ip_Legacy p then CredentialsAddress else CredentialsAddressV2) \<and>
     en_RootInvocation e = ip_Invocation p \<and>
     Preimage S e (ip_ValidUntilLedger p) (ip_NetworkPassphrase p) = Inr pre \<and> Payload S pre = Inr h \<and>
     sg_Sign sg None pre h = Inr sig"
proof -
  obtain sg a n where sg: "ip_Signer p = Some sg" "ParseAddress S (sg_Address sg) = Inr a" "newNonce random = Inr n"
    and auth: "authorized S ctx (freshEntry p a n) (Some sg) (ip_ValidUntilLedger p) (ip_NetworkPassphrase p) [] = Inr e"
    using assms(1) by (auto simp: AuthorizeInvocation_def bindE_Inr_iff split: option.splits)
  let ?f = "freshEntry p a n"
  have t: "cr_Type (en_Credentials ?f) = (if ip_Legacy p then CredentialsAddress else CredentialsAddressV2)"
    "en_RootInvocation ?f = ip_Invocation p"
    "addressCredentials (en_Credentials ?f) =
       Inr \<lparr>ac_Address = a, ac_Nonce = n, ac_SignatureExpirationLedger = 0, ac_Signature = scVec []\<rparr>"
    by (simp_all add: freshEntry_def Let_def addressCredentials_def)
  then have ns: "cr_Type (en_Credentials ?f) \<noteq> CredentialsSourceAccount" by simp
  obtain sg' target enc scope b nodes pre h sig where s: "Some sg = Some sg'"
    "resolveTarget S (applyOptions []) sg' = Inr (target, enc)"
    "Preimage S ?f (ip_ValidUntilLedger p) (ip_NetworkPassphrase p) = Inr pre" "Payload S pre = Inr h"
    "sg_Sign sg' None pre h = Inr sig" "e = signedEntry S enc sig (ip_ValidUntilLedger p) ?f"
    using AuthorizeEntry_signs [OF auth ns assms(2) [OF sg]] .
  have "addressIs S enc a"
    using s(1,2) sg(2) by (auto simp: resolveTarget_def applyOptions_def zeroConfig_def addressBytes_def
        addressIs_def bindE_Inr_iff Let_def split: if_splits)
  then show ?thesis
    using sg s t signedEntry_credentials [OF t(3)] Preimage_signedEntry [OF t(3)] by auto
qed

text \<open>An SDK whose table holds the fresh entry of the sample invocation.\<close>

definition sampleParams :: AuthorizeInvocationParams where
  "sampleParams = \<lparr>ip_Signer = Some sampleSigner, ip_Invocation = sampleInvocation, ip_ValidUntilLedger = 100,
     ip_NetworkPassphrase = sampleNetwork, ip_Legacy = False\<rparr>"

definition sampleRandom :: "gerr + bytes" where
  "sampleRandom = Inr [0, 0, 0, 0, 0, 0, 0, 7]"

definition sampleFresh :: SorobanAuthorizationEntry where
  "sampleFresh = freshEntry sampleParams (accountAddress (keyOf 1)) 7"

definition freshSdk :: sdk where
  "freshSdk = sampleSdk\<lparr>Entry_MarshalBinary := tableEncode [sampleFresh], Entry_DecodeBytes := tableDecode [sampleFresh]\<rparr>"

lemma sampleFresh_roundtrips: "entry_roundtrips freshSdk sampleFresh"
  using table_roundtrip [of sampleFresh "[sampleFresh]"] by (simp add: entry_roundtrips_def freshSdk_def)

lemma freshSdk_codecs [simp]:
  "ParseAddress freshSdk ''GA'' = Inr (accountAddress (keyOf 1))"
  "addressBytes freshSdk (accountAddress k) = Inr (0 # k)"
  "Payload freshSdk p = Payload sampleSdk p"
  "newNonce sampleRandom = Inr 7"
  using sample_addresses(1)
  by (simp_all add: freshSdk_def ParseAddress_def addressBytes_def Payload_def newNonce_def sampleRandom_def)

lemma freshSdk_format [simp]: "FormatAddress freshSdk (accountAddress k) = FormatAddress sampleSdk (accountAddress k)"
  by (simp add: FormatAddress_def accountAddress_def freshSdk_def)

lemma sampleFresh_arm:
  "addressCredentials (en_Credentials sampleFresh) = Inr \<lparr>ac_Address = accountAddress (keyOf 1), ac_Nonce = 7,
     ac_SignatureExpirationLedger = 0, ac_Signature = scVec []\<rparr>"
  "cr_Type (en_Credentials sampleFresh) = CredentialsAddressV2" "en_RootInvocation sampleFresh = sampleInvocation"
  by (simp_all add: sampleFresh_def freshEntry_def sampleParams_def Let_def addressCredentials_def)

lemma sampleFresh_preimage:
  "Preimage freshSdk sampleFresh 100 sampleNetwork = Inr (preimageBound (accountAddress (keyOf 1)))"
proof -
  have net: "sampleNetwork \<noteq> ''''" by (simp add: sampleNetwork_def)
  have "buildPreimage freshSdk sampleFresh 100 sampleNetwork = Inr (preimageBound (accountAddress (keyOf 1)))"
    unfolding buildPreimage_Inr_iff
    by (simp add: net sampleFresh_arm specPreimage_def preimageBound_def) (simp add: freshSdk_def)
  moreover have "preimage_roundtrips freshSdk (preimageBound (accountAddress (keyOf 1)))"
    using sample_roundtrips(7) by (simp add: preimage_roundtrips_def freshSdk_def)
  ultimately show ?thesis by (simp add: Preimage_def copyPreimage_id)
qed

lemma sampleFresh_signed:
  "AuthorizeInvocation freshSdk sampleRandom None sampleParams =
     Inr (signedEntry freshSdk (0 # keyOf 1) (sampleSignature 1) 100 sampleFresh)"
proof -
  have target: "resolveTarget freshSdk zeroConfig sampleSigner = Inr (''GA'', 0 # keyOf 1)"
    by (simp add: resolveTarget_def zeroConfig_def)
  have nodes: "credentialNodes freshSdk sampleFresh = Inr [\<lparr>cn_encoded = 0 # keyOf 1, cn_signature = []\<rparr>]"
    by (simp add: credentialNodes_def sampleFresh_arm delegatesOf_def)
  have "authorized freshSdk None sampleFresh (Some sampleSigner) 100 sampleNetwork [] =
     Inr (signedEntry freshSdk (0 # keyOf 1) (sampleSignature 1) 100 sampleFresh)"
    by (rule AuthorizeEntry_fresh [OF copyEntry_id [OF sampleFresh_roundtrips] sampleFresh_arm(1) _ target _ nodes _ _
          sampleFresh_preimage _ sample_signs(1)])
      (simp_all add: sampleFresh_arm signedAt_def derefSig_def isSigned_def scVec_def)
  then show ?thesis
    by (simp add: AuthorizeInvocation_def sampleParams_def) (simp add: sampleFresh_def sampleParams_def)
qed

section \<open>Planned delegate trees\<close>

text \<open>
  What a planned tree is worth: \<open>Describe\<close> gives the policy back, every planned
  address is registered when there are registrations, the plan has at most 63 levels of
  parseable, distinct addresses, and wrapping an unsigned address entry in it succeeds.
\<close>

lemma plan_then_wrap:
  assumes "Plan S v policy regs = Inr t"
    and "cr_Type (en_Credentials e) = CredentialsAddress \<or> cr_Type (en_Credentials e) = CredentialsAddressV2"
    and "addressCredentials (en_Credentials e) = Inr a" and "\<not> isSigned (ac_Signature a)"
    and "\<And>ns. buildDelegateNodes S (buildDelegatePolicies policy) (Suc 0) = Inr ns \<Longrightarrow>
       entry_roundtrips S (wrappedEntry e a v ns topSig)"
  shows "Describe t = policy \<and> pt_ValidUntilLedger t = v \<and> v \<noteq> 0 \<and>
     (regs = [] \<or> delegateAddresses (pt_Delegates t) \<subseteq> set (map rg_Address regs)) \<and>
     fits dg_Nested (buildableLevel S) 63 (pt_Delegates t) \<and>
     (\<exists>w. Wrap S t e topSig = Inr w \<and> isOk (ValidateDelegateOrder S w))"
proof -
  have p: "v \<noteq> 0" "regs = [] \<or> delegateAddresses (buildDelegatePolicies policy) \<subseteq> set (map rg_Address regs)"
    "isOk (buildDelegateNodes S (buildDelegatePolicies policy) (Suc 0))"
    "t = \<lparr>pt_Delegates = buildDelegatePolicies policy, pt_ValidUntilLedger = v\<rparr>"
    using assms(1) by (auto simp: Plan_Inr_iff)
  obtain ns where ns: "buildDelegateNodes S (buildDelegatePolicies policy) (Suc 0) = Inr ns"
    using p(3) by (auto simp: isOk_iff)
  have "Wrap S t e topSig = Inr (wrappedEntry e a v ns topSig)"
    using assms(2-4) p(1) ns copyEntry_id [OF assms(5) [OF ns]]
    by (simp add: Wrap_def p(4) WithDelegates_Inr_iff wrappedEntry_def)
  moreover have "isOk (ValidateDelegateOrder S (wrappedEntry e a v ns topSig))"
    using build_then_validate [OF ns] by (simp add: ValidateDelegateOrder_def wrappedEntry_def)
  ultimately show ?thesis
    using p build_walk.walk_ok_top [of S "buildDelegatePolicies policy"]
    by (simp add: Describe_def describe_build)
qed

text \<open>The sample tree as a policy, planned with both of its signers registered.\<close>

definition samplePolicy :: "DelegatePolicy list" where
  "samplePolicy = [DelegatePolicy ''GB'' [DelegatePolicy ''GA'' []], DelegatePolicy ''GA'' []]"

definition sampleRegistrations :: "SignerRegistration list" where
  "sampleRegistrations = [\<lparr>rg_Address = ''GA'', rg_Signer = Some sampleSigner\<rparr>, \<lparr>rg_Address = ''GB'', rg_Signer = None\<rparr>]"

lemma samplePolicy_builds: "buildDelegatePolicies samplePolicy = sampleDescriptors"
  by (simp add: samplePolicy_def sampleDescriptors_def)

lemma samplePolicy_plans:
  "Plan wrapSdk 100 samplePolicy sampleRegistrations =
     Inr \<lparr>pt_Delegates = sampleDescriptors, pt_ValidUntilLedger = 100\<rparr>"
proof -
  have "isOk (ParseAddress wrapSdk ''GA'')" "isOk (ParseAddress wrapSdk ''GB'')"
    by (simp_all add: ParseAddress_def wrapSdk_def sample_defs scAddressPayloadLen_def)
  moreover have "delegateAddresses sampleDescriptors \<subseteq> set (map rg_Address sampleRegistrations)"
    by (simp add: sampleDescriptors_def sampleRegistrations_def)
  ultimately show ?thesis
    by (simp add: Plan_Inr_iff samplePolicy_builds wrapSdk_builds) (simp add: sampleRegistrations_def)
qed

section \<open>Coordination sessions\<close>


definition sampleCoordinator :: Coordinator where
  "sampleCoordinator =
     (let nodes = flattenDelegates sampleSdk (sampleDelegates ScvVoid) 0 in
      \<lparr>co_entry = entryDelegates, co_validUntilLedger = 100, co_networkPassphrase = sampleNetwork,
       co_nodes = nodes, co_signed = fold (\<lambda>n. setFlag (tn_encoded n) False) nodes []\<rparr>)"


section \<open>Threshold sessions\<close>

text \<open>
  After any history of rounds and contributions the threshold signer signs exactly when
  shares with at least \<open>threshold\<close> distinct 32-byte prefixes were contributed to the round,
  and what it then returns is the 64-byte combination of those shares, in any order.
\<close>

lemma threshold_signs_when_met:
  assumes "NewThresholdSigner S account t parties = Inr s0" and "threshold_step\<^sup>*\<^sup>* s0 s"
  shows "(isOk (thresholdSign s None p h) \<longleftrightarrow> t \<le> int (card (fst ` set (th_shares s)))) \<and>
     (\<forall>(prefix, share) \<in> set (th_shares s). share \<noteq> [] \<and> prefix = take 32 share) \<and>
     (\<forall>v shares. thresholdSign s None p h = Inr v \<longrightarrow> mset shares = mset (map snd (th_shares s)) \<longrightarrow>
        v = scVec [scBytes (combineShares shares)] \<and> length (combineShares shares) = 64)"
proof -
  have i: "thresholdInv s" by (rule thresholdInv_reachable [OF assms(2) thresholdInv_new [OF assms(1)]])
  have t: "th_threshold s = t"
    using threshold_kept [OF assms(2)] assms(1)
    by (auto simp: NewThresholdSigner_def bindE_Inr_iff split: if_splits option.splits)
  have "card (fst ` set (th_shares s)) = length (th_shares s)"
    using i distinct_card [of "map fst (th_shares s)"] by (simp add: thresholdInv_def)
  then have met: "isOk (thresholdSign s None p h) \<longleftrightarrow> t \<le> int (card (fst ` set (th_shares s)))"
    using i t by (simp add: thresholdInv_def thresholdSign_def)
  have combined: "v = scVec [scBytes (combineShares shares)]"
    if "thresholdSign s None p h = Inr v" "mset shares = mset (map snd (th_shares s))" for v shares
  proof -
    have "v = scVec [scBytes (combineShares (map snd (th_shares s)))]"
      using that(1) i by (auto simp: thresholdInv_def thresholdSign_def split: if_splits)
    then show ?thesis unfolding combineShares_def fold_xorShare_perm [OF that(2)] .
  qed
  have "\<forall>(prefix, share) \<in> set (th_shares s). share \<noteq> [] \<and> prefix = take 32 share"
    using i by (simp add: thresholdInv_def)
  then show ?thesis using met combined length_combineShares by blast
qed

text \<open>Two shares of one caller, with different first bytes, complete a two-of-two session.\<close>

definition sampleThreshold :: thresholdSigner where
  "sampleThreshold = \<lparr>th_account = ''CA'', th_threshold = 2, th_parties = sort [''GB'', ''GA''],
     th_round = 0, th_shares = [], th_complete = False, th_signature = []\<rparr>"

section \<open>Looking at an entry\<close>

text \<open>
  What \<open>Inspect\<close> reports of a delegates entry is what the entry holds: its address,
  nonce, expiration and signing state, the whole delegate tree with each node's signing
  state, and the number of sub-invocations; and both trees had at most 63 levels.
\<close>

lemma inspect_reports_entry:
  assumes "Inspect S e = Inr info"
    and "cr_Type (en_Credentials e) = CredentialsAddressWithDelegates"
  shows "\<exists>a. addressCredentials (en_Credentials e) = Inr a \<and>
     FormatAddress S (ac_Address a) = Inr (ei_Address info) \<and>
     ei_AddressBound info \<and> ei_Nonce info = ac_Nonce a \<and>
     ei_ValidUntilLedger info = ac_SignatureExpirationLedger a \<and>
     ei_TopLevelSigned info = isSigned (ac_Signature a) \<and>
     ei_Delegates info = describedTree S (delegatesOf e) \<and>
     ei_SubInvocations info = invocationCount (inv_SubInvocations (en_RootInvocation e)) \<and>
     fits ds_NestedDelegates (formattableLevel S) 63 (delegatesOf e) \<and>
     fits inv_SubInvocations (\<lambda>_. True) 63 (inv_SubInvocations (en_RootInvocation e))"
proof -
  obtain info0 info1 k where i: "inspectCredentials S e = Inr info0"
    "countSubInvocations (inv_SubInvocations (en_RootInvocation e)) (Suc 0) = Inr k"
    "info = info1\<lparr>ei_SubInvocations := k\<rparr>" "sameCredentials info1 info0"
    using Inspect_Inr [OF assms(1)] .
  obtain a address ds where c: "addressCredentials (en_Credentials e) = Inr a"
    "FormatAddress S (ac_Address a) = Inr address" "inspectDelegates S (delegatesOf e) (Suc 0) = Inr ds"
    "info0 = emptyInfo\<lparr>ei_CredentialType := credentialTypeName CredentialsAddressWithDelegates, ei_AddressBound := True,
       ei_Address := address, ei_Nonce := ac_Nonce a, ei_ValidUntilLedger := ac_SignatureExpirationLedger a,
       ei_TopLevelSigned := isSigned (ac_Signature a), ei_Delegates := ds\<rparr>"
    using i(1) assms(2) by (auto simp: inspectCredentials_def bindE_Inr_iff Let_def)
  have "fits ds_NestedDelegates (formattableLevel S) 63 (delegatesOf e)"
    "fits inv_SubInvocations (\<lambda>_. True) 63 (inv_SubInvocations (en_RootInvocation e))"
    using c(3) i(2) inspect_walk.walk_ok_top [of S] count_walk.walk_ok_top by (metis isOk_iff)+
  then show ?thesis
    using i c inspect_describes(1) [OF c(3)] count_counts(1) [OF i(2)] by (simp add: sameCredentials_def)
qed

end
