(* ===== verification/Canonical.thy ===== *)
theory Canonical
  imports Address Decode Encoding
begin

text \<open>
  The canonical JSON form of an entry (\<^verbatim>\<open>src/canonical.go\<close>): the document structs and the
  two translations between them and XDR values, with every refusal. The step between the
  document structs and JSON text is \<open>encoding/json\<close> driven by struct tags and is not
  modelled: \<open>canonicalDocument\<close> is \<open>MarshalCanonicalJSON\<close> up to the call of
  \<open>json.Marshal\<close>, and \<open>entryOfDocument\<close> is \<open>UnmarshalCanonicalJSON\<close> from the decoded
  document on. A Go pointer field is an \<open>option\<close>.
\<close>

section \<open>Documents\<close>

definition CanonicalJSONSchemaVersion :: int where
  "CanonicalJSONSchemaVersion = 1"

record canonicalAddress =
  ca_Type :: string
  ca_Account :: string
  ca_Contract :: string
  ca_XDR :: string

record canonicalText =
  ct_UTF8 :: "string option"
  ct_Base64 :: "string option"

record canonicalParts128 =
  p1_Hi :: string
  p1_Lo :: string

record canonicalParts256 =
  p2_HiHi :: string
  p2_HiLo :: string
  p2_LoHi :: string
  p2_LoLo :: string

record canonicalExecutable =
  ce_Type :: string
  ce_WasmHash :: "string option"
  ce_Owner :: "canonicalAddress option"
  ce_Tag :: "canonicalText option"

text \<open>
  \<open>canonicalScVal\<close> contains itself through three of its fields. Those are arguments of the
  constructor, and the remaining fields of the struct are a record. Map entries are pairs of
  a key and a value, an instance is a pair of an executable and its storage.
\<close>

record canonicalScalars =
  cs_Type :: string
  cs_Bool :: "bool option"
  cs_U32 :: "uint32 option"
  cs_I32 :: "32 word option"
  cs_U64 :: "string option"
  cs_I64 :: "string option"
  cs_Timepoint :: "string option"
  cs_Duration :: "string option"
  cs_U128 :: "canonicalParts128 option"
  cs_I128 :: "canonicalParts128 option"
  cs_U256 :: "canonicalParts256 option"
  cs_I256 :: "canonicalParts256 option"
  cs_Bytes :: "string option"
  cs_String :: "canonicalText option"
  cs_Symbol :: "canonicalText option"
  cs_Nil :: bool
  cs_Address :: "canonicalAddress option"
  cs_XDR :: string
  cs_ExecutableTag :: "canonicalText option"

datatype canonicalScVal =
  CanonicalScVal (cv_Scalars: canonicalScalars) (cv_Vec: "canonicalScVal list option")
    (cv_Map: "(canonicalScVal \<times> canonicalScVal) list option")
    (cv_Instance: "(canonicalExecutable \<times> (canonicalScVal \<times> canonicalScVal) list option) option")

datatype canonicalDelegate =
  CanonicalDelegate (cd_Address: canonicalAddress) (cd_Signature: canonicalScVal) (cd_Nested: "canonicalDelegate list")

record canonicalCredential =
  cc_Type :: string
  cc_Address :: "canonicalAddress option"
  cc_Nonce :: "string option"
  cc_SignatureExpirationLedger :: "uint32 option"
  cc_Signature :: "canonicalScVal option"
  cc_Delegates :: "canonicalDelegate list option"

record canonicalPreimage =
  cp_Type :: string
  cp_Address :: "canonicalAddress option"
  cp_Salt :: "string option"
  cp_XDR :: string

record canonicalFunction =
  cf_Type :: string
  cf_ContractAddress :: "canonicalAddress option"
  cf_FunctionName :: "canonicalText option"
  cf_Args :: "canonicalScVal list option"
  cf_ContractIDPreimage :: "canonicalPreimage option"
  cf_Executable :: "canonicalExecutable option"
  cf_ConstructorArgs :: "canonicalScVal list option"

datatype canonicalInvocation =
  CanonicalInvocation (ci_Function: canonicalFunction) (ci_SubInvocations: "canonicalInvocation list")

record canonicalEntry =
  cy_SchemaVersion :: int
  cy_Credentials :: canonicalCredential
  cy_RootInvocation :: canonicalInvocation

section \<open>Encoding\<close>

definition encodeCanonicalText :: "string \<Rightarrow> canonicalText" where
  "encodeCanonicalText value =
     (if utf8_ValidString value then \<lparr>ct_UTF8 = Some value, ct_Base64 = None\<rparr>
      else \<lparr>ct_UTF8 = None, ct_Base64 = Some (base64_EncodeToString (stringBytes value))\<rparr>)"

text \<open>
  \<open>safeMarshalBase64\<close> switches on the dynamic type of its argument, so it is one function
  per type its callers pass: an \<open>xdr.ScAddress\<close>, an \<open>xdr.ScVal\<close>, and a pointer to an
  \<open>xdr.Asset\<close>, which is none of its cases.
\<close>

definition safeMarshalBase64_asset :: "bytes \<Rightarrow> gerr + string" where
  "safeMarshalBase64_asset asset = Inl (errmsg ''unsupported XDR value *xdr.Asset'')"

definition encodeCanonicalAddress :: "sdk \<Rightarrow> ScAddress \<Rightarrow> gerr + canonicalAddress" where
  "encodeCanonicalAddress S address =
     (if sa_Type address = ScAddressTypeAccount \<and> sa_AccountId address = None
      then Inl (errmsg ''account address arm has no account id'')
      else if sa_Type address = ScAddressTypeContract \<and> sa_ContractId address = None
      then Inl (errmsg ''contract address arm has no contract id'')
      else
        let fallback = bindE (wrapE ''address'' (ScAddress_MarshalBase64 S address)) (\<lambda>encoded.
              Inr \<lparr>ca_Type = ''xdr'', ca_Account = '''', ca_Contract = '''', ca_XDR = encoded\<rparr>)
        in case FormatAddress S address of
             Inl _ \<Rightarrow> fallback
           | Inr rendered \<Rightarrow>
               (case sa_Type address of
                  ScAddressTypeAccount \<Rightarrow>
                    Inr \<lparr>ca_Type = ''account'', ca_Account = rendered, ca_Contract = '''', ca_XDR = ''''\<rparr>
                | ScAddressTypeContract \<Rightarrow>
                    Inr \<lparr>ca_Type = ''contract'', ca_Account = '''', ca_Contract = rendered, ca_XDR = ''''\<rparr>
                | _ \<Rightarrow> fallback))"

definition encodeCanonicalExecutable :: "sdk \<Rightarrow> ContractExecutable \<Rightarrow> gerr + canonicalExecutable" where
  "encodeCanonicalExecutable S executable =
     (case executable of
        ExecutableWasm None \<Rightarrow> Inl (errmsg ''wasm arm has no hash'')
      | ExecutableWasm (Some hash) \<Rightarrow>
          Inr \<lparr>ce_Type = ''wasm'', ce_WasmHash = Some (hex hash), ce_Owner = None, ce_Tag = None\<rparr>
      | ExecutableStellarAsset \<Rightarrow>
          Inr \<lparr>ce_Type = ''stellar_asset'', ce_WasmHash = None, ce_Owner = None, ce_Tag = None\<rparr>
      | ExecutableExternalRef None \<Rightarrow> Inl (errmsg ''external_ref arm has no reference'')
      | ExecutableExternalRef (Some (owner, tag)) \<Rightarrow>
          bindE (encodeCanonicalAddress S owner) (\<lambda>owner'.
            Inr \<lparr>ce_Type = ''external_ref'', ce_WasmHash = None, ce_Owner = Some owner',
                 ce_Tag = Some (encodeCanonicalText tag)\<rparr>)
      | ExecutableOther n \<Rightarrow> Inl (errmsg (''unknown contract executable type '' @ itoa n)))"

definition encodeCanonicalPreimage :: "sdk \<Rightarrow> ContractIdPreimage \<Rightarrow> gerr + canonicalPreimage" where
  "encodeCanonicalPreimage S preimage =
     (case preimage of
        PreimageFromAddress None \<Rightarrow> Inl (errmsg ''from_address arm has no preimage'')
      | PreimageFromAddress (Some (address, salt)) \<Rightarrow>
          bindE (encodeCanonicalAddress S address) (\<lambda>address'.
            Inr \<lparr>cp_Type = ''from_address'', cp_Address = Some address', cp_Salt = Some (hex salt), cp_XDR = ''''\<rparr>)
      | PreimageFromAsset None \<Rightarrow> Inl (errmsg ''from_asset arm has no asset'')
      | PreimageFromAsset (Some asset) \<Rightarrow>
          bindE (wrapE ''from_asset'' (safeMarshalBase64_asset asset)) (\<lambda>encoded.
            Inr \<lparr>cp_Type = ''from_asset'', cp_Address = None, cp_Salt = None, cp_XDR = encoded\<rparr>)
      | PreimageOther n \<Rightarrow> Inl (errmsg (''unknown contract id preimage type '' @ itoa n)))"

fun scValTypeName :: "ScVal \<Rightarrow> string" where
  "scValTypeName (ScvBool _) = ''bool''"
| "scValTypeName ScvVoid = ''void''"
| "scValTypeName (ScvError _) = ''error''"
| "scValTypeName (ScvU32 _) = ''u32''"
| "scValTypeName (ScvI32 _) = ''i32''"
| "scValTypeName (ScvU64 _) = ''u64''"
| "scValTypeName (ScvI64 _) = ''i64''"
| "scValTypeName (ScvTimepoint _) = ''timepoint''"
| "scValTypeName (ScvDuration _) = ''duration''"
| "scValTypeName (ScvU128 _) = ''u128''"
| "scValTypeName (ScvI128 _) = ''i128''"
| "scValTypeName (ScvU256 _) = ''u256''"
| "scValTypeName (ScvI256 _) = ''i256''"
| "scValTypeName (ScvBytes _) = ''bytes''"
| "scValTypeName (ScvString _) = ''string''"
| "scValTypeName (ScvSymbol _) = ''symbol''"
| "scValTypeName (ScvVec _) = ''vec''"
| "scValTypeName (ScvMap _) = ''map''"
| "scValTypeName (ScvAddress _) = ''address''"
| "scValTypeName (ScvContractInstance _) = ''contract_instance''"
| "scValTypeName ScvLedgerKeyContractInstance = ''ledger_key_contract_instance''"
| "scValTypeName (ScvLedgerKeyNonce _) = ''ledger_key_nonce''"
| "scValTypeName (ScvExecutableTag _) = ''executable_tag''"
| "scValTypeName (ScvOther _) = ''''"

text \<open>\<open>canonicalScVal{Type: t}\<close>, the other fields zero.\<close>

definition scalars :: "string \<Rightarrow> canonicalScalars" where
  "scalars t = \<lparr>cs_Type = t, cs_Bool = None, cs_U32 = None, cs_I32 = None, cs_U64 = None, cs_I64 = None,
     cs_Timepoint = None, cs_Duration = None, cs_U128 = None, cs_I128 = None, cs_U256 = None, cs_I256 = None,
     cs_Bytes = None, cs_String = None, cs_Symbol = None, cs_Nil = False, cs_Address = None, cs_XDR = '''',
     cs_ExecutableTag = None\<rparr>"

definition leaf :: "canonicalScalars \<Rightarrow> canonicalScVal" where
  "leaf f = CanonicalScVal f None None None"

text \<open>A pointer arm that has to be there.\<close>

definition armOr :: "string \<Rightarrow> 'a option \<Rightarrow> gerr + 'a" where
  "armOr name p = (case p of None \<Rightarrow> Inl (errmsg (name @ '' arm is empty'')) | Some x \<Rightarrow> Inr x)"

lemma armOr_Inr_iff [simp]: "armOr name p = Inr x \<longleftrightarrow> p = Some x"
  by (cases p) (simp_all add: armOr_def)

text \<open>The arms with no value of the same kind inside.\<close>

definition encodeScalar :: "sdk \<Rightarrow> ScVal \<Rightarrow> gerr + canonicalScVal" where
  "encodeScalar S value =
     (let out = scalars (scValTypeName value) in
      case value of
        ScvBool p \<Rightarrow> bindE (armOr ''bool'' p) (\<lambda>b. Inr (leaf (out\<lparr>cs_Bool := Some b\<rparr>)))
      | ScvVoid \<Rightarrow> Inr (leaf out)
      | ScvLedgerKeyContractInstance \<Rightarrow> Inr (leaf out)
      | ScvU32 p \<Rightarrow> bindE (armOr ''u32'' p) (\<lambda>v. Inr (leaf (out\<lparr>cs_U32 := Some v\<rparr>)))
      | ScvI32 p \<Rightarrow> bindE (armOr ''i32'' p) (\<lambda>v. Inr (leaf (out\<lparr>cs_I32 := Some v\<rparr>)))
      | ScvU64 p \<Rightarrow> bindE (armOr ''u64'' p) (\<lambda>v. Inr (leaf (out\<lparr>cs_U64 := Some (FormatUint64 v)\<rparr>)))
      | ScvI64 p \<Rightarrow> bindE (armOr ''i64'' p) (\<lambda>v. Inr (leaf (out\<lparr>cs_I64 := Some (FormatInt64 v)\<rparr>)))
      | ScvTimepoint p \<Rightarrow> bindE (armOr ''timepoint'' p) (\<lambda>v. Inr (leaf (out\<lparr>cs_Timepoint := Some (FormatUint64 v)\<rparr>)))
      | ScvDuration p \<Rightarrow> bindE (armOr ''duration'' p) (\<lambda>v. Inr (leaf (out\<lparr>cs_Duration := Some (FormatUint64 v)\<rparr>)))
      | ScvU128 p \<Rightarrow> bindE (armOr ''u128'' p) (\<lambda>(hi, lo).
          Inr (leaf (out\<lparr>cs_U128 := Some \<lparr>p1_Hi = FormatUint64 hi, p1_Lo = FormatUint64 lo\<rparr>\<rparr>)))
      | ScvI128 p \<Rightarrow> bindE (armOr ''i128'' p) (\<lambda>(hi, lo).
          Inr (leaf (out\<lparr>cs_I128 := Some \<lparr>p1_Hi = FormatInt64 hi, p1_Lo = FormatUint64 lo\<rparr>\<rparr>)))
      | ScvU256 p \<Rightarrow> bindE (armOr ''u256'' p) (\<lambda>(hihi, hilo, lohi, lolo).
          Inr (leaf (out\<lparr>cs_U256 := Some \<lparr>p2_HiHi = FormatUint64 hihi, p2_HiLo = FormatUint64 hilo,
                                          p2_LoHi = FormatUint64 lohi, p2_LoLo = FormatUint64 lolo\<rparr>\<rparr>)))
      | ScvI256 p \<Rightarrow> bindE (armOr ''i256'' p) (\<lambda>(hihi, hilo, lohi, lolo).
          Inr (leaf (out\<lparr>cs_I256 := Some \<lparr>p2_HiHi = FormatInt64 hihi, p2_HiLo = FormatUint64 hilo,
                                          p2_LoHi = FormatUint64 lohi, p2_LoLo = FormatUint64 lolo\<rparr>\<rparr>)))
      | ScvBytes p \<Rightarrow> bindE (armOr ''bytes'' p) (\<lambda>b. Inr (leaf (out\<lparr>cs_Bytes := Some (base64_EncodeToString b)\<rparr>)))
      | ScvString p \<Rightarrow> bindE (armOr ''string'' p) (\<lambda>s. Inr (leaf (out\<lparr>cs_String := Some (encodeCanonicalText s)\<rparr>)))
      | ScvSymbol p \<Rightarrow> bindE (armOr ''symbol'' p) (\<lambda>s. Inr (leaf (out\<lparr>cs_Symbol := Some (encodeCanonicalText s)\<rparr>)))
      | ScvAddress p \<Rightarrow> bindE (armOr ''address'' p) (\<lambda>a. bindE (encodeCanonicalAddress S a) (\<lambda>a'.
          Inr (leaf (out\<lparr>cs_Address := Some a'\<rparr>))))
      | ScvExecutableTag p \<Rightarrow> bindE (armOr ''executable_tag'' p) (\<lambda>s.
          Inr (leaf (out\<lparr>cs_ExecutableTag := Some (encodeCanonicalText s)\<rparr>)))
      | ScvError p \<Rightarrow> bindE (armOr ''error'' p) (\<lambda>_.
          bindE (wrapE ''error value'' (ScVal_MarshalBase64 S value)) (\<lambda>encoded. Inr (leaf (out\<lparr>cs_XDR := encoded\<rparr>))))
      | ScvLedgerKeyNonce p \<Rightarrow> bindE (armOr ''ledger_key_nonce'' p) (\<lambda>_.
          bindE (wrapE ''ledger key nonce'' (ScVal_MarshalBase64 S value)) (\<lambda>encoded. Inr (leaf (out\<lparr>cs_XDR := encoded\<rparr>))))
      | ScvOther n \<Rightarrow> Inl (errmsg (''unknown ScVal type '' @ itoa n))
      | _ \<Rightarrow> Inl (errmsg ''unreachable''))"

lemma size_entry:
  "(k, v) \<in> set m \<Longrightarrow> size k < Suc (size_list (size_prod size size) m) \<and> size v < Suc (size_list (size_prod size size) m)"
  by (induction m) auto

lemma size_value: "(x :: ScVal) \<in> set xs \<Longrightarrow> size x < Suc (size_list size xs)"
  by (induction xs) auto

function (sequential) encodeCanonicalScVal :: "sdk \<Rightarrow> ScVal \<Rightarrow> nat \<Rightarrow> gerr + canonicalScVal" where
  "encodeCanonicalScVal S (ScvVec p) depth =
     bindE (checkTraversalDepth depth) (\<lambda>_.
     let out = scalars (scValTypeName (ScvVec p)) in
     case p of
       Some (Some items) \<Rightarrow>
         bindE (mapEi (\<lambda>i item. wrapE (''vec item '' @ itoa i) (encodeCanonicalScVal S item (depth + 1))) items) (\<lambda>items'.
           Inr (CanonicalScVal out (Some items') None None))
     | _ \<Rightarrow> Inr (leaf (out\<lparr>cs_Nil := True\<rparr>)))"
| "encodeCanonicalScVal S (ScvMap p) depth =
     bindE (checkTraversalDepth depth) (\<lambda>_.
     let out = scalars (scValTypeName (ScvMap p)) in
     case p of
       Some (Some entries) \<Rightarrow>
         bindE (mapEi (\<lambda>i (k, v).
             bindE (wrapE (''map key '' @ itoa i) (encodeCanonicalScVal S k (depth + 1))) (\<lambda>k'.
             bindE (wrapE (''map value '' @ itoa i) (encodeCanonicalScVal S v (depth + 1))) (\<lambda>v'. Inr (k', v')))) entries)
           (\<lambda>entries'. Inr (CanonicalScVal out None (Some entries') None))
     | _ \<Rightarrow> Inr (leaf (out\<lparr>cs_Nil := True\<rparr>)))"
| "encodeCanonicalScVal S (ScvContractInstance p) depth =
     bindE (checkTraversalDepth depth) (\<lambda>_.
     let out = scalars (scValTypeName (ScvContractInstance p)) in
     bindE (armOr ''contract_instance'' p) (\<lambda>(executable, storage).
     bindE (encodeCanonicalExecutable S executable) (\<lambda>executable'.
     bindE (case storage of
              None \<Rightarrow> Inr None
            | Some entries \<Rightarrow>
                bindE (mapEi (\<lambda>i (k, v).
                    bindE (wrapE (''map key '' @ itoa i) (encodeCanonicalScVal S k (depth + 1))) (\<lambda>k'.
                    bindE (wrapE (''map value '' @ itoa i) (encodeCanonicalScVal S v (depth + 1))) (\<lambda>v'. Inr (k', v')))) entries)
                  (\<lambda>entries'. Inr (Some entries')))
       (\<lambda>storage'. Inr (CanonicalScVal out None None (Some (executable', storage')))))))"
| "encodeCanonicalScVal S value depth = bindE (checkTraversalDepth depth) (\<lambda>_. encodeScalar S value)"
  by pat_completeness auto
termination
  by (relation "measure (\<lambda>(S, v, d). size v)") (auto dest!: size_entry size_value simp: armOr_def split: option.splits)

definition encodeCanonicalScVals :: "sdk \<Rightarrow> ScVal list \<Rightarrow> nat \<Rightarrow> gerr + canonicalScVal list" where
  "encodeCanonicalScVals S values depth =
     mapEi (\<lambda>i value. wrapE (''value '' @ itoa i) (encodeCanonicalScVal S value depth)) values"

definition encodeCanonicalAddressCredentials ::
  "sdk \<Rightarrow> string \<Rightarrow> SorobanAddressCredentials \<Rightarrow> nat \<Rightarrow> gerr + canonicalCredential" where
  "encodeCanonicalAddressCredentials S name credentials depth =
     bindE (encodeCanonicalAddress S (ac_Address credentials)) (\<lambda>address.
     bindE (encodeCanonicalScVal S (ac_Signature credentials) (depth + 1)) (\<lambda>signature.
       Inr \<lparr>cc_Type = name, cc_Address = Some address, cc_Nonce = Some (FormatInt64 (ac_Nonce credentials)),
            cc_SignatureExpirationLedger = Some (ac_SignatureExpirationLedger credentials),
            cc_Signature = Some signature, cc_Delegates = None\<rparr>))"

lemma size_delegate: "(x :: SorobanDelegateSignature) \<in> set xs \<Longrightarrow> size x < Suc (size_list size xs)"
  by (induction xs) auto

lemma size_delegate_nested:
  "x \<in> set xs \<Longrightarrow> size_list size (ds_NestedDelegates x) < size_list size xs"
  using size_delegate [of x xs] size_NestedDelegates [of x] by linarith

function encodeCanonicalDelegates :: "sdk \<Rightarrow> SorobanDelegateSignature list \<Rightarrow> nat \<Rightarrow> gerr + canonicalDelegate list" where
  "encodeCanonicalDelegates S delegates depth =
     bindE (checkTraversalDepth depth) (\<lambda>_.
     mapEi (\<lambda>i delegate.
       bindE (wrapE (''delegate '' @ itoa i @ '' address'') (encodeCanonicalAddress S (ds_Address delegate))) (\<lambda>address.
       bindE (wrapE (''delegate '' @ itoa i @ '' signature'') (encodeCanonicalScVal S (ds_Signature delegate) (depth + 1)))
         (\<lambda>signature.
       bindE (wrapE (''delegate '' @ itoa i) (encodeCanonicalDelegates S (ds_NestedDelegates delegate) (depth + 1)))
         (\<lambda>nested. Inr (CanonicalDelegate address signature nested))))) delegates)"
  by pat_completeness auto
termination
  by (relation "measure (\<lambda>(S, ds, d). size_list size ds)") (auto simp: size_delegate_nested)

declare encodeCanonicalDelegates.simps [simp del]

definition encodeCanonicalCredentials :: "sdk \<Rightarrow> SorobanCredentials \<Rightarrow> nat \<Rightarrow> gerr + canonicalCredential" where
  "encodeCanonicalCredentials S credentials depth =
     bindE (checkTraversalDepth depth) (\<lambda>_.
     case cr_Type credentials of
       CredentialsSourceAccount \<Rightarrow>
         Inr \<lparr>cc_Type = ''source_account'', cc_Address = None, cc_Nonce = None, cc_SignatureExpirationLedger = None,
              cc_Signature = None, cc_Delegates = None\<rparr>
     | CredentialsAddress \<Rightarrow>
         (case cr_Address credentials of
            None \<Rightarrow> Inl (errmsg ''address arm has no address credentials'')
          | Some arm \<Rightarrow> encodeCanonicalAddressCredentials S ''address'' arm depth)
     | CredentialsAddressV2 \<Rightarrow>
         (case cr_AddressV2 credentials of
            None \<Rightarrow> Inl (errmsg ''address_v2 arm has no address credentials'')
          | Some arm \<Rightarrow> encodeCanonicalAddressCredentials S ''address_v2'' arm depth)
     | CredentialsAddressWithDelegates \<Rightarrow>
         (case cr_AddressWithDelegates credentials of
            None \<Rightarrow> Inl (errmsg ''address_with_delegates arm has no credentials'')
          | Some delegates \<Rightarrow>
              bindE (encodeCanonicalAddressCredentials S ''address_with_delegates'' (wd_AddressCredentials delegates) depth)
                (\<lambda>encoded.
              bindE (checkTraversalDepth (depth + 1)) (\<lambda>_.
              bindE (encodeCanonicalDelegates S (wd_Delegates delegates) (depth + 1)) (\<lambda>nodes.
                Inr (encoded\<lparr>cc_Delegates := Some nodes\<rparr>)))))
     | CredentialsOther n \<Rightarrow>
         Inl (errw (''unknown credentials type '' @ itoa n) (Sentinel ErrUnsupportedCredentials)))"

definition encodeCanonicalFunction :: "sdk \<Rightarrow> SorobanAuthorizedFunction \<Rightarrow> nat \<Rightarrow> gerr + canonicalFunction" where
  "encodeCanonicalFunction S function depth =
     (case function of
        FnContractFn None \<Rightarrow> Inl (errmsg ''contract_fn arm has no invocation'')
      | FnContractFn (Some contract) \<Rightarrow>
          bindE (encodeCanonicalAddress S (ica_ContractAddress contract)) (\<lambda>address.
          bindE (encodeCanonicalScVals S (ica_Args contract) (depth + 1)) (\<lambda>args.
            Inr \<lparr>cf_Type = ''contract_fn'', cf_ContractAddress = Some address,
                 cf_FunctionName = Some (encodeCanonicalText (ica_FunctionName contract)), cf_Args = Some args,
                 cf_ContractIDPreimage = None, cf_Executable = None, cf_ConstructorArgs = None\<rparr>))
      | FnCreateContractHostFn None \<Rightarrow> Inl (errmsg ''create_contract_host_fn arm has no invocation'')
      | FnCreateContractHostFn (Some (preimage, executable)) \<Rightarrow>
          bindE (encodeCanonicalPreimage S preimage) (\<lambda>preimage'.
          bindE (encodeCanonicalExecutable S executable) (\<lambda>executable'.
            Inr \<lparr>cf_Type = ''create_contract_host_fn'', cf_ContractAddress = None, cf_FunctionName = None, cf_Args = None,
                 cf_ContractIDPreimage = Some preimage', cf_Executable = Some executable', cf_ConstructorArgs = None\<rparr>))
      | FnCreateContractV2HostFn None \<Rightarrow> Inl (errmsg ''create_contract_v2_host_fn arm has no invocation'')
      | FnCreateContractV2HostFn (Some (preimage, executable, constructorArgs)) \<Rightarrow>
          bindE (encodeCanonicalPreimage S preimage) (\<lambda>preimage'.
          bindE (encodeCanonicalExecutable S executable) (\<lambda>executable'.
          bindE (encodeCanonicalScVals S constructorArgs (depth + 1)) (\<lambda>args.
            Inr \<lparr>cf_Type = ''create_contract_v2_host_fn'', cf_ContractAddress = None, cf_FunctionName = None, cf_Args = None,
                 cf_ContractIDPreimage = Some preimage', cf_Executable = Some executable', cf_ConstructorArgs = Some args\<rparr>)))
      | FnOther n \<Rightarrow> Inl (errmsg (''unknown authorized function type '' @ itoa n)))"

lemma size_sub_invocation: "x \<in> set (inv_SubInvocations n) \<Longrightarrow> size x < size n"
  by (cases n) (auto dest!: size_list_estimation' [where f = size, OF _ order_refl])

function encodeCanonicalInvocation :: "sdk \<Rightarrow> SorobanAuthorizedInvocation \<Rightarrow> nat \<Rightarrow> gerr + canonicalInvocation" where
  "encodeCanonicalInvocation S invocation depth =
     bindE (checkTraversalDepth depth) (\<lambda>_.
     bindE (encodeCanonicalFunction S (inv_Function invocation) (depth + 1)) (\<lambda>function.
     bindE (mapEi (\<lambda>i sub. wrapE (''sub-invocation '' @ itoa i) (encodeCanonicalInvocation S sub (depth + 1)))
              (inv_SubInvocations invocation)) (\<lambda>subs.
       Inr (CanonicalInvocation function subs))))"
  by pat_completeness auto
termination
  by (relation "measure (\<lambda>(S, n, d). size n)") (auto simp: size_sub_invocation)

declare encodeCanonicalInvocation.simps [simp del]

text \<open>
  \<open>safeMarshalXDR\<close> turns a panic of the encoder into an error, which the codec of the
  model returns directly.
\<close>

definition canonicalDocument :: "sdk \<Rightarrow> SorobanAuthorizationEntry \<Rightarrow> gerr + canonicalEntry" where
  "canonicalDocument S entry =
     bindE (wrapE ''soroauth: canonical json: entry does not encode'' (Entry_MarshalBinary S entry)) (\<lambda>_.
     bindE (wrapE ''soroauth: canonical json: credentials'' (encodeCanonicalCredentials S (en_Credentials entry) 0))
       (\<lambda>credentials.
     bindE (wrapE ''soroauth: canonical json: root invocation'' (encodeCanonicalInvocation S (en_RootInvocation entry) 0))
       (\<lambda>invocation.
       Inr \<lparr>cy_SchemaVersion = CanonicalJSONSchemaVersion, cy_Credentials = credentials, cy_RootInvocation = invocation\<rparr>)))"

section \<open>Decoding\<close>

definition decodeCanonicalBase64 :: "string \<Rightarrow> gerr + bytes" where
  "decodeCanonicalBase64 value =
     (if value = [] then Inl (errmsg ''base64 value is empty'')
      else case base64_DecodeString value of
        None \<Rightarrow> Inl (errmsg ''base64: illegal base64 data'')
      | Some decoded \<Rightarrow>
          if base64_EncodeToString decoded \<noteq> value then Inl (errmsg ''base64 is not canonical'') else Inr decoded)"

definition decodeCanonicalHex :: "string \<Rightarrow> nat \<Rightarrow> string \<Rightarrow> gerr + bytes" where
  "decodeCanonicalHex value len name =
     (if length value \<noteq> len * 2
      then Inl (errmsg (name @ '' is '' @ itoa (length value) @ '' hex characters, want '' @ itoa (len * 2)))
      else case hex_DecodeString value of
        None \<Rightarrow> Inl (errmsg (name @ '': invalid hex''))
      | Some decoded \<Rightarrow>
          if hex decoded \<noteq> value then Inl (errmsg (name @ '' is not lowercase canonical hex'')) else Inr decoded)"

definition decodeCanonicalUint64 :: "string \<Rightarrow> string \<Rightarrow> gerr + 64 word" where
  "decodeCanonicalUint64 value name =
     (if value = [] then Inl (errmsg (name @ '' is empty''))
      else case ParseUint64 value of
        None \<Rightarrow> Inl (errmsg (name @ '' '' @ value @ '' is not a canonical uint64''))
      | Some parsed \<Rightarrow>
          if FormatUint64 parsed \<noteq> value then Inl (errmsg (name @ '' '' @ value @ '' is not a canonical uint64''))
          else Inr parsed)"

definition decodeCanonicalInt64 :: "string \<Rightarrow> string \<Rightarrow> gerr + 64 word" where
  "decodeCanonicalInt64 value name =
     (if value = [] then Inl (errmsg (name @ '' is empty''))
      else case ParseInt64 value of
        None \<Rightarrow> Inl (errmsg (name @ '' '' @ value @ '' is not a canonical int64''))
      | Some parsed \<Rightarrow>
          if FormatInt64 parsed \<noteq> value then Inl (errmsg (name @ '' '' @ value @ '' is not a canonical int64''))
          else Inr parsed)"

text \<open>
  \<open>decodeCanonicalXDR\<close> for a destination type with the given decoder and encoder
  (\<open>marshalCanonicalXDRValue\<close> picks the encoder by type).
\<close>

definition decodeCanonicalXDR ::
  "(string \<Rightarrow> nat \<Rightarrow> gerr + 'a) \<Rightarrow> ('a \<Rightarrow> gerr + bytes) \<Rightarrow> string \<Rightarrow> gerr + 'a" where
  "decodeCanonicalXDR unmarshal marshal encoded =
     bindE (decodeCanonicalBase64 encoded) (\<lambda>raw.
     bindE (wrapE ''decoding xdr'' (unmarshal encoded MaxDecodeDepth)) (\<lambda>destination.
     bindE (marshal destination) (\<lambda>marshaled.
       if raw \<noteq> marshaled then Inl (errmsg ''xdr is not the canonical encoding of its value'')
       else Inr destination)))"

definition decodeCanonicalText :: "canonicalText \<Rightarrow> gerr + string" where
  "decodeCanonicalText text =
     (if (ct_UTF8 text = None) = (ct_Base64 text = None)
      then Inl (errmsg ''text must carry exactly one of utf8 or base64'')
      else case ct_UTF8 text of
        Some s \<Rightarrow> Inr s
      | None \<Rightarrow> bindE (decodeCanonicalBase64 (the (ct_Base64 text))) (\<lambda>decoded. Inr (bytesString decoded)))"

definition decodeCanonicalAddress :: "sdk \<Rightarrow> canonicalAddress \<Rightarrow> gerr + ScAddress" where
  "decodeCanonicalAddress S address =
     (if ca_Type address = ''account''
      then if ca_Account address = '''' \<or> ca_Contract address \<noteq> '''' \<or> ca_XDR address \<noteq> ''''
           then Inl (errmsg ''account address is missing account or carries another arm'')
           else bindE (ParseAddress S (ca_Account address)) (\<lambda>parsed.
                if sa_Type parsed \<noteq> ScAddressTypeAccount
                then Inl (errmsg (ca_Account address @ '' is not an account address'')) else Inr parsed)
      else if ca_Type address = ''contract''
      then if ca_Contract address = '''' \<or> ca_Account address \<noteq> '''' \<or> ca_XDR address \<noteq> ''''
           then Inl (errmsg ''contract address is missing contract or carries another arm'')
           else bindE (ParseAddress S (ca_Contract address)) (\<lambda>parsed.
                if sa_Type parsed \<noteq> ScAddressTypeContract
                then Inl (errmsg (ca_Contract address @ '' is not a contract address'')) else Inr parsed)
      else if ca_Type address = ''xdr''
      then if ca_XDR address = '''' \<or> ca_Account address \<noteq> '''' \<or> ca_Contract address \<noteq> ''''
           then Inl (errmsg ''xdr address is missing xdr or carries another arm'')
           else wrapE ''address xdr''
                  (decodeCanonicalXDR (ScAddress_SafeUnmarshalBase64WithOptions S) (ScAddress_MarshalBinary S) (ca_XDR address))
      else Inl (errmsg (''unknown address type '' @ ca_Type address)))"

definition decodeCanonicalExecutable :: "sdk \<Rightarrow> canonicalExecutable \<Rightarrow> gerr + ContractExecutable" where
  "decodeCanonicalExecutable S executable =
     (if ce_Type executable = ''wasm''
      then if ce_WasmHash executable = None \<or> ce_Owner executable \<noteq> None \<or> ce_Tag executable \<noteq> None
           then Inl (errmsg ''wasm executable is missing wasm_hash or carries external_ref fields'')
           else bindE (decodeCanonicalHex (the (ce_WasmHash executable)) 32 ''wasm_hash'') (\<lambda>hash.
                  Inr (ExecutableWasm (Some hash)))
      else if ce_Type executable = ''stellar_asset''
      then if ce_WasmHash executable \<noteq> None \<or> ce_Owner executable \<noteq> None \<or> ce_Tag executable \<noteq> None
           then Inl (errmsg ''stellar_asset executable carries wasm or external_ref fields'')
           else Inr ExecutableStellarAsset
      else if ce_Type executable = ''external_ref''
      then if ce_WasmHash executable \<noteq> None \<or> ce_Owner executable = None \<or> ce_Tag executable = None
           then Inl (errmsg ''external_ref executable is missing owner or tag'')
           else bindE (decodeCanonicalAddress S (the (ce_Owner executable))) (\<lambda>owner.
                bindE (wrapE ''external_ref tag'' (decodeCanonicalText (the (ce_Tag executable)))) (\<lambda>tag.
                  Inr (ExecutableExternalRef (Some (owner, tag)))))
      else Inl (errmsg (''unknown executable type '' @ ce_Type executable)))"

definition decodeCanonicalPreimage :: "sdk \<Rightarrow> canonicalPreimage \<Rightarrow> gerr + ContractIdPreimage" where
  "decodeCanonicalPreimage S preimage =
     (if cp_Type preimage = ''from_address''
      then if cp_Address preimage = None \<or> cp_Salt preimage = None \<or> cp_XDR preimage \<noteq> ''''
           then Inl (errmsg ''from_address preimage is missing address or salt'')
           else bindE (decodeCanonicalAddress S (the (cp_Address preimage))) (\<lambda>address.
                bindE (decodeCanonicalHex (the (cp_Salt preimage)) 32 ''salt'') (\<lambda>salt.
                  Inr (PreimageFromAddress (Some (address, salt)))))
      else if cp_Type preimage = ''from_asset''
      then if cp_Address preimage \<noteq> None \<or> cp_Salt preimage \<noteq> None \<or> cp_XDR preimage = ''''
           then Inl (errmsg ''from_asset preimage carries from_address fields or no xdr'')
           else bindE (wrapE ''from_asset''
                  (decodeCanonicalXDR (Asset_SafeUnmarshalBase64WithOptions S) (Asset_MarshalBinary S) (cp_XDR preimage)))
                  (\<lambda>asset. Inr (PreimageFromAsset (Some asset)))
      else Inl (errmsg (''unknown contract_id_preimage type '' @ cp_Type preimage)))"

text \<open>The names of the value fields a document carries.\<close>

definition presentFields :: "canonicalScVal \<Rightarrow> string list" where
  "presentFields value =
     (let f = cv_Scalars value in
      concat
        [if cs_Bool f \<noteq> None then [''bool''] else [], if cs_U32 f \<noteq> None then [''u32''] else [],
         if cs_I32 f \<noteq> None then [''i32''] else [], if cs_U64 f \<noteq> None then [''u64''] else [],
         if cs_I64 f \<noteq> None then [''i64''] else [], if cs_Timepoint f \<noteq> None then [''timepoint''] else [],
         if cs_Duration f \<noteq> None then [''duration''] else [], if cs_U128 f \<noteq> None then [''u128''] else [],
         if cs_I128 f \<noteq> None then [''i128''] else [], if cs_U256 f \<noteq> None then [''u256''] else [],
         if cs_I256 f \<noteq> None then [''i256''] else [], if cs_Bytes f \<noteq> None then [''bytes''] else [],
         if cs_String f \<noteq> None then [''string''] else [], if cs_Symbol f \<noteq> None then [''symbol''] else [],
         if cv_Vec value \<noteq> None then [''vec''] else [], if cv_Map value \<noteq> None then [''map''] else [],
         if cs_Nil f then [''nil''] else [], if cs_Address f \<noteq> None then [''address''] else [],
         if cv_Instance value \<noteq> None then [''contract_instance''] else [],
         if cs_XDR f \<noteq> '''' then [''xdr''] else [],
         if cs_ExecutableTag f \<noteq> None then [''executable_tag''] else []])"

definition requireScValFields :: "canonicalScVal \<Rightarrow> string list \<Rightarrow> gerr + unit" where
  "requireScValFields value want =
     (let present = presentFields value; t = cs_Type (cv_Scalars value) in
      if length present \<noteq> length want
      then Inl (errmsg (''ScVal type '' @ t @ '' carries '' @ itoa (length present) @ '' value fields, want '' @ itoa (length want)))
      else case find (\<lambda>field. field \<notin> set present) want of
        Some field \<Rightarrow> Inl (errmsg (''ScVal type '' @ t @ '' has no '' @ field @ '' field''))
      | None \<Rightarrow> Inr ())"

definition decodeCanonicalU128Parts :: "canonicalParts128 option \<Rightarrow> gerr + (64 word \<times> 64 word)" where
  "decodeCanonicalU128Parts po =
     (case po of None \<Rightarrow> Inl (errmsg ''u128 has no value'')
      | Some parts \<Rightarrow>
          bindE (decodeCanonicalUint64 (p1_Hi parts) ''u128.hi'') (\<lambda>hi.
          bindE (decodeCanonicalUint64 (p1_Lo parts) ''u128.lo'') (\<lambda>lo. Inr (hi, lo))))"

definition decodeCanonicalI128Parts :: "canonicalParts128 option \<Rightarrow> gerr + (64 word \<times> 64 word)" where
  "decodeCanonicalI128Parts po =
     (case po of None \<Rightarrow> Inl (errmsg ''i128 has no value'')
      | Some parts \<Rightarrow>
          bindE (decodeCanonicalInt64 (p1_Hi parts) ''i128.hi'') (\<lambda>hi.
          bindE (decodeCanonicalUint64 (p1_Lo parts) ''i128.lo'') (\<lambda>lo. Inr (hi, lo))))"

definition decodeCanonicalU256Parts ::
  "canonicalParts256 option \<Rightarrow> gerr + (64 word \<times> 64 word \<times> 64 word \<times> 64 word)" where
  "decodeCanonicalU256Parts po =
     (case po of None \<Rightarrow> Inl (errmsg ''u256 has no value'')
      | Some parts \<Rightarrow>
          bindE (decodeCanonicalUint64 (p2_HiHi parts) ''u256.hi_hi'') (\<lambda>hihi.
          bindE (decodeCanonicalUint64 (p2_HiLo parts) ''u256.hi_lo'') (\<lambda>hilo.
          bindE (decodeCanonicalUint64 (p2_LoHi parts) ''u256.lo_hi'') (\<lambda>lohi.
          bindE (decodeCanonicalUint64 (p2_LoLo parts) ''u256.lo_lo'') (\<lambda>lolo. Inr (hihi, hilo, lohi, lolo))))))"

definition decodeCanonicalI256Parts ::
  "canonicalParts256 option \<Rightarrow> gerr + (64 word \<times> 64 word \<times> 64 word \<times> 64 word)" where
  "decodeCanonicalI256Parts po =
     (case po of None \<Rightarrow> Inl (errmsg ''i256 has no value'')
      | Some parts \<Rightarrow>
          bindE (decodeCanonicalInt64 (p2_HiHi parts) ''i256.hi_hi'') (\<lambda>hihi.
          bindE (decodeCanonicalUint64 (p2_HiLo parts) ''i256.hi_lo'') (\<lambda>hilo.
          bindE (decodeCanonicalUint64 (p2_LoHi parts) ''i256.lo_hi'') (\<lambda>lohi.
          bindE (decodeCanonicalUint64 (p2_LoLo parts) ''i256.lo_lo'') (\<lambda>lolo. Inr (hihi, hilo, lohi, lolo))))))"

definition decodeCanonicalScValXDR :: "sdk \<Rightarrow> string \<Rightarrow> string \<Rightarrow> gerr + ScVal" where
  "decodeCanonicalScValXDR S encoded expected =
     bindE (decodeCanonicalXDR (ScVal_SafeUnmarshalBase64WithOptions S) (ScVal_MarshalBinary S) encoded) (\<lambda>value.
       if scValTypeName value \<noteq> expected
       then Inl (errmsg (''xdr value has type '' @ scValTypeName value @ '', want '' @ expected)) else Inr value)"

text \<open>
  The type names whose documents hold no document of the same kind. The fields
  \<open>requireScValFields\<close> found present are read through their pointers.
\<close>

definition decodeScalar :: "sdk \<Rightarrow> canonicalScVal \<Rightarrow> gerr + ScVal" where
  "decodeScalar S value =
     (let f = cv_Scalars value; t = cs_Type f; need = (\<lambda>want k. bindE (requireScValFields value want) (\<lambda>_. k)) in
      if t = ''bool'' then need [''bool''] (Inr (ScvBool (cs_Bool f)))
      else if t = ''void'' then need [] (Inr ScvVoid)
      else if t = ''u32'' then need [''u32''] (Inr (ScvU32 (cs_U32 f)))
      else if t = ''i32'' then need [''i32''] (Inr (ScvI32 (cs_I32 f)))
      else if t = ''u64'' then need [''u64'']
        (bindE (decodeCanonicalUint64 (the (cs_U64 f)) ''u64'') (\<lambda>v. Inr (ScvU64 (Some v))))
      else if t = ''i64'' then need [''i64'']
        (bindE (decodeCanonicalInt64 (the (cs_I64 f)) ''i64'') (\<lambda>v. Inr (ScvI64 (Some v))))
      else if t = ''timepoint'' then need [''timepoint'']
        (bindE (decodeCanonicalUint64 (the (cs_Timepoint f)) ''timepoint'') (\<lambda>v. Inr (ScvTimepoint (Some v))))
      else if t = ''duration'' then need [''duration'']
        (bindE (decodeCanonicalUint64 (the (cs_Duration f)) ''duration'') (\<lambda>v. Inr (ScvDuration (Some v))))
      else if t = ''u128'' then need [''u128''] (bindE (decodeCanonicalU128Parts (cs_U128 f)) (\<lambda>p. Inr (ScvU128 (Some p))))
      else if t = ''i128'' then need [''i128''] (bindE (decodeCanonicalI128Parts (cs_I128 f)) (\<lambda>p. Inr (ScvI128 (Some p))))
      else if t = ''u256'' then need [''u256''] (bindE (decodeCanonicalU256Parts (cs_U256 f)) (\<lambda>p. Inr (ScvU256 (Some p))))
      else if t = ''i256'' then need [''i256''] (bindE (decodeCanonicalI256Parts (cs_I256 f)) (\<lambda>p. Inr (ScvI256 (Some p))))
      else if t = ''bytes'' then need [''bytes'']
        (bindE (decodeCanonicalBase64 (the (cs_Bytes f))) (\<lambda>b. Inr (ScvBytes (Some b))))
      else if t = ''string'' then need [''string'']
        (bindE (decodeCanonicalText (the (cs_String f))) (\<lambda>s. Inr (ScvString (Some s))))
      else if t = ''symbol'' then need [''symbol'']
        (bindE (decodeCanonicalText (the (cs_Symbol f))) (\<lambda>s. Inr (ScvSymbol (Some s))))
      else if t = ''address'' then need [''address'']
        (bindE (decodeCanonicalAddress S (the (cs_Address f))) (\<lambda>a. Inr (ScvAddress (Some a))))
      else if t = ''ledger_key_contract_instance'' then need [] (Inr ScvLedgerKeyContractInstance)
      else if t = ''executable_tag'' then need [''executable_tag'']
        (bindE (decodeCanonicalText (the (cs_ExecutableTag f))) (\<lambda>s. Inr (ScvExecutableTag (Some s))))
      else if t = ''error'' then need [''xdr''] (decodeCanonicalScValXDR S (cs_XDR f) ''error'')
      else if t = ''ledger_key_nonce'' then need [''xdr''] (decodeCanonicalScValXDR S (cs_XDR f) ''ledger_key_nonce'')
      else Inl (errmsg (''unknown ScVal type '' @ t)))"

lemma size_document: "(x :: canonicalScVal) \<in> set xs \<Longrightarrow> size x < Suc (size_list size xs)"
  by (induction xs) auto

function decodeCanonicalScVal :: "sdk \<Rightarrow> canonicalScVal \<Rightarrow> nat \<Rightarrow> gerr + ScVal" where
  "decodeCanonicalScVal S (CanonicalScVal f vec map0 inst) depth =
     bindE (checkTraversalDepth depth) (\<lambda>_.
     let value = CanonicalScVal f vec map0 inst in
     if cs_Type f = ''vec''
     then if cs_Nil f then bindE (requireScValFields value [''nil'']) (\<lambda>_. Inr (ScvVec (Some None)))
          else bindE (requireScValFields value [''vec'']) (\<lambda>_.
               case vec of None \<Rightarrow> Inl (errmsg ''unreachable'')
               | Some items \<Rightarrow>
                   bindE (mapEi (\<lambda>i item. wrapE (''value '' @ itoa i) (decodeCanonicalScVal S item (depth + 1))) items)
                     (\<lambda>items'. Inr (ScvVec (Some (Some items')))))
     else if cs_Type f = ''map''
     then if cs_Nil f then bindE (requireScValFields value [''nil'']) (\<lambda>_. Inr (ScvMap (Some None)))
          else bindE (requireScValFields value [''map'']) (\<lambda>_.
               case map0 of None \<Rightarrow> Inl (errmsg ''unreachable'')
               | Some entries \<Rightarrow> bindE (mapEi (\<lambda>i (k, v).
                   bindE (wrapE (''map key '' @ itoa i) (decodeCanonicalScVal S k (depth + 1))) (\<lambda>k'.
                   bindE (wrapE (''map value '' @ itoa i) (decodeCanonicalScVal S v (depth + 1))) (\<lambda>v'. Inr (k', v')))) entries) (\<lambda>entries'. Inr (ScvMap (Some (Some entries')))))
     else if cs_Type f = ''contract_instance''
     then bindE (requireScValFields value [''contract_instance'']) (\<lambda>_.
          case inst of None \<Rightarrow> Inl (errmsg ''unreachable'')
          | Some (executable, storage) \<Rightarrow>
              bindE (decodeCanonicalExecutable S executable) (\<lambda>executable'.
              bindE (case storage of None \<Rightarrow> Inr None
                     | Some entries \<Rightarrow> bindE (mapEi (\<lambda>i (k, v).
                         bindE (wrapE (''map key '' @ itoa i) (decodeCanonicalScVal S k (depth + 1))) (\<lambda>k'.
                         bindE (wrapE (''map value '' @ itoa i) (decodeCanonicalScVal S v (depth + 1))) (\<lambda>v'. Inr (k', v')))) entries)
                         (\<lambda>entries'. Inr (Some entries'))) (\<lambda>storage'.
                Inr (ScvContractInstance (Some (executable', storage'))))))
     else decodeScalar S value)"
  by pat_completeness auto
termination
  by (relation "measure (\<lambda>(S, v, d). size v)") (auto dest!: size_entry size_document)

declare decodeCanonicalScVal.simps [simp del]

definition decodeCanonicalScVals :: "sdk \<Rightarrow> canonicalScVal list \<Rightarrow> nat \<Rightarrow> gerr + ScVal list" where
  "decodeCanonicalScVals S values depth =
     mapEi (\<lambda>i value. wrapE (''value '' @ itoa i) (decodeCanonicalScVal S value depth)) values"

definition requireCredentialFields :: "canonicalCredential \<Rightarrow> gerr + unit" where
  "requireCredentialFields credentials =
     (if cc_Address credentials \<noteq> None \<or> cc_Nonce credentials \<noteq> None \<or>
         cc_SignatureExpirationLedger credentials \<noteq> None \<or> cc_Signature credentials \<noteq> None \<or>
         cc_Delegates credentials \<noteq> None
      then Inl (errmsg ''source_account credentials carry address-arm fields'') else Inr ())"

definition decodeCanonicalAddressCredentials ::
  "sdk \<Rightarrow> canonicalCredential \<Rightarrow> nat \<Rightarrow> gerr + SorobanAddressCredentials" where
  "decodeCanonicalAddressCredentials S credentials depth =
     (case cc_Address credentials of
        None \<Rightarrow> Inl (errmsg (cc_Type credentials @ '' credentials have no address''))
      | Some address \<Rightarrow>
     (case cc_Nonce credentials of
        None \<Rightarrow> Inl (errmsg (cc_Type credentials @ '' credentials have no nonce''))
      | Some nonce \<Rightarrow>
     (case cc_SignatureExpirationLedger credentials of
        None \<Rightarrow> Inl (errmsg (cc_Type credentials @ '' credentials have no signature_expiration_ledger''))
      | Some expiration \<Rightarrow>
     (case cc_Signature credentials of
        None \<Rightarrow> Inl (errmsg (cc_Type credentials @ '' credentials have no signature''))
      | Some signature \<Rightarrow>
          bindE (decodeCanonicalAddress S address) (\<lambda>address'.
          bindE (decodeCanonicalInt64 nonce ''nonce'') (\<lambda>nonce'.
          bindE (decodeCanonicalScVal S signature (depth + 1)) (\<lambda>signature'.
            Inr \<lparr>ac_Address = address', ac_Nonce = nonce', ac_SignatureExpirationLedger = expiration,
                 ac_Signature = signature'\<rparr>)))))))"

lemma size_delegate_document: "(x :: canonicalDelegate) \<in> set xs \<Longrightarrow> size_list size (cd_Nested x) < size_list size xs"
proof (induction xs)
  case Nil
  then show ?case by simp
next
  case (Cons y ys)
  have "size_list size (cd_Nested x) < size x" by (cases x) simp
  then show ?case using Cons by auto
qed

function decodeCanonicalDelegates :: "sdk \<Rightarrow> canonicalDelegate list \<Rightarrow> nat \<Rightarrow> gerr + SorobanDelegateSignature list" where
  "decodeCanonicalDelegates S delegates depth =
     bindE (checkTraversalDepth depth) (\<lambda>_.
     mapEi (\<lambda>i delegate.
       bindE (wrapE (''delegate '' @ itoa i @ '' address'') (decodeCanonicalAddress S (cd_Address delegate))) (\<lambda>address.
       bindE (wrapE (''delegate '' @ itoa i @ '' signature'') (decodeCanonicalScVal S (cd_Signature delegate) (depth + 1)))
         (\<lambda>signature.
       bindE (wrapE (''delegate '' @ itoa i) (decodeCanonicalDelegates S (cd_Nested delegate) (depth + 1)))
         (\<lambda>nested. Inr (DelegateSignature address signature nested))))) delegates)"
  by pat_completeness auto
termination
  by (relation "measure (\<lambda>(S, ds, d). size_list size ds)") (auto simp: size_delegate_document)

declare decodeCanonicalDelegates.simps [simp del]

definition decodeCanonicalCredentials :: "sdk \<Rightarrow> canonicalCredential \<Rightarrow> nat \<Rightarrow> gerr + SorobanCredentials" where
  "decodeCanonicalCredentials S credentials depth =
     bindE (checkTraversalDepth depth) (\<lambda>_.
     let t = cc_Type credentials in
     if t = ''source_account''
     then bindE (requireCredentialFields credentials) (\<lambda>_.
            Inr \<lparr>cr_Type = CredentialsSourceAccount, cr_Address = None, cr_AddressV2 = None, cr_AddressWithDelegates = None\<rparr>)
     else if t = ''address'' \<or> t = ''address_v2''
     then if cc_Delegates credentials \<noteq> None
          then Inl (errmsg (t @ '' credentials carry a delegates array''))
          else bindE (decodeCanonicalAddressCredentials S credentials depth) (\<lambda>arm.
               if t = ''address''
               then Inr \<lparr>cr_Type = CredentialsAddress, cr_Address = Some arm, cr_AddressV2 = None,
                         cr_AddressWithDelegates = None\<rparr>
               else Inr \<lparr>cr_Type = CredentialsAddressV2, cr_Address = None, cr_AddressV2 = Some arm,
                         cr_AddressWithDelegates = None\<rparr>)
     else if t = ''address_with_delegates''
     then (case cc_Delegates credentials of
             None \<Rightarrow> Inl (errmsg ''address_with_delegates credentials have no delegates array'')
           | Some delegates \<Rightarrow>
               bindE (decodeCanonicalAddressCredentials S credentials depth) (\<lambda>arm.
               bindE (decodeCanonicalDelegates S delegates (depth + 1)) (\<lambda>nodes.
                 Inr \<lparr>cr_Type = CredentialsAddressWithDelegates, cr_Address = None, cr_AddressV2 = None,
                      cr_AddressWithDelegates = Some \<lparr>wd_AddressCredentials = arm, wd_Delegates = nodes\<rparr>\<rparr>)))
     else Inl (errmsg (''unknown credentials type '' @ t)))"

definition decodeCanonicalFunction :: "sdk \<Rightarrow> canonicalFunction \<Rightarrow> nat \<Rightarrow> gerr + SorobanAuthorizedFunction" where
  "decodeCanonicalFunction S function depth =
     (if cf_Type function = ''contract_fn''
      then if cf_ContractIDPreimage function \<noteq> None \<or> cf_Executable function \<noteq> None \<or> cf_ConstructorArgs function \<noteq> None
           then Inl (errmsg ''contract_fn function carries create-contract fields'')
           else if cf_ContractAddress function = None \<or> cf_FunctionName function = None \<or> cf_Args function = None
           then Inl (errmsg ''contract_fn function is missing contract_address, function_name, or args'')
           else bindE (decodeCanonicalAddress S (the (cf_ContractAddress function))) (\<lambda>address.
                bindE (wrapE ''function_name'' (decodeCanonicalText (the (cf_FunctionName function)))) (\<lambda>name.
                bindE (decodeCanonicalScVals S (the (cf_Args function)) (depth + 1)) (\<lambda>args.
                  Inr (FnContractFn (Some \<lparr>ica_ContractAddress = address, ica_FunctionName = name, ica_Args = args\<rparr>)))))
      else if cf_Type function = ''create_contract_host_fn''
      then if cf_ContractAddress function \<noteq> None \<or> cf_FunctionName function \<noteq> None \<or> cf_Args function \<noteq> None \<or>
              cf_ConstructorArgs function \<noteq> None
           then Inl (errmsg ''create_contract_host_fn function carries contract-call fields'')
           else if cf_ContractIDPreimage function = None \<or> cf_Executable function = None
           then Inl (errmsg ''create_contract_host_fn function is missing contract_id_preimage or executable'')
           else bindE (decodeCanonicalPreimage S (the (cf_ContractIDPreimage function))) (\<lambda>preimage.
                bindE (decodeCanonicalExecutable S (the (cf_Executable function))) (\<lambda>executable.
                  Inr (FnCreateContractHostFn (Some (preimage, executable)))))
      else if cf_Type function = ''create_contract_v2_host_fn''
      then if cf_ContractAddress function \<noteq> None \<or> cf_FunctionName function \<noteq> None \<or> cf_Args function \<noteq> None
           then Inl (errmsg ''create_contract_v2_host_fn function carries contract-call fields'')
           else if cf_ContractIDPreimage function = None \<or> cf_Executable function = None \<or> cf_ConstructorArgs function = None
           then Inl (errmsg ''create_contract_v2_host_fn function is missing contract_id_preimage, executable, or constructor_args'')
           else bindE (decodeCanonicalPreimage S (the (cf_ContractIDPreimage function))) (\<lambda>preimage.
                bindE (decodeCanonicalExecutable S (the (cf_Executable function))) (\<lambda>executable.
                bindE (decodeCanonicalScVals S (the (cf_ConstructorArgs function)) (depth + 1)) (\<lambda>args.
                  Inr (FnCreateContractV2HostFn (Some (preimage, executable, args))))))
      else Inl (errmsg (''unknown function type '' @ cf_Type function)))"

lemma size_sub_document: "x \<in> set (ci_SubInvocations n) \<Longrightarrow> size x < size n"
  by (cases n) (auto dest!: size_list_estimation' [where f = size, OF _ order_refl])

function decodeCanonicalInvocation :: "sdk \<Rightarrow> canonicalInvocation \<Rightarrow> nat \<Rightarrow> gerr + SorobanAuthorizedInvocation" where
  "decodeCanonicalInvocation S invocation depth =
     bindE (checkTraversalDepth depth) (\<lambda>_.
     bindE (decodeCanonicalFunction S (ci_Function invocation) (depth + 1)) (\<lambda>function.
     bindE (mapEi (\<lambda>i sub. wrapE (''sub-invocation '' @ itoa i) (decodeCanonicalInvocation S sub (depth + 1)))
              (ci_SubInvocations invocation)) (\<lambda>subs.
       Inr (Invocation function subs))))"
  by pat_completeness auto
termination
  by (relation "measure (\<lambda>(S, n, d). size n)") (auto simp: size_sub_document)

declare decodeCanonicalInvocation.simps [simp del]

definition entryOfDocument :: "sdk \<Rightarrow> canonicalEntry \<Rightarrow> gerr + SorobanAuthorizationEntry" where
  "entryOfDocument S document =
     (if cy_SchemaVersion document \<noteq> CanonicalJSONSchemaVersion
      then Inl (errmsg (''soroauth: canonical json: unsupported schema_version '' @ itoa_int (cy_SchemaVersion document) @
             '', want '' @ itoa_int CanonicalJSONSchemaVersion))
      else
        bindE (wrapE ''soroauth: canonical json: credentials'' (decodeCanonicalCredentials S (cy_Credentials document) 0))
          (\<lambda>credentials.
        bindE (wrapE ''soroauth: canonical json: root invocation'' (decodeCanonicalInvocation S (cy_RootInvocation document) 0))
          (\<lambda>invocation.
        let entry = \<lparr>en_Credentials = credentials, en_RootInvocation = invocation\<rparr> in
        bindE (wrapE ''soroauth: canonical json: entry does not encode'' (Entry_MarshalBinary S entry)) (\<lambda>_.
          Inr entry))))"

end
