(* ===== verification/Canonical_Properties.thy ===== *)
theory Canonical_Properties
  imports Canonical Structure_Properties
begin

text \<open>
  What the canonical form keeps: a document the encoder produced decodes to the entry it was
  produced from, and where it does not.
\<close>

section \<open>Leaves\<close>

lemma decodeCanonicalBase64_encode: "b \<noteq> [] \<Longrightarrow> decodeCanonicalBase64 (base64_EncodeToString b) = Inr b"
  by (simp add: decodeCanonicalBase64_def)

lemma decodeCanonicalHex_hex: "length b = n \<Longrightarrow> decodeCanonicalHex (hex b) n name = Inr b"
  by (simp add: decodeCanonicalHex_def)

lemma decodeCanonicalUint64_format [simp]: "decodeCanonicalUint64 (FormatUint64 w) name = Inr w"
  by (simp add: decodeCanonicalUint64_def)

lemma decodeCanonicalInt64_format [simp]: "decodeCanonicalInt64 (FormatInt64 w) name = Inr w"
  by (simp add: decodeCanonicalInt64_def)

lemma text_roundtrip [simp]: "decodeCanonicalText (encodeCanonicalText s) = Inr s"
proof (cases "utf8_ValidString s")
  case True
  then show ?thesis by (simp add: decodeCanonicalText_def encodeCanonicalText_def)
next
  case False
  then have "s \<noteq> []" by (auto simp: utf8_ValidString_def)
  then have "stringBytes s \<noteq> []" by (simp add: stringBytes_def)
  then show ?thesis
    using False by (simp add: decodeCanonicalText_def encodeCanonicalText_def decodeCanonicalBase64_encode)
qed

text \<open>
  What the SDK documents of its base64 form: it is standard base64 of the binary encoding,
  which is not empty, and it decodes to the value.
\<close>

definition base64_form ::
  "('a \<Rightarrow> gerr + string) \<Rightarrow> ('a \<Rightarrow> gerr + bytes) \<Rightarrow> (string \<Rightarrow> nat \<Rightarrow> gerr + 'a) \<Rightarrow> 'a \<Rightarrow> bool" where
  "base64_form marshal64 marshal unmarshal v \<longleftrightarrow>
     (\<forall>s. marshal64 v = Inr s \<longrightarrow>
        (\<exists>b. b \<noteq> [] \<and> marshal v = Inr b \<and> s = base64_EncodeToString b \<and> unmarshal s MaxDecodeDepth = Inr v))"

lemma base64_form_decodes:
  assumes "marshal64 v = Inr s" "base64_form marshal64 marshal unmarshal v"
  shows "s \<noteq> [] \<and> decodeCanonicalXDR unmarshal marshal s = Inr v"
  using assms by (auto simp: base64_form_def decodeCanonicalXDR_def decodeCanonicalBase64_encode)

text \<open>
  An address as XDR has it: an account or contract arm of 32 bytes and nothing else, or
  another arm, which only the base64 form covers.
\<close>

definition plainAddress :: "sdk \<Rightarrow> ScAddress \<Rightarrow> bool" where
  "plainAddress S a \<longleftrightarrow>
     (\<forall>s. FormatAddress S a = Inr s \<longrightarrow> (\<exists>p. length p = 32 \<and> (a = accountAddress p \<or> a = contractAddress p))) \<and>
     base64_form (ScAddress_MarshalBase64 S) (ScAddress_MarshalBinary S) (ScAddress_SafeUnmarshalBase64WithOptions S) a"

text \<open>The documented behaviour of the strkey codec.\<close>

definition strkey_ok :: "sdk \<Rightarrow> bool" where
  "strkey_ok S \<longleftrightarrow> strkey_encode_decode S \<and> \<not> isOk (strkey_DecodeAny S '''')"

lemma address_base64_decodes:
  "ScAddress_MarshalBase64 S a = Inr s \<Longrightarrow> plainAddress S a \<Longrightarrow>
   s \<noteq> [] \<and> decodeCanonicalXDR (ScAddress_SafeUnmarshalBase64WithOptions S) (ScAddress_MarshalBinary S) s = Inr a"
  by (rule base64_form_decodes [where ?marshal64.0 = "ScAddress_MarshalBase64 S"]) (simp_all add: plainAddress_def)

lemma address_roundtrip:
  assumes "encodeCanonicalAddress S a = Inr d" "plainAddress S a" "strkey_ok S"
  shows "decodeCanonicalAddress S d = Inr a"
proof (cases "FormatAddress S a")
  case (Inl e)
  then obtain s where s: "ScAddress_MarshalBase64 S a = Inr s"
    "d = \<lparr>ca_Type = ''xdr'', ca_Account = '''', ca_Contract = '''', ca_XDR = s\<rparr>"
    using assms(1) by (auto simp: encodeCanonicalAddress_def bindE_Inr_iff split: if_splits)
  then show ?thesis
    using address_base64_decodes [OF s(1) assms(2)] by (simp add: decodeCanonicalAddress_def)
next
  case (Inr s)
  then obtain p where p: "length p = 32" "a = accountAddress p \<or> a = contractAddress p"
    using assms(2) by (auto simp: plainAddress_def)
  have parse: "ParseAddress S s = Inr a"
    using format_then_parse_helper [OF _ p Inr] assms(3) by (simp add: strkey_ok_def)
  have "s \<noteq> ''''"
    using parse assms(3) by (auto simp: ParseAddress_def strkey_ok_def isOk_iff bindE_Inr_iff)
  then show ?thesis
    using p(2) parse assms(1) Inr
    by (auto simp: encodeCanonicalAddress_def decodeCanonicalAddress_def accountAddress_def contractAddress_def)
qed

definition plainExecutable :: "sdk \<Rightarrow> ContractExecutable \<Rightarrow> bool" where
  "plainExecutable S x \<longleftrightarrow>
     (\<forall>h. x = ExecutableWasm (Some h) \<longrightarrow> length h = 32) \<and>
     (\<forall>a t. x = ExecutableExternalRef (Some (a, t)) \<longrightarrow> plainAddress S a)"

lemma executable_roundtrip:
  assumes "encodeCanonicalExecutable S x = Inr d" "plainExecutable S x" "strkey_ok S"
  shows "decodeCanonicalExecutable S d = Inr x"
proof (cases x)
  case (ExecutableWasm h)
  then show ?thesis
    using assms(1,2) by (cases h) (auto simp: encodeCanonicalExecutable_def decodeCanonicalExecutable_def
        plainExecutable_def decodeCanonicalHex_hex)
next
  case ExecutableStellarAsset
  then show ?thesis
    using assms(1) by (auto simp: encodeCanonicalExecutable_def decodeCanonicalExecutable_def)
next
  case (ExecutableExternalRef r)
  show ?thesis
  proof (cases r)
    case None
    then show ?thesis using assms(1) ExecutableExternalRef by (simp add: encodeCanonicalExecutable_def)
  next
    case (Some p)
    obtain a s where p: "p = (a, s)" by (cases p)
    then obtain a' where a': "encodeCanonicalAddress S a = Inr a'"
      using assms(1) ExecutableExternalRef Some by (auto simp: encodeCanonicalExecutable_def bindE_Inr_iff)
    then have "decodeCanonicalAddress S a' = Inr a"
      using address_roundtrip [OF a' _ assms(3)] assms(2) ExecutableExternalRef Some p by (simp add: plainExecutable_def)
    then show ?thesis
      using assms(1) a' ExecutableExternalRef Some p
      by (auto simp: encodeCanonicalExecutable_def decodeCanonicalExecutable_def)
  qed
next
  case (ExecutableOther n)
  then show ?thesis using assms(1) by (simp add: encodeCanonicalExecutable_def)
qed

definition plainPreimage :: "sdk \<Rightarrow> ContractIdPreimage \<Rightarrow> bool" where
  "plainPreimage S x \<longleftrightarrow> (\<forall>a salt. x = PreimageFromAddress (Some (a, salt)) \<longrightarrow> plainAddress S a \<and> length salt = 32)"

lemma preimage_roundtrip:
  assumes "encodeCanonicalPreimage S x = Inr d" "plainPreimage S x" "strkey_ok S"
  shows "decodeCanonicalPreimage S d = Inr x"
proof -
  obtain a salt a' where x: "x = PreimageFromAddress (Some (a, salt))" "encodeCanonicalAddress S a = Inr a'"
    "d = \<lparr>cp_Type = ''from_address'', cp_Address = Some a', cp_Salt = Some (hex salt), cp_XDR = ''''\<rparr>"
    using assms(1) by (auto simp: encodeCanonicalPreimage_def safeMarshalBase64_asset_def bindE_Inr_iff
        split: ContractIdPreimage.splits option.splits)
  then have "decodeCanonicalAddress S a' = Inr a" "length salt = 32"
    using address_roundtrip [OF x(2) _ assms(3)] assms(2) by (simp_all add: plainPreimage_def)
  then show ?thesis by (simp add: x decodeCanonicalPreimage_def decodeCanonicalHex_hex)
qed

section \<open>Contract values\<close>

text \<open>
  The values whose documents decode: no bytes value is empty, no vector or map arm is nil
  where XDR has an optional, and addresses and executables are plain.
\<close>

fun plainScVal :: "sdk \<Rightarrow> ScVal \<Rightarrow> bool" where
  "plainScVal S (ScvBytes p) = (p \<noteq> Some [])"
| "plainScVal S (ScvVec p) = (case p of None \<Rightarrow> False | Some None \<Rightarrow> True | Some (Some xs) \<Rightarrow> \<forall>x \<in> set xs. plainScVal S x)"
| "plainScVal S (ScvMap p) = (case p of None \<Rightarrow> False | Some None \<Rightarrow> True
     | Some (Some m) \<Rightarrow> \<forall>(k, v) \<in> set m. plainScVal S k \<and> plainScVal S v)"
| "plainScVal S (ScvAddress p) = (case p of None \<Rightarrow> True | Some a \<Rightarrow> plainAddress S a)"
| "plainScVal S (ScvContractInstance p) = (case p of None \<Rightarrow> True
     | Some (x, storage) \<Rightarrow> plainExecutable S x \<and>
         (case storage of None \<Rightarrow> True | Some m \<Rightarrow> \<forall>(k, v) \<in> set m. plainScVal S k \<and> plainScVal S v))"
| "plainScVal S (ScvError p) =
     base64_form (ScVal_MarshalBase64 S) (ScVal_MarshalBinary S) (ScVal_SafeUnmarshalBase64WithOptions S) (ScvError p)"
| "plainScVal S (ScvLedgerKeyNonce p) =
     base64_form (ScVal_MarshalBase64 S) (ScVal_MarshalBinary S) (ScVal_SafeUnmarshalBase64WithOptions S) (ScvLedgerKeyNonce p)"
| "plainScVal S _ = True"

lemmas scalar_defs = decodeScalar_def scalars_def leaf_def requireScValFields_def presentFields_def

lemma value_base64_decodes:
  "ScVal_MarshalBase64 S v = Inr s \<Longrightarrow>
   base64_form (ScVal_MarshalBase64 S) (ScVal_MarshalBinary S) (ScVal_SafeUnmarshalBase64WithOptions S) v \<Longrightarrow>
   s \<noteq> [] \<and> decodeCanonicalXDR (ScVal_SafeUnmarshalBase64WithOptions S) (ScVal_MarshalBinary S) s = Inr v"
  by (rule base64_form_decodes [where ?marshal64.0 = "ScVal_MarshalBase64 S"])

lemma leaf_decodes:
  "decodeScalar S (leaf ((scalars ''bool'')\<lparr>cs_Bool := Some c\<rparr>)) = Inr (ScvBool (Some c))"
  "decodeScalar S (leaf ((scalars ''u32'')\<lparr>cs_U32 := Some v\<rparr>)) = Inr (ScvU32 (Some v))"
  "decodeScalar S (leaf ((scalars ''i32'')\<lparr>cs_I32 := Some v\<rparr>)) = Inr (ScvI32 (Some v))"
  "decodeScalar S (leaf ((scalars ''u64'')\<lparr>cs_U64 := Some (FormatUint64 w)\<rparr>)) = Inr (ScvU64 (Some w))"
  "decodeScalar S (leaf ((scalars ''i64'')\<lparr>cs_I64 := Some (FormatInt64 w)\<rparr>)) = Inr (ScvI64 (Some w))"
  "decodeScalar S (leaf ((scalars ''timepoint'')\<lparr>cs_Timepoint := Some (FormatUint64 w)\<rparr>)) = Inr (ScvTimepoint (Some w))"
  "decodeScalar S (leaf ((scalars ''duration'')\<lparr>cs_Duration := Some (FormatUint64 w)\<rparr>)) = Inr (ScvDuration (Some w))"
  "decodeScalar S (leaf ((scalars ''string'')\<lparr>cs_String := Some (encodeCanonicalText s)\<rparr>)) = Inr (ScvString (Some s))"
  "decodeScalar S (leaf ((scalars ''symbol'')\<lparr>cs_Symbol := Some (encodeCanonicalText s)\<rparr>)) = Inr (ScvSymbol (Some s))"
  "decodeScalar S (leaf ((scalars ''executable_tag'')\<lparr>cs_ExecutableTag := Some (encodeCanonicalText s)\<rparr>)) = Inr (ScvExecutableTag (Some s))"
  "decodeScalar S (leaf (scalars ''void'')) = Inr ScvVoid"
  "decodeScalar S (leaf (scalars ''ledger_key_contract_instance'')) = Inr ScvLedgerKeyContractInstance"
  "b \<noteq> [] \<Longrightarrow> decodeScalar S (leaf ((scalars ''bytes'')\<lparr>cs_Bytes := Some (base64_EncodeToString b)\<rparr>)) = Inr (ScvBytes (Some b))"
  "decodeScalar S (leaf ((scalars ''u128'')\<lparr>cs_U128 := Some \<lparr>p1_Hi = FormatUint64 h, p1_Lo = FormatUint64 l\<rparr>\<rparr>)) =
     Inr (ScvU128 (Some (h, l)))"
  "decodeScalar S (leaf ((scalars ''i128'')\<lparr>cs_I128 := Some \<lparr>p1_Hi = FormatInt64 h, p1_Lo = FormatUint64 l\<rparr>\<rparr>)) =
     Inr (ScvI128 (Some (h, l)))"
  "decodeScalar S (leaf ((scalars ''u256'')\<lparr>cs_U256 := Some \<lparr>p2_HiHi = FormatUint64 h, p2_HiLo = FormatUint64 hl,
       p2_LoHi = FormatUint64 lh, p2_LoLo = FormatUint64 l\<rparr>\<rparr>)) = Inr (ScvU256 (Some (h, hl, lh, l)))"
  "decodeScalar S (leaf ((scalars ''i256'')\<lparr>cs_I256 := Some \<lparr>p2_HiHi = FormatInt64 h, p2_HiLo = FormatUint64 hl,
       p2_LoHi = FormatUint64 lh, p2_LoLo = FormatUint64 l\<rparr>\<rparr>)) = Inr (ScvI256 (Some (h, hl, lh, l)))"
  by (simp_all add: scalar_defs Let_def decodeCanonicalBase64_encode decodeCanonicalU128Parts_def
      decodeCanonicalI128Parts_def decodeCanonicalU256Parts_def decodeCanonicalI256Parts_def)

lemma scalar_roundtrip:
  assumes "encodeScalar S v = Inr d" "plainScVal S v" "strkey_ok S" "depth \<le> MaxDecodeDepth"
  shows "decodeCanonicalScVal S d depth = Inr v"
proof -
  have "decodeScalar S d = Inr v"
  proof (cases v)
    case (ScvAddress p)
    then obtain a a' where a: "p = Some a" "encodeCanonicalAddress S a = Inr a'"
      "d = leaf ((scalars ''address'')\<lparr>cs_Address := Some a'\<rparr>)"
      using assms(1) by (auto simp: encodeScalar_def bindE_Inr_iff)
    then have "decodeCanonicalAddress S a' = Inr a"
      using address_roundtrip [OF a(2) _ assms(3)] assms(2) ScvAddress by simp
    then show ?thesis using ScvAddress a by (simp add: scalar_defs Let_def)
  next
    case (ScvError p)
    then obtain s where s: "ScVal_MarshalBase64 S v = Inr s" "d = leaf ((scalars ''error'')\<lparr>cs_XDR := s\<rparr>)"
      using assms(1) by (auto simp: encodeScalar_def bindE_Inr_iff)
    then show ?thesis
      using value_base64_decodes [OF s(1)] assms(2) ScvError
      by (simp add: scalar_defs Let_def decodeCanonicalScValXDR_def)
  next
    case (ScvLedgerKeyNonce p)
    then obtain s where s: "ScVal_MarshalBase64 S v = Inr s" "d = leaf ((scalars ''ledger_key_nonce'')\<lparr>cs_XDR := s\<rparr>)"
      using assms(1) by (auto simp: encodeScalar_def bindE_Inr_iff)
    then show ?thesis
      using value_base64_decodes [OF s(1)] assms(2) ScvLedgerKeyNonce
      by (simp add: scalar_defs Let_def decodeCanonicalScValXDR_def)
  next
    case (ScvBytes p)
    then obtain b where b: "p = Some b" "b \<noteq> []" "d = leaf ((scalars ''bytes'')\<lparr>cs_Bytes := Some (base64_EncodeToString b)\<rparr>)"
      using assms(1,2) by (auto simp: encodeScalar_def bindE_Inr_iff)
    then show ?thesis using ScvBytes by (simp add: leaf_decodes)
  qed (use assms(1,2) in \<open>auto simp: encodeScalar_def bindE_Inr_iff leaf_decodes\<close>)
  moreover have "cs_Type (cv_Scalars d) \<notin> {''vec'', ''map'', ''contract_instance''}"
    using assms(1) by (cases v) (auto simp: encodeScalar_def Let_def bindE_Inr_iff scalars_def leaf_def)
  ultimately show ?thesis using assms(4) by (cases d) (simp add: decodeCanonicalScVal.simps)
qed

lemma entries_inverse:
  assumes "mapEi (\<lambda>i (k, v). bindE (wrapE (p i) (f k)) (\<lambda>k'. bindE (wrapE (q i) (f v)) (\<lambda>v'. Inr (k', v')))) m = Inr m'"
    and "\<And>k v d. (k, v) \<in> set m \<Longrightarrow> f k = Inr d \<Longrightarrow> g d = Inr k"
    and "\<And>k v d. (k, v) \<in> set m \<Longrightarrow> f v = Inr d \<Longrightarrow> g d = Inr v"
  shows "mapEi (\<lambda>i (k, v). bindE (wrapE (p i) (g k)) (\<lambda>k'. bindE (wrapE (q i) (g v)) (\<lambda>v'. Inr (k', v')))) m' = Inr m"
  by (rule mapEi_inverse [OF assms(1)]) (auto simp: bindE_Inr_iff assms(2,3))

lemma items_inverse:
  assumes "mapEi (\<lambda>i x. wrapE (p i) (f x)) xs = Inr ys"
    and "\<And>x y. x \<in> set xs \<Longrightarrow> f x = Inr y \<Longrightarrow> g y = Inr x"
  shows "mapEi (\<lambda>i y. wrapE (q i) (g y)) ys = Inr xs"
  by (rule mapEi_inverse [OF assms(1)]) (simp add: assms(2))

text \<open>One level of the round trip, given it for the smaller values inside.\<close>

lemma vec_roundtrip:
  assumes "encodeCanonicalScVal S (ScvVec p) depth = Inr d" "plainScVal S (ScvVec p)"
    and IH: "\<And>w d'. size w < size (ScvVec p) \<Longrightarrow> plainScVal S w \<Longrightarrow> encodeCanonicalScVal S w (depth + 1) = Inr d' \<Longrightarrow>
       decodeCanonicalScVal S d' (depth + 1) = Inr w"
  shows "decodeCanonicalScVal S d depth = Inr (ScvVec p)"
proof -
  have depth: "depth \<le> MaxDecodeDepth" using assms(1) by (auto simp: bindE_Inr_iff)
  consider "p = Some None" | xs where "p = Some (Some xs)"
    using assms(2) by (auto split: option.splits)
  then show ?thesis
  proof cases
    case 1
    then have "d = leaf ((scalars ''vec'')\<lparr>cs_Nil := True\<rparr>)" using assms(1) depth by simp
    then show ?thesis using 1 depth by (simp add: decodeCanonicalScVal.simps scalar_defs Let_def)
  next
    case (2 xs)
    obtain ys where ys: "mapEi (\<lambda>i item. wrapE (''vec item '' @ itoa i) (encodeCanonicalScVal S item (depth + 1))) xs = Inr ys"
      "d = CanonicalScVal (scalars ''vec'') (Some ys) None None"
      using assms(1) 2 depth by (auto simp: bindE_Inr_iff)
    have "mapEi (\<lambda>i y. wrapE (''value '' @ itoa i) (decodeCanonicalScVal S y (depth + 1))) ys = Inr xs"
    proof (rule items_inverse [OF ys(1)])
      fix x y
      assume x: "x \<in> set xs" "encodeCanonicalScVal S x (depth + 1) = Inr y"
      have "size x < size (ScvVec p)" "plainScVal S x" using size_value [OF x(1)] 2 x(1) assms(2) by auto
      then show "decodeCanonicalScVal S y (depth + 1) = Inr x" using IH x(2) by blast
    qed
    then show ?thesis
      using ys(2) 2 depth by (simp add: decodeCanonicalScVal.simps scalar_defs Let_def)
  qed
qed

lemma map_entries_roundtrip:
  assumes "mapEi (\<lambda>i (k, v).
      bindE (wrapE (''map key '' @ itoa i) (encodeCanonicalScVal S k depth)) (\<lambda>k'.
      bindE (wrapE (''map value '' @ itoa i) (encodeCanonicalScVal S v depth)) (\<lambda>v'. Inr (k', v')))) m = Inr m'"
    and "\<forall>(k, v) \<in> set m. plainScVal S k \<and> plainScVal S v"
    and IH: "\<And>w d'. size w < Suc (size_list (size_prod size size) m) \<Longrightarrow> plainScVal S w \<Longrightarrow>
       encodeCanonicalScVal S w depth = Inr d' \<Longrightarrow> decodeCanonicalScVal S d' depth = Inr w"
  shows "mapEi (\<lambda>i (k, v).
      bindE (wrapE (''map key '' @ itoa i) (decodeCanonicalScVal S k depth)) (\<lambda>k'.
      bindE (wrapE (''map value '' @ itoa i) (decodeCanonicalScVal S v depth)) (\<lambda>v'. Inr (k', v')))) m' = Inr m"
proof (rule entries_inverse [OF assms(1)])
  fix k v d
  assume kv: "(k, v) \<in> set m"
  note s = size_entry [OF kv]
  show "decodeCanonicalScVal S d depth = Inr k" if "encodeCanonicalScVal S k depth = Inr d"
    using IH [OF conjunct1 [OF s] _ that] assms(2) kv by auto
  show "decodeCanonicalScVal S d depth = Inr v" if "encodeCanonicalScVal S v depth = Inr d"
    using IH [OF conjunct2 [OF s] _ that] assms(2) kv by auto
qed

lemma map_roundtrip:
  assumes "encodeCanonicalScVal S (ScvMap p) depth = Inr d" "plainScVal S (ScvMap p)"
    and IH: "\<And>w d'. size w < size (ScvMap p) \<Longrightarrow> plainScVal S w \<Longrightarrow> encodeCanonicalScVal S w (depth + 1) = Inr d' \<Longrightarrow>
       decodeCanonicalScVal S d' (depth + 1) = Inr w"
  shows "decodeCanonicalScVal S d depth = Inr (ScvMap p)"
proof -
  have depth: "depth \<le> MaxDecodeDepth" using assms(1) by (auto simp: bindE_Inr_iff)
  consider "p = Some None" | m where "p = Some (Some m)"
    using assms(2) by (auto split: option.splits)
  then show ?thesis
  proof cases
    case 1
    then have "d = leaf ((scalars ''map'')\<lparr>cs_Nil := True\<rparr>)" using assms(1) depth by simp
    then show ?thesis using 1 depth by (simp add: decodeCanonicalScVal.simps scalar_defs Let_def)
  next
    case (2 m)
    obtain m' where m': "mapEi (\<lambda>i (k, v).
        bindE (wrapE (''map key '' @ itoa i) (encodeCanonicalScVal S k (depth + 1))) (\<lambda>k'.
        bindE (wrapE (''map value '' @ itoa i) (encodeCanonicalScVal S v (depth + 1))) (\<lambda>v'. Inr (k', v')))) m = Inr m'"
      "d = CanonicalScVal (scalars ''map'') None (Some m') None"
      using assms(1) 2 depth by (auto simp: bindE_Inr_iff)
    have IH': "decodeCanonicalScVal S d' (depth + 1) = Inr w"
      if "size w < Suc (size_list (size_prod size size) m)" "plainScVal S w" "encodeCanonicalScVal S w (depth + 1) = Inr d'"
      for w d'
      using IH [OF _ that(2,3)] that(1) 2 by simp
    show ?thesis
      using map_entries_roundtrip [OF m'(1) _ IH'] m'(2) 2 depth assms(2)
      by (simp add: decodeCanonicalScVal.simps scalar_defs Let_def)
  qed
qed

lemma instance_roundtrip:
  assumes "encodeCanonicalScVal S (ScvContractInstance p) depth = Inr d" "plainScVal S (ScvContractInstance p)" "strkey_ok S"
    and IH: "\<And>w d'. size w < size (ScvContractInstance p) \<Longrightarrow> plainScVal S w \<Longrightarrow>
       encodeCanonicalScVal S w (depth + 1) = Inr d' \<Longrightarrow> decodeCanonicalScVal S d' (depth + 1) = Inr w"
  shows "decodeCanonicalScVal S d depth = Inr (ScvContractInstance p)"
proof -
  have depth: "depth \<le> MaxDecodeDepth" using assms(1) by (auto simp: bindE_Inr_iff)
  obtain x storage where p: "p = Some (x, storage)" using assms(1) by (auto simp: bindE_Inr_iff)
  obtain x' where x': "encodeCanonicalExecutable S x = Inr x'" using assms(1) p depth by (auto simp: bindE_Inr_iff)
  have dx: "decodeCanonicalExecutable S x' = Inr x"
    using executable_roundtrip [OF x' _ assms(3)] assms(2) p by simp
  show ?thesis
  proof (cases storage)
    case None
    then have "d = CanonicalScVal (scalars ''contract_instance'') None None (Some (x', None))"
      using assms(1) p depth x' by (simp add: armOr_def)
    then show ?thesis using dx p None depth by (simp add: decodeCanonicalScVal.simps scalar_defs Let_def)
  next
    case (Some m)
    obtain m' where m': "mapEi (\<lambda>i (k, v).
        bindE (wrapE (''map key '' @ itoa i) (encodeCanonicalScVal S k (depth + 1))) (\<lambda>k'.
        bindE (wrapE (''map value '' @ itoa i) (encodeCanonicalScVal S v (depth + 1))) (\<lambda>v'. Inr (k', v')))) m = Inr m'"
      "d = CanonicalScVal (scalars ''contract_instance'') None None (Some (x', Some m'))"
      using assms(1) p depth x' Some by (auto simp: bindE_Inr_iff)
    have IH': "decodeCanonicalScVal S d' (depth + 1) = Inr w"
      if "size w < Suc (size_list (size_prod size size) m)" "plainScVal S w" "encodeCanonicalScVal S w (depth + 1) = Inr d'"
      for w d'
      using IH [OF _ that(2,3)] that(1) p Some by simp
    show ?thesis
      using map_entries_roundtrip [OF m'(1) _ IH'] m'(2) p Some dx depth assms(2)
      by (simp add: decodeCanonicalScVal.simps scalar_defs Let_def)
  qed
qed

lemma scval_roundtrip:
  assumes "encodeCanonicalScVal S v depth = Inr d" "plainScVal S v" "strkey_ok S"
  shows "decodeCanonicalScVal S d depth = Inr v"
  using assms(1,2)
proof (induction "size v" arbitrary: v depth d rule: less_induct)
  case less
  have IH: "decodeCanonicalScVal S d' (depth + 1) = Inr w"
    if "size w < size v" "plainScVal S w" "encodeCanonicalScVal S w (depth + 1) = Inr d'" for w d'
    using less.hyps [OF that(1,3,2)] .
  show ?case
  proof (cases v)
    case (ScvVec p)
    then show ?thesis using vec_roundtrip IH less.prems by metis
  next
    case (ScvMap p)
    then show ?thesis using map_roundtrip IH less.prems by metis
  next
    case (ScvContractInstance p)
    then show ?thesis using instance_roundtrip IH less.prems assms(3) by metis
  qed (use less.prems assms(3) in \<open>auto simp: bindE_Inr_iff intro: scalar_roundtrip\<close>)
qed

lemma scvals_roundtrip:
  assumes "encodeCanonicalScVals S vs depth = Inr ds" "\<forall>v \<in> set vs. plainScVal S v" "strkey_ok S"
  shows "decodeCanonicalScVals S ds depth = Inr vs"
  unfolding decodeCanonicalScVals_def
  using assms(2,3) scval_roundtrip by (intro items_inverse [OF assms(1) [unfolded encodeCanonicalScVals_def]]) blast

section \<open>Invocations and delegates\<close>

definition plainFunction :: "sdk \<Rightarrow> SorobanAuthorizedFunction \<Rightarrow> bool" where
  "plainFunction S f \<longleftrightarrow>
     (case f of
        FnContractFn (Some c) \<Rightarrow> plainAddress S (ica_ContractAddress c) \<and> (\<forall>v \<in> set (ica_Args c). plainScVal S v)
      | FnCreateContractHostFn (Some (p, x)) \<Rightarrow> plainPreimage S p \<and> plainExecutable S x
      | FnCreateContractV2HostFn (Some (p, x, vs)) \<Rightarrow>
          plainPreimage S p \<and> plainExecutable S x \<and> (\<forall>v \<in> set vs. plainScVal S v)
      | _ \<Rightarrow> True)"

lemma function_roundtrip:
  assumes "encodeCanonicalFunction S f depth = Inr d" "plainFunction S f" "strkey_ok S"
  shows "decodeCanonicalFunction S d depth = Inr f"
proof (cases f)
  case (FnContractFn c)
  then obtain c' a' args where c: "c = Some c'" "encodeCanonicalAddress S (ica_ContractAddress c') = Inr a'"
    "encodeCanonicalScVals S (ica_Args c') (depth + 1) = Inr args"
    "d = \<lparr>cf_Type = ''contract_fn'', cf_ContractAddress = Some a',
          cf_FunctionName = Some (encodeCanonicalText (ica_FunctionName c')), cf_Args = Some args,
          cf_ContractIDPreimage = None, cf_Executable = None, cf_ConstructorArgs = None\<rparr>"
    using assms(1) by (auto simp: encodeCanonicalFunction_def bindE_Inr_iff split: option.splits)
  have "decodeCanonicalAddress S a' = Inr (ica_ContractAddress c')"
    "decodeCanonicalScVals S args (depth + 1) = Inr (ica_Args c')"
    using address_roundtrip [OF c(2) _ assms(3)] scvals_roundtrip [OF c(3) _ assms(3)] assms(2) FnContractFn c(1)
    by (simp_all add: plainFunction_def)
  then show ?thesis using FnContractFn c by (simp add: decodeCanonicalFunction_def)
next
  case (FnCreateContractHostFn c)
  then obtain p x p' x' where c: "c = Some (p, x)" "encodeCanonicalPreimage S p = Inr p'" "encodeCanonicalExecutable S x = Inr x'"
    "d = \<lparr>cf_Type = ''create_contract_host_fn'', cf_ContractAddress = None, cf_FunctionName = None, cf_Args = None,
          cf_ContractIDPreimage = Some p', cf_Executable = Some x', cf_ConstructorArgs = None\<rparr>"
    using assms(1) by (auto simp: encodeCanonicalFunction_def bindE_Inr_iff split: option.splits)
  have "decodeCanonicalPreimage S p' = Inr p" "decodeCanonicalExecutable S x' = Inr x"
    using preimage_roundtrip [OF c(2) _ assms(3)] executable_roundtrip [OF c(3) _ assms(3)] assms(2)
      FnCreateContractHostFn c(1)
    by (simp_all add: plainFunction_def)
  then show ?thesis using FnCreateContractHostFn c by (simp add: decodeCanonicalFunction_def)
next
  case (FnCreateContractV2HostFn c)
  then obtain p x vs p' x' vs' where c: "c = Some (p, x, vs)" "encodeCanonicalPreimage S p = Inr p'"
    "encodeCanonicalExecutable S x = Inr x'" "encodeCanonicalScVals S vs (depth + 1) = Inr vs'"
    "d = \<lparr>cf_Type = ''create_contract_v2_host_fn'', cf_ContractAddress = None, cf_FunctionName = None, cf_Args = None,
          cf_ContractIDPreimage = Some p', cf_Executable = Some x', cf_ConstructorArgs = Some vs'\<rparr>"
    using assms(1) by (auto simp: encodeCanonicalFunction_def bindE_Inr_iff split: option.splits)
  have "decodeCanonicalPreimage S p' = Inr p" "decodeCanonicalExecutable S x' = Inr x"
    "decodeCanonicalScVals S vs' (depth + 1) = Inr vs"
    using preimage_roundtrip [OF c(2) _ assms(3)] executable_roundtrip [OF c(3) _ assms(3)]
      scvals_roundtrip [OF c(4) _ assms(3)] assms(2) FnCreateContractV2HostFn c(1)
    by (simp_all add: plainFunction_def)
  then show ?thesis using FnCreateContractV2HostFn c by (simp add: decodeCanonicalFunction_def)
next
  case (FnOther n)
  then show ?thesis using assms(1) by (simp add: encodeCanonicalFunction_def)
qed

fun plainInvocation :: "sdk \<Rightarrow> SorobanAuthorizedInvocation \<Rightarrow> bool" where
  "plainInvocation S (Invocation f subs) = (plainFunction S f \<and> (\<forall>s \<in> set subs. plainInvocation S s))"

lemma invocation_roundtrip:
  assumes "encodeCanonicalInvocation S n depth = Inr d" "plainInvocation S n" "strkey_ok S"
  shows "decodeCanonicalInvocation S d depth = Inr n"
  using assms(1,2)
proof (induction n arbitrary: depth d)
  case (Invocation f subs)
  then have depth: "depth \<le> MaxDecodeDepth"
    by (auto simp: encodeCanonicalInvocation.simps [of S "Invocation f subs"] bindE_Inr_iff)
  obtain f' subs' where s: "encodeCanonicalFunction S f (depth + 1) = Inr f'"
    "mapEi (\<lambda>i sub. wrapE (''sub-invocation '' @ itoa i) (encodeCanonicalInvocation S sub (depth + 1))) subs = Inr subs'"
    "d = CanonicalInvocation f' subs'"
    using Invocation.prems(1) by (auto simp: encodeCanonicalInvocation.simps [of S "Invocation f subs"] bindE_Inr_iff)
  have "decodeCanonicalFunction S f' (depth + 1) = Inr f"
    using function_roundtrip [OF s(1) _ assms(3)] Invocation.prems(2) by simp
  moreover have "mapEi (\<lambda>i sub. wrapE (''sub-invocation '' @ itoa i) (decodeCanonicalInvocation S sub (depth + 1))) subs' = Inr subs"
    using Invocation.IH Invocation.prems(2) by (intro items_inverse [OF s(2)]) simp
  ultimately show ?case
    unfolding decodeCanonicalInvocation.simps [of S d depth] using depth s(3) by simp
qed

fun plainDelegate :: "sdk \<Rightarrow> SorobanDelegateSignature \<Rightarrow> bool" where
  "plainDelegate S (DelegateSignature a s ds) = (plainAddress S a \<and> plainScVal S s \<and> (\<forall>x \<in> set ds. plainDelegate S x))"

lemma delegates_roundtrip:
  assumes "encodeCanonicalDelegates S ns depth = Inr ds" "\<forall>n \<in> set ns. plainDelegate S n" "strkey_ok S"
  shows "decodeCanonicalDelegates S ds depth = Inr ns"
  using assms(1,2)
proof (induction "size_list size ns" arbitrary: ns depth ds rule: less_induct)
  case less
  then have depth: "depth \<le> MaxDecodeDepth"
    by (auto simp: encodeCanonicalDelegates.simps [of S ns] bindE_Inr_iff)
  have step: "bindE (wrapE (''delegate '' @ itoa j @ '' address'') (decodeCanonicalAddress S (cd_Address y))) (\<lambda>address.
      bindE (wrapE (''delegate '' @ itoa j @ '' signature'') (decodeCanonicalScVal S (cd_Signature y) (depth + 1)))
         (\<lambda>signature.
      bindE (wrapE (''delegate '' @ itoa j) (decodeCanonicalDelegates S (cd_Nested y) (depth + 1)))
         (\<lambda>nested. Inr (DelegateSignature address signature nested)))) = Inr n"
    if n: "n \<in> set ns" and e: "bindE (wrapE (''delegate '' @ itoa i @ '' address'') (encodeCanonicalAddress S (ds_Address n))) (\<lambda>address.
       bindE (wrapE (''delegate '' @ itoa i @ '' signature'') (encodeCanonicalScVal S (ds_Signature n) (depth + 1)))
         (\<lambda>signature.
       bindE (wrapE (''delegate '' @ itoa i) (encodeCanonicalDelegates S (ds_NestedDelegates n) (depth + 1)))
         (\<lambda>nested. Inr (CanonicalDelegate address signature nested)))) = Inr y" for i j n y
  proof -
    obtain a' s' ns' where y: "encodeCanonicalAddress S (ds_Address n) = Inr a'"
      "encodeCanonicalScVal S (ds_Signature n) (depth + 1) = Inr s'"
      "encodeCanonicalDelegates S (ds_NestedDelegates n) (depth + 1) = Inr ns'" "y = CanonicalDelegate a' s' ns'"
      using e by (auto simp: bindE_Inr_iff)
    have p: "plainAddress S (ds_Address n)" "plainScVal S (ds_Signature n)"
      "\<forall>x \<in> set (ds_NestedDelegates n). plainDelegate S x"
      using less.prems(2) n by (cases n; force)+
    have "decodeCanonicalAddress S a' = Inr (ds_Address n)"
      "decodeCanonicalScVal S s' (depth + 1) = Inr (ds_Signature n)"
      "decodeCanonicalDelegates S ns' (depth + 1) = Inr (ds_NestedDelegates n)"
      using address_roundtrip [OF y(1) p(1) assms(3)] scval_roundtrip [OF y(2) p(2) assms(3)]
        less.hyps [OF size_delegate_nested [OF n] y(3) p(3)] by simp_all
    then show ?thesis by (simp add: y(4))
  qed
  note enc = less.prems(1) [unfolded encodeCanonicalDelegates.simps [of S ns depth] checkTraversalDepth_ok [OF depth] bindE_simps]
  show ?case
    unfolding decodeCanonicalDelegates.simps [of S ds depth] checkTraversalDepth_ok [OF depth] bindE_simps
    by (rule mapEi_inverse [OF enc]) (rule step)
qed

section \<open>Entries\<close>

text \<open>
  The entries XDR decoding yields: the arm of the type is set and the others are nil, values
  and addresses are plain.
\<close>

definition plainCredentials :: "sdk \<Rightarrow> SorobanCredentials \<Rightarrow> bool" where
  "plainCredentials S c \<longleftrightarrow>
     (cr_Type c \<noteq> CredentialsAddress \<longrightarrow> cr_Address c = None) \<and>
     (cr_Type c \<noteq> CredentialsAddressV2 \<longrightarrow> cr_AddressV2 c = None) \<and>
     (cr_Type c \<noteq> CredentialsAddressWithDelegates \<longrightarrow> cr_AddressWithDelegates c = None) \<and>
     (\<forall>a. addressCredentials c = Inr a \<longrightarrow> plainAddress S (ac_Address a) \<and> plainScVal S (ac_Signature a)) \<and>
     (\<forall>w. cr_AddressWithDelegates c = Some w \<longrightarrow> (\<forall>n \<in> set (wd_Delegates w). plainDelegate S n))"

definition plainEntry :: "sdk \<Rightarrow> SorobanAuthorizationEntry \<Rightarrow> bool" where
  "plainEntry S e \<longleftrightarrow> plainCredentials S (en_Credentials e) \<and> plainInvocation S (en_RootInvocation e)"

lemma address_credentials_roundtrip:
  assumes "encodeCanonicalAddressCredentials S name a depth = Inr d"
    and "plainAddress S (ac_Address a)" "plainScVal S (ac_Signature a)" "strkey_ok S"
  shows "decodeCanonicalAddressCredentials S d depth = Inr a \<and>
    decodeCanonicalAddressCredentials S (d\<lparr>cc_Delegates := ds\<rparr>) depth = Inr a \<and> cc_Type d = name \<and> cc_Delegates d = None"
proof -
  obtain a' s' where d: "encodeCanonicalAddress S (ac_Address a) = Inr a'"
    "encodeCanonicalScVal S (ac_Signature a) (depth + 1) = Inr s'"
    "d = \<lparr>cc_Type = name, cc_Address = Some a', cc_Nonce = Some (FormatInt64 (ac_Nonce a)),
          cc_SignatureExpirationLedger = Some (ac_SignatureExpirationLedger a),
          cc_Signature = Some s', cc_Delegates = None\<rparr>"
    using assms(1) by (auto simp: encodeCanonicalAddressCredentials_def bindE_Inr_iff)
  then show ?thesis
    using address_roundtrip [OF d(1) assms(2,4)] scval_roundtrip [OF d(2) assms(3,4)]
    by (simp add: decodeCanonicalAddressCredentials_def)
qed

lemma credentials_roundtrip:
  assumes "encodeCanonicalCredentials S c depth = Inr d" "plainCredentials S c" "strkey_ok S"
  shows "decodeCanonicalCredentials S d depth = Inr c"
proof -
  have depth: "depth \<le> MaxDecodeDepth" using assms(1) by (auto simp: encodeCanonicalCredentials_def bindE_Inr_iff)
  note plain = assms(2) [unfolded plainCredentials_def addressCredentials_def]
  show ?thesis
  proof (cases "cr_Type c")
    case CredentialsSourceAccount
    then show ?thesis
      using assms(1) plain depth
      by (cases c) (auto simp: encodeCanonicalCredentials_def decodeCanonicalCredentials_def requireCredentialFields_def)
  next
    case CredentialsAddress
    then obtain a where a: "cr_Address c = Some a" "encodeCanonicalAddressCredentials S ''address'' a depth = Inr d"
      using assms(1) depth by (auto simp: encodeCanonicalCredentials_def split: option.splits)
    then show ?thesis
      using address_credentials_roundtrip [OF a(2) _ _ assms(3)] CredentialsAddress plain depth
      by (cases c) (simp add: decodeCanonicalCredentials_def)
  next
    case CredentialsAddressV2
    then obtain a where a: "cr_AddressV2 c = Some a" "encodeCanonicalAddressCredentials S ''address_v2'' a depth = Inr d"
      using assms(1) depth by (auto simp: encodeCanonicalCredentials_def split: option.splits)
    then show ?thesis
      using address_credentials_roundtrip [OF a(2) _ _ assms(3)] CredentialsAddressV2 plain depth
      by (cases c) (simp add: decodeCanonicalCredentials_def)
  next
    case CredentialsAddressWithDelegates
    then obtain w d0 ns where w: "cr_AddressWithDelegates c = Some w"
      "encodeCanonicalAddressCredentials S ''address_with_delegates'' (wd_AddressCredentials w) depth = Inr d0"
      "encodeCanonicalDelegates S (wd_Delegates w) (depth + 1) = Inr ns" "d = d0\<lparr>cc_Delegates := Some ns\<rparr>"
      using assms(1) depth by (auto simp: encodeCanonicalCredentials_def bindE_Inr_iff split: option.splits)
    have "decodeCanonicalDelegates S ns (depth + 1) = Inr (wd_Delegates w)"
      using delegates_roundtrip [OF w(3) _ assms(3)] plain w(1) by simp
    then show ?thesis
      using address_credentials_roundtrip [OF w(2) _ _ assms(3)] CredentialsAddressWithDelegates plain depth w(1,4)
      by (cases c) (simp add: decodeCanonicalCredentials_def)
  next
    case (CredentialsOther n)
    then show ?thesis using assms(1) depth by (simp add: encodeCanonicalCredentials_def)
  qed
qed


lemma address_types [simp]:
  "sa_Type (accountAddress k) = ScAddressTypeAccount" "sa_Type (contractAddress k) = ScAddressTypeContract"
  "sa_AccountId (accountAddress k) \<noteq> None" "sa_ContractId (contractAddress k) \<noteq> None"
  by (simp_all add: accountAddress_def contractAddress_def)

lemma sample_plain_address:
  assumes "length k = 32" "a = accountAddress k \<or> a = contractAddress k"
  shows "plainAddress sampleSdk a"
proof -
  have "ScAddress_MarshalBase64 sampleSdk a = Inr (base64_EncodeToString (if sa_Type a = ScAddressTypeAccount then 0 # k else 1 # k))"
    "ScAddress_MarshalBinary sampleSdk a = Inr (if sa_Type a = ScAddressTypeAccount then 0 # k else 1 # k)"
    "ScAddress_SafeUnmarshalBase64WithOptions sampleSdk
       (base64_EncodeToString (if sa_Type a = ScAddressTypeAccount then 0 # k else 1 # k)) MaxDecodeDepth = Inr a"
    using assms(2) by (auto simp: sampleSdk_def tableSdk_def addressMarshal_def addressUnmarshal_def
        accountAddress_def contractAddress_def)
  then show ?thesis using assms by (auto simp: plainAddress_def base64_form_def)
qed

lemma sample_strkey_ok: "strkey_ok sampleSdk"
  using sample_strkeys(2) by (simp add: strkey_ok_def sampleSdk_def tableSdk_def strkeyDecode_def strkeys_def)

lemma sample_plain_entry: "plainEntry sampleSdk entryDelegates"
  by (auto simp: plainEntry_def plainCredentials_def entryDelegates_def addressCredentials_def sampleCredentials_def
      sampleDelegates_def sampleInvocation_def plainFunction_def intro: sample_plain_address [OF length_keyOf])

lemma sample_document: "isOk (canonicalDocument sampleSdk entryDelegates)"
proof -
  obtain b where b: "Entry_MarshalBinary sampleSdk entryDelegates = Inr b"
    using sample_roundtrips(4) by (auto simp: entry_roundtrips_def)
  have a: "isOk (encodeCanonicalAddress sampleSdk (accountAddress (keyOf 1)))"
    "isOk (encodeCanonicalAddress sampleSdk (accountAddress (keyOf 2)))"
    "isOk (encodeCanonicalAddress sampleSdk (contractAddress (keyOf 3)))"
    by (simp_all add: encodeCanonicalAddress_def)
  have "isOk (encodeCanonicalInvocation sampleSdk sampleInvocation 0)"
    unfolding encodeCanonicalInvocation.simps [of sampleSdk sampleInvocation 0]
    using a(3) by (auto simp: sampleInvocation_def encodeCanonicalFunction_def encodeCanonicalScVals_def isOk_iff
        MaxDecodeDepth_def)
  moreover have void: "isOk (encodeCanonicalScVal sampleSdk ScvVoid d)" if "d \<le> 64" for d
    using that by (simp add: MaxDecodeDepth_def encodeScalar_def)
  moreover have none: "isOk (encodeCanonicalDelegates sampleSdk [] d)" if "d \<le> 64" for d
    unfolding encodeCanonicalDelegates.simps [of sampleSdk "[]" d] using that by (simp add: MaxDecodeDepth_def)
  moreover have "isOk (encodeCanonicalDelegates sampleSdk [DelegateSignature (accountAddress (keyOf 1)) ScvVoid []] 2)"
    unfolding encodeCanonicalDelegates.simps [of sampleSdk "[DelegateSignature (accountAddress (keyOf 1)) ScvVoid []]" 2]
    using a(1) void [of 3] none [of 3] by (auto simp: mapEi_def isOk_iff MaxDecodeDepth_def)
  moreover have "isOk (encodeCanonicalDelegates sampleSdk (sampleDelegates ScvVoid) (Suc 0))"
    unfolding encodeCanonicalDelegates.simps [of sampleSdk "sampleDelegates ScvVoid" "Suc 0"]
    using a(1,2) void [of 2] none [of 2] calculation(4)
    by (auto simp: mapEi_def isOk_iff MaxDecodeDepth_def sampleDelegates_def numeral_2_eq_2)
  then obtain ds where ds: "encodeCanonicalDelegates sampleSdk (sampleDelegates ScvVoid) (Suc 0) = Inr ds"
    by (auto simp: isOk_iff)
  have "isOk (encodeCanonicalAddressCredentials sampleSdk ''address_with_delegates''
      (sampleCredentials (contractAddress (keyOf 3))) 0)"
    using a(3) void [of 1] by (auto simp: encodeCanonicalAddressCredentials_def isOk_iff)
  then obtain cr where cr: "encodeCanonicalAddressCredentials sampleSdk ''address_with_delegates''
      (sampleCredentials (contractAddress (keyOf 3))) 0 = Inr cr"
    by (auto simp: isOk_iff)
  have "isOk (encodeCanonicalCredentials sampleSdk (en_Credentials entryDelegates) 0)"
    by (simp add: entryDelegates_def encodeCanonicalCredentials_def cr ds checkTraversalDepth_def MaxDecodeDepth_def)
  ultimately show ?thesis using b by (auto simp: canonicalDocument_def isOk_iff entryDelegates_def)
qed


text \<open>
  Two places where the canonical form falls short. An entry that creates a contract from
  an asset is always refused, because the asset is passed by pointer to a switch with no case
  for it. An entry whose signature is an empty bytes value gets a document that the decoder
  always refuses, because an empty base64 text is an error there.
\<close>

lemma canonical_gaps:
  "(inv_Function (en_RootInvocation e) = FnCreateContractHostFn (Some (PreimageFromAsset (Some asset), x)) \<longrightarrow>
      \<not> isOk (canonicalDocument S e)) \<and>
   (canonicalDocument S e = Inr doc \<and> addressCredentials (en_Credentials e) = Inr a \<and> ac_Signature a = ScvBytes (Some []) \<longrightarrow>
      \<not> isOk (entryOfDocument S doc))"
proof (intro conjI impI)
  assume "inv_Function (en_RootInvocation e) = FnCreateContractHostFn (Some (PreimageFromAsset (Some asset), x))"
  then show "\<not> isOk (canonicalDocument S e)"
    by (auto simp: canonicalDocument_def encodeCanonicalInvocation.simps [of S "en_RootInvocation e"]
        encodeCanonicalFunction_def encodeCanonicalPreimage_def safeMarshalBase64_asset_def isOk_iff bindE_Inr_iff)
next
  assume h: "canonicalDocument S e = Inr doc \<and> addressCredentials (en_Credentials e) = Inr a \<and> ac_Signature a = ScvBytes (Some [])"
  have "cc_Signature d = Some (leaf ((scalars ''bytes'')\<lparr>cs_Bytes := Some []\<rparr>))"
    if "encodeCanonicalAddressCredentials S name a 0 = Inr d" for name d
    using that h by (auto simp: encodeCanonicalAddressCredentials_def bindE_Inr_iff encodeScalar_def)
  then have sig: "cc_Signature (cy_Credentials doc) = Some (leaf ((scalars ''bytes'')\<lparr>cs_Bytes := Some []\<rparr>))"
    using h by (auto simp: canonicalDocument_def encodeCanonicalCredentials_def addressCredentials_def bindE_Inr_iff
        split: SorobanCredentialsType.splits option.splits)
  have notSource: "cc_Type (cy_Credentials doc) \<noteq> ''source_account''"
    using h by (auto simp: canonicalDocument_def encodeCanonicalCredentials_def addressCredentials_def bindE_Inr_iff
        encodeCanonicalAddressCredentials_def split: SorobanCredentialsType.splits option.splits)
  have "\<not> isOk (decodeCanonicalScVal S (leaf ((scalars ''bytes'')\<lparr>cs_Bytes := Some []\<rparr>)) (Suc 0))"
    by (simp add: leaf_def decodeCanonicalScVal.simps scalars_def decodeScalar_def requireScValFields_def
        presentFields_def Let_def MaxDecodeDepth_def decodeCanonicalBase64_def)
  then have "\<not> isOk (decodeCanonicalAddressCredentials S (cy_Credentials doc) 0)"
    using sig by (auto simp: decodeCanonicalAddressCredentials_def isOk_iff bindE_Inr_iff split: option.splits)
  then show "\<not> isOk (entryOfDocument S doc)"
    using notSource by (auto simp: entryOfDocument_def decodeCanonicalCredentials_def isOk_iff bindE_Inr_iff Let_def split: if_splits option.splits)
qed

end
