(* ===== verification/Risk.thy ===== *)
theory Risk
  imports Inspection "HOL-Library.Multiset"
begin

text \<open>
  The risk analyser (\<^verbatim>\<open>src/risk.go\<close>): a list of findings about an entry, ranked by
  severity with an exchange sort. \<open>LedgerSource\<close> is an interface; its answer is an
  argument.
\<close>

section \<open>Findings and configuration\<close>

datatype FindingSeverity = SeverityInfo | SeverityWarning | SeverityCritical

record Finding =
  fi_Code :: string
  fi_Severity :: FindingSeverity
  fi_Title :: string
  fi_Description :: string
  fi_Rationale :: string

fun severityText :: "FindingSeverity \<Rightarrow> string" where
  "severityText SeverityInfo = ''info''"
| "severityText SeverityWarning = ''warning''"
| "severityText SeverityCritical = ''critical''"

definition findingString :: "Finding \<Rightarrow> string" where
  "findingString f = ''['' @ severityText (fi_Severity f) @ ''] '' @ fi_Code f @ '': '' @ fi_Title f @ [CHR 0x0A] @
     ''  '' @ fi_Description f @ [CHR 0x0A] @ ''  rationale: '' @ fi_Rationale f"

text \<open>The map of known contracts is an association list, so that a key may map to false.\<close>

record RiskConfig =
  rc_MaxDelegateDepth :: int
  rc_MaxTotalDelegates :: int
  rc_MaxValidUntilLedgerDelta :: uint32
  rc_KnownContracts :: "(string \<times> bool) list"
  rc_MaxSubInvocations :: int
  rc_CurrentLedger :: uint32

definition DefaultRiskConfig :: RiskConfig where
  "DefaultRiskConfig = \<lparr>rc_MaxDelegateDepth = 3, rc_MaxTotalDelegates = 10, rc_MaxValidUntilLedgerDelta = 10000,
     rc_KnownContracts = [], rc_MaxSubInvocations = 50, rc_CurrentLedger = 0\<rparr>"

definition known :: "(string \<times> bool) list \<Rightarrow> string \<Rightarrow> bool" where
  "known m c = (map_of m c = Some True)"

section \<open>Walks over the summary\<close>

fun analyzeDelegates :: "NodeInfo list \<Rightarrow> int \<Rightarrow> RiskConfig \<Rightarrow> Finding list" where
  "analyzeDelegates [] depth cfg = []"
| "analyzeDelegates (d # ds) depth cfg =
     (if depth > rc_MaxDelegateDepth cfg
      then [\<lparr>fi_Code = ''DELEGATE_DEPTH_EXCEEDED'', fi_Severity = SeverityWarning,
             fi_Title = ''Delegate nesting exceeds recommended depth'',
             fi_Description = ''Delegate '' @ ni_Address d @ '' at depth '' @ itoa_int depth @
               '' (max recommended: '' @ itoa_int (rc_MaxDelegateDepth cfg) @ '')'',
             fi_Rationale = ''Deeply nested delegates are harder to audit and each level adds a signer that must approve. CAP-71-01 permits arbitrary nesting but operational complexity grows quickly.''\<rparr>]
      else []) @
     (if length (ni_Nested d) > 0 then analyzeDelegates (ni_Nested d) (depth + 1) cfg else []) @
     analyzeDelegates ds depth cfg"

fun countTotalDelegates :: "NodeInfo list \<Rightarrow> nat" where
  "countTotalDelegates [] = 0"
| "countTotalDelegates (d # ds) = 1 + countTotalDelegates (ni_Nested d) + countTotalDelegates ds"

fun countUnsignedDelegates :: "NodeInfo list \<Rightarrow> nat" where
  "countUnsignedDelegates [] = 0"
| "countUnsignedDelegates (d # ds) =
     (if \<not> ni_Signed d then 1 else 0) + countUnsignedDelegates (ni_Nested d) + countUnsignedDelegates ds"

section \<open>The ranking\<close>

fun severityOrder :: "FindingSeverity \<Rightarrow> nat" where
  "severityOrder SeverityCritical = 0"
| "severityOrder SeverityWarning = 1"
| "severityOrder SeverityInfo = 2"

text \<open>
  The sort compares position \<open>i\<close> with every later position \<open>j\<close> and swaps the two when the
  later one ranks higher. \<open>sweep x ys\<close> is the inner loop: \<open>x\<close> is what position \<open>i\<close>
  holds, \<open>ys\<close> the positions still to come; it returns what position \<open>i\<close> holds at the
  end and what the later positions hold.
\<close>

fun sweep :: "('a \<Rightarrow> nat) \<Rightarrow> 'a \<Rightarrow> 'a list \<Rightarrow> 'a \<times> 'a list" where
  "sweep key x [] = (x, [])"
| "sweep key x (y # ys) =
     (if key y < key x then (case sweep key y ys of (m, r) \<Rightarrow> (m, x # r))
      else (case sweep key x ys of (m, r) \<Rightarrow> (m, y # r)))"

lemma sweep_length: "length (snd (sweep key x ys)) = length ys"
  by (induction ys arbitrary: x) (simp_all add: case_prod_beta)

function exchangeSort :: "('a \<Rightarrow> nat) \<Rightarrow> 'a list \<Rightarrow> 'a list" where
  "exchangeSort key [] = []"
| "exchangeSort key (x # xs) = fst (sweep key x xs) # exchangeSort key (snd (sweep key x xs))"
  by pat_completeness auto
termination
  by (relation "measure (length \<circ> snd)") (auto simp: sweep_length)

section \<open>The analysis\<close>

definition sourceAccountFinding :: Finding where
  "sourceAccountFinding = \<lparr>fi_Code = ''SOURCE_ACCOUNT_WITH_DELEGATES'', fi_Severity = SeverityCritical,
     fi_Title = ''Source account credentials with delegates'',
     fi_Description = ''Source account arm does not support delegates; this entry is malformed'',
     fi_Rationale = ''The SOURCE_ACCOUNT credential arm has no delegate structure. Presence of delegates indicates a malformed entry that will fail on-chain.''\<rparr>"

text \<open>The findings in the order the checks append them.\<close>

definition rawFindings :: "SorobanAuthorizationEntry \<Rightarrow> EntryInfo \<Rightarrow> RiskConfig \<Rightarrow> Finding list" where
  "rawFindings entry info cfg =
     (let totalDelegates = countTotalDelegates (ei_Delegates info);
          delta = ei_ValidUntilLedger info - rc_CurrentLedger cfg;
          unsignedCount = countUnsignedDelegates (ei_Delegates info) in
      (if cr_Type (en_Credentials entry) = CredentialsSourceAccount \<and>
          (case cr_AddressWithDelegates (en_Credentials entry) of None \<Rightarrow> False | Some w \<Rightarrow> length (wd_Delegates w) > 0)
       then [sourceAccountFinding] else []) @
      analyzeDelegates (ei_Delegates info) 1 cfg @
      (if int totalDelegates > rc_MaxTotalDelegates cfg
       then [\<lparr>fi_Code = ''DELEGATE_COUNT_HIGH'', fi_Severity = SeverityWarning, fi_Title = ''High number of delegate signers'',
              fi_Description = ''Entry has '' @ itoa totalDelegates @ '' total delegate nodes (limit: '' @
                itoa_int (rc_MaxTotalDelegates cfg) @ '')'',
              fi_Rationale = ''Each delegate must sign the same payload. Many delegates increase coordination complexity and the chance of a signer rejecting or being unavailable.''\<rparr>]
       else []) @
      (if int (ei_SubInvocations info) > rc_MaxSubInvocations cfg
       then [\<lparr>fi_Code = ''SUB_INVOCATION_COUNT_HIGH'', fi_Severity = SeverityWarning, fi_Title = ''Deep or broad invocation tree'',
              fi_Description = ''Entry authorizes '' @ itoa (ei_SubInvocations info) @ '' sub-invocations (limit: '' @
                itoa_int (rc_MaxSubInvocations cfg) @ '')'',
              fi_Rationale = ''Each sub-invocation is a nested contract call. Complex trees are harder to audit and may indicate a contract doing more than expected.''\<rparr>]
       else []) @
      (if rc_CurrentLedger cfg > 0 \<and> ei_ValidUntilLedger info > 0 \<and> delta > rc_MaxValidUntilLedgerDelta cfg
       then [\<lparr>fi_Code = ''EXPIRATION_FAR_FUTURE'', fi_Severity = SeverityWarning,
              fi_Title = ''Signature expiration far in the future'',
              fi_Description = ''Valid until ledger '' @ itoa (unat (ei_ValidUntilLedger info)) @ '' (current: '' @
                itoa (unat (rc_CurrentLedger cfg)) @ '', delta: '' @ itoa (unat delta) @ '', limit: '' @
                itoa (unat (rc_MaxValidUntilLedgerDelta cfg)) @ '')'',
              fi_Rationale = ''A distant expiration means the signature can be reused for longer. If the signed invocation is malicious or buggy, the window for abuse is larger.''\<rparr>]
       else []) @
      (if ei_RootContract info \<noteq> '''' \<and> length (rc_KnownContracts cfg) > 0 \<and>
          \<not> known (rc_KnownContracts cfg) (ei_RootContract info)
       then [\<lparr>fi_Code = ''CONTRACT_UNKNOWN'', fi_Severity = SeverityWarning, fi_Title = ''Unfamiliar contract address'',
              fi_Description = ''Root contract '' @ ei_RootContract info @ '' is not in the known contracts list'',
              fi_Rationale = ''Signing an invocation for an unknown contract means you cannot verify its behavior. Add known contract addresses to RiskConfig.KnownContracts to suppress this.''\<rparr>]
       else []) @
      (if ei_CredentialType info = credentialTypeName CredentialsAddressWithDelegates \<and>
          length (ei_Delegates info) > 0 \<and> unsignedCount > 0
       then [\<lparr>fi_Code = ''UNSIGNED_DELEGATES'', fi_Severity = SeverityInfo, fi_Title = ''Some delegates not yet signed'',
              fi_Description = itoa unsignedCount @ '' of '' @ itoa totalDelegates @ '' delegate nodes are unsigned'',
              fi_Rationale = ''Unsigned delegates mean the entry is not yet ready for submission. This is informational; the entry will be rejected on-chain if submitted incomplete.''\<rparr>]
       else []) @
      (if ei_ValidUntilLedger info = 0 \<and> ei_CredentialType info \<noteq> credentialTypeName CredentialsSourceAccount
       then [\<lparr>fi_Code = ''EXPIRATION_ZERO'', fi_Severity = SeverityCritical,
              fi_Title = ''Signature expiration is zero (already expired)'',
              fi_Description = ''ValidUntilLedger is 0, which the host treats as already expired'',
              fi_Rationale = ''The host rejects signatures where current_ledger > signatureExpirationLedger. A value of 0 means the signature expired at genesis.''\<rparr>]
       else []) @
      (if ei_CredentialType info = credentialTypeName CredentialsSourceAccount \<and> length (ei_Delegates info) > 0
       then [sourceAccountFinding] else []) @
      (if ei_CredentialType info = credentialTypeName CredentialsAddress \<and> \<not> ei_AddressBound info
       then [\<lparr>fi_Code = ''LEGACY_CREDENTIALS_NOT_ADDRESS_BOUND'', fi_Severity = SeverityInfo,
              fi_Title = ''Legacy address credentials (not address-bound)'',
              fi_Description = ''Entry uses SOROBAN_CREDENTIALS_ADDRESS which does not bind the signer address into the payload'',
              fi_Rationale = ''Legacy credentials are vulnerable to a narrow replay case where a signature for one account could be replayed for another if they share a signing key and the contract doesn't bind the address in its arguments. V2 credentials (ADDRESS_V2 or ADDRESS_WITH_DELEGATES) close this.''\<rparr>]
       else []))"

definition Analyze :: "sdk \<Rightarrow> SorobanAuthorizationEntry \<Rightarrow> RiskConfig option \<Rightarrow> gerr + Finding list" where
  "Analyze S entry cfgo =
     (let cfg = (case cfgo of None \<Rightarrow> DefaultRiskConfig | Some c \<Rightarrow> c) in
      bindE (wrapE ''soroauth: analyze'' (Inspect S entry)) (\<lambda>info.
        Inr (exchangeSort (\<lambda>f. severityOrder (fi_Severity f)) (rawFindings entry info cfg))))"

text \<open>
  \<open>AnalyzeWithCurrentLedger\<close> writes the fetched ledger into the caller's configuration,
  which is returned beside the findings. The source is absent or answers with a ledger
  or an error.
\<close>

definition AnalyzeWithCurrentLedger ::
  "sdk \<Rightarrow> SorobanAuthorizationEntry \<Rightarrow> RiskConfig option \<Rightarrow> (gerr + uint32) option \<Rightarrow>
     RiskConfig \<times> (gerr + Finding list)" where
  "AnalyzeWithCurrentLedger S entry cfgo src =
     (let cfg = (case cfgo of None \<Rightarrow> DefaultRiskConfig | Some c \<Rightarrow> c);
          cfg' = (if rc_CurrentLedger cfg = 0
                  then (case src of Some (Inr ledger) \<Rightarrow> cfg\<lparr>rc_CurrentLedger := ledger\<rparr> | _ \<Rightarrow> cfg)
                  else cfg) in
      (cfg', Analyze S entry (Some cfg')))"

section \<open>What the ranking does\<close>

lemma sweep_spec:
  "sweep key x ys = (m, r) \<Longrightarrow>
     add_mset m (mset r) = add_mset x (mset ys) \<and> key m \<le> key x \<and> (\<forall>z \<in> set r. key m \<le> key z)"
proof (induction ys arbitrary: x m r)
  case (Cons y ys)
  show ?case
  proof (cases "key y < key x")
    case True
    then obtain r' where "sweep key y ys = (m, r')" "r = x # r'"
      using Cons.prems by (auto split: prod.splits)
    then show ?thesis using Cons.IH [of y m r'] True by (auto simp: add_mset_commute)
  next
    case False
    then obtain r' where "sweep key x ys = (m, r')" "r = y # r'"
      using Cons.prems by (auto split: prod.splits)
    then show ?thesis using Cons.IH [of x m r'] False by (auto simp: add_mset_commute)
  qed
qed simp

lemma mset_exchangeSort [simp]: "mset (exchangeSort key xs) = mset xs"
proof (induction key xs rule: exchangeSort.induct)
  case (2 key x xs)
  then show ?case using sweep_spec [of key x xs "fst (sweep key x xs)" "snd (sweep key x xs)"] by simp
qed simp

lemma set_exchangeSort [simp]: "set (exchangeSort key xs) = set xs"
  by (metis mset_exchangeSort set_mset_mset)

lemma sorted_exchangeSort: "sorted (map key (exchangeSort key xs))"
proof (induction key xs rule: exchangeSort.induct)
  case (2 key x xs)
  then show ?case using sweep_spec [of key x xs "fst (sweep key x xs)" "snd (sweep key x xs)"] by simp
qed simp

section \<open>What the findings say\<close>

lemma analyzeDelegates_warnings: "f \<in> set (analyzeDelegates ds k cfg) \<Longrightarrow> fi_Severity f = SeverityWarning"
  by (induction ds k cfg rule: analyzeDelegates.induct) (auto split: if_splits)

text \<open>A depth warning is raised exactly when some delegate lies below the configured depth.\<close>

fun treeDepth :: "NodeInfo list \<Rightarrow> nat" where
  "treeDepth [] = 0"
| "treeDepth (d # ds) = max (Suc (treeDepth (ni_Nested d))) (treeDepth ds)"

lemma analyzeDelegates_empty_iff:
  "analyzeDelegates ds k cfg = [] \<longleftrightarrow> ds = [] \<or> k + int (treeDepth ds) \<le> rc_MaxDelegateDepth cfg + 1"
proof (induction ds k cfg rule: analyzeDelegates.induct)
  case (2 d ds depth cfg)
  have "treeDepth [] = 0" by simp
  with 2 show ?case by (cases "ni_Nested d = []"; cases "ds = []") (auto split: if_splits)
qed simp

definition critical :: "Finding list \<Rightarrow> bool" where
  "critical fs = list_ex (\<lambda>f. fi_Severity f = SeverityCritical) fs"

lemma critical_iff: "critical fs \<longleftrightarrow> (\<exists>f \<in> set fs. fi_Severity f = SeverityCritical)"
  by (simp add: critical_def list_ex_iff)

lemma critical_simps [simp]:
  "\<not> critical []" "critical (f # fs) \<longleftrightarrow> fi_Severity f = SeverityCritical \<or> critical fs"
  "critical (xs @ ys) \<longleftrightarrow> critical xs \<or> critical ys"
  "critical (exchangeSort key xs) = critical xs" "\<not> critical (analyzeDelegates ds k cfg)"
  by (auto simp: critical_iff dest: analyzeDelegates_warnings)

text \<open>The two situations that block signing.\<close>

definition malformedSource :: "SorobanAuthorizationEntry \<Rightarrow> bool" where
  "malformedSource e \<longleftrightarrow> cr_Type (en_Credentials e) = CredentialsSourceAccount \<and>
     (\<exists>w. cr_AddressWithDelegates (en_Credentials e) = Some w \<and> wd_Delegates w \<noteq> [])"

definition zeroExpiration :: "SorobanAuthorizationEntry \<Rightarrow> bool" where
  "zeroExpiration e \<longleftrightarrow> (\<exists>a. addressCredentials (en_Credentials e) = Inr a \<and> ac_SignatureExpirationLedger a = 0)"

lemma credentialTypeName_source [simp]:
  "credentialTypeName t = credentialTypeName CredentialsSourceAccount \<longleftrightarrow> t = CredentialsSourceAccount"
  by (cases t) (simp_all add: credentialTypeName_def)

lemma Inspect_source:
  assumes "Inspect S e = Inr info"
  shows "ei_CredentialType info = credentialTypeName (cr_Type (en_Credentials e))"
    and "cr_Type (en_Credentials e) = CredentialsSourceAccount \<Longrightarrow> ei_Delegates info = []"
    and "cr_Type (en_Credentials e) \<noteq> CredentialsSourceAccount \<Longrightarrow>
       \<exists>a. addressCredentials (en_Credentials e) = Inr a \<and> ac_SignatureExpirationLedger a = ei_ValidUntilLedger info"
proof -
  obtain info0 info1 k where i: "inspectCredentials S e = Inr info0" "info = info1\<lparr>ei_SubInvocations := k\<rparr>"
    "sameCredentials info1 info0"
    using assms by (rule Inspect_Inr)
  show "ei_CredentialType info = credentialTypeName (cr_Type (en_Credentials e))"
    "cr_Type (en_Credentials e) = CredentialsSourceAccount \<Longrightarrow> ei_Delegates info = []"
    "cr_Type (en_Credentials e) \<noteq> CredentialsSourceAccount \<Longrightarrow>
       \<exists>a. addressCredentials (en_Credentials e) = Inr a \<and> ac_SignatureExpirationLedger a = ei_ValidUntilLedger info"
    using i by (auto simp: inspectCredentials_def sameCredentials_def Let_def bindE_Inr_iff emptyInfo_def
        split: SorobanCredentialsType.splits if_splits)
qed

lemma rawFindings_critical:
  assumes "Inspect S e = Inr info"
  shows "critical (rawFindings e info cfg) \<longleftrightarrow> malformedSource e \<or> zeroExpiration e"
proof (cases "cr_Type (en_Credentials e) = CredentialsSourceAccount")
  case True
  then have "\<not> zeroExpiration e" by (simp add: zeroExpiration_def addressCredentials_def)
  with True show ?thesis using Inspect_source(1,2) [OF assms]
    by (auto simp: rawFindings_def malformedSource_def sourceAccountFinding_def Let_def split: option.splits)
next
  case False
  then obtain a where "addressCredentials (en_Credentials e) = Inr a"
    "ac_SignatureExpirationLedger a = ei_ValidUntilLedger info"
    using Inspect_source(3) [OF assms] by blast
  with False show ?thesis using Inspect_source(1) [OF assms]
    by (auto simp: rawFindings_def malformedSource_def zeroExpiration_def Let_def)
qed

lemma Analyze_Inr_iff:
  "Analyze S e c = Inr fs \<longleftrightarrow>
     (\<exists>info. Inspect S e = Inr info \<and>
        fs = exchangeSort (\<lambda>f. severityOrder (fi_Severity f))
          (rawFindings e info (case c of None \<Rightarrow> DefaultRiskConfig | Some c \<Rightarrow> c)))"
  by (auto simp: Analyze_def Let_def bindE_Inr_iff)

text \<open>Whether a configuration blocks an entry does not depend on the configuration.\<close>

lemma Analyze_critical:
  "Analyze S e c = Inr fs \<Longrightarrow> critical fs \<longleftrightarrow> malformedSource e \<or> zeroExpiration e"
  by (auto simp: Analyze_Inr_iff rawFindings_critical)

end
