(* ===== verification/Policy.thy ===== *)
theory Policy
  imports Risk Signers
begin

text \<open>
  The policy package (\<^verbatim>\<open>src/policy/policy.go\<close>, \<^verbatim>\<open>src/policy/rules.go\<close>): a signer that
  hands a request on only when the entry rebuilt from the preimage has no critical finding,
  satisfies every rule and passes the caller's own check. A rule reports nil (\<open>None\<close>) or an
  error. The rules read the invocation's contract arm; a value whose discriminant names
  another arm has no such arm in the model, as in every decoded value.
\<close>

section \<open>Walking an invocation tree\<close>

text \<open>The loop of a check over a list: the first error, with the index it occurred at.\<close>

fun firstError :: "(nat \<Rightarrow> 'a \<Rightarrow> gerr option) \<Rightarrow> nat \<Rightarrow> 'a list \<Rightarrow> gerr option" where
  "firstError f i [] = None"
| "firstError f i (x # xs) = (case f i x of Some e \<Rightarrow> Some e | None \<Rightarrow> firstError f (Suc i) xs)"

lemma firstError_cong [fundef_cong]:
  "xs = ys \<Longrightarrow> i = j \<Longrightarrow> (\<And>k x. x \<in> set ys \<Longrightarrow> f k x = g k x) \<Longrightarrow> firstError f i xs = firstError g j ys"
proof (induction xs arbitrary: i j ys)
  case (Cons x xs)
  then show ?case by (cases ys) (auto split: option.splits)
qed simp

text \<open>
  The recursion the rules share: check the contract call of a node, then its
  sub-invocations in order, extending the path.
\<close>

function checkTree :: "(InvokeContractArgs \<Rightarrow> string \<Rightarrow> gerr option) \<Rightarrow> SorobanAuthorizedInvocation \<Rightarrow> string \<Rightarrow> gerr option" where
  "checkTree node n path =
     (case (case inv_Function n of FnContractFn (Some fn) \<Rightarrow> node fn path | _ \<Rightarrow> None) of
        Some e \<Rightarrow> Some e
      | None \<Rightarrow> firstError (\<lambda>i m. checkTree node m (path @ ''/sub['' @ itoa i @ '']'')) 0 (inv_SubInvocations n))"
  by pat_completeness auto
termination
  by (relation "measure (\<lambda>(node, n, path). size n)") (auto simp: size_SubInvocation)

declare checkTree.simps [simp del]

section \<open>The rules\<close>

record PolicyRule =
  pr_Name :: string
  pr_Evaluate :: "SorobanAuthorizationEntry \<Rightarrow> bool \<Rightarrow> gerr option"

definition contractIdToString :: "sdk \<Rightarrow> bytes option \<Rightarrow> string" where
  "contractIdToString S cid =
     (case cid of None \<Rightarrow> ''''
      | Some c \<Rightarrow> (case strkey_Encode S VersionByteContract c of
            Inl _ \<Rightarrow> ''invalid-contract-id-'' @ hex c
          | Inr address \<Rightarrow> address))"

definition contractCheck :: "sdk \<Rightarrow> string list \<Rightarrow> InvokeContractArgs \<Rightarrow> string \<Rightarrow> gerr option" where
  "contractCheck S allowed fn path =
     (let addr = ica_ContractAddress fn in
      if sa_Type addr = ScAddressTypeContract \<and> sa_ContractId addr \<noteq> None
      then let contractStr = contractIdToString S (sa_ContractId addr) in
           if contractStr \<notin> set allowed
           then Some (errmsg (''contract '' @ contractStr @ '' not in allowlist (at '' @ path @ '')''))
           else None
      else None)"

definition NewContractAllowlistRule :: "sdk \<Rightarrow> string list \<Rightarrow> gerr + PolicyRule" where
  "NewContractAllowlistRule S allowedContracts =
     bindE (mapE (\<lambda>addr. wrapE (''policy: contract allowlist: invalid address '' @ strconv_Quote addr) (ParseAddress S addr))
        allowedContracts) (\<lambda>_.
     Inr \<lparr>pr_Name = ''contract_allowlist'',
          pr_Evaluate = (\<lambda>entry credentialsKnown.
            checkTree (contractCheck S allowedContracts) (en_RootInvocation entry) ''root'')\<rparr>)"

function (sequential) checkScVal :: "64 word \<Rightarrow> ScVal \<Rightarrow> string \<Rightarrow> gerr option" where
  "checkScVal maxAmount (ScvU64 (Some v)) location =
     (if v > maxAmount
      then Some (errmsg (''amount '' @ itoa (unat v) @ '' exceeds maximum '' @ itoa (unat maxAmount) @ '' at '' @ location))
      else None)"
| "checkScVal maxAmount (ScvI64 (Some v)) location =
     (if sint v > 0 \<and> v > maxAmount
      then Some (errmsg (''amount '' @ itoa_int (sint v) @ '' exceeds maximum '' @ itoa (unat maxAmount) @ '' at '' @ location))
      else None)"
| "checkScVal maxAmount (ScvU128 (Some (hi, lo))) location =
     (if hi > 0 \<or> lo > maxAmount
      then Some (errmsg (''amount (u128) exceeds maximum '' @ itoa (unat maxAmount) @ '' at '' @ location)) else None)"
| "checkScVal maxAmount (ScvI128 (Some (hi, lo))) location =
     (if sint hi > 0 \<or> sint hi = 0 \<and> lo > 0 \<and> lo > maxAmount
      then Some (errmsg (''amount (i128) exceeds maximum '' @ itoa (unat maxAmount) @ '' at '' @ location)) else None)"
| "checkScVal maxAmount (ScvVec (Some (Some vec))) location =
     firstError (\<lambda>i x. checkScVal maxAmount x (location @ ''/vec['' @ itoa i @ '']'')) 0 vec"
| "checkScVal maxAmount (ScvMap (Some (Some m))) location =
     firstError (\<lambda>i kv. checkScVal maxAmount (snd kv) (location @ ''/map['' @ itoa i @ '']'')) 0 m"
| "checkScVal maxAmount v location = None"
  by pat_completeness auto

lemma size_map_value: "kv \<in> set m \<Longrightarrow> size (snd kv) < Suc (size_list (size_prod size (size :: ScVal \<Rightarrow> nat)) m)"
proof (induction m)
  case (Cons a m)
  then show ?case by (cases a) auto
qed simp

lemma size_vec_item: "(x :: ScVal) \<in> set xs \<Longrightarrow> size x < Suc (size_list size xs)"
  by (induction xs) auto

termination checkScVal
  by (relation "measure (\<lambda>(m, v, l). size v)") (auto dest: size_vec_item size_map_value)

definition amountCheck :: "64 word \<Rightarrow> InvokeContractArgs \<Rightarrow> string \<Rightarrow> gerr option" where
  "amountCheck maxAmount fn path =
     firstError (\<lambda>i arg. checkScVal maxAmount arg (path @ ''/arg['' @ itoa i @ '']'')) 0 (ica_Args fn)"

definition NewMaxAmountRule :: "64 word \<Rightarrow> PolicyRule" where
  "NewMaxAmountRule maxAmount =
     \<lparr>pr_Name = ''max_amount'',
      pr_Evaluate = (\<lambda>entry credentialsKnown. checkTree (amountCheck maxAmount) (en_RootInvocation entry) ''root'')\<rparr>"

definition defaultSACAdminMethods :: "string list" where
  "defaultSACAdminMethods = [''set_admin'', ''set_authorized'', ''set_authorization_entry_ttl'', ''upgrade'',
     ''set_contract_id'', ''set_spec_entries'']"

definition ForbiddenSACAdminRule :: "string list \<Rightarrow> PolicyRule" where
  "ForbiddenSACAdminRule Additional =
     (let forbidden = defaultSACAdminMethods @ Additional in
      \<lparr>pr_Name = ''forbidden_sac_admin'',
       pr_Evaluate = (\<lambda>entry credentialsKnown.
         checkTree (\<lambda>fn path.
           if ica_FunctionName fn \<in> set forbidden
           then Some (errmsg (''forbidden SAC admin method '' @ strconv_Quote (ica_FunctionName fn) @ '' called at '' @ path))
           else None) (en_RootInvocation entry) ''root'')\<rparr>)"

definition NewFunctionAllowlistRule :: "string list \<Rightarrow> PolicyRule" where
  "NewFunctionAllowlistRule allowedFunctions =
     \<lparr>pr_Name = ''function_allowlist'',
      pr_Evaluate = (\<lambda>entry credentialsKnown.
        checkTree (\<lambda>fn path.
          if ica_FunctionName fn \<notin> set allowedFunctions
          then Some (errmsg (''function '' @ strconv_Quote (ica_FunctionName fn) @ '' not in allowlist (at '' @ path @ '')''))
          else None) (en_RootInvocation entry) ''root'')\<rparr>"

definition AddressBoundRule :: PolicyRule where
  "AddressBoundRule =
     \<lparr>pr_Name = ''address_bound'',
      pr_Evaluate = (\<lambda>entry credentialsKnown.
        if \<not> credentialsKnown then None
        else case cr_Type (en_Credentials entry) of
            CredentialsAddress \<Rightarrow> Some (errmsg ''legacy ADDRESS credentials used; requires ADDRESS_V2 or ADDRESS_WITH_DELEGATES'')
          | CredentialsSourceAccount \<Rightarrow> None
          | CredentialsAddressV2 \<Rightarrow> None
          | CredentialsAddressWithDelegates \<Rightarrow> None
          | CredentialsOther t \<Rightarrow> Some (errmsg ''unknown credentials type''))\<rparr>"

section \<open>The signer\<close>

record PolicySigner =
  ps_inner :: signer
  ps_rules :: "PolicyRule list"
  ps_cfg :: "RiskConfig option"
  ps_verify :: "(SorobanAuthorizationEntry \<Rightarrow> gerr option) option"

type_synonym PolicySignerOption = "PolicySigner \<Rightarrow> PolicySigner"

definition WithRiskConfig :: "RiskConfig option \<Rightarrow> PolicySignerOption" where
  "WithRiskConfig cfg p = (if cfg \<noteq> None then p\<lparr>ps_cfg := cfg\<rparr> else p)"

definition WithCustomVerifier :: "(SorobanAuthorizationEntry \<Rightarrow> gerr option) option \<Rightarrow> PolicySignerOption" where
  "WithCustomVerifier fn p = p\<lparr>ps_verify := fn\<rparr>"

text \<open>A nil inner signer panics: \<open>None\<close>.\<close>

definition NewPolicySigner :: "signer option \<Rightarrow> PolicyRule list \<Rightarrow> PolicySignerOption list \<Rightarrow> PolicySigner option" where
  "NewPolicySigner innero rules opts =
     (case innero of None \<Rightarrow> None
      | Some inner \<Rightarrow>
          Some (foldl (\<lambda>p opt. opt p) \<lparr>ps_inner = inner, ps_rules = rules, ps_cfg = None, ps_verify = None\<rparr> opts))"

text \<open>
  The entry rebuilt from a preimage. Fields the code leaves at their zero value are the zero
  value here: a boolean value without its pointer for the signature.
\<close>

definition extractEntryFromPreimage :: "HashIdPreimage \<Rightarrow> gerr + (SorobanAuthorizationEntry \<times> bool)" where
  "extractEntryFromPreimage preimage =
     (case hp_Type preimage of
        EnvelopeTypeSorobanAuthorization \<Rightarrow>
          (case hp_SorobanAuthorization preimage of
             None \<Rightarrow> Inl (errmsg ''preimage: missing SorobanAuthorization'')
           | Some p \<Rightarrow>
               Inr (\<lparr>en_Credentials = \<lparr>cr_Type = CredentialsSourceAccount, cr_Address = None, cr_AddressV2 = None,
                                       cr_AddressWithDelegates = None\<rparr>,
                     en_RootInvocation = pa_Invocation p\<rparr>, False))
      | EnvelopeTypeSorobanAuthorizationWithAddress \<Rightarrow>
          (case hp_SorobanAuthorizationWithAddress preimage of
             None \<Rightarrow> Inl (errmsg ''preimage: missing SorobanAuthorizationWithAddress'')
           | Some p \<Rightarrow>
               Inr (\<lparr>en_Credentials = \<lparr>cr_Type = CredentialsAddressV2, cr_Address = None,
                       cr_AddressV2 = Some \<lparr>ac_Address = pw_Address p, ac_Nonce = pw_Nonce p,
                         ac_SignatureExpirationLedger = pw_SignatureExpirationLedger p, ac_Signature = ScvBool None\<rparr>,
                       cr_AddressWithDelegates = None\<rparr>,
                     en_RootInvocation = pw_Invocation p\<rparr>, True))
      | EnvelopeTypeOther t \<Rightarrow> Inl (errmsg ''preimage: unsupported type''))"

definition locateViolation :: "sdk \<Rightarrow> SorobanAuthorizationEntry \<Rightarrow> string" where
  "locateViolation S entry =
     (case inv_Function (en_RootInvocation entry) of
        FnContractFn (Some fn) \<Rightarrow>
          (if sa_ContractId (ica_ContractAddress fn) \<noteq> None
           then contractIdToString S (sa_ContractId (ica_ContractAddress fn)) else ''entry'')
      | _ \<Rightarrow> ''entry'')"

text \<open>The first critical finding, and the first rule that refuses.\<close>

definition criticalRefusal :: "Finding list \<Rightarrow> gerr option" where
  "criticalRefusal findings =
     firstError (\<lambda>_ f. if fi_Severity f = SeverityCritical
        then Some (PolicyRefusalError (''risk:'' @ fi_Code f) ''entry'' (Some (errmsg (fi_Description f)))) else None)
       0 findings"

definition ruleRefusal :: "sdk \<Rightarrow> PolicyRule list \<Rightarrow> SorobanAuthorizationEntry \<Rightarrow> bool \<Rightarrow> gerr option" where
  "ruleRefusal S rules entry credentialsKnown =
     firstError (\<lambda>_ rule. map_option (\<lambda>err. PolicyRefusalError (pr_Name rule) (locateViolation S entry) (Some err))
        (pr_Evaluate rule entry credentialsKnown)) 0 rules"

text \<open>
  \<open>Sign\<close>. The signer stores the default configuration in itself the first time it needs
  one, so a call returns the signer's new state beside its answer.
\<close>

definition policySign ::
  "sdk \<Rightarrow> PolicySigner \<Rightarrow> ctx \<Rightarrow> HashIdPreimage \<Rightarrow> bytes \<Rightarrow> PolicySigner \<times> (gerr + ScVal)" where
  "policySign S p ctx preimage payload =
     (case ctx of Some err \<Rightarrow> (p, Inl (errw ''policy: sign'' err))
      | None \<Rightarrow>
        (case extractEntryFromPreimage preimage of
           Inl err \<Rightarrow> (p, Inl (PolicyRefusalError ''decode'' ''preimage''
                              (Some (errw ''failed to extract entry from preimage'' err))))
         | Inr (entry, credentialsKnown) \<Rightarrow>
             let p' = (if ps_cfg p = None then p\<lparr>ps_cfg := Some DefaultRiskConfig\<rparr> else p) in
             (p',
              case Analyze S entry (ps_cfg p') of
                Inl err \<Rightarrow> Inl (PolicyRefusalError ''analyze'' ''entry'' (Some (errw ''risk analysis failed'' err)))
              | Inr findings \<Rightarrow>
                  (case criticalRefusal findings of
                     Some e \<Rightarrow> Inl e
                   | None \<Rightarrow>
                     (case ruleRefusal S (ps_rules p') entry credentialsKnown of
                        Some e \<Rightarrow> Inl e
                      | None \<Rightarrow>
                        (case (case ps_verify p' of None \<Rightarrow> None | Some verify \<Rightarrow> verify entry) of
                           Some err \<Rightarrow> Inl (PolicyRefusalError ''custom'' ''entry'' (Some err))
                         | None \<Rightarrow> sg_Sign (ps_inner p') ctx preimage payload))))))"

text \<open>The signer as a value of the interface.\<close>

definition policySigner :: "sdk \<Rightarrow> PolicySigner \<Rightarrow> signer" where
  "policySigner S p = \<lparr>sg_Address = sg_Address (ps_inner p),
     sg_Sign = (\<lambda>ctx preimage payload. snd (policySign S p ctx preimage payload))\<rparr>"

section \<open>What the rules accept\<close>

lemma firstError_accepts:
  assumes "\<And>i x. x \<in> set xs \<Longrightarrow> f i x = None \<longleftrightarrow> P x"
  shows "firstError f k xs = None \<longleftrightarrow> (\<forall>x \<in> set xs. P x)"
  using assms
proof (induction xs arbitrary: k)
  case (Cons x xs)
  then have "f k x = None \<longleftrightarrow> P x" "firstError f (Suc k) xs = None \<longleftrightarrow> (\<forall>y \<in> set xs. P y)" by simp_all
  then show ?case by (cases "f k x") auto
qed simp

text \<open>
  A walk whose node check accepts exactly the calls with a property accepts exactly the
  trees all of whose calls have it; paths matter to the message only.
\<close>

lemma checkTree_accepts:
  assumes "\<And>fn path. node fn path = None \<longleftrightarrow> P fn"
  shows "checkTree node n path = None \<longleftrightarrow> (\<forall>fn \<in> set (contractCalls [n]). P fn)"
proof (induction n arbitrary: path)
  case (Invocation f subs)
  have "firstError (\<lambda>i m. checkTree node m (path @ ''/sub['' @ itoa i @ '']'')) 0 subs = None \<longleftrightarrow>
      (\<forall>m \<in> set subs. \<forall>fn \<in> set (contractCalls [m]). P fn)"
    by (rule firstError_accepts) (rule Invocation.IH)
  then have "firstError (\<lambda>i m. checkTree node m (path @ ''/sub['' @ itoa i @ '']'')) 0 subs = None \<longleftrightarrow>
      (\<forall>fn \<in> set (contractCalls subs). P fn)"
    unfolding set_contractCalls [of subs] by simp
  then show ?case
    unfolding checkTree.simps [of node "Invocation f subs" path] SorobanAuthorizedInvocation.sel contractCalls.simps
      append_Nil2 set_append ball_Un
    using assms [of _ path] by (cases f) (auto split: option.split simp flip: not_None_eq)
qed

definition contractAllowed :: "sdk \<Rightarrow> string list \<Rightarrow> InvokeContractArgs \<Rightarrow> bool" where
  "contractAllowed S allowed fn \<longleftrightarrow>
     (\<forall>c. sa_Type (ica_ContractAddress fn) = ScAddressTypeContract \<and> sa_ContractId (ica_ContractAddress fn) = Some c \<longrightarrow>
        contractIdToString S (Some c) \<in> set allowed)"

lemma contractCheck_accepts: "contractCheck S allowed fn path = None \<longleftrightarrow> contractAllowed S allowed fn"
  by (auto simp: contractCheck_def contractAllowed_def Let_def)

lemma contract_allowlist_accepts:
  assumes "NewContractAllowlistRule S allowed = Inr r"
  shows "pr_Evaluate r e k = None \<longleftrightarrow>
     (\<forall>fn \<in> set (contractCalls [en_RootInvocation e]). contractAllowed S allowed fn)"
proof -
  have "pr_Evaluate r = (\<lambda>entry _. checkTree (contractCheck S allowed) (en_RootInvocation entry) ''root'')"
    using assms by (auto simp: NewContractAllowlistRule_def bindE_Inr_iff)
  then show ?thesis by (simp only: checkTree_accepts [OF contractCheck_accepts])
qed

lemma function_allowlist_accepts:
  "pr_Evaluate (NewFunctionAllowlistRule allowed) e k = None \<longleftrightarrow>
     (\<forall>fn \<in> set (contractCalls [en_RootInvocation e]). ica_FunctionName fn \<in> set allowed)"
  unfolding NewFunctionAllowlistRule_def PolicyRule.select_convs by (rule checkTree_accepts) simp

lemma forbidden_admin_accepts:
  "pr_Evaluate (ForbiddenSACAdminRule extra) e k = None \<longleftrightarrow>
     (\<forall>fn \<in> set (contractCalls [en_RootInvocation e]). ica_FunctionName fn \<notin> set (defaultSACAdminMethods @ extra))"
  unfolding ForbiddenSACAdminRule_def Let_def PolicyRule.select_convs by (rule checkTree_accepts) simp

text \<open>
  The amounts a value holds: the numbers of up to 128 bits, read at their full width and
  sign, in vectors and in the values of maps.
\<close>

fun amounts :: "ScVal \<Rightarrow> int list" where
  "amounts (ScvU64 (Some v)) = [uint v]"
| "amounts (ScvI64 (Some v)) = [sint v]"
| "amounts (ScvU128 (Some (hi, lo))) = [uint hi * 2 ^ 64 + uint lo]"
| "amounts (ScvI128 (Some (hi, lo))) = [sint hi * 2 ^ 64 + uint lo]"
| "amounts (ScvVec (Some (Some vec))) = concat (map amounts vec)"
| "amounts (ScvMap (Some (Some m))) = concat (map (\<lambda>(k, v). amounts v) m)"
| "amounts v = []"

lemma high_limb: "(h :: int) \<ge> 1 \<Longrightarrow> 0 \<le> l \<Longrightarrow> m < 2 ^ 64 \<Longrightarrow> \<not> h * 2 ^ 64 + l \<le> m"
  by simp

lemma negative_limb: "(h :: int) < 0 \<Longrightarrow> l < 2 ^ 64 \<Longrightarrow> 0 \<le> m \<Longrightarrow> h * 2 ^ 64 + l \<le> m"
  by simp

lemma u128_bound:
  fixes hi lo m :: "64 word"
  shows "uint hi * 2 ^ 64 + uint lo \<le> uint m \<longleftrightarrow> \<not> (hi > 0 \<or> lo > m)"
proof -
  have b: "uint m < 2 ^ 64" "0 \<le> uint lo" "0 \<le> uint hi" using uint_lt2p [of m] by simp_all
  show ?thesis
  proof (cases "hi = 0")
    case False
    then have "uint hi \<ge> 1" using b by (metis int_one_le_iff_zero_less order_le_less uint_0_iff)
    then have "\<not> uint hi * 2 ^ 64 + uint lo \<le> uint m" using high_limb b(1,2) by blast
    then show ?thesis using False by (simp only: word_neq_0_conv simp_thms)
  qed (simp add: word_less_def not_less)
qed

lemma i128_bound:
  fixes hi lo m :: "64 word"
  shows "sint hi * 2 ^ 64 + uint lo \<le> uint m \<longleftrightarrow> \<not> (sint hi > 0 \<or> sint hi = 0 \<and> lo > 0 \<and> lo > m)"
proof -
  have b: "uint m < 2 ^ 64" "0 \<le> uint lo" "uint lo < 2 ^ 64" "0 \<le> uint m"
    using uint_lt2p [of m] uint_lt2p [of lo] by simp_all
  consider "sint hi > 0" | "sint hi = 0" | "sint hi < 0" by linarith
  then show ?thesis
  proof cases
    case 1
    then have "\<not> sint hi * 2 ^ 64 + uint lo \<le> uint m" using high_limb [OF _ b(2,1)] by (simp only: int_one_le_iff_zero_less not_False_eq_True)
    then show ?thesis using 1 by simp
  next
    case 2
    then show ?thesis using b by (auto simp: word_less_def not_less)
  next
    case 3
    then have "sint hi * 2 ^ 64 + uint lo \<le> uint m" using negative_limb [OF _ b(3,4)] by blast
    then show ?thesis using 3 by simp
  qed
qed

lemma i64_bound:
  fixes v m :: "64 word"
  shows "sint v \<le> uint m \<longleftrightarrow> \<not> (sint v > 0 \<and> v > m)"
proof (cases "sint v > 0")
  case True
  then have "uint v = sint v"
    using uint_sint [of v] sint_lt [of v] by (simp add: take_bit_int_eq_self)
  then show ?thesis using True by (simp add: word_less_def not_less)
next
  case False
  then show ?thesis using uint_ge_0 [of m] by linarith
qed

lemma checkScVal_accepts: "checkScVal m v loc = None \<longleftrightarrow> (\<forall>a \<in> set (amounts v). a \<le> uint m)"
proof (induction m v loc rule: checkScVal.induct)
  case (3 m hi lo loc)
  then show ?case using u128_bound [of hi lo m] by auto
next
  case (4 m hi lo loc)
  then show ?case using i128_bound [of hi lo m] by auto
next
  case (5 m vec loc)
  then show ?case using firstError_accepts [of vec _ "\<lambda>x. \<forall>a \<in> set (amounts x). a \<le> uint m"] by simp
next
  case (6 m kvs loc)
  then show ?case
    using firstError_accepts [of kvs _ "\<lambda>kv. \<forall>a \<in> set (amounts (snd kv)). a \<le> uint m"] by (simp add: case_prod_beta)
qed (simp_all add: i64_bound word_less_def not_less)

lemma amountCheck_accepts:
  "amountCheck m fn path = None \<longleftrightarrow> (\<forall>arg \<in> set (ica_Args fn). \<forall>a \<in> set (amounts arg). a \<le> uint m)"
  unfolding amountCheck_def by (rule firstError_accepts) (rule checkScVal_accepts)

section \<open>What the signer lets through\<close>

text \<open>The requests the policy approves.\<close>

definition approves :: "sdk \<Rightarrow> PolicySigner \<Rightarrow> HashIdPreimage \<Rightarrow> bool" where
  "approves S p preimage \<longleftrightarrow>
     (\<exists>entry known. extractEntryFromPreimage preimage = Inr (entry, known) \<and>
        isOk (Inspect S entry) \<and> \<not> zeroExpiration entry \<and>
        (\<forall>r \<in> set (ps_rules p). pr_Evaluate r entry known = None) \<and>
        (\<forall>verify. ps_verify p = Some verify \<longrightarrow> verify entry = None))"

lemma criticalRefusal_None: "criticalRefusal fs = None \<longleftrightarrow> \<not> critical fs"
proof -
  have "criticalRefusal fs = None \<longleftrightarrow> (\<forall>f \<in> set fs. fi_Severity f \<noteq> SeverityCritical)"
    unfolding criticalRefusal_def by (rule firstError_accepts) simp
  then show ?thesis by (simp add: critical_iff)
qed

lemma ruleRefusal_None: "ruleRefusal S rules e k = None \<longleftrightarrow> (\<forall>r \<in> set rules. pr_Evaluate r e k = None)"
  unfolding ruleRefusal_def by (rule firstError_accepts) simp

lemma firstError_Some_Is:
  "firstError f k xs = Some e \<Longrightarrow> (\<And>i x e'. f i x = Some e' \<Longrightarrow> errors_Is e' t) \<Longrightarrow> errors_Is e t"
  by (induction xs arbitrary: k) (auto split: option.splits)

lemma refusals_are_policy:
  "criticalRefusal fs = Some e \<Longrightarrow> errors_Is e ErrPolicyRefusal"
  "ruleRefusal S rules en k = Some e \<Longrightarrow> errors_Is e ErrPolicyRefusal"
  unfolding criticalRefusal_def ruleRefusal_def
  by (erule firstError_Some_Is, auto split: if_splits)+

lemma extracted_not_malformed:
  "extractEntryFromPreimage q = Inr (e, k) \<Longrightarrow> \<not> malformedSource e"
  by (auto simp: extractEntryFromPreimage_def malformedSource_def split: EnvelopeType.splits option.splits)

text \<open>The stored default configuration changes no later answer.\<close>

lemma policySign_memo:
  "snd (policySign S (fst (policySign S p ctx q h)) ctx' q' h') = snd (policySign S p ctx' q' h')"
  by (auto simp: policySign_def Let_def Analyze_def split: option.splits sum.splits)

lemma policySign_exact:
  "if approves S p q then snd (policySign S p None q h) = sg_Sign (ps_inner p) None q h
   else failsWith (snd (policySign S p None q h)) ErrPolicyRefusal"
proof (cases "extractEntryFromPreimage q")
  case (Inl err)
  then show ?thesis by (simp add: approves_def policySign_def)
next
  case (Inr ek)
  obtain e k where ek: "ek = (e, k)" by force
  note ex = Inr [unfolded ek]
  define c where "c = ps_cfg (if ps_cfg p = None then p\<lparr>ps_cfg := Some DefaultRiskConfig\<rparr> else p)"
  show ?thesis
  proof (cases "Analyze S e c")
    case (Inl err)
    then have "\<not> isOk (Inspect S e)" by (cases "Inspect S e") (auto simp: Analyze_def Let_def)
    then show ?thesis using ex Inl by (simp add: approves_def policySign_def Let_def c_def)
  next
    case (Inr fs)
    then have i: "isOk (Inspect S e)" "criticalRefusal fs = None \<longleftrightarrow> \<not> zeroExpiration e"
      using extracted_not_malformed [OF ex] Analyze_critical [OF Inr]
      by (auto simp: Analyze_Inr_iff criticalRefusal_None)
    show ?thesis
      using ex Inr i ruleRefusal_None [of S "ps_rules p" e k]
      by (auto simp: approves_def policySign_def Let_def c_def refusals_are_policy split: option.splits)
  qed
qed

end
