(* ===== verification/Policy_Properties.thy ===== *)
theory Policy_Properties
  imports Policy Sample_Sdk
begin

text \<open>
  What the risk analysis reports and what the policy signer lets through, alone and inside
  \<open>AuthorizeEntry\<close>.
\<close>

section \<open>The risk report\<close>

text \<open>
  A report holds every finding the checks raised, each as often as it was raised and
  nothing else, with critical findings first, then warnings, then notes. It holds a critical
  finding exactly when the entry is a source-account entry that carries delegates or an
  address entry whose expiration is zero, whatever the configuration.
\<close>

lemma analyze_ranked:
  assumes "Analyze S e c = Inr fs"
  shows "(\<exists>info. Inspect S e = Inr info \<and>
            mset fs = mset (rawFindings e info (case c of None \<Rightarrow> DefaultRiskConfig | Some c \<Rightarrow> c))) \<and>
    sorted (map (\<lambda>f. severityOrder (fi_Severity f)) fs) \<and>
    (critical fs \<longleftrightarrow> malformedSource e \<or> zeroExpiration e)"
proof -
  obtain info where i: "Inspect S e = Inr info" "fs = exchangeSort (\<lambda>f. severityOrder (fi_Severity f))
      (rawFindings e info (case c of None \<Rightarrow> DefaultRiskConfig | Some c \<Rightarrow> c))"
    using assms by (auto simp: Analyze_Inr_iff)
  then show ?thesis using Analyze_critical [OF assms] by (simp add: sorted_exchangeSort)
qed

lemma sample_inspects: "isOk (Inspect sampleSdk entryV2)"
  unfolding isOk_iff
  by (simp add: Inspect_def inspectCredentials_def entryV2_def sampleCredentials_def addressCredentials_def
      emptyInfo_def sampleInvocation_def countSubInvocations.simps checkTraversalDepth_def MaxDecodeDepth_def)

lemma sample_analyzes: "isOk (Analyze sampleSdk entryV2 None)"
  using sample_inspects by (auto simp: Analyze_def Let_def isOk_bindE isOk_iff)

text \<open>
  When the far-future warning is raised. The distance to the expiration is computed in
  32-bit arithmetic, so the warning is raised when the expiration is more than the limit
  ahead of the current ledger, and also when it lies in the past by less than the complement
  of the limit: an entry that has just expired is reported as expiring far in the future.
\<close>

lemma far_future_exact:
  assumes "Inspect S e = Inr info"
  shows "''EXPIRATION_FAR_FUTURE'' \<in> fi_Code ` set (rawFindings e info cfg) \<longleftrightarrow>
    0 < unat (rc_CurrentLedger cfg) \<and> 0 < unat (ei_ValidUntilLedger info) \<and>
    (if unat (rc_CurrentLedger cfg) \<le> unat (ei_ValidUntilLedger info)
     then unat (rc_CurrentLedger cfg) + unat (rc_MaxValidUntilLedgerDelta cfg) < unat (ei_ValidUntilLedger info)
     else unat (rc_CurrentLedger cfg) + unat (rc_MaxValidUntilLedgerDelta cfg) < unat (ei_ValidUntilLedger info) + 2 ^ 32)"
proof -
  define v c m where "v = ei_ValidUntilLedger info" and "c = rc_CurrentLedger cfg" and "m = rc_MaxValidUntilLedgerDelta cfg"
  have "f \<in> set (analyzeDelegates ds k cfg) \<Longrightarrow> fi_Code f = ''DELEGATE_DEPTH_EXCEEDED''" for f ds k
    by (induction ds k cfg rule: analyzeDelegates.induct) (auto split: if_splits)
  then have "''EXPIRATION_FAR_FUTURE'' \<in> fi_Code ` set (rawFindings e info cfg) \<longleftrightarrow> c > 0 \<and> v > 0 \<and> v - c > m"
    by (auto simp: rawFindings_def Let_def sourceAccountFinding_def v_def c_def m_def image_Un)
  moreover have "v - c > m \<longleftrightarrow> unat m < (if unat c \<le> unat v then unat v - unat c else unat v + 2 ^ 32 - unat c)"
    using unsigned_less [of c, where ?'a = nat] by (simp add: word_less_nat_alt unat_sub_if')
  ultimately show ?thesis using unsigned_less [of c, where ?'a = nat] unfolding v_def [symmetric] c_def [symmetric] m_def [symmetric]
    by (auto simp: word_less_nat_alt less_diff_conv)
qed

text \<open>An entry that expires at ledger 100, looked at one ledger later.\<close>

definition entryExpiring :: SorobanAuthorizationEntry where
  "entryExpiring =
     \<lparr>en_Credentials = \<lparr>cr_Type = CredentialsAddressV2, cr_Address = None,
        cr_AddressV2 = Some ((sampleCredentials (accountAddress (keyOf 1)))\<lparr>ac_SignatureExpirationLedger := 100\<rparr>),
        cr_AddressWithDelegates = None\<rparr>, en_RootInvocation = sampleInvocation\<rparr>"

section \<open>The policy signer\<close>

text \<open>
  The policy signer is exactly a filter. A request the policy approves (its preimage
  rebuilds to an entry that can be inspected, does not expire at zero, passes every rule and
  the caller's check) gets the inner signer's own answer; every other request is refused
  with \<open>ErrPolicyRefusal\<close>.
\<close>

lemma policy_signer_exact:
  "if approves S p q then snd (policySign S p None q h) = sg_Sign (ps_inner p) None q h
   else failsWith (snd (policySign S p None q h)) ErrPolicyRefusal"
  by (rule policySign_exact)

text \<open>
  C9: signing an entry through a policy that holds a contract allowlist succeeds only when
  every contract the signed entry's invocation tree calls, at any depth, is on the list, and
  the inner signer signed the payload of that entry.
\<close>

theorem policy_guards_authorize:
  assumes "authorized S ctx e (Some (policySigner S p)) v net opts = Inr e'"
    and "cr_Type (en_Credentials e) \<noteq> CredentialsSourceAccount" and "entry_roundtrips S e"
    and "\<And>q. buildPreimage S e v net = Inr q \<Longrightarrow> preimage_roundtrips S q"
    and "NewContractAllowlistRule S allowed = Inr r" and "r \<in> set (ps_rules p)"
  shows "list_all (contractAllowed S allowed) (contractCalls [en_RootInvocation e']) \<and>
    (\<exists>q h sig. Preimage S e v net = Inr q \<and> Payload S q = Inr h \<and> sg_Sign (ps_inner p) None q h = Inr sig)"
proof -
  obtain sg target enc scope a nodes q h sig where s: "Some (policySigner S p) = Some sg"
    "addressCredentials (en_Credentials e) = Inr a"
    "Preimage S e v net = Inr q" "Payload S q = Inr h" "sg_Sign sg None q h = Inr sig"
    "e' = signedEntry S enc sig v e"
    using AuthorizeEntry_signs [OF assms(1-3)] .
  then have "snd (policySign S p None q h) = Inr sig" by (auto simp: policySigner_def)
  then have ok: "approves S p q" "sg_Sign (ps_inner p) None q h = Inr sig"
    using policySign_exact [of S p q h] by (auto split: if_splits)
  obtain q' where "buildPreimage S e v net = Inr q'" "copyPreimage S q' = Inr q"
    using s(3) by (auto simp: Preimage_Inr_build)
  then have "buildPreimage S e v net = Inr q" using assms(4) copyPreimage_id by auto
  then obtain b where q: "q = specPreimage S b a (en_RootInvocation e) v net"
    using s(2) by (auto simp: buildPreimage_Inr_iff)
  obtain en k where en: "extractEntryFromPreimage q = Inr (en, k)" "pr_Evaluate r en k = None"
    using ok(1) assms(6) by (auto simp: approves_def)
  have "en_RootInvocation en = en_RootInvocation e"
    using en(1) q by (auto simp: extractEntryFromPreimage_def specPreimage_def split: if_splits)
  moreover have "en_RootInvocation e' = en_RootInvocation e" using s(6) by simp
  ultimately show ?thesis
    using en(2) contract_allowlist_accepts [OF assms(5)] s(3,4) ok(2) by (auto simp: list_all_iff simp del: contractCalls.simps)
qed

text \<open>The policy of the witness: the sample key behind an allowlist of one contract.\<close>

definition sampleRule :: PolicyRule where
  "sampleRule = \<lparr>pr_Name = ''contract_allowlist'', pr_Evaluate = (\<lambda>entry credentialsKnown.
     checkTree (contractCheck sampleSdk [''CA'']) (en_RootInvocation entry) ''root'')\<rparr>"

definition samplePolicy :: PolicySigner where
  "samplePolicy = \<lparr>ps_inner = sampleSigner, ps_rules = [sampleRule], ps_cfg = None, ps_verify = None\<rparr>"

lemma sampleRule_new: "NewContractAllowlistRule sampleSdk [''CA''] = Inr sampleRule"
  by (simp add: NewContractAllowlistRule_def sampleRule_def)

lemma sample_approves: "approves sampleSdk samplePolicy (preimageBound (accountAddress (keyOf 1)))"
proof -
  define en where "en = fst (projr (extractEntryFromPreimage (preimageBound (accountAddress (keyOf 1)))))"
  have x: "extractEntryFromPreimage (preimageBound (accountAddress (keyOf 1))) = Inr (en, True)"
    "en_RootInvocation en = sampleInvocation"
    by (simp_all add: en_def extractEntryFromPreimage_def preimageBound_def)
  have "isOk (Inspect sampleSdk en)" "\<not> zeroExpiration en"
    unfolding isOk_iff
    by (simp_all add: en_def extractEntryFromPreimage_def preimageBound_def Inspect_def inspectCredentials_def
        addressCredentials_def zeroExpiration_def emptyInfo_def sampleInvocation_def countSubInvocations.simps
        checkTraversalDepth_def MaxDecodeDepth_def)
  moreover have "pr_Evaluate sampleRule en True = None"
    unfolding contract_allowlist_accepts [OF sampleRule_new] x(2)
    by (simp add: sampleInvocation_def contractAllowed_def contractAddress_def contractIdToString_def sampleSdk_def
        sample_defs)
  ultimately show ?thesis using x(1) unfolding approves_def
    by (intro exI [of _ en] exI [of _ True]) (simp add: samplePolicy_def)
qed

lemma sample_policy_authorizes:
  "authorized sampleSdk None entryV2 (Some (policySigner sampleSdk samplePolicy)) 100 sampleNetwork [] =
     Inr (signedEntry sampleSdk (0 # keyOf 1) (sampleSignature 1) 100 entryV2)"
proof -
  have "snd (policySign sampleSdk samplePolicy None (preimageBound (accountAddress (keyOf 1))) (keyOf 1)) = Inr (sampleSignature 1)"
    using policySign_exact [of sampleSdk samplePolicy "preimageBound (accountAddress (keyOf 1))" "keyOf 1"] sample_approves
    by (simp add: samplePolicy_def)
  then have sign: "sg_Sign (policySigner sampleSdk samplePolicy) None (preimageBound (accountAddress (keyOf 1))) (keyOf 1) =
      Inr (sampleSignature 1)"
    by (simp add: policySigner_def)
  have tgt: "resolveTarget sampleSdk zeroConfig (policySigner sampleSdk samplePolicy) = resolveTarget sampleSdk zeroConfig sampleSigner"
    by (simp add: resolveTarget_def policySigner_def samplePolicy_def)
  show ?thesis
    by (rule AuthorizeEntry_fresh [OF copyEntry_id [OF sample_roundtrips(3)] sample_credentials(2) _ tgt [THEN trans, OF sample_target] _
        sample_nodes(2) _ _ sample_builds(2) sample_payloads(2) sign]) simp_all
qed

theorem policy_guards_authorize_witness:
  "contractAllowed sampleSdk [''CA''] \<lparr>ica_ContractAddress = contractAddress (keyOf 3),
     ica_FunctionName = ''transfer'', ica_Args = []\<rparr>"
proof -
  have "preimage_roundtrips sampleSdk q" if "buildPreimage sampleSdk entryV2 100 sampleNetwork = Inr q" for q
    using that by (auto simp: buildPreimage_Inr_iff entryV2_def addressCredentials_def specPreimage_def sampleCredentials_def
        simp flip: preimageBound_def)
  then show ?thesis
    using policy_guards_authorize [OF sample_policy_authorizes _ _ _ sampleRule_new]
    by (simp add: samplePolicy_def) (simp add: sampleInvocation_def)
qed


text \<open>
  The address-bound rule never refuses anything: whatever the request, a policy with
  the rule in front answers exactly as the policy without it. The entry it judges is
  rebuilt from the preimage and never has the legacy arm it looks for.
\<close>

lemma address_bound_rule_vacuous:
  "snd (policySign S (p\<lparr>ps_rules := AddressBoundRule # rules\<rparr>) ctx q h) =
     snd (policySign S (p\<lparr>ps_rules := rules\<rparr>) ctx q h)"
proof -
  have "ruleRefusal S (AddressBoundRule # rules) e k = ruleRefusal S rules e k"
    if "extractEntryFromPreimage q = Inr (e, k)" for e k
  proof -
    have "pr_Evaluate AddressBoundRule e k = None"
      using that by (auto simp: AddressBoundRule_def extractEntryFromPreimage_def split: EnvelopeType.splits option.splits)
    moreover have "firstError (\<lambda>_. g) (Suc 0) rules = firstError (\<lambda>_. g) 0 rules" for g :: "PolicyRule \<Rightarrow> gerr option"
    proof -
      have "firstError (\<lambda>_. g) i rules = firstError (\<lambda>_. g) j rules" for i j
        by (induction rules arbitrary: i j) (auto split: option.splits)
      then show ?thesis by simp
    qed
    ultimately show ?thesis by (simp add: ruleRefusal_def)
  qed
  then show ?thesis by (auto simp: policySign_def Let_def split: option.splits sum.splits)
qed

end
