(* ===== verification/Diff.thy ===== *)
theory Diff
  imports Inspection "HOL-Library.Product_Lexorder"
begin

text \<open>
  Comparing two entries (\<^verbatim>\<open>src/diff.go\<close>): the list of differences, which of them move the
  signed payload, and the signatures that went stale. The change list the Go code appends to
  is returned; a map keyed by path is a HOL map.
\<close>

section \<open>Changes\<close>

datatype ChangeKind =
    ChangeKindArm
  | ChangeKindAddress
  | ChangeKindNonce
  | ChangeKindExpiration
  | ChangeKindInvocation
  | ChangeKindDelegateAdded
  | ChangeKindDelegateRemoved
  | ChangeKindSignature

fun kindText :: "ChangeKind \<Rightarrow> string" where
  "kindText ChangeKindArm = ''arm''"
| "kindText ChangeKindAddress = ''address''"
| "kindText ChangeKindNonce = ''nonce''"
| "kindText ChangeKindExpiration = ''expiration''"
| "kindText ChangeKindInvocation = ''invocation''"
| "kindText ChangeKindDelegateAdded = ''delegate_added''"
| "kindText ChangeKindDelegateRemoved = ''delegate_removed''"
| "kindText ChangeKindSignature = ''signature''"

record Change =
  ch_Kind :: ChangeKind
  ch_Path :: string
  ch_From :: string
  ch_To :: string
  ch_AffectsPayload :: bool

record EntryDiff =
  df_Identical :: bool
  df_PayloadChanged :: bool
  df_SignaturesChanged :: bool
  df_StaleSignatures :: "string list"
  df_Changes :: "Change list"
  df_Summary :: string
  df_Note :: string

definition topLevelNodePath :: string where
  "topLevelNodePath = ''credentials''"

section \<open>Nodes by path\<close>

record diffNode =
  dn_path :: string
  dn_signature :: ScVal

function (sequential) diffNodesOf ::
    "sdk \<Rightarrow> string \<Rightarrow> SorobanDelegateSignature list \<Rightarrow> nat \<Rightarrow> gerr + diffNode list"
  and diffNodesLoop ::
    "sdk \<Rightarrow> string \<Rightarrow> (string \<Rightarrow> nat) \<Rightarrow> SorobanDelegateSignature list \<Rightarrow> nat \<Rightarrow> gerr + diffNode list" where
  "diffNodesOf S prefix delegates depth =
     bindE (checkTraversalDepth depth) (\<lambda>_. diffNodesLoop S prefix (\<lambda>_. 0) delegates depth)"
| "diffNodesLoop S prefix seen [] depth = Inr []"
| "diffNodesLoop S prefix seen (d # ds) depth =
     bindE (FormatAddress S (ds_Address d)) (\<lambda>address.
     let base = prefix @ ''['' @ address @ '']'';
         n = seen base + 1;
         path = (if n > 1 then base @ ''#'' @ itoa n else base) in
     bindE (diffNodesOf S (path @ ''.nested'') (ds_NestedDelegates d) (depth + 1)) (\<lambda>nested.
     bindE (diffNodesLoop S prefix (seen(base := n)) ds depth) (\<lambda>out.
       Inr (\<lparr>dn_path = path, dn_signature = ds_Signature d\<rparr> # nested @ out))))"
  by pat_completeness auto
termination
  by (relation "measure (case_sum (\<lambda>(S, p, ns, d). 2 * size_list size ns + 1) (\<lambda>(S, p, s, ns, d). 2 * size_list size ns))")
    (auto simp: size_NestedDelegates_double)

declare diffNodesOf.simps [simp del]

definition diffNodes :: "sdk \<Rightarrow> SorobanAuthorizationEntry \<Rightarrow> gerr + diffNode list" where
  "diffNodes S entry =
     (if cr_Type (en_Credentials entry) = CredentialsSourceAccount then Inr []
      else bindE (addressCredentials (en_Credentials entry)) (\<lambda>credentials.
        let nodes = [\<lparr>dn_path = topLevelNodePath, dn_signature = ac_Signature credentials\<rparr>] in
        if cr_Type (en_Credentials entry) = CredentialsAddressWithDelegates
        then bindE (diffNodesOf S ''credentials.delegates'' (delegatesOf entry) 1) (\<lambda>delegates. Inr (nodes @ delegates))
        else Inr nodes))"

definition renderSignature :: "sdk \<Rightarrow> ScVal \<Rightarrow> string" where
  "renderSignature S v =
     (if \<not> isSigned v then ''unsigned''
      else let shape = DescribeSignature S v in
        case ScVal_MarshalBinary S v of
          Inl _ \<Rightarrow> sh_Description shape @ '' (unencodable)''
        | Inr encoded \<Rightarrow> sh_Description shape @ '' (sha256:'' @ hex (take 4 (sha256_Sum256 S encoded)) @ '')'')"

section \<open>Comparing invocations\<close>

definition xdrEqual :: "('v \<Rightarrow> gerr + bytes) \<Rightarrow> 'v \<Rightarrow> 'v \<Rightarrow> gerr + bool" where
  "xdrEqual marshal a b =
     bindE (wrapE ''encoding'' (marshal a)) (\<lambda>left.
     bindE (wrapE ''encoding'' (marshal b)) (\<lambda>right. Inr (left = right)))"

definition presence :: "bool \<Rightarrow> string" where
  "presence p = (if p then ''present'' else ''absent'')"

text \<open>The discriminant of a function: its arm.\<close>

fun functionType :: "SorobanAuthorizedFunction \<Rightarrow> nat" where
  "functionType (FnContractFn _) = 0"
| "functionType (FnCreateContractHostFn _) = 1"
| "functionType (FnCreateContractV2HostFn _) = 2"
| "functionType (FnOther n) = 3 + n"

fun functionTypeName :: "SorobanAuthorizedFunction \<Rightarrow> string" where
  "functionTypeName (FnContractFn _) = ''contract_fn''"
| "functionTypeName (FnCreateContractHostFn _) = ''create_contract_host_fn''"
| "functionTypeName (FnCreateContractV2HostFn _) = ''create_contract_v2_host_fn''"
| "functionTypeName (FnOther _) = ''soroauth: '' @ sentinel_text ErrUnsupportedFunctionType"

text \<open>The closure \<open>add\<close> of \<open>diffInvocation\<close>.\<close>

definition invocationChange :: "string \<Rightarrow> string \<Rightarrow> string \<Rightarrow> Change" where
  "invocationChange p from to =
     \<lparr>ch_Kind = ChangeKindInvocation, ch_Path = p, ch_From = from, ch_To = to, ch_AffectsPayload = True\<rparr>"

definition diffArgs :: "sdk \<Rightarrow> string \<Rightarrow> ScVal list \<Rightarrow> ScVal list \<Rightarrow> gerr + Change list" where
  "diffArgs S path as bs =
     (if length as \<noteq> length bs
      then Inr [invocationChange (path @ ''.args'') (itoa (length as) @ '' arguments'') (itoa (length bs) @ '' arguments'')]
      else bindE (mapEi (\<lambda>i p. bindE (xdrEqual (ScVal_MarshalBinary S) (fst p) (snd p)) (\<lambda>same.
             Inr (if same then []
                  else [invocationChange (path @ ''.args['' @ itoa i @ '']'')
                          (ScVal_TypeString S (fst p)) (ScVal_TypeString S (snd p))]))) (zip as bs))
           (\<lambda>css. Inr (concat css)))"

definition diffContractFn :: "sdk \<Rightarrow> string \<Rightarrow> InvokeContractArgs \<Rightarrow> InvokeContractArgs \<Rightarrow> gerr + Change list" where
  "diffContractFn S path a b =
     bindE (FormatAddress S (ica_ContractAddress a)) (\<lambda>left.
     bindE (FormatAddress S (ica_ContractAddress b)) (\<lambda>right.
     bindE (diffArgs S path (ica_Args a) (ica_Args b)) (\<lambda>args.
       Inr ((if left \<noteq> right then [invocationChange (path @ ''.contractAddress'') left right] else []) @
            (if ica_FunctionName a \<noteq> ica_FunctionName b
             then [invocationChange (path @ ''.functionName'') (ica_FunctionName a) (ica_FunctionName b)] else []) @
            args))))"

definition diffFunction :: "sdk \<Rightarrow> string \<Rightarrow> SorobanAuthorizedFunction \<Rightarrow> SorobanAuthorizedFunction \<Rightarrow> gerr + Change list" where
  "diffFunction S path f g =
     (case (f, g) of
        (FnContractFn left, FnContractFn right) \<Rightarrow>
          (case (left, right) of
             (Some l, Some r) \<Rightarrow> diffContractFn S path l r
           | _ \<Rightarrow> Inr [invocationChange path (presence (left \<noteq> None)) (presence (right \<noteq> None))])
      | _ \<Rightarrow>
          bindE (xdrEqual (Function_MarshalBinary S) f g) (\<lambda>same.
            Inr (if same then []
                 else [invocationChange (path @ ''.function'') (functionTypeName f @ '' (differs)'')
                         (functionTypeName g @ '' (differs)'')])))"

lemma size_zip_invocation:
  "p \<in> set (zip (inv_SubInvocations n) ys) \<Longrightarrow> size (fst p) < size n"
  by (cases p) (auto dest!: set_zip_leftD simp: size_SubInvocation)

function diffInvocation ::
  "sdk \<Rightarrow> string \<Rightarrow> SorobanAuthorizedInvocation \<Rightarrow> SorobanAuthorizedInvocation \<Rightarrow> nat \<Rightarrow> gerr + Change list" where
  "diffInvocation S path a b depth =
     bindE (checkTraversalDepth depth) (\<lambda>_.
     if functionType (inv_Function a) \<noteq> functionType (inv_Function b)
     then Inr [invocationChange (path @ ''.function'') (functionTypeName (inv_Function a)) (functionTypeName (inv_Function b))]
     else bindE (diffFunction S path (inv_Function a) (inv_Function b)) (\<lambda>changes.
       if length (inv_SubInvocations a) \<noteq> length (inv_SubInvocations b)
       then Inr (changes @ [invocationChange (path @ ''.subInvocations'')
              (itoa (length (inv_SubInvocations a)) @ '' sub-invocations'')
              (itoa (length (inv_SubInvocations b)) @ '' sub-invocations'')])
       else bindE (mapEi (\<lambda>i p. diffInvocation S (path @ ''.subInvocations['' @ itoa i @ '']'') (fst p) (snd p) (depth + 1))
              (zip (inv_SubInvocations a) (inv_SubInvocations b))) (\<lambda>css. Inr (changes @ concat css))))"
  by pat_completeness auto
termination
  by (relation "measure (\<lambda>(S, path, a, b, depth). size a)") (auto simp: size_zip_invocation)

declare diffInvocation.simps [simp del]

section \<open>Pairing nodes\<close>

text \<open>What the loop over the paths has gathered: changes, carried-over paths, whether a signature changed.\<close>

type_synonym nodeState = "Change list \<times> string list \<times> bool"

definition pathMap :: "diffNode list \<Rightarrow> string \<rightharpoonup> ScVal" where
  "pathMap nodes = foldl (\<lambda>m node. m(dn_path node \<mapsto> dn_signature node)) Map.empty nodes"

definition pairNode ::
  "sdk \<Rightarrow> (string \<rightharpoonup> ScVal) \<Rightarrow> (string \<rightharpoonup> ScVal) \<Rightarrow> string \<Rightarrow> nodeState \<Rightarrow> gerr + nodeState" where
  "pairNode S left right path st =
     (case st of (changes, carriedOver, signaturesChanged) \<Rightarrow>
        if path = topLevelNodePath \<and> (left path \<noteq> None) \<noteq> (right path \<noteq> None) then Inr st
        else (case (left path, right path) of
            (Some before, None) \<Rightarrow>
              Inr (changes @ [\<lparr>ch_Kind = ChangeKindDelegateRemoved, ch_Path = path, ch_From = renderSignature S before,
                               ch_To = ''absent'', ch_AffectsPayload = False\<rparr>], carriedOver, signaturesChanged)
          | (None, Some after) \<Rightarrow>
              Inr (changes @ [\<lparr>ch_Kind = ChangeKindDelegateAdded, ch_Path = path, ch_From = ''absent'',
                               ch_To = renderSignature S after, ch_AffectsPayload = False\<rparr>], carriedOver, signaturesChanged)
          | (Some before, Some after) \<Rightarrow>
              bindE (xdrEqual (ScVal_MarshalBinary S) before after) (\<lambda>same.
                if same
                then Inr (changes, if isSigned before then carriedOver @ [path] else carriedOver, signaturesChanged)
                else Inr (changes @ [\<lparr>ch_Kind = ChangeKindSignature, ch_Path = path @ ''.signature'',
                            ch_From = renderSignature S before, ch_To = renderSignature S after,
                            ch_AffectsPayload = False\<rparr>], carriedOver, True))
          | (None, None) \<Rightarrow> Inr st))"

definition diffNodeSets :: "sdk \<Rightarrow> diffNode list \<Rightarrow> diffNode list \<Rightarrow> gerr + (nodeState \<times> bool)" where
  "diffNodeSets S a b =
     (let left = pathMap a; right = pathMap b;
          order = map dn_path a @ filter (\<lambda>p. left p = None) (map dn_path b) in
      bindE (foldE (pairNode S left right) order ([], [], False)) (\<lambda>st.
        Inr (st, list_ex (\<lambda>node. isSigned (dn_signature node)) a)))"

definition sortChanges :: "Change list \<Rightarrow> Change list" where
  "sortChanges changes = sort_key (\<lambda>c. (\<not> ch_AffectsPayload c, ch_Path c)) changes"

section \<open>The verdict\<close>

definition plural :: "nat \<Rightarrow> string \<Rightarrow> string \<Rightarrow> string" where
  "plural n one many = (if n = 1 then itoa n @ '' '' @ one else itoa n @ '' '' @ many)"

definition isAre :: "nat \<Rightarrow> string" where
  "isAre n = (if n = 1 then ''it is'' else ''they are'')"

definition summarize :: "EntryDiff \<Rightarrow> bool \<Rightarrow> string" where
  "summarize d signedBefore =
     (if df_Identical d then ''identical: the two entries encode to the same bytes''
      else if df_PayloadChanged d \<and> length (df_StaleSignatures d) > 0
      then ''PAYLOAD CHANGED and '' @ plural (length (df_StaleSignatures d)) ''signature'' ''signatures'' @
           '' carried over unchanged: '' @ isAre (length (df_StaleSignatures d)) @ '' no longer valid''
      else if df_PayloadChanged d \<and> df_SignaturesChanged d \<and> \<not> signedBefore
      then ''payload changed, and the entry went from unsigned to signed: consistent with a first signing''
      else if df_PayloadChanged d \<and> df_SignaturesChanged d
      then ''payload changed, and every signature present was replaced: consistent with a re-sign''
      else if df_PayloadChanged d
      then ''payload changed, and no signature was carried over: consistent with an unsigned edit''
      else if df_SignaturesChanged d
      then ''signatures changed, payload unchanged: any other signature in the entry is unaffected''
      else ''no payload or signature change: the difference is structural only'')"

definition armName :: "SorobanCredentialsType \<Rightarrow> gerr + string" where
  "armName t = (case t of CredentialsOther _ \<Rightarrow> Inl (Sentinel ErrUnsupportedCredentials) | _ \<Rightarrow> Inr (credentialTypeName t))"

definition isAddressBoundArm :: "string \<Rightarrow> bool" where
  "isAddressBoundArm arm \<longleftrightarrow> arm = ''address_v2'' \<or> arm = ''address_with_delegates''"

definition networkNote :: string where
  "networkNote = ''the network passphrase is not carried in an entry, so it is not compared: '' @
     ''two entries that are otherwise identical still have different payloads on different networks''"

text \<open>The comparison of the credential fields, both arms having them.\<close>

definition diffCredentials :: "sdk \<Rightarrow> SorobanAuthorizationEntry \<Rightarrow> SorobanAuthorizationEntry \<Rightarrow> gerr + Change list" where
  "diffCredentials S a b =
     bindE (wrapE ''soroauth: diff entries: first entry'' (addressCredentials (en_Credentials a))) (\<lambda>credsA.
      bindE (wrapE ''soroauth: diff entries: second entry'' (addressCredentials (en_Credentials b))) (\<lambda>credsB.
      bindE (wrapE ''soroauth: diff entries: first entry'' (FormatAddress S (ac_Address credsA))) (\<lambda>addressA.
      bindE (wrapE ''soroauth: diff entries: second entry'' (FormatAddress S (ac_Address credsB))) (\<lambda>addressB.
        Inr ((if addressA \<noteq> addressB
              then [\<lparr>ch_Kind = ChangeKindAddress, ch_Path = ''credentials.address'', ch_From = addressA, ch_To = addressB,
                     ch_AffectsPayload = isAddressBoundArm (credentialTypeName (cr_Type (en_Credentials a))) \<and>
                       isAddressBoundArm (credentialTypeName (cr_Type (en_Credentials b)))\<rparr>] else []) @
             (if ac_Nonce credsA \<noteq> ac_Nonce credsB
              then [\<lparr>ch_Kind = ChangeKindNonce, ch_Path = ''credentials.nonce'', ch_From = itoa_int (sint (ac_Nonce credsA)),
                     ch_To = itoa_int (sint (ac_Nonce credsB)), ch_AffectsPayload = True\<rparr>] else []) @
             (if ac_SignatureExpirationLedger credsA \<noteq> ac_SignatureExpirationLedger credsB
              then [\<lparr>ch_Kind = ChangeKindExpiration, ch_Path = ''credentials.signatureExpirationLedger'',
                     ch_From = itoa (unat (ac_SignatureExpirationLedger credsA)),
                     ch_To = itoa (unat (ac_SignatureExpirationLedger credsB)), ch_AffectsPayload = True\<rparr>] else []))))))"

definition DiffEntries :: "sdk \<Rightarrow> SorobanAuthorizationEntry \<Rightarrow> SorobanAuthorizationEntry \<Rightarrow> gerr + EntryDiff" where
  "DiffEntries S a b =
     bindE (wrapE ''soroauth: diff entries: first entry'' (armName (cr_Type (en_Credentials a)))) (\<lambda>armA.
     bindE (wrapE ''soroauth: diff entries: second entry'' (armName (cr_Type (en_Credentials b)))) (\<lambda>armB.
     bindE (wrapE ''soroauth: diff entries'' (xdrEqual (Entry_MarshalBinary S) a b)) (\<lambda>identical.
     let armChanges = (if armA \<noteq> armB
           then [\<lparr>ch_Kind = ChangeKindArm, ch_Path = ''credentials.type'', ch_From = armA, ch_To = armB,
                  ch_AffectsPayload = True\<rparr>] else []) in
     bindE (if armA \<noteq> ''source_account'' \<and> armB \<noteq> ''source_account'' then diffCredentials S a b else Inr []) (\<lambda>credChanges.
     bindE (wrapE ''soroauth: diff entries'' (diffInvocation S ''rootInvocation'' (en_RootInvocation a) (en_RootInvocation b) 1))
       (\<lambda>invChanges.
     bindE (wrapE ''soroauth: diff entries: first entry'' (diffNodes S a)) (\<lambda>nodesA.
     bindE (wrapE ''soroauth: diff entries: second entry'' (diffNodes S b)) (\<lambda>nodesB.
     bindE (wrapE ''soroauth: diff entries'' (diffNodeSets S nodesA nodesB)) (\<lambda>((nodeChanges, carriedOver, signaturesChanged), signedBefore).
       let changes = armChanges @ credChanges @ invChanges @ nodeChanges;
           payloadChanged = list_ex ch_AffectsPayload changes;
           diff = \<lparr>df_Identical = identical, df_PayloadChanged = payloadChanged, df_SignaturesChanged = signaturesChanged,
                   df_StaleSignatures = (if payloadChanged then carriedOver else []), df_Changes = sortChanges changes,
                   df_Summary = [], df_Note = (if payloadChanged then [] else networkNote)\<rparr> in
       Inr (diff\<lparr>df_Summary := summarize diff signedBefore\<rparr>)))))))))"

section \<open>Rendering\<close>

definition padRight :: "nat \<Rightarrow> string \<Rightarrow> string" where
  "padRight n s = s @ replicate (n - length s) (CHR '' '')"

definition diffString :: "EntryDiff \<Rightarrow> string" where
  "diffString d =
     df_Summary d @ [CHR 0x0A] @
     (if length (df_StaleSignatures d) > 0
      then [CHR 0x0A] @ ''stale signatures (committed to the old payload):'' @ [CHR 0x0A] @
           concat (map (\<lambda>p. ''  '' @ p @ [CHR 0x0A]) (df_StaleSignatures d)) else []) @
     (if length (df_Changes d) > 0
      then [CHR 0x0A] @ ''changes:'' @ [CHR 0x0A] @
           concat (map (\<lambda>c. ''  '' @ (if ch_AffectsPayload c then ''!'' else '' '') @ '' '' @
             padRight 14 (kindText (ch_Kind c)) @ '' '' @ ch_Path c @ [CHR 0x0A] @
             ''      '' @ ch_From c @ '' -> '' @ ch_To c @ [CHR 0x0A]) (df_Changes d)) @
           [CHR 0x0A] @ ''  ! marks a change inside the signed payload'' @ [CHR 0x0A] else []) @
     (if df_Note d \<noteq> [] then [CHR 0x0A] @ ''note: '' @ df_Note d @ [CHR 0x0A] else [])"

section \<open>What the comparison relies on\<close>

text \<open>
  Encoding is lossless: two values with the same encoding are equal. An address is one the
  parser can build. A tree is readable when every contract call has its arguments and an
  address the parser can build.
\<close>

definition codec_injective :: "('v \<Rightarrow> gerr + bytes) \<Rightarrow> bool" where
  "codec_injective m \<longleftrightarrow> (\<forall>v w b. m v = Inr b \<longrightarrow> m w = Inr b \<longrightarrow> v = w)"

definition parsedAddress :: "ScAddress \<Rightarrow> bool" where
  "parsedAddress a \<longleftrightarrow> (\<exists>p. length p = 32 \<and> (a = accountAddress p \<or> a = contractAddress p))"

definition readableFunction :: "SorobanAuthorizedFunction \<Rightarrow> bool" where
  "readableFunction f = (case f of FnContractFn None \<Rightarrow> False
     | FnContractFn (Some fn) \<Rightarrow> parsedAddress (ica_ContractAddress fn) | _ \<Rightarrow> True)"

fun readableTree :: "SorobanAuthorizedInvocation list \<Rightarrow> bool" where
  "readableTree [] = True"
| "readableTree (n # ns) =
     (readableFunction (inv_Function n) \<and> readableTree (inv_SubInvocations n) \<and> readableTree ns)"

lemma readableTree_nth: "readableTree ns \<Longrightarrow> n \<in> set ns \<Longrightarrow> readableTree [n]"
  by (induction ns) auto

lemma xdrEqual_Inr:
  "codec_injective m \<Longrightarrow> xdrEqual m a b = Inr same \<Longrightarrow> same \<longleftrightarrow> a = b"
  by (auto simp: xdrEqual_def codec_injective_def bindE_Inr_iff)

lemma xdrEqual_refl: "xdrEqual m a a = Inr same \<Longrightarrow> same"
  by (auto simp: xdrEqual_def bindE_Inr_iff)

lemma FormatAddress_injective:
  assumes "strkey_encode_decode S" "parsedAddress a" "parsedAddress b"
    and "FormatAddress S a = Inr s" "FormatAddress S b = Inr s"
  shows "a = b"
proof -
  have "ParseAddress S s = Inr a" "ParseAddress S s = Inr b"
    using assms format_then_parse_helper [OF assms(1)] unfolding parsedAddress_def by blast+
  then show ?thesis by simp
qed

section \<open>Invocation changes\<close>

lemma mapEi_nth: "mapEi f xs = Inr ys \<Longrightarrow> i < length xs \<Longrightarrow> f i (xs ! i) = Inr (ys ! i)"
  by (simp add: mapEi_Inr_iff)

lemma zip_nth: "length xs = length ys \<Longrightarrow> i < length xs \<Longrightarrow> zip xs ys ! i = (xs ! i, ys ! i)"
  by simp

lemma concat_empty_iff:
  assumes "length css = length xs" "length xs = length ys"
    and "\<And>i. i < length xs \<Longrightarrow> css ! i = [] \<longleftrightarrow> xs ! i = ys ! i"
  shows "concat css = [] \<longleftrightarrow> xs = ys"
proof -
  have "concat css = [] \<longleftrightarrow> (\<forall>i < length css. css ! i = [])"
    by (simp add: all_set_conv_all_nth)
  also have "\<dots> \<longleftrightarrow> (\<forall>i < length xs. xs ! i = ys ! i)" using assms(1,3) by metis
  also have "\<dots> \<longleftrightarrow> xs = ys" using assms(2) nth_equalityI by metis
  finally show ?thesis .
qed

lemma change_unless:
  "bindE m (\<lambda>same. Inr (if same then [] else [c])) = Inr cs \<Longrightarrow> \<exists>same. m = Inr same \<and> (cs = [] \<longleftrightarrow> same)"
  by (cases m) (auto split: if_splits)

lemma change_unless_in:
  "bindE m (\<lambda>same. Inr (if same then [] else [x])) = Inr cs \<Longrightarrow> c \<in> set cs \<Longrightarrow> c = x"
  by (cases m) (auto split: if_splits)

lemma diffArgs_empty:
  assumes "codec_injective (ScVal_MarshalBinary S)" "diffArgs S path as bs = Inr cs"
  shows "cs = [] \<longleftrightarrow> as = bs"
proof (cases "length as = length bs")
  case False
  then show ?thesis using assms(2) by (auto simp: diffArgs_def)
next
  case True
  then obtain css where css: "mapEi (\<lambda>i p. bindE (xdrEqual (ScVal_MarshalBinary S) (fst p) (snd p)) (\<lambda>same.
             Inr (if same then []
                  else [invocationChange (path @ ''.args['' @ itoa i @ '']'')
                          (ScVal_TypeString S (fst p)) (ScVal_TypeString S (snd p))]))) (zip as bs) = Inr css"
    "cs = concat css"
    using assms(2) by (auto simp: diffArgs_def bindE_Inr_iff)
  have len: "length css = length as" using css(1) True by (simp add: mapEi_Inr_iff)
  have "css ! i = [] \<longleftrightarrow> as ! i = bs ! i" if il: "i < length as" for i
  proof -
    have "bindE (xdrEqual (ScVal_MarshalBinary S) (as ! i) (bs ! i)) (\<lambda>same. Inr (if same then []
        else [invocationChange (path @ ''.args['' @ itoa i @ '']'') (ScVal_TypeString S (as ! i)) (ScVal_TypeString S (bs ! i))])) =
      Inr (css ! i)"
      using mapEi_nth [OF css(1), of i] True il unfolding zip_nth [OF True il] fst_conv snd_conv by simp
    from change_unless [OF this] show ?thesis using xdrEqual_Inr [OF assms(1)] by auto
  qed
  then show ?thesis using css(2) concat_empty_iff [OF len True] by simp
qed

lemma diffContractFn_empty:
  assumes "codec_injective (ScVal_MarshalBinary S)" "strkey_encode_decode S"
    and "parsedAddress (ica_ContractAddress a)" "parsedAddress (ica_ContractAddress b)"
    and "diffContractFn S path a b = Inr cs"
  shows "cs = [] \<longleftrightarrow> a = b"
proof -
  obtain l r as where d: "FormatAddress S (ica_ContractAddress a) = Inr l" "FormatAddress S (ica_ContractAddress b) = Inr r"
    "diffArgs S path (ica_Args a) (ica_Args b) = Inr as"
    "cs = (if l \<noteq> r then [invocationChange (path @ ''.contractAddress'') l r] else []) @
            (if ica_FunctionName a \<noteq> ica_FunctionName b
             then [invocationChange (path @ ''.functionName'') (ica_FunctionName a) (ica_FunctionName b)] else []) @ as"
    using assms(5) by (auto simp: diffContractFn_def bindE_Inr_iff)
  have "l = r \<longleftrightarrow> ica_ContractAddress a = ica_ContractAddress b"
    using FormatAddress_injective [OF assms(2-4)] d(1,2) by auto
  moreover have "as = [] \<longleftrightarrow> ica_Args a = ica_Args b" using diffArgs_empty [OF assms(1) d(3)] .
  ultimately show ?thesis using d(4) by (cases a; cases b) auto
qed

lemma diffFunction_empty:
  assumes "codec_injective (ScVal_MarshalBinary S)" "codec_injective (Function_MarshalBinary S)" "strkey_encode_decode S"
    and "readableFunction f" "readableFunction g" "diffFunction S path f g = Inr cs"
  shows "cs = [] \<longleftrightarrow> f = g"
proof (cases "\<exists>l r. f = FnContractFn l \<and> g = FnContractFn r")
  case True
  then obtain l r where "f = FnContractFn (Some l)" "g = FnContractFn (Some r)"
    using assms(4,5) by (auto simp: readableFunction_def split: option.splits)
  then show ?thesis
    using assms diffContractFn_empty [OF assms(1,3)] by (auto simp: diffFunction_def readableFunction_def)
next
  case False
  then have "diffFunction S path f g = bindE (xdrEqual (Function_MarshalBinary S) f g) (\<lambda>same.
            Inr (if same then []
                 else [invocationChange (path @ ''.function'') (functionTypeName f @ '' (differs)'')
                         (functionTypeName g @ '' (differs)'')]))"
    by (cases f; cases g) (auto simp: diffFunction_def)
  from change_unless [OF this [symmetric, THEN trans, OF assms(6)]] show ?thesis
    using xdrEqual_Inr [OF assms(2)] by auto
qed

lemma functionType_eq: "f = g \<Longrightarrow> functionType f = functionType g"
  by simp

text \<open>A readable tree differs from another exactly when the comparison lists a change.\<close>

lemma diffInvocation_empty:
  assumes "codec_injective (ScVal_MarshalBinary S)" "codec_injective (Function_MarshalBinary S)" "strkey_encode_decode S"
  shows "readableTree [a] \<Longrightarrow> readableTree [b] \<Longrightarrow> diffInvocation S path a b d = Inr cs \<Longrightarrow> cs = [] \<longleftrightarrow> a = b"
proof (induction a arbitrary: b path d cs)
  case (Invocation f subs)
  obtain g subs' where b: "b = Invocation g subs'" by (cases b)
  note eq = diffInvocation.simps [of S path "Invocation f subs" "Invocation g subs'" d]
  show ?case
  proof (cases "functionType f = functionType g")
    case False
    then show ?thesis using Invocation.prems(3) unfolding b eq by (auto simp: bindE_Inr_iff)
  next
    case True
    then obtain fc where fc: "diffFunction S path f g = Inr fc"
      using Invocation.prems(3) unfolding b eq by (auto simp: bindE_Inr_iff)
    then have f: "fc = [] \<longleftrightarrow> f = g"
      using diffFunction_empty [OF assms] Invocation.prems(1,2) b by auto
    show ?thesis
    proof (cases "length subs = length subs'")
      case False
      then show ?thesis using Invocation.prems(3) True fc unfolding b eq by (auto simp: bindE_Inr_iff)
    next
      case len: True
      then obtain css where css: "mapEi (\<lambda>i p. diffInvocation S (path @ ''.subInvocations['' @ itoa i @ '']'') (fst p) (snd p) (d + 1))
          (zip subs subs') = Inr css" "cs = fc @ concat css"
        using Invocation.prems(3) True fc unfolding b eq by (auto simp: bindE_Inr_iff)
      have "css ! i = [] \<longleftrightarrow> subs ! i = subs' ! i" if "i < length subs" for i
      proof (rule Invocation.IH)
        show "subs ! i \<in> set subs" using that by simp
        show "readableTree [subs ! i]" "readableTree [subs' ! i]"
          using Invocation.prems(1,2) b that len readableTree_nth by auto
        show "diffInvocation S (path @ ''.subInvocations['' @ itoa i @ '']'') (subs ! i) (subs' ! i) (d + 1) = Inr (css ! i)"
          using css(1) that len by (auto simp: mapEi_Inr_iff)
      qed
      moreover have "length css = length subs" using css(1) len by (auto simp: mapEi_Inr_iff)
      ultimately have "concat css = [] \<longleftrightarrow> subs = subs'" using concat_empty_iff len by metis
      then show ?thesis using css(2) f b by auto
    qed
  qed
qed

lemma concat_nth: "c \<in> set (concat css) \<Longrightarrow> \<exists>i < length css. c \<in> set (css ! i)"
  by simp (metis in_set_conv_nth)

lemma invocationChange_affects [simp]: "ch_AffectsPayload (invocationChange p x y)"
  by (simp add: invocationChange_def)

lemma diffArgs_affects:
  assumes "diffArgs S path as bs = Inr cs" "c \<in> set cs"
  shows "ch_AffectsPayload c"
proof (cases "length as = length bs")
  case True
  then obtain css where css: "mapEi (\<lambda>i p. bindE (xdrEqual (ScVal_MarshalBinary S) (fst p) (snd p)) (\<lambda>same.
             Inr (if same then []
                  else [invocationChange (path @ ''.args['' @ itoa i @ '']'')
                          (ScVal_TypeString S (fst p)) (ScVal_TypeString S (snd p))]))) (zip as bs) = Inr css"
      "cs = concat css"
    using assms(1) by (auto simp: diffArgs_def bindE_Inr_iff)
  have "c \<in> set (concat css)" using assms(2) unfolding css(2) .
  then obtain i where i: "i < length css" "c \<in> set (css ! i)" using concat_nth [of c css] by blast
  then have "i < length (zip as bs)" using css(1) by (simp add: mapEi_Inr_iff)
  from change_unless_in [OF mapEi_nth [OF css(1) this] i(2)] show ?thesis by simp
next
  case False
  then show ?thesis using assms by (auto simp: diffArgs_def)
qed

lemma diffContractFn_affects:
  assumes "diffContractFn S path a b = Inr cs" "c \<in> set cs"
  shows "ch_AffectsPayload c"
  using assms diffArgs_affects by (auto simp: diffContractFn_def bindE_Inr_iff split: if_splits)

lemma diffFunction_affects:
  assumes "diffFunction S path f g = Inr cs" "c \<in> set cs"
  shows "ch_AffectsPayload c"
proof (cases "\<exists>l r. f = FnContractFn (Some l) \<and> g = FnContractFn (Some r)")
  case True
  then show ?thesis using assms diffContractFn_affects by (auto simp: diffFunction_def)
next
  case False
  then have "(\<exists>x y. cs = [invocationChange path x y]) \<or>
    bindE (xdrEqual (Function_MarshalBinary S) f g) (\<lambda>same.
            Inr (if same then []
                 else [invocationChange (path @ ''.function'') (functionTypeName f @ '' (differs)'')
                         (functionTypeName g @ '' (differs)'')])) = Inr cs"
    using assms(1) by (cases f; cases g) (auto simp: diffFunction_def split: option.splits)
  then show ?thesis
  proof
    assume "\<exists>x y. cs = [invocationChange path x y]"
    then show ?thesis using assms(2) by auto
  next
    assume "bindE (xdrEqual (Function_MarshalBinary S) f g) (\<lambda>same.
            Inr (if same then []
                 else [invocationChange (path @ ''.function'') (functionTypeName f @ '' (differs)'')
                         (functionTypeName g @ '' (differs)'')])) = Inr cs"
    from change_unless_in [OF this assms(2)] show ?thesis by simp
  qed
qed

lemma diffInvocation_affects:
  "diffInvocation S path a b d = Inr cs \<Longrightarrow> c \<in> set cs \<Longrightarrow> ch_AffectsPayload c"
proof (induction a arbitrary: b path d cs)
  case (Invocation f subs)
  obtain g subs' where b: "b = Invocation g subs'" by (cases b)
  have base: "ch_AffectsPayload (invocationChange p x y)" for p x y by (simp add: invocationChange_def)
  consider "functionType f \<noteq> functionType g" "cs = [invocationChange (path @ ''.function'') (functionTypeName f) (functionTypeName g)]"
    | fc x y where "diffFunction S path f g = Inr fc" "cs = fc @ [invocationChange (path @ ''.subInvocations'') x y]"
    | fc css where "diffFunction S path f g = Inr fc" "cs = fc @ concat css"
      "mapEi (\<lambda>i p. diffInvocation S (path @ ''.subInvocations['' @ itoa i @ '']'') (fst p) (snd p) (d + 1)) (zip subs subs') = Inr css"
    using Invocation.prems(1) unfolding b diffInvocation.simps [of S path "Invocation f subs" "Invocation g subs'" d]
    by (auto simp: bindE_Inr_iff split: if_splits)
  then show ?case
  proof cases
    case 1
    then show ?thesis using Invocation.prems(2) base by simp
  next
    case 2
    then show ?thesis using Invocation.prems(2) base diffFunction_affects by auto
  next
    case 3
    show ?thesis
    proof (cases "c \<in> set fc")
      case True
      then show ?thesis using 3(1) diffFunction_affects by blast
    next
      case False
      then obtain i where i: "i < length css" "c \<in> set (css ! i)"
        using Invocation.prems(2) 3(2) concat_nth [of c css] by auto
      then have len: "i < length (zip subs subs')" using 3(3) by (simp add: mapEi_Inr_iff)
      then have "fst (zip subs subs' ! i) \<in> set subs" by (auto simp: nth_zip)
      then show ?thesis using Invocation.IH mapEi_nth [OF 3(3) len] i(2) by blast
    qed
  qed
qed

section \<open>Node changes\<close>

lemma pathMap_eq: "pathMap nodes = map_of (rev (map (\<lambda>n. (dn_path n, dn_signature n)) nodes))"
proof -
  have "foldl (\<lambda>m node. m(dn_path node \<mapsto> dn_signature node)) m nodes =
      m ++ map_of (rev (map (\<lambda>n. (dn_path n, dn_signature n)) nodes))" for m
    by (induction nodes arbitrary: m) (auto simp: map_add_assoc fun_eq_iff map_add_def split: option.splits)
  then show ?thesis by (simp add: pathMap_def)
qed

lemma dom_pathMap: "p \<in> set (map dn_path nodes) \<longleftrightarrow> pathMap nodes p \<noteq> None"
  by (induction nodes) (auto simp: pathMap_eq map_of_eq_None_iff image_iff)

text \<open>The carried-over paths: signed with the same signature on both sides.\<close>

definition carried :: "(string \<rightharpoonup> ScVal) \<Rightarrow> (string \<rightharpoonup> ScVal) \<Rightarrow> string \<Rightarrow> bool" where
  "carried left right p \<longleftrightarrow> (\<exists>s. left p = Some s \<and> right p = Some s \<and> isSigned s)"

definition replaced :: "(string \<rightharpoonup> ScVal) \<Rightarrow> (string \<rightharpoonup> ScVal) \<Rightarrow> string \<Rightarrow> bool" where
  "replaced left right p \<longleftrightarrow> (\<exists>s t. left p = Some s \<and> right p = Some t \<and> s \<noteq> t)"

lemma pairNode_Inr:
  assumes "codec_injective (ScVal_MarshalBinary S)" "pairNode S left right p (cs, co, sc) = Inr (cs', co', sc')"
  shows "co' = co @ (if carried left right p then [p] else []) \<and> (sc' \<longleftrightarrow> sc \<or> replaced left right p) \<and>
    (\<exists>new. cs' = cs @ new \<and> (\<forall>c \<in> set new. \<not> ch_AffectsPayload c) \<and> (left p = right p \<longrightarrow> new = []))"
proof (cases "\<exists>s t. left p = Some s \<and> right p = Some t")
  case True
  then obtain s t where st: "left p = Some s" "right p = Some t" by blast
  then obtain same where "xdrEqual (ScVal_MarshalBinary S) s t = Inr same"
    using assms(2) by (auto simp: pairNode_def bindE_Inr_iff)
  moreover from this have "same \<longleftrightarrow> s = t" by (rule xdrEqual_Inr [OF assms(1)])
  ultimately show ?thesis using assms(2) st
    by (auto simp: pairNode_def carried_def replaced_def split: if_splits)
next
  case False
  then show ?thesis using assms(2)
    by (cases "left p"; cases "right p") (auto simp: pairNode_def carried_def replaced_def split: if_splits)
qed

lemma pairNodes_Inr:
  assumes "codec_injective (ScVal_MarshalBinary S)"
  shows "foldE (pairNode S left right) ps (cs, co, sc) = Inr (cs', co', sc') \<Longrightarrow>
    co' = co @ filter (carried left right) ps \<and> (sc' \<longleftrightarrow> sc \<or> (\<exists>p \<in> set ps. replaced left right p)) \<and>
    (\<exists>new. cs' = cs @ new \<and> (\<forall>c \<in> set new. \<not> ch_AffectsPayload c) \<and> (left = right \<longrightarrow> new = []))"
proof (induction ps arbitrary: cs co sc)
  case (Cons p ps)
  then obtain cs1 co1 sc1 where s: "pairNode S left right p (cs, co, sc) = Inr (cs1, co1, sc1)"
    "foldE (pairNode S left right) ps (cs1, co1, sc1) = Inr (cs', co', sc')"
    by (auto simp: bindE_Inr_iff)
  obtain n1 where n1: "cs1 = cs @ n1" "\<forall>c \<in> set n1. \<not> ch_AffectsPayload c" "left p = right p \<longrightarrow> n1 = []"
    using pairNode_Inr [OF assms s(1)] by blast
  obtain n2 where n2: "cs' = cs1 @ n2" "\<forall>c \<in> set n2. \<not> ch_AffectsPayload c" "left = right \<longrightarrow> n2 = []"
    using Cons.IH [OF s(2)] by blast
  have "\<exists>new. cs' = cs @ new \<and> (\<forall>c \<in> set new. \<not> ch_AffectsPayload c) \<and> (left = right \<longrightarrow> new = [])"
    using n1 n2 by (intro exI [of _ "n1 @ n2"]) auto
  then show ?case using pairNode_Inr [OF assms s(1)] Cons.IH [OF s(2)] by auto
qed simp

lemma diffNodeSets_Inr:
  assumes "codec_injective (ScVal_MarshalBinary S)" "diffNodeSets S a b = Inr ((cs, co, sc), sb)"
  shows "set co = {p. carried (pathMap a) (pathMap b) p}" "sc \<longleftrightarrow> (\<exists>p. replaced (pathMap a) (pathMap b) p)"
    "\<forall>c \<in> set cs. \<not> ch_AffectsPayload c" "pathMap a = pathMap b \<Longrightarrow> cs = []"
proof -
  define order where "order = map dn_path a @ filter (\<lambda>p. pathMap a p = None) (map dn_path b)"
  have f: "foldE (pairNode S (pathMap a) (pathMap b)) order ([], [], False) = Inr (cs, co, sc)"
    using assms(2) by (auto simp: diffNodeSets_def Let_def order_def bindE_Inr_iff)
  note r = pairNodes_Inr [OF assms(1) f]
  have d: "p \<in> set order" if "pathMap a p \<noteq> None" for p
    using that dom_pathMap [of p a] by (auto simp: order_def)
  then have "carried (pathMap a) (pathMap b) p \<Longrightarrow> p \<in> set order"
    "replaced (pathMap a) (pathMap b) p \<Longrightarrow> p \<in> set order" for p
    by (auto simp: carried_def replaced_def)
  then show "set co = {p. carried (pathMap a) (pathMap b) p}" "sc \<longleftrightarrow> (\<exists>p. replaced (pathMap a) (pathMap b) p)"
    using r by auto
  show "\<forall>c \<in> set cs. \<not> ch_AffectsPayload c" "pathMap a = pathMap b \<Longrightarrow> cs = []" using r by auto
qed

end
