(* ===== verification/Diff_Properties.thy ===== *)
theory Diff_Properties
  imports Diff Sample_Sdk
begin

text \<open>
  What the comparison of two entries reports: whether the signed payload moved, which
  signatures went stale, and where it raises a false alarm.
\<close>

section \<open>The report taken apart\<close>

lemma DiffEntries_Inr:
  assumes "DiffEntries S a b = Inr d"
  obtains creds invs nodesA nodesB cs co sc sb where
    "(if cr_Type (en_Credentials a) \<noteq> CredentialsSourceAccount \<and> cr_Type (en_Credentials b) \<noteq> CredentialsSourceAccount
      then diffCredentials S a b else Inr []) = Inr creds"
    "diffInvocation S ''rootInvocation'' (en_RootInvocation a) (en_RootInvocation b) 1 = Inr invs"
    "diffNodes S a = Inr nodesA" "diffNodes S b = Inr nodesB"
    "diffNodeSets S nodesA nodesB = Inr ((cs, co, sc), sb)"
    "df_PayloadChanged d \<longleftrightarrow> cr_Type (en_Credentials a) \<noteq> cr_Type (en_Credentials b) \<or>
       list_ex ch_AffectsPayload creds \<or> list_ex ch_AffectsPayload invs \<or> list_ex ch_AffectsPayload cs"
    "df_StaleSignatures d = (if df_PayloadChanged d then co else [])" "df_SignaturesChanged d = sc"
proof -
  have arms: "credentialTypeName s = credentialTypeName t \<longleftrightarrow> s = t"
    if "isOk (armName s)" "isOk (armName t)" for s t
    using that by (cases s; cases t) (simp_all add: armName_def credentialTypeName_def)
  have name: "armName s = Inr x \<longleftrightarrow> isOk (armName s) \<and> x = credentialTypeName s" for s x
    by (cases s) (auto simp: armName_def)
  have src: "credentialTypeName s = ''source_account'' \<longleftrightarrow> s = CredentialsSourceAccount" for s
    by (cases s) (simp_all add: credentialTypeName_def)
  show ?thesis
    using assms that
    by (auto simp: DiffEntries_def Let_def bindE_Inr_iff name arms src split: prod.splits if_splits)
qed

lemma diffCredentials_affects:
  assumes "diffCredentials S a b = Inr cs"
    and "addressCredentials (en_Credentials a) = Inr ca" "addressCredentials (en_Credentials b) = Inr cb"
    and "strkey_encode_decode S" "parsedAddress (ac_Address ca)" "parsedAddress (ac_Address cb)"
    and same: "cr_Type (en_Credentials a) = cr_Type (en_Credentials b)"
  shows "list_ex ch_AffectsPayload cs \<longleftrightarrow>
    (cr_Type (en_Credentials a) \<noteq> CredentialsAddress \<and> ac_Address ca \<noteq> ac_Address cb) \<or>
    ac_Nonce ca \<noteq> ac_Nonce cb \<or> ac_SignatureExpirationLedger ca \<noteq> ac_SignatureExpirationLedger cb"
proof -
  obtain x y where xy: "FormatAddress S (ac_Address ca) = Inr x" "FormatAddress S (ac_Address cb) = Inr y"
    using assms(1-3) by (auto simp: diffCredentials_def bindE_Inr_iff)
  have "x = y \<longleftrightarrow> ac_Address ca = ac_Address cb"
    using FormatAddress_injective [OF assms(4-6)] xy by auto
  moreover have "isAddressBoundArm (credentialTypeName (cr_Type (en_Credentials a))) \<longleftrightarrow>
      cr_Type (en_Credentials a) \<noteq> CredentialsAddress"
    using assms(2) by (cases "cr_Type (en_Credentials a)")
      (auto simp: isAddressBoundArm_def credentialTypeName_def addressCredentials_def)
  ultimately show ?thesis
    using assms(1-3) same xy by (auto simp: diffCredentials_def)
qed

section \<open>A signed entry and its wrapping\<close>

lemma pathMap_value: "pathMap nodes p = Some s \<Longrightarrow> \<exists>n \<in> set nodes. dn_signature n = s"
  by (auto simp: pathMap_eq dest!: map_of_SomeD)

lemma diffNodeSets_ok:
  assumes "\<forall>n \<in> set a \<union> set b. isOk (ScVal_MarshalBinary S (dn_signature n))"
  shows "isOk (diffNodeSets S a b)"
proof -
  have step: "isOk (pairNode S (pathMap a) (pathMap b) p st)" for p st
  proof -
    obtain cs co sc where st: "st = (cs, co, sc)" by (cases st)
    show ?thesis
    proof (cases "\<exists>s t. pathMap a p = Some s \<and> pathMap b p = Some t")
      case True
      then obtain s t where v: "pathMap a p = Some s" "pathMap b p = Some t" by blast
      then have "isOk (ScVal_MarshalBinary S s)" "isOk (ScVal_MarshalBinary S t)" using assms pathMap_value by blast+
      then obtain es et where "ScVal_MarshalBinary S s = Inr es" "ScVal_MarshalBinary S t = Inr et" by (auto simp: isOk_iff)
      then show ?thesis using v st by (simp add: pairNode_def xdrEqual_def)
    next
      case False
      then show ?thesis using st by (cases "pathMap a p"; cases "pathMap b p") (auto simp: pairNode_def)
    qed
  qed
  have "isOk (foldE (pairNode S (pathMap a) (pathMap b)) ps st)" for ps st
  proof (induction ps arbitrary: st)
    case (Cons p ps)
    obtain st' where "pairNode S (pathMap a) (pathMap b) p st = Inr st'"
      using step [of p st] unfolding isOk_iff by (elim exE)
    then show ?case using Cons.IH by simp
  qed simp
  from this [of "map dn_path a @ filter (\<lambda>p. pathMap a p = None) (map dn_path b)" "([], [], False)"]
  obtain r where "foldE (pairNode S (pathMap a) (pathMap b))
      (map dn_path a @ filter (\<lambda>p. pathMap a p = None) (map dn_path b)) ([], [], False) = Inr r"
    unfolding isOk_iff by (elim exE)
  then show ?thesis by (simp add: diffNodeSets_def Let_def)
qed

definition signedCredentials :: SorobanAddressCredentials where
  "signedCredentials = (sampleCredentials (accountAddress (keyOf 1)))\<lparr>ac_Signature := sampleSignature 1\<rparr>"

definition signedV2 :: SorobanAuthorizationEntry where
  "signedV2 =
     \<lparr>en_Credentials = \<lparr>cr_Type = CredentialsAddressV2, cr_Address = None, cr_AddressV2 = Some signedCredentials,
        cr_AddressWithDelegates = None\<rparr>, en_RootInvocation = sampleInvocation\<rparr>"

definition signedWrapped :: SorobanAuthorizationEntry where
  "signedWrapped =
     \<lparr>en_Credentials = \<lparr>cr_Type = CredentialsAddressWithDelegates, cr_Address = None, cr_AddressV2 = None,
        cr_AddressWithDelegates = Some \<lparr>wd_AddressCredentials = signedCredentials,
          wd_Delegates = [DelegateSignature (accountAddress (keyOf 2)) ScvVoid []]\<rparr>\<rparr>,
      en_RootInvocation = sampleInvocation\<rparr>"

definition diffSdk :: sdk where
  "diffSdk = (tableSdk [signedV2, signedWrapped] [])\<lparr>ScVal_MarshalBinary :=
     (\<lambda>v. if v = ScvVoid then Inr [0] else if v = sampleSignature 1 then Inr [1] else Inl (errmsg ''no encoding''))\<rparr>"

lemma diffSdk_facts:
  "codec_injective (ScVal_MarshalBinary diffSdk)" "codec_injective (Function_MarshalBinary diffSdk)"
  "strkey_encode_decode diffSdk"
  "addressCredentials (en_Credentials signedV2) = Inr signedCredentials"
  "addressCredentials (en_Credentials signedWrapped) = Inr signedCredentials"
  "parsedAddress (ac_Address signedCredentials)"
  "readableTree [en_RootInvocation signedV2]" "readableTree [en_RootInvocation signedWrapped]"
proof -
  show "codec_injective (ScVal_MarshalBinary diffSdk)" "codec_injective (Function_MarshalBinary diffSdk)"
    by (auto simp: codec_injective_def diffSdk_def tableSdk_def split: if_splits)
  show "strkey_encode_decode diffSdk"
    by (auto simp: strkey_encode_decode_def diffSdk_def sample_defs split: if_splits option.splits)
  show "addressCredentials (en_Credentials signedV2) = Inr signedCredentials"
    "addressCredentials (en_Credentials signedWrapped) = Inr signedCredentials"
    by (simp_all add: signedV2_def signedWrapped_def addressCredentials_def)
  show "parsedAddress (ac_Address signedCredentials)"
    using length_keyOf by (auto simp: parsedAddress_def signedCredentials_def sampleCredentials_def)
  have "parsedAddress (contractAddress (keyOf 3))" using length_keyOf by (auto simp: parsedAddress_def)
  then show "readableTree [en_RootInvocation signedV2]" "readableTree [en_RootInvocation signedWrapped]"
    by (simp_all add: signedV2_def signedWrapped_def sampleInvocation_def readableFunction_def)
qed

lemma diffSdk_addresses:
  "FormatAddress diffSdk (accountAddress (keyOf 1)) = Inr ''GA''"
  "FormatAddress diffSdk (accountAddress (keyOf 2)) = Inr ''GB''"
  "FormatAddress diffSdk (contractAddress (keyOf 3)) = Inr ''CA''"
  by (simp_all add: FormatAddress_def diffSdk_def sample_defs accountAddress_def contractAddress_def)

lemma diffSdk_nodes:
  "diffNodes diffSdk signedV2 = Inr [\<lparr>dn_path = ''credentials'', dn_signature = sampleSignature 1\<rparr>]"
  "diffNodes diffSdk signedWrapped = Inr [\<lparr>dn_path = ''credentials'', dn_signature = sampleSignature 1\<rparr>,
     \<lparr>dn_path = ''credentials.delegates[GB]'', dn_signature = ScvVoid\<rparr>]"
  unfolding diffNodes_def diffSdk_facts(4,5)
  by (simp_all add: signedV2_def signedWrapped_def signedCredentials_def topLevelNodePath_def delegatesOf_def
      diffNodesOf.simps diffSdk_addresses checkTraversalDepth_def MaxDecodeDepth_def)

lemma signed_entries:
  "cr_Type (en_Credentials signedV2) = CredentialsAddressV2"
  "cr_Type (en_Credentials signedWrapped) = CredentialsAddressWithDelegates"
  "en_RootInvocation signedV2 = sampleInvocation" "en_RootInvocation signedWrapped = sampleInvocation"
  by (simp_all add: signedV2_def signedWrapped_def)

lemma diffSdk_compares: "isOk (DiffEntries diffSdk signedV2 signedWrapped)"
proof -
  have "isOk (xdrEqual (Entry_MarshalBinary diffSdk) signedV2 signedWrapped)"
    by (simp add: xdrEqual_def diffSdk_def tableSdk_def tableEncode_def isOk_bindE)
  moreover have "isOk (diffCredentials diffSdk signedV2 signedWrapped)"
    unfolding diffCredentials_def diffSdk_facts(4,5)
    by (simp add: signedCredentials_def sampleCredentials_def diffSdk_addresses)
  moreover have "isOk (diffInvocation diffSdk ''rootInvocation'' sampleInvocation sampleInvocation 1)"
    unfolding diffInvocation.simps [of diffSdk _ sampleInvocation sampleInvocation]
    by (simp add: sampleInvocation_def diffFunction_def diffContractFn_def diffArgs_def diffSdk_addresses
        checkTraversalDepth_def MaxDecodeDepth_def)
  moreover have "isOk (diffNodeSets diffSdk [\<lparr>dn_path = ''credentials'', dn_signature = sampleSignature 1\<rparr>]
      [\<lparr>dn_path = ''credentials'', dn_signature = sampleSignature 1\<rparr>,
       \<lparr>dn_path = ''credentials.delegates[GB]'', dn_signature = ScvVoid\<rparr>])"
    by (rule diffNodeSets_ok) (simp add: diffSdk_def)
  ultimately show ?thesis
    unfolding DiffEntries_def diffSdk_nodes
    by (auto simp: Let_def isOk_iff armName_def credentialTypeName_def signed_entries
        split: prod.splits)
qed

section \<open>Properties\<close>

text \<open>
  C11: for two address entries the report says the payload changed exactly when the credential
  arms differ or the preimages the two entries sign over, at their own stored expirations and
  on the same network, differ. The XDR encodings are lossless and the addresses are ones the
  parser can build.
\<close>

theorem diff_payload_exact:
  assumes "DiffEntries S a b = Inr d"
    and "addressCredentials (en_Credentials a) = Inr ca" "addressCredentials (en_Credentials b) = Inr cb"
    and "codec_injective (ScVal_MarshalBinary S)" "codec_injective (Function_MarshalBinary S)" "strkey_encode_decode S"
    and "parsedAddress (ac_Address ca)" "parsedAddress (ac_Address cb)"
    and "readableTree [en_RootInvocation a]" "readableTree [en_RootInvocation b]" and "net \<noteq> ''''"
  shows "df_PayloadChanged d \<longleftrightarrow> cr_Type (en_Credentials a) \<noteq> cr_Type (en_Credentials b) \<or>
    buildPreimage S a (ac_SignatureExpirationLedger ca) net \<noteq> buildPreimage S b (ac_SignatureExpirationLedger cb) net"
proof (cases "cr_Type (en_Credentials a) = cr_Type (en_Credentials b)")
  case False
  obtain cs where "df_PayloadChanged d \<longleftrightarrow> cr_Type (en_Credentials a) \<noteq> cr_Type (en_Credentials b) \<or> cs"
    by (rule DiffEntries_Inr [OF assms(1)]) blast
  then show ?thesis using False by simp
next
  case True
  have ns: "cr_Type (en_Credentials a) \<noteq> CredentialsSourceAccount" "cr_Type (en_Credentials b) \<noteq> CredentialsSourceAccount"
    using assms(2,3) by (auto simp: addressCredentials_def)
  obtain creds invs nodesA nodesB cs co sc sb where r:
    "diffCredentials S a b = Inr creds"
    "diffInvocation S ''rootInvocation'' (en_RootInvocation a) (en_RootInvocation b) 1 = Inr invs"
    "diffNodeSets S nodesA nodesB = Inr ((cs, co, sc), sb)"
    "df_PayloadChanged d \<longleftrightarrow> cr_Type (en_Credentials a) \<noteq> cr_Type (en_Credentials b) \<or>
       list_ex ch_AffectsPayload creds \<or> list_ex ch_AffectsPayload invs \<or> list_ex ch_AffectsPayload cs"
    using DiffEntries_Inr [OF assms(1)] ns by (metis (no_types, lifting))
  have "\<not> list_ex ch_AffectsPayload cs"
    using diffNodeSets_Inr(3) [OF assms(4) r(3)] by (auto simp: list_ex_iff)
  moreover have "list_ex ch_AffectsPayload invs \<longleftrightarrow> en_RootInvocation a \<noteq> en_RootInvocation b"
    using diffInvocation_affects [OF r(2)] diffInvocation_empty [OF assms(4-6,9,10) r(2)]
    by (cases invs) (auto simp: list_ex_iff)
  moreover obtain x y where "FormatAddress S (ac_Address ca) = Inr x" "FormatAddress S (ac_Address cb) = Inr y"
    using r(1) assms(2,3) by (auto simp: diffCredentials_def bindE_Inr_iff)
  then have "buildPreimage S a v net = Inr (specPreimage S (cr_Type (en_Credentials a) \<noteq> CredentialsAddress) ca (en_RootInvocation a) v net)"
    "buildPreimage S b v net = Inr (specPreimage S (cr_Type (en_Credentials b) \<noteq> CredentialsAddress) cb (en_RootInvocation b) v net)" for v
    using assms(2,3,11) by (auto simp: buildPreimage_Inr_iff)
  ultimately show ?thesis
    using r(4) True diffCredentials_affects [OF r(1) assms(2,3,6-8) True] by (auto simp: specPreimage_eq_iff)
qed

theorem diff_payload_exact_witness:
  "\<exists>d. DiffEntries diffSdk signedV2 signedWrapped = Inr d \<and> df_PayloadChanged d"
proof -
  obtain d where d: "DiffEntries diffSdk signedV2 signedWrapped = Inr d" using diffSdk_compares by (auto simp: isOk_iff)
  show ?thesis
    using diff_payload_exact [OF d diffSdk_facts(4,5,1,2,3,6,6,7,8), of "''net''"] d by (simp add: signed_entries)
qed

text \<open>
  The stale list is exact. When the payload changed it names exactly the nodes, by path,
  that are signed and carry the same signature in both entries, and it is empty otherwise.
\<close>

lemma diff_stale_exact:
  assumes "DiffEntries S a b = Inr d" and "codec_injective (ScVal_MarshalBinary S)"
    and "diffNodes S a = Inr nodesA" "diffNodes S b = Inr nodesB"
  shows "set (df_StaleSignatures d) =
      (if df_PayloadChanged d then {p. \<exists>s. pathMap nodesA p = Some s \<and> pathMap nodesB p = Some s \<and> isSigned s} else {}) \<and>
    (df_SignaturesChanged d \<longleftrightarrow> (\<exists>p s t. pathMap nodesA p = Some s \<and> pathMap nodesB p = Some t \<and> s \<noteq> t))"
proof -
  obtain cs co sc sb where r: "diffNodeSets S nodesA nodesB = Inr ((cs, co, sc), sb)"
    "df_StaleSignatures d = (if df_PayloadChanged d then co else [])" "df_SignaturesChanged d = sc"
    using DiffEntries_Inr [OF assms(1)] assms(3,4) by (metis (no_types, lifting) sum.inject(2))
  show ?thesis
    using diffNodeSets_Inr(1,2) [OF assms(2) r(1)] r(2,3) by (auto simp: carried_def replaced_def)
qed

text \<open>
  A false alarm. Between an address-V2 entry and a delegates entry with the same address,
  nonce and invocation the report says that the payload changed, although both sign over the
  same preimage at every expiration: signatures carried over are called stale and are not.
\<close>

lemma diff_bound_arms_false_alarm:
  assumes "DiffEntries S a b = Inr d"
    and "cr_Type (en_Credentials a) = CredentialsAddressV2" "cr_Type (en_Credentials b) = CredentialsAddressWithDelegates"
    and "addressCredentials (en_Credentials a) = Inr ca" "addressCredentials (en_Credentials b) = Inr cb"
    and "ac_Address ca = ac_Address cb" "ac_Nonce ca = ac_Nonce cb" "en_RootInvocation a = en_RootInvocation b"
  shows "df_PayloadChanged d \<and> buildPreimage S a v net = buildPreimage S b v net"
proof
  show "df_PayloadChanged d"
    by (rule DiffEntries_Inr [OF assms(1)]) (simp add: assms(2,3))
  show "buildPreimage S a v net = buildPreimage S b v net"
    using assms(2-8) addressCredentials_Inr_iff [of "en_Credentials a" ca] addressCredentials_Inr_iff [of "en_Credentials b" cb]
    by (auto simp: buildPreimage_def addressV2Arm_def delegatesArm_def)
qed

end
