(* ===== verification/Envelope.thy ===== *)
theory Envelope
  imports Batch Inspection
begin

text \<open>
  Authorization entries inside transaction envelopes (\<^verbatim>\<open>src/envelope.go\<close>). Of the SDK's
  transaction types the model keeps the fields the library reads or writes; what it only
  carries along (source accounts, fees, memos, the host function, the envelope's signatures)
  is opaque bytes. The envelope codec is a parameter.
\<close>

section \<open>Transactions\<close>

record InvokeHostFunctionOp =
  ih_HostFunction :: bytes
  ih_Auth :: "SorobanAuthorizationEntry list"

datatype OperationBody =
    BodyInvokeHostFunction "InvokeHostFunctionOp option"
  | BodyOther nat bytes

record Operation =
  op_SourceAccount :: bytes
  op_Body :: OperationBody

record Transaction =
  tx_Fields :: bytes
  tx_Operations :: "Operation list"
  tx_Signatures :: bytes

datatype TxEnvelopeType = EnvelopeTypeTxV0 | EnvelopeTypeTx | EnvelopeTypeTxFeeBump | EnvelopeTypeTxOther nat

record FeeBump =
  fb_Fields :: bytes
  fb_InnerType :: TxEnvelopeType
  fb_InnerV1 :: "Transaction option"

record TransactionEnvelope =
  te_Type :: TxEnvelopeType
  te_V0 :: "Transaction option"
  te_V1 :: "Transaction option"
  te_FeeBump :: "FeeBump option"

section \<open>Reading an envelope\<close>

record EnvelopeEntry =
  ee_OperationIndex :: nat
  ee_EntryIndex :: nat
  ee_Entry :: SorobanAuthorizationEntry

record EnvelopeEntryInfo =
  vi_OperationIndex :: nat
  vi_EntryIndex :: nat
  vi_EntryInfo :: EntryInfo

record EnvelopePayload =
  vp_OperationIndex :: nat
  vp_EntryIndex :: nat
  vp_SourceAccount :: bool
  vp_Preimage :: "HashIdPreimage option"
  vp_Payload :: bytes

definition envelopeOperations :: "TransactionEnvelope \<Rightarrow> gerr + Operation list" where
  "envelopeOperations env =
     (case te_Type env of
        EnvelopeTypeTx \<Rightarrow>
          (case te_V1 env of None \<Rightarrow> Inl (errmsg ''the envelope_type_tx arm is empty'') | Some t \<Rightarrow> Inr (tx_Operations t))
      | EnvelopeTypeTxV0 \<Rightarrow>
          (case te_V0 env of None \<Rightarrow> Inl (errmsg ''the envelope_type_tx_v0 arm is empty'') | Some t \<Rightarrow> Inr (tx_Operations t))
      | EnvelopeTypeTxFeeBump \<Rightarrow>
          (case te_FeeBump env of None \<Rightarrow> Inl (errmsg ''the envelope_type_tx_fee_bump arm is empty'')
           | Some fb \<Rightarrow>
               if fb_InnerType fb \<noteq> EnvelopeTypeTx
               then Inl (errmsg ''fee-bump inner transaction is not envelope_type_tx'')
               else (case fb_InnerV1 fb of None \<Rightarrow> Inl (errmsg ''the fee-bump inner envelope_type_tx arm is empty'')
                     | Some t \<Rightarrow> Inr (tx_Operations t)))
      | EnvelopeTypeTxOther _ \<Rightarrow> Inl (Sentinel ErrUnsupportedEnvelope))"

text \<open>The entries of one operation: none unless it invokes a host function.\<close>

definition isInvoke :: "Operation \<Rightarrow> bool" where
  "isInvoke op = (case op_Body op of BodyInvokeHostFunction _ \<Rightarrow> True | _ \<Rightarrow> False)"

definition operationEntries :: "nat \<Rightarrow> Operation \<Rightarrow> gerr + EnvelopeEntry list" where
  "operationEntries i op =
     (case op_Body op of
        BodyInvokeHostFunction None \<Rightarrow>
          Inl (errmsg (''soroauth: envelope entries: operation '' @ itoa i @ '': the invokeHostFunction arm is empty''))
      | BodyInvokeHostFunction (Some ih) \<Rightarrow>
          Inr (map (\<lambda>(j, e). \<lparr>ee_OperationIndex = i, ee_EntryIndex = j, ee_Entry = e\<rparr>) (enumerate 0 (ih_Auth ih)))
      | BodyOther _ _ \<Rightarrow> Inr [])"

definition EnvelopeEntries :: "TransactionEnvelope \<Rightarrow> gerr + EnvelopeEntry list" where
  "EnvelopeEntries env =
     bindE (wrapE ''soroauth: envelope entries'' (envelopeOperations env)) (\<lambda>operations.
     bindE (mapEi operationEntries operations) (\<lambda>ess.
       if length (filter isInvoke operations) = 0
       then Inl (errw ''soroauth: envelope entries'' (Sentinel ErrNoInvokeOperation))
       else Inr (concat ess)))"

definition located :: "string \<Rightarrow> EnvelopeEntry \<Rightarrow> string" where
  "located prefix e = prefix @ '': operation '' @ itoa (ee_OperationIndex e) @ '' entry '' @ itoa (ee_EntryIndex e)"

definition InspectEnvelope :: "sdk \<Rightarrow> TransactionEnvelope \<Rightarrow> gerr + EnvelopeEntryInfo list" where
  "InspectEnvelope S env =
     bindE (wrapE ''soroauth: inspect envelope'' (EnvelopeEntries env)) (\<lambda>entries.
       mapE (\<lambda>e. bindE (wrapE (located ''soroauth: inspect envelope'' e) (Inspect S (ee_Entry e))) (\<lambda>info.
         Inr \<lparr>vi_OperationIndex = ee_OperationIndex e, vi_EntryIndex = ee_EntryIndex e, vi_EntryInfo = info\<rparr>)) entries)"

definition entryPayload :: "sdk \<Rightarrow> uint32 \<Rightarrow> string \<Rightarrow> EnvelopeEntry \<Rightarrow> gerr + EnvelopePayload" where
  "entryPayload S validUntilLedger networkPassphrase e =
     (let payload = \<lparr>vp_OperationIndex = ee_OperationIndex e, vp_EntryIndex = ee_EntryIndex e, vp_SourceAccount = False,
                     vp_Preimage = None, vp_Payload = replicate 32 0\<rparr> in
      if cr_Type (en_Credentials (ee_Entry e)) = CredentialsSourceAccount
      then Inr (payload\<lparr>vp_SourceAccount := True\<rparr>)
      else bindE (wrapE (located ''soroauth: envelope payloads'' e) (Preimage S (ee_Entry e) validUntilLedger networkPassphrase)) (\<lambda>preimage.
           bindE (wrapE (located ''soroauth: envelope payloads'' e) (Payload S preimage)) (\<lambda>hash.
             Inr (payload\<lparr>vp_Preimage := Some preimage, vp_Payload := hash\<rparr>))))"

definition EnvelopePayloads :: "sdk \<Rightarrow> TransactionEnvelope \<Rightarrow> uint32 \<Rightarrow> string \<Rightarrow> gerr + EnvelopePayload list" where
  "EnvelopePayloads S env validUntilLedger networkPassphrase =
     bindE (wrapE ''soroauth: envelope payloads'' (EnvelopeEntries env)) (\<lambda>entries.
       mapE (entryPayload S validUntilLedger networkPassphrase) entries)"

section \<open>Signing an envelope\<close>

text \<open>
  The code writes the signed entries through the pointer of each operation of the copied
  envelope; here the operations are rebuilt and put back where they were found.
\<close>

definition setOperations :: "Operation list \<Rightarrow> TransactionEnvelope \<Rightarrow> TransactionEnvelope" where
  "setOperations ops env =
     (case te_Type env of
        EnvelopeTypeTx \<Rightarrow> env\<lparr>te_V1 := map_option (tx_Operations_update (\<lambda>_. ops)) (te_V1 env)\<rparr>
      | EnvelopeTypeTxV0 \<Rightarrow> env\<lparr>te_V0 := map_option (tx_Operations_update (\<lambda>_. ops)) (te_V0 env)\<rparr>
      | EnvelopeTypeTxFeeBump \<Rightarrow>
          env\<lparr>te_FeeBump := map_option (fb_InnerV1_update (map_option (tx_Operations_update (\<lambda>_. ops)))) (te_FeeBump env)\<rparr>
      | EnvelopeTypeTxOther _ \<Rightarrow> env)"

definition authorizeOperation ::
  "sdk \<Rightarrow> ctx \<Rightarrow> signer option list \<Rightarrow> uint32 \<Rightarrow> string \<Rightarrow> nat \<Rightarrow> Operation \<Rightarrow> gerr + Operation" where
  "authorizeOperation S ctx signers validUntilLedger networkPassphrase i op =
     (case op_Body op of
        BodyInvokeHostFunction (Some ih) \<Rightarrow>
          bindE (wrapE (''soroauth: authorize envelope: operation '' @ itoa i)
            (AuthorizeAll S ctx (ih_Auth ih) signers validUntilLedger networkPassphrase [])) (\<lambda>auth.
          Inr (op\<lparr>op_Body := BodyInvokeHostFunction (Some (ih\<lparr>ih_Auth := auth\<rparr>))\<rparr>))
      | _ \<Rightarrow> Inr op)"

definition AuthorizeEnvelope ::
  "sdk \<Rightarrow> (TransactionEnvelope \<Rightarrow> gerr + bytes) \<Rightarrow> (bytes \<Rightarrow> gerr + (TransactionEnvelope \<times> nat)) \<Rightarrow> ctx \<Rightarrow>
     TransactionEnvelope \<Rightarrow> signer option list \<Rightarrow> uint32 \<Rightarrow> string \<Rightarrow> gerr + TransactionEnvelope" where
  "AuthorizeEnvelope S marshal decodeBytes ctx env signers validUntilLedger networkPassphrase =
     (case ctx of Some err \<Rightarrow> Inl (errw ''soroauth: authorize envelope'' err)
      | None \<Rightarrow>
        bindE (wrapE ''soroauth: authorize envelope'' (EnvelopeEntries env)) (\<lambda>_.
        bindE (wrapE ''soroauth: authorize envelope'' (xdrcopy_Copy marshal decodeBytes env)) (\<lambda>signedEnv.
        bindE (wrapE ''soroauth: authorize envelope'' (envelopeOperations signedEnv)) (\<lambda>operations.
        bindE (mapEi (authorizeOperation S ctx signers validUntilLedger networkPassphrase) operations) (\<lambda>operations'.
          Inr (setOperations operations' signedEnv))))))"

section \<open>What reading and writing do\<close>

lemma setOperations_envelopeOperations:
  "envelopeOperations env = Inr ops \<Longrightarrow> envelopeOperations (setOperations ops' env) = Inr ops'"
  by (auto simp: envelopeOperations_def setOperations_def split: TxEnvelopeType.splits option.splits if_splits)

text \<open>Everything but the operations: the frame of an envelope.\<close>

lemma setOperations_frame:
  "envelopeOperations env = Inr ops \<Longrightarrow> setOperations ops (setOperations ops' env) = env"
  by (auto simp: envelopeOperations_def setOperations_def split: TxEnvelopeType.splits option.splits if_splits)

lemma operationEntries_Inr:
  "operationEntries i op = Inr es \<Longrightarrow>
     map ee_Entry es = (case op_Body op of BodyInvokeHostFunction (Some ih) \<Rightarrow> ih_Auth ih | _ \<Rightarrow> []) \<and>
     (\<forall>j < length es. ee_OperationIndex (es ! j) = i \<and> ee_EntryIndex (es ! j) = j)"
  by (auto simp: operationEntries_def nth_enumerate_eq split: OperationBody.splits option.splits intro!: nth_equalityI)

lemma EnvelopeEntries_Inr:
  "EnvelopeEntries env = Inr es \<longleftrightarrow>
     (\<exists>ops ess. envelopeOperations env = Inr ops \<and> mapEi operationEntries ops = Inr ess \<and>
        (\<exists>op \<in> set ops. isInvoke op) \<and> es = concat ess)"
  by (auto simp: EnvelopeEntries_def bindE_Inr_iff filter_empty_conv)

text \<open>Where an entry is found: the operation and the position the report gives.\<close>

definition entryAt :: "Operation list \<Rightarrow> nat \<Rightarrow> nat \<Rightarrow> SorobanAuthorizationEntry option" where
  "entryAt ops i j =
     (if i < length ops
      then (case op_Body (ops ! i) of
              BodyInvokeHostFunction (Some ih) \<Rightarrow> if j < length (ih_Auth ih) then Some (ih_Auth ih ! j) else None
            | _ \<Rightarrow> None)
      else None)"

lemma operationEntries_mem:
  assumes "operationEntries i op = Inr es"
  shows "e \<in> set es \<longleftrightarrow> ee_OperationIndex e = i \<and>
    (\<exists>ih. op_Body op = BodyInvokeHostFunction (Some ih) \<and> ee_EntryIndex e < length (ih_Auth ih) \<and>
       ee_Entry e = ih_Auth ih ! ee_EntryIndex e)"
proof -
  have "(\<exists>x \<in> set (enumerate 0 xs). e = (case x of (j, y) \<Rightarrow> \<lparr>ee_OperationIndex = i, ee_EntryIndex = j, ee_Entry = y\<rparr>)) \<longleftrightarrow>
      ee_OperationIndex e = i \<and> ee_EntryIndex e < length xs \<and> ee_Entry e = xs ! ee_EntryIndex e" for xs
  proof
    assume "ee_OperationIndex e = i \<and> ee_EntryIndex e < length xs \<and> ee_Entry e = xs ! ee_EntryIndex e"
    then show "\<exists>x \<in> set (enumerate 0 xs). e = (case x of (j, y) \<Rightarrow> \<lparr>ee_OperationIndex = i, ee_EntryIndex = j, ee_Entry = y\<rparr>)"
      by (intro bexI [of _ "(ee_EntryIndex e, ee_Entry e)"]) (simp_all add: in_set_enumerate_eq)
  qed (auto simp: in_set_enumerate_eq)
  then show ?thesis using assms
    by (auto simp: operationEntries_def image_iff split: OperationBody.splits option.splits)
qed

lemma EnvelopeEntries_mem:
  assumes "EnvelopeEntries env = Inr es" "envelopeOperations env = Inr ops"
  shows "e \<in> set es \<longleftrightarrow> entryAt ops (ee_OperationIndex e) (ee_EntryIndex e) = Some (ee_Entry e)"
proof -
  obtain ess where ess: "mapEi operationEntries ops = Inr ess" "es = concat ess"
    using assms by (auto simp: EnvelopeEntries_Inr)
  then have len: "length ess = length ops" "\<And>i. i < length ops \<Longrightarrow> operationEntries i (ops ! i) = Inr (ess ! i)"
    by (auto simp: mapEi_Inr_iff)
  have "e \<in> set es \<longleftrightarrow> (\<exists>i < length ops. e \<in> set (ess ! i))"
    using ess(2) len(1) by (auto simp: set_conv_nth [of ess])
  also have "\<dots> \<longleftrightarrow> entryAt ops (ee_OperationIndex e) (ee_EntryIndex e) = Some (ee_Entry e)"
    using operationEntries_mem [OF len(2)]
    by (auto simp: entryAt_def split: OperationBody.splits option.splits if_splits)
  finally show ?thesis .
qed

end
