(* ===== verification/Possession.thy ===== *)
theory Possession
  imports Signers Verify
begin

text \<open>
  The startup check that a signer controls its address (\<^verbatim>\<open>src/possession.go\<close>): it signs a
  payload no network derives, and the signature is verified against the claimed address.
  The eight random bytes are an argument; a nil signer, bare or behind an interface, is
  \<open>None\<close>.
\<close>

definition possessionNetworkPassphrase :: string where
  "possessionNetworkPassphrase = ''soroauth possession check - this is not a network''"

definition possessionFunction :: string where
  "possessionFunction = ''soroauth_possession_check''"

record PossessionReport =
  po_Address :: string
  po_Verdict :: VerifyVerdict
  po_Reason :: string

definition Passed :: "PossessionReport \<Rightarrow> bool" where
  "Passed r = (po_Verdict r = VerdictVerified)"

record possessionConfig =
  pc_foreignKeys :: bool

type_synonym PossessionOption = "possessionConfig \<Rightarrow> possessionConfig"

definition AllowAccountSigningKeys :: PossessionOption where
  "AllowAccountSigningKeys c = c\<lparr>pc_foreignKeys := True\<rparr>"

definition isNilSigner :: "signer option \<Rightarrow> bool" where
  "isNilSigner s = (s = None)"

definition possessionInvocation :: SorobanAuthorizedInvocation where
  "possessionInvocation =
     Invocation (FnContractFn (Some \<lparr>ica_ContractAddress = contractAddress (replicate 32 0),
        ica_FunctionName = possessionFunction, ica_Args = []\<rparr>)) []"

definition possessionPreimage :: "sdk \<Rightarrow> gerr + bytes \<Rightarrow> gerr + (HashIdPreimage \<times> bytes)" where
  "possessionPreimage S random =
     bindE (wrapE ''reading a nonce'' random) (\<lambda>nonceBytes.
     let nonce = foldl (\<lambda>acc b. acc * 256 + ucast b) 0 nonceBytes;
         preimage = \<lparr>hp_Type = EnvelopeTypeSorobanAuthorization,
           hp_SorobanAuthorization = Some \<lparr>pa_NetworkId = network_ID S possessionNetworkPassphrase, pa_Nonce = nonce,
             pa_SignatureExpirationLedger = 0, pa_Invocation = possessionInvocation\<rparr>,
           hp_SorobanAuthorizationWithAddress = None\<rparr> in
     bindE (Payload S preimage) (\<lambda>payload. Inr (preimage, payload)))"

text \<open>
  The loop over the signatures: a report as soon as one cannot be read or does not verify,
  otherwise whether the account's own key was among them.
\<close>

fun checkSignatures :: "sdk \<Rightarrow> bytes \<Rightarrow> bytes \<Rightarrow> nat \<Rightarrow> bool \<Rightarrow> ScVal list \<Rightarrow> (VerifyVerdict \<times> string) + bool" where
  "checkSignatures S payload rawKey i ownKey [] = Inr ownKey"
| "checkSignatures S payload rawKey i ownKey (element # rest) =
     (case parseAccountSignature S (scVec [element]) of
        Inl err \<Rightarrow> Inl (VerdictCannotCheck, shapeNote @ '' ('' @ error_text err @ '')'')
      | Inr (publicKey, rawSignature) \<Rightarrow>
          if \<not> ed25519_Verify S publicKey payload rawSignature
          then Inl (VerdictInvalid, ''signature '' @ itoa i @ '' does not verify over the payload: the signer does not control the key it presents'')
          else checkSignatures S payload rawKey (Suc i) (ownKey \<or> publicKey = rawKey) rest)"

definition verifyAccountPossession ::
  "sdk \<Rightarrow> PossessionReport \<Rightarrow> ScVal \<Rightarrow> bytes \<Rightarrow> string \<Rightarrow> possessionConfig \<Rightarrow> PossessionReport" where
  "verifyAccountPossession S report signature payload address cfg =
     (case rawEd25519Key S address of
        Inl err \<Rightarrow> report\<lparr>po_Verdict := VerdictInvalid, po_Reason := error_text err\<rparr>
      | Inr rawKey \<Rightarrow>
          if \<not> isSigned signature
          then report\<lparr>po_Verdict := VerdictInvalid, po_Reason := ''the signer returned no signature (Void or an empty vector)''\<rparr>
          else (case signature of
              ScvVec (Some (Some elements)) \<Rightarrow>
                if length elements = 0
                then report\<lparr>po_Verdict := VerdictCannotCheck, po_Reason := shapeNote\<rparr>
                else (case checkSignatures S payload rawKey 0 False elements of
                    Inl (verdict, reason) \<Rightarrow> report\<lparr>po_Verdict := verdict, po_Reason := reason\<rparr>
                  | Inr ownKey \<Rightarrow>
                      if ownKey then report\<lparr>po_Verdict := VerdictVerified\<rparr>
                      else if pc_foreignKeys cfg
                      then report\<lparr>po_Verdict := VerdictCannotCheck, po_Reason := ''the signatures verify, but are made by keys other than the account's own; whether those keys are signers of the account is on-chain state''\<rparr>
                      else report\<lparr>po_Verdict := VerdictInvalid, po_Reason := ''the signatures verify, but not under the key of '' @ address @ '': the signer's key does not match its configured address (pass AllowAccountSigningKeys for an account signed by other keys)''\<rparr>)
            | _ \<Rightarrow> report\<lparr>po_Verdict := VerdictCannotCheck, po_Reason := shapeNote\<rparr>))"

text \<open>The report starts with the zero verdict, the empty string in the source; every path sets it.\<close>

definition CheckPossession ::
  "sdk \<Rightarrow> gerr + bytes \<Rightarrow> ctx \<Rightarrow> signer option \<Rightarrow> PossessionOption option list \<Rightarrow> gerr + PossessionReport" where
  "CheckPossession S random ctx sgo opts =
     (let cfg = foldl (\<lambda>c opt. case opt of None \<Rightarrow> c | Some f \<Rightarrow> f c) \<lparr>pc_foreignKeys = False\<rparr> opts in
      case sgo of
        None \<Rightarrow> Inl (errw ''soroauth: check possession'' (Sentinel ErrMissingSigner))
      | Some sg \<Rightarrow>
          let address = sg_Address sg;
              report = \<lparr>po_Address = address, po_Verdict = VerdictUnsigned, po_Reason = ''''\<rparr> in
          bindE (wrapE ''soroauth: check possession'' (ParseAddress S address)) (\<lambda>scAddress.
          bindE (wrapE ''soroauth: check possession'' (possessionPreimage S random)) (\<lambda>(preimage, payload).
          bindE (wrapE (''soroauth: check possession: '' @ address) (sg_Sign sg ctx preimage payload)) (\<lambda>signature.
            if sa_Type scAddress \<noteq> ScAddressTypeAccount
            then Inr (report\<lparr>po_Verdict := VerdictCannotCheck, po_Reason := contractAccountNote\<rparr>)
            else Inr (verifyAccountPossession S report signature payload address cfg)))))"

section \<open>What a pass means\<close>

text \<open>The signatures of a vector: each one readable and valid over the payload.\<close>

definition validSignature :: "sdk \<Rightarrow> bytes \<Rightarrow> ScVal \<Rightarrow> bytes \<Rightarrow> bool" where
  "validSignature S payload element pk \<longleftrightarrow>
     (\<exists>sig. parseAccountSignature S (scVec [element]) = Inr (pk, sig) \<and> ed25519_Verify S pk payload sig)"

lemma checkSignatures_Inr_iff:
  "checkSignatures S payload raw i own es = Inr r \<longleftrightarrow>
     (\<forall>e \<in> set es. \<exists>pk. validSignature S payload e pk) \<and>
     (r \<longleftrightarrow> own \<or> (\<exists>e \<in> set es. validSignature S payload e raw))"
proof (induction es arbitrary: i own)
  case (Cons e es)
  show ?case
  proof (cases "parseAccountSignature S (scVec [e])")
    case (Inl err)
    then show ?thesis by (auto simp: validSignature_def)
  next
    case (Inr ps)
    obtain pk sig where ps: "ps = (pk, sig)" by force
    then have "validSignature S payload e k \<longleftrightarrow> k = pk \<and> ed25519_Verify S pk payload sig" for k
      using Inr by (auto simp: validSignature_def)
    then show ?thesis using Inr ps Cons.IH by auto
  qed
qed auto

lemma verifyAccountPossession_verified:
  "Passed (verifyAccountPossession S \<lparr>po_Address = a, po_Verdict = VerdictUnsigned, po_Reason = r\<rparr> sig payload address cfg) \<longleftrightarrow>
     (\<exists>raw es. rawEd25519Key S address = Inr raw \<and> sig = ScvVec (Some (Some es)) \<and> es \<noteq> [] \<and>
        (\<forall>e \<in> set es. \<exists>pk. validSignature S payload e pk) \<and> (\<exists>e \<in> set es. validSignature S payload e raw))"
proof (cases "rawEd25519Key S address")
  case (Inl err)
  then show ?thesis by (simp add: verifyAccountPossession_def Passed_def)
next
  case (Inr raw)
  have bad: "checkSignatures S payload raw i own es = Inl (v, x) \<Longrightarrow> v \<noteq> VerdictVerified" for i own es v x
    by (induction es arbitrary: i own) (auto split: sum.splits prod.splits if_splits)
  show ?thesis
  proof (cases "\<exists>es. sig = ScvVec (Some (Some es)) \<and> es \<noteq> []")
    case False
    then show ?thesis using Inr
      by (auto simp: verifyAccountPossession_def Passed_def isSigned_def split: ScVal.splits option.splits)
  next
    case True
    then obtain es where es: "sig = ScvVec (Some (Some es))" "es \<noteq> []" by blast
    show ?thesis
    proof (cases "checkSignatures S payload raw 0 False es")
      case (Inl vx)
      then have "\<not> ((\<forall>e \<in> set es. \<exists>pk. validSignature S payload e pk) \<and> (\<exists>e \<in> set es. validSignature S payload e raw))"
        using checkSignatures_Inr_iff [of S payload raw 0 False es True] by auto
      moreover have "fst vx \<noteq> VerdictVerified" using Inl bad by (cases vx) auto
      ultimately show ?thesis
        using Inl Inr es by (cases vx) (auto simp: verifyAccountPossession_def Passed_def isSigned_def)
    next
      case (Inr own)
      then show ?thesis
        using checkSignatures_Inr_iff [of S payload raw 0 False es own] es \<open>rawEd25519Key S address = Inr raw\<close>
        by (auto simp: verifyAccountPossession_def Passed_def isSigned_def)
    qed
  qed
qed

end
