(* ===== verification/Envelope_Properties.thy ===== *)
theory Envelope_Properties
  imports Envelope Possession Batch_Properties
begin

text \<open>
  Signing the entries inside a transaction envelope, and what the possession check proves.
\<close>

section \<open>Envelopes\<close>

text \<open>
  Signing an envelope touches the authorization entries and nothing else. The returned
  envelope has the same operations in the same places, each invokeHostFunction operation with
  its entries replaced by what \<open>AuthorizeAll\<close> made of them and every other operation
  unchanged; putting the old operations back gives the old envelope; and an envelope with no
  invokeHostFunction operation is never accepted.
\<close>

lemma envelope_signed_in_place:
  assumes "AuthorizeEnvelope S marshal decode ctx env signers v net = Inr env'"
    and "xdrcopy_Copy marshal decode env = Inr env"
  shows "\<exists>ops ops'. envelopeOperations env = Inr ops \<and> envelopeOperations env' = Inr ops' \<and>
    setOperations ops env' = env \<and> (\<exists>op \<in> set ops. isInvoke op) \<and>
    list_all2 (\<lambda>op op'. case op_Body op of
        BodyInvokeHostFunction (Some ih) \<Rightarrow> (\<exists>auth. AuthorizeAll S None (ih_Auth ih) signers v net [] = Inr auth \<and>
          op' = op\<lparr>op_Body := BodyInvokeHostFunction (Some (ih\<lparr>ih_Auth := auth\<rparr>))\<rparr>)
      | _ \<Rightarrow> op' = op) ops ops'"
proof -
  obtain es ops ops' where r: "ctx = None" "EnvelopeEntries env = Inr es" "envelopeOperations env = Inr ops"
    "mapEi (authorizeOperation S ctx signers v net) ops = Inr ops'" "env' = setOperations ops' env"
    using assms by (auto simp: AuthorizeEnvelope_def bindE_Inr_iff split: option.splits)
  have "list_all2 (\<lambda>op op'. case op_Body op of
        BodyInvokeHostFunction (Some ih) \<Rightarrow> (\<exists>auth. AuthorizeAll S None (ih_Auth ih) signers v net [] = Inr auth \<and>
          op' = op\<lparr>op_Body := BodyInvokeHostFunction (Some (ih\<lparr>ih_Auth := auth\<rparr>))\<rparr>)
      | _ \<Rightarrow> op' = op) ops ops'"
    unfolding list_all2_conv_all_nth
  proof (intro conjI allI impI)
    show "length ops = length ops'" using r(4) by (simp add: mapEi_Inr_iff)
    fix i assume "i < length ops"
    then have "authorizeOperation S None signers v net i (ops ! i) = Inr (ops' ! i)"
      using r(1,4) by (simp add: mapEi_Inr_iff)
    then show "case op_Body (ops ! i) of
        BodyInvokeHostFunction (Some ih) \<Rightarrow> (\<exists>auth. AuthorizeAll S None (ih_Auth ih) signers v net [] = Inr auth \<and>
          ops' ! i = (ops ! i)\<lparr>op_Body := BodyInvokeHostFunction (Some (ih\<lparr>ih_Auth := auth\<rparr>))\<rparr>)
      | _ \<Rightarrow> ops' ! i = ops ! i"
      by (auto simp: authorizeOperation_def bindE_Inr_iff split: OperationBody.splits option.splits)
  qed
  moreover have "\<exists>op \<in> set ops. isInvoke op" using r(2,3) by (auto simp: EnvelopeEntries_Inr)
  ultimately show ?thesis
    using setOperations_envelopeOperations [OF r(3), of ops'] setOperations_frame [OF r(3), of ops'] r(3)
    unfolding r(5) by (intro exI [of _ ops] exI [of _ ops'] conjI)
qed

text \<open>A transaction with one payment and one invocation that carries two entries.\<close>

definition sampleEnvelope :: TransactionEnvelope where
  "sampleEnvelope = \<lparr>te_Type = EnvelopeTypeTx, te_V0 = None,
     te_V1 = Some \<lparr>tx_Fields = [], tx_Operations =
       [\<lparr>op_SourceAccount = [], op_Body = BodyOther 1 []\<rparr>,
        \<lparr>op_SourceAccount = [], op_Body = BodyInvokeHostFunction (Some \<lparr>ih_HostFunction = [], ih_Auth = [entrySource, entryV2]\<rparr>)\<rparr>],
       tx_Signatures = []\<rparr>, te_FeeBump = None\<rparr>"

lemma sample_authorize_plain:
  "AuthorizeAll sampleSdk None [entrySource, entryV2] [None, Some sampleSigner] 100 sampleNetwork [] =
     Inr [entrySource, signedEntry sampleSdk (0 # keyOf 1) (sampleSignature 1) 100 entryV2]"
  using sample_authorize_all
  by (auto simp: AuthorizeAll_def applyAllOptions_def RequireAllSigned_def bindE_Inr_iff Let_def split: prod.splits if_splits)

lemma sample_envelope_ops:
  "envelopeOperations sampleEnvelope =
     Inr [\<lparr>op_SourceAccount = [], op_Body = BodyOther 1 []\<rparr>,
        \<lparr>op_SourceAccount = [], op_Body = BodyInvokeHostFunction (Some \<lparr>ih_HostFunction = [], ih_Auth = [entrySource, entryV2]\<rparr>)\<rparr>]"
  by (simp add: envelopeOperations_def sampleEnvelope_def)

lemma sample_envelope_signs:
  "isOk (AuthorizeEnvelope sampleSdk (\<lambda>_. Inr []) (\<lambda>_. Inr (sampleEnvelope, 0)) None sampleEnvelope
     [None, Some sampleSigner] 100 sampleNetwork)"
  by (simp add: AuthorizeEnvelope_def EnvelopeEntries_def sample_envelope_ops operationEntries_def isInvoke_def
      xdrcopy_Copy_def authorizeOperation_def sample_authorize_plain mapEi_def)

section \<open>The possession check\<close>

text \<open>
  C40: the check passes exactly when the signer answered the throwaway request with a
  non-empty vector of readable account signatures that all verify over its payload, one of
  them under the very key of the address the signer claims. Foreign keys, contract addresses
  and unknown shapes never pass.
\<close>

theorem possession_pass_exact:
  "(\<exists>r. CheckPossession S random ctx (Some sg) opts = Inr r \<and> Passed r) \<longleftrightarrow>
     (\<exists>raw a q h es. ParseAddress S (sg_Address sg) = Inr a \<and> sa_Type a = ScAddressTypeAccount \<and>
        rawEd25519Key S (sg_Address sg) = Inr raw \<and> possessionPreimage S random = Inr (q, h) \<and>
        sg_Sign sg ctx q h = Inr (ScvVec (Some (Some es))) \<and>
        list_all (\<lambda>e. \<exists>pk. validSignature S h e pk) es \<and> list_ex (\<lambda>e. validSignature S h e raw) es)"
proof -
  define cfg where "cfg = foldl (\<lambda>c opt. case opt of None \<Rightarrow> c | Some f \<Rightarrow> f c) \<lparr>pc_foreignKeys = False\<rparr> opts"
  define r0 where "r0 = \<lparr>po_Address = sg_Address sg, po_Verdict = VerdictUnsigned, po_Reason = ''''\<rparr>"
  have "(\<exists>r. CheckPossession S random ctx (Some sg) opts = Inr r \<and> Passed r) \<longleftrightarrow>
      (\<exists>a q h sig. ParseAddress S (sg_Address sg) = Inr a \<and> possessionPreimage S random = Inr (q, h) \<and>
         sg_Sign sg ctx q h = Inr sig \<and> sa_Type a = ScAddressTypeAccount \<and>
         Passed (verifyAccountPossession S r0 sig h (sg_Address sg) cfg))"
    unfolding CheckPossession_def cfg_def [symmetric]
    by (auto simp: bindE_Inr_iff Let_def Passed_def r0_def)
  then show ?thesis
    unfolding r0_def verifyAccountPossession_verified list_all_iff list_ex_iff
    by (rule trans) (rule iffI; elim exE conjE bexE; intro exI conjI; (assumption | auto)?)
qed

text \<open>
  A signature from the possession check authorizes nothing. If its payload is also the
  payload of an entry at an expiration a signing call accepts, or on a network whose
  identifier differs from that of the reserved passphrase, then SHA-256 collides.
\<close>

lemma possession_not_replayable:
  assumes "possessionPreimage S random = Inr (q, h)" "preimage_roundtrips S q"
    and "buildPreimage S e v net = Inr p" "preimage_roundtrips S p" "Payload S p = Inr h"
    and "v \<noteq> 0 \<or> network_ID S net \<noteq> network_ID S possessionNetworkPassphrase"
  shows "\<exists>x y. x \<noteq> y \<and> sha256_Sum256 S x = sha256_Sum256 S y"
proof -
  obtain n where q: "Payload S q = Inr h" "hp_SorobanAuthorization q = Some \<lparr>pa_NetworkId = network_ID S possessionNetworkPassphrase,
      pa_Nonce = n, pa_SignatureExpirationLedger = 0, pa_Invocation = possessionInvocation\<rparr>"
    using assms(1) by (auto simp: possessionPreimage_def bindE_Inr_iff Let_def)
  obtain b a where p: "p = specPreimage S b a (en_RootInvocation e) v net"
    using assms(3) by (auto simp: buildPreimage_Inr_iff)
  have "p \<noteq> q"
  proof
    assume "p = q"
    then have "hp_SorobanAuthorization (specPreimage S b a (en_RootInvocation e) v net) =
        Some \<lparr>pa_NetworkId = network_ID S possessionNetworkPassphrase,
          pa_Nonce = n, pa_SignatureExpirationLedger = 0, pa_Invocation = possessionInvocation\<rparr>"
      using q(2) p by simp
    then show False using assms(6) by (auto simp: specPreimage_def split: if_splits)
  qed
  obtain x y where xy: "Preimage_MarshalBinary S p = Inr x" "Preimage_DecodeBytes S x = Inr (p, length x)"
    "Preimage_MarshalBinary S q = Inr y" "Preimage_DecodeBytes S y = Inr (q, length y)"
    using assms(2,4) unfolding preimage_roundtrips_def by blast
  with \<open>p \<noteq> q\<close> have "x \<noteq> y" by auto
  moreover have "sha256_Sum256 S x = sha256_Sum256 S y" using xy(1,3) q(1) assms(5) by (auto simp: Payload_Inr_iff)
  ultimately show ?thesis by blast
qed

text \<open>A toy SDK whose hash maps everything to the same value: the hypotheses can hold.\<close>

definition possessionQ :: HashIdPreimage where
  "possessionQ = \<lparr>hp_Type = EnvelopeTypeSorobanAuthorization,
     hp_SorobanAuthorization = Some \<lparr>pa_NetworkId = sampleHash (map (\<lambda>c. of_char c) possessionNetworkPassphrase), pa_Nonce = 0,
       pa_SignatureExpirationLedger = 0, pa_Invocation = possessionInvocation\<rparr>,
     hp_SorobanAuthorizationWithAddress = None\<rparr>"

definition constantHashSdk :: sdk where
  "constantHashSdk = (tableSdk [] [possessionQ, preimageLegacy])\<lparr>sha256_Sum256 := (\<lambda>_. keyOf 0)\<rparr>"

end
