(* ===== verification/Rpcflow.thy ===== *)
theory Rpcflow
  imports Envelope Lifecycle
begin

text \<open>
  The two-pass submission flow (\<^verbatim>\<open>src/rpcflow/submit.go\<close>, \<^verbatim>\<open>src/rpcflow/simulate.go\<close>):
  record, sign, enforce, assemble, sign the envelope, send, poll. The RPC client and the
  transaction builder of the SDK are parameters. Every call the flow makes to the client,
  and the caller's \<open>OnSent\<close> hook, is an event of a trace, in the order it is made.
\<close>

section \<open>Traced computations\<close>

record SendResponse =
  sn_Hash :: string
  sn_Status :: string
  sn_ErrorResultXDR :: string
  sn_DiagnosticEventsXDR :: "string list"

record PollResponse =
  pl_Status :: string
  pl_Ledger :: uint32
  pl_ResultXDR :: string
  pl_DiagnosticEventsXDR :: "string list"

record Submission =
  sb_Hash :: string
  sb_Ledger :: uint32
  sb_Arm :: string
  sb_Status :: string
  sb_RawError :: string
  sb_Diagnostics :: "string list"

definition zeroSubmission :: Submission where
  "zeroSubmission = \<lparr>sb_Hash = '''', sb_Ledger = 0, sb_Arm = '''', sb_Status = '''', sb_RawError = '''', sb_Diagnostics = []\<rparr>"

datatype authMode = AuthModeRecord | AuthModeEnforce

datatype event =
    SimulateCall string authMode bool
  | LatestLedgerCall
  | SendCall string
  | OnSentCall Submission
  | PollCall string

type_synonym 'a traced = "event list \<times> (gerr + 'a)"

definition bindT :: "'a traced \<Rightarrow> ('a \<Rightarrow> 'b traced) \<Rightarrow> 'b traced" where
  "bindT m f = (case snd m of Inl e \<Rightarrow> (fst m, Inl e) | Inr x \<Rightarrow> (fst m @ fst (f x), snd (f x)))"

text \<open>
  A submission returns Go's pair: the \<open>Submission\<close> as far as it is filled in, and the error.
\<close>

type_synonym outcome = "event list \<times> Submission \<times> gerr option"

definition bindS :: "'a traced \<Rightarrow> ('a \<Rightarrow> outcome) \<Rightarrow> outcome" where
  "bindS m f = (case snd m of Inl e \<Rightarrow> (fst m, zeroSubmission, Some e) | Inr x \<Rightarrow> (fst m @ fst (f x), snd (f x)))"

definition liftT :: "gerr + 'a \<Rightarrow> 'a traced" where
  "liftT m = ([], m)"

definition wrapT :: "string \<Rightarrow> 'a traced \<Rightarrow> 'a traced" where
  "wrapT p m = (fst m, wrapE p (snd m))"

section \<open>The SDK's transaction builder and the client\<close>

record InvokeHostFunction =
  io_HostFunction :: bytes
  io_Auth :: "SorobanAuthorizationEntry list"
  io_Ext :: "(bytes \<times> int) option"

record Account =
  at_AccountID :: string
  at_Sequence :: int

record TransactionParams =
  tp_SourceAccount :: Account
  tp_Operation :: InvokeHostFunction
  tp_BaseFee :: int

text \<open>
  \<open>bl_New\<close> is \<open>txnbuild.NewTransaction\<close> on the parameters that vary (the sequence number
  is not incremented and the time bounds are infinite), \<open>bl_Data\<close> decodes simulated
  transaction data, the next three are the envelope codec, and the constants are the SDK's.
\<close>

record 'tx builder =
  bl_New :: "TransactionParams \<Rightarrow> gerr + 'tx"
  bl_Sign :: "string \<Rightarrow> string list \<Rightarrow> 'tx \<Rightarrow> gerr + 'tx"
  bl_Base64 :: "'tx \<Rightarrow> gerr + string"
  bl_Data :: "string \<Rightarrow> gerr + bytes"
  bl_SafeUnmarshalEnvelope :: "string \<Rightarrow> gerr + TransactionEnvelope"
  bl_EnvelopeUnmarshal :: "string \<Rightarrow> nat \<Rightarrow> gerr + TransactionEnvelope"
  bl_EnvelopeMarshal :: "TransactionEnvelope \<Rightarrow> gerr + string"
  bl_MinBaseFee :: int
  bl_TXStatusError :: string
  bl_TransactionStatusSuccess :: string

record SimulateResponse =
  sr_Error :: string
  sr_Results :: "string list option list"
  sr_MinResourceFee :: int
  sr_TransactionDataXDR :: string
  sr_LatestLedger :: uint32

record Client =
  cl_SimulateTransaction :: "string \<Rightarrow> authMode \<Rightarrow> bool \<Rightarrow> gerr + SimulateResponse"
  cl_GetLatestLedger :: "gerr + uint32"
  cl_SendTransaction :: "string \<Rightarrow> gerr + SendResponse"
  cl_PollTransaction :: "string \<Rightarrow> gerr + PollResponse"

definition DefaultLifetimeLedgers :: uint32 where
  "DefaultLifetimeLedgers = 720"

definition DefaultResourceFeePadding :: int where
  "DefaultResourceFeePadding = 100000"

section \<open>Parameters\<close>

record SubmitParams =
  su_Source :: "Account option"
  su_Operation :: InvokeHostFunction
  su_Entries :: "SorobanAuthorizationEntry list"
  su_EnvelopeSigners :: "string list"
  su_NetworkPassphrase :: string
  su_Client :: "Client option"
  su_BaseFee :: int
  su_ResourceFeePadding :: int
  su_OnSent :: bool

record Params =
  pm_Source :: "(string \<times> (gerr + int)) option"
  pm_Operation :: InvokeHostFunction
  pm_Signers :: "signer option list"
  pm_EnvelopeSigners :: "string list"
  pm_NetworkPassphrase :: string
  pm_Client :: "Client option"
  pm_ValidUntilLedger :: uint32
  pm_BaseFee :: int
  pm_ResourceFeePadding :: int
  pm_OnSent :: bool

definition validateParams :: "string \<Rightarrow> bool \<Rightarrow> bool \<Rightarrow> string \<Rightarrow> string list \<Rightarrow> gerr + unit" where
  "validateParams op source client passphrase envelopeSigners =
     (if \<not> source then Inl (errmsg (op @ '': Source is required''))
      else if \<not> client then Inl (errmsg (op @ '': Client is required''))
      else if passphrase = '''' then Inl (errmsg (op @ '': NetworkPassphrase is required''))
      else if length envelopeSigners = 0
      then Inl (errmsg (op @ '': at least one EnvelopeSigner is required to pay for the transaction''))
      else Inr ())"

section \<open>The steps\<close>

definition sequencer :: "(string \<times> (gerr + int)) option \<Rightarrow> gerr + Account" where
  "sequencer source =
     (case source of None \<Rightarrow> Inl (errmsg ''Source is required'')
      | Some (accountID, sequence) \<Rightarrow>
          bindE (wrapE ''reading the source account's sequence number'' sequence) (\<lambda>current.
            Inr \<lparr>at_AccountID = accountID, at_Sequence = wrap64 (current + 1)\<rparr>))"

definition buildTransaction :: "'tx builder \<Rightarrow> Account \<Rightarrow> InvokeHostFunction \<Rightarrow> int \<Rightarrow> gerr + 'tx" where
  "buildTransaction B source op baseFee =
     bl_New B \<lparr>tp_SourceAccount = source, tp_Operation = op,
       tp_BaseFee = (if baseFee = 0 then wrap64 (bl_MinBaseFee B * 100) else baseFee)\<rparr>"

definition simulate :: "'tx builder \<Rightarrow> Client \<Rightarrow> 'tx \<Rightarrow> authMode \<Rightarrow> SimulateResponse traced" where
  "simulate B client tx mode =
     bindT (liftT (wrapE ''encoding the transaction'' (bl_Base64 B tx))) (\<lambda>encoded.
     bindT ([SimulateCall encoded mode False], cl_SimulateTransaction client encoded mode False) (\<lambda>response.
       liftT (if sr_Error response \<noteq> ''''
              then Inl (errmsg (''the rpc refused the simulation: '' @ sr_Error response))
              else Inr response)))"

definition expiration :: "uint32 \<Rightarrow> Client \<Rightarrow> uint32 traced" where
  "expiration validUntilLedger client =
     (if validUntilLedger \<noteq> 0 then liftT (Inr validUntilLedger)
      else bindT ([LatestLedgerCall], wrapE ''reading the current ledger to resolve an expiration'' (cl_GetLatestLedger client)) (\<lambda>latest.
        liftT (ExpirationAfter latest DefaultLifetimeLedgers)))"

definition applyResources :: "'tx builder \<Rightarrow> InvokeHostFunction \<Rightarrow> SimulateResponse \<Rightarrow> int \<Rightarrow> gerr + InvokeHostFunction" where
  "applyResources B op sim padding =
     bindE (wrapE ''decoding the simulated transaction data'' (bl_Data B (sr_TransactionDataXDR sim))) (\<lambda>data.
     let padding' = (if padding = 0 then DefaultResourceFeePadding else padding) in
     Inr (op\<lparr>io_Ext := Some (data, wrap64 (sr_MinResourceFee sim + padding'))\<rparr>))"

definition recordedAuthEntries :: "sdk \<Rightarrow> SimulateResponse \<Rightarrow> gerr + SorobanAuthorizationEntry list" where
  "recordedAuthEntries S sim =
     (if length (sr_Results sim) \<noteq> 1
      then Inl (errw (''the simulation returned '' @ itoa (length (sr_Results sim)) @ '' results, want exactly 1'')
             (Sentinel ErrNoInvokeOperation))
      else case hd (sr_Results sim) of
          None \<Rightarrow> Inl (errw ''the simulation recorded no authorization entries'' (Sentinel ErrNoInvokeOperation))
        | Some encodedEntries \<Rightarrow>
            mapEi (\<lambda>i encoded. wrapE (''decoding recorded entry '' @ itoa i) (DecodeAuthorizationEntry S encoded [])) encodedEntries)"

definition credentialArm :: "sdk \<Rightarrow> SorobanAuthorizationEntry \<Rightarrow> gerr + string" where
  "credentialArm S entry = bindE (Inspect S entry) (\<lambda>info. Inr (ei_CredentialType info))"

definition credentialArmOf :: "sdk \<Rightarrow> 'tx builder \<Rightarrow> string \<Rightarrow> string" where
  "credentialArmOf S B envelopeBase64 =
     (case bl_SafeUnmarshalEnvelope B envelopeBase64 of
        Inl _ \<Rightarrow> ''''
      | Inr envelope \<Rightarrow>
          (case EnvelopeEntries envelope of
             Inl _ \<Rightarrow> ''''
           | Inr [] \<Rightarrow> ''''
           | Inr (e # _) \<Rightarrow> (case credentialArm S (ee_Entry e) of Inl _ \<Rightarrow> '''' | Inr arm \<Rightarrow> arm)))"

definition send :: "sdk \<Rightarrow> 'tx builder \<Rightarrow> Client \<Rightarrow> 'tx \<Rightarrow> bool \<Rightarrow> outcome" where
  "send S B client tx onSent =
     bindS (liftT (wrapE ''soroauth: submit (send): encoding the signed transaction'' (bl_Base64 B tx))) (\<lambda>encoded.
     let sub = zeroSubmission\<lparr>sb_Arm := credentialArmOf S B encoded\<rparr> in
     case cl_SendTransaction client encoded of
       Inl err \<Rightarrow> ([SendCall encoded], sub, Some (errw ''soroauth: submit (send)'' err))
     | Inr sent \<Rightarrow>
         let sub1 = sub\<lparr>sb_Hash := sn_Hash sent, sb_Status := sn_Status sent\<rparr>;
             calls = SendCall encoded # (if onSent then [OnSentCall sub1] else []) in
         if sn_Status sent = bl_TXStatusError B
         then (calls, sub1\<lparr>sb_RawError := sn_ErrorResultXDR sent, sb_Diagnostics := sn_DiagnosticEventsXDR sent\<rparr>, None)
         else
           (case cl_PollTransaction client (sn_Hash sent) of
              Inl err \<Rightarrow> (calls @ [PollCall (sn_Hash sent)], sub1, Some (errw ''soroauth: submit (poll)'' err))
            | Inr polled \<Rightarrow>
                let sub2 = sub1\<lparr>sb_Status := pl_Status polled, sb_Ledger := pl_Ledger polled\<rparr> in
                (calls @ [PollCall (sn_Hash sent)],
                 (if pl_Status polled \<noteq> bl_TransactionStatusSuccess B
                  then sub2\<lparr>sb_RawError := pl_ResultXDR polled, sb_Diagnostics := pl_DiagnosticEventsXDR polled\<rparr>
                  else sub2), None)))"

section \<open>The flow\<close>

definition Submit :: "sdk \<Rightarrow> 'tx builder \<Rightarrow> ctx \<Rightarrow> SubmitParams \<Rightarrow> outcome" where
  "Submit S B ctx p =
     (case ctx of Some err \<Rightarrow> ([], zeroSubmission, Some (errw ''soroauth: submit'' err))
      | None \<Rightarrow>
        bindS (liftT (validateParams ''soroauth: submit'' (su_Source p \<noteq> None) (su_Client p \<noteq> None)
                 (su_NetworkPassphrase p) (su_EnvelopeSigners p))) (\<lambda>_.
        case (su_Source p, su_Client p) of
          (Some source, Some client) \<Rightarrow>
            bindS (liftT (wrapE ''soroauth: submit (enforce)''
                     (buildTransaction B source ((su_Operation p)\<lparr>io_Auth := su_Entries p\<rparr>) (su_BaseFee p)))) (\<lambda>enforceTx.
            bindS (wrapT ''soroauth: submit (enforce)'' (simulate B client enforceTx AuthModeEnforce)) (\<lambda>enforced.
            bindS (liftT (wrapE ''soroauth: submit (assemble)''
                     (applyResources B ((su_Operation p)\<lparr>io_Auth := su_Entries p\<rparr>) enforced (su_ResourceFeePadding p)))) (\<lambda>finalOp.
            bindS (liftT (wrapE ''soroauth: submit (assemble)'' (buildTransaction B source finalOp (su_BaseFee p)))) (\<lambda>finalTx.
            bindS (liftT (wrapE ''soroauth: submit (envelope)''
                     (bl_Sign B (su_NetworkPassphrase p) (su_EnvelopeSigners p) finalTx))) (\<lambda>signedTx.
              send S B client signedTx (su_OnSent p))))))
        | _ \<Rightarrow> ([], zeroSubmission, Some (errmsg ''unreachable''))))"

definition submitParams :: "Params \<Rightarrow> Account \<Rightarrow> SorobanAuthorizationEntry list \<Rightarrow> SubmitParams" where
  "submitParams p source signedEntries =
     \<lparr>su_Source = Some source, su_Operation = pm_Operation p, su_Entries = signedEntries,
      su_EnvelopeSigners = pm_EnvelopeSigners p, su_NetworkPassphrase = pm_NetworkPassphrase p, su_Client = pm_Client p,
      su_BaseFee = pm_BaseFee p, su_ResourceFeePadding = pm_ResourceFeePadding p, su_OnSent = pm_OnSent p\<rparr>"

definition SignAndSubmit :: "sdk \<Rightarrow> 'tx builder \<Rightarrow> ctx \<Rightarrow> Params \<Rightarrow> outcome" where
  "SignAndSubmit S B ctx p =
     bindS (liftT (validateParams ''soroauth: sign and submit'' (pm_Source p \<noteq> None) (pm_Client p \<noteq> None)
              (pm_NetworkPassphrase p) (pm_EnvelopeSigners p))) (\<lambda>_.
     case pm_Client p of None \<Rightarrow> ([], zeroSubmission, Some (errmsg ''unreachable''))
     | Some client \<Rightarrow>
         bindS (liftT (wrapE ''soroauth: sign and submit'' (sequencer (pm_Source p)))) (\<lambda>source.
         bindS (liftT (wrapE ''soroauth: sign and submit (record)'' (buildTransaction B source (pm_Operation p) (pm_BaseFee p)))) (\<lambda>recordTx.
         bindS (wrapT ''soroauth: sign and submit (record)'' (simulate B client recordTx AuthModeRecord)) (\<lambda>recorded.
         bindS (liftT (wrapE ''soroauth: sign and submit (record)'' (recordedAuthEntries S recorded))) (\<lambda>entries.
         bindS (wrapT ''soroauth: sign and submit (sign)'' (expiration (pm_ValidUntilLedger p) client)) (\<lambda>validUntil.
         bindS (liftT (wrapE ''soroauth: sign and submit (sign)''
                  (AuthorizeAll S ctx entries (pm_Signers p) validUntil (pm_NetworkPassphrase p) []))) (\<lambda>signedEntries.
           Submit S B ctx (submitParams p source signedEntries))))))))"

section \<open>The record pass on its own\<close>

record SimulatedEntry =
  se_OperationIndex :: nat
  se_EntryIndex :: nat
  se_Entry :: SorobanAuthorizationEntry
  se_Arm :: string

record Record =
  re_Entries :: "SimulatedEntry list"
  re_MinResourceFee :: int
  re_TransactionDataXDR :: string
  re_LatestLedger :: uint32
  re_EnvelopeXDR :: string

record RecordParams =
  rp_Client :: "Client option"
  rp_EnvelopeXDR :: string
  rp_UseUpgradedAuth :: bool

definition innerTransaction :: "TransactionEnvelope \<Rightarrow> gerr + Transaction" where
  "innerTransaction envelope =
     (case te_Type envelope of
        EnvelopeTypeTx \<Rightarrow>
          (case te_V1 envelope of None \<Rightarrow> Inl (errmsg ''the envelope carries no transaction'') | Some t \<Rightarrow> Inr t)
      | EnvelopeTypeTxFeeBump \<Rightarrow>
          (case te_FeeBump envelope of None \<Rightarrow> Inl (errmsg ''the fee-bump envelope carries no transaction'')
           | Some fb \<Rightarrow>
               (case (fb_InnerType fb, fb_InnerV1 fb) of
                  (EnvelopeTypeTx, Some t) \<Rightarrow> Inr t
                | _ \<Rightarrow> Inl (errmsg ''the fee-bump envelope's inner transaction is not a v1 transaction'')))
      | _ \<Rightarrow> Inl (errmsg ''the envelope is not a transaction envelope''))"

fun singleInvoke :: "nat \<Rightarrow> nat option \<Rightarrow> Operation list \<Rightarrow> gerr + nat option" where
  "singleInvoke i index [] = Inr index"
| "singleInvoke i index (op # ops) =
     (if \<not> isInvoke op then singleInvoke (Suc i) index ops
      else if index \<noteq> None
      then Inl (errw ''the envelope carries more than one invokeHostFunction operation, want exactly one'' (Sentinel ErrNoInvokeOperation))
      else singleInvoke (Suc i) (Some i) ops)"

definition invokeOperationIndex :: "TransactionEnvelope \<Rightarrow> gerr + nat" where
  "invokeOperationIndex envelope =
     bindE (innerTransaction envelope) (\<lambda>inner.
     bindE (singleInvoke 0 None (tx_Operations inner)) (\<lambda>index.
       case index of
         None \<Rightarrow> Inl (errw ''the envelope carries no invokeHostFunction operation'' (Sentinel ErrNoInvokeOperation))
       | Some i \<Rightarrow>
           if op_Body (tx_Operations inner ! i) = BodyInvokeHostFunction None
           then Inl (errmsg (''operation '' @ itoa i @ '': the invokeHostFunction arm is empty''))
           else Inr i))"

definition attachRecordedAuth :: "TransactionEnvelope \<Rightarrow> nat \<Rightarrow> SorobanAuthorizationEntry list \<Rightarrow> gerr + TransactionEnvelope" where
  "attachRecordedAuth envelope index entries =
     bindE (innerTransaction envelope) (\<lambda>inner.
     if index \<ge> length (tx_Operations inner) then Inl (errmsg (''operation '' @ itoa index @ '' is not in the envelope''))
     else case op_Body (tx_Operations inner ! index) of
         BodyInvokeHostFunction (Some ih) \<Rightarrow>
           Inr (setOperations ((tx_Operations inner)[index := (tx_Operations inner ! index)\<lparr>op_Body :=
             BodyInvokeHostFunction (Some (ih\<lparr>ih_Auth := entries\<rparr>))\<rparr>]) envelope)
       | _ \<Rightarrow> Inl (errmsg (''operation '' @ itoa index @ '': the invokeHostFunction arm is empty'')))"

definition simulatedEntry :: "sdk \<Rightarrow> nat \<Rightarrow> nat \<Rightarrow> SorobanAuthorizationEntry \<Rightarrow> gerr + SimulatedEntry" where
  "simulatedEntry S operationIndex i entry =
     bindE (wrapE (''soroauth: simulate record: recorded entry '' @ itoa i) (credentialArm S entry)) (\<lambda>arm.
       Inr \<lparr>se_OperationIndex = operationIndex, se_EntryIndex = i, se_Entry = entry, se_Arm = arm\<rparr>)"

definition SimulateRecord :: "sdk \<Rightarrow> 'tx builder \<Rightarrow> ctx \<Rightarrow> RecordParams \<Rightarrow> Record traced" where
  "SimulateRecord S B ctx p =
     (case ctx of Some err \<Rightarrow> liftT (Inl (errw ''soroauth: simulate record'' err))
      | None \<Rightarrow>
        (case rp_Client p of None \<Rightarrow> liftT (Inl (errmsg ''soroauth: simulate record: Client is required''))
         | Some client \<Rightarrow>
           if rp_EnvelopeXDR p = '''' then liftT (Inl (errmsg ''soroauth: simulate record: EnvelopeXDR is required''))
           else
             bindT (liftT (wrapE ''soroauth: simulate record''
                      (DecodeTransactionEnvelope (bl_EnvelopeUnmarshal B) (rp_EnvelopeXDR p) []))) (\<lambda>envelope.
             bindT (liftT (wrapE ''soroauth: simulate record'' (invokeOperationIndex envelope))) (\<lambda>operationIndex.
             bindT ([SimulateCall (rp_EnvelopeXDR p) AuthModeRecord (rp_UseUpgradedAuth p)], wrapE ''soroauth: simulate record''
                      (cl_SimulateTransaction client (rp_EnvelopeXDR p) AuthModeRecord (rp_UseUpgradedAuth p))) (\<lambda>response.
             bindT (liftT (if sr_Error response \<noteq> ''''
                      then Inl (errmsg (''soroauth: simulate record: the rpc refused the simulation: '' @ sr_Error response))
                      else Inr ())) (\<lambda>_.
             bindT (liftT (wrapE ''soroauth: simulate record'' (recordedAuthEntries S response))) (\<lambda>entries.
             bindT (liftT (wrapE ''soroauth: simulate record'' (attachRecordedAuth envelope operationIndex entries))) (\<lambda>envelope'.
             bindT (liftT (mapEi (simulatedEntry S operationIndex) entries)) (\<lambda>simulated.
             bindT (liftT (wrapE ''soroauth: simulate record: encoding the recorded envelope'' (bl_EnvelopeMarshal B envelope'))) (\<lambda>encoded.
               liftT (Inr \<lparr>re_Entries = simulated, re_MinResourceFee = sr_MinResourceFee response,
                 re_TransactionDataXDR = sr_TransactionDataXDR response, re_LatestLedger = sr_LatestLedger response,
                 re_EnvelopeXDR = encoded\<rparr>)))))))))))"

section \<open>What the trace of a submission shows\<close>

lemma bindS_lift [simp]:
  "bindS (liftT (Inl e)) f = ([], zeroSubmission, Some e)"
  "bindS (liftT (Inr x)) f = f x"
  by (simp_all add: bindS_def liftT_def)

lemma bindT_lift [simp]:
  "bindT (liftT (Inl e)) f = ([], Inl e)"
  "bindT (liftT (Inr x)) f = f x"
  by (simp_all add: bindT_def liftT_def)

lemma bindT_pair [simp]:
  "bindT (tr, Inl e) f = (tr, Inl e)"
  "bindT (tr, Inr x) f = (tr @ fst (f x), snd (f x))"
  by (simp_all add: bindT_def)

lemma bindS_pair [simp]:
  "bindS (tr, Inl e) f = (tr, zeroSubmission, Some e)"
  "bindS (tr, Inr x) f = (tr @ fst (f x), snd (f x))"
  by (simp_all add: bindS_def)

lemma fst_liftT [simp]: "fst (liftT m) = []"
  by (simp add: liftT_def)

lemma send_in_lift:
  assumes "SendCall enc \<in> set (fst (bindS (liftT m) f))"
  obtains x where "m = Inr x" "SendCall enc \<in> set (fst (f x))" "bindS (liftT m) f = f x"
  using assms by (cases m) auto

lemma send_trace:
  assumes "SendCall enc \<in> set (fst (send S B client tx onSent))"
  shows "bl_Base64 B tx = Inr enc \<and>
    (\<exists>rest. fst (send S B client tx onSent) = SendCall enc # rest \<and> (\<forall>e. SendCall e \<notin> set rest))"
proof (cases "bl_Base64 B tx")
  case (Inl e)
  then show ?thesis using assms by (simp add: send_def)
next
  case (Inr encoded)
  have "\<exists>rest. fst (send S B client tx onSent) = SendCall encoded # rest \<and> (\<forall>e. SendCall e \<notin> set rest)"
    by (cases "cl_SendTransaction client encoded"; cases "cl_PollTransaction client (sn_Hash (projr (cl_SendTransaction client encoded)))")
      (auto simp: send_def Inr Let_def)
  then show ?thesis using assms Inr by auto
qed

lemma send_in_simulate:
  assumes "SendCall enc \<in> set (fst (bindS (wrapT p (simulate B client tx mode)) f))"
  obtains se response where "bl_Base64 B tx = Inr se" "cl_SimulateTransaction client se mode False = Inr response"
    "sr_Error response = ''''" "SendCall enc \<in> set (fst (f response))"
    "fst (bindS (wrapT p (simulate B client tx mode)) f) = SimulateCall se mode False # fst (f response)"
proof (cases "bl_Base64 B tx")
  case (Inl e)
  then show ?thesis using assms by (simp add: simulate_def wrapT_def)
next
  case se: (Inr se)
  show ?thesis
  proof (cases "cl_SimulateTransaction client se mode False")
    case (Inl e)
    then show ?thesis using assms se by (simp add: simulate_def wrapT_def)
  next
    case (Inr response)
    then show ?thesis
      using assms se that
      by (cases "sr_Error response = ''''") (auto simp: simulate_def wrapT_def liftT_def)
  qed
qed

text \<open>
  The account and the fees of the transactions of one run, and the operation the enforcing
  pass prices and the one that is sent.
\<close>

lemma Submit_send:
  assumes "SendCall enc \<in> set (fst (Submit S B ctx p))"
  obtains source client enforceTx enforceEnc enforced data finalTx signedTx rest where
    "ctx = None" "su_Source p = Some source" "su_Client p = Some client"
    "fst (Submit S B ctx p) = SimulateCall enforceEnc AuthModeEnforce False # SendCall enc # rest"
    "\<forall>e. SendCall e \<notin> set rest"
    "buildTransaction B source ((su_Operation p)\<lparr>io_Auth := su_Entries p\<rparr>) (su_BaseFee p) = Inr enforceTx"
    "bl_Base64 B enforceTx = Inr enforceEnc"
    "cl_SimulateTransaction client enforceEnc AuthModeEnforce False = Inr enforced" "sr_Error enforced = ''''"
    "bl_Data B (sr_TransactionDataXDR enforced) = Inr data"
    "buildTransaction B source ((su_Operation p)\<lparr>io_Auth := su_Entries p,
       io_Ext := Some (data, wrap64 (sr_MinResourceFee enforced +
         (if su_ResourceFeePadding p = 0 then DefaultResourceFeePadding else su_ResourceFeePadding p)))\<rparr>)
       (su_BaseFee p) = Inr finalTx"
    "bl_Sign B (su_NetworkPassphrase p) (su_EnvelopeSigners p) finalTx = Inr signedTx" "bl_Base64 B signedTx = Inr enc"
proof -
  have c: "ctx = None" using assms by (auto simp: Submit_def split: option.splits)
  define op0 where "op0 = (su_Operation p)\<lparr>io_Auth := su_Entries p\<rparr>"
  have v: "isOk (validateParams ''soroauth: submit'' (su_Source p \<noteq> None) (su_Client p \<noteq> None)
       (su_NetworkPassphrase p) (su_EnvelopeSigners p))"
    using assms c by (auto simp: Submit_def elim!: send_in_lift)
  then obtain source client where sc: "su_Source p = Some source" "su_Client p = Some client"
    by (auto simp: validateParams_def split: if_splits)
  have eq: "Submit S B ctx p =
      bindS (liftT (wrapE ''soroauth: submit (enforce)'' (buildTransaction B source op0 (su_BaseFee p)))) (\<lambda>enforceTx.
      bindS (wrapT ''soroauth: submit (enforce)'' (simulate B client enforceTx AuthModeEnforce)) (\<lambda>enforced.
      bindS (liftT (wrapE ''soroauth: submit (assemble)'' (applyResources B op0 enforced (su_ResourceFeePadding p)))) (\<lambda>finalOp.
      bindS (liftT (wrapE ''soroauth: submit (assemble)'' (buildTransaction B source finalOp (su_BaseFee p)))) (\<lambda>finalTx.
      bindS (liftT (wrapE ''soroauth: submit (envelope)'' (bl_Sign B (su_NetworkPassphrase p) (su_EnvelopeSigners p) finalTx))) (\<lambda>signedTx.
        send S B client signedTx (su_OnSent p))))))"
    using v sc c by (auto simp: Submit_def op0_def isOk_iff)
  obtain enforceTx where e: "buildTransaction B source op0 (su_BaseFee p) = Inr enforceTx"
    "SendCall enc \<in> set (fst (bindS (wrapT ''soroauth: submit (enforce)'' (simulate B client enforceTx AuthModeEnforce)) (\<lambda>enforced.
      bindS (liftT (wrapE ''soroauth: submit (assemble)'' (applyResources B op0 enforced (su_ResourceFeePadding p)))) (\<lambda>finalOp.
      bindS (liftT (wrapE ''soroauth: submit (assemble)'' (buildTransaction B source finalOp (su_BaseFee p)))) (\<lambda>finalTx.
      bindS (liftT (wrapE ''soroauth: submit (envelope)'' (bl_Sign B (su_NetworkPassphrase p) (su_EnvelopeSigners p) finalTx))) (\<lambda>signedTx.
        send S B client signedTx (su_OnSent p)))))))"
    using assms unfolding eq by (rule send_in_lift) auto
  obtain se enforced where s: "bl_Base64 B enforceTx = Inr se" "cl_SimulateTransaction client se AuthModeEnforce False = Inr enforced"
    "sr_Error enforced = ''''"
    "SendCall enc \<in> set (fst (bindS (liftT (wrapE ''soroauth: submit (assemble)'' (applyResources B op0 enforced (su_ResourceFeePadding p)))) (\<lambda>finalOp.
      bindS (liftT (wrapE ''soroauth: submit (assemble)'' (buildTransaction B source finalOp (su_BaseFee p)))) (\<lambda>finalTx.
      bindS (liftT (wrapE ''soroauth: submit (envelope)'' (bl_Sign B (su_NetworkPassphrase p) (su_EnvelopeSigners p) finalTx))) (\<lambda>signedTx.
        send S B client signedTx (su_OnSent p))))))"
    "fst (Submit S B ctx p) = SimulateCall se AuthModeEnforce False #
      fst (bindS (liftT (wrapE ''soroauth: submit (assemble)'' (applyResources B op0 enforced (su_ResourceFeePadding p)))) (\<lambda>finalOp.
      bindS (liftT (wrapE ''soroauth: submit (assemble)'' (buildTransaction B source finalOp (su_BaseFee p)))) (\<lambda>finalTx.
      bindS (liftT (wrapE ''soroauth: submit (envelope)'' (bl_Sign B (su_NetworkPassphrase p) (su_EnvelopeSigners p) finalTx))) (\<lambda>signedTx.
        send S B client signedTx (su_OnSent p)))))"
    using e(2) unfolding eq e(1) wrapE_simps bindS_lift by (rule send_in_simulate) blast
  obtain finalOp finalTx signedTx where f: "applyResources B op0 enforced (su_ResourceFeePadding p) = Inr finalOp"
    "buildTransaction B source finalOp (su_BaseFee p) = Inr finalTx"
    "bl_Sign B (su_NetworkPassphrase p) (su_EnvelopeSigners p) finalTx = Inr signedTx"
    "SendCall enc \<in> set (fst (send S B client signedTx (su_OnSent p)))"
    using s(4) by (auto elim!: send_in_lift)
  obtain data where d: "finalOp = op0\<lparr>io_Ext := Some (data, wrap64 (sr_MinResourceFee enforced +
         (if su_ResourceFeePadding p = 0 then DefaultResourceFeePadding else su_ResourceFeePadding p)))\<rparr>"
    "bl_Data B (sr_TransactionDataXDR enforced) = Inr data"
    using f(1) by (auto simp: applyResources_def bindE_Inr_iff Let_def)
  obtain rest where r: "bl_Base64 B signedTx = Inr enc" "fst (send S B client signedTx (su_OnSent p)) = SendCall enc # rest"
    "\<forall>e. SendCall e \<notin> set rest"
    using send_trace [OF f(4)] by blast
  have tr: "fst (Submit S B ctx p) = SimulateCall se AuthModeEnforce False # SendCall enc # rest"
    using s(5) f(1-3) r(2) by simp
  have f2: "buildTransaction B source ((su_Operation p)\<lparr>io_Auth := su_Entries p,
       io_Ext := Some (data, wrap64 (sr_MinResourceFee enforced +
         (if su_ResourceFeePadding p = 0 then DefaultResourceFeePadding else su_ResourceFeePadding p)))\<rparr>)
       (su_BaseFee p) = Inr finalTx"
    using f(2) d(1) by (simp add: op0_def)
  show ?thesis
    by (rule that [OF c sc tr r(3) e(1) [unfolded op0_def] s(1-3) d(2) f2 f(3) r(1)])
qed

end
