(* ===== verification/Rpcflow_Properties.thy ===== *)
theory Rpcflow_Properties
  imports Rpcflow Envelope_Properties
begin

text \<open>
  The order of the submission flow and what the transaction that goes out carries.
\<close>

lemma submitParams_select:
  "su_Source (submitParams p source entries) = Some source" "su_Operation (submitParams p source entries) = pm_Operation p"
  "su_Entries (submitParams p source entries) = entries" "su_EnvelopeSigners (submitParams p source entries) = pm_EnvelopeSigners p"
  "su_NetworkPassphrase (submitParams p source entries) = pm_NetworkPassphrase p" "su_Client (submitParams p source entries) = pm_Client p"
  "su_BaseFee (submitParams p source entries) = pm_BaseFee p"
  "su_ResourceFeePadding (submitParams p source entries) = pm_ResourceFeePadding p"
  by (simp_all add: submitParams_def)

lemma expiration_no_send: "SendCall enc \<notin> set (fst (expiration v client))"
  by (cases "cl_GetLatestLedger client") (auto simp: expiration_def)

lemma SignAndSubmit_send:
  assumes "SendCall enc \<in> set (fst (SignAndSubmit S B ctx p))"
  obtains client source recordTx recordEnc recorded entries validUntil signedEntries where
    "pm_Client p = Some client" "sequencer (pm_Source p) = Inr source"
    "buildTransaction B source (pm_Operation p) (pm_BaseFee p) = Inr recordTx" "bl_Base64 B recordTx = Inr recordEnc"
    "cl_SimulateTransaction client recordEnc AuthModeRecord False = Inr recorded" "recordedAuthEntries S recorded = Inr entries"
    "snd (expiration (pm_ValidUntilLedger p) client) = Inr validUntil"
    "AuthorizeAll S ctx entries (pm_Signers p) validUntil (pm_NetworkPassphrase p) [] = Inr signedEntries"
    "SendCall enc \<in> set (fst (Submit S B ctx (submitParams p source signedEntries)))"
    "fst (SignAndSubmit S B ctx p) = SimulateCall recordEnc AuthModeRecord False # fst (expiration (pm_ValidUntilLedger p) client) @
       fst (Submit S B ctx (submitParams p source signedEntries))"
proof -
  obtain client where cl: "pm_Client p = Some client"
    "isOk (validateParams ''soroauth: sign and submit'' (pm_Source p \<noteq> None) True (pm_NetworkPassphrase p) (pm_EnvelopeSigners p))"
    using assms by (auto simp: SignAndSubmit_def split: option.splits elim!: send_in_lift)
  define sub where "sub = (\<lambda>source signedEntries. Submit S B ctx (submitParams p source signedEntries))"
  define tail where "tail = (\<lambda>source recorded.
     bindS (liftT (wrapE ''soroauth: sign and submit (record)'' (recordedAuthEntries S recorded))) (\<lambda>entries.
     bindS (wrapT ''soroauth: sign and submit (sign)'' (expiration (pm_ValidUntilLedger p) client)) (\<lambda>validUntil.
     bindS (liftT (wrapE ''soroauth: sign and submit (sign)''
         (AuthorizeAll S ctx entries (pm_Signers p) validUntil (pm_NetworkPassphrase p) []))) (\<lambda>signedEntries. sub source signedEntries))))"
  have eq: "SignAndSubmit S B ctx p =
      bindS (liftT (wrapE ''soroauth: sign and submit'' (sequencer (pm_Source p)))) (\<lambda>source.
      bindS (liftT (wrapE ''soroauth: sign and submit (record)'' (buildTransaction B source (pm_Operation p) (pm_BaseFee p)))) (\<lambda>recordTx.
      bindS (wrapT ''soroauth: sign and submit (record)'' (simulate B client recordTx AuthModeRecord)) (tail source)))"
    using cl by (auto simp: SignAndSubmit_def isOk_iff tail_def sub_def)
  obtain source recordTx where s: "sequencer (pm_Source p) = Inr source"
    "buildTransaction B source (pm_Operation p) (pm_BaseFee p) = Inr recordTx"
    "SendCall enc \<in> set (fst (bindS (wrapT ''soroauth: sign and submit (record)'' (simulate B client recordTx AuthModeRecord)) (tail source)))"
    using assms unfolding eq by (auto elim!: send_in_lift)
  obtain re recorded where r: "bl_Base64 B recordTx = Inr re" "cl_SimulateTransaction client re AuthModeRecord False = Inr recorded"
    "SendCall enc \<in> set (fst (tail source recorded))"
    "fst (SignAndSubmit S B ctx p) = SimulateCall re AuthModeRecord False # fst (tail source recorded)"
    using s(3) unfolding eq s(1,2) wrapE_simps bindS_lift by (rule send_in_simulate) blast
  obtain entries where e: "recordedAuthEntries S recorded = Inr entries"
    "SendCall enc \<in> set (fst (bindS (wrapT ''soroauth: sign and submit (sign)'' (expiration (pm_ValidUntilLedger p) client)) (\<lambda>validUntil.
     bindS (liftT (wrapE ''soroauth: sign and submit (sign)''
         (AuthorizeAll S ctx entries (pm_Signers p) validUntil (pm_NetworkPassphrase p) []))) (\<lambda>signedEntries. sub source signedEntries))))"
    using r(3) unfolding tail_def by (auto elim!: send_in_lift)
  obtain v where v: "snd (expiration (pm_ValidUntilLedger p) client) = Inr v"
    using e(2) expiration_no_send by (cases "snd (expiration (pm_ValidUntilLedger p) client)") (auto simp: bindS_def wrapT_def)
  then obtain signedEntries where a: "AuthorizeAll S ctx entries (pm_Signers p) v (pm_NetworkPassphrase p) [] = Inr signedEntries"
    "SendCall enc \<in> set (fst (sub source signedEntries))"
    using e(2) expiration_no_send by (auto simp: bindS_def [of "wrapT _ _"] wrapT_def elim!: send_in_lift)
  have "fst (tail source recorded) = fst (expiration (pm_ValidUntilLedger p) client) @ fst (sub source signedEntries)"
    using e(1) v a(1) by (simp add: tail_def) (simp add: bindS_def [of "wrapT _ _"] wrapT_def)
  then show ?thesis
    using that [OF cl(1) s(1,2) r(1,2) e(1) v a(1)] a(2) r(4) unfolding sub_def by simp
qed

text \<open>
  C29: nothing is sent that was not priced. When \<open>SignAndSubmit\<close> sends a transaction, the
  trace of its calls is: one record simulation, at most one ledger lookup, one enforce
  simulation, the send, and no further send. The enforce simulation carried the entries
  \<open>AuthorizeAll\<close> signed out of the recorded ones; the transaction sent carries the same
  entries, the same account and sequence number (one past the account's), and a resource fee
  of the enforcing pass's minimum plus the padding.
\<close>

theorem sign_and_submit_order:
  assumes "SendCall enc \<in> set (fst (SignAndSubmit S B ctx p))"
  shows "\<exists>recordTx recordEnc enforceEnc rest source client recorded entries validUntil signedEntries enforceTx enforced data finalTx signedTx.
    fst (SignAndSubmit S B ctx p) = [SimulateCall recordEnc AuthModeRecord False] @
      (if pm_ValidUntilLedger p = 0 then [LatestLedgerCall] else []) @
      [SimulateCall enforceEnc AuthModeEnforce False, SendCall enc] @ rest \<and> (\<forall>e. SendCall e \<notin> set rest) \<and>
    sequencer (pm_Source p) = Inr source \<and> pm_Client p = Some client \<and>
    buildTransaction B source (pm_Operation p) (pm_BaseFee p) = Inr recordTx \<and> bl_Base64 B recordTx = Inr recordEnc \<and>
    cl_SimulateTransaction client recordEnc AuthModeRecord False = Inr recorded \<and> recordedAuthEntries S recorded = Inr entries \<and>
    snd (expiration (pm_ValidUntilLedger p) client) = Inr validUntil \<and>
    AuthorizeAll S None entries (pm_Signers p) validUntil (pm_NetworkPassphrase p) [] = Inr signedEntries \<and>
    buildTransaction B source ((pm_Operation p)\<lparr>io_Auth := signedEntries\<rparr>) (pm_BaseFee p) = Inr enforceTx \<and>
    bl_Base64 B enforceTx = Inr enforceEnc \<and>
    cl_SimulateTransaction client enforceEnc AuthModeEnforce False = Inr enforced \<and> sr_Error enforced = '''' \<and>
    bl_Data B (sr_TransactionDataXDR enforced) = Inr data \<and>
    buildTransaction B source ((pm_Operation p)\<lparr>io_Auth := signedEntries,
       io_Ext := Some (data, wrap64 (sr_MinResourceFee enforced +
         (if pm_ResourceFeePadding p = 0 then DefaultResourceFeePadding else pm_ResourceFeePadding p)))\<rparr>)
       (pm_BaseFee p) = Inr finalTx \<and>
    bl_Sign B (pm_NetworkPassphrase p) (pm_EnvelopeSigners p) finalTx = Inr signedTx \<and> bl_Base64 B signedTx = Inr enc"
proof -
  obtain client source recordTx recordEnc recorded entries validUntil signedEntries where s:
    "pm_Client p = Some client" "sequencer (pm_Source p) = Inr source"
    "buildTransaction B source (pm_Operation p) (pm_BaseFee p) = Inr recordTx" "bl_Base64 B recordTx = Inr recordEnc"
    "cl_SimulateTransaction client recordEnc AuthModeRecord False = Inr recorded" "recordedAuthEntries S recorded = Inr entries"
    "snd (expiration (pm_ValidUntilLedger p) client) = Inr validUntil"
    "AuthorizeAll S ctx entries (pm_Signers p) validUntil (pm_NetworkPassphrase p) [] = Inr signedEntries"
    "SendCall enc \<in> set (fst (Submit S B ctx (submitParams p source signedEntries)))"
    "fst (SignAndSubmit S B ctx p) = SimulateCall recordEnc AuthModeRecord False # fst (expiration (pm_ValidUntilLedger p) client) @
       fst (Submit S B ctx (submitParams p source signedEntries))"
    by (rule SignAndSubmit_send [OF assms]) blast
  have ex: "fst (expiration (pm_ValidUntilLedger p) client) = (if pm_ValidUntilLedger p = 0 then [LatestLedgerCall] else [])"
    by (cases "cl_GetLatestLedger client") (auto simp: expiration_def)
  obtain enforceTx enforceEnc enforced data finalTx signedTx rest where r: "ctx = None"
    "fst (Submit S B ctx (submitParams p source signedEntries)) = SimulateCall enforceEnc AuthModeEnforce False # SendCall enc # rest"
    "\<forall>e. SendCall e \<notin> set rest"
    "buildTransaction B source ((pm_Operation p)\<lparr>io_Auth := signedEntries\<rparr>) (pm_BaseFee p) = Inr enforceTx"
    "bl_Base64 B enforceTx = Inr enforceEnc"
    "cl_SimulateTransaction client enforceEnc AuthModeEnforce False = Inr enforced" "sr_Error enforced = ''''"
    "bl_Data B (sr_TransactionDataXDR enforced) = Inr data"
    "buildTransaction B source ((pm_Operation p)\<lparr>io_Auth := signedEntries,
       io_Ext := Some (data, wrap64 (sr_MinResourceFee enforced +
         (if pm_ResourceFeePadding p = 0 then DefaultResourceFeePadding else pm_ResourceFeePadding p)))\<rparr>)
       (pm_BaseFee p) = Inr finalTx"
    "bl_Sign B (pm_NetworkPassphrase p) (pm_EnvelopeSigners p) finalTx = Inr signedTx" "bl_Base64 B signedTx = Inr enc"
  proof (rule Submit_send [OF s(9)], goal_cases)
    case (1 source' client' enforceTx enforceEnc enforced data finalTx signedTx rest)
    have sc: "source' = source" "client' = client" using 1(3,4) s(1) by (simp_all add: submitParams_select)
    note u = 1(5-) [unfolded sc submitParams_select]
    show ?case by (rule 1(1) [OF 1(2) u])
  qed
  have tr: "fst (SignAndSubmit S B ctx p) = [SimulateCall recordEnc AuthModeRecord False] @
      (if pm_ValidUntilLedger p = 0 then [LatestLedgerCall] else []) @
      [SimulateCall enforceEnc AuthModeEnforce False, SendCall enc] @ rest"
    using s(10) r(2) ex by simp
  show ?thesis
    by (intro exI conjI) (rule tr r(3) s(2) s(1) s(3) s(4) s(5) s(6) s(7) s(8) [unfolded r(1)] r(4-11))+
qed

definition sampleResponse :: SimulateResponse where
  "sampleResponse = \<lparr>sr_Error = '''', sr_Results = [Some []], sr_MinResourceFee = 5000,
     sr_TransactionDataXDR = ''data'', sr_LatestLedger = 7\<rparr>"

definition sampleClient :: Client where
  "sampleClient = \<lparr>cl_SimulateTransaction = (\<lambda>tx mode upgraded. Inr sampleResponse), cl_GetLatestLedger = Inr 7,
     cl_SendTransaction = (\<lambda>tx. Inr \<lparr>sn_Hash = ''hash'', sn_Status = ''PENDING'', sn_ErrorResultXDR = '''', sn_DiagnosticEventsXDR = []\<rparr>),
     cl_PollTransaction = (\<lambda>h. Inr \<lparr>pl_Status = ''SUCCESS'', pl_Ledger = 9, pl_ResultXDR = '''', pl_DiagnosticEventsXDR = []\<rparr>)\<rparr>"

definition sampleBuilder :: "string builder" where
  "sampleBuilder = \<lparr>bl_New = (\<lambda>t. Inr (case io_Ext (tp_Operation t) of None \<Rightarrow> ''tx'' | Some x \<Rightarrow> ''tx priced'')),
     bl_Sign = (\<lambda>net ks tx. Inr (tx @ '' signed'')), bl_Base64 = Inr, bl_Data = (\<lambda>s. Inr [1]),
     bl_SafeUnmarshalEnvelope = (\<lambda>s. Inl (errmsg ''no envelope'')), bl_EnvelopeUnmarshal = (\<lambda>s d. Inl (errmsg ''no envelope'')),
     bl_EnvelopeMarshal = (\<lambda>e. Inl (errmsg ''no envelope'')), bl_MinBaseFee = 100,
     bl_TXStatusError = ''ERROR'', bl_TransactionStatusSuccess = ''SUCCESS''\<rparr>"

definition sampleParams :: Params where
  "sampleParams = \<lparr>pm_Source = Some (''GA'', Inr 41), pm_Operation = \<lparr>io_HostFunction = [], io_Auth = [], io_Ext = None\<rparr>,
     pm_Signers = [None, Some sampleSigner], pm_EnvelopeSigners = [''SA''], pm_NetworkPassphrase = sampleNetwork,
     pm_Client = Some sampleClient, pm_ValidUntilLedger = 0, pm_BaseFee = 0, pm_ResourceFeePadding = 0, pm_OnSent = True\<rparr>"

lemma sample_submission:
  "SendCall ''tx priced signed'' \<in> set (fst (SignAndSubmit sampleSdk sampleBuilder None sampleParams))"
proof -
  have a: "AuthorizeAll sampleSdk None [] [None, Some sampleSigner] v sampleNetwork [] = Inr []" for v
    by (simp add: AuthorizeAll_def applyAllOptions_def prepareAll_no_plans errorsOf_def)
  have e: "expiration 0 sampleClient = ([LatestLedgerCall], Inr 727)"
    by (simp add: expiration_def sampleClient_def ExpirationAfter_def DefaultLifetimeLedgers_def liftT_def)
  have sim: "simulate sampleBuilder sampleClient tx mode = ([SimulateCall tx mode False], Inr sampleResponse)" for tx mode
    by (simp add: simulate_def sampleBuilder_def sampleClient_def sampleResponse_def liftT_def)
  have sent: "SendCall tx \<in> set (fst (send sampleSdk sampleBuilder sampleClient tx onSent))" for tx onSent
    by (auto simp: send_def sampleBuilder_def Let_def split: sum.splits)
  show ?thesis
    by (simp add: SignAndSubmit_def sampleParams_def submitParams_def Submit_def validateParams_def sampleNetwork_def
        sequencer_def e wrapT_def sim a [unfolded sampleNetwork_def] recordedAuthEntries_def sampleResponse_def buildTransaction_def
        applyResources_def Let_def mapEi_def)
      (simp add: sampleBuilder_def a [unfolded sampleNetwork_def] sent [unfolded sampleBuilder_def])
qed

theorem sign_and_submit_order_witness:
  "\<exists>rest. fst (SignAndSubmit sampleSdk sampleBuilder None sampleParams) =
     [SimulateCall ''tx'' AuthModeRecord False, LatestLedgerCall, SimulateCall ''tx'' AuthModeEnforce False,
      SendCall ''tx priced signed''] @ rest \<and> (\<forall>e. SendCall e \<notin> set rest)"
  using sign_and_submit_order [OF sample_submission]
  by (auto simp: sampleParams_def sampleBuilder_def buildTransaction_def)


section \<open>The record pass\<close>

lemma concat_single:
  assumes "k < n"
  shows "concat (map (\<lambda>j. if j = k then xs else []) [0..<n]) = xs"
proof -
  have "[0..<n] = [0..<k] @ k # [Suc k..<n]"
    using assms by (metis le_add1 less_imp_add_positive upt_add_eq_append upt_conv_Cons add_0)
  then show ?thesis by (simp add: concat_eq_Nil_conv [THEN iffD2])
qed

lemma EnvelopeEntries_single:
  assumes "envelopeOperations env = Inr ops" "k < length ops" "op_Body (ops ! k) = BodyInvokeHostFunction (Some ih)"
    and "\<And>j. j < length ops \<Longrightarrow> j \<noteq> k \<Longrightarrow> \<not> isInvoke (ops ! j)"
  shows "EnvelopeEntries env =
    Inr (map (\<lambda>(j, e). \<lparr>ee_OperationIndex = k, ee_EntryIndex = j, ee_Entry = e\<rparr>) (enumerate 0 (ih_Auth ih)))"
proof -
  let ?es = "map (\<lambda>(j, e). \<lparr>ee_OperationIndex = k, ee_EntryIndex = j, ee_Entry = e\<rparr>) (enumerate 0 (ih_Auth ih))"
  have "mapEi operationEntries ops = Inr (map (\<lambda>j. if j = k then ?es else []) [0..<length ops])"
    using assms(3) by (auto simp: mapEi_Inr_iff operationEntries_def isInvoke_def
        split: OperationBody.splits option.splits dest: assms(4))
  moreover have "isInvoke (ops ! k)" using assms(3) by (simp add: isInvoke_def)
  ultimately show ?thesis
    using assms(1,2) concat_single [OF assms(2), of ?es] unfolding EnvelopeEntries_Inr by (metis nth_mem)
qed

lemma singleInvoke_Inr:
  "singleInvoke i index ops = Inr r \<Longrightarrow>
     (r = index \<and> (\<forall>op \<in> set ops. \<not> isInvoke op)) \<or>
     (index = None \<and> (\<exists>k < length ops. r = Some (i + k) \<and> isInvoke (ops ! k) \<and>
        (\<forall>j < length ops. j \<noteq> k \<longrightarrow> \<not> isInvoke (ops ! j))))"
proof (induction i index ops rule: singleInvoke.induct)
  case (2 i index op ops)
  show ?case
  proof (cases "isInvoke op")
    case True
    then have "index = None" "singleInvoke (Suc i) (Some i) ops = Inr r" using 2(3) by (auto split: if_splits)
    then have "r = Some i" "\<forall>op \<in> set ops. \<not> isInvoke op" using 2(2) True by auto
    then show ?thesis using True \<open>index = None\<close>
      by (intro disjI2 conjI exI [of _ 0]) (auto simp: nth_Cons' )
  next
    case False
    then have "singleInvoke (Suc i) index ops = Inr r" using 2(3) by simp
    from 2(1) [OF False this] show ?thesis
    proof (elim disjE conjE exE)
      fix k assume k: "index = None" "k < length ops" "r = Some (Suc i + k)" "isInvoke (ops ! k)"
        "\<forall>j < length ops. j \<noteq> k \<longrightarrow> \<not> isInvoke (ops ! j)"
      have "\<not> isInvoke ((op # ops) ! j)" if "j < length (op # ops)" "j \<noteq> Suc k" for j
        using k(5) that False by (cases j) auto
      then show ?thesis using k by (intro disjI2 conjI exI [of _ "Suc k"]) auto
    qed (use False in auto)
  qed
qed simp

lemma innerTransaction_operations:
  "innerTransaction env = Inr t \<Longrightarrow> envelopeOperations env = Inr (tx_Operations t)"
  by (auto simp: innerTransaction_def envelopeOperations_def split: TxEnvelopeType.splits option.splits)

lemma invokeOperationIndex_Inr:
  assumes "invokeOperationIndex env = Inr k"
  obtains ops ih where "envelopeOperations env = Inr ops" "k < length ops" "op_Body (ops ! k) = BodyInvokeHostFunction (Some ih)"
    "\<And>j. j < length ops \<Longrightarrow> j \<noteq> k \<Longrightarrow> \<not> isInvoke (ops ! j)"
proof -
  obtain t where t: "innerTransaction env = Inr t" "singleInvoke 0 None (tx_Operations t) = Inr (Some k)"
    "op_Body (tx_Operations t ! k) \<noteq> BodyInvokeHostFunction None"
    using assms by (auto simp: invokeOperationIndex_def bindE_Inr_iff split: option.splits if_splits)
  have k: "k < length (tx_Operations t)" "isInvoke (tx_Operations t ! k)"
    "\<And>j. j < length (tx_Operations t) \<Longrightarrow> j \<noteq> k \<Longrightarrow> \<not> isInvoke (tx_Operations t ! j)"
    using singleInvoke_Inr [OF t(2)] by auto
  obtain ih where "op_Body (tx_Operations t ! k) = BodyInvokeHostFunction (Some ih)"
    using k(2) t(3) unfolding isInvoke_def by (cases "op_Body (tx_Operations t ! k)") (auto intro: that)
  then show ?thesis by (rule that [OF innerTransaction_operations [OF t(1)] k(1) _ k(3)])
qed

lemma bindT_Inr_iff:
  "bindT m f = (tr, Inr y) \<longleftrightarrow> (\<exists>x tr'. snd m = Inr x \<and> f x = (tr', Inr y) \<and> tr = fst m @ tr')"
  by (cases m; cases "snd m") (auto simp: bindT_def, metis prod.collapse)

lemma liftT_eq_iff: "liftT m = (tr, x) \<longleftrightarrow> tr = [] \<and> m = x"
  by (auto simp: liftT_def)

lemma snd_liftT [simp]: "snd (liftT m) = m"
  by (simp add: liftT_def)

lemma simulatedEntry_Inr:
  assumes "simulatedEntry S k i entry = Inr e"
  shows "se_OperationIndex e = k" "se_EntryIndex e = i" "se_Entry e = entry" "credentialArm S (se_Entry e) = Inr (se_Arm e)"
  using assms by (auto simp: simulatedEntry_def bindE_Inr_iff)

text \<open>
  What the record pass returns lines up with the envelope it returns. A successful
  \<open>SimulateRecord\<close> made exactly one call, the simulation of the caller's own envelope; the
  envelope it hands back is that envelope with the auth vector of its single
  invokeHostFunction operation replaced; and \<open>EnvelopeEntries\<close> reads from it exactly the
  entries of the record, at the operation and entry indices the record gives.
\<close>

lemma simulate_record_lines_up:
  assumes "SimulateRecord S B ctx p = (tr, Inr record)"
  shows "tr = [SimulateCall (rp_EnvelopeXDR p) AuthModeRecord (rp_UseUpgradedAuth p)] \<and>
    (\<exists>env env' ops. DecodeTransactionEnvelope (bl_EnvelopeUnmarshal B) (rp_EnvelopeXDR p) [] = Inr env \<and>
       bl_EnvelopeMarshal B env' = Inr (re_EnvelopeXDR record) \<and>
       envelopeOperations env = Inr ops \<and> setOperations ops env' = env \<and>
       EnvelopeEntries env' = Inr (map (\<lambda>e. \<lparr>ee_OperationIndex = se_OperationIndex e, ee_EntryIndex = se_EntryIndex e,
         ee_Entry = se_Entry e\<rparr>) (re_Entries record)) \<and>
       (\<forall>e \<in> set (re_Entries record). credentialArm S (se_Entry e) = Inr (se_Arm e)))"
proof -
  obtain client env k response entries env' simulated where c:
    "DecodeTransactionEnvelope (bl_EnvelopeUnmarshal B) (rp_EnvelopeXDR p) [] = Inr env" "invokeOperationIndex env = Inr k"
    "recordedAuthEntries S response = Inr entries" "attachRecordedAuth env k entries = Inr env'"
    "mapEi (simulatedEntry S k) entries = Inr simulated"
    "bl_EnvelopeMarshal B env' = Inr (re_EnvelopeXDR record)" "re_Entries record = simulated"
    "tr = [SimulateCall (rp_EnvelopeXDR p) AuthModeRecord (rp_UseUpgradedAuth p)]"
    using assms unfolding SimulateRecord_def
    by (auto simp: bindT_Inr_iff liftT_eq_iff split: option.splits if_splits)
  obtain ops ih0 where o: "envelopeOperations env = Inr ops" "k < length ops"
    "op_Body (ops ! k) = BodyInvokeHostFunction (Some ih0)" "\<And>j. j < length ops \<Longrightarrow> j \<noteq> k \<Longrightarrow> \<not> isInvoke (ops ! j)"
    by (rule invokeOperationIndex_Inr [OF c(2)]) blast
  define op where "op = (ops ! k)\<lparr>op_Body := BodyInvokeHostFunction (Some (ih0\<lparr>ih_Auth := entries\<rparr>))\<rparr>"
  have env': "env' = setOperations (ops[k := op]) env"
    using c(4) o(1-3) by (auto simp: attachRecordedAuth_def bindE_Inr_iff op_def dest!: innerTransaction_operations)
  have "EnvelopeEntries env' = Inr (map (\<lambda>(j, e). \<lparr>ee_OperationIndex = k, ee_EntryIndex = j, ee_Entry = e\<rparr>)
      (enumerate 0 (ih_Auth (ih0\<lparr>ih_Auth := entries\<rparr>))))"
  proof (rule EnvelopeEntries_single)
    show "envelopeOperations env' = Inr (ops[k := op])"
      unfolding env' by (rule setOperations_envelopeOperations [OF o(1)])
  qed (use o in \<open>auto simp: op_def\<close>)
  also have "map (\<lambda>(j, e). \<lparr>ee_OperationIndex = k, ee_EntryIndex = j, ee_Entry = e\<rparr>) (enumerate 0 (ih_Auth (ih0\<lparr>ih_Auth := entries\<rparr>))) =
      map (\<lambda>e. \<lparr>ee_OperationIndex = se_OperationIndex e, ee_EntryIndex = se_EntryIndex e, ee_Entry = se_Entry e\<rparr>) simulated"
    using c(5) simulatedEntry_Inr by (intro nth_equalityI) (auto simp: mapEi_Inr_iff nth_enumerate_eq)
  finally have entries: "EnvelopeEntries env' = Inr (map (\<lambda>e. \<lparr>ee_OperationIndex = se_OperationIndex e,
      ee_EntryIndex = se_EntryIndex e, ee_Entry = se_Entry e\<rparr>) simulated)" .
  have arms: "\<forall>e \<in> set simulated. credentialArm S (se_Entry e) = Inr (se_Arm e)"
    using c(5) simulatedEntry_Inr(4) by (fastforce simp: mapEi_Inr_iff in_set_conv_nth)
  show ?thesis
    using c(1,6-8) o(1) setOperations_frame [OF o(1), of "ops[k := op]"] entries arms unfolding env' by blast
qed


definition recordBuilder :: "string builder" where
  "recordBuilder = sampleBuilder\<lparr>bl_EnvelopeUnmarshal := (\<lambda>s d. Inr sampleEnvelope), bl_EnvelopeMarshal := (\<lambda>e. Inr ''recorded'')\<rparr>"

definition recordParams :: RecordParams where
  "recordParams = \<lparr>rp_Client = Some sampleClient, rp_EnvelopeXDR = ''envelope'', rp_UseUpgradedAuth = True\<rparr>"

lemma sample_record:
  "\<exists>record. SimulateRecord sampleSdk recordBuilder None recordParams =
     ([SimulateCall ''envelope'' AuthModeRecord True], Inr record)"
  by (simp add: SimulateRecord_def recordParams_def recordBuilder_def DecodeTransactionEnvelope_def decodeWithLimits_def
      invokeOperationIndex_def innerTransaction_def sampleEnvelope_def isInvoke_def sampleClient_def sampleResponse_def
      recordedAuthEntries_def attachRecordedAuth_def liftT_def effectiveMaxInput_def base64_EncodedLen_def MaxDecodeInputBytes_def)

end
