(* ===== verification/Secp256r1.thy ===== *)
theory Secp256r1
  imports Signers Encoding
begin

text \<open>
  The P-256 primitives of \<^verbatim>\<open>src/secp256r1.go\<close>: the fixed-width low-S signatures a passkey
  wallet stores, and the range checks of both signature forms. The curve, the signing and the
  checking of an ECDSA signature and the ASN.1 reader are Go's and come as parameters; what is
  relied on about them is \<open>ecdsaSigns\<close> and \<open>ecdsaNegates\<close>.
\<close>

section \<open>Keys and the primitives\<close>

record ecPublicKey =
  ek_P256 :: bool
  ek_X :: "int option"
  ek_Y :: "int option"

record ecPrivateKey =
  ed_PublicKey :: ecPublicKey
  ed_D :: "int option"

record ecdsa =
  ec_IsOnCurve :: "int \<Rightarrow> int \<Rightarrow> bool"
  ec_Sign :: "ecPrivateKey \<Rightarrow> bytes \<Rightarrow> gerr + (int \<times> int)"
  ec_Verify :: "ecPublicKey \<Rightarrow> bytes \<Rightarrow> int \<Rightarrow> int \<Rightarrow> bool"
  asn1_Signature :: "bytes \<Rightarrow> gerr + ((int option \<times> int option) \<times> bytes)"

definition Secp256r1PublicKeySize :: nat where
  "Secp256r1PublicKeySize = 65"

definition Secp256r1SignatureSize :: nat where
  "Secp256r1SignatureSize = 64"

text \<open>\<open>elliptic.P256().Params().N\<close>, the order of the curve.\<close>

definition P256_N :: int where
  "P256_N = 115792089210356248762697446949407573529996955224135760342422259061068512044369"

definition validP256PublicKey :: "ecdsa \<Rightarrow> ecPublicKey option \<Rightarrow> bool" where
  "validP256PublicKey C key =
     (case key of None \<Rightarrow> False
      | Some k \<Rightarrow> ek_P256 k \<and> (case (ek_X k, ek_Y k) of (Some x, Some y) \<Rightarrow> ec_IsOnCurve C x y | _ \<Rightarrow> False))"

definition validP256PrivateKey :: "ecdsa \<Rightarrow> ecPrivateKey option \<Rightarrow> bool" where
  "validP256PrivateKey C key =
     (case key of None \<Rightarrow> False
      | Some k \<Rightarrow> ek_P256 (ed_PublicKey k) \<and> (case ed_D k of None \<Rightarrow> False | Some d \<Rightarrow> d > 0 \<and> d < P256_N) \<and>
          validP256PublicKey C (Some (ed_PublicKey k)))"

section \<open>Signatures\<close>

definition normalizeP256LowS :: "int \<Rightarrow> int \<Rightarrow> int" where
  "normalizeP256LowS s order = (if s > order div 2 then order - s else s)"

text \<open>\<open>FillBytes\<close> panics on a number that needs more than 32 bytes; a scalar below the order never does.\<close>

definition marshalSecp256r1Signature :: "int \<Rightarrow> int \<Rightarrow> bytes" where
  "marshalSecp256r1Signature r s = fillBytes 32 (nat r) @ fillBytes 32 (nat s)"

definition checkP256Scalars :: "int \<Rightarrow> int \<Rightarrow> gerr + unit" where
  "checkP256Scalars r s =
     (if r \<le> 0 \<or> r \<ge> P256_N \<or> s \<le> 0 \<or> s \<ge> P256_N
      then Inl (errmsg ''signature scalars are outside the P-256 range'') else Inr ())"

definition ParseSecp256r1Signature :: "bytes \<Rightarrow> gerr + (int \<times> int)" where
  "ParseSecp256r1Signature signature =
     (if length signature \<noteq> Secp256r1SignatureSize
      then Inl (errmsg (''signature is '' @ itoa (length signature) @ '' bytes, want '' @ itoa Secp256r1SignatureSize))
      else let r = int (bigEndian (take 32 signature)); s = int (bigEndian (drop 32 signature)) in
           bindE (checkP256Scalars r s) (\<lambda>_. Inr (r, s)))"

definition ParseDERECDSASignature :: "ecdsa \<Rightarrow> bytes \<Rightarrow> gerr + (int \<times> int)" where
  "ParseDERECDSASignature C signature =
     bindE (wrapE ''DER signature'' (asn1_Signature C signature)) (\<lambda>(parsed, rest).
     if length rest \<noteq> 0
     then Inl (errmsg (''DER signature carries '' @ itoa (length rest) @ '' trailing bytes''))
     else case parsed of
         (Some r, Some s) \<Rightarrow> bindE (checkP256Scalars r s) (\<lambda>_. Inr (r, s))
       | _ \<Rightarrow> Inl (errmsg ''DER signature is missing its r or s integer''))"

definition SignSecp256r1 :: "ecdsa \<Rightarrow> ecPrivateKey option \<Rightarrow> bytes \<Rightarrow> gerr + bytes" where
  "SignSecp256r1 C privateKey payload =
     (if \<not> validP256PrivateKey C privateKey then Inl (errmsg ''soroauth: secp256r1 sign: invalid P-256 private key'')
      else bindE (wrapE ''soroauth: secp256r1 sign'' (ec_Sign C (the privateKey) payload)) (\<lambda>(r, s).
        Inr (marshalSecp256r1Signature r (normalizeP256LowS s P256_N))))"

definition VerifySecp256r1 :: "ecdsa \<Rightarrow> ecPublicKey option \<Rightarrow> bytes \<Rightarrow> bytes \<Rightarrow> gerr + unit" where
  "VerifySecp256r1 C publicKey payload signature =
     (if \<not> validP256PublicKey C publicKey then Inl (errmsg ''soroauth: secp256r1 verify: invalid P-256 public key'')
      else bindE (wrapE ''soroauth: secp256r1 verify'' (ParseSecp256r1Signature signature)) (\<lambda>(r, s).
        if s > P256_N div 2
        then Inl (errw ''soroauth: secp256r1 verify: high-S signature'' (Sentinel ErrSignatureMismatch))
        else if \<not> ec_Verify C (the publicKey) payload r s
        then Inl (errw ''soroauth: secp256r1 verify'' (Sentinel ErrSignatureMismatch))
        else Inr ()))"

text \<open>\<open>elliptic.Marshal\<close>: the uncompressed point.\<close>

definition ecMarshal :: "ecPublicKey \<Rightarrow> bytes" where
  "ecMarshal k = 4 # fillBytes 32 (nat (the (ek_X k))) @ fillBytes 32 (nat (the (ek_Y k)))"

definition Secp256r1SignatureScVal :: "ecdsa \<Rightarrow> ecPublicKey option \<Rightarrow> bytes \<Rightarrow> gerr + ScVal" where
  "Secp256r1SignatureScVal C publicKey signature =
     (if \<not> validP256PublicKey C publicKey
      then Inl (errmsg ''soroauth: secp256r1 signature scval: invalid P-256 public key'')
      else bindE (wrapE ''soroauth: secp256r1 signature scval'' (ParseSecp256r1Signature signature)) (\<lambda>_.
        Inr (ScvMap (Some (Some
          [(scSymbol ''public_key'', scBytes (ecMarshal (the publicKey))),
           (scSymbol ''signature'', scBytes signature)])))))"

section \<open>The wire form\<close>

lemma P256_N_bound: "P256_N < 256 ^ 32" "P256_N mod 2 = 1" "0 < P256_N"
  by (simp_all add: P256_N_def)

lemma length_marshal [simp]: "length (marshalSecp256r1Signature r s) = 64"
  by (simp add: marshalSecp256r1Signature_def)

lemma checkP256Scalars_Inr [simp]:
  "checkP256Scalars r s = Inr u \<longleftrightarrow> 0 < r \<and> r < P256_N \<and> 0 < s \<and> s < P256_N"
  by (auto simp: checkP256Scalars_def)

lemma parse_marshal:
  assumes "0 < r" "r < P256_N" "0 < s" "s < P256_N"
  shows "ParseSecp256r1Signature (marshalSecp256r1Signature r s) = Inr (r, s)"
proof -
  have n: "nat r < 256 ^ 32" "nat s < 256 ^ 32"
    using assms P256_N_bound(1) by (simp_all add: nat_less_iff)
  show ?thesis
    using assms by (simp add: ParseSecp256r1Signature_def Secp256r1SignatureSize_def Let_def bindE_Inr_iff
        marshalSecp256r1Signature_def bigEndian_fillBytes [OF n(1)] bigEndian_fillBytes [OF n(2)])
qed

lemma marshal_parse:
  assumes "ParseSecp256r1Signature signature = Inr (r, s)"
  shows "marshalSecp256r1Signature r s = signature" "0 < r" "r < P256_N" "0 < s" "s < P256_N"
  using assms fillBytes_bigEndian [of "take 32 signature" 32] fillBytes_bigEndian [of "drop 32 signature" 32]
  by (auto simp: ParseSecp256r1Signature_def Secp256r1SignatureSize_def Let_def marshalSecp256r1Signature_def
      bindE_Inr_iff split: if_splits)

text \<open>Of a scalar and its negation exactly one is low.\<close>

lemma lowS_bounds:
  assumes "0 < s" "s < P256_N"
  shows "0 < normalizeP256LowS s P256_N" "normalizeP256LowS s P256_N < P256_N"
    "normalizeP256LowS s P256_N \<le> P256_N div 2" "P256_N - normalizeP256LowS s P256_N > P256_N div 2"
  using assms P256_N_bound(2,3) unfolding normalizeP256LowS_def by (auto split: if_splits) presburger+

lemma lowS_fixed: "s \<le> P256_N div 2 \<Longrightarrow> normalizeP256LowS s P256_N = s"
  by (simp add: normalizeP256LowS_def)

section \<open>What is relied on\<close>

text \<open>
  ECDSA as documented: a signature of a valid key checks under its public key, its scalars are
  in range, and negating the second scalar leaves the check's answer as it is.
\<close>

definition ecdsaSigns :: "ecdsa \<Rightarrow> ecPrivateKey \<Rightarrow> bytes \<Rightarrow> bool" where
  "ecdsaSigns C k payload \<longleftrightarrow> (\<forall>r s. ec_Sign C k payload = Inr (r, s) \<longrightarrow>
     0 < r \<and> r < P256_N \<and> 0 < s \<and> s < P256_N \<and> ec_Verify C (ed_PublicKey k) payload r s)"

definition ecdsaNegates :: "ecdsa \<Rightarrow> ecPublicKey \<Rightarrow> bytes \<Rightarrow> bool" where
  "ecdsaNegates C k payload \<longleftrightarrow> (\<forall>r s. 0 < s \<longrightarrow> s < P256_N \<longrightarrow>
     ec_Verify C k payload r (P256_N - s) = ec_Verify C k payload r s)"

lemma ecdsaNegates_lowS:
  assumes "ecdsaNegates C k payload" "0 < s" "s < P256_N"
  shows "ec_Verify C k payload r (normalizeP256LowS s P256_N) = ec_Verify C k payload r s"
  using assms by (auto simp: ecdsaNegates_def normalizeP256LowS_def)

lemma VerifySecp256r1_ok_iff:
  "VerifySecp256r1 C (Some k) payload signature = Inr u \<longleftrightarrow>
     validP256PublicKey C (Some k) \<and> (\<exists>r s. ParseSecp256r1Signature signature = Inr (r, s) \<and> s \<le> P256_N div 2 \<and>
       ec_Verify C k payload r s)"
  by (auto simp: VerifySecp256r1_def bindE_Inr_iff not_less)

end
