(* ===== verification/Base64.thy ===== *)
theory Base64
  imports Encoding
begin

text \<open>
  The four base64 encodings of Go's \<^verbatim>\<open>encoding/base64\<close> that a WebAuthn client may use: the
  standard and the URL alphabet, with and without padding. The decoders are the default ones,
  which ignore line breaks and the unused bits of the last character. The laws of one alphabet
  are proved in a locale and taken over for both.
\<close>

section \<open>Encodings\<close>

definition url_alphabet :: string where
  "url_alphabet = ''ABCDEFGHIJKLMNOPQRSTUVWXYZabcdefghijklmnopqrstuvwxyz0123456789-_''"

record base64Encoding =
  be_alphabet :: string
  be_padded :: bool

definition StdEncoding :: base64Encoding where
  "StdEncoding = \<lparr>be_alphabet = base64_alphabet, be_padded = True\<rparr>"

definition RawStdEncoding :: base64Encoding where
  "RawStdEncoding = \<lparr>be_alphabet = base64_alphabet, be_padded = False\<rparr>"

definition URLEncoding :: base64Encoding where
  "URLEncoding = \<lparr>be_alphabet = url_alphabet, be_padded = True\<rparr>"

definition RawURLEncoding :: base64Encoding where
  "RawURLEncoding = \<lparr>be_alphabet = url_alphabet, be_padded = False\<rparr>"

text \<open>The groups of six bits of a byte string, and a byte string from them.\<close>

fun sextetsOf :: "bytes \<Rightarrow> nat list" where
  "sextetsOf [] = []"
| "sextetsOf [a] = [unat a div 4, unat a mod 4 * 16]"
| "sextetsOf [a, b] = [unat a div 4, unat a mod 4 * 16 + unat b div 16, unat b mod 16 * 4]"
| "sextetsOf (a # b # c # rest) =
     unat a div 4 # (unat a mod 4 * 16 + unat b div 16) # (unat b mod 16 * 4 + unat c div 64) # unat c mod 64 #
     sextetsOf rest"

fun octetsOf :: "nat list \<Rightarrow> bytes option" where
  "octetsOf [] = Some []"
| "octetsOf [p] = None"
| "octetsOf [p, q] = Some [word_of_nat (p * 4 + q div 16)]"
| "octetsOf [p, q, r] = Some [word_of_nat (p * 4 + q div 16), word_of_nat (q mod 16 * 16 + r div 4)]"
| "octetsOf (p # q # r # s # rest) =
     map_option (\<lambda>bs. word_of_nat (p * 4 + q div 16) # word_of_nat (q mod 16 * 16 + r div 4) #
       word_of_nat (r mod 4 * 64 + s) # bs) (octetsOf rest)"

definition padding :: "nat \<Rightarrow> string" where
  "padding n = replicate ((4 - n mod 4) mod 4) (CHR ''='')"

definition encodeToString :: "base64Encoding \<Rightarrow> bytes \<Rightarrow> string" where
  "encodeToString e b =
     (let s = map (\<lambda>n. be_alphabet e ! n) (sextetsOf b) in if be_padded e then s @ padding (length s) else s)"

text \<open>
  Decoding: line breaks are skipped; with padding the text has a length divisible by four and
  ends in the padding characters its length calls for, without it there is none.
\<close>

definition stripPadding :: "string \<Rightarrow> string option" where
  "stripPadding s =
     (let body = takeWhile (\<lambda>c. c \<noteq> CHR ''='') s in
      if s = body @ padding (length body) then Some body else None)"

fun valuesOf :: "string \<Rightarrow> string \<Rightarrow> nat list option" where
  "valuesOf alphabet [] = Some []"
| "valuesOf alphabet (c # cs) =
     (case (indexOf alphabet c, valuesOf alphabet cs) of (Some n, Some ns) \<Rightarrow> Some (n # ns) | _ \<Rightarrow> None)"

definition decodeString :: "base64Encoding \<Rightarrow> string \<Rightarrow> bytes option" where
  "decodeString e s =
     (let s' = filter (\<lambda>c. c \<noteq> CHR 0x0A \<and> c \<noteq> CHR 0x0D) s in
      Option.bind (if be_padded e then stripPadding s' else Some s') (\<lambda>body.
      Option.bind (valuesOf (be_alphabet e) body) octetsOf))"


section \<open>Laws\<close>

lemma sextetsOf_less: "n \<in> set (sextetsOf b) \<Longrightarrow> n < 64"
  by (induction b rule: sextetsOf.induct) (auto simp: sextets)

lemma word_of_unat: "word_of_nat (unat w) = (w :: byte)"
  by simp

lemma octetsOf_sextetsOf: "octetsOf (sextetsOf b) = Some b"
  by (induction b rule: sextetsOf.induct) (simp_all only: sextetsOf.simps octetsOf.simps octets octets_padded
      option.map word_of_unat)

lemma length_sextetsOf: "length (sextetsOf b) = (length b * 4 + 2) div 3"
  by (induction b rule: sextetsOf.induct) simp_all

locale b64_charset =
  fixes alphabet :: string
  assumes distinct_alphabet: "distinct alphabet"
    and length_alphabet: "length alphabet = 64"
    and plain_alphabet: "CHR ''='' \<notin> set alphabet" "CHR 0x0A \<notin> set alphabet" "CHR 0x0D \<notin> set alphabet"
begin

lemma values_of_map: "\<forall>n \<in> set ns. n < 64 \<Longrightarrow> valuesOf alphabet (map (\<lambda>n. alphabet ! n) ns) = Some ns"
  using distinct_alphabet length_alphabet by (induction ns) (auto simp: indexOf_nth)

lemma chars_plain:
  assumes "c \<in> set (map (\<lambda>n. alphabet ! n) (sextetsOf b))"
  shows "c \<noteq> CHR ''=''" "c \<noteq> CHR 0x0A" "c \<noteq> CHR 0x0D"
proof -
  have "c \<in> set alphabet" using assms sextetsOf_less length_alphabet by auto
  then show "c \<noteq> CHR ''=''" "c \<noteq> CHR 0x0A" "c \<noteq> CHR 0x0D" using plain_alphabet by metis+
qed

lemma roundtrip: "decodeString \<lparr>be_alphabet = alphabet, be_padded = p\<rparr> (encodeToString \<lparr>be_alphabet = alphabet, be_padded = p\<rparr> b) = Some b"
proof -
  define s where "s = map (\<lambda>n. alphabet ! n) (sextetsOf b)"
  have plain: "c \<noteq> CHR ''=''" "c \<noteq> CHR 0x0A" "c \<noteq> CHR 0x0D" if "c \<in> set s" for c
    using chars_plain that unfolding s_def by blast+
  have f: "filter (\<lambda>c. c \<noteq> CHR 0x0A \<and> c \<noteq> CHR 0x0D) (padding n) = padding n" for n
    by (simp add: padding_def)
  have f0: "filter (\<lambda>c. c \<noteq> CHR 0x0A \<and> c \<noteq> CHR 0x0D) s = s" using plain by (intro filter_True) auto
  have "takeWhile (\<lambda>c. c \<noteq> CHR ''='') (s @ padding n) = s" for n
    using plain(1) by (auto simp: padding_def takeWhile_append takeWhile_replicate takeWhile_eq_all_conv)
  then have st: "stripPadding (s @ padding (length s)) = Some s" by (simp add: stripPadding_def Let_def)
  have v: "valuesOf alphabet s = Some (sextetsOf b)" unfolding s_def by (rule values_of_map) (auto simp: sextetsOf_less)
  show ?thesis
    by (simp add: decodeString_def encodeToString_def Let_def f f0 st v octetsOf_sextetsOf flip: s_def)
qed

end

interpretation std: b64_charset base64_alphabet
  by unfold_locales (simp_all add: base64_alphabet_def)

interpretation url: b64_charset url_alphabet
  by unfold_locales (simp_all add: url_alphabet_def)

lemma decode_encode:
  "decodeString StdEncoding (encodeToString StdEncoding b) = Some b"
  "decodeString RawStdEncoding (encodeToString RawStdEncoding b) = Some b"
  "decodeString URLEncoding (encodeToString URLEncoding b) = Some b"
  "decodeString RawURLEncoding (encodeToString RawURLEncoding b) = Some b"
  unfolding StdEncoding_def RawStdEncoding_def URLEncoding_def RawURLEncoding_def
  by (rule std.roundtrip url.roundtrip)+

text \<open>All four encodings of a byte string have the same unpadded standard form.\<close>

definition stdChar :: "char \<Rightarrow> char" where
  "stdChar c = (if c = CHR ''-'' then CHR ''+'' else if c = CHR ''_'' then CHR ''/'' else c)"

definition stdForm :: "string \<Rightarrow> string" where
  "stdForm s = map stdChar (filter (\<lambda>c. c \<noteq> CHR ''='') s)"

lemma stdChar_alphabets: "map stdChar url_alphabet = base64_alphabet" "map stdChar base64_alphabet = base64_alphabet"
  by (simp_all add: stdChar_def url_alphabet_def base64_alphabet_def)

lemma stdForm_encode:
  assumes "e \<in> {StdEncoding, RawStdEncoding, URLEncoding, RawURLEncoding}"
  shows "stdForm (encodeToString e b) = encodeToString RawStdEncoding b"
proof -
  obtain alphabet p where e: "e = \<lparr>be_alphabet = alphabet, be_padded = p\<rparr>" "map stdChar alphabet = base64_alphabet"
    "b64_charset alphabet"
    using assms stdChar_alphabets std.b64_charset_axioms url.b64_charset_axioms
    by (auto simp: StdEncoding_def RawStdEncoding_def URLEncoding_def RawURLEncoding_def)
  have len: "length alphabet = 64" using b64_charset.length_alphabet [OF e(3)] .
  let ?s = "map (\<lambda>n. alphabet ! n) (sextetsOf b)"
  have "filter (\<lambda>c. c \<noteq> CHR ''='') (padding n) = []" for n by (simp add: padding_def)
  moreover have "filter (\<lambda>c. c \<noteq> CHR ''='') ?s = ?s" using b64_charset.chars_plain(1) [OF e(3)] by (intro filter_True) blast
  moreover have "map stdChar ?s = map (\<lambda>n. base64_alphabet ! n) (sextetsOf b)"
    using sextetsOf_less len by (auto simp flip: e(2))
  ultimately show ?thesis
    by (simp add: stdForm_def encodeToString_def e(1) RawStdEncoding_def Let_def)
qed

lemma encode_inj:
  assumes "encodeToString e b = encodeToString e' b'"
    and "e \<in> {StdEncoding, RawStdEncoding, URLEncoding, RawURLEncoding}"
    and "e' \<in> {StdEncoding, RawStdEncoding, URLEncoding, RawURLEncoding}"
  shows "b = b'"
  using stdForm_encode [OF assms(2), of b] stdForm_encode [OF assms(3), of b'] assms(1) decode_encode(2)
  by (metis option.inject)

lemma length_encode:
  assumes "length b = 32"
  shows "length (encodeToString e b) \<in> {43, 44}"
  using assms by (auto simp: encodeToString_def Let_def length_sextetsOf padding_def)

end
