(* ===== verification/Webauthn.thy ===== *)
theory Webauthn
  imports Secp256r1 Base64
begin

text \<open>
  WebAuthn assertions (\<^verbatim>\<open>src/webauthn.go\<close>) and the passkey signer that checks one before it
  answers (\<open>NewPasskeySignerFromAssertion\<close> of \<^verbatim>\<open>src/signer.go\<close>). The two JSON texts of an
  assertion are read by Go's \<^verbatim>\<open>encoding/json\<close>, which is a parameter: the model starts at the
  struct it fills in.
\<close>

section \<open>Assertions\<close>

definition authDataMinLen :: nat where
  "authDataMinLen = 37"

definition flagUserPresent :: byte where
  "flagUserPresent = 0x01"

definition flagUserVerified :: byte where
  "flagUserVerified = 0x04"

record WebAuthnAssertion =
  wa_AuthenticatorData :: bytes
  wa_ClientDataJSON :: bytes
  wa_Signature :: bytes
  wa_ChallengeString :: string

record webAuthnAssertionJSON =
  aj_Type :: string
  aj_ClientDataJSON :: string
  aj_AuthenticatorData :: string
  aj_Signature :: string
  aj_UserHandle :: "string option"

record clientDataJSON =
  cd_Type :: string
  cd_Challenge :: string
  cd_Origin :: string

record webauthnJson =
  json_Assertion :: "bytes \<Rightarrow> gerr + webAuthnAssertionJSON"
  json_ClientData :: "bytes \<Rightarrow> gerr + clientDataJSON"

definition Flags :: "WebAuthnAssertion option \<Rightarrow> byte" where
  "Flags a =
     (case a of None \<Rightarrow> 0
      | Some a \<Rightarrow> if length (wa_AuthenticatorData a) \<le> 32 then 0 else wa_AuthenticatorData a ! 32)"

definition UserPresent :: "WebAuthnAssertion option \<Rightarrow> bool" where
  "UserPresent a \<longleftrightarrow> and (Flags a) flagUserPresent \<noteq> 0"

definition UserVerified :: "WebAuthnAssertion option \<Rightarrow> bool" where
  "UserVerified a \<longleftrightarrow> and (Flags a) flagUserVerified \<noteq> 0"

definition SignedBytes :: "sdk \<Rightarrow> WebAuthnAssertion option \<Rightarrow> bytes" where
  "SignedBytes S a =
     (case a of None \<Rightarrow> []
      | Some a \<Rightarrow> wa_AuthenticatorData a @ sha256_Sum256 S (wa_ClientDataJSON a))"

section \<open>Parsing\<close>

definition missingFieldError :: "string \<Rightarrow> gerr" where
  "missingFieldError field = errw (''soroauth: parse webauthn assertion: '' @ field) (Sentinel ErrWebAuthnMissingField)"

text \<open>The first of the four encodings that decodes the text.\<close>

definition decodeBase64Loose :: "string \<Rightarrow> bytes option" where
  "decodeBase64Loose value =
     (case decodeString RawURLEncoding value of Some b \<Rightarrow> Some b
      | None \<Rightarrow> (case decodeString URLEncoding value of Some b \<Rightarrow> Some b
        | None \<Rightarrow> (case decodeString RawStdEncoding value of Some b \<Rightarrow> Some b
          | None \<Rightarrow> decodeString StdEncoding value)))"

definition decodeAssertionField :: "string \<Rightarrow> string \<Rightarrow> gerr + bytes" where
  "decodeAssertionField value field =
     (if value = '''' then Inr []
      else case decodeBase64Loose value of
        None \<Rightarrow> Inl (errw (''soroauth: parse webauthn assertion: '' @ field) (Sentinel ErrWebAuthnMalformedField))
      | Some decoded \<Rightarrow> Inr decoded)"

definition isDecodableChallenge :: "string \<Rightarrow> bool" where
  "isDecodableChallenge value \<longleftrightarrow> decodeBase64Loose value \<noteq> None \<or> hex_DecodeString value \<noteq> None"

definition ParseWebAuthnAssertion :: "webauthnJson \<Rightarrow> bytes \<Rightarrow> gerr + WebAuthnAssertion" where
  "ParseWebAuthnAssertion J raw =
     (if length raw = 0 then Inl (errw ''soroauth: parse webauthn assertion'' (Sentinel ErrWebAuthnMalformedJSON))
      else case json_Assertion J raw of
        Inl _ \<Rightarrow> Inl (errw ''soroauth: parse webauthn assertion'' (Sentinel ErrWebAuthnMalformedJSON))
      | Inr credential \<Rightarrow>
          if aj_Type credential \<noteq> '''' \<and> aj_Type credential \<noteq> ''public-key''
          then Inl (errw (''soroauth: parse webauthn assertion: credential type '' @ strconv_Quote (aj_Type credential))
                 (Sentinel ErrWebAuthnMalformedField))
          else
            bindE (decodeAssertionField (aj_AuthenticatorData credential) ''authenticatorData'') (\<lambda>authenticatorData.
            if length authenticatorData = 0 then Inl (missingFieldError ''authenticatorData'')
            else if length authenticatorData < authDataMinLen
            then Inl (errw (''soroauth: parse webauthn assertion: authenticatorData is '' @ itoa (length authenticatorData) @
                   '' bytes, need at least '' @ itoa authDataMinLen) (Sentinel ErrWebAuthnTruncatedAuthenticatorData))
            else
              bindE (decodeAssertionField (aj_ClientDataJSON credential) ''clientDataJSON'') (\<lambda>clientData.
              if length clientData = 0 then Inl (missingFieldError ''clientDataJSON'')
              else
                bindE (decodeAssertionField (aj_Signature credential) ''signature'') (\<lambda>signature.
                if length signature = 0 then Inl (missingFieldError ''signature'')
                else case json_ClientData J clientData of
                  Inl _ \<Rightarrow> Inl (errw ''soroauth: parse webauthn assertion: clientDataJSON'' (Sentinel ErrWebAuthnMalformedJSON))
                | Inr clientDataFields \<Rightarrow>
                    if cd_Challenge clientDataFields = '''' then Inl (missingFieldError ''challenge'')
                    else if \<not> isDecodableChallenge (cd_Challenge clientDataFields)
                    then Inl (errw ''soroauth: parse webauthn assertion: challenge'' (Sentinel ErrWebAuthnMalformedField))
                    else Inr \<lparr>wa_AuthenticatorData = authenticatorData, wa_ClientDataJSON = clientData,
                           wa_Signature = signature, wa_ChallengeString = cd_Challenge clientDataFields\<rparr>))))"

section \<open>The challenge\<close>

definition toUpper :: "string \<Rightarrow> string" where
  "toUpper s = map (\<lambda>c. let n = of_char c :: nat in if 97 \<le> n \<and> n \<le> 122 then char_of (n - 32) else c) s"

definition challengeCandidates :: "bytes \<Rightarrow> string list" where
  "challengeCandidates expected =
     [encodeToString RawURLEncoding expected, encodeToString URLEncoding expected, encodeToString RawStdEncoding expected,
      encodeToString StdEncoding expected, hex expected, toUpper (hex expected)]"

definition VerifyChallenge :: "WebAuthnAssertion option \<Rightarrow> bytes \<Rightarrow> gerr + unit" where
  "VerifyChallenge a expected =
     (case a of None \<Rightarrow> Inl (errw ''soroauth: verify webauthn challenge'' (Sentinel ErrWebAuthnChallengeMismatch))
      | Some a \<Rightarrow>
          if length expected = 0
          then Inl (errw ''soroauth: verify webauthn challenge'' (Sentinel ErrWebAuthnChallengeMismatch))
          else if list_ex (\<lambda>candidate. candidate = wa_ChallengeString a) (challengeCandidates expected) then Inr ()
          else Inl (errw ''soroauth: verify webauthn challenge'' (Sentinel ErrWebAuthnChallengeMismatch)))"

definition ParseWebAuthnAssertionForPayload :: "webauthnJson \<Rightarrow> bytes \<Rightarrow> bytes \<Rightarrow> gerr + WebAuthnAssertion" where
  "ParseWebAuthnAssertionForPayload J raw payload =
     bindE (ParseWebAuthnAssertion J raw) (\<lambda>assertion.
     bindE (VerifyChallenge (Some assertion) payload) (\<lambda>_. Inr assertion))"

section \<open>The passkey signer\<close>

record passkeyAssertionSigner =
  pa_address :: string
  pa_publicKey :: "ecPublicKey option"
  pa_assertion :: "WebAuthnAssertion option"
  pa_cfg :: passkeySignerConfig

text \<open>
  The verifier the constructor installs is \<open>crypto/ecdsa\<close>'s; a test's stand-in is not modelled.
\<close>

definition passkeySign :: "sdk \<Rightarrow> ecdsa \<Rightarrow> passkeyAssertionSigner \<Rightarrow> ctx \<Rightarrow> HashIdPreimage \<Rightarrow> bytes \<Rightarrow> gerr + ScVal" where
  "passkeySign S C s ctx preimage payload =
     (case ctx of Some err \<Rightarrow> Inl (errw ''soroauth: sign passkey'' err)
      | None \<Rightarrow>
        if pa_assertion s = None \<or> pa_publicKey s = None
        then Inl (errw ''soroauth: sign passkey'' (Sentinel ErrMissingSigner))
        else if \<not> validP256PublicKey C (pa_publicKey s)
        then Inl (errw ''soroauth: sign passkey: credential public key is not an uncompressed P-256 key''
               (Sentinel ErrVerificationFailed))
        else
          let flags = Flags (pa_assertion s) in
          if pk_requireUserPresence (pa_cfg s) \<and> and flags flagUserPresent = 0
          then Inl (errw (''soroauth: sign passkey: user presence (UP) required but not set in flags 0x'' @ hex [flags])
                 (Sentinel ErrVerificationFailed))
          else if pk_requireUserVerification (pa_cfg s) \<and> and flags flagUserVerified = 0
          then Inl (errw (''soroauth: sign passkey: user verification (UV) required but not set in flags 0x'' @ hex [flags])
                 (Sentinel ErrVerificationFailed))
          else case VerifyChallenge (pa_assertion s) payload of
            Inl _ \<Rightarrow> Inl (Errorf (''soroauth: sign passkey: '' @ sentinel_text ErrSignatureMismatch @ '': '' @
                     sentinel_text ErrWebAuthnChallengeMismatch)
                   [Sentinel ErrSignatureMismatch, Sentinel ErrWebAuthnChallengeMismatch])
          | Inr _ \<Rightarrow>
              let digest = sha256_Sum256 S (SignedBytes S (pa_assertion s)) in
              (case ParseDERECDSASignature C (wa_Signature (the (pa_assertion s))) of
                 Inl _ \<Rightarrow> Inl (errw ''soroauth: sign passkey'' (Sentinel ErrSignatureMismatch))
               | Inr (r, sScalar) \<Rightarrow>
                   if \<not> ec_Verify C (the (pa_publicKey s)) digest r sScalar
                   then Inl (errw ''soroauth: sign passkey'' (Sentinel ErrSignatureMismatch))
                   else wrapE ''soroauth: sign passkey''
                          (Secp256r1SignatureScVal C (pa_publicKey s)
                             (marshalSecp256r1Signature r (normalizeP256LowS sScalar P256_N)))))"

definition NewPasskeySignerFromAssertion ::
  "sdk \<Rightarrow> ecdsa \<Rightarrow> string \<Rightarrow> ecPublicKey option \<Rightarrow> WebAuthnAssertion option \<Rightarrow> PasskeySignerOption option list \<Rightarrow> signer" where
  "NewPasskeySignerFromAssertion S C address publicKey assertion opts =
     \<lparr>sg_Address = address,
      sg_Sign = passkeySign S C \<lparr>pa_address = address, pa_publicKey = publicKey, pa_assertion = assertion,
        pa_cfg = passkeyConfig opts\<rparr>\<rparr>"


section \<open>What the challenge check accepts\<close>

declare case_sum_Inr_iff [result_simps] if_Inl_iff [result_simps]

lemma upperHex: "n < 16 \<Longrightarrow> hexVal (let m = of_char (hexDigit n) :: nat in if 97 \<le> m \<and> m \<le> 122 then char_of (m - 32) else hexDigit n) = Some n"
  by (auto simp: hexVal_def hexDigit_def Let_def)

lemma hex_upper_roundtrip: "hex_DecodeString (toUpper (hex b)) = Some b"
proof (induction b)
  case Nil
  then show ?case by (simp add: toUpper_def)
next
  case (Cons w b)
  have "unat w div 16 < 16" using byte_less [of w] by auto
  then show ?case using Cons upperHex [of "unat w div 16"] upperHex [of "unat w mod 16"]
    by (simp add: hex_Cons toUpper_def)
qed

lemma VerifyChallenge_ok:
  "VerifyChallenge (Some a) expected = Inr u \<longleftrightarrow> expected \<noteq> [] \<and> wa_ChallengeString a \<in> set (challengeCandidates expected)"
  by (auto simp: VerifyChallenge_def list_ex_iff)

lemma challengeCandidates_cases:
  assumes "c \<in> set (challengeCandidates p)" "length p = 32"
  obtains (base64) e where "c = encodeToString e p" "e \<in> {StdEncoding, RawStdEncoding, URLEncoding, RawURLEncoding}" "length c \<in> {43, 44}"
    | (hex) "hex_DecodeString c = Some p" "length c = 64"
proof -
  have "length (toUpper (hex p)) = 64" using assms(2) by (simp add: toUpper_def)
  then show ?thesis
    using assms length_encode [OF assms(2)] that hex_upper_roundtrip by (auto simp: challengeCandidates_def)
qed

lemma challengeCandidates_unique:
  assumes "c \<in> set (challengeCandidates p)" "c \<in> set (challengeCandidates q)" "length p = 32" "length q = 32"
  shows "p = q"
  using assms(1,3)
proof (cases rule: challengeCandidates_cases)
  case (base64 e)
  note p = this
  show ?thesis using assms(2,4)
  proof (cases rule: challengeCandidates_cases)
    case (base64 e')
    then show ?thesis using encode_inj p by metis
  qed (use p in auto)
next
  case hex
  note p = this
  show ?thesis using assms(2,4) by (cases rule: challengeCandidates_cases) (use p in auto)
qed

lemma ParseWebAuthnAssertion_Inr:
  assumes "ParseWebAuthnAssertion J raw = Inr a"
  shows "authDataMinLen \<le> length (wa_AuthenticatorData a)" "wa_ClientDataJSON a \<noteq> []" "wa_Signature a \<noteq> []"
    "\<exists>c. json_ClientData J (wa_ClientDataJSON a) = Inr c \<and> cd_Challenge c = wa_ChallengeString a"
    "isDecodableChallenge (wa_ChallengeString a)"
  using assms unfolding ParseWebAuthnAssertion_def if_Inl_iff case_sum_Inr_iff bindE_Inr_iff by (auto simp: not_less)

section \<open>What the passkey signer answers\<close>

lemma passkeySign_Inr:
  assumes "passkeySign S C s ctx preimage payload = Inr v"
  obtains k a r sScalar where "ctx = None" "pa_publicKey s = Some k" "pa_assertion s = Some a" "validP256PublicKey C (Some k)"
    "pk_requireUserPresence (pa_cfg s) \<Longrightarrow> UserPresent (Some a)" "pk_requireUserVerification (pa_cfg s) \<Longrightarrow> UserVerified (Some a)"
    "VerifyChallenge (Some a) payload = Inr ()" "ParseDERECDSASignature C (wa_Signature a) = Inr (r, sScalar)"
    "ec_Verify C k (sha256_Sum256 S (SignedBytes S (Some a))) r sScalar"
    "Secp256r1SignatureScVal C (Some k) (marshalSecp256r1Signature r (normalizeP256LowS sScalar P256_N)) = Inr v"
proof -
  have c: "ctx = None" using assms by (cases ctx) (auto simp: passkeySign_def)
  then show ?thesis
    using assms that
    unfolding passkeySign_def option.case Let_def if_Inl_iff
    by (auto simp: UserPresent_def UserVerified_def if_Inl_iff case_sum_Inr_iff)
qed

lemma ParseDERECDSASignature_Inr:
  "ParseDERECDSASignature C sig = Inr (r, s) \<Longrightarrow> 0 < r \<and> r < P256_N \<and> 0 < s \<and> s < P256_N"
  by (auto simp: ParseDERECDSASignature_def bindE_Inr_iff split: if_splits prod.splits option.splits)

end
