(* ===== verification/Cbor.thy ===== *)
theory Cbor
  imports Errors Encoding
begin

unbundle bit_operations_syntax

text \<open>
  The strict CBOR decoder of \<^verbatim>\<open>src/attestation_cbor.go\<close>. The recursion of the code over
  nested items is mutual here: an item, the items of an array, the entries of a map. It ends
  because the nesting is capped, whatever lengths the input claims. Beside the decoder stands a
  reference encoder, and the decoder is shown to be its inverse.
\<close>

section \<open>Values\<close>

datatype cborValue =
    CborInt int
  | CborBytes bytes
  | CborText string
  | CborArray "cborValue list"
  | CborMap "(cborValue \<times> cborValue) list"
  | CborBool bool
  | CborNil

type_synonym cborMap = "(cborValue \<times> cborValue) list"

definition cborMaxDepth :: nat where
  "cborMaxDepth = 8"

fun cborGet :: "cborMap \<Rightarrow> cborValue \<Rightarrow> cborValue option" where
  "cborGet [] key = None"
| "cborGet (p # m) key = (if fst p = key then Some (snd p) else cborGet m key)"

definition errCBOR :: gerr where
  "errCBOR = errmsg ''malformed CBOR''"

definition cborErr :: "string \<Rightarrow> gerr" where
  "cborErr text = Errorf (error_text errCBOR @ '': '' @ text) [errCBOR]"

text \<open>The Go type of a decoded value, as \<open>%T\<close> prints it, and a key as \<open>%v\<close> prints it.\<close>

fun cborTypeName :: "cborValue \<Rightarrow> string" where
  "cborTypeName (CborInt i) = ''int64''"
| "cborTypeName (CborBytes b) = ''[]uint8''"
| "cborTypeName (CborText s) = ''string''"
| "cborTypeName (CborArray xs) = ''[]interface {}''"
| "cborTypeName (CborMap m) = ''soroauth.cborMap''"
| "cborTypeName (CborBool b) = ''bool''"
| "cborTypeName CborNil = ''<nil>''"

fun cborIsKey :: "cborValue \<Rightarrow> bool" where
  "cborIsKey (CborInt i) = True"
| "cborIsKey (CborText s) = True"
| "cborIsKey _ = False"

fun cborKeyText :: "cborValue \<Rightarrow> string" where
  "cborKeyText (CborInt i) = itoa_int i"
| "cborKeyText (CborText s) = s"
| "cborKeyText _ = []"

section \<open>The initial byte and its argument\<close>

definition cborArgument :: "nat \<Rightarrow> bytes \<Rightarrow> gerr + (nat \<times> bytes)" where
  "cborArgument info data =
     (if info < 24 then Inr (info, data)
      else if info \<le> 27
      then let size = 2 ^ (info - 24) in
           if length data < size then Inl (cborErr (''truncated '' @ itoa size @ ''-byte argument''))
           else Inr (bigEndian (take size data), drop size data)
      else Inl (cborErr (''additional information '' @ itoa info @ '' (indefinite length or reserved) is not allowed'')))"

section \<open>The decoder\<close>

function (sequential) decodeCBORItem :: "bytes \<Rightarrow> nat \<Rightarrow> gerr + (cborValue \<times> bytes)"
  and decodeCBORItems :: "nat \<Rightarrow> bytes \<Rightarrow> nat \<Rightarrow> gerr + (cborValue list \<times> bytes)"
  and decodeCBORPairs :: "nat \<Rightarrow> cborMap \<Rightarrow> bytes \<Rightarrow> nat \<Rightarrow> gerr + (cborMap \<times> bytes)" where
  "decodeCBORItem data depth =
     (if depth > cborMaxDepth then Inl (cborErr (''nesting deeper than '' @ itoa cborMaxDepth))
      else case data of
        [] \<Rightarrow> Inl (cborErr ''unexpected end of data'')
      | b # data0 \<Rightarrow>
          let major = unat (drop_bit 5 b); info = unat (b AND 0x1F) in
          bindE (cborArgument info data0) (\<lambda>(arg, data1).
          if major = 0
          then if arg > 2 ^ 63 - 1
               then Inl (cborErr (''unsigned integer '' @ itoa arg @ '' does not fit an int64''))
               else Inr (CborInt (int arg), data1)
          else if major = 1
          then if arg > 2 ^ 63 - 1 then Inl (cborErr ''negative integer does not fit an int64'')
               else Inr (CborInt (- 1 - int arg), data1)
          else if major = 2 \<or> major = 3
          then if arg > length data1
               then Inl (cborErr (''string of '' @ itoa arg @ '' bytes with '' @ itoa (length data1) @ '' remaining''))
               else if major = 2 then Inr (CborBytes (take arg data1), drop arg data1)
               else Inr (CborText (bytesString (take arg data1)), drop arg data1)
          else if major = 4
          then if arg > length data1
               then Inl (cborErr (''array of '' @ itoa arg @ '' items with '' @ itoa (length data1) @ '' bytes remaining''))
               else bindE (decodeCBORItems arg data1 (Suc depth)) (\<lambda>(items, data2). Inr (CborArray items, data2))
          else if major = 5
          then if arg > length data1
               then Inl (cborErr (''map of '' @ itoa arg @ '' entries with '' @ itoa (length data1) @ '' bytes remaining''))
               else bindE (decodeCBORPairs arg [] data1 (Suc depth)) (\<lambda>(m, data2). Inr (CborMap m, data2))
          else if major = 7
          then if info = 20 then Inr (CborBool False, data1)
               else if info = 21 then Inr (CborBool True, data1)
               else if info = 22 then Inr (CborNil, data1)
               else Inl (cborErr (''simple or float value '' @ itoa info @ '' is not allowed''))
          else Inl (cborErr (''major type '' @ itoa major @ '' (tag) is not allowed''))))"
| "decodeCBORItems 0 data depth = Inr ([], data)"
| "decodeCBORItems (Suc n) data depth =
     bindE (decodeCBORItem data depth) (\<lambda>(item, data1).
     bindE (decodeCBORItems n data1 depth) (\<lambda>(items, data2). Inr (item # items, data2)))"
| "decodeCBORPairs 0 m data depth = Inr (m, data)"
| "decodeCBORPairs (Suc n) m data depth =
     bindE (decodeCBORItem data depth) (\<lambda>(k, data1).
     if \<not> cborIsKey k
     then Inl (cborErr (''map key of type '' @ cborTypeName k @ ''; only integer and text keys are allowed''))
     else if cborGet m k \<noteq> None then Inl (cborErr (''duplicate map key '' @ cborKeyText k))
     else bindE (decodeCBORItem data1 depth) (\<lambda>(v, data2). decodeCBORPairs n (m @ [(k, v)]) data2 depth))"
  by pat_completeness auto
termination
  by (relation "inv_image (less_than <*lex*> less_than)
      (\<lambda>x. case x of Inl (data, depth) \<Rightarrow> (10 - depth, 0)
                  | Inr (Inl (n, data, depth)) \<Rightarrow> (10 - depth, Suc n)
                  | Inr (Inr (n, m, data, depth)) \<Rightarrow> (10 - depth, Suc n))")
    (auto simp: cborMaxDepth_def)

declare decodeCBORItem.simps [simp del]

definition decodeCBOR :: "bytes \<Rightarrow> gerr + (cborValue \<times> bytes)" where
  "decodeCBOR data = decodeCBORItem data 0"


section \<open>A reference encoder\<close>

text \<open>
  The values the decoder can return at a nesting depth: integers of 64 bits, maps with
  distinct integer or text keys, at most nine levels.
\<close>

fun cborWf :: "nat \<Rightarrow> cborValue \<Rightarrow> bool" where
  "cborWf d (CborInt i) = (d \<le> cborMaxDepth \<and> - (2 ^ 63) \<le> i \<and> i < 2 ^ 63)"
| "cborWf d (CborBytes b) = (d \<le> cborMaxDepth \<and> length b < 2 ^ 64)"
| "cborWf d (CborText s) = (d \<le> cborMaxDepth \<and> length s < 2 ^ 64)"
| "cborWf d (CborArray xs) = (d \<le> cborMaxDepth \<and> length xs < 2 ^ 64 \<and> (\<forall>x \<in> set xs. cborWf (Suc d) x))"
| "cborWf d (CborMap m) = (d \<le> cborMaxDepth \<and> length m < 2 ^ 64 \<and> distinct (map fst m) \<and>
     (\<forall>p \<in> set m. cborIsKey (fst p) \<and> cborWf (Suc d) (fst p) \<and> cborWf (Suc d) (snd p)))"
| "cborWf d (CborBool b) = (d \<le> cborMaxDepth)"
| "cborWf d CborNil = (d \<le> cborMaxDepth)"

text \<open>RFC 8949's preferred form: the shortest argument.\<close>

definition cborHead :: "nat \<Rightarrow> nat \<Rightarrow> bytes" where
  "cborHead major arg =
     (if arg < 24 then [word_of_nat (32 * major + arg)]
      else if arg < 256 then word_of_nat (32 * major + 24) # fillBytes 1 arg
      else if arg < 256 ^ 2 then word_of_nat (32 * major + 25) # fillBytes 2 arg
      else if arg < 256 ^ 4 then word_of_nat (32 * major + 26) # fillBytes 4 arg
      else word_of_nat (32 * major + 27) # fillBytes 8 arg)"

fun cborEncode :: "cborValue \<Rightarrow> bytes" where
  "cborEncode (CborInt i) = (if i \<ge> 0 then cborHead 0 (nat i) else cborHead 1 (nat (- 1 - i)))"
| "cborEncode (CborBytes b) = cborHead 2 (length b) @ b"
| "cborEncode (CborText s) = cborHead 3 (length s) @ stringBytes s"
| "cborEncode (CborArray xs) = cborHead 4 (length xs) @ concat (map cborEncode xs)"
| "cborEncode (CborMap m) = cborHead 5 (length m) @ concat (map (\<lambda>p. cborEncode (fst p) @ cborEncode (snd p)) m)"
| "cborEncode (CborBool b) = cborHead 7 (if b then 21 else 20)"
| "cborEncode CborNil = cborHead 7 22"

section \<open>Decoding inverts encoding\<close>

lemma initialByte:
  assumes "m < 8" "i < 32"
  shows "unat (drop_bit 5 (word_of_nat (32 * m + i) :: byte)) = m" "unat ((word_of_nat (32 * m + i) :: byte) AND 0x1F) = i"
proof -
  define w where "w = (word_of_nat (32 * m + i) :: byte)"
  have u: "unat w = 32 * m + i" using assms unfolding w_def by (simp only: unat_of_nat) simp
  have "unat (drop_bit 5 w) = m" using assms by (simp add: drop_bit_eq_div unat_div u)
  moreover have "w AND 0x1F = take_bit 5 w" by (simp add: take_bit_eq_mask mask_eq_exp_minus_1)
  then have "unat (w AND 0x1F) = i" using assms by (simp add: take_bit_eq_mod unat_mod u)
  ultimately show "unat (drop_bit 5 (word_of_nat (32 * m + i) :: byte)) = m" "unat ((word_of_nat (32 * m + i) :: byte) AND 0x1F) = i"
    by (simp_all only: w_def)
qed

lemma cborHead_reads:
  assumes "m < 8" "arg < 2 ^ 64"
  obtains b data0 where "cborHead m arg @ rest = b # data0" "unat (drop_bit 5 b) = m"
    "cborArgument (unat (b AND 0x1F)) data0 = Inr (arg, rest)" "arg < 24 \<Longrightarrow> unat (b AND 0x1F) = arg"
proof -
  have "\<exists>b data0. cborHead m arg @ rest = b # data0 \<and> unat (drop_bit 5 b) = m \<and>
      cborArgument (unat (b AND 0x1F)) data0 = Inr (arg, rest) \<and> (arg < 24 \<longrightarrow> unat (b AND 0x1F) = arg)"
  proof -
    consider "arg < 24" | "24 \<le> arg" "arg < 256" | "256 \<le> arg" "arg < 256 ^ 2" | "256 ^ 2 \<le> arg" "arg < 256 ^ 4"
      | "256 ^ 4 \<le> arg" "arg < 256 ^ 8"
      using assms(2) by fastforce
    then show ?thesis
    proof cases
      case 1
      then show ?thesis using initialByte [OF assms(1), of arg] by (simp add: cborHead_def cborArgument_def)
    next
      case 2
      then show ?thesis using initialByte [OF assms(1), of 24] bigEndian_fillBytes [of arg 1]
        by (simp add: cborHead_def cborArgument_def)
    next
      case 3
      then show ?thesis using initialByte [OF assms(1), of 25] bigEndian_fillBytes [of arg 2]
        by (simp add: cborHead_def cborArgument_def)
    next
      case 4
      then show ?thesis using initialByte [OF assms(1), of 26] bigEndian_fillBytes [of arg 4]
        by (simp add: cborHead_def cborArgument_def)
    next
      case 5
      then show ?thesis using initialByte [OF assms(1), of 27] bigEndian_fillBytes [of arg 8]
        by (simp add: cborHead_def cborArgument_def)
    qed
  qed
  then show ?thesis using that by blast
qed


lemma cborHead_nonempty: "0 < length (cborHead m arg)"
  by (simp add: cborHead_def)

lemma cborEncode_nonempty: "0 < length (cborEncode v)"
  by (cases v) (simp_all add: cborHead_nonempty del: length_greater_0_conv)

lemma length_concat_encode: "length xs \<le> length (concat (map cborEncode xs))"
proof (induction xs)
  case (Cons x xs)
  then show ?case using cborEncode_nonempty [of x] by (simp del: length_greater_0_conv)
qed simp

lemma length_concat_encode_pairs: "length m \<le> length (concat (map (\<lambda>p. cborEncode (fst p) @ cborEncode (snd p)) m))"
proof (induction m)
  case (Cons p m)
  then show ?case using cborEncode_nonempty [of "fst p"] by (simp del: length_greater_0_conv)
qed simp

lemma decodeCBORItems_encode:
  assumes "\<And>x rest. x \<in> set xs \<Longrightarrow> decodeCBORItem (cborEncode x @ rest) d = Inr (x, rest)"
  shows "decodeCBORItems (length xs) (concat (map cborEncode xs) @ rest) d = Inr (xs, rest)"
  using assms by (induction xs) simp_all

lemma cborGet_None: "cborGet m k = None \<longleftrightarrow> k \<notin> fst ` set m"
  by (induction m) auto

lemma decodeCBORPairs_encode:
  assumes "\<And>p rest. p \<in> set m \<Longrightarrow> decodeCBORItem (cborEncode (fst p) @ rest) d = Inr (fst p, rest)"
    and "\<And>p rest. p \<in> set m \<Longrightarrow> decodeCBORItem (cborEncode (snd p) @ rest) d = Inr (snd p, rest)"
    and "\<And>p. p \<in> set m \<Longrightarrow> cborIsKey (fst p)" and "distinct (map fst (m0 @ m))"
  shows "decodeCBORPairs (length m) m0 (concat (map (\<lambda>p. cborEncode (fst p) @ cborEncode (snd p)) m) @ rest) d =
    Inr (m0 @ m, rest)"
  using assms
proof (induction m arbitrary: m0)
  case (Cons p m)
  have "cborGet m0 (fst p) = None" using Cons.prems(4) by (auto simp: cborGet_None)
  then show ?case using Cons.prems Cons.IH [of "m0 @ [p]"] by simp
qed simp

lemma decodeCBORItem_encode: "cborWf d v \<Longrightarrow> decodeCBORItem (cborEncode v @ rest) d = Inr (v, rest)"
proof (induction d v arbitrary: rest rule: cborWf.induct)
  case (1 d i)
  define m where "m = (if i \<ge> 0 then 0 else 1 :: nat)"
  define arg where "arg = (if i \<ge> 0 then nat i else nat (- 1 - i))"
  have "m < 8" "arg < 2 ^ 64" "\<not> arg > 2 ^ 63 - 1" using 1 by (auto simp: m_def arg_def nat_less_iff)
  moreover have "cborEncode (CborInt i) = cborHead m arg" by (simp add: m_def arg_def)
  ultimately obtain b data0 where "cborEncode (CborInt i) @ rest = b # data0" "unat (drop_bit 5 b) = m"
    "cborArgument (unat (b AND 0x1F)) data0 = Inr (arg, rest)" "\<not> arg > 2 ^ 63 - 1"
    by (metis cborHead_reads)
  then show ?case using 1 by (auto simp: decodeCBORItem.simps Let_def m_def arg_def split: if_splits)
next
  case (2 d b)
  then obtain w data0 where "cborHead 2 (length b) @ b @ rest = w # data0" "unat (drop_bit 5 w) = 2"
    "cborArgument (unat (w AND 0x1F)) data0 = Inr (length b, b @ rest)"
    by (auto intro: cborHead_reads [of 2 "length b" "b @ rest"])
  then show ?case using 2 by (simp add: decodeCBORItem.simps Let_def)
next
  case (3 d s)
  have l: "length (stringBytes s) = length s" by (simp add: stringBytes_def)
  obtain w data0 where "cborHead 3 (length s) @ stringBytes s @ rest = w # data0" "unat (drop_bit 5 w) = 3"
    "cborArgument (unat (w AND 0x1F)) data0 = Inr (length s, stringBytes s @ rest)"
    using 3 by (auto intro: cborHead_reads [of 3 "length s" "stringBytes s @ rest"])
  then show ?case using 3 l by (simp add: decodeCBORItem.simps Let_def)
next
  case (4 d xs)
  let ?body = "concat (map cborEncode xs) @ rest"
  obtain w data0 where w: "cborHead 4 (length xs) @ ?body = w # data0" "unat (drop_bit 5 w) = 4"
    "cborArgument (unat (w AND 0x1F)) data0 = Inr (length xs, ?body)"
    using 4(2) by (auto intro: cborHead_reads [of 4 "length xs" ?body])
  have "decodeCBORItems (length xs) ?body (Suc d) = Inr (xs, rest)"
    using 4 by (intro decodeCBORItems_encode) auto
  then show ?case using 4(2) w length_concat_encode [of xs] by (simp add: decodeCBORItem.simps Let_def)
next
  case (5 d m)
  let ?body = "concat (map (\<lambda>p. cborEncode (fst p) @ cborEncode (snd p)) m) @ rest"
  obtain w data0 where w: "cborHead 5 (length m) @ ?body = w # data0" "unat (drop_bit 5 w) = 5"
    "cborArgument (unat (w AND 0x1F)) data0 = Inr (length m, ?body)"
    using 5(3) by (auto intro: cborHead_reads [of 5 "length m" ?body])
  have "decodeCBORPairs (length m) [] ?body (Suc d) = Inr ([] @ m, rest)"
    using 5 by (intro decodeCBORPairs_encode) auto
  then show ?case using 5(3) w length_concat_encode_pairs [of m] by (simp add: decodeCBORItem.simps Let_def)
next
  case (6 d b)
  obtain w data0 where "cborHead 7 (if b then 21 else 20) @ rest = w # data0" "unat (drop_bit 5 w) = 7"
    "cborArgument (unat (w AND 0x1F)) data0 = Inr (if b then 21 else 20, rest)" "unat (w AND 0x1F) = (if b then 21 else 20)"
    by (rule cborHead_reads [of 7 "if b then 21 else 20" rest]) auto
  then show ?case using 6 by (auto simp: decodeCBORItem.simps Let_def)
next
  case (7 d)
  obtain w data0 where "cborHead 7 22 @ rest = w # data0" "unat (drop_bit 5 w) = 7"
    "cborArgument (unat (w AND 0x1F)) data0 = Inr (22, rest)" "unat (w AND 0x1F) = 22"
    by (rule cborHead_reads [of 7 22 rest]) auto
  then show ?case using 7 by (simp add: decodeCBORItem.simps Let_def)
qed


section \<open>What a decoded value is\<close>

lemma cborArgument_sound:
  assumes "cborArgument info data = Inr (arg, rest)"
  obtains q where "data = q @ rest" "arg < 2 ^ 64" "\<And>r. cborArgument info (q @ r) = Inr (arg, r)"
proof (cases "info < 24")
  case True
  then show ?thesis using assms that [of "[]"] by (auto simp: cborArgument_def)
next
  case False
  define size where "size = (2 :: nat) ^ (info - 24)"
  have s: "info \<le> 27" "size \<le> length data" "arg = bigEndian (take size data)" "rest = drop size data"
    using assms False by (auto simp: cborArgument_def Let_def size_def split: if_splits)
  have "size \<le> 2 ^ 3" unfolding size_def using s(1) by (intro power_increasing) auto
  then have "(256 :: nat) ^ size \<le> 256 ^ 8" by (intro power_increasing) auto
  moreover have "arg < 256 ^ size" using s(2,3) bigEndian_less [of "take size data"] by (simp add: min_absorb2)
  ultimately have "arg < 2 ^ 64" by (simp add: order_less_le_trans [of _ "256 ^ size"])
  then show ?thesis
    using s False by (intro that [of "take size data"]) (auto simp: cborArgument_def Let_def size_def min_absorb2)
qed

lemma decodeCBORItem_Nil [simp]: "decodeCBORItem [] d \<noteq> Inr x"
  by (cases "d > cborMaxDepth") (simp_all add: decodeCBORItem.simps)

lemma decodeCBORItem_Inr:
  "decodeCBORItem (b # data0) d = Inr (v, rest) \<longleftrightarrow>
     d \<le> cborMaxDepth \<and> (\<exists>arg data1. cborArgument (unat (b AND 0x1F)) data0 = Inr (arg, data1) \<and>
       ((unat (drop_bit 5 b) = 0 \<and> arg \<le> 2 ^ 63 - 1 \<and> v = CborInt (int arg) \<and> rest = data1) \<or>
        (unat (drop_bit 5 b) = 1 \<and> arg \<le> 2 ^ 63 - 1 \<and> v = CborInt (- 1 - int arg) \<and> rest = data1) \<or>
        (unat (drop_bit 5 b) = 2 \<and> arg \<le> length data1 \<and> v = CborBytes (take arg data1) \<and> rest = drop arg data1) \<or>
        (unat (drop_bit 5 b) = 3 \<and> arg \<le> length data1 \<and> v = CborText (bytesString (take arg data1)) \<and> rest = drop arg data1) \<or>
        (unat (drop_bit 5 b) = 4 \<and> arg \<le> length data1 \<and>
           (\<exists>xs. decodeCBORItems arg data1 (Suc d) = Inr (xs, rest) \<and> v = CborArray xs)) \<or>
        (unat (drop_bit 5 b) = 5 \<and> arg \<le> length data1 \<and>
           (\<exists>m. decodeCBORPairs arg [] data1 (Suc d) = Inr (m, rest) \<and> v = CborMap m)) \<or>
        (unat (drop_bit 5 b) = 7 \<and> rest = data1 \<and>
           (unat (b AND 0x1F) = 20 \<and> v = CborBool False \<or> unat (b AND 0x1F) = 21 \<and> v = CborBool True \<or>
            unat (b AND 0x1F) = 22 \<and> v = CborNil))))"
proof -
  define major where "major = unat (drop_bit 5 b)"
  define info where "info = unat (b AND 0x1F)"
  note eqs = decodeCBORItem.simps list.case Let_def major_def [symmetric] info_def [symmetric]
  show ?thesis
  proof (cases "cborArgument info data0")
    case (Inr a)
    obtain arg data1 where a: "a = (arg, data1)" by (cases a)
    consider "major = 0" | "major = 1" | "major = 2" | "major = 3" | "major = 4" | "major = 5" | "major = 7"
      | "major \<notin> {0, 1, 2, 3, 4, 5, 7}" by blast
    then show ?thesis
      unfolding eqs by cases (simp_all add: Inr a bindE_Inr_iff not_less split_beta conj_ac, auto)
  qed (simp add: eqs)
qed


text \<open>
  \<open>f\<close> read \<open>v\<close> from a prefix of at least \<open>n\<close> bytes of the input, left the rest, and
  depends on that prefix only.
\<close>

definition readsPrefix :: "(bytes \<Rightarrow> gerr + ('a \<times> bytes)) \<Rightarrow> nat \<Rightarrow> bytes \<Rightarrow> 'a \<Rightarrow> bytes \<Rightarrow> bool" where
  "readsPrefix f n data v rest \<longleftrightarrow> (\<exists>p. data = p @ rest \<and> n \<le> length p \<and> (\<forall>r. f (p @ r) = Inr (v, r)))"

lemma readsPrefix_bind:
  assumes "readsPrefix f m data x mid" "readsPrefix (g x) n mid y rest"
  shows "readsPrefix (\<lambda>data. bindE (f data) (\<lambda>(x, data'). g x data')) (m + n) data y rest"
proof -
  obtain p q where "data = p @ mid" "m \<le> length p" "\<forall>r. f (p @ r) = Inr (x, r)"
    "mid = q @ rest" "n \<le> length q" "\<forall>r. g x (q @ r) = Inr (y, r)"
    using assms by (auto simp: readsPrefix_def)
  then show ?thesis unfolding readsPrefix_def by (intro exI [of _ "p @ q"]) auto
qed

lemma readsPrefix_map:
  "readsPrefix f n data v rest \<Longrightarrow> readsPrefix (\<lambda>data. bindE (f data) (\<lambda>(x, data'). Inr (h x, data'))) n data (h v) rest"
  using readsPrefix_bind [of f n data v rest "\<lambda>x data'. Inr (h x, data')" 0 "h v" rest]
  by (auto simp: readsPrefix_def)

definition itemSound :: "nat \<Rightarrow> bool" where
  "itemSound d \<longleftrightarrow> (\<forall>data v rest. decodeCBORItem data d = Inr (v, rest) \<longrightarrow>
     cborWf d v \<and> readsPrefix (\<lambda>data. decodeCBORItem data d) 1 data v rest)"

lemma itemsSound:
  assumes "itemSound d"
  shows "decodeCBORItems n data d = Inr (vs, rest) \<Longrightarrow>
    length vs = n \<and> (\<forall>v \<in> set vs. cborWf d v) \<and> readsPrefix (\<lambda>data. decodeCBORItems n data d) n data vs rest"
proof (induction n arbitrary: data vs)
  case 0
  then show ?case by (auto simp: readsPrefix_def)
next
  case (Suc n)
  then obtain v mid ws where v: "decodeCBORItem data d = Inr (v, mid)" "decodeCBORItems n mid d = Inr (ws, rest)" "vs = v # ws"
    by (auto simp: bindE_Inr_iff)
  have i: "cborWf d v" "readsPrefix (\<lambda>data. decodeCBORItem data d) 1 data v mid"
    using assms v(1) by (auto simp: itemSound_def)
  note ih = Suc.IH [OF v(2)]
  have "readsPrefix (\<lambda>data. bindE (decodeCBORItem data d) (\<lambda>(x, data1).
      bindE (decodeCBORItems n data1 d) (\<lambda>(xs, data2). Inr (x # xs, data2)))) (1 + n) data (v # ws) rest"
    by (rule readsPrefix_bind [OF i(2)]) (use ih in \<open>auto intro: readsPrefix_map\<close>)
  then show ?case using i(1) ih v(3) by simp
qed

lemma pairsSound:
  assumes "itemSound d"
  shows "decodeCBORPairs n m data d = Inr (m', rest) \<Longrightarrow> distinct (map fst m) \<Longrightarrow>
    \<exists>m2. m' = m @ m2 \<and> length m2 = n \<and> distinct (map fst m') \<and>
      (\<forall>p \<in> set m2. cborIsKey (fst p) \<and> cborWf d (fst p) \<and> cborWf d (snd p)) \<and>
      readsPrefix (\<lambda>data. decodeCBORPairs n m data d) n data m' rest"
proof (induction n arbitrary: data m)
  case 0
  then show ?case by (auto simp: readsPrefix_def)
next
  case (Suc n)
  then obtain k mid1 v mid2 where k: "decodeCBORItem data d = Inr (k, mid1)" "cborIsKey k" "cborGet m k = None"
    "decodeCBORItem mid1 d = Inr (v, mid2)" "decodeCBORPairs n (m @ [(k, v)]) mid2 d = Inr (m', rest)"
    by (auto simp: bindE_Inr_iff split: if_splits)
  have i: "cborWf d k" "readsPrefix (\<lambda>data. decodeCBORItem data d) 1 data k mid1"
    "cborWf d v" "readsPrefix (\<lambda>data. decodeCBORItem data d) 1 mid1 v mid2"
    using assms k(1,4) by (auto simp: itemSound_def)
  have "distinct (map fst (m @ [(k, v)]))" using Suc.prems(2) k(3) by (auto simp: cborGet_None)
  from Suc.IH [OF k(5) this] obtain m2 where m2: "m' = m @ (k, v) # m2" "length m2 = n" "distinct (map fst m')"
    "\<forall>p \<in> set m2. cborIsKey (fst p) \<and> cborWf d (fst p) \<and> cborWf d (snd p)"
    "readsPrefix (\<lambda>data. decodeCBORPairs n (m @ [(k, v)]) data d) n mid2 m' rest"
    by auto
  let ?rest = "\<lambda>k data1. if \<not> cborIsKey k
     then Inl (cborErr (''map key of type '' @ cborTypeName k @ ''; only integer and text keys are allowed''))
     else if cborGet m k \<noteq> None then Inl (cborErr (''duplicate map key '' @ cborKeyText k))
     else bindE (decodeCBORItem data1 d) (\<lambda>(v, data2). decodeCBORPairs n (m @ [(k, v)]) data2 d)"
  have "readsPrefix (?rest k) (1 + n) mid1 m' rest"
    using readsPrefix_bind [OF i(4), of "\<lambda>v data2. decodeCBORPairs n (m @ [(k, v)]) data2 d" n m' rest] m2(5) k(2,3) by simp
  from readsPrefix_bind [where g = ?rest, OF i(2) this]
  have "readsPrefix (\<lambda>data. decodeCBORPairs (Suc n) m data d) (1 + (1 + n)) data m' rest" by simp
  then have "readsPrefix (\<lambda>data. decodeCBORPairs (Suc n) m data d) (Suc n) data m' rest"
    unfolding readsPrefix_def by (elim exE conjE) (intro exI conjI, assumption, auto)
  then show ?case using m2(1-4) k(2) i(1,3) by (intro exI [of _ "(k, v) # m2"]) auto
qed

lemma itemSound_step:
  assumes "itemSound (Suc d)"
  shows "itemSound d"
  unfolding itemSound_def
proof (intro allI impI)
  fix data v rest assume dec: "decodeCBORItem data d = Inr (v, rest)"
  then obtain b data0 where data: "data = b # data0" by (cases data) auto
  obtain arg data1 where a: "d \<le> cborMaxDepth" "cborArgument (unat (b AND 0x1F)) data0 = Inr (arg, data1)"
    and body: "(unat (drop_bit 5 b) = 0 \<and> arg \<le> 2 ^ 63 - 1 \<and> v = CborInt (int arg) \<and> rest = data1) \<or>
        (unat (drop_bit 5 b) = 1 \<and> arg \<le> 2 ^ 63 - 1 \<and> v = CborInt (- 1 - int arg) \<and> rest = data1) \<or>
        (unat (drop_bit 5 b) = 2 \<and> arg \<le> length data1 \<and> v = CborBytes (take arg data1) \<and> rest = drop arg data1) \<or>
        (unat (drop_bit 5 b) = 3 \<and> arg \<le> length data1 \<and> v = CborText (bytesString (take arg data1)) \<and> rest = drop arg data1) \<or>
        (unat (drop_bit 5 b) = 4 \<and> arg \<le> length data1 \<and>
           (\<exists>xs. decodeCBORItems arg data1 (Suc d) = Inr (xs, rest) \<and> v = CborArray xs)) \<or>
        (unat (drop_bit 5 b) = 5 \<and> arg \<le> length data1 \<and>
           (\<exists>m. decodeCBORPairs arg [] data1 (Suc d) = Inr (m, rest) \<and> v = CborMap m)) \<or>
        (unat (drop_bit 5 b) = 7 \<and> rest = data1 \<and>
           (unat (b AND 0x1F) = 20 \<and> v = CborBool False \<or> unat (b AND 0x1F) = 21 \<and> v = CborBool True \<or>
            unat (b AND 0x1F) = 22 \<and> v = CborNil))"
    using dec unfolding data decodeCBORItem_Inr by blast
  obtain q where q: "data0 = q @ data1" "arg < 2 ^ 64" "\<And>r. cborArgument (unat (b AND 0x1F)) (q @ r) = Inr (arg, r)"
    by (rule cborArgument_sound [OF a(2)]) blast
  have reads: "readsPrefix (\<lambda>data. decodeCBORItem data d) 1 data v rest"
    if "data1 = p @ rest" "\<And>r. decodeCBORItem (b # q @ p @ r) d = Inr (v, r)" for p
    unfolding readsPrefix_def using that data q(1) by (intro exI [of _ "b # q @ p"]) auto
  show "cborWf d v \<and> readsPrefix (\<lambda>data. decodeCBORItem data d) 1 data v rest"
    using body
  proof (elim disjE conjE exE)
    fix xs assume x: "unat (drop_bit 5 b) = 4" "decodeCBORItems arg data1 (Suc d) = Inr (xs, rest)" "v = CborArray xs"
    from itemsSound [OF assms x(2)] obtain p where p: "length xs = arg" "\<forall>v \<in> set xs. cborWf (Suc d) v" "data1 = p @ rest"
      "arg \<le> length p" "\<forall>r. decodeCBORItems arg (p @ r) (Suc d) = Inr (xs, r)"
      by (auto simp: readsPrefix_def)
    show ?thesis using p q(2,3) a(1) x(1,3) by (intro conjI reads [of p]) (auto simp: decodeCBORItem_Inr)
  next
    fix m assume x: "unat (drop_bit 5 b) = 5" "decodeCBORPairs arg [] data1 (Suc d) = Inr (m, rest)" "v = CborMap m"
    from pairsSound [OF assms x(2)] obtain p where p: "length m = arg" "distinct (map fst m)"
      "\<forall>p \<in> set m. cborIsKey (fst p) \<and> cborWf (Suc d) (fst p) \<and> cborWf (Suc d) (snd p)" "data1 = p @ rest"
      "arg \<le> length p" "\<forall>r. decodeCBORPairs arg [] (p @ r) (Suc d) = Inr (m, r)"
      by (auto simp: readsPrefix_def)
    show ?thesis using p q(2,3) a(1) x(1,3) by (intro conjI reads [of p]) (auto simp: decodeCBORItem_Inr)
  next
    assume x: "unat (drop_bit 5 b) = 2" "arg \<le> length data1" "v = CborBytes (take arg data1)" "rest = drop arg data1"
    show ?thesis using q(2,3) a(1) x by (intro conjI reads [of "take arg data1"]) (auto simp: decodeCBORItem_Inr min_absorb2)
  next
    assume x: "unat (drop_bit 5 b) = 3" "arg \<le> length data1" "v = CborText (bytesString (take arg data1))" "rest = drop arg data1"
    show ?thesis using q(2,3) a(1) x
      by (intro conjI reads [of "take arg data1"]) (auto simp: decodeCBORItem_Inr bytesString_def min_absorb2)
  qed (rule conjI; (rule reads [of "[]"])?; use q(2,3) a(1) in \<open>auto simp: decodeCBORItem_Inr\<close>)+
qed

lemma decodeCBORItem_sound: "itemSound d"
proof (cases "d \<le> cborMaxDepth")
  case True
  have base: "itemSound (Suc cborMaxDepth)" by (simp add: itemSound_def decodeCBORItem.simps)
  show ?thesis by (rule inc_induct [OF True]) (use base itemSound_step in auto)
qed (simp add: itemSound_def decodeCBORItem.simps)

end
