(* ===== verification/Attestation.thy ===== *)
theory Attestation
  imports Webauthn Cbor
begin

text \<open>
  Passkey registrations (\<^verbatim>\<open>src/attestation.go\<close>): the client data, the attestation object, the
  authenticator data with its COSE key, and the packed statement. Certificates and the checks
  of \<^verbatim>\<open>crypto/x509\<close>, \<^verbatim>\<open>crypto/ecdsa\<close> and \<^verbatim>\<open>crypto/ecdh\<close> are parameters; a certificate is
  the fields the code reads. Two error texts are shortened: the base64 error of a challenge and
  the COSE parameters of a refused key.
\<close>

section \<open>Requests and results\<close>

datatype AttestationTrust =
    AttestationTrustUnset
  | AttestationTrustNone
  | AttestationTrustSelf
  | AttestationTrustUnrooted
  | AttestationTrustRooted

definition AttestationFormatNone :: string where
  "AttestationFormatNone = ''none''"

definition AttestationFormatPacked :: string where
  "AttestationFormatPacked = ''packed''"

record 'pool AttestationRequest =
  ar_AttestationObject :: bytes
  ar_ClientDataJSON :: bytes
  ar_RPID :: string
  ar_Origin :: string
  ar_Challenge :: bytes
  ar_RequireUserVerification :: bool
  ar_TrustRoots :: "'pool option"
  ar_Now :: "int option"

record AttestationResult =
  at_Format :: string
  at_Trust :: AttestationTrust
  at_AAGUID :: bytes
  at_AAGUIDAuthenticated :: bool
  at_HardwareBacked :: bool
  at_CredentialID :: bytes
  at_PublicKey :: "ecPublicKey option"
  at_PublicKeySEC1 :: bytes
  at_SignCount :: uint32
  at_UserPresent :: bool
  at_UserVerified :: bool
  at_BackupEligible :: bool
  at_BackedUp :: bool
  at_Proven :: "string list"
  at_Asserted :: "string list"

definition zeroAttestation :: AttestationResult where
  "zeroAttestation = \<lparr>at_Format = '''', at_Trust = AttestationTrustUnset, at_AAGUID = replicate 16 0,
     at_AAGUIDAuthenticated = False, at_HardwareBacked = False, at_CredentialID = [], at_PublicKey = None,
     at_PublicKeySEC1 = [], at_SignCount = 0, at_UserPresent = False, at_UserVerified = False,
     at_BackupEligible = False, at_BackedUp = False, at_Proven = [], at_Asserted = []\<rparr>"

definition flagUP :: byte where "flagUP = 0x01"
definition flagUV :: byte where "flagUV = 0x04"
definition flagBE :: byte where "flagBE = 0x08"
definition flagBS :: byte where "flagBS = 0x10"
definition flagAT :: byte where "flagAT = 0x40"
definition flagED :: byte where "flagED = 0x80"

definition coseAlgES256 :: int where "coseAlgES256 = - 7"
definition coseKtyEC2 :: int where "coseKtyEC2 = 2"
definition coseCrvP256 :: int where "coseCrvP256 = 1"

definition maxCredentialIDLength :: nat where
  "maxCredentialIDLength = 1023"

definition oidFIDOGenCEAAGUID :: "nat list" where
  "oidFIDOGenCEAAGUID = [1, 3, 6, 1, 4, 1, 45724, 1, 1, 4]"

record certExtension =
  ex_Id :: "nat list"
  ex_Critical :: bool
  ex_Value :: bytes

record certificate =
  ce_Raw :: bytes
  ce_Version :: int
  ce_Country :: "string list"
  ce_Organization :: "string list"
  ce_OrganizationalUnit :: "string list"
  ce_CommonName :: string
  ce_BasicConstraintsValid :: bool
  ce_IsCA :: bool
  ce_PublicKey :: "ecPublicKey option"
  ce_Extensions :: "certExtension list"

text \<open>
  \<open>xp_Verify leaf roots intermediates now\<close> is \<open>leaf.Verify\<close> with any key usage. A
  certificate's public key is \<open>None\<close> unless it is an ECDSA key.
\<close>

record 'pool x509 =
  xp_ParseCertificate :: "bytes \<Rightarrow> gerr + certificate"
  xp_Verify :: "certificate \<Rightarrow> 'pool \<Rightarrow> certificate list \<Rightarrow> int \<Rightarrow> gerr + unit"
  xp_VerifyASN1 :: "ecPublicKey \<Rightarrow> bytes \<Rightarrow> bytes \<Rightarrow> bool"
  xp_NewPublicKey :: "bytes \<Rightarrow> gerr + unit"
  xp_OctetString :: "bytes \<Rightarrow> gerr + (bytes \<times> bytes)"
  xp_TimeNow :: int

definition attestationError :: "sentinel \<Rightarrow> string \<Rightarrow> gerr" where
  "attestationError s text = Errorf (''soroauth: verify attestation: '' @ sentinel_text s @ '': '' @ text) [Sentinel s]"

definition attestationInvalid :: "string \<Rightarrow> gerr" where
  "attestationInvalid text = attestationError ErrAttestationInvalid text"

definition attestationMalformed :: "string \<Rightarrow> gerr" where
  "attestationMalformed text = attestationError ErrAttestationMalformed text"

definition formatAAGUID :: "bytes \<Rightarrow> string" where
  "formatAAGUID a =
     (let h = hex a in take 8 h @ ''-'' @ take 4 (drop 8 h) @ ''-'' @ take 4 (drop 12 h) @ ''-'' @
        take 4 (drop 16 h) @ ''-'' @ drop 20 h)"

text \<open>The section signs of the messages, in UTF-8.\<close>

definition cite :: "string \<Rightarrow> string" where
  "cite section = '' ('' @ [CHR 0xC2, CHR 0xA7] @ section @ '')''"

section \<open>The client data\<close>

definition checkRegistrationClientData :: "webauthnJson \<Rightarrow> 'pool AttestationRequest \<Rightarrow> gerr + unit" where
  "checkRegistrationClientData J req =
     (case json_ClientData J (ar_ClientDataJSON req) of
        Inl err \<Rightarrow> Inl (attestationMalformed (''clientDataJSON is not valid JSON: '' @ error_text err))
      | Inr cd \<Rightarrow>
          if cd_Type cd \<noteq> ''webauthn.create''
          then Inl (attestationInvalid (''clientDataJSON type is '' @ strconv_Quote (cd_Type cd) @ '', want '' @
                 strconv_Quote ''webauthn.create'' @ cite ''7.1 step 8''))
          else case decodeBase64Loose (cd_Challenge cd) of
            None \<Rightarrow> Inl (attestationMalformed ''clientDataJSON challenge is not base64url'')
          | Some challenge \<Rightarrow>
              if challenge \<noteq> ar_Challenge req
              then Inl (attestationInvalid (''clientDataJSON challenge does not match the one issued'' @ cite ''7.1 step 9''))
              else if cd_Origin cd \<noteq> ar_Origin req
              then Inl (attestationInvalid (''clientDataJSON origin is '' @ strconv_Quote (cd_Origin cd) @ '', want '' @
                     strconv_Quote (ar_Origin req) @ cite ''7.1 step 10''))
              else Inr ())"

section \<open>The attestation object\<close>

definition parseAttestationObject :: "bytes \<Rightarrow> gerr + (string \<times> cborMap \<times> bytes)" where
  "parseAttestationObject raw =
     (case decodeCBOR raw of
        Inl err \<Rightarrow> Inl (attestationMalformed (''attestationObject: '' @ error_text err))
      | Inr (value, rest) \<Rightarrow>
          if length rest \<noteq> 0
          then Inl (attestationMalformed (''attestationObject has '' @ itoa (length rest) @ '' trailing bytes''))
          else case value of
            CborMap obj \<Rightarrow>
              if length obj \<noteq> 3
              then Inl (attestationMalformed (''attestationObject has '' @ itoa (length obj) @
                     '' members, want exactly fmt, attStmt and authData''))
              else (case cborGet obj (CborText ''fmt'') of
                Some (CborText format) \<Rightarrow>
                  (case cborGet obj (CborText ''attStmt'') of
                     Some (CborMap stmt) \<Rightarrow>
                       (case cborGet obj (CborText ''authData'') of
                          Some (CborBytes authData) \<Rightarrow> Inr (format, stmt, authData)
                        | _ \<Rightarrow> Inl (attestationMalformed ''attestationObject authData is missing or not bytes''))
                   | _ \<Rightarrow> Inl (attestationMalformed ''attestationObject attStmt is missing or not a map''))
              | _ \<Rightarrow> Inl (attestationMalformed ''attestationObject fmt is missing or not text''))
          | _ \<Rightarrow> Inl (attestationMalformed (''attestationObject is '' @ cborTypeName value @ '', not a map'')))"

section \<open>The authenticator data\<close>

definition parseCOSEKeyES256 :: "'pool x509 \<Rightarrow> cborValue \<Rightarrow> AttestationResult \<Rightarrow> gerr + AttestationResult" where
  "parseCOSEKeyES256 X value result =
     (case value of
        CborMap m \<Rightarrow>
          if cborGet m (CborInt 1) \<noteq> Some (CborInt coseKtyEC2) \<or> cborGet m (CborInt 3) \<noteq> Some (CborInt coseAlgES256) \<or>
             cborGet m (CborInt (- 1)) \<noteq> Some (CborInt coseCrvP256)
          then Inl (attestationError ErrAttestationUnsupportedFormat
                 ''credential key is not EC2/ES256/P-256; only secp256r1 passkeys can be verified by a Soroban host'')
          else (case (cborGet m (CborInt (- 2)), cborGet m (CborInt (- 3))) of
            (Some (CborBytes x), Some (CborBytes y)) \<Rightarrow>
              if length x \<noteq> 32 \<or> length y \<noteq> 32
              then Inl (attestationMalformed ''COSE key coordinates must be two 32-byte strings'')
              else let sec1 = 4 # x @ y in
                   (case xp_NewPublicKey X sec1 of
                      Inl err \<Rightarrow> Inl (attestationMalformed (''credential public key is not a point on P-256: '' @ error_text err))
                    | Inr _ \<Rightarrow> Inr (result\<lparr>at_PublicKey := Some \<lparr>ek_P256 = True, ek_X = Some (int (bigEndian x)),
                                  ek_Y = Some (int (bigEndian y))\<rparr>, at_PublicKeySEC1 := sec1\<rparr>))
          | _ \<Rightarrow> Inl (attestationMalformed ''COSE key coordinates must be two 32-byte strings''))
      | _ \<Rightarrow> Inl (attestationMalformed (''credential public key is '' @ cborTypeName value @ '', not a COSE_Key map'')))"

text \<open>Anything after the key must be the extension map the ED flag announces.\<close>

definition checkExtensions :: "byte \<Rightarrow> bytes \<Rightarrow> gerr + unit" where
  "checkExtensions flags rest =
     bindE (if and flags flagED \<noteq> 0
            then (case decodeCBOR rest of
                    Inl err \<Rightarrow> Inl (attestationMalformed (''authenticator extensions: '' @ error_text err))
                  | Inr (CborMap _, rest2) \<Rightarrow> Inr rest2
                  | Inr (ext, _) \<Rightarrow> Inl (attestationMalformed (''authenticator extensions are '' @ cborTypeName ext @ '', not a map'')))
            else Inr rest) (\<lambda>rest'.
     if length rest' \<noteq> 0
     then Inl (attestationMalformed (''authData has '' @ itoa (length rest') @ '' unexplained trailing bytes''))
     else Inr ())"

definition parseAttestedCredential :: "'pool x509 \<Rightarrow> byte \<Rightarrow> bytes \<Rightarrow> AttestationResult \<Rightarrow> gerr + AttestationResult" where
  "parseAttestedCredential X flags rest0 result =
     (if length rest0 < 18
      then Inl (attestationMalformed (''attested credential data is '' @ itoa (length rest0) @ '' bytes, shorter than 18''))
      else
        let aaguid = take 16 rest0; idLen = bigEndian (take 2 (drop 16 rest0)); rest1 = drop 18 rest0 in
        if idLen = 0 \<or> idLen > maxCredentialIDLength
        then Inl (attestationMalformed (''credential ID length '' @ itoa idLen @ '' is outside 1..'' @ itoa maxCredentialIDLength @ cite ''5.8.3''))
        else if length rest1 < idLen
        then Inl (attestationMalformed (''credential ID claims '' @ itoa idLen @ '' bytes with '' @ itoa (length rest1) @ '' remaining''))
        else (case decodeCBOR (drop idLen rest1) of
          Inl err \<Rightarrow> Inl (attestationMalformed (''credential public key: '' @ error_text err))
        | Inr (keyValue, rest2) \<Rightarrow>
            bindE (parseCOSEKeyES256 X keyValue (result\<lparr>at_AAGUID := aaguid, at_CredentialID := take idLen rest1\<rparr>)) (\<lambda>result'.
            bindE (checkExtensions flags rest2) (\<lambda>_. Inr result'))))"

definition parseRegistrationAuthData ::
  "sdk \<Rightarrow> 'pool x509 \<Rightarrow> bytes \<Rightarrow> 'pool AttestationRequest \<Rightarrow> gerr + AttestationResult" where
  "parseRegistrationAuthData S X authData req =
     (if length authData < 37
      then Inl (attestationMalformed (''authData is '' @ itoa (length authData) @ '' bytes, shorter than the 37-byte prefix''))
      else if take 32 authData \<noteq> sha256_Sum256 S (stringBytes (ar_RPID req))
      then Inl (attestationInvalid (''authData rpIdHash does not match the SHA-256 of RP ID '' @ strconv_Quote (ar_RPID req) @ cite ''7.1 step 13''))
      else
        let flags = authData ! 32 in
        if and flags flagUP = 0 then Inl (attestationInvalid (''user presence flag is not set'' @ cite ''7.1 step 14''))
        else if ar_RequireUserVerification req \<and> and flags flagUV = 0
        then Inl (attestationInvalid (''user verification flag is not set and verification was required'' @ cite ''7.1 step 15''))
        else if and flags flagAT = 0
        then Inl (attestationInvalid (''attested credential data flag (AT) is not set on a registration'' @ cite ''6.1''))
        else parseAttestedCredential X flags (drop 37 authData)
               (zeroAttestation\<lparr>at_UserPresent := True, at_UserVerified := (and flags flagUV \<noteq> 0),
                  at_BackupEligible := (and flags flagBE \<noteq> 0), at_BackedUp := (and flags flagBS \<noteq> 0),
                  at_SignCount := word_of_nat (bigEndian (take 4 (drop 33 authData)))\<rparr>))"

section \<open>The packed statement\<close>

fun checkAAGUIDExtension :: "'pool x509 \<Rightarrow> certExtension list \<Rightarrow> bytes \<Rightarrow> gerr + unit" where
  "checkAAGUIDExtension X [] aaguid = Inr ()"
| "checkAAGUIDExtension X (ext # extensions) aaguid =
     (if ex_Id ext \<noteq> oidFIDOGenCEAAGUID then checkAAGUIDExtension X extensions aaguid
      else if ex_Critical ext then Inl (attestationInvalid (''id-fido-gen-ce-aaguid extension must not be critical'' @ cite ''8.2.1''))
      else case xp_OctetString X (ex_Value ext) of
        Inl _ \<Rightarrow> Inl (attestationMalformed ''id-fido-gen-ce-aaguid extension is not a DER OCTET STRING'')
      | Inr (value, rest) \<Rightarrow>
          if length rest \<noteq> 0
          then Inl (attestationMalformed ''id-fido-gen-ce-aaguid extension is not a DER OCTET STRING'')
          else if value \<noteq> aaguid
          then Inl (attestationInvalid (''certificate AAGUID '' @ hex value @ '' does not match authenticator data AAGUID '' @ hex aaguid @
                 cite ''8.2.1''))
          else checkAAGUIDExtension X extensions aaguid)"

definition checkPackedCertificate :: "'pool x509 \<Rightarrow> certificate \<Rightarrow> bytes \<Rightarrow> gerr + unit" where
  "checkPackedCertificate X cert aaguid =
     (if ce_Version cert \<noteq> 3
      then Inl (attestationInvalid (''attestation certificate version is '' @ itoa_int (ce_Version cert) @ '', must be 3'' @ cite ''8.2.1''))
      else if length (ce_Country cert) = 0 \<or> length (ce_Organization cert) = 0 \<or> ce_CommonName cert = ''''
      then Inl (attestationInvalid (''attestation certificate subject must carry C, O and CN'' @ cite ''8.2.1''))
      else if ce_OrganizationalUnit cert \<noteq> [''Authenticator Attestation'']
      then Inl (attestationInvalid (''attestation certificate subject OU must be exactly '' @ strconv_Quote ''Authenticator Attestation'' @ cite ''8.2.1''))
      else if \<not> ce_BasicConstraintsValid cert \<or> ce_IsCA cert
      then Inl (attestationInvalid (''attestation certificate must carry Basic Constraints with CA=false'' @ cite ''8.2.1''))
      else checkAAGUIDExtension X (ce_Extensions cert) aaguid)"

fun checkPackedMembers :: "cborMap \<Rightarrow> gerr + unit" where
  "checkPackedMembers [] = Inr ()"
| "checkPackedMembers (p # stmt) =
     (if fst p = CborText ''alg'' \<or> fst p = CborText ''sig'' \<or> fst p = CborText ''x5c'' then checkPackedMembers stmt
      else if fst p = CborText ''ecdaaKeyId''
      then Inl (attestationError ErrAttestationUnsupportedFormat ''packed ECDAA attestation was removed from WebAuthn Level 2'')
      else Inl (attestationMalformed (''packed attStmt has unexpected member '' @ cborKeyText (fst p))))"

definition parseX5C :: "'pool x509 \<Rightarrow> cborValue list \<Rightarrow> gerr + certificate list" where
  "parseX5C X items =
     mapEi (\<lambda>i item. case item of
        CborBytes der \<Rightarrow>
          (case xp_ParseCertificate X der of
             Inl err \<Rightarrow> Inl (attestationMalformed (''x5c['' @ itoa i @ ''] is not a certificate: '' @ error_text err))
           | Inr cert \<Rightarrow> Inr cert)
      | _ \<Rightarrow> Inl (attestationMalformed (''x5c['' @ itoa i @ ''] is not bytes''))) items"

definition verifyX5C ::
  "'pool x509 \<Rightarrow> AttestationResult \<Rightarrow> cborValue list \<Rightarrow> bytes \<Rightarrow> bytes \<Rightarrow> 'pool AttestationRequest \<Rightarrow> gerr + AttestationResult" where
  "verifyX5C X result items digest sig req =
     bindE (parseX5C X items) (\<lambda>certs.
     let leaf = hd certs in
     (case ce_PublicKey leaf of
        Some leafKey \<Rightarrow>
          if \<not> ek_P256 leafKey
          then Inl (attestationError ErrAttestationUnsupportedFormat
                 ''attestation certificate key is not ECDSA P-256, which the ES256 algorithm requires'')
          else if \<not> xp_VerifyASN1 X leafKey digest sig
          then Inl (attestationInvalid (''attestation signature does not verify under the x5c leaf certificate'' @ cite ''8.2.1''))
          else bindE (checkPackedCertificate X leaf (at_AAGUID result)) (\<lambda>_.
            (case ar_TrustRoots req of
               None \<Rightarrow> Inr (result\<lparr>at_Trust := AttestationTrustUnrooted\<rparr>)
             | Some roots \<Rightarrow>
                 let now = (case ar_Now req of None \<Rightarrow> xp_TimeNow X | Some t \<Rightarrow> t) in
                 (case xp_Verify X leaf roots (tl certs) now of
                    Inl err \<Rightarrow> Inl (attestationInvalid (''x5c chain does not verify to a supplied trust root: '' @ error_text err))
                  | Inr _ \<Rightarrow> Inr (result\<lparr>at_Trust := AttestationTrustRooted\<rparr>))))
      | None \<Rightarrow> Inl (attestationError ErrAttestationUnsupportedFormat
                 ''attestation certificate key is not ECDSA P-256, which the ES256 algorithm requires'')))"

definition verifyPackedStatement ::
  "sdk \<Rightarrow> 'pool x509 \<Rightarrow> AttestationResult \<Rightarrow> cborMap \<Rightarrow> bytes \<Rightarrow> 'pool AttestationRequest \<Rightarrow> gerr + AttestationResult" where
  "verifyPackedStatement S X result stmt covered req =
     bindE (checkPackedMembers stmt) (\<lambda>_.
     (case cborGet stmt (CborText ''alg'') of
        Some (CborInt alg) \<Rightarrow>
          (case cborGet stmt (CborText ''sig'') of
             Some (CborBytes sig) \<Rightarrow>
               if length sig = 0 then Inl (attestationMalformed ''packed attStmt sig is missing or not bytes'')
               else if alg \<noteq> coseAlgES256
               then Inl (attestationError ErrAttestationUnsupportedFormat
                      (''packed algorithm '' @ itoa_int alg @ '' (only ES256, -7, is verified)''))
               else
                 let digest = sha256_Sum256 S covered in
                 (case cborGet stmt (CborText ''x5c'') of
                    None \<Rightarrow>
                      if \<not> xp_VerifyASN1 X (the (at_PublicKey result)) digest sig
                      then Inl (attestationInvalid (''self attestation signature does not verify under the credential public key'' @ cite ''8.2.2''))
                      else Inr (result\<lparr>at_Trust := AttestationTrustSelf\<rparr>)
                  | Some (CborArray items) \<Rightarrow>
                      if length items = 0 then Inl (attestationMalformed ''packed attStmt x5c must be a non-empty array'')
                      else verifyX5C X result items digest sig req
                  | _ \<Rightarrow> Inl (attestationMalformed ''packed attStmt x5c must be a non-empty array''))
           | _ \<Rightarrow> Inl (attestationMalformed ''packed attStmt sig is missing or not bytes''))
      | _ \<Rightarrow> Inl (attestationMalformed ''packed attStmt alg is missing or not an integer'')))"

section \<open>The verdict\<close>

definition finish :: "AttestationResult \<Rightarrow> AttestationResult" where
  "finish r =
     (let aaguid = formatAAGUID (at_AAGUID r);
          proven = at_Proven r @
            [''the client data is a webauthn.create for the expected origin and challenge'',
             ''the authenticator data is scoped to the expected RP ID'',
             ''the credential public key is a valid P-256 point''] @
            (if at_UserPresent r
             then [''user presence was reported by the authenticator data covered by this registration''] else []) @
            (case at_Trust r of
               AttestationTrustSelf \<Rightarrow> [''the registrant held the private key for the credential public key (self attestation)'']
             | AttestationTrustUnrooted \<Rightarrow> [''the attestation signature verifies under the leaf certificate in x5c and the certificate meets '' @
                 [CHR 0xC2, CHR 0xA7] @ ''8.2.1'']
             | AttestationTrustRooted \<Rightarrow> [''the x5c chain verifies to a supplied trust root'',
                 ''the AAGUID '' @ aaguid @ '' is covered by an attestation signature from that chain'']
             | _ \<Rightarrow> []);
          asserted = at_Asserted r @
            (case at_Trust r of
               AttestationTrustNone \<Rightarrow> [''nothing about the authenticator: the none format is no statement at all'',
                 ''the AAGUID '' @ aaguid @ '' and every flag are claims by whoever made the request'']
             | AttestationTrustSelf \<Rightarrow> [''the authenticator model: self attestation is signed by the credential key itself'',
                 ''the AAGUID '' @ aaguid]
             | AttestationTrustUnrooted \<Rightarrow> [''that the certificate belongs to a real authenticator: no trust roots were supplied'',
                 ''the AAGUID '' @ aaguid @ '' (signed by an unanchored key)'']
             | AttestationTrustRooted \<Rightarrow> [''that the supplied roots belong to hardware authenticators: this library does not know which do'']
             | AttestationTrustUnset \<Rightarrow> []) @
            (if at_BackupEligible r \<or> at_BackedUp r
             then [''backup flags (BE/BS): a synced passkey is not a device-bound key''] else [])
      in r\<lparr>at_AAGUIDAuthenticated := (at_Trust r = AttestationTrustRooted),
           at_HardwareBacked := (at_Trust r = AttestationTrustRooted), at_Proven := proven, at_Asserted := asserted\<rparr>)"

definition VerifyAttestation ::
  "sdk \<Rightarrow> webauthnJson \<Rightarrow> 'pool x509 \<Rightarrow> 'pool AttestationRequest \<Rightarrow> gerr + AttestationResult" where
  "VerifyAttestation S J X req =
     (if ar_RPID req = '''' \<or> ar_Origin req = '''' \<or> length (ar_Challenge req) = 0
      then Inl (attestationInvalid (''RPID, Origin and Challenge are all required: '' @
             ''verifying without them would not bind the attestation to this ceremony''))
      else
        bindE (checkRegistrationClientData J req) (\<lambda>_.
        let clientDataHash = sha256_Sum256 S (ar_ClientDataJSON req) in
        bindE (parseAttestationObject (ar_AttestationObject req)) (\<lambda>(format, stmt, authData).
        bindE (parseRegistrationAuthData S X authData req) (\<lambda>result0.
        let result = result0\<lparr>at_Format := format\<rparr>; covered = authData @ clientDataHash in
        bindE (if format = AttestationFormatNone
               then if length stmt \<noteq> 0
                    then Inl (attestationInvalid (''none attestation statement must be empty'' @ cite ''8.7'' @ '', has '' @
                           itoa (length stmt) @ '' entries''))
                    else Inr (result\<lparr>at_Trust := AttestationTrustNone\<rparr>)
               else if format = AttestationFormatPacked then verifyPackedStatement S X result stmt covered req
               else Inl (attestationError ErrAttestationUnsupportedFormat (''format '' @ strconv_Quote format))) (\<lambda>result'.
          Inr (finish result'))))))"


section \<open>What the checks establish\<close>

lemma checkRegistrationClientData_Inr:
  "checkRegistrationClientData J req = Inr u \<longleftrightarrow>
     (\<exists>cd. json_ClientData J (ar_ClientDataJSON req) = Inr cd \<and> cd_Type cd = ''webauthn.create'' \<and>
        decodeBase64Loose (cd_Challenge cd) = Some (ar_Challenge req) \<and> cd_Origin cd = ar_Origin req)"
  by (cases "json_ClientData J (ar_ClientDataJSON req)")
    (auto simp: checkRegistrationClientData_def if_Inl_iff split: option.splits)

lemma parseAttestationObject_Inr:
  assumes "parseAttestationObject raw = Inr (format, stmt, authData)"
  shows "\<exists>m. decodeCBOR raw = Inr (CborMap m, []) \<and> length m = 3 \<and> cborGet m (CborText ''fmt'') = Some (CborText format) \<and>
    cborGet m (CborText ''attStmt'') = Some (CborMap stmt) \<and> cborGet m (CborText ''authData'') = Some (CborBytes authData)"
  using assms unfolding parseAttestationObject_def
  by (auto split: sum.splits prod.splits if_splits cborValue.splits option.splits)

lemma parseCOSEKeyES256_Inr:
  assumes "parseCOSEKeyES256 X value result = Inr r"
  obtains x y where "length x = 32" "length y = 32" "isOk (xp_NewPublicKey X (4 # x @ y))"
    "r = result\<lparr>at_PublicKey := Some \<lparr>ek_P256 = True, ek_X = Some (int (bigEndian x)), ek_Y = Some (int (bigEndian y))\<rparr>,
       at_PublicKeySEC1 := 4 # x @ y\<rparr>"
  using assms unfolding parseCOSEKeyES256_def
  by (auto simp: Let_def isOk_iff split: sum.splits prod.splits if_splits cborValue.splits option.splits)

text \<open>
  The credential the authenticator data holds: the prefix and its flags, the model identifier,
  the credential identifier and a key on the curve.
\<close>

definition attested :: "sdk \<Rightarrow> 'pool x509 \<Rightarrow> 'pool AttestationRequest \<Rightarrow> bytes \<Rightarrow> AttestationResult \<Rightarrow> bool" where
  "attested S X req authData r \<longleftrightarrow>
     37 \<le> length authData \<and> take 32 authData = sha256_Sum256 S (stringBytes (ar_RPID req)) \<and>
     and (authData ! 32) flagUP \<noteq> 0 \<and> (ar_RequireUserVerification req \<longrightarrow> and (authData ! 32) flagUV \<noteq> 0) \<and>
     at_UserVerified r = (and (authData ! 32) flagUV \<noteq> 0) \<and> at_AAGUID r = take 16 (drop 37 authData) \<and>
     (\<exists>n x y. n = bigEndian (take 2 (drop 53 authData)) \<and> 1 \<le> n \<and> n \<le> 1023 \<and> at_CredentialID r = take n (drop 55 authData) \<and>
        length (at_CredentialID r) = n \<and> length x = 32 \<and> length y = 32 \<and> isOk (xp_NewPublicKey X (4 # x @ y)) \<and>
        at_PublicKeySEC1 r = 4 # x @ y \<and>
        at_PublicKey r = Some \<lparr>ek_P256 = True, ek_X = Some (int (bigEndian x)), ek_Y = Some (int (bigEndian y))\<rparr>)"

lemma parseRegistrationAuthData_Inr:
  assumes "parseRegistrationAuthData S X authData req = Inr r"
  shows "attested S X req authData r \<and> at_Trust r = AttestationTrustUnset"
proof -
  define flags where "flags = authData ! 32"
  define rest1 where "rest1 = drop 55 authData"
  define idLen where "idLen = bigEndian (take 2 (drop 53 authData))"
  define r0 where "r0 = zeroAttestation\<lparr>at_UserPresent := True, at_UserVerified := (and flags flagUV \<noteq> 0),
                  at_BackupEligible := (and flags flagBE \<noteq> 0), at_BackedUp := (and flags flagBS \<noteq> 0),
                  at_SignCount := word_of_nat (bigEndian (take 4 (drop 33 authData)))\<rparr>"
  have p: "37 \<le> length authData" "take 32 authData = sha256_Sum256 S (stringBytes (ar_RPID req))" "and flags flagUP \<noteq> 0"
    "ar_RequireUserVerification req \<longrightarrow> and flags flagUV \<noteq> 0" "parseAttestedCredential X flags (drop 37 authData) r0 = Inr r"
    using assms unfolding parseRegistrationAuthData_def Let_def if_Inl_iff flags_def r0_def by auto
  then obtain keyValue rest2 where q: "idLen \<noteq> 0" "idLen \<le> maxCredentialIDLength" "idLen \<le> length rest1"
    "parseCOSEKeyES256 X keyValue (r0\<lparr>at_AAGUID := take 16 (drop 37 authData), at_CredentialID := take idLen rest1\<rparr>) = Inr r"
    unfolding parseAttestedCredential_def Let_def if_Inl_iff case_sum_Inr_iff
    by (auto simp: bindE_Inr_iff idLen_def rest1_def not_less add.commute)
  obtain x y where xy: "length x = 32" "length y = 32" "isOk (xp_NewPublicKey X (4 # x @ y))"
    "r = (r0\<lparr>at_AAGUID := take 16 (drop 37 authData), at_CredentialID := take idLen rest1\<rparr>)\<lparr>at_PublicKey := Some \<lparr>ek_P256 = True,
       ek_X = Some (int (bigEndian x)), ek_Y = Some (int (bigEndian y))\<rparr>, at_PublicKeySEC1 := 4 # x @ y\<rparr>"
    by (rule parseCOSEKeyES256_Inr [OF q(4)])
  show ?thesis
    using p(1-4) q(1-3) xy unfolding attested_def flags_def [symmetric] idLen_def [symmetric] rest1_def [symmetric]
    by (auto simp: r0_def zeroAttestation_def maxCredentialIDLength_def)
qed

lemma attested_trust [simp]: "attested S X req authData (r\<lparr>at_Trust := t\<rparr>) = attested S X req authData r"
  by (simp add: attested_def)

lemma attested_format [simp]: "attested S X req authData (r\<lparr>at_Format := t\<rparr>) = attested S X req authData r"
  by (simp add: attested_def)

lemma attested_finish [simp]: "attested S X req authData (finish r) = attested S X req authData r"
  by (simp add: attested_def finish_def Let_def)

lemma checkAAGUIDExtension_Inr:
  "checkAAGUIDExtension X exts aaguid = Inr u \<Longrightarrow>
     \<forall>ext \<in> set exts. ex_Id ext = oidFIDOGenCEAAGUID \<longrightarrow> \<not> ex_Critical ext \<and> xp_OctetString X (ex_Value ext) = Inr (aaguid, [])"
  by (induction exts) (auto split: if_splits sum.splits prod.splits)

text \<open>A certificate chain that covers the registration.\<close>

definition chainCovers :: "'pool x509 \<Rightarrow> AttestationResult \<Rightarrow> cborMap \<Rightarrow> bytes \<Rightarrow> certificate \<Rightarrow> certificate list \<Rightarrow> bool" where
  "chainCovers X r stmt digest leaf chain \<longleftrightarrow>
     (\<exists>items sig leafKey. cborGet stmt (CborText ''x5c'') = Some (CborArray items) \<and> parseX5C X items = Inr (leaf # chain) \<and>
        cborGet stmt (CborText ''sig'') = Some (CborBytes sig) \<and> ce_PublicKey leaf = Some leafKey \<and> ek_P256 leafKey \<and>
        xp_VerifyASN1 X leafKey digest sig \<and> checkPackedCertificate X leaf (at_AAGUID r) = Inr ())"

lemma verifyX5C_Inr:
  assumes "verifyX5C X result items digest sig req = Inr r" "items \<noteq> []"
  obtains leaf chain leafKey where "parseX5C X items = Inr (leaf # chain)" "ce_PublicKey leaf = Some leafKey" "ek_P256 leafKey"
    "xp_VerifyASN1 X leafKey digest sig" "checkPackedCertificate X leaf (at_AAGUID result) = Inr ()"
    "ar_TrustRoots req = None \<and> r = result\<lparr>at_Trust := AttestationTrustUnrooted\<rparr> \<or>
     (\<exists>roots. ar_TrustRoots req = Some roots \<and> r = result\<lparr>at_Trust := AttestationTrustRooted\<rparr> \<and>
        isOk (xp_Verify X leaf roots chain (case ar_Now req of None \<Rightarrow> xp_TimeNow X | Some t \<Rightarrow> t)))"
proof -
  obtain certs where c: "parseX5C X items = Inr certs" using assms(1) by (auto simp: verifyX5C_def bindE_Inr_iff)
  then have "length certs = length items" by (simp add: parseX5C_def mapEi_Inr_iff)
  then obtain leaf chain where lc: "certs = leaf # chain" using assms(2) by (cases certs) auto
  obtain leafKey where k: "ce_PublicKey leaf = Some leafKey"
    using assms(1) c lc by (auto simp: verifyX5C_def Let_def split: option.splits)
  show ?thesis
    using assms(1) k that [OF c [unfolded lc] k]
    by (cases "ar_TrustRoots req")
      (auto simp: verifyX5C_def Let_def c lc if_Inl_iff bindE_Inr_iff case_sum_Inr_iff isOk_iff)
qed

lemma verifyPackedStatement_Inr:
  assumes "verifyPackedStatement S X result stmt covered req = Inr r"
  shows "(\<exists>sig. r = result\<lparr>at_Trust := AttestationTrustSelf\<rparr> \<and> cborGet stmt (CborText ''sig'') = Some (CborBytes sig) \<and>
       xp_VerifyASN1 X (the (at_PublicKey result)) (sha256_Sum256 S covered) sig) \<or>
    (\<exists>leaf chain. chainCovers X result stmt (sha256_Sum256 S covered) leaf chain \<and>
       (ar_TrustRoots req = None \<and> r = result\<lparr>at_Trust := AttestationTrustUnrooted\<rparr> \<or>
        (\<exists>roots. ar_TrustRoots req = Some roots \<and> r = result\<lparr>at_Trust := AttestationTrustRooted\<rparr> \<and>
           isOk (xp_Verify X leaf roots chain (case ar_Now req of None \<Rightarrow> xp_TimeNow X | Some t \<Rightarrow> t)))))"
proof -
  obtain sig where sig: "cborGet stmt (CborText ''sig'') = Some (CborBytes sig)"
    using assms by (auto simp: verifyPackedStatement_def bindE_Inr_iff split: option.splits cborValue.splits)
  consider "cborGet stmt (CborText ''x5c'') = None" | items where "cborGet stmt (CborText ''x5c'') = Some (CborArray items)"
    using assms sig by (auto simp: verifyPackedStatement_def bindE_Inr_iff Let_def split: option.splits cborValue.splits if_splits)
  then show ?thesis
  proof cases
    case 1
    then show ?thesis
      using assms sig by (auto simp: verifyPackedStatement_def bindE_Inr_iff Let_def split: option.splits cborValue.splits if_splits)
  next
    case 2
    then have "items \<noteq> []" "verifyX5C X result items (sha256_Sum256 S covered) sig req = Inr r"
      using assms sig by (auto simp: verifyPackedStatement_def bindE_Inr_iff Let_def split: option.splits cborValue.splits if_splits)
    then show ?thesis
      using 2 sig by (auto elim!: verifyX5C_Inr simp: chainCovers_def)
  qed
qed

end
