(* ===== verification/Passkey_Properties.thy ===== *)
theory Passkey_Properties
  imports Attestation Sample_Sdk
begin

text \<open>
  The passkey components: the CBOR decoder against its reference encoder, the wire form of
  P-256 signatures, the binding of an assertion to one payload, what the passkey signer's
  answer means, and what a verified registration proves.
\<close>

section \<open>CBOR\<close>

text \<open>
  C33: the decoder reads back every value a conforming encoder writes: the shortest encoding of
  any value with 64-bit integers, distinct integer or text keys and at most nine levels decodes
  to that value, whatever bytes follow, and those bytes are returned untouched.
\<close>

theorem cbor_roundtrip:
  assumes "cborWf 0 v"
  shows "decodeCBOR (cborEncode v @ rest) = Inr (v, rest)"
  unfolding decodeCBOR_def by (rule decodeCBORItem_encode [OF assms])

theorem cbor_roundtrip_witness:
  "decodeCBOR (cborEncode (CborMap [(CborText ''alg'', CborInt (- 7)), (CborInt 1, CborArray [CborBytes [1, 2], CborNil])]) @ [9]) =
     Inr (CborMap [(CborText ''alg'', CborInt (- 7)), (CborInt 1, CborArray [CborBytes [1, 2], CborNil])], [9])"
  by (rule cbor_roundtrip) (simp add: cborMaxDepth_def)

text \<open>
  C32: a decoded value is well formed and was read from a prefix of the input alone. Whatever
  the input, the value has 64-bit integers, maps with distinct integer or text keys and at most
  nine levels, so two readers cannot take different values out of one object; the decoder
  consumed at least one byte and its answer does not depend on the bytes it left.
\<close>

theorem cbor_decoded_typed:
  assumes "decodeCBOR data = Inr (v, rest)"
  shows "cborWf 0 v \<and> (\<exists>p. data = p @ rest \<and> p \<noteq> [] \<and> (\<forall>r. decodeCBOR (p @ r) = Inr (v, r)))"
  using assms decodeCBORItem_sound [of 0] unfolding itemSound_def decodeCBOR_def readsPrefix_def by fastforce

theorem cbor_decoded_typed_witness:
  "cborWf 0 (CborBytes [7])"
proof -
  have "decodeCBOR ([0x41, 7] @ [5]) = Inr (CborBytes [7], [5])"
    using decodeCBORItem_encode [of 0 "CborBytes [7]" "[5]"] by (simp add: decodeCBOR_def cborHead_def cborMaxDepth_def)
  from cbor_decoded_typed [OF this] show ?thesis by blast
qed


section \<open>P-256 signatures\<close>

text \<open>
  One signature has one wire form. What \<open>SignSecp256r1\<close> returns is 64 bytes that
  \<open>VerifySecp256r1\<close> accepts under the key's public part, and the other encoding of the same
  logical signature, with the second scalar negated, is refused as a mismatch.
\<close>

lemma secp256r1_one_wire_form:
  assumes "SignSecp256r1 C (Some k) payload = Inr signature"
    and "ecdsaSigns C k payload" "ecdsaNegates C (ed_PublicKey k) payload"
  shows "length signature = 64 \<and> VerifySecp256r1 C (Some (ed_PublicKey k)) payload signature = Inr () \<and>
    (\<exists>r s. signature = marshalSecp256r1Signature r s \<and> ParseSecp256r1Signature signature = Inr (r, s) \<and>
       failsWith (VerifySecp256r1 C (Some (ed_PublicKey k)) payload (marshalSecp256r1Signature r (P256_N - s))) ErrSignatureMismatch)"
proof -
  obtain r s where rs: "validP256PrivateKey C (Some k)" "ec_Sign C k payload = Inr (r, s)"
    "signature = marshalSecp256r1Signature r (normalizeP256LowS s P256_N)"
    using assms(1) by (auto simp: SignSecp256r1_def bindE_Inr_iff split: if_splits)
  have b: "0 < r" "r < P256_N" "0 < s" "s < P256_N" "ec_Verify C (ed_PublicKey k) payload r s"
    using assms(2) rs(2) by (auto simp: ecdsaSigns_def)
  note low = lowS_bounds [OF b(3,4)]
  have valid: "validP256PublicKey C (Some (ed_PublicKey k))" using rs(1) by (simp add: validP256PrivateKey_def)
  have parsed: "ParseSecp256r1Signature signature = Inr (r, normalizeP256LowS s P256_N)"
    unfolding rs(3) by (rule parse_marshal [OF b(1,2) low(1,2)])
  have "ParseSecp256r1Signature (marshalSecp256r1Signature r (P256_N - normalizeP256LowS s P256_N)) =
      Inr (r, P256_N - normalizeP256LowS s P256_N)"
    by (rule parse_marshal [OF b(1,2)]) (use low in auto)
  then have "failsWith (VerifySecp256r1 C (Some (ed_PublicKey k)) payload
      (marshalSecp256r1Signature r (P256_N - normalizeP256LowS s P256_N))) ErrSignatureMismatch"
    using valid low(4) by (simp add: VerifySecp256r1_def)
  moreover have "VerifySecp256r1 C (Some (ed_PublicKey k)) payload signature = Inr ()"
    using valid parsed low(3) ecdsaNegates_lowS [OF assms(3) b(3,4), of r] b(5) by (simp add: VerifySecp256r1_def)
  ultimately show ?thesis using rs(3) parsed by auto
qed

definition sampleCurve :: ecdsa where
  "sampleCurve = \<lparr>ec_IsOnCurve = (\<lambda>x y. x = 1 \<and> y = 2), ec_Sign = (\<lambda>k h. Inr (7, P256_N - 5)),
     ec_Verify = (\<lambda>k h r s. r = 7 \<and> (s = 5 \<or> s = P256_N - 5)),
     asn1_Signature = (\<lambda>b. if b = [1] then Inr ((Some 7, Some (P256_N - 5)), []) else Inl (errmsg ''asn1''))\<rparr>"

definition sampleKey :: ecPrivateKey where
  "sampleKey = \<lparr>ed_PublicKey = \<lparr>ek_P256 = True, ek_X = Some 1, ek_Y = Some 2\<rparr>, ed_D = Some 3\<rparr>"

lemma sample_key_valid: "validP256PublicKey sampleCurve (Some (ed_PublicKey sampleKey))"
  by (simp add: validP256PublicKey_def sampleCurve_def sampleKey_def)

lemma sample_negates: "ecdsaNegates sampleCurve k h"
  by (auto simp: ecdsaNegates_def sampleCurve_def)

section \<open>Assertions\<close>

text \<open>
  An assertion authorizes one payload. If the same serialized assertion is accepted for two
  32-byte payloads they are equal, although the challenge may be written in any of six
  encodings; and an accepted assertion has its full authenticator data, client data and
  signature, with the challenge taken from the client data that is signed.
\<close>

lemma webauthn_challenge_binds:
  assumes "ParseWebAuthnAssertionForPayload J raw p = Inr a" "length p = 32"
  shows "(\<forall>q b. length q = 32 \<longrightarrow> ParseWebAuthnAssertionForPayload J raw q = Inr b \<longrightarrow> q = p \<and> b = a) \<and>
    37 \<le> length (wa_AuthenticatorData a) \<and> wa_Signature a \<noteq> [] \<and>
    (\<exists>c. json_ClientData J (wa_ClientDataJSON a) = Inr c \<and> cd_Challenge c = wa_ChallengeString a \<and>
       cd_Challenge c \<in> set (challengeCandidates p))"
proof -
  have a: "ParseWebAuthnAssertion J raw = Inr a" "wa_ChallengeString a \<in> set (challengeCandidates p)"
    using assms(1) by (auto simp: ParseWebAuthnAssertionForPayload_def bindE_Inr_iff VerifyChallenge_ok)
  have "q = p \<and> b = a" if "length q = 32" "ParseWebAuthnAssertionForPayload J raw q = Inr b" for q b
  proof -
    have "b = a" "wa_ChallengeString a \<in> set (challengeCandidates q)"
      using that(2) a(1) by (auto simp: ParseWebAuthnAssertionForPayload_def bindE_Inr_iff VerifyChallenge_ok)
    then show ?thesis using challengeCandidates_unique [OF _ a(2) that(1) assms(2)] by blast
  qed
  then show ?thesis using ParseWebAuthnAssertion_Inr [OF a(1)] a(2) by (auto simp: authDataMinLen_def)
qed


lemma loose_raw_url: "decodeBase64Loose (encodeToString RawURLEncoding b) = Some b"
  by (simp add: decodeBase64Loose_def decode_encode)

lemma raw_url_nonempty: "b \<noteq> [] \<Longrightarrow> encodeToString RawURLEncoding b \<noteq> []"
  using decode_encode(4) [of b] by (auto simp: decodeString_def RawURLEncoding_def)

lemma field_raw_url: "b \<noteq> [] \<Longrightarrow> decodeAssertionField (encodeToString RawURLEncoding b) field = Inr b"
  by (simp add: decodeAssertionField_def loose_raw_url raw_url_nonempty)

definition sampleJson :: webauthnJson where
  "sampleJson = \<lparr>json_Assertion = (\<lambda>raw. Inr \<lparr>aj_Type = ''public-key'', aj_ClientDataJSON = encodeToString RawURLEncoding [1],
       aj_AuthenticatorData = encodeToString RawURLEncoding (replicate 37 5), aj_Signature = encodeToString RawURLEncoding [1],
       aj_UserHandle = None\<rparr>),
     json_ClientData = (\<lambda>b. Inr \<lparr>cd_Type = ''webauthn.get'', cd_Challenge = encodeToString RawURLEncoding (keyOf 1), cd_Origin = ''o''\<rparr>)\<rparr>"

definition sampleAssertion :: WebAuthnAssertion where
  "sampleAssertion = \<lparr>wa_AuthenticatorData = replicate 37 5, wa_ClientDataJSON = [1], wa_Signature = [1],
     wa_ChallengeString = encodeToString RawURLEncoding (keyOf 1)\<rparr>"

lemma sample_challenge: "VerifyChallenge (Some sampleAssertion) (keyOf 1) = Inr ()"
  by (simp add: VerifyChallenge_ok sampleAssertion_def challengeCandidates_def keyOf_def)

lemma sample_assertion: "ParseWebAuthnAssertionForPayload sampleJson [0] (keyOf 1) = Inr sampleAssertion"
proof -
  have "encodeToString RawURLEncoding (keyOf 1) \<noteq> []"
    by (rule raw_url_nonempty) (simp add: keyOf_def)
  then have "ParseWebAuthnAssertion sampleJson [0] = Inr sampleAssertion"
    by (simp add: ParseWebAuthnAssertion_def sampleJson_def field_raw_url isDecodableChallenge_def loose_raw_url
        authDataMinLen_def sampleAssertion_def)
  then show ?thesis by (simp add: ParseWebAuthnAssertionForPayload_def sample_challenge)
qed

section \<open>The passkey signer\<close>

text \<open>
  C30: the passkey signer never answers with an unverified assertion. When it answers, the
  challenge of the assertion is an encoding of the payload it was asked to sign, the flags the
  options ask for are set, the assertion's signature checks under the credential's key over the
  hash of authenticator data and client data hash, and the value returned carries that key and
  the low-S form of that very signature, which \<open>VerifySecp256r1\<close> accepts.
\<close>

theorem passkey_sign_sound:
  assumes "sg_Sign (NewPasskeySignerFromAssertion S C address publicKey assertion opts) ctx preimage payload = Inr v"
    and "\<And>k h. ecdsaNegates C k h"
  shows "\<exists>k a r s h. publicKey = Some k \<and> assertion = Some a \<and> validP256PublicKey C (Some k) \<and>
    wa_ChallengeString a \<in> set (challengeCandidates payload) \<and>
    (pk_requireUserPresence (passkeyConfig opts) \<longrightarrow> UserPresent (Some a)) \<and>
    (pk_requireUserVerification (passkeyConfig opts) \<longrightarrow> UserVerified (Some a)) \<and>
    h = sha256_Sum256 S (wa_AuthenticatorData a @ sha256_Sum256 S (wa_ClientDataJSON a)) \<and>
    ParseDERECDSASignature C (wa_Signature a) = Inr (r, s) \<and> ec_Verify C k h r s \<and>
    VerifySecp256r1 C (Some k) h (marshalSecp256r1Signature r (normalizeP256LowS s P256_N)) = Inr () \<and>
    v = ScvMap (Some (Some [(scSymbol ''public_key'', scBytes (ecMarshal k)),
       (scSymbol ''signature'', scBytes (marshalSecp256r1Signature r (normalizeP256LowS s P256_N)))]))"
proof -
  obtain k a r s where p: "ctx = None" "publicKey = Some k" "assertion = Some a" "validP256PublicKey C (Some k)"
    "pk_requireUserPresence (passkeyConfig opts) \<Longrightarrow> UserPresent (Some a)"
    "pk_requireUserVerification (passkeyConfig opts) \<Longrightarrow> UserVerified (Some a)"
    "VerifyChallenge (Some a) payload = Inr ()" "ParseDERECDSASignature C (wa_Signature a) = Inr (r, s)"
    "ec_Verify C k (sha256_Sum256 S (SignedBytes S (Some a))) r s"
    "Secp256r1SignatureScVal C (Some k) (marshalSecp256r1Signature r (normalizeP256LowS s P256_N)) = Inr v"
    using assms(1) unfolding NewPasskeySignerFromAssertion_def signer.select_convs
    by (rule passkeySign_Inr) simp
  have b: "0 < r" "r < P256_N" "0 < s" "s < P256_N" using ParseDERECDSASignature_Inr [OF p(8)] by simp_all
  note low = lowS_bounds [OF b(3,4)]
  have parsed: "ParseSecp256r1Signature (marshalSecp256r1Signature r (normalizeP256LowS s P256_N)) =
      Inr (r, normalizeP256LowS s P256_N)"
    by (rule parse_marshal [OF b(1,2) low(1,2)])
  have "VerifySecp256r1 C (Some k) (sha256_Sum256 S (SignedBytes S (Some a)))
      (marshalSecp256r1Signature r (normalizeP256LowS s P256_N)) = Inr ()"
    using p(4,9) parsed low(3) ecdsaNegates_lowS [OF assms(2) b(3,4)] by (simp add: VerifySecp256r1_def)
  moreover have "v = ScvMap (Some (Some [(scSymbol ''public_key'', scBytes (ecMarshal k)),
       (scSymbol ''signature'', scBytes (marshalSecp256r1Signature r (normalizeP256LowS s P256_N)))]))"
    using p(4,10) parsed by (simp add: Secp256r1SignatureScVal_def)
  ultimately show ?thesis
    using p by (intro exI [of _ k] exI [of _ a] exI [of _ r] exI [of _ s] exI conjI) (auto simp: VerifyChallenge_ok SignedBytes_def)
qed

lemma sample_passkey_signs:
  "\<exists>v. sg_Sign (NewPasskeySignerFromAssertion sampleSdk sampleCurve ''CA'' (Some (ed_PublicKey sampleKey)) (Some sampleAssertion)
     [Some (RequireUserPresence True)]) None preimage (keyOf 1) = Inr v"
proof -
  have b: "0 < (7::int)" "7 < P256_N" "0 < P256_N - 5" "P256_N - 5 < P256_N" by (simp_all add: P256_N_def)
  note low = lowS_bounds [OF b(3,4)]
  have d: "ParseDERECDSASignature sampleCurve (wa_Signature sampleAssertion) = Inr (7, P256_N - 5)"
    using b by (simp add: ParseDERECDSASignature_def sampleCurve_def sampleAssertion_def bindE_Inr_iff)
  have v: "ec_Verify sampleCurve k h 7 (P256_N - 5)" for k h by (simp add: sampleCurve_def)
  have f: "and (Flags (Some sampleAssertion)) flagUserPresent \<noteq> 0"
    by (simp add: Flags_def sampleAssertion_def flagUserPresent_def)
  show ?thesis
    using sample_key_valid d v f parse_marshal [OF b(1,2) low(1,2)]
    by (simp add: NewPasskeySignerFromAssertion_def passkeySign_def passkeyConfig_def RequireUserPresence_def Let_def
        sample_challenge Secp256r1SignatureScVal_def)
qed

theorem passkey_sign_sound_witness:
  "\<exists>v k r s. sg_Sign (NewPasskeySignerFromAssertion sampleSdk sampleCurve ''CA'' (Some (ed_PublicKey sampleKey)) (Some sampleAssertion)
     [Some (RequireUserPresence True)]) None \<lparr>hp_Type = EnvelopeTypeSorobanAuthorization, hp_SorobanAuthorization = None, hp_SorobanAuthorizationWithAddress = None\<rparr> (keyOf 1) = Inr v \<and>
     v = ScvMap (Some (Some [(scSymbol ''public_key'', scBytes (ecMarshal k)), (scSymbol ''signature'', scBytes (marshalSecp256r1Signature r s))]))"
proof -
  obtain v where v: "sg_Sign (NewPasskeySignerFromAssertion sampleSdk sampleCurve ''CA'' (Some (ed_PublicKey sampleKey)) (Some sampleAssertion)
     [Some (RequireUserPresence True)]) None \<lparr>hp_Type = EnvelopeTypeSorobanAuthorization, hp_SorobanAuthorization = None, hp_SorobanAuthorizationWithAddress = None\<rparr> (keyOf 1) = Inr v"
    using sample_passkey_signs by blast
  from passkey_sign_sound [OF v sample_negates] v show ?thesis by metis
qed


section \<open>Registrations\<close>

lemma VerifyAttestation_Inr:
  assumes "VerifyAttestation S J X req = Inr r"
  obtains format stmt authData r0 r1 where "checkRegistrationClientData J req = Inr ()"
    "parseAttestationObject (ar_AttestationObject req) = Inr (format, stmt, authData)"
    "parseRegistrationAuthData S X authData req = Inr r0" "r = finish r1"
    "format = ''none'' \<and> stmt = [] \<and> r1 = r0\<lparr>at_Format := format, at_Trust := AttestationTrustNone\<rparr> \<or>
     format = ''packed'' \<and> verifyPackedStatement S X (r0\<lparr>at_Format := format\<rparr>) stmt
       (authData @ sha256_Sum256 S (ar_ClientDataJSON req)) req = Inr r1"
  using assms unfolding VerifyAttestation_def
  by (auto simp: bindE_Inr_iff Let_def AttestationFormatNone_def AttestationFormatPacked_def split: if_splits)

lemma finish_select [simp]:
  "at_Trust (finish r) = at_Trust r" "at_AAGUID (finish r) = at_AAGUID r" "at_PublicKey (finish r) = at_PublicKey r"
  "at_HardwareBacked (finish r) \<longleftrightarrow> at_Trust r = AttestationTrustRooted"
  "at_AAGUIDAuthenticated (finish r) \<longleftrightarrow> at_Trust r = AttestationTrustRooted"
  by (simp_all add: finish_def Let_def)

text \<open>
  A verified registration belongs to this ceremony. The client data is a creation with the
  issued challenge and the expected origin, the authenticator data is scoped to the relying
  party, user presence is set and user verification where it was required, and the credential
  reported, its key on the curve, is the one in the authenticator data.
\<close>

lemma attestation_binds_ceremony:
  assumes "VerifyAttestation S J X req = Inr r"
  shows "(\<exists>cd. json_ClientData J (ar_ClientDataJSON req) = Inr cd \<and> cd_Type cd = ''webauthn.create'' \<and>
      decodeBase64Loose (cd_Challenge cd) = Some (ar_Challenge req) \<and> cd_Origin cd = ar_Origin req) \<and>
    (\<exists>format stmt authData. parseAttestationObject (ar_AttestationObject req) = Inr (format, stmt, authData) \<and>
       attested S X req authData r)"
proof -
  obtain format stmt authData r0 r1 where v: "checkRegistrationClientData J req = Inr ()"
    "parseAttestationObject (ar_AttestationObject req) = Inr (format, stmt, authData)"
    "parseRegistrationAuthData S X authData req = Inr r0" "r = finish r1"
    "format = ''none'' \<and> stmt = [] \<and> r1 = r0\<lparr>at_Format := format, at_Trust := AttestationTrustNone\<rparr> \<or>
     format = ''packed'' \<and> verifyPackedStatement S X (r0\<lparr>at_Format := format\<rparr>) stmt
       (authData @ sha256_Sum256 S (ar_ClientDataJSON req)) req = Inr r1"
    by (rule VerifyAttestation_Inr [OF assms])
  have "attested S X req authData r"
    using parseRegistrationAuthData_Inr [OF v(3)] v(4,5) by (auto dest!: verifyPackedStatement_Inr)
  then show ?thesis using v(1,2) unfolding checkRegistrationClientData_Inr by blast
qed



text \<open>A packed registration whose chain verifies to the supplied roots.\<close>

definition sampleCose :: cborValue where
  "sampleCose = CborMap [(CborInt 1, CborInt 2), (CborInt 3, CborInt (- 7)), (CborInt (- 1), CborInt 1),
     (CborInt (- 2), CborBytes (keyOf 1)), (CborInt (- 3), CborBytes (keyOf 2))]"

definition sampleAuthData :: bytes where
  "sampleAuthData = sampleHash (stringBytes ''rp'') @ [0x41, 0, 0, 0, 0] @ replicate 16 3 @ [0, 1, 9] @ cborEncode sampleCose"

definition sampleStmt :: cborMap where
  "sampleStmt = [(CborText ''alg'', CborInt (- 7)), (CborText ''sig'', CborBytes [1]), (CborText ''x5c'', CborArray [CborBytes [1]])]"

definition sampleObject :: cborValue where
  "sampleObject = CborMap [(CborText ''fmt'', CborText ''packed''), (CborText ''attStmt'', CborMap sampleStmt),
     (CborText ''authData'', CborBytes sampleAuthData)]"

definition sampleLeaf :: certificate where
  "sampleLeaf = \<lparr>ce_Raw = [1], ce_Version = 3, ce_Country = [''C''], ce_Organization = [''O''],
     ce_OrganizationalUnit = [''Authenticator Attestation''], ce_CommonName = ''N'', ce_BasicConstraintsValid = True, ce_IsCA = False,
     ce_PublicKey = Some \<lparr>ek_P256 = True, ek_X = Some 1, ek_Y = Some 2\<rparr>, ce_Extensions = []\<rparr>"

definition sampleX509 :: "unit x509" where
  "sampleX509 = \<lparr>xp_ParseCertificate = (\<lambda>b. Inr sampleLeaf), xp_Verify = (\<lambda>leaf roots chain now. Inr ()),
     xp_VerifyASN1 = (\<lambda>k d s. s = [1]), xp_NewPublicKey = (\<lambda>b. Inr ()), xp_OctetString = (\<lambda>b. Inl (errmsg ''asn1'')), xp_TimeNow = 0\<rparr>"

definition createJson :: webauthnJson where
  "createJson = \<lparr>json_Assertion = (\<lambda>b. Inl (errmsg ''json'')),
     json_ClientData = (\<lambda>b. Inr \<lparr>cd_Type = ''webauthn.create'', cd_Challenge = encodeToString RawURLEncoding [8], cd_Origin = ''o''\<rparr>)\<rparr>"

definition sampleRegistration :: "unit AttestationRequest" where
  "sampleRegistration = \<lparr>ar_AttestationObject = cborEncode sampleObject, ar_ClientDataJSON = [1], ar_RPID = ''rp'', ar_Origin = ''o'',
     ar_Challenge = [8], ar_RequireUserVerification = False, ar_TrustRoots = Some (), ar_Now = None\<rparr>"

lemma sample_auth_short: "length sampleAuthData < 2 ^ 64"
proof -
  have "length (cborEncode sampleCose) \<le> 200"
    by (simp add: sampleCose_def cborHead_def)
  then show ?thesis by (simp add: sampleAuthData_def sampleHash_def)
qed

lemma sample_object:
  "parseAttestationObject (cborEncode sampleObject) = Inr (''packed'', sampleStmt, sampleAuthData)"
proof -
  have "cborWf 0 sampleObject"
    using sample_auth_short by (simp add: sampleObject_def sampleStmt_def cborMaxDepth_def)
  then have "decodeCBOR (cborEncode sampleObject) = Inr (sampleObject, [])"
    using decodeCBORItem_encode [of 0 sampleObject "[]"] by (simp add: decodeCBOR_def)
  then show ?thesis by (simp add: parseAttestationObject_def) (simp add: sampleObject_def)
qed

lemma sample_auth_data: "\<exists>r. parseRegistrationAuthData sampleSdk sampleX509 sampleAuthData sampleRegistration = Inr r"
proof -
  have "cborWf 0 sampleCose" by (simp add: sampleCose_def cborMaxDepth_def)
  then have d: "decodeCBOR (cborEncode sampleCose) = Inr (sampleCose, [])"
    using decodeCBORItem_encode [of 0 sampleCose "[]"] by (simp add: decodeCBOR_def)
  have l: "length (sampleHash b) = 32" for b by (simp add: sampleHash_def)
  have flags: "sampleAuthData ! 32 = 0x41" "take 32 sampleAuthData = sampleHash (stringBytes ''rp'')" "37 \<le> length sampleAuthData"
    "drop 37 sampleAuthData = replicate 16 3 @ [0, 1, 9] @ cborEncode sampleCose"
    unfolding sampleAuthData_def by (simp_all add: nth_append l)
  have s: "sha256_Sum256 sampleSdk = sampleHash" by (simp add: sampleSdk_def tableSdk_def)
  have k: "\<exists>r'. parseCOSEKeyES256 sampleX509 sampleCose r = Inr r'" for r
    by (simp add: parseCOSEKeyES256_def sampleCose_def coseKtyEC2_def coseAlgES256_def coseCrvP256_def sampleX509_def Let_def)
  have "\<exists>r'. parseAttestedCredential sampleX509 0x41 (replicate 16 3 @ [0, 1, 9] @ cborEncode sampleCose) r = Inr r'" for r
    using k by (simp add: parseAttestedCredential_def Let_def bigEndian_def maxCredentialIDLength_def d bindE_Inr_iff
        checkExtensions_def flagED_def)
  then show ?thesis
    using flags by (simp add: parseRegistrationAuthData_def s sampleRegistration_def flagUP_def flagAT_def Let_def)
qed

lemma sample_registration:
  "\<exists>r. VerifyAttestation sampleSdk createJson sampleX509 sampleRegistration = Inr r \<and> at_Trust r = AttestationTrustRooted"
proof -
  obtain r0 where r0: "parseRegistrationAuthData sampleSdk sampleX509 sampleAuthData sampleRegistration = Inr r0"
    using sample_auth_data by blast
  have c: "checkRegistrationClientData createJson sampleRegistration = Inr ()"
    by (simp add: checkRegistrationClientData_Inr createJson_def sampleRegistration_def loose_raw_url)
  have p: "parseAttestationObject (ar_AttestationObject sampleRegistration) = Inr (''packed'', sampleStmt, sampleAuthData)"
    by (simp add: sampleRegistration_def sample_object)
  have "verifyPackedStatement sampleSdk sampleX509 r sampleStmt covered sampleRegistration = Inr (r\<lparr>at_Trust := AttestationTrustRooted\<rparr>)"
    for r covered
    by (simp add: verifyPackedStatement_def sampleStmt_def coseAlgES256_def verifyX5C_def parseX5C_def mapEi_def Let_def
        sampleX509_def sampleRegistration_def sampleLeaf_def checkPackedCertificate_def)
  then show ?thesis
    using r0 c p by (simp add: VerifyAttestation_def Let_def AttestationFormatNone_def AttestationFormatPacked_def)
      (simp add: sampleRegistration_def)
qed


end
