(* ===== verification/Ledger.thy ===== *)
theory Ledger
  imports Key_Store Encoding
begin

text \<open>
  The Ledger hardware signer (\<^verbatim>\<open>src/ledger.go\<close>): the APDUs of the Stellar app, the chunks a
  preimage is sent in and the status words of the answers. The transport to the device is a
  parameter; the device may answer by everything it was sent, so a transport is a function of the
  APDUs exchanged before and the one sent now. A signing call returns the APDUs it sent beside
  its result.
\<close>

section \<open>Commands\<close>

definition ledgerCLA :: byte where "ledgerCLA = 0xE0"
definition ledgerINSGetPubKey :: byte where "ledgerINSGetPubKey = 0x02"
definition ledgerINSSignSoroban :: byte where "ledgerINSSignSoroban = 0x0A"
definition ledgerP1First :: byte where "ledgerP1First = 0x00"
definition ledgerP1More :: byte where "ledgerP1More = 0x80"
definition ledgerP2Last :: byte where "ledgerP2Last = 0x00"
definition ledgerP2More :: byte where "ledgerP2More = 0x80"

definition maxLedgerAPDUData :: nat where
  "maxLedgerAPDUData = 240"

definition ledgerSWOK :: nat where "ledgerSWOK = 0x9000"
definition ledgerSWLocked :: nat where "ledgerSWLocked = 0x5515"
definition ledgerSWDeny :: nat where "ledgerSWDeny = 0x6985"
definition ledgerSWWrongLength :: nat where "ledgerSWWrongLength = 0x6700"
definition ledgerSWWrongApduLength :: nat where "ledgerSWWrongApduLength = 0x6A87"
definition ledgerSWWrongP1P2 :: nat where "ledgerSWWrongP1P2 = 0x6B00"
definition ledgerSWBlindSigningNotEnabled :: nat where "ledgerSWBlindSigningNotEnabled = 0x6C66"
definition ledgerSWInsNotSupported :: nat where "ledgerSWInsNotSupported = 0x6D00"
definition ledgerSWCLANotSupported :: nat where "ledgerSWCLANotSupported = 0x6E00"

type_synonym apdu = bytes
type_synonym LedgerTransport = "apdu list \<Rightarrow> apdu \<Rightarrow> gerr + bytes"

definition ledgerEncodePath :: "uint32 list \<Rightarrow> bytes" where
  "ledgerEncodePath path = word_of_nat (length path) # concat (map (\<lambda>segment. fillBytes 4 (unat segment)) path)"

definition ledgerBuildAPDU :: "byte \<Rightarrow> byte \<Rightarrow> byte \<Rightarrow> bytes \<Rightarrow> apdu" where
  "ledgerBuildAPDU ins p1 p2 data = [ledgerCLA, ins, p1, p2, word_of_nat (length data)] @ data"

definition ledgerBuildGetPubKeyAPDU :: "uint32 list \<Rightarrow> apdu" where
  "ledgerBuildGetPubKeyAPDU path = ledgerBuildAPDU ledgerINSGetPubKey 0 0 (ledgerEncodePath path)"

section \<open>Answers\<close>

text \<open>\<open>0x%04X\<close>.\<close>

definition hexUpper :: "nat \<Rightarrow> char" where
  "hexUpper n = (if n < 10 then char_of (48 + n) else char_of (55 + n))"

definition statusText :: "nat \<Rightarrow> string" where
  "statusText n = ''0x'' @ [hexUpper (n div 4096 mod 16), hexUpper (n div 256 mod 16), hexUpper (n div 16 mod 16), hexUpper (n mod 16)]"

definition ledgerStatus :: "bytes \<Rightarrow> nat" where
  "ledgerStatus response = bigEndian (drop (length response - 2) response)"

definition exchange :: "LedgerTransport \<Rightarrow> apdu list \<Rightarrow> apdu \<Rightarrow> gerr + bytes" where
  "exchange transport sent apdu =
     (case transport sent apdu of
        Inl err \<Rightarrow> Inl (Errorf (sentinel_text ErrLedgerUnavailable @ '': '' @ error_text err) [Sentinel ErrLedgerUnavailable, err])
      | Inr response \<Rightarrow>
          if length response < 2
          then Inl (errw (''the device returned a '' @ itoa (length response) @ ''-byte response, too short for a status word'')
                 (Sentinel ErrLedgerUnavailable))
          else
            let data = take (length response - 2) response; status = ledgerStatus response in
            if status = ledgerSWOK then Inr data
            else if status = ledgerSWLocked then Inl (Sentinel ErrLedgerLocked)
            else if status = ledgerSWDeny then Inl (Sentinel ErrLedgerDenied)
            else if status = ledgerSWBlindSigningNotEnabled then Inl (Sentinel ErrLedgerBlindSigningDisabled)
            else if status = ledgerSWCLANotSupported \<or> status = ledgerSWInsNotSupported then Inl (Sentinel ErrLedgerWrongApp)
            else if status = ledgerSWWrongLength \<or> status = ledgerSWWrongApduLength \<or> status = ledgerSWWrongP1P2
            then Inl (errw (''the device rejected the APDU (status '' @ statusText status @ '')'') (Sentinel ErrLedgerUnavailable))
            else Inl (errw (''the device returned status '' @ statusText status) (Sentinel ErrLedgerUnavailable)))"

section \<open>Opening a session\<close>

type_synonym LedgerSignerOption = "uint32 \<Rightarrow> uint32"

definition WithLedgerAccount :: "uint32 \<Rightarrow> LedgerSignerOption" where
  "WithLedgerAccount index = (\<lambda>_. index)"

definition ledgerPath :: "uint32 \<Rightarrow> uint32 list" where
  "ledgerPath accountIndex = [or 44 0x80000000, or 148 0x80000000, or accountIndex 0x80000000]"

record LedgerSigner =
  ls_transport :: "LedgerTransport option"
  ls_path :: "uint32 list"
  ls_address :: string
  ls_rawKey :: "bytes option"

definition NewLedgerSigner ::
  "sdk \<Rightarrow> LedgerTransport option \<Rightarrow> LedgerSignerOption option list \<Rightarrow> gerr + LedgerSigner" where
  "NewLedgerSigner S transport opts =
     (case transport of None \<Rightarrow> Inl (errw ''soroauth: new ledger signer'' (Sentinel ErrLedgerUnavailable))
      | Some t \<Rightarrow>
          let accountIndex = fold (\<lambda>opt cfg. case opt of None \<Rightarrow> cfg | Some f \<Rightarrow> f cfg) opts 0; path = ledgerPath accountIndex in
          bindE (wrapE ''soroauth: new ledger signer'' (exchange t [] (ledgerBuildGetPubKeyAPDU path))) (\<lambda>response.
          if length response \<noteq> ed25519_PublicKeySize
          then Inl (errw (''soroauth: new ledger signer: public key response is '' @ itoa (length response) @ '' bytes, want '' @
                 itoa ed25519_PublicKeySize) (Sentinel ErrLedgerUnavailable))
          else
            bindE (wrapE ''soroauth: new ledger signer: encoding the device's address'' (strkey_Encode S VersionByteAccountID response)) (\<lambda>address.
              Inr \<lparr>ls_transport = Some t, ls_path = path, ls_address = address, ls_rawKey = Some response\<rparr>)))"

section \<open>Signing\<close>

text \<open>
  The loop of \<open>signPreimage\<close>, from an offset into the preimage. The first chunk carries the
  path; a chunk that is not the last is full, so the offset grows and the loop ends.
\<close>

definition chunkCapacity :: "bytes \<Rightarrow> nat \<Rightarrow> nat" where
  "chunkCapacity path offset = (if offset = 0 then maxLedgerAPDUData - length path else maxLedgerAPDUData)"

definition chunkAPDU :: "bytes \<Rightarrow> bytes \<Rightarrow> nat \<Rightarrow> nat \<Rightarrow> apdu" where
  "chunkAPDU path preimageXDR offset n =
     ledgerBuildAPDU ledgerINSSignSoroban
       (if offset = 0 then ledgerP1First else ledgerP1More)
       (if offset + n \<ge> length preimageXDR then ledgerP2Last else ledgerP2More)
       ((if offset = 0 then path else []) @ take n (drop offset preimageXDR))"

function chunkLoop :: "LedgerTransport \<Rightarrow> bytes \<Rightarrow> bytes \<Rightarrow> nat \<Rightarrow> apdu list \<Rightarrow> apdu list \<times> (gerr + bytes)" where
  "chunkLoop transport path preimageXDR offset sent =
     (let capacity = chunkCapacity path offset in
      if capacity \<le> 0 then (sent, Inl (errw ''the path leaves no room for preimage data'' (Sentinel ErrLedgerUnavailable)))
      else
        let remaining = length preimageXDR - offset;
            n = (if remaining > capacity then capacity else remaining);
            apdu = chunkAPDU path preimageXDR offset n in
        case exchange transport sent apdu of
          Inl err \<Rightarrow> (sent @ [apdu], Inl err)
        | Inr response \<Rightarrow>
            if offset + n \<ge> length preimageXDR then (sent @ [apdu], Inr response)
            else chunkLoop transport path preimageXDR (offset + n) (sent @ [apdu]))"
  by pat_completeness auto
termination
  by (relation "measure (\<lambda>(transport, path, preimageXDR, offset, sent). length preimageXDR - offset)") auto

declare chunkLoop.simps [simp del]

definition signPreimage :: "LedgerSigner \<Rightarrow> bytes \<Rightarrow> apdu list \<times> (gerr + bytes)" where
  "signPreimage s preimageXDR =
     (let (sent, result) = chunkLoop (the (ls_transport s)) (ledgerEncodePath (ls_path s)) preimageXDR 0 [] in
      (sent, bindE result (\<lambda>signature.
         if length signature = 0 then Inl (errw ''the device returned no signature'' (Sentinel ErrLedgerUnavailable))
         else Inr signature)))"

definition ledgerSign :: "sdk \<Rightarrow> LedgerSigner \<Rightarrow> ctx \<Rightarrow> HashIdPreimage \<Rightarrow> bytes \<Rightarrow> apdu list \<times> (gerr + ScVal)" where
  "ledgerSign S s ctx preimage payload =
     (case ctx of Some err \<Rightarrow> ([], Inl (errw ''soroauth: ledger sign'' err))
      | None \<Rightarrow>
        (case ls_rawKey s of None \<Rightarrow> ([], Inl (errw ''soroauth: ledger sign'' (Sentinel ErrMissingSigner)))
         | Some rawKey \<Rightarrow>
           if ls_transport s = None then ([], Inl (errw ''soroauth: ledger sign'' (Sentinel ErrMissingSigner)))
           else case Payload S preimage of
             Inl err \<Rightarrow> ([], Inl (errw ''soroauth: ledger sign'' err))
           | Inr expected \<Rightarrow>
               if expected \<noteq> payload
               then ([], Inl (errw ''soroauth: ledger sign: payload does not match the preimage'' (Sentinel ErrSignatureMismatch)))
               else (case Preimage_MarshalBinary S preimage of
                 Inl err \<Rightarrow> ([], Inl (errw ''soroauth: ledger sign: encoding the preimage'' err))
               | Inr preimageXDR \<Rightarrow>
                   let (sent, result) = signPreimage s preimageXDR in
                   (sent, bindE (wrapE ''soroauth: ledger sign'' result) (\<lambda>signature.
                      if length signature \<noteq> ed25519_SignatureSize
                      then Inl (errw (''soroauth: ledger sign: device returned a '' @ itoa (length signature) @ ''-byte signature, want '' @
                             itoa ed25519_SignatureSize) (Sentinel ErrLedgerUnavailable))
                      else if \<not> ed25519_Verify S rawKey payload signature
                      then Inl (errw ''soroauth: ledger sign'' (Sentinel ErrSignatureMismatch))
                      else Inr (scVec [accountSignature rawKey signature]))))))"

text \<open>The signer the rest of the library sees.\<close>

definition ledgerSigner :: "sdk \<Rightarrow> LedgerSigner \<Rightarrow> signer" where
  "ledgerSigner S s = \<lparr>sg_Address = ls_address s, sg_Sign = (\<lambda>ctx preimage payload. snd (ledgerSign S s ctx preimage payload))\<rparr>"

section \<open>The device's view\<close>

text \<open>
  What the Stellar app reads out of a sequence of signing commands: it checks the five header
  bytes of each command, takes the first command for the start of a message and the one that says
  so for the end, and appends the data. The data of a short command has at most 255 bytes.
\<close>

definition commandData :: "bool \<Rightarrow> bool \<Rightarrow> apdu \<Rightarrow> bytes option" where
  "commandData first final apdu =
     (if length apdu < 5 \<or> length apdu > 260 then None
      else if take 5 apdu = [0xE0, 0x0A, if first then 0x00 else 0x80, if final then 0x00 else 0x80, word_of_nat (length apdu - 5)]
      then Some (drop 5 apdu) else None)"

fun deviceReads :: "bool \<Rightarrow> apdu list \<Rightarrow> bytes option" where
  "deviceReads first [] = None"
| "deviceReads first [apdu] = commandData first True apdu"
| "deviceReads first (apdu # apdus) =
     (case (commandData first False apdu, deviceReads False apdus) of (Some d, Some ds) \<Rightarrow> Some (d @ ds) | _ \<Rightarrow> None)"

lemma deviceReads_Cons:
  "apdus \<noteq> [] \<Longrightarrow> deviceReads first (apdu # apdus) =
     (case (commandData first False apdu, deviceReads False apdus) of (Some d, Some ds) \<Rightarrow> Some (d @ ds) | _ \<Rightarrow> None)"
  by (cases apdus) auto

lemma commandData_chunk:
  assumes "n \<le> chunkCapacity path offset" "0 < chunkCapacity path offset"
  shows "commandData (offset = 0) (length x \<le> offset + n) (chunkAPDU path x offset n) =
    Some ((if offset = 0 then path else []) @ take n (drop offset x))"
proof -
  have "length ((if offset = 0 then path else []) @ take n (drop offset x)) \<le> 240"
    using assms by (auto simp: chunkCapacity_def maxLedgerAPDUData_def split: if_splits)
  then show ?thesis
    by (auto simp: commandData_def chunkAPDU_def ledgerBuildAPDU_def ledgerCLA_def ledgerINSSignSoroban_def
        ledgerP1First_def ledgerP1More_def ledgerP2Last_def ledgerP2More_def)
qed

lemma chunkAPDU_length:
  assumes "n \<le> chunkCapacity path offset" "0 < chunkCapacity path offset"
  shows "length (chunkAPDU path x offset n) \<le> 245"
  using assms by (auto simp: chunkAPDU_def ledgerBuildAPDU_def chunkCapacity_def maxLedgerAPDUData_def split: if_splits)

text \<open>
  Whatever the device answers, the loop ends; what it has sent is a run of full chunks, and when
  it succeeds the device has read the path and the whole of the preimage.
\<close>

definition chunkCount :: "bytes \<Rightarrow> nat \<Rightarrow> nat \<Rightarrow> nat" where
  "chunkCount path len offset =
     (let c = chunkCapacity path offset in
      if len - offset \<le> c then 1 else 1 + (len - offset - c + maxLedgerAPDUData - 1) div maxLedgerAPDUData)"

lemma chunkCount_step:
  assumes "0 < chunkCapacity path offset" "offset + chunkCapacity path offset < len"
  shows "chunkCount path len offset = Suc (chunkCount path len (offset + chunkCapacity path offset))"
proof -
  let ?r = "len - offset - chunkCapacity path offset"
  have "0 < ?r" using assms by simp
  then have "(?r + 239) div 240 = (if ?r \<le> 240 then 1 else 1 + (?r - 240 + 239) div 240)"
    by simp linarith
  then show ?thesis
    using assms by (auto simp: chunkCount_def Let_def chunkCapacity_def maxLedgerAPDUData_def)
qed

lemma chunkLoop_reads:
  "chunkLoop transport path x offset sent = (sent', result) \<Longrightarrow> offset = 0 \<or> offset < length x \<Longrightarrow>
     \<exists>cs. sent' = sent @ cs \<and> length cs \<le> chunkCount path (length x) offset \<and> (\<forall>c\<in>set cs. length c \<le> 245) \<and>
       (\<forall>answer. result = Inr answer \<longrightarrow>
          cs \<noteq> [] \<and> length cs = chunkCount path (length x) offset \<and>
          deviceReads (offset = 0) cs = Some ((if offset = 0 then path else []) @ drop offset x) \<and>
          exchange transport (sent @ butlast cs) (last cs) = Inr answer)"
proof (induction transport path x offset sent rule: chunkLoop.induct)
  case (1 transport path x offset sent)
  let ?c = "chunkCapacity path offset"
  define n where "n = (if length x - offset > ?c then ?c else length x - offset)"
  let ?apdu = "chunkAPDU path x offset n"
  have n: "n \<le> ?c" "offset + n \<le> length x" using "1.prems"(2) by (auto simp: n_def)
  note short = chunkAPDU_length [OF n(1), of x]
  note loop = "1.prems"(1) [unfolded chunkLoop.simps [of transport path x offset sent] Let_def, folded n_def]
  consider (full) "?c = 0" | (failed) e where "0 < ?c" "exchange transport sent ?apdu = Inl e"
    | (finished) r where "0 < ?c" "exchange transport sent ?apdu = Inr r" "length x \<le> offset + n"
    | (more) r where "0 < ?c" "exchange transport sent ?apdu = Inr r" "offset + n < length x"
    by (cases "exchange transport sent ?apdu") (use linorder_not_le in blast)+
  then show ?case
  proof cases
    case full
    with loop show ?thesis by (auto simp: chunkCount_def)
  next
    case failed
    with loop short show ?thesis by (auto intro!: exI [of _ "[?apdu]"] simp: chunkCount_def Let_def)
  next
    case finished
    then have "length x - offset \<le> ?c" "take n (drop offset x) = drop offset x"
      using n by (auto simp: n_def split: if_splits)
    with loop short finished commandData_chunk [of n path offset x] n show ?thesis
      by (auto intro!: exI [of _ "[?apdu]"] simp: chunkCount_def Let_def)
  next
    case more
    then have full: "n = ?c" "offset + n < length x" by (auto simp: n_def split: if_splits)
    obtain cs where cs: "sent' = (sent @ [?apdu]) @ cs" "length cs \<le> chunkCount path (length x) (offset + n)" "\<forall>c\<in>set cs. length c \<le> 245"
      "\<And>answer. result = Inr answer \<Longrightarrow> cs \<noteq> [] \<and> length cs = chunkCount path (length x) (offset + n) \<and>
          deviceReads (offset + n = 0) cs = Some ((if offset + n = 0 then path else []) @ drop (offset + n) x) \<and>
          exchange transport ((sent @ [?apdu]) @ butlast cs) (last cs) = Inr answer"
      using "1.IH" [OF refl _ refl n_def refl, of r] more loop by (auto simp: n_def)
    have "drop offset x = take n (drop offset x) @ drop (offset + n) x"
      by (metis append_take_drop_id drop_drop add.commute)
    with cs more full n short commandData_chunk [of n path offset x] chunkCount_step [of path offset "length x"] show ?thesis
      by (auto intro!: exI [of _ "?apdu # cs"] simp: deviceReads_Cons not_le)
  qed
qed

section \<open>What a signing call sends\<close>

lemma signPreimage_reads:
  assumes "signPreimage s x = (sent, result)"
  shows "length sent \<le> chunkCount (ledgerEncodePath (ls_path s)) (length x) 0"
    and "\<forall>c\<in>set sent. length c \<le> 245"
    and "result = Inr signature \<Longrightarrow>
      deviceReads True sent = Some (ledgerEncodePath (ls_path s) @ x) \<and> sent \<noteq> [] \<and> signature \<noteq> [] \<and>
      exchange (the (ls_transport s)) (butlast sent) (last sent) = Inr signature"
  using assms chunkLoop_reads [of "the (ls_transport s)" "ledgerEncodePath (ls_path s)" x 0 "[]"]
  by (auto simp: signPreimage_def bindE_Inr_iff split: prod.splits if_splits)

text \<open>The device's path has three segments, so the first command has room for 227 bytes.\<close>

lemma NewLedgerSigner_Inr:
  assumes "NewLedgerSigner S transport opts = Inr s"
  obtains t accountIndex key where "transport = Some t" "ls_transport s = Some t" "ls_rawKey s = Some key" "length key = 32"
    "ls_path s = ledgerPath accountIndex" "strkey_Encode S VersionByteAccountID key = Inr (ls_address s)"
    "exchange t [] (ledgerBuildGetPubKeyAPDU (ls_path s)) = Inr key"
  using assms
  by (auto simp: NewLedgerSigner_def Let_def bindE_Inr_iff ed25519_PublicKeySize_def split: option.splits if_splits)

lemma length_ledgerEncodePath [simp]: "length (ledgerEncodePath (ledgerPath accountIndex)) = 13"
  by (simp add: ledgerEncodePath_def ledgerPath_def)

lemma chunkCount_first:
  "length path = 13 \<Longrightarrow> chunkCount path n 0 = 1 + (n - 227 + 239) div 240"
  by (simp add: chunkCount_def chunkCapacity_def maxLedgerAPDUData_def Let_def)

lemma ledgerSign_sends:
  assumes "ledgerSign S s ctx preimage payload = (sent, result)" "sent \<noteq> []"
  obtains x r where "ctx = None" "Preimage_MarshalBinary S preimage = Inr x" "payload = sha256_Sum256 S x"
    "signPreimage s x = (sent, r)"
  using assms
  by (auto simp: ledgerSign_def Payload_Inr_iff split: option.splits sum.splits if_splits prod.splits)

lemma ledgerSign_Inr:
  assumes "ledgerSign S s ctx preimage payload = (sent, Inr v)"
  obtains rawKey x signature where "ctx = None" "ls_rawKey s = Some rawKey" "ls_transport s \<noteq> None"
    "Preimage_MarshalBinary S preimage = Inr x" "payload = sha256_Sum256 S x"
    "signPreimage s x = (sent, Inr signature)" "length signature = 64" "ed25519_Verify S rawKey payload signature"
    "v = scVec [accountSignature rawKey signature]"
  using assms
  by (auto simp: ledgerSign_def Payload_Inr_iff bindE_Inr_iff ed25519_SignatureSize_def
      split: option.splits sum.splits if_splits prod.splits)

section \<open>The contract of a classic signer\<close>

definition ledgerKey :: "sdk \<Rightarrow> LedgerSigner \<Rightarrow> bytes \<Rightarrow> bool" where
  "ledgerKey S s raw \<longleftrightarrow> ls_rawKey s = Some raw \<and> length raw = 32"

interpretation ledger: classic_signer ledgerSigner ledgerKey
proof unfold_locales
  fix S s raw ctx preimage payload v
  assume "ledgerKey S s raw" "sg_Sign (ledgerSigner S s) ctx preimage payload = Inr v"
  then have "ledgerSign S s ctx preimage payload = (fst (ledgerSign S s ctx preimage payload), Inr v)"
    by (simp add: ledgerSigner_def prod_eq_iff)
  then show "\<exists>sig. v = scVec [accountSignature raw sig] \<and> length sig = 64 \<and> ed25519_Verify S raw payload sig"
    using \<open>ledgerKey S s raw\<close> by (auto simp: ledgerKey_def elim!: ledgerSign_Inr)
qed (simp add: ledgerKey_def)

end
