(* ===== verification/Http.thy ===== *)
theory Http
  imports Errors Encoding
begin

text \<open>
  What the clients of \<^verbatim>\<open>src/vault.go\<close> and \<^verbatim>\<open>src/remote\<close> and the server of the latter use of
  Go's \<^verbatim>\<open>net/http\<close>, \<^verbatim>\<open>io\<close>, \<^verbatim>\<open>strings\<close> and \<^verbatim>\<open>strconv\<close>. A connection is a parameter: a
  function from a request to the response or a transport error.
\<close>

section \<open>Messages\<close>

record httpRequest =
  rq_Method :: string
  rq_URL :: string
  rq_Path :: string
  rq_Header :: "(string \<times> string) list"
  rq_Body :: bytes

text \<open>
  The body of a response arrives as bytes, after which reading either reports the end of the body
  or fails.
\<close>

record httpResponse =
  rs_StatusCode :: nat
  rs_Status :: string
  rs_Header :: "(string \<times> string) list"
  rs_Body :: bytes
  rs_ReadError :: "gerr option"

type_synonym httpClient = "httpRequest \<Rightarrow> gerr + httpResponse"

text \<open>
  \<open>io.ReadAll(io.LimitReader(body, n))\<close>: a limited reader reports the end after \<open>n\<close> bytes,
  without looking at what comes after them.
\<close>

definition readLimited :: "nat \<Rightarrow> bytes \<Rightarrow> gerr option \<Rightarrow> gerr + bytes" where
  "readLimited n body err =
     (case err of None \<Rightarrow> Inr (take n body) | Some e \<Rightarrow> if n \<le> length body then Inr (take n body) else Inl e)"

text \<open>The parts of a URL the clients look at, and the JSON values they send.\<close>

record parsedURL =
  ur_Scheme :: string
  ur_Host :: string
  ur_Path :: string

datatype json = JString string | JNumber int | JArray "json list" | JObject "(string \<times> json) list"

section \<open>Strings\<close>

definition textOf :: "bytes \<Rightarrow> string" where
  "textOf b = map (\<lambda>w. char_of (unat w)) b"

definition bytesOf :: "string \<Rightarrow> bytes" where
  "bytesOf s = map (\<lambda>c. of_char c) s"

text \<open>\<open>strings.TrimRight\<close> with one character, \<open>strings.TrimSuffix\<close>, \<open>strings.TrimSpace\<close> on ASCII text.\<close>

definition TrimRight :: "string \<Rightarrow> char \<Rightarrow> string" where
  "TrimRight s c = rev (dropWhile (\<lambda>x. x = c) (rev s))"

definition TrimSuffix :: "string \<Rightarrow> string \<Rightarrow> string" where
  "TrimSuffix s suffix =
     (if length suffix \<le> length s \<and> drop (length s - length suffix) s = suffix then take (length s - length suffix) s else s)"

definition isSpaceChar :: "char \<Rightarrow> bool" where
  "isSpaceChar c \<longleftrightarrow> c \<in> {CHR 0x20, CHR 0x09, CHR 0x0A, CHR 0x0B, CHR 0x0C, CHR 0x0D}"

definition TrimSpace :: "string \<Rightarrow> string" where
  "TrimSpace s = rev (dropWhile isSpaceChar (rev (dropWhile isSpaceChar s)))"

text \<open>What follows the last occurrence of a character: the use of \<open>strings.LastIndex\<close> in the sources.\<close>

definition afterLast :: "char \<Rightarrow> string \<Rightarrow> string option" where
  "afterLast c s = (if c \<in> set s then Some (rev (takeWhile (\<lambda>x. x \<noteq> c) (rev s))) else None)"

lemma afterLast_append: "c \<notin> set t \<Longrightarrow> afterLast c (s @ c # t) = Some t"
proof -
  assume "c \<notin> set t"
  then have "takeWhile (\<lambda>x. x \<noteq> c) (rev t) = rev t" by (auto simp: takeWhile_eq_all_conv)
  then show ?thesis by (simp add: afterLast_def takeWhile_tail del: takeWhile_eq_all_conv)
qed

text \<open>
  The decoders of \<open>encoding/base64\<close> and \<open>encoding/hex\<close> with their errors; the texts leave out
  the offset of the offending byte.
\<close>

definition decodeBase64 :: "string \<Rightarrow> gerr + bytes" where
  "decodeBase64 s = (case base64_DecodeString s of None \<Rightarrow> Inl (errmsg ''illegal base64 data'') | Some b \<Rightarrow> Inr b)"

definition decodeHex :: "string \<Rightarrow> gerr + bytes" where
  "decodeHex s = (case hex_DecodeString s of None \<Rightarrow> Inl (errmsg ''encoding/hex: invalid input'') | Some b \<Rightarrow> Inr b)"

lemma decodeBase64_encode [simp]: "decodeBase64 (base64_EncodeToString b) = Inr b"
  by (simp add: decodeBase64_def)

lemma decodeHex_hex [simp]: "decodeHex (hex b) = Inr b"
  by (simp add: decodeHex_def)

end
