(* ===== verification/Vault.thy ===== *)
theory Vault
  imports Key_Store Http
begin

text \<open>
  The Vault transit signer (\<^verbatim>\<open>src/vault.go\<close>): reading the key at construction, one request per
  signature, and the checks on the answers. The URL parser, the JSON readers and the connection
  to Vault are parameters.
\<close>

section \<open>Configuration\<close>

definition defaultVaultMount :: string where
  "defaultVaultMount = ''transit''"

definition maxVaultResponseBytes :: nat where
  "maxVaultResponseBytes = 2 ^ 20"

text \<open>
  The members of a key response: the entries of the key ring in the order a range over the map
  visits them, with \<open>None\<close> for a value that is not a string.
\<close>

record vaultKeyResponse =
  vk_Type :: string
  vk_LatestVersion :: int
  vk_Keys :: "(string \<times> string option) list"

text \<open>
  Go's side of the exchange: \<open>url.Parse\<close>, \<open>URL.String\<close>, what can go wrong in
  \<open>http.NewRequestWithContext\<close>, the JSON of \<open>{"input": ...}\<close> and of the two responses, and the
  client used when the configuration has none.
\<close>

record vaultLib =
  vl_Parse :: "string \<Rightarrow> gerr + parsedURL"
  vl_String :: "parsedURL \<Rightarrow> string"
  vl_NewRequest :: "string \<Rightarrow> string \<Rightarrow> gerr option"
  vl_MarshalInput :: "string \<Rightarrow> gerr + bytes"
  vl_KeyResponse :: "bytes \<Rightarrow> gerr + vaultKeyResponse"
  vl_SignResponse :: "bytes \<Rightarrow> gerr + string"
  vl_DefaultClient :: httpClient

record VaultConfig =
  vc_BaseURL :: string
  vc_Token :: string
  vc_Mount :: string
  vc_KeyName :: string
  vc_Address :: string
  vc_HTTPClient :: "httpClient option"

record VaultSigner =
  vs_baseURL :: parsedURL
  vs_token :: string
  vs_mount :: string
  vs_keyName :: string
  vs_address :: string
  vs_client :: httpClient
  vs_rawKey :: "bytes option"

section \<open>One request\<close>

text \<open>
  \<open>do\<close>. The caller's context reaches the connection, which may report it as a transport error.
  A request body is the value of \<open>"input"\<close>.
\<close>

definition vaultHeader :: "VaultSigner \<Rightarrow> bool \<Rightarrow> (string \<times> string) list" where
  "vaultHeader s hasBody =
     (''X-Vault-Token'', vs_token s) # (if hasBody then [(''Content-Type'', ''application/json'')] else [])"

definition vaultRequest :: "vaultLib \<Rightarrow> VaultSigner \<Rightarrow> string \<Rightarrow> string \<Rightarrow> string option \<Rightarrow> gerr + httpRequest" where
  "vaultRequest L s method path requestBody =
     bindE (case requestBody of None \<Rightarrow> Inr [] | Some input \<Rightarrow> wrapE ''encoding the request'' (vl_MarshalInput L input)) (\<lambda>body.
     let endpoint = (vs_baseURL s)\<lparr>ur_Path := TrimSuffix (ur_Path (vs_baseURL s)) ''/'' @ path\<rparr> in
     case vl_NewRequest L method (vl_String L endpoint) of
       Some err \<Rightarrow> Inl (errw ''building the request'' err)
     | None \<Rightarrow> Inr \<lparr>rq_Method = method, rq_URL = vl_String L endpoint, rq_Path = ur_Path endpoint,
                rq_Header = vaultHeader s (requestBody \<noteq> None), rq_Body = body\<rparr>)"

definition vaultDo :: "vaultLib \<Rightarrow> VaultSigner \<Rightarrow> string \<Rightarrow> string \<Rightarrow> string option \<Rightarrow> sentinel \<Rightarrow> gerr + bytes" where
  "vaultDo L s method path requestBody notFound =
     bindE (vaultRequest L s method path requestBody) (\<lambda>request.
     bindE (wrapE ''calling vault'' (vs_client s request)) (\<lambda>response.
     bindE (wrapE ''reading the response'' (readLimited maxVaultResponseBytes (rs_Body response) (rs_ReadError response))) (\<lambda>responseBody.
     let code = rs_StatusCode response; where = method @ '' '' @ path @ '': HTTP '' @ itoa code in
     if 200 \<le> code \<and> code < 300 then Inr responseBody
     else if code = 403 \<or> code = 401 then Inl (errw where (Sentinel ErrVaultUnauthorized))
     else if code = 404 then Inl (errw where (Sentinel notFound))
     else Inl (errmsg (where @ '': '' @ TrimSpace (textOf responseBody))))))"

section \<open>The public key\<close>

text \<open>
  \<open>latestPublicKey\<close>. The version is the one Vault calls the latest when it names one, and the
  greatest of the ring otherwise; \<open>strconv.Atoi\<close> reads a 64-bit number.
\<close>

definition Atoi :: "string \<Rightarrow> int option" where
  "Atoi s = map_option sint (ParseInt64 s)"

definition ringVersions :: "(string \<times> string option) list \<Rightarrow> gerr + int list" where
  "ringVersions keys =
     mapE (\<lambda>(name, _). case Atoi name of None \<Rightarrow> Inl (errmsg (''unexpected version name '' @ strconv_Quote name))
                     | Some version \<Rightarrow> Inr version) keys"

definition latestPublicKey :: "(string \<times> string option) list \<Rightarrow> int \<Rightarrow> gerr + bytes" where
  "latestPublicKey keys latestVersion =
     (if keys = [] then Inl (errmsg ''the key has no versions'')
      else bindE (ringVersions keys) (\<lambda>names.
        let versions = sort names;
            version = (if latestVersion > 0 then latestVersion else last versions);
            named = ''version '' @ itoa_int version in
        case map_of keys (itoa_int version) of
          None \<Rightarrow> Inl (errmsg (named @ '' is missing from the key ring''))
        | Some None \<Rightarrow> Inl (errmsg (named @ '' is not a base64 public key''))
        | Some (Some encoded) \<Rightarrow>
            bindE (wrapE (named @ '' is not valid base64'') (decodeBase64 encoded)) (\<lambda>raw.
            if length raw \<noteq> ed25519_PublicKeySize
            then Inl (errmsg (named @ '' decodes to '' @ itoa (length raw) @ '' bytes, an ed25519 public key is '' @ itoa ed25519_PublicKeySize))
            else Inr raw)))"

definition readPublicKey :: "vaultLib \<Rightarrow> VaultSigner \<Rightarrow> gerr + bytes" where
  "readPublicKey L s =
     bindE (vaultDo L s ''GET'' (''/v1/'' @ vs_mount s @ ''/keys/'' @ vs_keyName s) None ErrVaultKeyNotFound) (\<lambda>body.
     bindE (wrapE ''soroauth: vault signer: decoding the key response'' (vl_KeyResponse L body)) (\<lambda>response.
     if vk_Type response \<noteq> ''ed25519''
     then Inl (errw (''soroauth: vault signer: key '' @ strconv_Quote (vs_keyName s) @ '' is '' @ strconv_Quote (vk_Type response) @
            '', need ed25519'') (Sentinel ErrVaultKeyType))
     else wrapE (''soroauth: vault signer: key '' @ strconv_Quote (vs_keyName s)) (latestPublicKey (vk_Keys response) (vk_LatestVersion response))))"

definition checkAddress :: "sdk \<Rightarrow> VaultSigner \<Rightarrow> bytes \<Rightarrow> gerr + unit" where
  "checkAddress S s raw =
     bindE (wrapE ''soroauth: vault signer: encoding the public key's address'' (strkey_Encode S VersionByteAccountID raw)) (\<lambda>derived.
     if derived \<noteq> vs_address s
     then Inl (errw (''soroauth: vault signer: transit key '' @ strconv_Quote (vs_keyName s) @ '' derives '' @ derived @
            '', configured address is '' @ vs_address s) (Sentinel ErrSignerAddressMismatch))
     else Inr ())"

definition NewVaultSigner :: "sdk \<Rightarrow> vaultLib \<Rightarrow> VaultConfig \<Rightarrow> gerr + VaultSigner" where
  "NewVaultSigner S L cfg =
     (if vc_BaseURL cfg = [] then Inl (errmsg ''soroauth: new vault signer: base URL is required'')
      else bindE (wrapE ''soroauth: new vault signer: parsing base URL'' (vl_Parse L (vc_BaseURL cfg))) (\<lambda>baseURL.
        if ur_Scheme baseURL = [] \<or> ur_Host baseURL = []
        then Inl (errmsg (''soroauth: new vault signer: base URL '' @ strconv_Quote (vc_BaseURL cfg) @ '' must be absolute''))
        else if vc_Token cfg = [] then Inl (errw ''soroauth: new vault signer: token is required'' (Sentinel ErrVaultUnauthorized))
        else if vc_KeyName cfg = [] then Inl (errmsg ''soroauth: new vault signer: key name is required'')
        else bindE (wrapE ''soroauth: new vault signer'' (rawEd25519Key S (vc_Address cfg))) (\<lambda>_.
          let s = \<lparr>vs_baseURL = baseURL, vs_token = vc_Token cfg,
                   vs_mount = (if vc_Mount cfg = [] then defaultVaultMount else vc_Mount cfg), vs_keyName = vc_KeyName cfg,
                   vs_address = vc_Address cfg,
                   vs_client = (case vc_HTTPClient cfg of None \<Rightarrow> vl_DefaultClient L | Some client \<Rightarrow> client),
                   vs_rawKey = None\<rparr> in
          bindE (readPublicKey L s) (\<lambda>raw. bindE (checkAddress S s raw) (\<lambda>_. Inr (s\<lparr>vs_rawKey := Some raw\<rparr>))))))"

section \<open>Signing\<close>

definition decodeVaultSignature :: "string \<Rightarrow> gerr + bytes" where
  "decodeVaultSignature encoded =
     (case afterLast (CHR '':'') encoded of None \<Rightarrow> Inl (errmsg (''signature '' @ strconv_Quote encoded @ '' has no vault:vN: prefix''))
      | Some rest \<Rightarrow> wrapE ''signature is not valid base64'' (decodeBase64 rest))"

definition vaultSign :: "sdk \<Rightarrow> vaultLib \<Rightarrow> VaultSigner \<Rightarrow> ctx \<Rightarrow> HashIdPreimage \<Rightarrow> bytes \<Rightarrow> gerr + ScVal" where
  "vaultSign S L s ctx preimage payload =
     (case ctx of Some err \<Rightarrow> Inl (errw ''soroauth: vault sign'' err)
      | None \<Rightarrow>
        (case vs_rawKey s of None \<Rightarrow> Inl (errw ''soroauth: vault sign'' (Sentinel ErrMissingSigner))
         | Some rawKey \<Rightarrow>
           bindE (wrapE ''soroauth: vault sign'' (Payload S preimage)) (\<lambda>expected.
           if expected \<noteq> payload
           then Inl (errw ''soroauth: vault sign: payload does not match the preimage'' (Sentinel ErrSignatureMismatch))
           else
             bindE (wrapE ''soroauth: vault sign'' (vaultDo L s ''POST'' (''/v1/'' @ vs_mount s @ ''/sign/'' @ vs_keyName s)
                      (Some (base64_EncodeToString payload)) ErrVaultKeyNotFound)) (\<lambda>body.
             bindE (wrapE ''soroauth: vault sign: decoding the sign response'' (vl_SignResponse L body)) (\<lambda>response.
             bindE (wrapE ''soroauth: vault sign'' (decodeVaultSignature response)) (\<lambda>signature.
             if \<not> ed25519_Verify S rawKey payload signature
             then Inl (errw ''soroauth: vault sign'' (Sentinel ErrSignatureMismatch))
             else Inr (scVec [accountSignature rawKey signature])))))))"

definition vaultSigner :: "sdk \<Rightarrow> vaultLib \<times> VaultSigner \<Rightarrow> signer" where
  "vaultSigner S ls = \<lparr>sg_Address = vs_address (snd ls), sg_Sign = vaultSign S (fst ls) (snd ls)\<rparr>"

section \<open>What a successful call means\<close>

lemma ringVersions_Inr_iff:
  "ringVersions keys = Inr vs \<longleftrightarrow> list_all2 (\<lambda>(name, _) v. Atoi name = Some v) keys vs"
  by (simp add: ringVersions_def mapE_Inr_iff case_prod_unfold split: option.splits)
    (auto elim!: list_all2_mono split: option.splits)

text \<open>The version whose key is used.\<close>

definition currentVersion :: "(string \<times> string option) list \<Rightarrow> int \<Rightarrow> int" where
  "currentVersion keys latestVersion =
     (if latestVersion > 0 then latestVersion else Max ((\<lambda>(name, _). the (Atoi name)) ` set keys))"

lemma ringVersions_set:
  assumes "ringVersions keys = Inr vs"
  shows "set vs = (\<lambda>(name, _). the (Atoi name)) ` set keys"
proof -
  have "vs = map (\<lambda>(name, _). the (Atoi name)) keys"
    using assms unfolding ringVersions_Inr_iff by (induction rule: list_all2_induct) auto
  then show ?thesis by simp
qed

lemma last_sort:
  fixes vs :: "int list"
  assumes "vs \<noteq> []"
  shows "last (sort vs) = Max (set vs)"
proof -
  have ne: "sort vs \<noteq> []" using assms by (metis length_0_conv length_sort)
  have "x \<le> last ys" if "sorted ys" "x \<in> set ys" for x and ys :: "int list"
    using that by (induction ys) auto
  then have "x \<le> last (sort vs)" if "x \<in> set vs" for x using that by simp
  then show ?thesis using last_in_set [OF ne] by (intro Max_eqI [symmetric]) auto
qed

lemma latestPublicKey_Inr_iff:
  "latestPublicKey keys latestVersion = Inr raw \<longleftrightarrow>
     keys \<noteq> [] \<and> (\<forall>(name, _)\<in>set keys. Atoi name \<noteq> None) \<and> length raw = 32 \<and>
     (\<exists>encoded. map_of keys (itoa_int (currentVersion keys latestVersion)) = Some (Some encoded) \<and> decodeBase64 encoded = Inr raw)"
proof (cases "ringVersions keys")
  case (Inl e)
  then have "\<not> (\<forall>(name, _)\<in>set keys. Atoi name \<noteq> None)"
    using ringVersions_Inr_iff [of keys "map (\<lambda>(name, _). the (Atoi name)) keys"]
    by (fastforce simp: list_all2_conv_all_nth case_prod_unfold)
  with Inl show ?thesis by (auto simp: latestPublicKey_def)
next
  case (Inr vs)
  then have named: "\<forall>(name, _)\<in>set keys. Atoi name \<noteq> None"
    unfolding ringVersions_Inr_iff by (induction rule: list_all2_induct) auto
  have "keys \<noteq> [] \<Longrightarrow> last (sort vs) = Max (set vs)"
    using Inr last_sort [of vs] by (auto simp: ringVersions_Inr_iff)
  with Inr named show ?thesis
    by (auto simp: latestPublicKey_def currentVersion_def ringVersions_set [OF Inr] bindE_Inr_iff ed25519_PublicKeySize_def
        Let_def split: option.splits if_splits)
qed

lemma NewVaultSigner_Inr:
  assumes "NewVaultSigner S L cfg = Inr s"
  obtains raw where "vs_rawKey s = Some raw" "length raw = 32" "strkey_Encode S VersionByteAccountID raw = Inr (vc_Address cfg)"
    "vs_address s = vc_Address cfg" "vs_token s = vc_Token cfg" "vs_keyName s = vc_KeyName cfg"
proof -
  obtain s0 raw where s: "readPublicKey L s0 = Inr raw" "checkAddress S s0 raw = Inr ()" "s = s0\<lparr>vs_rawKey := Some raw\<rparr>"
    "vs_address s0 = vc_Address cfg" "vs_token s0 = vc_Token cfg" "vs_keyName s0 = vc_KeyName cfg"
    using assms by (auto simp: NewVaultSigner_def Let_def bindE_Inr_iff split: if_splits)
  then show ?thesis
    by (intro that [of raw]) (auto simp: readPublicKey_def checkAddress_def bindE_Inr_iff latestPublicKey_Inr_iff split: if_splits)
qed

lemma vaultSign_Inr:
  assumes "vaultSign S L s ctx preimage payload = Inr v"
  obtains rawKey body response signature where "ctx = None" "vs_rawKey s = Some rawKey" "Payload S preimage = Inr payload"
    "vaultDo L s ''POST'' (''/v1/'' @ vs_mount s @ ''/sign/'' @ vs_keyName s) (Some (base64_EncodeToString payload)) ErrVaultKeyNotFound = Inr body"
    "vl_SignResponse L body = Inr response" "decodeVaultSignature response = Inr signature"
    "ed25519_Verify S rawKey payload signature" "v = scVec [accountSignature rawKey signature]"
  using assms by (auto simp: vaultSign_def bindE_Inr_iff split: option.splits if_splits)

lemma b64Char_no_colon: "n < 64 \<Longrightarrow> b64Char n \<noteq> CHR '':''"
proof -
  assume "n < 64"
  moreover have "CHR '':'' \<notin> set base64_alphabet" by (simp add: base64_alphabet_def)
  ultimately show ?thesis using b64Char_in by metis
qed

lemma base64_no_colon: "CHR '':'' \<notin> set (base64_EncodeToString b)"
  by (induction b rule: base64_EncodeToString.induct) (simp_all add: sextets b64Char_no_colon b64Char_no_colon [symmetric])

lemma decodeVaultSignature_encode:
  "decodeVaultSignature (version @ CHR '':'' # base64_EncodeToString sig) = Inr sig"
  by (simp add: decodeVaultSignature_def afterLast_append base64_no_colon)

text \<open>The Vault signer meets the contract when a signature that verifies has 64 bytes, as in \<open>crypto/ed25519\<close>.\<close>

definition vaultKey :: "sdk \<Rightarrow> vaultLib \<times> VaultSigner \<Rightarrow> bytes \<Rightarrow> bool" where
  "vaultKey S ls raw \<longleftrightarrow> vs_rawKey (snd ls) = Some raw \<and> length raw = 32 \<and>
     (\<forall>m sig. ed25519_Verify S raw m sig \<longrightarrow> length sig = 64)"

interpretation vault: classic_signer vaultSigner vaultKey
  by unfold_locales (auto simp: vaultKey_def vaultSigner_def elim!: vaultSign_Inr)

end
