(* ===== verification/Remote.thy ===== *)
theory Remote
  imports Verify Http
begin

text \<open>
  The remote signing protocol (\<^verbatim>\<open>src/remote\<close>): the client that asks a server to sign, and the
  reference server. Parameters are the XDR and JSON codecs, the URL parser and the connection.
\<close>

section \<open>The protocol\<close>

definition Version :: int where
  "Version = 1"

definition Path :: string where
  "Path = ''/sign''"

definition MaxRequestBytes :: nat where
  "MaxRequestBytes = 2 ^ 20"

record Request =
  rr_Version :: int
  rr_Address :: string
  rr_Preimage :: string
  rr_Payload :: string

record Response =
  rp_Version :: int
  rp_Signature :: string
  rp_Error :: string

record Approval =
  ap_Address :: string
  ap_Preimage :: HashIdPreimage
  ap_Payload :: bytes

text \<open>
  The decoders of \<open>encoding/json\<close> refuse unknown members and read the first value of their
  input, a failure to read past it included; the encoder ends its output with a newline, and what
  it cannot encode it does not write.
\<close>

record remoteLib =
  rl_Preimage_MarshalBase64 :: "HashIdPreimage \<Rightarrow> gerr + string"
  rl_Preimage_UnmarshalBinary :: "bytes \<Rightarrow> gerr + HashIdPreimage"
  rl_ScVal_UnmarshalBinary :: "bytes \<Rightarrow> gerr + ScVal"
  rl_MarshalRequest :: "Request \<Rightarrow> gerr + bytes"
  rl_DecodeRequest :: "bytes \<Rightarrow> gerr + Request"
  rl_EncodeResponse :: "Response \<Rightarrow> bytes"
  rl_DecodeResponse :: "bytes \<Rightarrow> gerr option \<Rightarrow> gerr + Response"
  rl_URLPath :: "string \<Rightarrow> gerr + string"
  rl_StatusText :: "nat \<Rightarrow> string"

section \<open>The client\<close>

record remoteSigner =
  rm_address :: string
  rm_url :: string
  rm_client :: httpClient

definition NewSigner :: "httpClient \<Rightarrow> string \<Rightarrow> string \<Rightarrow> httpClient option list \<Rightarrow> remoteSigner" where
  "NewSigner defaultClient baseURL address opts =
     fold (\<lambda>opt s. case opt of None \<Rightarrow> s | Some client \<Rightarrow> s\<lparr>rm_client := client\<rparr>) opts
       \<lparr>rm_address = address, rm_url = TrimRight baseURL (CHR ''/'') @ Path, rm_client = defaultClient\<rparr>"

definition remoteAddress :: "remoteSigner option \<Rightarrow> string" where
  "remoteAddress so = (case so of None \<Rightarrow> [] | Some s \<Rightarrow> rm_address s)"

text \<open>What the client makes of a response.\<close>

definition readResponse :: "remoteLib \<Rightarrow> httpResponse \<Rightarrow> gerr + ScVal" where
  "readResponse L response =
     bindE (wrapE (''remote: sign: server returned status '' @ itoa (rs_StatusCode response) @ '' with an unreadable body'')
              (rl_DecodeResponse L (take MaxRequestBytes (rs_Body response))
                 (if length (rs_Body response) < MaxRequestBytes then rs_ReadError response else None))) (\<lambda>decoded.
     if rs_StatusCode response \<noteq> 200
     then Inl (errmsg (''remote: sign: server refused: '' @ (if rp_Error decoded = [] then rs_Status response else rp_Error decoded)))
     else if rp_Error decoded \<noteq> [] then Inl (errmsg (''remote: sign: server refused: '' @ rp_Error decoded))
     else if rp_Version decoded \<noteq> Version
     then Inl (errmsg (''remote: sign: server answered protocol version '' @ itoa_int (rp_Version decoded) @ '', want '' @ itoa_int Version))
     else
       bindE (wrapE ''remote: sign: signature is not valid base64'' (decodeBase64 (rp_Signature decoded))) (\<lambda>signatureBytes.
       wrapE ''remote: sign: signature is not valid XDR'' (rl_ScVal_UnmarshalBinary L signatureBytes)))"

definition remoteSign :: "remoteLib \<Rightarrow> remoteSigner option \<Rightarrow> ctx \<Rightarrow> HashIdPreimage \<Rightarrow> bytes \<Rightarrow> gerr + ScVal" where
  "remoteSign L so ctx preimage payload =
     (case ctx of Some err \<Rightarrow> Inl (errw ''remote: sign'' err)
      | None \<Rightarrow>
        (case so of None \<Rightarrow> Inl (errw ''remote: sign'' (Sentinel ErrMissingSigner))
         | Some s \<Rightarrow>
           if rm_address s = [] then Inl (errw ''remote: sign'' (Sentinel ErrMissingSigner))
           else
             bindE (wrapE ''remote: sign: encoding the preimage'' (rl_Preimage_MarshalBase64 L preimage)) (\<lambda>encodedPreimage.
             bindE (wrapE ''remote: sign: encoding the request'' (rl_MarshalRequest L
                \<lparr>rr_Version = Version, rr_Address = rm_address s, rr_Preimage = encodedPreimage, rr_Payload = hex payload\<rparr>)) (\<lambda>body.
             bindE (wrapE ''remote: sign: building the request'' (rl_URLPath L (rm_url s))) (\<lambda>path.
             bindE (wrapE ''remote: sign'' (rm_client s \<lparr>rq_Method = ''POST'', rq_URL = rm_url s, rq_Path = path,
                rq_Header = [(''Content-Type'', ''application/json'')], rq_Body = body\<rparr>)) (readResponse L))))))"

definition NewRemote :: "remoteLib \<Rightarrow> remoteSigner \<Rightarrow> signer" where
  "NewRemote L s = \<lparr>sg_Address = remoteAddress (Some s), sg_Sign = remoteSign L (Some s)\<rparr>"

section \<open>The server\<close>

definition writeJSON :: "remoteLib \<Rightarrow> (string \<times> string) list \<Rightarrow> nat \<Rightarrow> Response \<Rightarrow> httpResponse" where
  "writeJSON L headers status body =
     \<lparr>rs_StatusCode = status, rs_Status = rl_StatusText L status,
      rs_Header = headers @ [(''Content-Type'', ''application/json'')],
      rs_Body = rl_EncodeResponse L body, rs_ReadError = None\<rparr>"

definition writeError :: "remoteLib \<Rightarrow> nat \<Rightarrow> string \<Rightarrow> httpResponse" where
  "writeError L status message = writeJSON L [] status \<lparr>rp_Version = Version, rp_Signature = [], rp_Error = message\<rparr>"

definition NotFound :: "remoteLib \<Rightarrow> httpResponse" where
  "NotFound L =
     \<lparr>rs_StatusCode = 404, rs_Status = rl_StatusText L 404,
      rs_Header = [(''Content-Type'', ''text/plain; charset=utf-8''), (''X-Content-Type-Options'', ''nosniff'')],
      rs_Body = bytesOf ''404 page not found'' @ [0x0A], rs_ReadError = None\<rparr>"

text \<open>
  The checks on a decoded request, in the order of the handler: \<open>Inl\<close> is the status and the
  message of the refusal.
\<close>

definition refuseE :: "nat \<Rightarrow> string \<Rightarrow> gerr + 'a \<Rightarrow> (nat \<times> string) + 'a" where
  "refuseE status prefix m = (case m of Inl err \<Rightarrow> Inl (status, prefix @ error_text err) | Inr x \<Rightarrow> Inr x)"

definition checkRequest :: "sdk \<Rightarrow> remoteLib \<Rightarrow> signer \<Rightarrow> bytes \<Rightarrow> (nat \<times> string) + Approval" where
  "checkRequest S L sg body =
     bindE (refuseE 400 ''malformed request: '' (rl_DecodeRequest L (take MaxRequestBytes body))) (\<lambda>req.
     if rr_Version req \<noteq> Version
     then Inl (400, ''unsupported protocol version '' @ itoa_int (rr_Version req) @ '', want '' @ itoa_int Version)
     else if rr_Address req \<noteq> sg_Address sg
     then Inl (400, ''this server signs for '' @ sg_Address sg @ '', not '' @ strconv_Quote (rr_Address req))
     else
       bindE (refuseE 400 ''preimage is not valid base64: '' (decodeBase64 (rr_Preimage req))) (\<lambda>preimageBytes.
       bindE (refuseE 400 ''preimage is not valid XDR: '' (rl_Preimage_UnmarshalBinary L preimageBytes)) (\<lambda>preimage.
       bindE (refuseE 400 ''payload is not valid hex: '' (decodeHex (rr_Payload req))) (\<lambda>payload.
       if length payload \<noteq> 32 then Inl (400, ''payload is '' @ itoa (length payload) @ '' bytes, want 32'')
       else
         bindE (refuseE 400 ''cannot hash the preimage: '' (Payload S preimage)) (\<lambda>recomputed.
         if recomputed \<noteq> payload then Inl (400, ''payload does not match SHA-256 of the preimage'')
         else Inr \<lparr>ap_Address = rr_Address req, ap_Preimage = preimage, ap_Payload = payload\<rparr>)))))"

text \<open>
  \<open>ServeHTTP\<close>. Beside the response it returns the approvals shown to the \<open>Approver\<close> callback
  (whether one is set decides if they are observed) and the calls made to the signer, in order.
\<close>

datatype serverEvent = Approves Approval | SignCall HashIdPreimage bytes

definition signResponse :: "sdk \<Rightarrow> remoteLib \<Rightarrow> gerr + ScVal \<Rightarrow> httpResponse" where
  "signResponse S L result =
     (case result of Inl err \<Rightarrow> writeError L 500 (''signer refused: '' @ error_text err)
      | Inr signature \<Rightarrow>
          (case ScVal_MarshalBase64 S signature of
             Inl err \<Rightarrow> writeError L 500 (''cannot encode the signature: '' @ error_text err)
           | Inr encoded \<Rightarrow> writeJSON L [] 200 \<lparr>rp_Version = Version, rp_Signature = encoded, rp_Error = []\<rparr>))"

definition ServeHTTP :: "sdk \<Rightarrow> remoteLib \<Rightarrow> signer option option \<Rightarrow> bool \<Rightarrow> ctx \<Rightarrow> httpRequest \<Rightarrow> serverEvent list \<times> httpResponse" where
  "ServeHTTP S L server hasApprover ctx r =
     (if rq_Path r \<noteq> Path then ([], NotFound L)
      else if rq_Method r \<noteq> ''POST''
      then ([], writeJSON L [(''Allow'', ''POST'')] 405 \<lparr>rp_Version = Version, rp_Signature = [], rp_Error = ''method must be POST''\<rparr>)
      else case server of
        Some (Some sg) \<Rightarrow>
          (case checkRequest S L sg (rq_Body r) of
             Inl (status, message) \<Rightarrow> ([], writeError L status message)
           | Inr a \<Rightarrow>
               ((if hasApprover then [Approves a] else []) @ [SignCall (ap_Preimage a) (ap_Payload a)],
                signResponse S L (sg_Sign sg ctx (ap_Preimage a) (ap_Payload a))))
      | _ \<Rightarrow> ([], writeError L 500 ''server has no signer''))"

text \<open>The line \<open>LogApprover\<close> writes; the name of the variant is the SDK's.\<close>

definition LogApprover :: "(EnvelopeType \<Rightarrow> string) \<Rightarrow> Approval \<Rightarrow> string" where
  "LogApprover typeName a =
     (let p = ap_Preimage a;
          (nonce, expiration) =
            (case hp_Type p of
               EnvelopeTypeSorobanAuthorization \<Rightarrow>
                 (case hp_SorobanAuthorization p of None \<Rightarrow> (0, 0) | Some x \<Rightarrow> (pa_Nonce x, pa_SignatureExpirationLedger x))
             | EnvelopeTypeSorobanAuthorizationWithAddress \<Rightarrow>
                 (case hp_SorobanAuthorizationWithAddress p of None \<Rightarrow> (0, 0) | Some x \<Rightarrow> (pw_Nonce x, pw_SignatureExpirationLedger x))
             | _ \<Rightarrow> (0, 0))
      in ''remote: approving address='' @ ap_Address a @ '' variant='' @ typeName (hp_Type p) @ '' nonce='' @ itoa_int (sint nonce) @
         '' valid_until='' @ itoa (unat expiration) @ '' payload='' @ hex (ap_Payload a) @ [CHR 0x0A])"

section \<open>What the server does\<close>

lemma refuseE_simps [simp]:
  "refuseE status prefix (Inr x) = Inr x" "refuseE status prefix m = Inr x \<longleftrightarrow> m = Inr x"
  "refuseE status prefix m = Inl e \<Longrightarrow> fst e = status"
  by (cases m; auto simp: refuseE_def)+

text \<open>The requests the server signs: exactly those addressed to its signer whose payload is the hash of their preimage.\<close>

lemma checkRequest_Inr_iff:
  "checkRequest S L sg body = Inr a \<longleftrightarrow>
     (\<exists>req b. rl_DecodeRequest L (take MaxRequestBytes body) = Inr req \<and> rr_Version req = Version \<and>
        rr_Address req = sg_Address sg \<and> decodeBase64 (rr_Preimage req) = Inr b \<and>
        rl_Preimage_UnmarshalBinary L b = Inr (ap_Preimage a) \<and> decodeHex (rr_Payload req) = Inr (ap_Payload a) \<and>
        length (ap_Payload a) = 32 \<and> Payload S (ap_Preimage a) = Inr (ap_Payload a) \<and> ap_Address a = sg_Address sg)"
  by (cases a) (auto simp: checkRequest_def bindE_Inr_iff if_Inl_iff)

lemma checkRequest_Inl: "checkRequest S L sg body = Inl (status, message) \<Longrightarrow> status = 400"
  by (auto simp: checkRequest_def bindE_Inl_iff refuseE_def split: if_splits sum.splits)

lemma writeJSON_select [simp]:
  "rs_StatusCode (writeJSON L hs status body) = status" "rs_StatusCode (writeError L status message) = status"
  "rs_Body (writeJSON L hs status body) = rl_EncodeResponse L body" "rs_ReadError (writeJSON L hs status body) = None"
  by (simp_all add: writeJSON_def writeError_def)

lemma signResponse_status:
  "rs_StatusCode (signResponse S L result) =
     (if \<exists>v t. result = Inr v \<and> ScVal_MarshalBase64 S v = Inr t then 200 else 500)"
  by (auto simp: signResponse_def split: sum.splits)

section \<open>The wire\<close>

text \<open>
  What is relied on about the codecs, for the values of one call: JSON reads back what it wrote
  within the limit on both sides, and the signature's XDR reads back from its base64 text.
\<close>

definition request_roundtrips :: "remoteLib \<Rightarrow> Request \<Rightarrow> bool" where
  "request_roundtrips L req \<longleftrightarrow>
     (\<exists>b. rl_MarshalRequest L req = Inr b \<and> length b \<le> MaxRequestBytes \<and> rl_DecodeRequest L b = Inr req)"

definition response_roundtrips :: "remoteLib \<Rightarrow> Response \<Rightarrow> bool" where
  "response_roundtrips L resp \<longleftrightarrow>
     length (rl_EncodeResponse L resp) \<le> MaxRequestBytes \<and> rl_DecodeResponse L (rl_EncodeResponse L resp) None = Inr resp"

definition wirePreimage :: "remoteLib \<Rightarrow> HashIdPreimage \<Rightarrow> string \<Rightarrow> bool" where
  "wirePreimage L p t \<longleftrightarrow>
     (\<exists>b. rl_Preimage_MarshalBase64 L p = Inr t \<and> t = base64_EncodeToString b \<and> rl_Preimage_UnmarshalBinary L b = Inr p)"

definition wireSignature :: "sdk \<Rightarrow> remoteLib \<Rightarrow> ScVal \<Rightarrow> bool" where
  "wireSignature S L v \<longleftrightarrow>
     (\<exists>b. ScVal_MarshalBase64 S v = Inr (base64_EncodeToString b) \<and> rl_ScVal_UnmarshalBinary L b = Inr v \<and>
        response_roundtrips L \<lparr>rp_Version = Version, rp_Signature = base64_EncodeToString b, rp_Error = []\<rparr>)"

lemma readResponse_refused:
  "rs_StatusCode response \<noteq> 200 \<Longrightarrow> readResponse L response \<noteq> Inr v"
  by (simp add: readResponse_def bindE_Inr_iff)

lemma readResponse_signed:
  "wireSignature S L v \<Longrightarrow> readResponse L (signResponse S L (Inr v)) = Inr v"
  by (auto simp: wireSignature_def response_roundtrips_def signResponse_def readResponse_def)

lemma readResponse_signResponse:
  assumes "\<And>v. result = Inr v \<Longrightarrow> wireSignature S L v"
  shows "readResponse L (signResponse S L result) = Inr v \<longleftrightarrow> result = Inr v"
proof (cases result)
  case (Inl e)
  then show ?thesis using readResponse_refused [of "signResponse S L result"] by (simp add: signResponse_status)
next
  case (Inr w)
  then show ?thesis using readResponse_signed [OF assms] by simp
qed

end
