(* ===== verification/Device_Properties.thy ===== *)
theory Device_Properties
  imports Ledger Vault Remote Sample_Sdk
begin

text \<open>
  The key stores outside the process: what the Ledger signer sends to the device, when it ends
  and what its answer means.
\<close>

section \<open>The Ledger signer\<close>

text \<open>
  C34: the Ledger signer answers with a signature the device made over this very preimage. When
  \<open>Sign\<close> succeeds, the commands it sent are well-formed chunks out of which the device reads
  the derivation path followed by the whole XDR of the preimage, the payload is the hash of those
  bytes, and the value returned is the classic signature of the key the device reported when the
  session was opened, 64 bytes the device gave in answer to the last command and that key
  verifies; the signer's address is the one of that key.
\<close>

theorem ledger_sign_sound:
  assumes "NewLedgerSigner S transport opts = Inr s"
    and "ledgerSign S s ctx preimage payload = (sent, Inr v)"
  shows "\<exists>t key x signature. transport = Some t \<and> Preimage_MarshalBinary S preimage = Inr x \<and> payload = sha256_Sum256 S x \<and>
    deviceReads True sent = Some (ledgerEncodePath (ls_path s) @ x) \<and>
    exchange t (butlast sent) (last sent) = Inr signature \<and> length signature = 64 \<and>
    exchange t [] (ledgerBuildGetPubKeyAPDU (ls_path s)) = Inr key \<and> strkey_Encode S VersionByteAccountID key = Inr (ls_address s) \<and>
    ed25519_Verify S key payload signature \<and> v = scVec [accountSignature key signature]"
proof -
  obtain t key where opened: "transport = Some t" "ls_transport s = Some t" "ls_rawKey s = Some key"
    "strkey_Encode S VersionByteAccountID key = Inr (ls_address s)"
    "exchange t [] (ledgerBuildGetPubKeyAPDU (ls_path s)) = Inr key"
    using assms(1) by (rule NewLedgerSigner_Inr)
  obtain rawKey x signature where signs: "ls_rawKey s = Some rawKey" "Preimage_MarshalBinary S preimage = Inr x"
    "payload = sha256_Sum256 S x" "signPreimage s x = (sent, Inr signature)" "length signature = 64"
    "ed25519_Verify S rawKey payload signature" "v = scVec [accountSignature rawKey signature]"
    using assms(2) by (rule ledgerSign_Inr)
  from signPreimage_reads(3) [OF signs(4) refl] opened signs show ?thesis by auto
qed

text \<open>A device with one key, which signs whatever fits in one command.\<close>

definition sampleDevice :: LedgerTransport where
  "sampleDevice sent apdu =
     Inr ((if apdu ! 1 = ledgerINSGetPubKey then keyOf 1 else keyOf 1 @ keyOf (last apdu)) @ [0x90, 0x00])"

definition sampleLedger :: LedgerSigner where
  "sampleLedger = \<lparr>ls_transport = Some sampleDevice, ls_path = ledgerPath 0, ls_address = ''GA'', ls_rawKey = Some (keyOf 1)\<rparr>"

lemma sample_exchange:
  "exchange sampleDevice sent apdu = Inr (if apdu ! 1 = ledgerINSGetPubKey then keyOf 1 else keyOf 1 @ keyOf (last apdu))"
  by (simp add: exchange_def sampleDevice_def ledgerStatus_def ledgerSWOK_def bigEndian_def Let_def)

lemma sample_opens: "NewLedgerSigner sampleSdk (Some sampleDevice) [] = Inr sampleLedger"
  by (simp add: NewLedgerSigner_def sample_exchange ledgerBuildGetPubKeyAPDU_def ledgerBuildAPDU_def Let_def
      ed25519_PublicKeySize_def sampleLedger_def sampleSdk_def sample_defs)

lemma sample_device_signs:
  "\<exists>sent. ledgerSign sampleSdk sampleLedger None (preimageBound (accountAddress (keyOf 1))) (keyOf 1) =
     (sent, Inr (scVec [accountSignature (keyOf 1) (keyOf 1 @ keyOf 1)]))"
proof -
  have "chunkLoop sampleDevice (ledgerEncodePath (ledgerPath 0)) [1] 0 [] =
      ([chunkAPDU (ledgerEncodePath (ledgerPath 0)) [1] 0 1], Inr (keyOf 1 @ keyOf 1))"
    by (simp add: chunkLoop.simps chunkCapacity_def maxLedgerAPDUData_def sample_exchange chunkAPDU_def ledgerBuildAPDU_def
        ledgerINSSignSoroban_def ledgerINSGetPubKey_def)
  then show ?thesis
    by (simp add: ledgerSign_def sampleLedger_def signPreimage_def ed25519_SignatureSize_def) (simp add: sampleSdk_def tableSdk_def keyOf_def)
qed

theorem ledger_sign_sound_witness:
  "\<exists>sent. deviceReads True sent = Some (ledgerEncodePath (ledgerPath 0) @ [1])"
proof -
  from sample_device_signs obtain sent where
    "ledgerSign sampleSdk sampleLedger None (preimageBound (accountAddress (keyOf 1))) (keyOf 1) =
      (sent, Inr (scVec [accountSignature (keyOf 1) (keyOf 1 @ keyOf 1)]))" ..
  from ledger_sign_sound [OF sample_opens this] show ?thesis by (auto simp: sampleLedger_def)
qed

text \<open>
  C35: a signing call ends whatever the device does. For every transport, however it answers, a
  signer \<open>NewLedgerSigner\<close> returned sends at most one command for the first 227 bytes of the
  preimage's XDR and one for each further 240, none of more than 245 bytes; and it sends nothing
  at all unless the payload is the hash of that XDR.
\<close>

theorem ledger_sign_terminates:
  assumes "NewLedgerSigner S transport opts = Inr s" "Preimage_MarshalBinary S preimage = Inr x"
    "ledgerSign S s ctx preimage payload = (sent, result)"
  shows "length sent \<le> 1 + (length x - 227 + 239) div 240 \<and> (\<forall>apdu\<in>set sent. length apdu \<le> 245) \<and>
    (sent = [] \<or> ctx = None \<and> payload = sha256_Sum256 S x)"
proof -
  obtain i where "ls_path s = ledgerPath i" using assms(1) by (rule NewLedgerSigner_Inr)
  then have path: "length (ledgerEncodePath (ls_path s)) = 13" by simp
  show ?thesis
  proof (cases "sent = []")
    case True
    then show ?thesis by simp
  next
    case False
    with assms(3) obtain r where r: "ctx = None" "payload = sha256_Sum256 S x" "signPreimage s x = (sent, r)"
      using assms(2) by (auto elim: ledgerSign_sends)
    from signPreimage_reads(1,2) [OF r(3)] show ?thesis
      using r(1,2) by (auto simp: chunkCount_first [OF path])
  qed
qed

theorem ledger_sign_terminates_witness:
  "length (fst (ledgerSign sampleSdk sampleLedger None (preimageBound (accountAddress (keyOf 1))) (keyOf 1))) \<le> 1"
  using ledger_sign_terminates [OF sample_opens sample_preimages(2) prod.collapse [symmetric], of None "keyOf 1"] by simp

section \<open>The Vault signer\<close>

text \<open>
  What Vault signs for an entry verifies under the configured account. \<open>NewVaultSigner\<close>
  accepts only a transit key whose address is the configured one, and when \<open>AuthorizeEntry\<close>
  succeeds with the signer it returned, \<open>VerifyEntry\<close> reports every node of that account as
  verified: a signature Vault made with another version of the key, or over other bytes, is never
  written into an entry.
\<close>

lemma vault_signed_then_verified:
  assumes "NewVaultSigner S L cfg = Inr s"
    and "authorized S None e (Some (vaultSigner S (L, s))) v net [] = Inr e'"
    and "cr_Type (en_Credentials e) \<noteq> CredentialsSourceAccount" and "entry_roundtrips S e"
    and "\<And>raw. strkey_Encode S VersionByteAccountID raw = Inr (vc_Address cfg) \<Longrightarrow>
      strkey_DecodeAny S (vc_Address cfg) = Inr (VersionByteAccountID, raw) \<and> address_roundtrips S (accountAddress raw)"
    and "\<And>k m sig. ed25519_Verify S k m sig \<Longrightarrow> length k = 32 \<Longrightarrow> length sig = 64"
    and "credentialNodes S e = Inr nodes"
    and "\<And>a. addressCredentials (en_Credentials e) = Inr a \<Longrightarrow> isOk (FormatAddress S (ac_Address a))"
    and "\<forall>c \<in> set nodes. isOk (formatAddressBytes S (cn_encoded c))"
  shows "\<exists>raw enc r. strkey_DecodeAny S (vc_Address cfg) = Inr (VersionByteAccountID, raw) \<and>
     ScAddress_MarshalBinary S (accountAddress raw) = Inr enc \<and> VerifyEntry S e' net = Inr r \<and>
     list_all2 (\<lambda>c nv. cn_encoded c = enc \<longrightarrow> nv_Verdict nv = VerdictVerified) nodes (vr_Nodes r)"
proof -
  obtain raw where s: "vs_rawKey s = Some raw" "length raw = 32" "strkey_Encode S VersionByteAccountID raw = Inr (vc_Address cfg)"
    "vs_address s = vc_Address cfg"
    using assms(1) by (rule NewVaultSigner_Inr)
  have "vaultKey S (L, s) raw" using s(1,2) assms(6) by (simp add: vaultKey_def)
  moreover have "strkey_DecodeAny S (sg_Address (vaultSigner S (L, s))) = Inr (VersionByteAccountID, raw)"
    using assms(5) [OF s(3)] s(4) by (simp add: vaultSigner_def)
  ultimately have "\<exists>enc r. ScAddress_MarshalBinary S (accountAddress raw) = Inr enc \<and> VerifyEntry S e' net = Inr r \<and>
     list_all2 (\<lambda>c nv. cn_encoded c = enc \<longrightarrow> nv_Verdict nv = VerdictVerified) nodes (vr_Nodes r)"
    by (rule vault.signed_then_verified [OF assms(2-4) _ _ _ assms(7-9)]) (use assms(5) [OF s(3)] in blast)
  then show ?thesis using assms(5) [OF s(3)] by blast
qed

text \<open>A Vault with the key of \<open>GA\<close>, which signs the payloads of the sample entries.\<close>

definition sampleVault :: httpClient where
  "sampleVault request = Inr \<lparr>rs_StatusCode = 200, rs_Status = ''200 OK'', rs_Header = [],
     rs_Body = (if rq_Method request = ''GET'' then [] else rq_Body request), rs_ReadError = None\<rparr>"

definition sampleVaultLib :: vaultLib where
  "sampleVaultLib =
     \<lparr>vl_Parse = (\<lambda>s. Inr \<lparr>ur_Scheme = ''https'', ur_Host = ''vault'', ur_Path = ''''\<rparr>), vl_String = ur_Path,
      vl_NewRequest = (\<lambda>m u. None),
      vl_MarshalInput = (\<lambda>t. Inr (case base64_DecodeString t of None \<Rightarrow> [] | Some b \<Rightarrow> b)),
      vl_KeyResponse = (\<lambda>b. Inr \<lparr>vk_Type = ''ed25519'', vk_LatestVersion = 1,
         vk_Keys = [(''1'', Some (base64_EncodeToString (keyOf 1)))]\<rparr>),
      vl_SignResponse = (\<lambda>b. Inr (''vault:v1:'' @ base64_EncodeToString (keyOf 1 @ b))), vl_DefaultClient = sampleVault\<rparr>"

definition sampleVaultConfig :: VaultConfig where
  "sampleVaultConfig = \<lparr>vc_BaseURL = ''https://vault'', vc_Token = ''t'', vc_Mount = '''', vc_KeyName = ''k'', vc_Address = ''GA'',
     vc_HTTPClient = None\<rparr>"

definition sampleVaultSigner :: VaultSigner where
  "sampleVaultSigner = \<lparr>vs_baseURL = \<lparr>ur_Scheme = ''https'', ur_Host = ''vault'', ur_Path = ''''\<rparr>, vs_token = ''t'',
     vs_mount = ''transit'', vs_keyName = ''k'', vs_address = ''GA'', vs_client = sampleVault, vs_rawKey = Some (keyOf 1)\<rparr>"

lemma char_one: "char_of (49 :: nat) = CHR ''1''"
  by code_simp

lemma sample_vault_opens: "NewVaultSigner sampleSdk sampleVaultLib sampleVaultConfig = Inr sampleVaultSigner"
proof -
  have "latestPublicKey [(''1'', Some (base64_EncodeToString (keyOf 1)))] 1 = Inr (keyOf 1)"
    by (simp add: latestPublicKey_Inr_iff currentVersion_def itoa_int_def itoa.simps Atoi_def ParseInt64_def Let_def digitVal_def char_one)
  then show ?thesis
    by (simp add: NewVaultSigner_def sampleVaultConfig_def sampleVaultLib_def readPublicKey_def vaultDo_def vaultRequest_def
        sampleVault_def readLimited_def maxVaultResponseBytes_def checkAddress_def rawEd25519Key_def defaultVaultMount_def
        sampleVaultSigner_def sampleSdk_def sample_defs Let_def)
qed

lemma sample_vault_signs:
  assumes "Payload sampleSdk p = Inr (keyOf i)"
  shows "sg_Sign (vaultSigner sampleSdk (sampleVaultLib, sampleVaultSigner)) None p (keyOf i) = Inr (sampleSignature i)"
proof -
  have "vaultDo sampleVaultLib sampleVaultSigner ''POST'' path (Some (base64_EncodeToString (keyOf i))) e = Inr (keyOf i)" for path e
    by (simp add: vaultDo_def vaultRequest_def sampleVaultLib_def sampleVaultSigner_def sampleVault_def readLimited_def
        maxVaultResponseBytes_def Let_def)
  moreover have "decodeVaultSignature (''vault:v1:'' @ base64_EncodeToString b) = Inr b" for b
    using decodeVaultSignature_encode [of "''vault:v1''"] by simp
  ultimately show ?thesis
    using assms by (simp add: vaultSigner_def vaultSign_def)
      (simp add: sampleVaultLib_def sampleVaultSigner_def sampleSdk_def tableSdk_def sampleSignature_def)
qed

lemma sample_vault_authorizes:
  "authorized sampleSdk None entryV2 (Some (vaultSigner sampleSdk (sampleVaultLib, sampleVaultSigner))) 100 sampleNetwork [] =
     Inr (signedEntry sampleSdk (0 # keyOf 1) (sampleSignature 1) 100 entryV2)"
proof (rule AuthorizeEntry_fresh [OF copyEntry_id [OF sample_roundtrips(3)] sample_credentials(2) _ _ _
      sample_nodes(2) _ _ sample_builds(2) sample_payloads(2) sample_vault_signs [OF sample_payloads(2)]])
  show "resolveTarget sampleSdk zeroConfig (vaultSigner sampleSdk (sampleVaultLib, sampleVaultSigner)) = Inr (''GA'', 0 # keyOf 1)"
    by (simp add: resolveTarget_def zeroConfig_def addressBytes_def vaultSigner_def sampleVaultSigner_def)
qed simp_all

section \<open>The remote protocol\<close>

text \<open>
  The reference server signs only what it has checked and shown. Whatever the request, either
  the signer is not called, nothing is approved and the answer is a refusal, or: the request was a
  POST to \<open>/sign\<close> for this signer's address at this protocol version, the preimage signed is the
  one it carried, the payload signed is the 32-byte hash of that preimage's XDR, the approver saw
  exactly these before the one call to the signer, and the answer is 200 exactly when the signer
  answered with a value that has an encoding.
\<close>

lemma remote_server_checks:
  assumes "ServeHTTP S L server hasApprover ctx r = (events, response)"
  shows "events = [] \<and> rs_StatusCode response \<in> {400, 404, 405, 500} \<or>
    (\<exists>sg req b p h x. server = Some (Some sg) \<and> rq_Path r = ''/sign'' \<and> rq_Method r = ''POST'' \<and>
      rl_DecodeRequest L (take MaxRequestBytes (rq_Body r)) = Inr req \<and> rr_Version req = 1 \<and> rr_Address req = sg_Address sg \<and>
      base64_DecodeString (rr_Preimage req) = Some b \<and> rl_Preimage_UnmarshalBinary L b = Inr p \<and>
      hex_DecodeString (rr_Payload req) = Some h \<and> length h = 32 \<and>
      Preimage_MarshalBinary S p = Inr x \<and> h = sha256_Sum256 S x \<and>
      events = (if hasApprover then [Approves \<lparr>ap_Address = sg_Address sg, ap_Preimage = p, ap_Payload = h\<rparr>] else []) @ [SignCall p h] \<and>
      rs_StatusCode response = (if \<exists>v t. sg_Sign sg ctx p h = Inr v \<and> ScVal_MarshalBase64 S v = Inr t then 200 else 500))"
proof (cases "\<exists>sg a. server = Some (Some sg) \<and> rq_Path r = Path \<and> rq_Method r = ''POST'' \<and> checkRequest S L sg (rq_Body r) = Inr a")
  case True
  then obtain sg a where sg: "server = Some (Some sg)" "rq_Path r = Path" "rq_Method r = ''POST''" "checkRequest S L sg (rq_Body r) = Inr a"
    by blast
  then have "events = (if hasApprover then [Approves a] else []) @ [SignCall (ap_Preimage a) (ap_Payload a)]"
    "rs_StatusCode response = (if \<exists>v t. sg_Sign sg ctx (ap_Preimage a) (ap_Payload a) = Inr v \<and> ScVal_MarshalBase64 S v = Inr t then 200 else 500)"
    using assms by (auto simp: ServeHTTP_def signResponse_status)
  then show ?thesis
    using sg by (cases a) (fastforce simp: checkRequest_Inr_iff Path_def Version_def decodeBase64_def decodeHex_def Payload_Inr_iff
        split: option.splits)
next
  case False
  then show ?thesis
    using assms by (auto simp: ServeHTTP_def NotFound_def dest: checkRequest_Inl split: if_splits option.splits sum.splits)
qed

text \<open>
  C36: signing through the server is signing locally. A client of the reference server, asked to
  sign a preimage with its payload, returns a value exactly when the server's signer returns that
  value for them; this rests on the codecs reading back what they wrote within the size limit.
\<close>

theorem remote_equals_local:
  assumes "rm_client s = (\<lambda>r. Inr (snd (ServeHTTP S L (Some (Some sg)) hasApprover serverCtx r)))"
    and "rl_URLPath L (rm_url s) = Inr ''/sign''" and "rm_address s = sg_Address sg" "sg_Address sg \<noteq> []"
    and "Payload S p = Inr h" "length h = 32" "wirePreimage L p t"
    and "request_roundtrips L \<lparr>rr_Version = 1, rr_Address = sg_Address sg, rr_Preimage = t, rr_Payload = hex h\<rparr>"
    and "\<And>v. sg_Sign sg serverCtx p h = Inr v \<Longrightarrow> wireSignature S L v"
  shows "sg_Sign (NewRemote L s) None p h = Inr v \<longleftrightarrow> sg_Sign sg serverCtx p h = Inr v"
proof -
  let ?req = "\<lparr>rr_Version = 1, rr_Address = sg_Address sg, rr_Preimage = t, rr_Payload = hex h\<rparr>"
  obtain body where body: "rl_MarshalRequest L ?req = Inr body" "length body \<le> MaxRequestBytes" "rl_DecodeRequest L body = Inr ?req"
    using assms(8) by (auto simp: request_roundtrips_def)
  have "checkRequest S L sg body = Inr \<lparr>ap_Address = sg_Address sg, ap_Preimage = p, ap_Payload = h\<rparr>"
    using body(2,3) assms(5-7) by (auto simp: checkRequest_Inr_iff wirePreimage_def Version_def)
  then have "sg_Sign (NewRemote L s) None p h = readResponse L (signResponse S L (sg_Sign sg serverCtx p h))"
    using assms(1-4,7) body(1) by (auto simp: NewRemote_def remoteSign_def wirePreimage_def Version_def Path_def ServeHTTP_def)
  then show ?thesis using readResponse_signResponse [OF assms(9)] by simp
qed

text \<open>A wire on which one preimage and one signature travel.\<close>

definition wireSdk :: sdk where
  "wireSdk = sampleSdk\<lparr>ScVal_MarshalBase64 := (\<lambda>v. Inr (base64_EncodeToString [1]))\<rparr>"

definition wireRequest :: Request where
  "wireRequest = \<lparr>rr_Version = 1, rr_Address = ''GA'', rr_Preimage = base64_EncodeToString [1], rr_Payload = hex (keyOf 1)\<rparr>"

definition wireLib :: remoteLib where
  "wireLib =
     \<lparr>rl_Preimage_MarshalBase64 = (\<lambda>p. Inr (base64_EncodeToString [1])),
      rl_Preimage_UnmarshalBinary = (\<lambda>b. Inr (preimageBound (accountAddress (keyOf 1)))),
      rl_ScVal_UnmarshalBinary = (\<lambda>b. Inr (sampleSignature 1)), rl_MarshalRequest = (\<lambda>r. Inr []),
      rl_DecodeRequest = (\<lambda>b. Inr wireRequest), rl_EncodeResponse = (\<lambda>r. []),
      rl_DecodeResponse = (\<lambda>b e. Inr \<lparr>rp_Version = 1, rp_Signature = base64_EncodeToString [1], rp_Error = []\<rparr>),
      rl_URLPath = (\<lambda>u. Inr ''/sign''), rl_StatusText = (\<lambda>n. ''OK'')\<rparr>"

definition wireClient :: remoteSigner where
  "wireClient = NewSigner (\<lambda>r. Inr (snd (ServeHTTP wireSdk wireLib (Some (Some sampleSigner)) True None r))) ''http://host/'' ''GA'' []"

lemma wire_payload: "Payload wireSdk (preimageBound (accountAddress (keyOf 1))) = Inr (keyOf 1)"
  using sample_payloads(2) by (simp add: wireSdk_def Payload_Inr_iff)

theorem remote_equals_local_witness:
  "sg_Sign (NewRemote wireLib wireClient) None (preimageBound (accountAddress (keyOf 1))) (keyOf 1) = Inr (sampleSignature 1)"
proof -
  have "sg_Sign (NewRemote wireLib wireClient) None (preimageBound (accountAddress (keyOf 1))) (keyOf 1) = Inr (sampleSignature 1) \<longleftrightarrow>
      sg_Sign sampleSigner None (preimageBound (accountAddress (keyOf 1))) (keyOf 1) = Inr (sampleSignature 1)"
    by (rule remote_equals_local [where S = wireSdk and hasApprover = True and t = "base64_EncodeToString [1]", OF _ _ _ _ wire_payload])
      (auto simp: wireClient_def NewSigner_def wireLib_def wirePreimage_def request_roundtrips_def wireRequest_def wireSignature_def
        response_roundtrips_def MaxRequestBytes_def Version_def wireSdk_def simp del: base64_EncodeToString.simps)
  then show ?thesis by simp
qed

end
