(* ===== verification/Custody.thy ===== *)
theory Custody
  imports Key_Store Http
begin

text \<open>
  The signers of custody services: \<^verbatim>\<open>src/adapters/awskms\<close>, \<^verbatim>\<open>src/adapters/gcpkms\<close>,
  \<^verbatim>\<open>src/turnkey\<close> and \<^verbatim>\<open>src/fireblocks\<close>. The services, their SDKs, the URL parser, the JSON
  codecs and the clock are parameters; a connection sees the time through the header that carries
  it. Fireblocks' wait for an approval is a run over the events its select statement receives.
\<close>

section \<open>Cloud KMS\<close>

text \<open>
  A client that is nil, also behind an interface, is \<open>None\<close>. A client returns the signature, and
  AWS' may return a nil output.
\<close>

definition notAccountAddress :: "string \<Rightarrow> string" where
  "notAccountAddress address = strconv_Quote address @ '' is not an account (G'' @ [CHR 0xE2, CHR 0x80, CHR 0xA6] @ '') address''"

record 'client kmsSigner =
  ks_address :: string
  ks_key :: string
  ks_client :: 'client
  ks_rawPublicKey :: bytes

type_synonym awsClient = "string \<Rightarrow> bytes \<Rightarrow> gerr + bytes option"
type_synonym gcpClient = "string \<Rightarrow> bytes \<Rightarrow> gerr + bytes"

definition awskms_NewSigner :: "sdk \<Rightarrow> string \<Rightarrow> string \<Rightarrow> awsClient option \<Rightarrow> gerr + awsClient kmsSigner" where
  "awskms_NewSigner S address keyID client =
     (case client of None \<Rightarrow> Inl (errw ''awskms: new signer'' (Sentinel ErrMissingSigner))
      | Some c \<Rightarrow>
          if keyID = [] then Inl (errw ''awskms: new signer: key id is empty'' (Sentinel ErrMissingSigner))
          else bindE (wrapE (''awskms: new signer: '' @ notAccountAddress address) (strkey_Decode S VersionByteAccountID address)) (\<lambda>raw.
            Inr \<lparr>ks_address = address, ks_key = keyID, ks_client = c, ks_rawPublicKey = raw\<rparr>))"

definition awskms_Sign :: "sdk \<Rightarrow> awsClient kmsSigner \<Rightarrow> ctx \<Rightarrow> HashIdPreimage \<Rightarrow> bytes \<Rightarrow> gerr + ScVal" where
  "awskms_Sign S s ctx preimage payload =
     (case ctx of Some err \<Rightarrow> Inl (errw ''awskms: sign'' err)
      | None \<Rightarrow>
        bindE (wrapE ''awskms: sign'' (ks_client s (ks_key s) payload)) (\<lambda>out.
        let got = (case out of None \<Rightarrow> 0 | Some signature \<Rightarrow> length signature) in
        if out = None \<or> got \<noteq> ed25519_SignatureSize
        then Inl (errw (''awskms: sign: KMS returned a '' @ itoa got @ ''-byte signature, want '' @ itoa ed25519_SignatureSize)
               (Sentinel ErrSignatureMismatch))
        else if \<not> ed25519_Verify S (ks_rawPublicKey s) payload (the out)
        then Inl (errw ''awskms: sign'' (Sentinel ErrSignatureMismatch))
        else wrapE ''awskms: sign'' (Ed25519SignatureScVal (ks_rawPublicKey s) (the out))))"

definition gcpkms_NewSigner :: "sdk \<Rightarrow> string \<Rightarrow> string \<Rightarrow> gcpClient option \<Rightarrow> gerr + gcpClient kmsSigner" where
  "gcpkms_NewSigner S address keyVersion client =
     (case client of None \<Rightarrow> Inl (errw (''gcpkms: new signer: '' @ address) (Sentinel ErrMissingSigner))
      | Some c \<Rightarrow>
          if keyVersion = [] then Inl (errw ''gcpkms: new signer: key version is empty'' (Sentinel ErrMissingSigner))
          else bindE (wrapE (''gcpkms: new signer: '' @ notAccountAddress address) (strkey_Decode S VersionByteAccountID address)) (\<lambda>raw.
            Inr \<lparr>ks_address = address, ks_key = keyVersion, ks_client = c, ks_rawPublicKey = raw\<rparr>))"

definition gcpkms_Sign :: "sdk \<Rightarrow> gcpClient kmsSigner \<Rightarrow> ctx \<Rightarrow> HashIdPreimage \<Rightarrow> bytes \<Rightarrow> gerr + ScVal" where
  "gcpkms_Sign S s ctx preimage payload =
     (case ctx of Some err \<Rightarrow> Inl (errw ''gcpkms: sign'' err)
      | None \<Rightarrow>
        bindE (wrapE ''gcpkms: sign'' (ks_client s (ks_key s) payload)) (\<lambda>signature.
        if length signature \<noteq> ed25519_SignatureSize
        then Inl (errw (''gcpkms: sign: KMS returned a '' @ itoa (length signature) @ ''-byte signature, want '' @ itoa ed25519_SignatureSize)
               (Sentinel ErrSignatureMismatch))
        else if \<not> ed25519_Verify S (ks_rawPublicKey s) payload signature
        then Inl (errw ''gcpkms: sign'' (Sentinel ErrSignatureMismatch))
        else wrapE ''gcpkms: sign'' (Ed25519SignatureScVal (ks_rawPublicKey s) signature)))"

definition awsSigner :: "sdk \<Rightarrow> awsClient kmsSigner \<Rightarrow> signer" where
  "awsSigner S s = \<lparr>sg_Address = ks_address s, sg_Sign = awskms_Sign S s\<rparr>"

definition gcpSigner :: "sdk \<Rightarrow> gcpClient kmsSigner \<Rightarrow> signer" where
  "gcpSigner S s = \<lparr>sg_Address = ks_address s, sg_Sign = gcpkms_Sign S s\<rparr>"

section \<open>What the HTTP clients share\<close>

record custodyLib =
  cl_Parse :: "string \<Rightarrow> gerr + parsedURL"
  cl_String :: "parsedURL \<Rightarrow> string"
  cl_NewRequest :: "string \<Rightarrow> string \<Rightarrow> gerr option"
  cl_Marshal :: "json \<Rightarrow> gerr + bytes"
  cl_DefaultClient :: httpClient

definition maxCustodyResponse :: nat where
  "maxCustodyResponse = 2 ^ 20"

text \<open>
  The request of a \<open>do\<close> method: the path replaces the path of the base URL, and the header is
  computed from the encoded body.
\<close>

definition custodyRequest ::
  "'a custodyLib_scheme \<Rightarrow> string \<Rightarrow> parsedURL \<Rightarrow> (bytes \<Rightarrow> (string \<times> string) list) \<Rightarrow> string \<Rightarrow> string \<Rightarrow> json option \<Rightarrow> gerr + httpRequest" where
  "custodyRequest L name baseURL header method path body =
     bindE (case body of None \<Rightarrow> Inr [] | Some v \<Rightarrow> wrapE (name @ '': encode request'') (cl_Marshal L v)) (\<lambda>encoded.
     let endpoint = baseURL\<lparr>ur_Path := path\<rparr> in
     case cl_NewRequest L method (cl_String L endpoint) of
       Some err \<Rightarrow> Inl (errw (name @ '': build request'') err)
     | None \<Rightarrow> Inr \<lparr>rq_Method = method, rq_URL = cl_String L endpoint, rq_Path = path, rq_Header = header encoded, rq_Body = encoded\<rparr>)"

definition custodyAnswer :: "string \<Rightarrow> string \<Rightarrow> string \<Rightarrow> string \<Rightarrow> gerr + httpResponse \<Rightarrow> gerr + bytes" where
  "custodyAnswer name notFound method path answer =
     bindE (wrapE (name @ '': do request'') answer) (\<lambda>response.
     bindE (wrapE (name @ '': read response'') (readLimited maxCustodyResponse (rs_Body response) (rs_ReadError response))) (\<lambda>respBody.
     let code = rs_StatusCode response; where = name @ '': '' @ method @ '' '' @ path @ '': HTTP '' @ itoa code in
     if 200 \<le> code \<and> code < 300 then Inr respBody
     else if code = 401 \<or> code = 403 then Inl (errw where (Sentinel ErrVaultUnauthorized))
     else if code = 404 then Inl (errmsg (where @ '': '' @ notFound))
     else Inl (errmsg (where @ '': '' @ textOf respBody))))"

definition equal32 :: "bytes \<Rightarrow> bytes \<Rightarrow> bool" where
  "equal32 a b = list_all (\<lambda>i. a ! i = b ! i) [0..<32]"

lemma equal32_iff: "length a = 32 \<Longrightarrow> length b = 32 \<Longrightarrow> equal32 a b \<longleftrightarrow> a = b"
  by (auto simp: equal32_def list_all_iff list_eq_iff_nth_eq)

text \<open>The check that a public key derives the configured address.\<close>

definition custodyAddress :: "sdk \<Rightarrow> string \<Rightarrow> string \<Rightarrow> string \<Rightarrow> bytes \<Rightarrow> gerr + bytes" where
  "custodyAddress S name key address raw =
     (if length raw \<noteq> ed25519_PublicKeySize
      then Inl (errmsg (name @ '': public key is '' @ itoa (length raw) @ '' bytes, want '' @ itoa ed25519_PublicKeySize))
      else bindE (wrapE (name @ '': encode public key address'') (strkey_Encode S VersionByteAccountID raw)) (\<lambda>derived.
        if derived \<noteq> address
        then Inl (errw (name @ '': '' @ key @ '' derives '' @ derived @ '', configured address is '' @ address)
               (Sentinel ErrSignerAddressMismatch))
        else Inr raw))"

lemma custodyAddress_Inr_iff:
  "custodyAddress S name key address raw = Inr k \<longleftrightarrow>
     k = raw \<and> length raw = 32 \<and> strkey_Encode S VersionByteAccountID raw = Inr address"
  by (auto simp: custodyAddress_def bindE_Inr_iff ed25519_PublicKeySize_def)

section \<open>Turnkey\<close>

definition defaultTurnkeyBaseURL :: string where
  "defaultTurnkeyBaseURL = ''https://api.turnkey.com''"

definition ErrPolicyDenied :: gerr where
  "ErrPolicyDenied = errmsg ''turnkey: signing denied by policy''"

record TurnkeyConfig =
  tc_BaseURL :: string
  tc_OrganizationID :: string
  tc_PrivateKey :: string
  tc_PublicKey :: string
  tc_KeyID :: string
  tc_Address :: string
  tc_HTTPClient :: "httpClient option"

record TurnkeySigner =
  ts_baseURL :: parsedURL
  ts_organizationID :: string
  ts_privateKey :: bytes
  ts_publicKey :: bytes
  ts_keyID :: string
  ts_address :: string
  ts_client :: httpClient
  ts_rawPublicKey :: "bytes option"

record turnkeyKey =
  tk_Type :: string
  tk_PublicKey :: string
  tk_Curve :: string

record turnkeyActivity =
  ta_Status :: string
  ta_Signature :: string
  ta_Error :: "(string \<times> string) option"

record turnkeyLib = custodyLib +
  tl_KeyResponse :: "bytes \<Rightarrow> gerr + turnkeyKey"
  tl_ActivityResponse :: "bytes \<Rightarrow> gerr + turnkeyActivity"

text \<open>The requests carry no authentication beside the time.\<close>

definition turnkeyHeader :: "int \<Rightarrow> (string \<times> string) list" where
  "turnkeyHeader now = [(''Content-Type'', ''application/json''), (''X-Stamp'', itoa_int now)]"

definition turnkeyDo :: "turnkeyLib \<Rightarrow> int \<Rightarrow> TurnkeySigner \<Rightarrow> string \<Rightarrow> string \<Rightarrow> json option \<Rightarrow> gerr + bytes" where
  "turnkeyDo L now s method path body =
     bindE (custodyRequest L ''turnkey'' (ts_baseURL s) (\<lambda>_. turnkeyHeader now) method path body) (\<lambda>req.
       custodyAnswer ''turnkey'' ''key not found'' method path (ts_client s req))"

definition turnkeyVerifyKey :: "sdk \<Rightarrow> turnkeyLib \<Rightarrow> int \<Rightarrow> TurnkeySigner \<Rightarrow> gerr + bytes" where
  "turnkeyVerifyKey S L now s =
     bindE (wrapE ''turnkey: get key'' (turnkeyDo L now s ''GET'' (''/api/v1/keys/'' @ ts_keyID s) None)) (\<lambda>resp.
     bindE (wrapE ''turnkey: decode key response'' (tl_KeyResponse L resp)) (\<lambda>key.
     if tk_Curve key \<noteq> ''ED25519'' \<and> tk_Type key \<noteq> ''ED25519''
     then Inl (errmsg (''turnkey: key '' @ strconv_Quote (ts_keyID s) @ '' is '' @ strconv_Quote (tk_Curve key) @ '', need ED25519''))
     else
       bindE (wrapE ''turnkey: decode public key'' (decodeBase64 (tk_PublicKey key))) (\<lambda>raw.
       custodyAddress S ''turnkey'' (''key '' @ strconv_Quote (ts_keyID s)) (ts_address s) raw)))"

definition NewTurnkeySigner :: "sdk \<Rightarrow> turnkeyLib \<Rightarrow> int \<Rightarrow> TurnkeyConfig \<Rightarrow> gerr + TurnkeySigner" where
  "NewTurnkeySigner S L now cfg =
     (if tc_OrganizationID cfg = [] then Inl (errmsg ''turnkey: organization ID is required'')
      else if tc_PrivateKey cfg = [] then Inl (errmsg ''turnkey: private key is required'')
      else if tc_PublicKey cfg = [] then Inl (errmsg ''turnkey: public key is required'')
      else if tc_KeyID cfg = [] then Inl (errmsg ''turnkey: key ID is required'')
      else bindE (wrapE ''turnkey'' (strkey_Decode S VersionByteAccountID (tc_Address cfg))) (\<lambda>_.
        let baseURL = (if tc_BaseURL cfg = [] then defaultTurnkeyBaseURL else tc_BaseURL cfg) in
        bindE (wrapE ''turnkey: parsing base URL'' (cl_Parse L baseURL)) (\<lambda>parsedURL.
        if ur_Scheme parsedURL = [] \<or> ur_Host parsedURL = []
        then Inl (errmsg (''turnkey: base URL '' @ strconv_Quote baseURL @ '' must be absolute''))
        else
          bindE (wrapE ''turnkey: decode private key'' (decodeBase64 (tc_PrivateKey cfg))) (\<lambda>privateKey.
          bindE (wrapE ''turnkey: decode public key'' (decodeBase64 (tc_PublicKey cfg))) (\<lambda>publicKey.
          let s = \<lparr>ts_baseURL = parsedURL, ts_organizationID = tc_OrganizationID cfg, ts_privateKey = privateKey,
                   ts_publicKey = publicKey, ts_keyID = tc_KeyID cfg, ts_address = tc_Address cfg,
                   ts_client = (case tc_HTTPClient cfg of None \<Rightarrow> cl_DefaultClient L | Some client \<Rightarrow> client),
                   ts_rawPublicKey = None\<rparr> in
          bindE (turnkeyVerifyKey S L now s) (\<lambda>raw. Inr (s\<lparr>ts_rawPublicKey := Some raw\<rparr>)))))))"

definition turnkeyRequest :: "TurnkeySigner \<Rightarrow> int \<Rightarrow> bytes \<Rightarrow> json" where
  "turnkeyRequest s now payload =
     JObject [(''type'', JString ''ACTIVITY_TYPE_SIGN_RAW''), (''timestampMs'', JString (itoa_int now)),
       (''organizationId'', JString (ts_organizationID s)),
       (''parameters'', JObject [(''signRaw'', JObject [(''keyId'', JString (ts_keyID s)),
          (''payload'', JString (base64_EncodeToString payload)), (''encoding'', JString ''PAYLOAD_ENCODING_BASE64''),
          (''hashFunction'', JString ''HASH_FUNCTION_SHA256'')])])]"

definition turnkeyRefusal :: "turnkeyActivity \<Rightarrow> gerr" where
  "turnkeyRefusal activity =
     (case ta_Error activity of
        Some (code, message) \<Rightarrow>
          if code = ''POLICY_DENIED'' \<or> code = ''POLICY_REQUIRES_APPROVAL''
          then Errorf (error_text ErrPolicyDenied @ '': '' @ message) [ErrPolicyDenied]
          else errmsg (''turnkey: activity error: '' @ code @ '': '' @ message)
      | None \<Rightarrow> errmsg (''turnkey: activity not completed: '' @ ta_Status activity))"

definition turnkeySign :: "sdk \<Rightarrow> turnkeyLib \<Rightarrow> int \<Rightarrow> TurnkeySigner \<Rightarrow> ctx \<Rightarrow> HashIdPreimage \<Rightarrow> bytes \<Rightarrow> gerr + ScVal" where
  "turnkeySign S L now s ctx preimage payload =
     (case ctx of Some err \<Rightarrow> Inl (errw ''turnkey: sign'' err)
      | None \<Rightarrow>
        (case ts_rawPublicKey s of None \<Rightarrow> Inl (errw ''turnkey: sign'' (Sentinel ErrMissingSigner))
         | Some rawKey \<Rightarrow>
           bindE (wrapE ''turnkey: sign'' (Payload S preimage)) (\<lambda>expected.
           if \<not> equal32 payload expected
           then Inl (errw ''turnkey: sign: payload mismatch'' (Sentinel ErrSignatureMismatch))
           else
             bindE (wrapE ''turnkey: sign'' (turnkeyDo L now s ''POST'' ''/api/v1/submit'' (Some (turnkeyRequest s now payload)))) (\<lambda>resp.
             bindE (wrapE ''turnkey: decode activity response'' (tl_ActivityResponse L resp)) (\<lambda>activity.
             if ta_Status activity \<noteq> ''ACTIVITY_STATUS_COMPLETED'' then Inl (turnkeyRefusal activity)
             else
               bindE (wrapE ''turnkey: decode signature'' (decodeBase64 (ta_Signature activity))) (\<lambda>signature.
               if length signature \<noteq> ed25519_SignatureSize
               then Inl (errmsg (''turnkey: signature is '' @ itoa (length signature) @ '' bytes, want '' @ itoa ed25519_SignatureSize))
               else if \<not> ed25519_Verify S rawKey payload signature
               then Inl (errw ''turnkey: sign'' (Sentinel ErrSignatureMismatch))
               else Ed25519SignatureScVal rawKey signature))))))"

definition turnkeySigner :: "sdk \<Rightarrow> turnkeyLib \<times> int \<times> TurnkeySigner \<Rightarrow> signer" where
  "turnkeySigner S x = (case x of (L, now, s) \<Rightarrow> \<lparr>sg_Address = ts_address s, sg_Sign = turnkeySign S L now s\<rparr>)"

section \<open>Fireblocks\<close>

definition defaultFireblocksBaseURL :: string where
  "defaultFireblocksBaseURL = ''https://api.fireblocks.io''"

definition ErrHumanRejected :: gerr where
  "ErrHumanRejected = errmsg ''fireblocks: signing rejected by human approver''"

definition ed25519_PrivateKeySize :: nat where
  "ed25519_PrivateKeySize = 64"

record FireblocksConfig =
  fc_BaseURL :: string
  fc_APIKey :: string
  fc_PrivateKey :: string
  fc_VaultAccountID :: string
  fc_AssetID :: string
  fc_Address :: string
  fc_HTTPClient :: "httpClient option"
  fc_ApprovalTimeout :: int

record FireblocksSigner =
  fs_baseURL :: parsedURL
  fs_apiKey :: string
  fs_privateKey :: bytes
  fs_vaultAccountID :: string
  fs_assetID :: string
  fs_address :: string
  fs_client :: httpClient
  fs_approvalTimeout :: int
  fs_rawPublicKey :: "bytes option"

record fireblocksTx =
  ft_ID :: string
  ft_Status :: string
  ft_SignedMessages :: "string list"
  ft_ErrorDescription :: string

text \<open>
  Beside the codecs: the vault account's assets as pairs of identifier and address, and the
  signature of a request under the API key.
\<close>

record fireblocksLib = custodyLib +
  fl_AccountResponse :: "bytes \<Rightarrow> gerr + (string \<times> string) list"
  fl_TxResponse :: "bytes \<Rightarrow> gerr + fireblocksTx"
  fl_ed25519_Sign :: "bytes \<Rightarrow> bytes \<Rightarrow> bytes"

definition fireblocksHeader ::
  "fireblocksLib \<Rightarrow> int \<Rightarrow> FireblocksSigner \<Rightarrow> string \<Rightarrow> string \<Rightarrow> bytes \<Rightarrow> (string \<times> string) list" where
  "fireblocksHeader L now s method path body =
     (let nl = [CHR 0x0A]; timestamp = itoa_int now;
          message = method @ nl @ path @ nl @ textOf body @ nl @ timestamp;
          sig = fl_ed25519_Sign L (fs_privateKey s) (bytesOf message)
      in [(''Content-Type'', ''application/json''), (''X-API-Key'', fs_apiKey s),
          (''Authorization'', ''Bearer '' @ base64_EncodeToString sig), (''X-Timestamp'', timestamp)])"

definition fireblocksDo :: "fireblocksLib \<Rightarrow> int \<Rightarrow> FireblocksSigner \<Rightarrow> string \<Rightarrow> string \<Rightarrow> json option \<Rightarrow> gerr + bytes" where
  "fireblocksDo L now s method path body =
     bindE (custodyRequest L ''fireblocks'' (fs_baseURL s) (fireblocksHeader L now s method path) method path body) (\<lambda>req.
       custodyAnswer ''fireblocks'' ''not found'' method path (fs_client s req))"

text \<open>The key is the address of the first asset with the configured identifier that has one.\<close>

fun assetKey :: "sdk \<Rightarrow> string \<Rightarrow> (string \<times> string) list \<Rightarrow> gerr + bytes option" where
  "assetKey S assetID [] = Inr None"
| "assetKey S assetID ((ident, address) # assets) =
     (if ident = assetID \<and> address \<noteq> []
      then bindE (wrapE ''fireblocks: decode asset address'' (strkey_Decode S VersionByteAccountID address)) (\<lambda>raw. Inr (Some raw))
      else assetKey S assetID assets)"

definition fireblocksVerifyKey :: "sdk \<Rightarrow> fireblocksLib \<Rightarrow> int \<Rightarrow> FireblocksSigner \<Rightarrow> gerr + bytes" where
  "fireblocksVerifyKey S L now s =
     bindE (wrapE ''fireblocks: get vault account''
              (fireblocksDo L now s ''GET'' (''/v1/vault/accounts/'' @ fs_vaultAccountID s) None)) (\<lambda>resp.
     bindE (wrapE ''fireblocks: decode vault account response'' (fl_AccountResponse L resp)) (\<lambda>assets.
     bindE (assetKey S (fs_assetID s) assets) (\<lambda>key.
     case key of
       None \<Rightarrow> Inl (errmsg (''fireblocks: asset '' @ strconv_Quote (fs_assetID s) @ '' not found in vault account '' @
                      strconv_Quote (fs_vaultAccountID s)))
     | Some raw \<Rightarrow> custodyAddress S ''fireblocks'' ''key'' (fs_address s) raw)))"

definition NewFireblocksSigner :: "sdk \<Rightarrow> fireblocksLib \<Rightarrow> int \<Rightarrow> FireblocksConfig \<Rightarrow> gerr + FireblocksSigner" where
  "NewFireblocksSigner S L now cfg =
     (if fc_APIKey cfg = [] then Inl (errmsg ''fireblocks: API key is required'')
      else if fc_PrivateKey cfg = [] then Inl (errmsg ''fireblocks: private key is required'')
      else if fc_VaultAccountID cfg = [] then Inl (errmsg ''fireblocks: vault account ID is required'')
      else if fc_AssetID cfg = [] then Inl (errmsg ''fireblocks: asset ID is required'')
      else bindE (wrapE ''fireblocks'' (strkey_Decode S VersionByteAccountID (fc_Address cfg))) (\<lambda>_.
        let baseURL = (if fc_BaseURL cfg = [] then defaultFireblocksBaseURL else fc_BaseURL cfg) in
        bindE (wrapE ''fireblocks: parsing base URL'' (cl_Parse L baseURL)) (\<lambda>parsedURL.
        if ur_Scheme parsedURL = [] \<or> ur_Host parsedURL = []
        then Inl (errmsg (''fireblocks: base URL '' @ strconv_Quote baseURL @ '' must be absolute''))
        else
          bindE (wrapE ''fireblocks: decode private key'' (decodeBase64 (fc_PrivateKey cfg))) (\<lambda>privateKey.
          if length privateKey \<noteq> ed25519_PrivateKeySize
          then Inl (errmsg (''fireblocks: private key must be '' @ itoa ed25519_PrivateKeySize @ '' bytes, got '' @ itoa (length privateKey)))
          else
            let s = \<lparr>fs_baseURL = parsedURL, fs_apiKey = fc_APIKey cfg, fs_privateKey = privateKey,
                     fs_vaultAccountID = fc_VaultAccountID cfg, fs_assetID = fc_AssetID cfg, fs_address = fc_Address cfg,
                     fs_client = (case fc_HTTPClient cfg of None \<Rightarrow> cl_DefaultClient L | Some client \<Rightarrow> client),
                     fs_approvalTimeout = (if fc_ApprovalTimeout cfg = 0 then 5 * 60 * 10 ^ 9 else fc_ApprovalTimeout cfg),
                     fs_rawPublicKey = None\<rparr> in
            bindE (fireblocksVerifyKey S L now s) (\<lambda>raw. Inr (s\<lparr>fs_rawPublicKey := Some raw\<rparr>))))))"

text \<open>
  The wait for an approval. Each round of the loop receives a tick of the two-second ticker or the
  end of the polling context, at a time; the context ends at the approval timeout or with the
  caller's, with its error. A round that settles nothing goes on with the next event; \<open>None\<close> says the events
  ran out while the loop was waiting. Beside the result stands the outcome of the cancellation, if
  one was sent.
\<close>

datatype waitEvent = Tick int | PollDone int gerr

definition settleTx :: "fireblocksTx \<Rightarrow> (gerr + bytes) option" where
  "settleTx tx =
     (if ft_Status tx = ''COMPLETED'' then
        Some (case ft_SignedMessages tx of
                [] \<Rightarrow> Inl (errmsg ''fireblocks: transaction completed but no signature'')
              | signature # _ \<Rightarrow>
                  bindE (wrapE ''fireblocks: decode signature'' (decodeBase64 signature)) (\<lambda>sig.
                  if length sig \<noteq> ed25519_SignatureSize
                  then Inl (errmsg (''fireblocks: signature is '' @ itoa (length sig) @ '' bytes, want '' @ itoa ed25519_SignatureSize))
                  else Inr sig))
      else if ft_Status tx \<in> {''FAILED'', ''REJECTED'', ''BLOCKED''} then
        Some (Inl (Errorf (error_text ErrHumanRejected @ '': '' @
                (if ft_ErrorDescription tx \<noteq> [] then ft_ErrorDescription tx else ''transaction '' @ ft_Status tx)) [ErrHumanRejected]))
      else None)"

definition pollTx :: "fireblocksLib \<Rightarrow> FireblocksSigner \<Rightarrow> string \<Rightarrow> int \<Rightarrow> (gerr + bytes) option" where
  "pollTx L s txID now =
     (case bindE (fireblocksDo L now s ''GET'' (''/v1/transactions/'' @ txID) None) (fl_TxResponse L) of
        Inl _ \<Rightarrow> None | Inr tx \<Rightarrow> settleTx tx)"

definition cancelTransaction :: "fireblocksLib \<Rightarrow> int \<Rightarrow> FireblocksSigner \<Rightarrow> string \<Rightarrow> gerr + unit" where
  "cancelTransaction L now s txID =
     bindE (fireblocksDo L now s ''POST'' (''/v1/transactions/'' @ txID @ ''/cancel'') None) (\<lambda>_. Inr ())"

fun waitForSignature :: "fireblocksLib \<Rightarrow> FireblocksSigner \<Rightarrow> string \<Rightarrow> waitEvent list \<Rightarrow> ((gerr + unit) option \<times> (gerr + bytes)) option" where
  "waitForSignature L s txID [] = None"
| "waitForSignature L s txID (PollDone now e # events) =
     Some (Some (cancelTransaction L now s txID),
       Inl (if errors_Is e ContextDeadlineExceeded then errw ''fireblocks: approval timeout'' ErrHumanRejected
            else errw ''fireblocks: wait for signature'' e))"
| "waitForSignature L s txID (Tick now # events) =
     (case pollTx L s txID now of Some result \<Rightarrow> Some (None, result) | None \<Rightarrow> waitForSignature L s txID events)"

definition fireblocksRequest :: "FireblocksSigner \<Rightarrow> bytes \<Rightarrow> json" where
  "fireblocksRequest s payload =
     JObject [(''assetId'', JString (fs_assetID s)),
       (''source'', JObject [(''type'', JString ''VAULT_ACCOUNT''), (''id'', JString (fs_vaultAccountID s))]),
       (''operation'', JString ''RAW''), (''amount'', JString ''0''),
       (''extraParameters'', JObject [(''rawMessageData'', JObject [(''messages'', JArray [JObject
          [(''content'', JString (base64_EncodeToString payload)), (''bip44Change'', JNumber 0)]])])])]"

text \<open>\<open>Sign\<close>: \<open>None\<close> while it waits.\<close>

definition fireblocksSign ::
  "sdk \<Rightarrow> fireblocksLib \<Rightarrow> FireblocksSigner \<Rightarrow> int \<Rightarrow> waitEvent list \<Rightarrow> ctx \<Rightarrow> HashIdPreimage \<Rightarrow> bytes \<Rightarrow> (gerr + ScVal) option" where
  "fireblocksSign S L s now events ctx preimage payload =
     (case ctx of Some err \<Rightarrow> Some (Inl (errw ''fireblocks: sign'' err))
      | None \<Rightarrow>
        (case fs_rawPublicKey s of None \<Rightarrow> Some (Inl (errw ''fireblocks: sign'' (Sentinel ErrMissingSigner)))
         | Some rawKey \<Rightarrow>
           (case bindE (wrapE ''fireblocks: sign'' (Payload S preimage)) (\<lambda>expected.
                 if \<not> equal32 payload expected
                 then Inl (errw ''fireblocks: sign: payload mismatch'' (Sentinel ErrSignatureMismatch))
                 else
                   bindE (wrapE ''fireblocks: submit transaction''
                            (fireblocksDo L now s ''POST'' ''/v1/transactions'' (Some (fireblocksRequest s payload)))) (\<lambda>resp.
                   bindE (wrapE ''fireblocks: decode transaction response'' (fl_TxResponse L resp)) (\<lambda>tx.
                   if ft_ID tx = [] then Inl (errmsg ''fireblocks: no transaction ID returned'') else Inr (ft_ID tx)))) of
              Inl err \<Rightarrow> Some (Inl err)
            | Inr txID \<Rightarrow>
                (case waitForSignature L s txID events of
                   None \<Rightarrow> None
                 | Some (_, result) \<Rightarrow> Some (bindE result (\<lambda>signature.
                     if \<not> ed25519_Verify S rawKey payload signature
                     then Inl (errw ''fireblocks: sign'' (Sentinel ErrSignatureMismatch))
                     else Ed25519SignatureScVal rawKey signature))))))"

section \<open>What an answer means\<close>

lemma Ed25519SignatureScVal_Inr_iff:
  "Ed25519SignatureScVal raw sig = Inr v \<longleftrightarrow> length raw = 32 \<and> length sig = 64 \<and> v = scVec [accountSignature raw sig]"
  by (auto simp: Ed25519SignatureScVal_def ed25519_PublicKeySize_def ed25519_SignatureSize_def)

lemmas custody_Inr = bindE_Inr_iff if_Inl_iff Let_def Ed25519SignatureScVal_Inr_iff

definition kmsKey :: "sdk \<Rightarrow> 'c kmsSigner \<Rightarrow> bytes \<Rightarrow> bool" where
  "kmsKey S s raw \<longleftrightarrow> ks_rawPublicKey s = raw \<and> length raw = 32"

interpretation aws: classic_signer awsSigner kmsKey
  by unfold_locales (auto simp: kmsKey_def awsSigner_def awskms_Sign_def custody_Inr split: option.splits)

interpretation gcp: classic_signer gcpSigner kmsKey
  by unfold_locales (auto simp: kmsKey_def gcpSigner_def gcpkms_Sign_def custody_Inr split: option.splits)

lemma turnkeySign_Inr:
  assumes "turnkeySign S L now s ctx preimage payload = Inr v"
  obtains rawKey expected resp activity signature where "ts_rawPublicKey s = Some rawKey" "Payload S preimage = Inr expected"
    "equal32 payload expected" "turnkeyDo L now s ''POST'' ''/api/v1/submit'' (Some (turnkeyRequest s now payload)) = Inr resp"
    "tl_ActivityResponse L resp = Inr activity" "ta_Status activity = ''ACTIVITY_STATUS_COMPLETED''"
    "decodeBase64 (ta_Signature activity) = Inr signature" "length signature = 64"
    "ed25519_Verify S rawKey payload signature" "v = scVec [accountSignature rawKey signature]"
  using assms by (auto simp: turnkeySign_def custody_Inr split: option.splits)

definition turnkeyOwnKey :: "sdk \<Rightarrow> turnkeyLib \<times> int \<times> TurnkeySigner \<Rightarrow> bytes \<Rightarrow> bool" where
  "turnkeyOwnKey S x raw \<longleftrightarrow> ts_rawPublicKey (snd (snd x)) = Some raw \<and> length raw = 32"

interpretation turnkey: classic_signer turnkeySigner turnkeyOwnKey
  by unfold_locales (auto simp: turnkeyOwnKey_def turnkeySigner_def elim!: turnkeySign_Inr split: prod.splits)

text \<open>The wait: the first tick that settles decides, and otherwise the end of the context.\<close>

lemma waitForSignature_ticks:
  "waitForSignature L s txID (map Tick ts @ events) =
     (case find (\<lambda>now. pollTx L s txID now \<noteq> None) ts of
        Some now \<Rightarrow> Some (None, the (pollTx L s txID now)) | None \<Rightarrow> waitForSignature L s txID events)"
  by (induction ts) (auto split: option.splits)

lemma waitForSignature_ends:
  "PollDone now e \<in> set events \<Longrightarrow> \<exists>r. waitForSignature L s txID events = Some r"
  by (induction L s txID events rule: waitForSignature.induct) (auto split: option.splits)

lemma pollTx_Inr:
  "pollTx L s txID now = Some (Inr sig) \<Longrightarrow> length sig = 64"
  by (auto simp: pollTx_def settleTx_def custody_Inr ed25519_SignatureSize_def split: sum.splits if_splits list.splits)

lemma waitForSignature_Inr:
  "waitForSignature L s txID events = Some (cancel, Inr sig) \<Longrightarrow>
     cancel = None \<and> length sig = 64 \<and> (\<exists>now. Tick now \<in> set events \<and> pollTx L s txID now = Some (Inr sig))"
  by (induction L s txID events rule: waitForSignature.induct) (auto dest: pollTx_Inr split: option.splits if_splits)

lemma fireblocksSign_Inr:
  assumes "fireblocksSign S L s now events ctx preimage payload = Some (Inr v)"
  obtains rawKey expected txID cancel signature where "ctx = None" "fs_rawPublicKey s = Some rawKey" "Payload S preimage = Inr expected"
    "equal32 payload expected" "waitForSignature L s txID events = Some (cancel, Inr signature)" "length signature = 64"
    "ed25519_Verify S rawKey payload signature" "v = scVec [accountSignature rawKey signature]"
  using assms
  by (auto simp: fireblocksSign_def custody_Inr split: option.splits sum.splits prod.splits)

lemma fireblocksSign_ends:
  "PollDone t e \<in> set events \<Longrightarrow> \<exists>r. fireblocksSign S L s now events ctx preimage payload = Some r"
  using waitForSignature_ends [of t e events L s]
  by (auto simp: fireblocksSign_def split: option.splits sum.splits prod.splits) (metis option.distinct(1))

text \<open>The signer over a run in which the polling context ends.\<close>

definition fireblocksSigner :: "sdk \<Rightarrow> fireblocksLib \<times> FireblocksSigner \<times> int \<times> waitEvent list \<Rightarrow> signer" where
  "fireblocksSigner S x = (case x of (L, s, now, events) \<Rightarrow>
     \<lparr>sg_Address = fs_address s, sg_Sign = (\<lambda>ctx preimage payload. the (fireblocksSign S L s now events ctx preimage payload))\<rparr>)"

definition fireblocksKey :: "sdk \<Rightarrow> fireblocksLib \<times> FireblocksSigner \<times> int \<times> waitEvent list \<Rightarrow> bytes \<Rightarrow> bool" where
  "fireblocksKey S x raw \<longleftrightarrow> (case x of (L, s, now, events) \<Rightarrow>
     fs_rawPublicKey s = Some raw \<and> length raw = 32 \<and> (\<exists>t e. PollDone t e \<in> set events))"

interpretation fireblocks: classic_signer fireblocksSigner fireblocksKey
proof unfold_locales
  fix S x raw ctx preimage payload v
  assume "fireblocksKey S x raw" "sg_Sign (fireblocksSigner S x) ctx preimage payload = Inr v"
  moreover obtain L s now events where "x = (L, s, now, events)" by (cases x)
  ultimately have "fs_rawPublicKey s = Some raw" "fireblocksSign S L s now events ctx preimage payload = Some (Inr v)"
    using fireblocksSign_ends [of _ _ events S L s now ctx preimage payload] by (auto simp: fireblocksKey_def fireblocksSigner_def) (metis option.sel)
  then show "\<exists>sig. v = scVec [accountSignature raw sig] \<and> length sig = 64 \<and> ed25519_Verify S raw payload sig"
    by (auto elim!: fireblocksSign_Inr)
qed (auto simp: fireblocksKey_def split: prod.splits)

end
