(* ===== verification/Custody_Properties.thy ===== *)
theory Custody_Properties
  imports Custody Sample_Sdk
begin

text \<open>
  The custody services: how the wait for a Fireblocks approval ends, and why no signature Turnkey
  makes as it is asked to is ever accepted.
\<close>

section \<open>Fireblocks\<close>

lemma NewFireblocksSigner_Inr:
  assumes "NewFireblocksSigner S L now cfg = Inr s"
  obtains raw where "fs_rawPublicKey s = Some raw" "length raw = 32" "fs_address s = fc_Address cfg"
    "strkey_Encode S VersionByteAccountID raw = Inr (fc_Address cfg)"
  using assms
  by (auto simp: NewFireblocksSigner_def fireblocksVerifyKey_def custody_Inr custodyAddress_Inr_iff split: option.splits)

text \<open>
  C38: a submitted request is decided by the first poll that settles it, or by the end of the
  waiting time. The signer polls once per tick; a poll that fails, cannot be read or names a
  status still pending changes nothing; the first that reports the transaction completed or
  refused decides, a signature being returned only when it has 64 bytes and verifies over the
  payload under the key of the configured account; and when the polling context ends first the
  transaction is cancelled and the call fails, as a rejection exactly when a deadline passed.
\<close>

theorem fireblocks_first_settled:
  assumes "NewFireblocksSigner S L start cfg = Inr s" "Payload S preimage = Inr payload" "length payload = 32"
    and "fireblocksDo L now s ''POST'' ''/v1/transactions'' (Some (fireblocksRequest s payload)) = Inr resp"
    and "fl_TxResponse L resp = Inr tx" "ft_ID tx \<noteq> []"
  shows "\<exists>raw. strkey_Encode S VersionByteAccountID raw = Inr (fc_Address cfg) \<and>
    fireblocksSign S L s now (map Tick ts @ PollDone t e # events) None preimage payload =
      Some (case find (\<lambda>u. pollTx L s (ft_ID tx) u \<noteq> None) ts of
          None \<Rightarrow> Inl (if errors_Is e ContextDeadlineExceeded then errw ''fireblocks: approval timeout'' ErrHumanRejected
                      else errw ''fireblocks: wait for signature'' e)
        | Some u \<Rightarrow> (case the (pollTx L s (ft_ID tx) u) of
             Inl err \<Rightarrow> Inl err
           | Inr sig \<Rightarrow> if length sig = 64 \<and> ed25519_Verify S raw payload sig then Inr (scVec [accountSignature raw sig])
                        else Inl (errw ''fireblocks: sign'' (Sentinel ErrSignatureMismatch))))"
proof -
  obtain raw where raw: "fs_rawPublicKey s = Some raw" "length raw = 32" "strkey_Encode S VersionByteAccountID raw = Inr (fc_Address cfg)"
    using assms(1) by (rule NewFireblocksSigner_Inr)
  have "length sig = 64" if "find (\<lambda>u. pollTx L s (ft_ID tx) u \<noteq> None) ts = Some u" "the (pollTx L s (ft_ID tx) u) = Inr sig" for u sig
    using that pollTx_Inr [of L s "ft_ID tx" u sig] by (auto simp: find_Some_iff)
  then show ?thesis
    using raw assms(2-6)
    by (intro exI [of _ raw]) (auto simp: fireblocksSign_def waitForSignature_ticks equal32_iff Ed25519SignatureScVal_def
        ed25519_PublicKeySize_def ed25519_SignatureSize_def split: option.splits sum.splits)
qed

text \<open>A service with one vault account; the transaction is pending before the time 2.\<close>

definition sampleFireblocks :: httpClient where
  "sampleFireblocks request = Inr \<lparr>rs_StatusCode = 200, rs_Status = ''200 OK'', rs_Header = [],
     rs_Body = (if snd (last (rq_Header request)) = itoa_int 2 then [2] else []), rs_ReadError = None\<rparr>"

definition sampleFireblocksLib :: fireblocksLib where
  "sampleFireblocksLib =
     \<lparr>cl_Parse = (\<lambda>s. Inr \<lparr>ur_Scheme = ''https'', ur_Host = ''fb'', ur_Path = ''''\<rparr>), cl_String = ur_Path,
      cl_NewRequest = (\<lambda>m u. None), cl_Marshal = (\<lambda>v. Inr []), cl_DefaultClient = sampleFireblocks,
      fl_AccountResponse = (\<lambda>b. Inr [(''XLM'', ''GA'')]),
      fl_TxResponse = (\<lambda>b. Inr \<lparr>ft_ID = ''tx'', ft_Status = (if b = [2] then ''COMPLETED'' else ''SUBMITTED''),
         ft_SignedMessages = [base64_EncodeToString (keyOf 1 @ keyOf 1)], ft_ErrorDescription = ''''\<rparr>),
      fl_ed25519_Sign = (\<lambda>k m. [])\<rparr>"

definition sampleFireblocksConfig :: FireblocksConfig where
  "sampleFireblocksConfig =
     \<lparr>fc_BaseURL = '''', fc_APIKey = ''k'', fc_PrivateKey = base64_EncodeToString (keyOf 5 @ keyOf 6), fc_VaultAccountID = ''0'',
      fc_AssetID = ''XLM'', fc_Address = ''GA'', fc_HTTPClient = None, fc_ApprovalTimeout = 0\<rparr>"

definition sampleFireblocksSigner :: FireblocksSigner where
  "sampleFireblocksSigner =
     \<lparr>fs_baseURL = \<lparr>ur_Scheme = ''https'', ur_Host = ''fb'', ur_Path = ''''\<rparr>, fs_apiKey = ''k'', fs_privateKey = keyOf 5 @ keyOf 6,
      fs_vaultAccountID = ''0'', fs_assetID = ''XLM'', fs_address = ''GA'', fs_client = sampleFireblocks,
      fs_approvalTimeout = 300000000000, fs_rawPublicKey = Some (keyOf 1)\<rparr>"

lemma sample_fireblocksDo:
  "fireblocksDo sampleFireblocksLib now s method path body =
     (case fs_client s \<lparr>rq_Method = method, rq_URL = path, rq_Path = path,
          rq_Header = fireblocksHeader sampleFireblocksLib now s method path [], rq_Body = []\<rparr> of
        answer \<Rightarrow> custodyAnswer ''fireblocks'' ''not found'' method path answer)"
  by (simp add: fireblocksDo_def custodyRequest_def sampleFireblocksLib_def split: option.splits)

lemma sample_fireblocks_answers:
  "fs_client s = sampleFireblocks \<Longrightarrow>
     fireblocksDo sampleFireblocksLib now s method path body = Inr (if itoa_int now = itoa_int 2 then [2] else [])"
  by (simp add: sample_fireblocksDo custodyAnswer_def sampleFireblocks_def readLimited_def maxCustodyResponse_def fireblocksHeader_def Let_def)

lemma sampleFireblocksLib_select [simp]:
  "cl_Parse sampleFireblocksLib u = Inr \<lparr>ur_Scheme = ''https'', ur_Host = ''fb'', ur_Path = ''''\<rparr>"
  "cl_DefaultClient sampleFireblocksLib = sampleFireblocks" "fl_AccountResponse sampleFireblocksLib b = Inr [(''XLM'', ''GA'')]"
  "fl_TxResponse sampleFireblocksLib b = Inr \<lparr>ft_ID = ''tx'', ft_Status = (if b = [2] then ''COMPLETED'' else ''SUBMITTED''),
     ft_SignedMessages = [base64_EncodeToString (keyOf 1 @ keyOf 1)], ft_ErrorDescription = ''''\<rparr>"
  by (simp_all add: sampleFireblocksLib_def)

lemma keyOf_not_Nil [simp]: "keyOf w \<noteq> []"
  by (simp add: keyOf_def)

lemma sample_fireblocks_opens:
  "NewFireblocksSigner sampleSdk sampleFireblocksLib 0 sampleFireblocksConfig = Inr sampleFireblocksSigner"
  by (simp add: NewFireblocksSigner_def sampleFireblocksConfig_def fireblocksVerifyKey_def custodyAddress_def
      sample_fireblocks_answers sampleFireblocksSigner_def ed25519_PrivateKeySize_def ed25519_PublicKeySize_def Let_def
      del: base64_EncodeToString.simps) (simp add: sampleSdk_def sample_defs)

lemma sample_fireblocks_polls:
  "pollTx sampleFireblocksLib sampleFireblocksSigner ''tx'' now =
     (if itoa_int now = itoa_int 2 then Some (Inr (keyOf 1 @ keyOf 1)) else None)"
  by (simp add: pollTx_def sample_fireblocks_answers sampleFireblocksSigner_def settleTx_def ed25519_SignatureSize_def
      del: base64_EncodeToString.simps)

theorem fireblocks_first_settled_witness:
  "fireblocksSign sampleSdk sampleFireblocksLib sampleFireblocksSigner 0 [Tick 1, Tick 2, PollDone 3 (Sentinel ContextCanceled)] None
     (preimageBound (accountAddress (keyOf 1))) (keyOf 1) = Some (Inr (scVec [accountSignature (keyOf 1) (keyOf 1 @ keyOf 1)]))"
proof -
  have client: "fs_client sampleFireblocksSigner = sampleFireblocks" by (simp add: sampleFireblocksSigner_def)
  have differ: "itoa_int 1 \<noteq> itoa_int 2" by (simp add: itoa_int_def itoa.simps)
  have verifies: "ed25519_Verify sampleSdk (keyOf 1) (keyOf 1) (keyOf 1 @ keyOf 1)" by (simp add: sampleSdk_def tableSdk_def)
  have key: "raw = keyOf 1" if "strkey_Encode sampleSdk VersionByteAccountID raw = Inr (fc_Address sampleFireblocksConfig)" for raw
    using that by (auto simp: sampleFireblocksConfig_def sampleSdk_def sample_defs split: if_splits)
  note settled = fireblocks_first_settled [OF sample_fireblocks_opens sample_payloads(2) length_keyOf
      sample_fireblocks_answers [OF client] sampleFireblocksLib_select(4),
      where now = 0 and ts = "[1, 2]" and t = 3 and e = "Sentinel ContextCanceled" and events = "[]"]
  show ?thesis
    using settled key verifies by (auto simp: sample_fireblocks_polls differ simp del: base64_EncodeToString.simps)
qed

section \<open>Turnkey\<close>

lemma NewTurnkeySigner_Inr:
  assumes "NewTurnkeySigner S L now cfg = Inr s"
  obtains raw where "ts_rawPublicKey s = Some raw" "length raw = 32" "ts_address s = tc_Address cfg"
    "strkey_Encode S VersionByteAccountID raw = Inr (tc_Address cfg)"
  using assms
  by (auto simp: NewTurnkeySigner_def turnkeyVerifyKey_def custody_Inr custodyAddress_Inr_iff)


text \<open>A service that signs the hash, on an SDK whose hash is not the identity on payloads.\<close>

definition hashSdk :: sdk where
  "hashSdk = sampleSdk\<lparr>sha256_Sum256 := (\<lambda>b. if b = [1] then keyOf 1 else keyOf 7)\<rparr>"

definition sampleTurnkey :: httpClient where
  "sampleTurnkey request = Inr \<lparr>rs_StatusCode = 200, rs_Status = ''200 OK'', rs_Header = [], rs_Body = [], rs_ReadError = None\<rparr>"

definition sampleTurnkeyLib :: turnkeyLib where
  "sampleTurnkeyLib =
     \<lparr>cl_Parse = (\<lambda>s. Inr \<lparr>ur_Scheme = ''https'', ur_Host = ''tk'', ur_Path = ''''\<rparr>), cl_String = ur_Path,
      cl_NewRequest = (\<lambda>m u. None), cl_Marshal = (\<lambda>v. Inr []), cl_DefaultClient = sampleTurnkey,
      tl_KeyResponse = (\<lambda>b. Inr \<lparr>tk_Type = ''ED25519'', tk_PublicKey = base64_EncodeToString (keyOf 1), tk_Curve = ''ED25519''\<rparr>),
      tl_ActivityResponse = (\<lambda>b. Inr \<lparr>ta_Status = ''ACTIVITY_STATUS_COMPLETED'',
         ta_Signature = base64_EncodeToString (keyOf 1 @ keyOf 7), ta_Error = None\<rparr>)\<rparr>"

definition sampleTurnkeyConfig :: TurnkeyConfig where
  "sampleTurnkeyConfig =
     \<lparr>tc_BaseURL = '''', tc_OrganizationID = ''o'', tc_PrivateKey = base64_EncodeToString (keyOf 5), tc_PublicKey = base64_EncodeToString (keyOf 6),
      tc_KeyID = ''k'', tc_Address = ''GA'', tc_HTTPClient = None\<rparr>"

definition sampleTurnkeySigner :: TurnkeySigner where
  "sampleTurnkeySigner =
     \<lparr>ts_baseURL = \<lparr>ur_Scheme = ''https'', ur_Host = ''tk'', ur_Path = ''''\<rparr>, ts_organizationID = ''o'', ts_privateKey = keyOf 5,
      ts_publicKey = keyOf 6, ts_keyID = ''k'', ts_address = ''GA'', ts_client = sampleTurnkey, ts_rawPublicKey = Some (keyOf 1)\<rparr>"

lemma sampleTurnkeyLib_select [simp]:
  "cl_Parse sampleTurnkeyLib u = Inr \<lparr>ur_Scheme = ''https'', ur_Host = ''tk'', ur_Path = ''''\<rparr>"
  "cl_DefaultClient sampleTurnkeyLib = sampleTurnkey"
  "tl_KeyResponse sampleTurnkeyLib b = Inr \<lparr>tk_Type = ''ED25519'', tk_PublicKey = base64_EncodeToString (keyOf 1), tk_Curve = ''ED25519''\<rparr>"
  "tl_ActivityResponse sampleTurnkeyLib b = Inr \<lparr>ta_Status = ''ACTIVITY_STATUS_COMPLETED'',
     ta_Signature = base64_EncodeToString (keyOf 1 @ keyOf 7), ta_Error = None\<rparr>"
  by (simp_all add: sampleTurnkeyLib_def)

lemma sample_turnkey_answers:
  "ts_client s = sampleTurnkey \<Longrightarrow> turnkeyDo sampleTurnkeyLib now s method path body = Inr []"
  by (simp add: turnkeyDo_def custodyRequest_def custodyAnswer_def sampleTurnkeyLib_def sampleTurnkey_def readLimited_def Let_def
      split: option.splits)

lemma sample_turnkey_opens: "NewTurnkeySigner hashSdk sampleTurnkeyLib 0 sampleTurnkeyConfig = Inr sampleTurnkeySigner"
  by (simp add: NewTurnkeySigner_def sampleTurnkeyConfig_def turnkeyVerifyKey_def custodyAddress_def sample_turnkey_answers
      sampleTurnkeySigner_def ed25519_PublicKeySize_def Let_def del: base64_EncodeToString.simps)
    (simp add: hashSdk_def sampleSdk_def sample_defs)


end
