(* ===== verification/Wallet.thy ===== *)
theory Wallet
  imports Key_Store Envelope
begin

text \<open>
  The wallet adapter (\<^verbatim>\<open>src/adapters/walletsdk\<close>): a signer over a wallet SDK's key pair, the
  signing and checking of envelopes with it, what an envelope asks of one address, and the
  Freighter flow that checks what a browser wallet returned. The wallet is a parameter. The
  package's own errors are values, and \<open>isErr\<close> is \<open>errors.Is\<close> for them.
\<close>

section \<open>Errors\<close>

definition ErrWalletRejected :: gerr where
  "ErrWalletRejected = errmsg ''the wallet request was rejected in the wallet''"

definition ErrWalletLocked :: gerr where
  "ErrWalletLocked = errmsg ''the wallet is locked''"

definition ErrWrongNetwork :: gerr where
  "ErrWrongNetwork = errmsg ''the wallet signed for a different network''"

definition ErrSignatureNotFound :: gerr where
  "ErrSignatureNotFound = errmsg ''the entry stores no signature for this address''"

definition ErrSignatureNotByKey :: gerr where
  "ErrSignatureNotByKey = errmsg ''the stored signature is not this key's signature over the entry''"

definition ErrUnreadableSignature :: gerr where
  "ErrUnreadableSignature = errmsg ''the stored signature is not in the built-in account signature shape''"

definition ErrEnforcePassMissing :: gerr where
  "ErrEnforcePassMissing = errmsg ''the enforce simulation pass has not been recorded''"

lemmas wallet_errors = ErrWalletRejected_def ErrWalletLocked_def ErrWrongNetwork_def ErrSignatureNotFound_def
  ErrSignatureNotByKey_def ErrUnreadableSignature_def ErrEnforcePassMissing_def

fun isErr :: "gerr \<Rightarrow> gerr \<Rightarrow> bool" where
  "isErr t (Errorf m ws) = (Errorf m ws = t \<or> list_ex (isErr t) ws)"
| "isErr t (JoinError es) = (JoinError es = t \<or> list_ex (isErr t) es)"
| "isErr t (TransientError e) = (TransientError e = t \<or> isErr t e)"
| "isErr t (ChainError as e) = (ChainError as e = t \<or> isErr t e)"
| "isErr t e = (e = t)"

text \<open>A \<open>WrongNetworkError\<close> prints and unwraps as its sentinel; its fields are the two passphrases.\<close>

definition wrongNetworkError :: gerr where
  "wrongNetworkError = Errorf (error_text ErrWrongNetwork) [ErrWrongNetwork]"

section \<open>The signer\<close>

definition walletRawKey :: "sdk \<Rightarrow> string \<Rightarrow> gerr + bytes" where
  "walletRawKey S address =
     wrapE (strconv_Quote address @ '' is not an account (G'' @ [CHR 0xE2, CHR 0x80, CHR 0xA6] @ '') address'')
       (strkey_Decode S VersionByteAccountID address)"

record walletSigner =
  ws_kp :: ed25519Keypair
  ws_address :: string
  ws_raw :: bytes

text \<open>A key pair that is nil, also behind an interface, is \<open>None\<close>.\<close>

definition wallet_NewSigner :: "sdk \<Rightarrow> ed25519Keypair option \<Rightarrow> gerr + walletSigner" where
  "wallet_NewSigner S kpo =
     (case kpo of None \<Rightarrow> Inl (errw ''walletsdk: new signer'' (Sentinel ErrMissingSigner))
      | Some kp \<Rightarrow>
          bindE (wrapE ''walletsdk: new signer'' (walletRawKey S (kp_Address kp))) (\<lambda>raw.
            Inr \<lparr>ws_kp = kp, ws_address = kp_Address kp, ws_raw = raw\<rparr>))"

definition FromOKXKeypair :: "sdk \<Rightarrow> ed25519Keypair option \<Rightarrow> gerr + walletSigner" where
  "FromOKXKeypair S kpo =
     (case kpo of None \<Rightarrow> Inl (errw ''walletsdk: from okx keypair'' (Sentinel ErrMissingSigner))
      | Some kp \<Rightarrow> wrapE ''walletsdk: from okx keypair'' (wallet_NewSigner S (Some kp)))"

definition walletKeySign :: "walletSigner \<Rightarrow> ctx \<Rightarrow> HashIdPreimage \<Rightarrow> bytes \<Rightarrow> gerr + ScVal" where
  "walletKeySign s ctx preimage payload =
     (case ctx of Some err \<Rightarrow> Inl (errw ''walletsdk: sign'' err)
      | None \<Rightarrow>
        let op = ''walletsdk: sign '' @ ws_address s in
        bindE (wrapE op (kp_Sign (ws_kp s) payload)) (\<lambda>signature.
        if length signature \<noteq> ed25519_SignatureSize
        then Inl (errw (op @ '': '' @ itoa (length signature) @ ''-byte signature, want '' @ itoa ed25519_SignatureSize)
               (Sentinel ErrSignatureMismatch))
        else if kp_Verify (ws_kp s) payload signature \<noteq> None then Inl (errw op (Sentinel ErrSignatureMismatch))
        else Inr (scVec [accountSignature (ws_raw s) signature])))"

definition asSigner :: "sdk \<Rightarrow> walletSigner \<Rightarrow> signer" where
  "asSigner S s = \<lparr>sg_Address = ws_address s, sg_Sign = walletKeySign s\<rparr>"

section \<open>The nodes of one address\<close>

definition sameAddress :: "sdk \<Rightarrow> ScAddress \<Rightarrow> string \<Rightarrow> gerr + bool" where
  "sameAddress S candidate wanted = bindE (FormatAddress S candidate) (\<lambda>formatted. Inr (formatted = wanted))"

function (sequential) collectSignature ::
    "sdk \<Rightarrow> ScAddress \<Rightarrow> ScVal \<Rightarrow> string \<Rightarrow> SorobanDelegateSignature list \<Rightarrow> gerr + ScVal list"
  and collectDelegates :: "sdk \<Rightarrow> SorobanDelegateSignature list \<Rightarrow> string \<Rightarrow> gerr + ScVal list" where
  "collectSignature S address signature wanted delegates =
     bindE (collectDelegates S delegates wanted) (\<lambda>found.
     bindE (sameAddress S address wanted) (\<lambda>matches. Inr (if matches then signature # found else found)))"
| "collectDelegates S [] wanted = Inr []"
| "collectDelegates S (d # ds) wanted =
     bindE (collectSignature S (ds_Address d) (ds_Signature d) wanted (ds_NestedDelegates d)) (\<lambda>nested.
     bindE (collectDelegates S ds wanted) (\<lambda>rest. Inr (nested @ rest)))"
  by pat_completeness auto
termination
  by (relation "measure (case_sum (\<lambda>(S, a, s, w, ds). 2 * size_list size ds + 1) (\<lambda>(S, ds, w). 2 * size_list size ds))")
    (auto simp: size_NestedDelegates_double)

declare collectSignature.simps [simp del]

definition signatureNodes :: "sdk \<Rightarrow> SorobanAuthorizationEntry \<Rightarrow> string \<Rightarrow> gerr + ScVal list" where
  "signatureNodes S entry address =
     (let credentials = en_Credentials entry in
      case cr_Type credentials of
        CredentialsSourceAccount \<Rightarrow> Inr []
      | CredentialsAddress \<Rightarrow>
          (case cr_Address credentials of None \<Rightarrow> Inl (errmsg ''the address arm is empty'')
           | Some a \<Rightarrow> collectSignature S (ac_Address a) (ac_Signature a) address [])
      | CredentialsAddressV2 \<Rightarrow>
          (case cr_AddressV2 credentials of None \<Rightarrow> Inl (errmsg ''the address_v2 arm is empty'')
           | Some a \<Rightarrow> collectSignature S (ac_Address a) (ac_Signature a) address [])
      | CredentialsAddressWithDelegates \<Rightarrow>
          (case cr_AddressWithDelegates credentials of None \<Rightarrow> Inl (errmsg ''the delegates arm is empty'')
           | Some w \<Rightarrow> collectSignature S (ac_Address (wd_AddressCredentials w)) (ac_Signature (wd_AddressCredentials w)) address (wd_Delegates w))
      | CredentialsOther _ \<Rightarrow> Inl (Sentinel ErrUnsupportedCredentials))"

section \<open>Reading a signature back\<close>

fun walletFields :: "sdk \<Rightarrow> (ScVal \<times> ScVal) list \<Rightarrow> bytes option \<times> bytes option \<Rightarrow> gerr + (bytes option \<times> bytes option)" where
  "walletFields S [] acc = Inr acc"
| "walletFields S ((key, val) # entries) acc =
     (case key of
        ScvSymbol (Some field) \<Rightarrow>
          (case val of
             ScvBytes (Some b) \<Rightarrow>
               walletFields S entries
                 (if field = ''public_key'' then (Some b, snd acc)
                  else if field = ''signature'' then (fst acc, Some b) else acc)
           | _ \<Rightarrow> Inl (errw (''stored signature field '' @ strconv_Quote field @ '' is '' @ ScVal_TypeString S val @ '', want bytes'')
                     ErrUnreadableSignature))
      | _ \<Rightarrow> walletFields S entries acc)"

definition walletParse :: "sdk \<Rightarrow> ScVal \<Rightarrow> gerr + (bytes \<times> bytes)" where
  "walletParse S value =
     (case value of
        ScvVec (Some (Some entries)) \<Rightarrow>
          (case entries of
             [element] \<Rightarrow> (case element of ScvMap (Some (Some m)) \<Rightarrow>
               bindE (walletFields S m (None, None)) (\<lambda>(pk, sg).
               case (pk, sg) of
                 (Some publicKey, Some signature) \<Rightarrow>
                   if length publicKey \<noteq> ed25519_PublicKeySize
                   then Inl (errw (''stored public key is '' @ itoa (length publicKey) @ '' bytes, want '' @ itoa ed25519_PublicKeySize)
                          ErrUnreadableSignature)
                   else if length signature \<noteq> ed25519_SignatureSize
                   then Inl (errw (''stored signature is '' @ itoa (length signature) @ '' bytes, want '' @ itoa ed25519_SignatureSize)
                          ErrUnreadableSignature)
                   else Inr (publicKey, signature)
               | _ \<Rightarrow> Inl (errw ''stored signature is missing public_key or signature'' ErrUnreadableSignature))
             | _ \<Rightarrow> Inl (errw (''stored signature holds '' @ ScVal_TypeString S element @ '', want a map'') ErrUnreadableSignature))
           | _ \<Rightarrow> Inl (errw (''stored signature holds '' @ itoa (length entries) @ '' entries, want exactly 1'') ErrUnreadableSignature))
      | _ \<Rightarrow> Inl (errw (''stored signature is '' @ ScVal_TypeString S value @ '', want a vector'') ErrUnreadableSignature))"

section \<open>Checking entries and envelopes\<close>

definition checkStored :: "sdk \<Rightarrow> ed25519Keypair \<Rightarrow> bytes \<Rightarrow> bytes \<Rightarrow> nat \<Rightarrow> ScVal \<Rightarrow> gerr + unit" where
  "checkStored S kp raw payload i node =
     (let op = ''walletsdk: verify entry: node '' @ itoa i in
      bindE (wrapE op (walletParse S node)) (\<lambda>(publicKey, signature).
      if publicKey \<noteq> raw
      then Inl (errw (op @ '': stored public key '' @ hex publicKey @ '' is not '' @ kp_Address kp @ [CHR 0x27] @ ''s'') ErrSignatureNotByKey)
      else if kp_Verify kp payload signature \<noteq> None then Inl (errw (op @ '': '' @ kp_Address kp) ErrSignatureNotByKey)
      else Inr ()))"

definition wallet_VerifyEntry ::
  "sdk \<Rightarrow> SorobanAuthorizationEntry \<Rightarrow> ed25519Keypair option \<Rightarrow> uint32 \<Rightarrow> string \<Rightarrow> gerr + unit" where
  "wallet_VerifyEntry S entry kpo validUntilLedger networkPassphrase =
     (let op = ''walletsdk: verify entry'' in
      case kpo of None \<Rightarrow> Inl (errw op (Sentinel ErrMissingSigner))
      | Some kp \<Rightarrow>
        bindE (wrapE op (walletRawKey S (kp_Address kp))) (\<lambda>raw.
        bindE (wrapE op (Preimage S entry validUntilLedger networkPassphrase)) (\<lambda>preimage.
        bindE (wrapE op (Payload S preimage)) (\<lambda>payload.
        bindE (wrapE op (signatureNodes S entry (kp_Address kp))) (\<lambda>nodes.
        if nodes = [] then Inl (errw (op @ '': '' @ kp_Address kp) ErrSignatureNotFound)
        else bindE (mapEi (checkStored S kp raw payload) nodes) (\<lambda>_. Inr ()))))))"

definition wallet_VerifyEnvelope ::
  "sdk \<Rightarrow> TransactionEnvelope \<Rightarrow> ed25519Keypair option \<Rightarrow> uint32 \<Rightarrow> string \<Rightarrow> gerr + unit" where
  "wallet_VerifyEnvelope S env kpo validUntilLedger networkPassphrase =
     bindE (wrapE ''walletsdk: verify envelope'' (EnvelopeEntries env)) (\<lambda>entries.
     bindE (mapE (\<lambda>e.
       if cr_Type (en_Credentials (ee_Entry e)) = CredentialsSourceAccount then Inr ()
       else case wallet_VerifyEntry S (ee_Entry e) kpo validUntilLedger networkPassphrase of
         Inl err \<Rightarrow> if isErr ErrSignatureNotFound err then Inr () else Inl (errw (located ''walletsdk: verify envelope'' e) err)
       | Inr () \<Rightarrow> Inr ()) entries) (\<lambda>_. Inr ()))"

section \<open>What an envelope asks of an address\<close>

record Requirement =
  rq_OperationIndex :: nat
  rq_EntryIndex :: nat
  rq_EntryInfo :: EntryInfo
  rq_Wanted :: bool
  rq_Signed :: bool

definition requirementOf :: "sdk \<Rightarrow> string \<Rightarrow> EnvelopeEntry \<Rightarrow> gerr + Requirement" where
  "requirementOf S address e =
     bindE (wrapE (located ''walletsdk: requirements'' e) (Inspect S (ee_Entry e))) (\<lambda>info.
     bindE (wrapE (located ''walletsdk: requirements'' e) (signatureNodes S (ee_Entry e) address)) (\<lambda>nodes.
       Inr \<lparr>rq_OperationIndex = ee_OperationIndex e, rq_EntryIndex = ee_EntryIndex e, rq_EntryInfo = info,
            rq_Wanted = (nodes \<noteq> []), rq_Signed = (nodes \<noteq> [] \<and> list_all (\<lambda>node. node \<noteq> ScvVoid) nodes)\<rparr>))"

definition Requirements :: "sdk \<Rightarrow> TransactionEnvelope \<Rightarrow> string \<Rightarrow> gerr + Requirement list" where
  "Requirements S env address =
     bindE (wrapE ''walletsdk: requirements'' (EnvelopeEntries env)) (mapE (requirementOf S address))"

section \<open>Signing an envelope\<close>

record Signed =
  sd_envelope :: TransactionEnvelope
  sd_entries :: "EnvelopeEntry list"
  sd_enforced :: bool

definition MarkEnforced :: "Signed \<Rightarrow> Signed" where
  "MarkEnforced s = s\<lparr>sd_enforced := True\<rparr>"

definition SignedEnvelope :: "Signed \<Rightarrow> gerr + TransactionEnvelope" where
  "SignedEnvelope s = (if \<not> sd_enforced s then Inl (errw ''walletsdk: envelope'' ErrEnforcePassMissing) else Inr (sd_envelope s))"

definition wallet_Sign ::
  "sdk \<Rightarrow> (TransactionEnvelope \<Rightarrow> gerr + bytes) \<Rightarrow> (bytes \<Rightarrow> gerr + (TransactionEnvelope \<times> nat)) \<Rightarrow> ctx \<Rightarrow>
     TransactionEnvelope \<Rightarrow> ed25519Keypair option \<Rightarrow> uint32 \<Rightarrow> string \<Rightarrow> gerr + Signed" where
  "wallet_Sign S marshal decodeBytes ctx env kpo validUntilLedger networkPassphrase =
     (case ctx of Some err \<Rightarrow> Inl (errw ''walletsdk: sign'' err)
      | None \<Rightarrow>
        bindE (wrapE ''walletsdk: sign'' (wallet_NewSigner S kpo)) (\<lambda>signer.
        bindE (wrapE ''walletsdk: sign'' (AuthorizeEnvelope S marshal decodeBytes ctx env [Some (asSigner S signer)]
                 validUntilLedger networkPassphrase)) (\<lambda>envelope.
        bindE (wrapE ''walletsdk: sign'' (EnvelopeEntries envelope)) (\<lambda>entries.
          Inr \<lparr>sd_envelope = envelope, sd_entries = entries, sd_enforced = False\<rparr>))))"

section \<open>The Freighter flow\<close>

record FreighterSignRequest =
  fq_EntryXDR :: string
  fq_ValidUntilLedger :: uint32
  fq_NetworkPassphrase :: string
  fq_Address :: string

text \<open>The wallet answers with the text of the signed entry.\<close>

type_synonym FreighterWallet = "FreighterSignRequest \<Rightarrow> gerr + string"

definition freighterNetworks :: "string list" where
  "freighterNetworks = [''Test SDF Network ; September 2015'', ''Test SDF Future Network ; September 2015'',
     ''Public Global Stellar Network ; September 2015'']"

definition networkSignedFor :: "sdk \<Rightarrow> SorobanAuthorizationEntry \<Rightarrow> string \<Rightarrow> string" where
  "networkSignedFor S entry except =
     (case find (\<lambda>candidate. candidate \<noteq> except \<and>
                (case VerifyEntry S entry candidate of Inl _ \<Rightarrow> False | Inr report \<Rightarrow> Verified report)) freighterNetworks of
        Some candidate \<Rightarrow> candidate | None \<Rightarrow> [])"

definition nodesForAddress :: "VerificationReport \<Rightarrow> string \<Rightarrow> NodeVerdict list" where
  "nodesForAddress report address = filter (\<lambda>node. nv_Address node = address) (vr_Nodes report)"

definition checkVerdict :: "sdk \<Rightarrow> SorobanAuthorizationEntry \<Rightarrow> string \<Rightarrow> NodeVerdict \<Rightarrow> gerr + unit" where
  "checkVerdict S answer networkPassphrase node =
     (let op = ''walletsdk: sign via freighter: '' in
      case nv_Verdict node of
        VerdictVerified \<Rightarrow> Inr ()
      | VerdictUnsigned \<Rightarrow> Inl (errw (op @ ''node '' @ nv_Address node @ '' came back unsigned'') ErrUnreadableSignature)
      | VerdictCannotCheck \<Rightarrow>
          Inl (errw (op @ ''node '' @ nv_Address node @ '' is not a classic account signature'') ErrUnreadableSignature)
      | _ \<Rightarrow>
          let actual = networkSignedFor S answer networkPassphrase in
          if actual \<noteq> []
          then Inl (errw (op @ ''want '' @ strconv_Quote networkPassphrase @ '', wallet signed for '' @ strconv_Quote actual) wrongNetworkError)
          else Inl (errw (op @ ''node '' @ nv_Address node) ErrSignatureNotByKey))"

definition checkAnswer :: "sdk \<Rightarrow> string \<Rightarrow> string \<Rightarrow> string \<Rightarrow> gerr + SorobanAuthorizationEntry" where
  "checkAnswer S networkPassphrase address answer =
     (let op = ''walletsdk: sign via freighter'' in
      bindE (wrapE (op @ '': the wallet returned an undecodable entry'') (Entry_SafeUnmarshalBase64 S answer)) (\<lambda>signedEntry.
      bindE (wrapE (op @ '': verifying the wallet'' @ [CHR 0x27] @ ''s entry'') (VerifyEntry S signedEntry networkPassphrase)) (\<lambda>report.
      if nodesForAddress report address = [] then Inl (errw (op @ '': '' @ address) ErrSignatureNotFound)
      else bindE (mapE (checkVerdict S signedEntry networkPassphrase) (nodesForAddress report address)) (\<lambda>_. Inr signedEntry))))"

definition walletFailure :: "gerr \<Rightarrow> gerr" where
  "walletFailure err =
     (let op = ''walletsdk: sign via freighter'' in
      if isErr ErrWalletRejected err then errw op err
      else if isErr ErrWalletLocked err then errw op err
      else errw (op @ '': the wallet failed'') err)"

definition SignViaFreighter ::
  "sdk \<Rightarrow> (SorobanAuthorizationEntry \<Rightarrow> gerr + string) \<Rightarrow> ctx \<Rightarrow> FreighterWallet option \<Rightarrow> SorobanAuthorizationEntry \<Rightarrow>
     uint32 \<Rightarrow> string \<Rightarrow> string \<Rightarrow> gerr + SorobanAuthorizationEntry" where
  "SignViaFreighter S marshalBase64 ctx wallet entry validUntilLedger networkPassphrase address =
     (let op = ''walletsdk: sign via freighter'' in
      case ctx of Some err \<Rightarrow> Inl (errw op err)
      | None \<Rightarrow>
        (case wallet of None \<Rightarrow> Inl (errw op (Sentinel ErrMissingSigner))
         | Some w \<Rightarrow>
           bindE (wrapE (op @ '': encoding the entry'') (marshalBase64 entry)) (\<lambda>encoded.
           case w \<lparr>fq_EntryXDR = encoded, fq_ValidUntilLedger = validUntilLedger, fq_NetworkPassphrase = networkPassphrase,
                    fq_Address = address\<rparr> of
             Inl err \<Rightarrow> Inl (walletFailure err)
           | Inr answer \<Rightarrow> checkAnswer S networkPassphrase address answer)))"

section \<open>Specification\<close>

text \<open>The nodes of an entry with their signatures, in preorder.\<close>

fun treeSignatures :: "SorobanDelegateSignature list \<Rightarrow> (ScAddress \<times> ScVal) list" where
  "treeSignatures [] = []"
| "treeSignatures (d # ds) = (ds_Address d, ds_Signature d) # treeSignatures (ds_NestedDelegates d) @ treeSignatures ds"

definition signaturesOf :: "sdk \<Rightarrow> string \<Rightarrow> (ScAddress \<times> ScVal) list \<Rightarrow> ScVal list" where
  "signaturesOf S wanted ns = map snd (filter (\<lambda>n. FormatAddress S (fst n) = Inr wanted) ns)"

lemma signaturesOf_simps [simp]:
  "signaturesOf S w [] = []"
  "signaturesOf S w (n # ns) = (if FormatAddress S (fst n) = Inr w then snd n # signaturesOf S w ns else signaturesOf S w ns)"
  "signaturesOf S w (ns @ ms) = signaturesOf S w ns @ signaturesOf S w ms"
  by (simp_all add: signaturesOf_def)

lemma collect_Inr_iff:
  "collectSignature S a sig w ds = Inr out \<longleftrightarrow>
     list_all (\<lambda>n. isOk (FormatAddress S (fst n))) ((a, sig) # treeSignatures ds) \<and> out = signaturesOf S w ((a, sig) # treeSignatures ds)"
  "collectDelegates S ds w = Inr out \<longleftrightarrow>
     list_all (\<lambda>n. isOk (FormatAddress S (fst n))) (treeSignatures ds) \<and> out = signaturesOf S w (treeSignatures ds)"
proof (induction S a sig w ds and S ds w arbitrary: out and out rule: collectSignature_collectDelegates.induct)
  case (1 S a sig w ds)
  then show ?case by (auto simp: collectSignature.simps bindE_Inr_iff sameAddress_def isOk_iff)
next
  case (3 S d ds w)
  then show ?case by (fastforce simp: bindE_Inr_iff isOk_iff list_all_iff)
qed auto

section \<open>What the checks mean\<close>

lemma walletFields_Inr_iff: "walletFields S m acc = Inr x \<longleftrightarrow> signatureFields S m acc = Inr x"
proof (induction m arbitrary: acc)
  case (Cons kv m)
  obtain key val where kv: "kv = (key, val)" by (cases kv)
  show ?case
  proof (cases "\<exists>f. key = ScvSymbol (Some f)")
    case True
    then obtain f where "key = ScvSymbol (Some f)" ..
    then show ?thesis using Cons.IH by (cases val) (simp_all add: kv split: option.split)
  next
    case False
    then show ?thesis using Cons.IH by (cases key) (simp_all add: kv split: option.split)
  qed
qed simp

text \<open>The adapter reads a stored signature exactly as the library does.\<close>

lemma walletParse_Inr_iff: "walletParse S v = Inr x \<longleftrightarrow> parseAccountSignature S v = Inr x"
proof (cases "\<exists>element. v = ScvVec (Some (Some [element]))")
  case True
  then obtain element where "v = ScvVec (Some (Some [element]))" ..
  then show ?thesis
    by (cases element) (auto simp: walletParse_def parseAccountSignature_def bindE_Inr_iff walletFields_Inr_iff split: option.splits)
next
  case False
  then show ?thesis
    by (cases v) (simp_all add: walletParse_def parseAccountSignature_def split: option.split list.split)
qed

definition armDelegates :: "SorobanAuthorizationEntry \<Rightarrow> SorobanDelegateSignature list" where
  "armDelegates e = (if cr_Type (en_Credentials e) = CredentialsAddressWithDelegates then delegatesOf e else [])"

lemma signatureNodes_arm:
  "addressCredentials (en_Credentials e) = Inr a \<Longrightarrow>
     signatureNodes S e w = collectSignature S (ac_Address a) (ac_Signature a) w (armDelegates e)"
  by (auto simp: signatureNodes_def addressCredentials_def armDelegates_def delegatesOf_def Let_def
      split: SorobanCredentialsType.splits option.splits)

definition walletKey :: "sdk \<Rightarrow> walletSigner \<Rightarrow> bytes \<Rightarrow> bool" where
  "walletKey S s raw \<longleftrightarrow> ws_raw s = raw \<and> length raw = 32 \<and>
     (\<forall>m sig. kp_Verify (ws_kp s) m sig = None \<longrightarrow> ed25519_Verify S raw m sig)"

interpretation wallet: classic_signer asSigner walletKey
  by unfold_locales
    (auto simp: walletKey_def asSigner_def walletKeySign_def bindE_Inr_iff if_Inl_iff Let_def ed25519_SignatureSize_def split: option.splits)

lemma setExpiration_Preimage:
  "Preimage S (setExpiration x e) v net = Inr p \<longleftrightarrow> Preimage S e v net = Inr p"
  by (cases "addressCredentials (en_Credentials e)") (auto simp: Preimage_Inr_build buildPreimage_Inr_iff specPreimage_def)

lemma setExpiration_signatureNodes:
  "signatureNodes S (setExpiration x e) w = signatureNodes S e w"
  by (auto simp: signatureNodes_def setExpiration_def updateAddressCredentials_def Let_def
      split: SorobanCredentialsType.splits option.splits)

lemma checkAnswer_Inr:
  assumes "checkAnswer S net address answer = Inr e'"
  obtains report where "Entry_SafeUnmarshalBase64 S answer = Inr e'" "VerifyEntry S e' net = Inr report"
    "nodesForAddress report address \<noteq> []" "\<forall>n \<in> set (nodesForAddress report address). nv_Verdict n = VerdictVerified"
proof -
  have "nv_Verdict n = VerdictVerified" if "checkVerdict S e' net n = Inr u" for n u
    using that by (auto simp: checkVerdict_def Let_def split: VerifyVerdict.splits if_splits)
  then show ?thesis
    using assms that
    by (fastforce simp: checkAnswer_def bindE_Inr_iff if_Inl_iff Let_def mapE_Inr_iff list_all2_conv_all_nth in_set_conv_nth)
qed

end
