(* ===== verification/Wallet_Properties.thy ===== *)
theory Wallet_Properties
  imports Wallet Sample_Sdk
begin

text \<open>
  The wallet adapter: what its own check of an entry accepts, and what is known of an entry a
  browser wallet returned.
\<close>

section \<open>Checking an entry\<close>

text \<open>The nodes of an entry on an address arm, with the address and the signature of each.\<close>

definition entrySignatures :: "SorobanAddressCredentials \<Rightarrow> SorobanAuthorizationEntry \<Rightarrow> (ScAddress \<times> ScVal) list" where
  "entrySignatures a e = (ac_Address a, ac_Signature a) # treeSignatures (armDelegates e)"

lemma signatureNodes_Inr_iff:
  "addressCredentials (en_Credentials e) = Inr a \<Longrightarrow>
     signatureNodes S e w = Inr out \<longleftrightarrow>
       list_all (\<lambda>n. isOk (FormatAddress S (fst n))) (entrySignatures a e) \<and> out = signaturesOf S w (entrySignatures a e)"
  by (simp only: signatureNodes_arm collect_Inr_iff entrySignatures_def)

lemma checkStored_Inr_iff:
  "checkStored S kp raw payload i node = Inr u \<longleftrightarrow>
     (\<exists>sig. parseAccountSignature S node = Inr (raw, sig) \<and> kp_Verify kp payload sig = None)"
  by (auto simp: checkStored_def Let_def bindE_Inr_iff if_Inl_iff walletParse_Inr_iff)

lemma mapEi_unit_Inr_iff: "(\<exists>us. mapEi f xs = Inr (us :: unit list)) \<longleftrightarrow> (\<forall>i < length xs. f i (xs ! i) = Inr ())"
  by (auto simp: mapEi_Inr_iff intro!: exI [of _ "map (\<lambda>_. ()) xs"])

lemma Preimage_arm:
  "Preimage S e v net = Inr p \<Longrightarrow> \<exists>a. addressCredentials (en_Credentials e) = Inr a"
  by (auto simp: Preimage_Inr_build buildPreimage_Inr_iff)

lemma storedChecks_iff:
  assumes "nodes = signaturesOf S (kp_Address kp) ns"
  shows "(nodes \<noteq> [] \<and> (\<exists>us. mapEi (checkStored S kp raw h) nodes = Inr us)) \<longleftrightarrow>
      (\<exists>(x, s) \<in> set ns. FormatAddress S x = Inr (kp_Address kp)) \<and>
      (\<forall>(x, s) \<in> set ns. FormatAddress S x = Inr (kp_Address kp) \<longrightarrow>
         (\<exists>sig. parseAccountSignature S s = Inr (raw, sig) \<and> kp_Verify kp h sig = None))"
proof -
  have "(\<exists>us. mapEi (checkStored S kp raw h) nodes = Inr us) \<longleftrightarrow>
      (\<forall>s \<in> set nodes. \<exists>sig. parseAccountSignature S s = Inr (raw, sig) \<and> kp_Verify kp h sig = None)"
    by (simp add: mapEi_unit_Inr_iff checkStored_Inr_iff all_set_conv_all_nth)
  then show ?thesis using assms by (auto simp: signaturesOf_def filter_empty_conv case_prod_unfold)
qed

lemma wallet_VerifyEntry_Inr_iff:
  "wallet_VerifyEntry S e (Some kp) v net = Inr () \<longleftrightarrow>
     (\<exists>raw p h nodes. strkey_Decode S VersionByteAccountID (kp_Address kp) = Inr raw \<and> Preimage S e v net = Inr p \<and>
       Payload S p = Inr h \<and> signatureNodes S e (kp_Address kp) = Inr nodes \<and>
       nodes \<noteq> [] \<and> (\<exists>us. mapEi (checkStored S kp raw h) nodes = Inr us))"
  by (auto simp: wallet_VerifyEntry_def walletRawKey_def Let_def bindE_Inr_iff if_Inl_iff)

text \<open>
  C37: the wallet's check accepts exactly the entries its key has signed. \<open>VerifyEntry\<close> of the
  adapter succeeds if and only if the key pair's address is an account, the entry has a preimage at
  the expiration the caller names, some node of the entry names the address, and every node that
  does carries one classic signature with that account's key which the key pair verifies over the
  preimage's payload. The expiration stored in the entry plays no part: changing it changes
  nothing.
\<close>

theorem wallet_verify_exact:
  "(wallet_VerifyEntry S e (Some kp) v net = Inr () \<longleftrightarrow>
     (\<exists>raw p h a. strkey_Decode S VersionByteAccountID (kp_Address kp) = Inr raw \<and>
       Preimage S e v net = Inr p \<and> Payload S p = Inr h \<and> addressCredentials (en_Credentials e) = Inr a \<and>
       (\<forall>(x, s) \<in> set (entrySignatures a e). isOk (FormatAddress S x)) \<and>
       (\<exists>(x, s) \<in> set (entrySignatures a e). FormatAddress S x = Inr (kp_Address kp)) \<and>
       (\<forall>(x, s) \<in> set (entrySignatures a e). FormatAddress S x = Inr (kp_Address kp) \<longrightarrow>
          (\<exists>sig. parseAccountSignature S s = Inr (raw, sig) \<and> kp_Verify kp h sig = None)))) \<and>
   (wallet_VerifyEntry S (setExpiration x e) (Some kp) v net = Inr () \<longleftrightarrow> wallet_VerifyEntry S e (Some kp) v net = Inr ())"
  (is "(?L \<longleftrightarrow> ?R) \<and> _")
proof (intro conjI iffI)
  assume ?L
  then obtain raw p h nodes where l: "strkey_Decode S VersionByteAccountID (kp_Address kp) = Inr raw" "Preimage S e v net = Inr p"
    "Payload S p = Inr h" "signatureNodes S e (kp_Address kp) = Inr nodes" "nodes \<noteq> [] \<and> (\<exists>us. mapEi (checkStored S kp raw h) nodes = Inr us)"
    unfolding wallet_VerifyEntry_Inr_iff by blast
  obtain a where a: "addressCredentials (en_Credentials e) = Inr a" using Preimage_arm [OF l(2)] ..
  with l(4) have ok: "list_all (\<lambda>n. isOk (FormatAddress S (fst n))) (entrySignatures a e)"
    and nodes: "nodes = signaturesOf S (kp_Address kp) (entrySignatures a e)"
    by (simp_all add: signatureNodes_Inr_iff)
  from l(5) [unfolded storedChecks_iff [OF nodes]] ok l(1-3) a show ?R
    by (intro exI [of _ raw] exI [of _ p] exI [of _ h] exI [of _ a]) (simp add: list_all_iff case_prod_unfold)
next
  assume ?R
  then obtain raw p h a where r: "strkey_Decode S VersionByteAccountID (kp_Address kp) = Inr raw" "Preimage S e v net = Inr p"
    "Payload S p = Inr h" "addressCredentials (en_Credentials e) = Inr a"
    "\<forall>(x, s) \<in> set (entrySignatures a e). isOk (FormatAddress S x)"
    "(\<exists>(x, s) \<in> set (entrySignatures a e). FormatAddress S x = Inr (kp_Address kp)) \<and>
       (\<forall>(x, s) \<in> set (entrySignatures a e). FormatAddress S x = Inr (kp_Address kp) \<longrightarrow>
          (\<exists>sig. parseAccountSignature S s = Inr (raw, sig) \<and> kp_Verify kp h sig = None))" by blast
  have "signatureNodes S e (kp_Address kp) = Inr (signaturesOf S (kp_Address kp) (entrySignatures a e))"
    using r(4,5) by (simp add: signatureNodes_Inr_iff list_all_iff case_prod_unfold)
  then show ?L
    unfolding wallet_VerifyEntry_Inr_iff using r(1-3) r(6) [folded storedChecks_iff [OF refl]] by blast
qed (simp_all add: wallet_VerifyEntry_Inr_iff setExpiration_Preimage setExpiration_signatureNodes)

text \<open>The sample entry, signed by the sample key pair.\<close>

definition signedV2 :: SorobanAuthorizationEntry where
  "signedV2 = entryV2\<lparr>en_Credentials := (en_Credentials entryV2)\<lparr>cr_AddressV2 :=
     Some ((sampleCredentials (accountAddress (keyOf 1)))\<lparr>ac_SignatureExpirationLedger := 100, ac_Signature := sampleSignature 1\<rparr>)\<rparr>\<rparr>"

lemma signedV2_simps:
  "addressCredentials (en_Credentials signedV2) =
     Inr ((sampleCredentials (accountAddress (keyOf 1)))\<lparr>ac_SignatureExpirationLedger := 100, ac_Signature := sampleSignature 1\<rparr>)"
  "cr_Type (en_Credentials signedV2) = CredentialsAddressV2" "armDelegates signedV2 = []"
  by (simp_all add: signedV2_def entryV2_def addressCredentials_def armDelegates_def)

lemma signedV2_preimage: "Preimage sampleSdk signedV2 100 sampleNetwork = Inr (preimageBound (accountAddress (keyOf 1)))"
proof -
  have "sampleNetwork \<noteq> ''''" by (simp add: sampleNetwork_def)
  then have "buildPreimage sampleSdk signedV2 100 sampleNetwork = Inr (preimageBound (accountAddress (keyOf 1)))"
    unfolding buildPreimage_Inr_iff
    by (simp add: signedV2_simps specPreimage_def preimageBound_def sampleCredentials_def) (simp add: signedV2_def entryV2_def)
  then show ?thesis by (simp add: Preimage_def copyPreimage_id)
qed

theorem wallet_verify_exact_witness:
  "wallet_VerifyEntry sampleSdk (setExpiration 7 signedV2) (Some sampleKeypair) 100 sampleNetwork = Inr ()"
proof -
  have "parseAccountSignature sampleSdk (sampleSignature 1) = Inr (keyOf 1, keyOf 1 @ keyOf 1)"
    by (simp add: sampleSignature_def parse_accountSignature ed25519_PublicKeySize_def ed25519_SignatureSize_def)
  moreover have "strkey_Decode sampleSdk VersionByteAccountID ''GA'' = Inr (keyOf 1)" by (simp add: sampleSdk_def sample_defs)
  ultimately have "wallet_VerifyEntry sampleSdk signedV2 (Some sampleKeypair) 100 sampleNetwork = Inr ()"
    using wallet_verify_exact [of sampleSdk signedV2 sampleKeypair 100 sampleNetwork 7]
    by (simp add: signedV2_preimage signedV2_simps entrySignatures_def sampleKeypair_def sampleCredentials_def)
  then show ?thesis using wallet_verify_exact [of sampleSdk signedV2 sampleKeypair 100 sampleNetwork 7] by simp
qed

section \<open>The Freighter flow\<close>

text \<open>
  What the Freighter flow hands out was checked, and only checked against itself. The entry
  returned is the one the wallet answered with; \<open>VerifyEntry\<close> accepts it at the expected
  passphrase, it has nodes naming the address, and all of them verify. Nothing relates it to the
  entry the caller asked to have signed: for any other entry the same answer gives the same
  result.
\<close>

lemma freighter_answer_verified:
  assumes "SignViaFreighter S marshalBase64 ctx wallet e v net address = Inr e'"
  shows "\<exists>w report. wallet = Some w \<and> VerifyEntry S e' net = Inr report \<and> nodesForAddress report address \<noteq> [] \<and>
    (\<forall>n \<in> set (vr_Nodes report). nv_Address n = address \<longrightarrow> nv_Verdict n = VerdictVerified) \<and>
    (\<exists>sent answer. marshalBase64 e = Inr sent \<and>
      w \<lparr>fq_EntryXDR = sent, fq_ValidUntilLedger = v, fq_NetworkPassphrase = net, fq_Address = address\<rparr> = Inr answer \<and>
      Entry_SafeUnmarshalBase64 S answer = Inr e' \<and>
      (\<forall>e2 sent2 v2. marshalBase64 e2 = Inr sent2 \<and>
         w \<lparr>fq_EntryXDR = sent2, fq_ValidUntilLedger = v2, fq_NetworkPassphrase = net, fq_Address = address\<rparr> = Inr answer \<longrightarrow>
         SignViaFreighter S marshalBase64 None wallet e2 v2 net address = Inr e'))"
proof -
  obtain w sent answer where w: "wallet = Some w" "marshalBase64 e = Inr sent"
    "w \<lparr>fq_EntryXDR = sent, fq_ValidUntilLedger = v, fq_NetworkPassphrase = net, fq_Address = address\<rparr> = Inr answer"
    "checkAnswer S net address answer = Inr e'"
    using assms by (auto simp: SignViaFreighter_def Let_def bindE_Inr_iff case_sum_Inr_iff split: option.splits)
  obtain report where r: "Entry_SafeUnmarshalBase64 S answer = Inr e'" "VerifyEntry S e' net = Inr report"
    "nodesForAddress report address \<noteq> []" "\<forall>n \<in> set (nodesForAddress report address). nv_Verdict n = VerdictVerified"
    using w(4) by (rule checkAnswer_Inr)
  have "SignViaFreighter S marshalBase64 None wallet e2 v2 net address = Inr e'"
    if "marshalBase64 e2 = Inr sent2" "w \<lparr>fq_EntryXDR = sent2, fq_ValidUntilLedger = v2, fq_NetworkPassphrase = net, fq_Address = address\<rparr> = Inr answer"
    for e2 sent2 v2
    using that w(1,4) by (simp add: SignViaFreighter_def Let_def)
  with w r show ?thesis by (auto simp: nodesForAddress_def)
qed

text \<open>A wallet that answers every request with the same signed entry.\<close>

definition freighterSdk :: sdk where
  "freighterSdk = sampleSdk\<lparr>Entry_SafeUnmarshalBase64 := (\<lambda>s. Inr signedV2)\<rparr>"

lemma freighter_format: "FormatAddress freighterSdk (accountAddress (keyOf 1)) = Inr ''GA''"
  by (simp add: FormatAddress_def freighterSdk_def sampleSdk_def sample_defs accountAddress_def)

lemma freighter_preimage: "Preimage freighterSdk signedV2 100 sampleNetwork = Inr (preimageBound (accountAddress (keyOf 1)))"
proof -
  have "sampleNetwork \<noteq> ''''" by (simp add: sampleNetwork_def)
  then have "buildPreimage freighterSdk signedV2 100 sampleNetwork = Inr (preimageBound (accountAddress (keyOf 1)))"
    unfolding buildPreimage_Inr_iff
    by (simp add: signedV2_simps specPreimage_def preimageBound_def sampleCredentials_def freighter_format)
      (simp add: signedV2_def entryV2_def freighterSdk_def)
  moreover have "preimage_roundtrips freighterSdk (preimageBound (accountAddress (keyOf 1)))"
    using sample_roundtrips by (simp add: preimage_roundtrips_def freighterSdk_def)
  ultimately show ?thesis by (simp add: Preimage_def copyPreimage_id)
qed

lemma freighter_primitives:
  "ScAddress_UnmarshalBinary freighterSdk (0 # k) = Inr (accountAddress k)"
  "ed25519_Verify freighterSdk k m sig \<longleftrightarrow> sig = k @ sampleHash m"
  by (simp_all add: freighterSdk_def sampleSdk_def sample_defs)

lemma freighter_verifies:
  "\<exists>r. VerifyEntry freighterSdk signedV2 sampleNetwork = Inr r \<and>
     vr_Nodes r = [\<lparr>nv_Address = ''GA'', nv_Verdict = VerdictVerified, nv_Reason = ''''\<rparr>]"
proof -
  have "Payload freighterSdk (preimageBound (accountAddress (keyOf 1))) = Inr (keyOf 1)"
    using sample_preimages(2) by (simp add: Payload_Inr_iff freighterSdk_def)
  moreover have "credentialNodes freighterSdk signedV2 = Inr [\<lparr>cn_encoded = 0 # keyOf 1, cn_signature = []\<rparr>]"
    by (simp add: credentialNodes_def signedV2_simps sampleCredentials_def addressBytes_def)
      (simp add: freighterSdk_def sampleSdk_def sample_defs accountAddress_def)
  moreover have "verifyNode freighterSdk (sampleSignature 1) (0 # keyOf 1) (keyOf 1) =
      Inr \<lparr>nv_Address = ''GA'', nv_Verdict = VerdictVerified, nv_Reason = ''''\<rparr>"
    by (simp add: verifyNode_def freighter_primitives freighter_format sampleSignature_def parse_accountSignature
        ed25519_PublicKeySize_def ed25519_SignatureSize_def) (simp add: accountAddress_def)
  ultimately show ?thesis
    using freighter_preimage freighter_format
    by (simp add: VerifyEntry_def VerifyEntryContext_def Let_def signedV2_simps sampleCredentials_def sigAt_def derefSig_def)
qed

end
