(* ===== verification/Frost.thy ===== *)
theory Frost
  imports Key_Store Encoding
begin

unbundle bit_operations_syntax

text \<open>
  The FROST threshold signer (\<^verbatim>\<open>src/frost/frost.go\<close>): the coordinator with its signing rounds,
  the participants, and the signer that runs both rounds of the protocol. The cryptography
  of the \<^verbatim>\<open>bytemare/frost\<close> module is a parameter, a record of the functions the source calls.
  A participant holds a pointer to its coordinator, which need not be the one of the signer it
  is given to, so coordinators live in a store under a reference. The mutex makes each operation
  of the coordinator one step.
\<close>

section \<open>The FROST module\<close>

type_synonym uint16 = "16 word"

text \<open>
  \<open>'el\<close> are group elements, \<open>'pk\<close> public key shares, \<open>'ks\<close> key shares, \<open>'cm\<close> commitments,
  \<open>'sh\<close> signature shares and \<open>'sn\<close> the state of a \<open>frost.Signer\<close>, which holds the nonces it has
  committed to. An aggregated signature is given by the encodings of \<open>R\<close> and \<open>Z\<close>.
\<close>

record ('el, 'pk) Configuration =
  cfg_Threshold :: uint16
  cfg_MaxSigners :: uint16
  cfg_VerificationKey :: 'el
  cfg_SignerPublicKeyShares :: "'pk list"

record ('el, 'pk, 'ks, 'cm, 'sh, 'sn) frostLib =
  Element_Decode :: "bytes \<Rightarrow> gerr + 'el"
  Element_Encode :: "'el \<Rightarrow> bytes"
  NewPublicKeyShare :: "uint16 \<Rightarrow> bytes \<Rightarrow> gerr + 'pk"
  Configuration_Init :: "('el, 'pk) Configuration \<Rightarrow> gerr option"
  NewKeyShare :: "uint16 \<Rightarrow> bytes \<Rightarrow> bytes \<Rightarrow> bytes \<Rightarrow> gerr + 'ks"
  Configuration_Signer :: "('el, 'pk) Configuration \<Rightarrow> 'ks \<Rightarrow> gerr + 'sn"
  ValidateCommitment :: "('el, 'pk) Configuration \<Rightarrow> 'cm \<Rightarrow> gerr option"
  CommitmentList_Sort :: "'cm list \<Rightarrow> 'cm list"
  VerifySignatureShare :: "('el, 'pk) Configuration \<Rightarrow> 'sh \<Rightarrow> bytes \<Rightarrow> 'cm list \<Rightarrow> gerr option"
  AggregateSignatures :: "('el, 'pk) Configuration \<Rightarrow> bytes \<Rightarrow> 'sh list \<Rightarrow> 'cm list \<Rightarrow> bool \<Rightarrow> gerr + (bytes \<times> bytes)"
  Signer_Commit :: "'sn \<Rightarrow> 'sn \<times> 'cm"
  Signer_Sign :: "'sn \<Rightarrow> bytes \<Rightarrow> 'cm list \<Rightarrow> 'sn \<times> (gerr + 'sh)"
  Commitment_SignerID :: "'cm \<Rightarrow> uint16"
  SignatureShare_SignerIdentifier :: "'sh \<Rightarrow> uint16"
  DealerKeygen :: "uint16 \<Rightarrow> uint16 \<Rightarrow> (bytes \<times> bytes) list \<times> 'el"

section \<open>The coordinator\<close>

record ('cm, 'sh) frostSigningSession =
  fr_round :: int64
  fr_commitments :: "'cm list"
  fr_message :: bytes
  fr_sigShares :: "'sh list"
  fr_complete :: bool
  fr_signature :: bytes

record ('el, 'pk, 'cm, 'sh) FROSTCoordinator =
  co_cfg :: "('el, 'pk) Configuration"
  co_threshold :: uint16
  co_address :: string
  co_sessions :: "int64 \<rightharpoonup> ('cm, 'sh) frostSigningSession"

text \<open>A conversion \<open>uint16(n)\<close> keeps the low sixteen bits.\<close>

definition uint16Of :: "int \<Rightarrow> uint16" where
  "uint16Of n = word_of_int n"

definition decodeKeyShare ::
  "('el, 'pk, 'ks, 'cm, 'sh, 'sn) frostLib \<Rightarrow> nat \<Rightarrow> bytes \<Rightarrow> gerr + 'pk" where
  "decodeKeyShare L i pkBytes =
     (if length pkBytes \<noteq> ed25519_PublicKeySize
      then Inl (errmsg (''frost: public key share '' @ itoa i @ '' must be '' @ itoa ed25519_PublicKeySize @ '' bytes, got '' @ itoa (length pkBytes)))
      else
        bindE (wrapE (''frost: decode public key share '' @ itoa i) (Element_Decode L pkBytes)) (\<lambda>_.
          wrapE (''frost: create public key share '' @ itoa i) (NewPublicKeyShare L (uint16Of (int i + 1)) pkBytes)))"

definition NewFROSTCoordinator ::
  "('el, 'pk, 'ks, 'cm, 'sh, 'sn) frostLib \<Rightarrow> sdk \<Rightarrow> bytes \<Rightarrow> bytes list \<Rightarrow> int \<Rightarrow> int \<Rightarrow> string \<Rightarrow>
     gerr + ('el, 'pk, 'cm, 'sh) FROSTCoordinator" where
  "NewFROSTCoordinator L S verificationKey publicKeyShares threshold maxSigners address =
     (if length verificationKey \<noteq> ed25519_PublicKeySize
      then Inl (errmsg (''frost: verification key must be '' @ itoa ed25519_PublicKeySize @ '' bytes, got '' @ itoa (length verificationKey)))
      else if threshold < 1 \<or> threshold > maxSigners
      then Inl (errmsg (''frost: threshold '' @ itoa_int threshold @ '' must be between 1 and '' @ itoa_int maxSigners))
      else if int (length publicKeyShares) \<noteq> maxSigners
      then Inl (errmsg (''frost: expected '' @ itoa_int maxSigners @ '' public key shares, got '' @ itoa (length publicKeyShares)))
      else
        bindE (wrapE (''frost: invalid address '' @ strconv_Quote address) (strkey_Decode S VersionByteAccountID address)) (\<lambda>_.
        bindE (wrapE ''frost: decode verification key'' (Element_Decode L verificationKey)) (\<lambda>vk.
        bindE (mapEi (decodeKeyShare L) publicKeyShares) (\<lambda>pkShares.
        let cfg = \<lparr>cfg_Threshold = uint16Of threshold, cfg_MaxSigners = uint16Of maxSigners, cfg_VerificationKey = vk,
                   cfg_SignerPublicKeyShares = pkShares\<rparr> in
        case Configuration_Init L cfg of
          Some err \<Rightarrow> Inl (errw ''frost: init configuration'' err)
        | None \<Rightarrow> Inr \<lparr>co_cfg = cfg, co_threshold = uint16Of threshold, co_address = address, co_sessions = Map.empty\<rparr>))))"

text \<open>The round of eight random bytes, or the error of the random source.\<close>

definition defaultRoundGen :: "gerr + bytes \<Rightarrow> gerr + int64" where
  "defaultRoundGen read =
     bindE read (\<lambda>buf. Inr
       (push_bit 56 (ucast (buf ! 0)) OR push_bit 48 (ucast (buf ! 1)) OR push_bit 40 (ucast (buf ! 2)) OR
        push_bit 32 (ucast (buf ! 3)) OR push_bit 24 (ucast (buf ! 4)) OR push_bit 16 (ucast (buf ! 5)) OR
        push_bit 8 (ucast (buf ! 6)) OR ucast (buf ! 7)))"

definition roundText :: "int64 \<Rightarrow> string" where
  "roundText round = itoa_int (sint round)"

definition notFound :: "int64 \<Rightarrow> gerr" where
  "notFound round = errmsg (''frost: round '' @ roundText round @ '' not found'')"

text \<open>\<open>gen\<close> is what \<open>roundGen\<close> returns to this call.\<close>

definition frost_Begin ::
  "('el, 'pk, 'cm, 'sh) FROSTCoordinator \<Rightarrow> gerr + int64 \<Rightarrow> ctx \<Rightarrow> bytes \<Rightarrow>
     ('el, 'pk, 'cm, 'sh) FROSTCoordinator \<times> (gerr + int64)" where
  "frost_Begin c gen ctx payload =
     (case ctx of Some err \<Rightarrow> (c, Inl (errw ''frost: begin'' err))
      | None \<Rightarrow>
        (case gen of Inl err \<Rightarrow> (c, Inl (errw ''frost: begin: generate round'' err))
         | Inr round \<Rightarrow>
             (c\<lparr>co_sessions := (co_sessions c)(round \<mapsto>
                 \<lparr>fr_round = round, fr_commitments = [], fr_message = payload, fr_sigShares = [], fr_complete = False, fr_signature = []\<rparr>)\<rparr>,
              Inr round)))"

definition AddCommitment ::
  "('el, 'pk, 'ks, 'cm, 'sh, 'sn) frostLib \<Rightarrow> ('el, 'pk, 'cm, 'sh) FROSTCoordinator \<Rightarrow> ctx \<Rightarrow> int64 \<Rightarrow> 'cm \<Rightarrow>
     ('el, 'pk, 'cm, 'sh) FROSTCoordinator \<times> (gerr + unit)" where
  "AddCommitment L c ctx round commitment =
     (case ctx of Some err \<Rightarrow> (c, Inl (errw ''frost: add commitment'' err))
      | None \<Rightarrow>
        (case co_sessions c round of None \<Rightarrow> (c, Inl (notFound round))
         | Some session \<Rightarrow>
           if fr_complete session then (c, Inl (errmsg (''frost: round '' @ roundText round @ '' already complete'')))
           else (case ValidateCommitment L (co_cfg c) commitment of
               Some err \<Rightarrow> (c, Inl (errw ''frost: invalid commitment'' err))
             | None \<Rightarrow>
                 (c\<lparr>co_sessions := (co_sessions c)(round \<mapsto> session\<lparr>fr_commitments := fr_commitments session @ [commitment]\<rparr>)\<rparr>,
                  Inr ()))))"

definition GetCommitments ::
  "('el, 'pk, 'ks, 'cm, 'sh, 'sn) frostLib \<Rightarrow> ('el, 'pk, 'cm, 'sh) FROSTCoordinator \<Rightarrow> int64 \<Rightarrow> gerr + 'cm list" where
  "GetCommitments L c round =
     (case co_sessions c round of None \<Rightarrow> Inl (notFound round)
      | Some session \<Rightarrow>
          if length (fr_commitments session) < unat (co_threshold c)
          then Inl (errmsg (''frost: insufficient commitments ('' @ itoa (length (fr_commitments session)) @ ''/'' @
                 itoa (unat (co_threshold c)) @ '')''))
          else Inr (CommitmentList_Sort L (fr_commitments session)))"

text \<open>
  A share is kept once it is verified, also where the aggregation then fails. The first shares
  up to the threshold are aggregated, with every commitment of the round.
\<close>

definition AddSignatureShare ::
  "('el, 'pk, 'ks, 'cm, 'sh, 'sn) frostLib \<Rightarrow> ('el, 'pk, 'cm, 'sh) FROSTCoordinator \<Rightarrow> ctx \<Rightarrow> int64 \<Rightarrow> 'sh \<Rightarrow>
     ('el, 'pk, 'cm, 'sh) FROSTCoordinator \<times> (gerr + bytes option)" where
  "AddSignatureShare L c ctx round share =
     (case ctx of Some err \<Rightarrow> (c, Inl (errw ''frost: add signature share'' err))
      | None \<Rightarrow>
        (case co_sessions c round of None \<Rightarrow> (c, Inl (notFound round))
         | Some session \<Rightarrow>
           if fr_complete session then (c, Inr (Some (fr_signature session)))
           else
             let commitments = CommitmentList_Sort L (fr_commitments session) in
             case VerifySignatureShare L (co_cfg c) share (fr_message session) commitments of
               Some err \<Rightarrow> (c, Inl (errw ''frost: invalid signature share'' err))
             | None \<Rightarrow>
                 let session1 = session\<lparr>fr_sigShares := fr_sigShares session @ [share]\<rparr>;
                     c1 = c\<lparr>co_sessions := (co_sessions c)(round \<mapsto> session1)\<rparr> in
                 if length (fr_sigShares session1) < unat (co_threshold c) then (c1, Inr None)
                 else (case AggregateSignatures L (co_cfg c) (fr_message session)
                            (take (unat (co_threshold c)) (fr_sigShares session1)) commitments True of
                     Inl err \<Rightarrow> (c1, Inl (errw ''frost: aggregate signatures'' err))
                   | Inr (rBytes, sBytes) \<Rightarrow>
                       if length rBytes \<noteq> 32 \<or> length sBytes \<noteq> 32
                       then (c1, Inl (errmsg (''frost: unexpected signature component size: R='' @ itoa (length rBytes) @ '', s='' @ itoa (length sBytes))))
                       else
                         (c\<lparr>co_sessions := (co_sessions c)(round \<mapsto> session1\<lparr>fr_signature := rBytes @ sBytes, fr_complete := True\<rparr>)\<rparr>,
                          Inr (Some (rBytes @ sBytes))))))"

definition GetSignature :: "('el, 'pk, 'cm, 'sh) FROSTCoordinator \<Rightarrow> int64 \<Rightarrow> gerr + bytes" where
  "GetSignature c round =
     (case co_sessions c round of None \<Rightarrow> Inl (notFound round)
      | Some session \<Rightarrow>
          if \<not> fr_complete session then Inl (errmsg (''frost: round '' @ roundText round @ '' not complete''))
          else Inr (fr_signature session))"

definition IsComplete :: "('el, 'pk, 'cm, 'sh) FROSTCoordinator \<Rightarrow> int64 \<Rightarrow> bool" where
  "IsComplete c round = (case co_sessions c round of None \<Rightarrow> False | Some session \<Rightarrow> fr_complete session)"

definition Cleanup :: "('el, 'pk, 'cm, 'sh) FROSTCoordinator \<Rightarrow> int64 \<Rightarrow> ('el, 'pk, 'cm, 'sh) FROSTCoordinator" where
  "Cleanup c round = c\<lparr>co_sessions := (co_sessions c)(round := None)\<rparr>"

section \<open>Participants\<close>

type_synonym coordRef = nat

record 'sn FROSTParticipant =
  fp_signer :: 'sn
  fp_id :: uint16
  fp_coord :: coordRef
  fp_publicKey :: bytes

type_synonym ('el, 'pk, 'cm, 'sh) coords = "coordRef \<Rightarrow> ('el, 'pk, 'cm, 'sh) FROSTCoordinator"

definition NewFROSTParticipant ::
  "('el, 'pk, 'ks, 'cm, 'sh, 'sn) frostLib \<Rightarrow> ('el, 'pk, 'cm, 'sh) coords \<Rightarrow> bytes \<Rightarrow> bytes \<Rightarrow> uint16 \<Rightarrow> coordRef \<Rightarrow>
     gerr + 'sn FROSTParticipant" where
  "NewFROSTParticipant L h secretShare publicKeyShare participantID coord =
     (let cfg = co_cfg (h coord) in
      if participantID < 1 \<or> participantID > cfg_MaxSigners cfg
      then Inl (errmsg (''frost: participant ID '' @ itoa (unat participantID) @ '' out of range [1, '' @ itoa (unat (cfg_MaxSigners cfg)) @ '']''))
      else if length secretShare \<noteq> ed25519_PublicKeySize
      then Inl (errmsg (''frost: secret share must be '' @ itoa ed25519_PublicKeySize @ '' bytes, got '' @ itoa (length secretShare)))
      else if length publicKeyShare \<noteq> ed25519_PublicKeySize
      then Inl (errmsg (''frost: public key share must be '' @ itoa ed25519_PublicKeySize @ '' bytes, got '' @ itoa (length publicKeyShare)))
      else
        bindE (wrapE ''frost: create key share''
          (NewKeyShare L participantID secretShare publicKeyShare (Element_Encode L (cfg_VerificationKey cfg)))) (\<lambda>keyShare.
        bindE (wrapE ''frost: create signer'' (Configuration_Signer L cfg keyShare)) (\<lambda>signer.
          Inr \<lparr>fp_signer = signer, fp_id = participantID, fp_coord = coord, fp_publicKey = publicKeyShare\<rparr>)))"

definition participant_Commit ::
  "('el, 'pk, 'ks, 'cm, 'sh, 'sn) frostLib \<Rightarrow> ctx \<Rightarrow> int64 \<Rightarrow> ('el, 'pk, 'cm, 'sh) coords \<Rightarrow> 'sn FROSTParticipant \<Rightarrow>
     ('el, 'pk, 'cm, 'sh) coords \<times> 'sn FROSTParticipant \<times> (gerr + 'cm)" where
  "participant_Commit L ctx round h p =
     (case ctx of Some err \<Rightarrow> (h, p, Inl (errw ''frost: commit'' err))
      | None \<Rightarrow>
        let (sn, commitment) = Signer_Commit L (fp_signer p);
            (c, added) = AddCommitment L (h (fp_coord p)) ctx round commitment in
        (h(fp_coord p := c), p\<lparr>fp_signer := sn\<rparr>, bindE added (\<lambda>_. Inr commitment)))"

definition participant_Sign ::
  "('el, 'pk, 'ks, 'cm, 'sh, 'sn) frostLib \<Rightarrow> ctx \<Rightarrow> int64 \<Rightarrow> ('el, 'pk, 'cm, 'sh) coords \<Rightarrow> 'sn FROSTParticipant \<Rightarrow>
     ('el, 'pk, 'cm, 'sh) coords \<times> 'sn FROSTParticipant \<times> (gerr + 'sh)" where
  "participant_Sign L ctx round h p =
     (case ctx of Some err \<Rightarrow> (h, p, Inl (errw ''frost: sign'' err))
      | None \<Rightarrow>
        (case GetCommitments L (h (fp_coord p)) round of Inl err \<Rightarrow> (h, p, Inl err)
         | Inr commitments \<Rightarrow>
           (case co_sessions (h (fp_coord p)) round of None \<Rightarrow> (h, p, Inl (notFound round))
            | Some session \<Rightarrow>
              let (sn, signed) = Signer_Sign L (fp_signer p) (fr_message session) commitments; p1 = p\<lparr>fp_signer := sn\<rparr> in
              case signed of Inl err \<Rightarrow> (h, p1, Inl (errw ''frost: sign'' err))
              | Inr share \<Rightarrow>
                  let (c, added) = AddSignatureShare L (h (fp_coord p)) ctx round share in
                  (h(fp_coord p := c), p1, bindE added (\<lambda>_. Inr share)))))"

definition TrustedDealerKeygen ::
  "('el, 'pk, 'ks, 'cm, 'sh, 'sn) frostLib \<Rightarrow> int \<Rightarrow> int \<Rightarrow> gerr + (bytes list \<times> bytes \<times> bytes list)" where
  "TrustedDealerKeygen L threshold maxSigners =
     (if threshold < 1 \<or> threshold > maxSigners
      then Inl (errmsg (''frost: threshold '' @ itoa_int threshold @ '' must be between 1 and '' @ itoa_int maxSigners))
      else
        let (secretKeyShares, verificationKey) = DealerKeygen L (uint16Of threshold) (uint16Of maxSigners) in
        Inr (map fst secretKeyShares, Element_Encode L verificationKey, map snd secretKeyShares))"

definition VerifySignature :: "sdk \<Rightarrow> bytes \<Rightarrow> bytes \<Rightarrow> bytes \<Rightarrow> gerr + unit" where
  "VerifySignature S verificationKey message signature =
     (if length verificationKey \<noteq> ed25519_PublicKeySize
      then Inl (errmsg (''verification key must be '' @ itoa ed25519_PublicKeySize @ '' bytes''))
      else if length signature \<noteq> ed25519_SignatureSize
      then Inl (errmsg (''signature must be '' @ itoa ed25519_SignatureSize @ '' bytes''))
      else if \<not> ed25519_Verify S verificationKey message signature then Inl (errmsg ''signature verification failed'')
      else Inr ())"

section \<open>The signer\<close>

record 'sn FROSTSigner =
  fsg_coord :: coordRef
  fsg_participants :: "'sn FROSTParticipant list"

fun duplicateID :: "uint16 set \<Rightarrow> 'sn FROSTParticipant list \<Rightarrow> uint16 option" where
  "duplicateID seen [] = None"
| "duplicateID seen (p # ps) = (if fp_id p \<in> seen then Some (fp_id p) else duplicateID (insert (fp_id p) seen) ps)"

definition NewFROSTSigner ::
  "('el, 'pk, 'cm, 'sh) coords \<Rightarrow> coordRef \<Rightarrow> 'sn FROSTParticipant list \<Rightarrow> gerr + 'sn FROSTSigner" where
  "NewFROSTSigner h coord participants =
     (if length participants < unat (co_threshold (h coord))
      then Inl (errmsg (''frost: need at least '' @ itoa (unat (co_threshold (h coord))) @ '' participants, got '' @ itoa (length participants)))
      else case duplicateID {} participants of
          Some ident \<Rightarrow> Inl (errmsg (''frost: duplicate participant ID '' @ itoa (unat ident)))
        | None \<Rightarrow> Inr \<lparr>fsg_coord = coord, fsg_participants = participants\<rparr>)"

text \<open>A round of the protocol: the participants in order, up to the first that fails.\<close>

fun participantRound ::
  "(('el, 'pk, 'cm, 'sh) coords \<Rightarrow> 'sn FROSTParticipant \<Rightarrow> ('el, 'pk, 'cm, 'sh) coords \<times> 'sn FROSTParticipant \<times> (gerr + 'r)) \<Rightarrow>
     string \<Rightarrow> ctx \<Rightarrow> ('el, 'pk, 'cm, 'sh) coords \<Rightarrow> 'sn FROSTParticipant list \<Rightarrow>
     ('el, 'pk, 'cm, 'sh) coords \<times> 'sn FROSTParticipant list \<times> (gerr + unit)" where
  "participantRound act verb ctx h [] = (h, [], Inr ())"
| "participantRound act verb ctx h (p # ps) =
     (case ctx of Some err \<Rightarrow> (h, p # ps, Inl (errw ''frost: sign'' err))
      | None \<Rightarrow>
        (case act h p of
           (h1, p1, Inl err) \<Rightarrow> (h1, p1 # ps, Inl (errw (''frost: participant '' @ itoa (unat (fp_id p)) @ '' '' @ verb) err))
         | (h1, p1, Inr _) \<Rightarrow>
             let (h2, ps2, result) = participantRound act verb ctx h1 ps in (h2, p1 # ps2, result)))"

definition frost_rawEd25519Key :: "sdk \<Rightarrow> string \<Rightarrow> gerr + bytes" where
  "frost_rawEd25519Key S address =
     wrapE (strconv_Quote address @ '' is not an account (G'' @ [CHR 0xE2, CHR 0x80, CHR 0xA6] @ '') address'')
       (strkey_Decode S VersionByteAccountID address)"

text \<open>From the aggregated signature on.\<close>

definition frostAnswer ::
  "('el, 'pk, 'ks, 'cm, 'sh, 'sn) frostLib \<Rightarrow> sdk \<Rightarrow> ('el, 'pk, 'cm, 'sh) FROSTCoordinator \<Rightarrow> int64 \<Rightarrow> bytes \<Rightarrow> gerr + ScVal" where
  "frostAnswer L S c round payload =
     bindE (wrapE ''frost: get signature'' (GetSignature c round)) (\<lambda>sig.
     bindE (wrapE ''frost: sign: signature verification failed''
       (VerifySignature S (Element_Encode L (cfg_VerificationKey (co_cfg c))) payload sig)) (\<lambda>_.
     bindE (wrapE ''frost: sign'' (frost_rawEd25519Key S (co_address c))) (\<lambda>rawKey.
       Ed25519SignatureScVal rawKey sig)))"

text \<open>The two rounds and the answer, before the deferred clean-up.\<close>

definition frostCeremony ::
  "('el, 'pk, 'ks, 'cm, 'sh, 'sn) frostLib \<Rightarrow> sdk \<Rightarrow> ctx \<Rightarrow> int64 \<Rightarrow> bytes \<Rightarrow> ('el, 'pk, 'cm, 'sh) coords \<Rightarrow> 'sn FROSTSigner \<Rightarrow>
     ('el, 'pk, 'cm, 'sh) coords \<times> 'sn FROSTSigner \<times> (gerr + ScVal)" where
  "frostCeremony L S ctx round payload h s =
     (case participantRound (participant_Commit L ctx round) ''commit'' ctx h (fsg_participants s) of
        (h1, ps1, Inl err) \<Rightarrow> (h1, s\<lparr>fsg_participants := ps1\<rparr>, Inl err)
      | (h1, ps1, Inr _) \<Rightarrow>
        (case participantRound (participant_Sign L ctx round) ''sign'' ctx h1 ps1 of
           (h2, ps2, Inl err) \<Rightarrow> (h2, s\<lparr>fsg_participants := ps2\<rparr>, Inl err)
         | (h2, ps2, Inr _) \<Rightarrow> (h2, s\<lparr>fsg_participants := ps2\<rparr>, frostAnswer L S (h2 (fsg_coord s)) round payload)))"

definition FROSTSigner_Sign ::
  "('el, 'pk, 'ks, 'cm, 'sh, 'sn) frostLib \<Rightarrow> sdk \<Rightarrow> gerr + int64 \<Rightarrow> ctx \<Rightarrow> HashIdPreimage \<Rightarrow> bytes \<Rightarrow>
     ('el, 'pk, 'cm, 'sh) coords \<Rightarrow> 'sn FROSTSigner \<Rightarrow> ('el, 'pk, 'cm, 'sh) coords \<times> 'sn FROSTSigner \<times> (gerr + ScVal)" where
  "FROSTSigner_Sign L S gen ctx preimage payload h s =
     (case ctx of Some err \<Rightarrow> (h, s, Inl (errw ''frost: sign'' err))
      | None \<Rightarrow>
        (case Payload S preimage of Inl err \<Rightarrow> (h, s, Inl (errw ''frost: sign'' err))
         | Inr expected \<Rightarrow>
           if payload \<noteq> expected then (h, s, Inl (errw ''frost: sign: payload mismatch'' (Sentinel ErrSignatureMismatch)))
           else
             (case frost_Begin (h (fsg_coord s)) gen ctx payload of
                (c, Inl err) \<Rightarrow> (h(fsg_coord s := c), s, Inl (errw ''frost: sign'' err))
              | (c, Inr round) \<Rightarrow>
                  let (h1, s1, result) = frostCeremony L S ctx round payload (h(fsg_coord s := c)) s in
                  (h1(fsg_coord s := Cleanup (h1 (fsg_coord s)) round), s1, result))))"


section \<open>The coordinator as a state machine\<close>

text \<open>The calls that change a coordinator; the mutex serialises them.\<close>

datatype ('cm, 'sh) frostEvent =
    EvBegin "gerr + int64" ctx bytes
  | EvCommitment ctx int64 'cm
  | EvShare ctx int64 'sh
  | EvCleanup int64

fun frostStep ::
  "('el, 'pk, 'ks, 'cm, 'sh, 'sn) frostLib \<Rightarrow> ('el, 'pk, 'cm, 'sh) FROSTCoordinator \<Rightarrow> ('cm, 'sh) frostEvent \<Rightarrow>
     ('el, 'pk, 'cm, 'sh) FROSTCoordinator" where
  "frostStep L c (EvBegin gen ctx payload) = fst (frost_Begin c gen ctx payload)"
| "frostStep L c (EvCommitment ctx round commitment) = fst (AddCommitment L c ctx round commitment)"
| "frostStep L c (EvShare ctx round share) = fst (AddSignatureShare L c ctx round share)"
| "frostStep L c (EvCleanup round) = Cleanup c round"

abbreviation frostRun ::
  "('el, 'pk, 'ks, 'cm, 'sh, 'sn) frostLib \<Rightarrow> ('el, 'pk, 'cm, 'sh) FROSTCoordinator \<Rightarrow> ('cm, 'sh) frostEvent list \<Rightarrow>
     ('el, 'pk, 'cm, 'sh) FROSTCoordinator" where
  "frostRun L \<equiv> foldl (frostStep L)"

inductive frost_reachable ::
  "('el, 'pk, 'ks, 'cm, 'sh, 'sn) frostLib \<Rightarrow> sdk \<Rightarrow> ('el, 'pk, 'cm, 'sh) FROSTCoordinator \<Rightarrow> bool" for L S where
  created: "NewFROSTCoordinator L S vk shares t n address = Inr c \<Longrightarrow> frost_reachable L S c"
| stepped: "frost_reachable L S c \<Longrightarrow> frost_reachable L S (frostStep L c ev)"

text \<open>What a signature of a round rests on: a threshold of shares the module verified over the message.\<close>

definition sharesVerified ::
  "('el, 'pk, 'ks, 'cm, 'sh, 'sn) frostLib \<Rightarrow> ('el, 'pk) Configuration \<Rightarrow> bytes \<Rightarrow> 'sh list \<Rightarrow> 'cm list \<Rightarrow> bool" where
  "sharesVerified L cfg message shares commitments \<longleftrightarrow>
     (\<forall>commitment \<in> set commitments. ValidateCommitment L cfg commitment = None) \<and>
     (\<forall>share \<in> set shares. \<exists>n \<le> length commitments.
        VerifySignatureShare L cfg share message (CommitmentList_Sort L (take n commitments)) = None)"

definition thresholdSigned ::
  "('el, 'pk, 'ks, 'cm, 'sh, 'sn) frostLib \<Rightarrow> ('el, 'pk) Configuration \<Rightarrow> uint16 \<Rightarrow> bytes \<Rightarrow> bytes \<Rightarrow> bool" where
  "thresholdSigned L cfg threshold message sig \<longleftrightarrow>
     (\<exists>shares commitments r s. length shares = unat threshold \<and> sharesVerified L cfg message shares commitments \<and>
        AggregateSignatures L cfg message shares (CommitmentList_Sort L commitments) True = Inr (r, s) \<and>
        length r = 32 \<and> length s = 32 \<and> sig = r @ s)"

definition session_inv ::
  "('el, 'pk, 'ks, 'cm, 'sh, 'sn) frostLib \<Rightarrow> ('el, 'pk) Configuration \<Rightarrow> uint16 \<Rightarrow> int64 \<Rightarrow> ('cm, 'sh) frostSigningSession \<Rightarrow> bool" where
  "session_inv L cfg threshold round session \<longleftrightarrow>
     fr_round session = round \<and> sharesVerified L cfg (fr_message session) (fr_sigShares session) (fr_commitments session) \<and>
     (if fr_complete session then thresholdSigned L cfg threshold (fr_message session) (fr_signature session)
      else fr_signature session = [])"

definition coordinator_inv ::
  "('el, 'pk, 'ks, 'cm, 'sh, 'sn) frostLib \<Rightarrow> ('el, 'pk, 'cm, 'sh) FROSTCoordinator \<Rightarrow> bool" where
  "coordinator_inv L c \<longleftrightarrow>
     (\<forall>round session. co_sessions c round = Some session \<longrightarrow> session_inv L (co_cfg c) (co_threshold c) round session)"

text \<open>An event of a round that neither restarts nor removes it.\<close>

fun continues :: "int64 \<Rightarrow> ('cm, 'sh) frostEvent \<Rightarrow> bool" where
  "continues round (EvBegin gen ctx payload) \<longleftrightarrow> gen \<noteq> Inr round \<or> ctx \<noteq> None"
| "continues round (EvCleanup r) \<longleftrightarrow> r \<noteq> round"
| "continues round _ \<longleftrightarrow> True"

fun roundOf :: "('cm, 'sh) frostEvent \<Rightarrow> int64 option" where
  "roundOf (EvBegin gen ctx payload) = (case gen of Inl _ \<Rightarrow> None | Inr r \<Rightarrow> Some r)"
| "roundOf (EvCommitment ctx r cm) = Some r"
| "roundOf (EvShare ctx r sh) = Some r"
| "roundOf (EvCleanup r) = Some r"

lemmas frost_ops = frost_Begin_def AddCommitment_def AddSignatureShare_def Cleanup_def

lemma frostStep_fixed [simp]:
  "co_cfg (frostStep L c ev) = co_cfg c" "co_threshold (frostStep L c ev) = co_threshold c"
  "co_address (frostStep L c ev) = co_address c"
  by (cases ev; auto simp: frost_ops Let_def split: option.splits sum.splits prod.splits)+

lemma frostRun_fixed [simp]:
  "co_cfg (frostRun L c evs) = co_cfg c" "co_threshold (frostRun L c evs) = co_threshold c"
  "co_address (frostRun L c evs) = co_address c"
  by (induction evs arbitrary: c) auto

lemma frostStep_other: "roundOf ev \<noteq> Some round \<Longrightarrow> co_sessions (frostStep L c ev) round = co_sessions c round"
  by (cases ev; auto simp: frost_ops Let_def split: option.splits sum.splits prod.splits)

lemma frostRun_other: "(\<forall>ev \<in> set evs. roundOf ev \<noteq> Some round) \<Longrightarrow> co_sessions (frostRun L c evs) round = co_sessions c round"
  by (induction evs arbitrary: c) (simp_all add: frostStep_other)

text \<open>Verified shares stay verified as commitments and shares arrive.\<close>

lemma sharesVerified_commitment:
  assumes "sharesVerified L cfg m shares cms" "ValidateCommitment L cfg cm = None"
  shows "sharesVerified L cfg m shares (cms @ [cm])"
proof -
  have "take n (cms @ [cm]) = take n cms" if "n \<le> length cms" for n
    using that by simp
  then show ?thesis
    using assms unfolding sharesVerified_def by (metis Un_iff empty_iff insert_iff le_SucI length_append_singleton list.set set_append)
qed

lemma sharesVerified_share:
  assumes "sharesVerified L cfg m shares cms" "VerifySignatureShare L cfg sh m (CommitmentList_Sort L cms) = None"
  shows "sharesVerified L cfg m (shares @ [sh]) cms"
  using assms unfolding sharesVerified_def by (auto intro!: exI [of _ "length cms"])

lemma sharesVerified_take: "sharesVerified L cfg m shares cms \<Longrightarrow> sharesVerified L cfg m (take n shares) cms"
  by (auto simp: sharesVerified_def dest: in_set_takeD)

lemma coordinator_inv_update:
  assumes "coordinator_inv L c" "session_inv L (co_cfg c) (co_threshold c) round session"
  shows "coordinator_inv L (c\<lparr>co_sessions := (co_sessions c)(round \<mapsto> session)\<rparr>)"
  using assms by (simp add: coordinator_inv_def)

lemma AddCommitment_inv:
  assumes "coordinator_inv L c"
  shows "coordinator_inv L (fst (AddCommitment L c ctx round cm))"
proof (cases "ctx = None \<and> (\<exists>s. co_sessions c round = Some s \<and> \<not> fr_complete s) \<and> ValidateCommitment L (co_cfg c) cm = None")
  case True
  then obtain s where s: "co_sessions c round = Some s" "\<not> fr_complete s" by blast
  then have "session_inv L (co_cfg c) (co_threshold c) round s" using assms by (simp add: coordinator_inv_def)
  then have "session_inv L (co_cfg c) (co_threshold c) round (s\<lparr>fr_commitments := fr_commitments s @ [cm]\<rparr>)"
    using True s(2) sharesVerified_commitment by (auto simp: session_inv_def)
  then show ?thesis using True s by (auto simp: AddCommitment_def intro: coordinator_inv_update [OF assms])
next
  case False
  then show ?thesis using assms by (auto simp: AddCommitment_def split: option.splits)
qed

lemma AddSignatureShare_inv:
  assumes "coordinator_inv L c"
  shows "coordinator_inv L (fst (AddSignatureShare L c ctx round sh))"
proof (cases "ctx = None \<and> (\<exists>s. co_sessions c round = Some s \<and> \<not> fr_complete s \<and>
     VerifySignatureShare L (co_cfg c) sh (fr_message s) (CommitmentList_Sort L (fr_commitments s)) = None)")
  case True
  then obtain s where s: "co_sessions c round = Some s" "\<not> fr_complete s"
    "VerifySignatureShare L (co_cfg c) sh (fr_message s) (CommitmentList_Sort L (fr_commitments s)) = None" by blast
  let ?shares = "fr_sigShares s @ [sh]" and ?t = "unat (co_threshold c)"
  have inv: "session_inv L (co_cfg c) (co_threshold c) round s" using assms s(1) by (simp add: coordinator_inv_def)
  have verified: "sharesVerified L (co_cfg c) (fr_message s) ?shares (fr_commitments s)"
    using inv s(3) by (simp add: session_inv_def sharesVerified_share)
  have open_inv: "session_inv L (co_cfg c) (co_threshold c) round (s\<lparr>fr_sigShares := ?shares\<rparr>)"
    using inv s(2) verified by (simp add: session_inv_def)
  have done_inv: "session_inv L (co_cfg c) (co_threshold c) round (s\<lparr>fr_sigShares := ?shares, fr_signature := r @ z, fr_complete := True\<rparr>)"
    if "?t \<le> length ?shares" "length r = 32" "length z = 32"
      "AggregateSignatures L (co_cfg c) (fr_message s) (take ?t ?shares) (CommitmentList_Sort L (fr_commitments s)) True = Inr (r, z)" for r z
  proof -
    have "length (take ?t ?shares) = ?t" using that(1) by simp
    then have "thresholdSigned L (co_cfg c) (co_threshold c) (fr_message s) (r @ z)"
      unfolding thresholdSigned_def using that(2-4) sharesVerified_take [OF verified] by blast
    then show ?thesis using inv verified by (simp add: session_inv_def)
  qed
  show ?thesis
    using True s open_inv done_inv
    by (auto simp: AddSignatureShare_def Let_def not_less split: sum.splits intro!: coordinator_inv_update [OF assms])
next
  case False
  then show ?thesis using assms by (auto simp: AddSignatureShare_def Let_def split: option.splits)
qed

lemma frostStep_inv: "coordinator_inv L c \<Longrightarrow> coordinator_inv L (frostStep L c ev)"
  by (cases ev)
    (simp_all add: AddCommitment_inv AddSignatureShare_inv,
     auto simp: frost_Begin_def Cleanup_def coordinator_inv_def session_inv_def sharesVerified_def split: option.splits sum.splits)

lemma frostRun_inv: "coordinator_inv L c \<Longrightarrow> coordinator_inv L (frostRun L c evs)"
  by (induction evs arbitrary: c) (simp_all add: frostStep_inv)

lemma NewFROSTCoordinator_Inr_iff:
  "NewFROSTCoordinator L S verificationKey publicKeyShares threshold maxSigners address = Inr c \<longleftrightarrow>
     length verificationKey = 32 \<and> 1 \<le> threshold \<and> threshold \<le> maxSigners \<and> int (length publicKeyShares) = maxSigners \<and>
     isOk (strkey_Decode S VersionByteAccountID address) \<and>
     (\<exists>vk pkShares. Element_Decode L verificationKey = Inr vk \<and> mapEi (decodeKeyShare L) publicKeyShares = Inr pkShares \<and>
        co_cfg c = \<lparr>cfg_Threshold = uint16Of threshold, cfg_MaxSigners = uint16Of maxSigners, cfg_VerificationKey = vk,
                   cfg_SignerPublicKeyShares = pkShares\<rparr> \<and>
        Configuration_Init L (co_cfg c) = None \<and> c = \<lparr>co_cfg = co_cfg c, co_threshold = uint16Of threshold, co_address = address, co_sessions = Map.empty\<rparr>)"
  by (auto simp: NewFROSTCoordinator_def ed25519_PublicKeySize_def bindE_Inr_iff isOk_iff Let_def not_less split: option.splits)

lemma reachable_inv: "frost_reachable L S c \<Longrightarrow> coordinator_inv L c"
proof (induction rule: frost_reachable.induct)
  case (created vk shares t n address c)
  then have "co_sessions c = Map.empty" unfolding NewFROSTCoordinator_Inr_iff by (metis FROSTCoordinator.select_convs(4))
  then show ?case by (simp add: coordinator_inv_def)
next
  case (stepped c ev)
  then show ?case by (simp add: frostStep_inv)
qed

text \<open>While a round continues, it keeps its message, and once complete it does not change.\<close>

lemma frostStep_continues:
  assumes "co_sessions c round = Some s" "continues round ev"
  shows "\<exists>s'. co_sessions (frostStep L c ev) round = Some s' \<and> fr_message s' = fr_message s \<and> (fr_complete s \<longrightarrow> s' = s)"
  using assms by (cases ev; auto simp: frost_ops Let_def split: option.splits sum.splits prod.splits if_splits)

lemma frostRun_continues:
  assumes "co_sessions c round = Some s" "\<forall>ev \<in> set evs. continues round ev"
  shows "\<exists>s'. co_sessions (frostRun L c evs) round = Some s' \<and> fr_message s' = fr_message s \<and> (fr_complete s \<longrightarrow> s' = s)"
  using assms
proof (induction evs arbitrary: c s)
  case Nil
  then show ?case by simp
next
  case (Cons ev evs)
  obtain s1 where s1: "co_sessions (frostStep L c ev) round = Some s1" "fr_message s1 = fr_message s" "fr_complete s \<longrightarrow> s1 = s"
    using frostStep_continues Cons.prems by (metis list.set_intros(1))
  have "\<forall>ev \<in> set evs. continues round ev" using Cons.prems(2) by simp
  from Cons.IH [OF s1(1) this] s1(2,3) show ?case by auto
qed


section \<open>The participants' view\<close>

text \<open>
  What a participant does to the coordinators is a run of events of the round it was called for.
\<close>

definition roundRuns ::
  "('el, 'pk, 'ks, 'cm, 'sh, 'sn) frostLib \<Rightarrow> int64 \<Rightarrow> ('el, 'pk, 'cm, 'sh) coords \<Rightarrow> ('el, 'pk, 'cm, 'sh) coords \<Rightarrow> bool" where
  "roundRuns L round h h' \<longleftrightarrow>
     (\<forall>k. \<exists>evs. h' k = frostRun L (h k) evs \<and> (\<forall>ev \<in> set evs. roundOf ev = Some round \<and> continues round ev))"

lemma roundRuns_refl: "roundRuns L round h h"
  unfolding roundRuns_def by (intro allI exI [of _ "[]"]) simp

lemma roundRuns_trans:
  assumes "roundRuns L round h h1" "roundRuns L round h1 h2"
  shows "roundRuns L round h h2"
proof (unfold roundRuns_def, rule allI)
  fix k
  obtain evs1 evs2 where "h1 k = frostRun L (h k) evs1" "\<forall>ev \<in> set evs1. roundOf ev = Some round \<and> continues round ev"
    "h2 k = frostRun L (h1 k) evs2" "\<forall>ev \<in> set evs2. roundOf ev = Some round \<and> continues round ev"
    using assms unfolding roundRuns_def by metis
  then show "\<exists>evs. h2 k = frostRun L (h k) evs \<and> (\<forall>ev \<in> set evs. roundOf ev = Some round \<and> continues round ev)"
    by (intro exI [of _ "evs1 @ evs2"]) auto
qed

lemma roundRuns_step:
  assumes "roundOf ev = Some round" "continues round ev"
  shows "roundRuns L round h (h(k := frostStep L (h k) ev))"
  unfolding roundRuns_def
proof
  fix j
  show "\<exists>evs. (h(k := frostStep L (h k) ev)) j = frostRun L (h j) evs \<and> (\<forall>ev \<in> set evs. roundOf ev = Some round \<and> continues round ev)"
    by (rule exI [of _ "if j = k then [ev] else []"]) (simp add: assms)
qed

lemma participant_Commit_runs: "roundRuns L round h (fst (participant_Commit L ctx round h p))"
  using roundRuns_step [of "EvCommitment ctx round (snd (Signer_Commit L (fp_signer p)))" round L h "fp_coord p"]
  by (auto simp: participant_Commit_def roundRuns_refl case_prod_unfold Let_def split: option.splits)

lemma participant_Sign_runs: "roundRuns L round h (fst (participant_Sign L ctx round h p))"
proof -
  have "roundRuns L round h (h(fp_coord p := fst (AddSignatureShare L (h (fp_coord p)) ctx round sh)))" for sh
    using roundRuns_step [of "EvShare ctx round sh" round L h "fp_coord p"] by simp
  then show ?thesis
    by (auto simp: participant_Sign_def roundRuns_refl case_prod_unfold Let_def split: option.splits sum.splits)
qed

lemma participantRound_runs:
  assumes "\<And>h p. roundRuns L round h (fst (act h p))"
  shows "roundRuns L round h (fst (participantRound act verb ctx h ps))"
proof (induction ps arbitrary: h)
  case Nil
  then show ?case by (simp add: roundRuns_refl)
next
  case (Cons p ps)
  obtain h1 p1 r where a: "act h p = (h1, p1, r)" by (metis prod_cases3)
  have step: "roundRuns L round h h1" using assms [of h p] a by simp
  show ?case
    using a step roundRuns_trans [OF step Cons.IH] by (auto simp: roundRuns_refl case_prod_unfold Let_def split: option.splits sum.splits)
qed

lemma rounds_run:
  "participantRound (participant_Commit L ctx round) verb ctx' h ps = (h1, ps1, r1) \<Longrightarrow> roundRuns L round h h1"
  "participantRound (participant_Sign L ctx round) verb ctx' h ps = (h2, ps2, r2) \<Longrightarrow> roundRuns L round h h2"
  by (metis participantRound_runs participant_Commit_runs fst_conv, metis participantRound_runs participant_Sign_runs fst_conv)

lemma frostCeremony_runs: "roundRuns L round h (fst (frostCeremony L S ctx round payload h s))"
proof -
  obtain h1 ps1 r1 where c: "participantRound (participant_Commit L ctx round) ''commit'' ctx h (fsg_participants s) = (h1, ps1, r1)"
    by (metis prod_cases3)
  obtain h2 ps2 r2 where g: "participantRound (participant_Sign L ctx round) ''sign'' ctx h1 ps1 = (h2, ps2, r2)"
    by (metis prod_cases3)
  have "roundRuns L round h h1" "roundRuns L round h h2"
    using rounds_run(1) [OF c] rounds_run(2) [OF g] roundRuns_trans by auto
  then show ?thesis using c g by (simp add: frostCeremony_def split: sum.splits)
qed

lemma roundRuns_frame:
  assumes "roundRuns L round h h'"
  shows "r \<noteq> round \<Longrightarrow> co_sessions (h' k) r = co_sessions (h k) r"
    and "co_cfg (h' k) = co_cfg (h k)" "co_threshold (h' k) = co_threshold (h k)" "co_address (h' k) = co_address (h k)"
    and "coordinator_inv L (h k) \<Longrightarrow> coordinator_inv L (h' k)"
    and "co_sessions (h k) round = Some s \<Longrightarrow>
      \<exists>s'. co_sessions (h' k) round = Some s' \<and> fr_message s' = fr_message s"
proof -
  obtain evs where evs: "h' k = frostRun L (h k) evs" "\<forall>ev \<in> set evs. roundOf ev = Some round \<and> continues round ev"
    using assms unfolding roundRuns_def by blast
  show "r \<noteq> round \<Longrightarrow> co_sessions (h' k) r = co_sessions (h k) r" using evs by (simp add: frostRun_other)
  show "co_cfg (h' k) = co_cfg (h k)" "co_threshold (h' k) = co_threshold (h k)" "co_address (h' k) = co_address (h k)"
    "coordinator_inv L (h k) \<Longrightarrow> coordinator_inv L (h' k)" using evs(1) by (simp_all add: frostRun_inv)
  show "co_sessions (h k) round = Some s \<Longrightarrow> \<exists>s'. co_sessions (h' k) round = Some s' \<and> fr_message s' = fr_message s"
    using frostRun_continues [of "h k" round s evs L] evs by auto
qed

section \<open>What a signing call returns\<close>

lemma GetSignature_Inr_iff:
  "GetSignature c round = Inr sig \<longleftrightarrow> (\<exists>s. co_sessions c round = Some s \<and> fr_complete s \<and> fr_signature s = sig)"
  by (auto simp: GetSignature_def split: option.splits)

lemma VerifySignature_Inr_iff:
  "VerifySignature S vk m sig = Inr u \<longleftrightarrow> length vk = 32 \<and> length sig = 64 \<and> ed25519_Verify S vk m sig"
  by (auto simp: VerifySignature_def ed25519_PublicKeySize_def ed25519_SignatureSize_def)

lemma frostAnswer_Inr_iff:
  "frostAnswer L S c round payload = Inr v \<longleftrightarrow>
     (\<exists>sig raw. GetSignature c round = Inr sig \<and> strkey_Decode S VersionByteAccountID (co_address c) = Inr raw \<and>
        length raw = 32 \<and> length sig = 64 \<and> length (Element_Encode L (cfg_VerificationKey (co_cfg c))) = 32 \<and>
        ed25519_Verify S (Element_Encode L (cfg_VerificationKey (co_cfg c))) payload sig \<and> v = scVec [accountSignature raw sig])"
  by (auto simp: frostAnswer_def frost_rawEd25519Key_def bindE_Inr_iff VerifySignature_Inr_iff Ed25519SignatureScVal_def
      ed25519_PublicKeySize_def ed25519_SignatureSize_def)

lemma frostCeremony_Inr:
  assumes "frostCeremony L S ctx round payload h s = (h', s', Inr v)"
  shows "frostAnswer L S (h' (fsg_coord s)) round payload = Inr v"
  using assms by (auto simp: frostCeremony_def split: sum.splits prod.splits)

lemma FROSTSigner_Sign_Inr:
  assumes "FROSTSigner_Sign L S gen ctx preimage payload h s = (h', s', Inr v)"
  obtains round c h1 where "ctx = None" "Payload S preimage = Inr payload" "gen = Inr round"
    "c = fst (frost_Begin (h (fsg_coord s)) gen None payload)"
    "roundRuns L round (h(fsg_coord s := c)) h1" "frostAnswer L S (h1 (fsg_coord s)) round payload = Inr v"
    "h' = h1(fsg_coord s := Cleanup (h1 (fsg_coord s)) round)"
proof -
  have guards: "ctx = None" "Payload S preimage = Inr payload"
    using assms by (auto simp: FROSTSigner_Sign_def split: option.splits sum.splits if_splits)
  then obtain round where gen: "gen = Inr round"
    using assms by (cases gen) (auto simp: FROSTSigner_Sign_def frost_Begin_def)
  let ?c = "fst (frost_Begin (h (fsg_coord s)) gen None payload)"
  obtain h1 s1 r where cer: "frostCeremony L S None round payload (h(fsg_coord s := ?c)) s = (h1, s1, r)" by (metis prod_cases3)
  have "h' = h1(fsg_coord s := Cleanup (h1 (fsg_coord s)) round)" "r = Inr v"
    using assms guards gen cer by (auto simp: FROSTSigner_Sign_def frost_Begin_def)
  moreover have "roundRuns L round (h(fsg_coord s := ?c)) h1"
    using frostCeremony_runs [of L round "h(fsg_coord s := ?c)" S None payload s] cer by simp
  ultimately show ?thesis
    using that [OF guards gen refl] frostCeremony_Inr cer by metis
qed

text \<open>Where the group's key is the account's key, the signer keeps the contract of a classic signer.\<close>

type_synonym ('el, 'pk, 'ks, 'cm, 'sh, 'sn) frostWorld =
  "('el, 'pk, 'ks, 'cm, 'sh, 'sn) frostLib \<times> (gerr + int64) \<times> ('el, 'pk, 'cm, 'sh) coords \<times> 'sn FROSTSigner"

definition frostSigner :: "sdk \<Rightarrow> ('el, 'pk, 'ks, 'cm, 'sh, 'sn) frostWorld \<Rightarrow> signer" where
  "frostSigner S = (\<lambda>(L, gen, h, s).
     \<lparr>sg_Address = co_address (h (fsg_coord s)),
      sg_Sign = (\<lambda>ctx preimage payload. snd (snd (FROSTSigner_Sign L S gen ctx preimage payload h s)))\<rparr>)"

definition frostKey :: "sdk \<Rightarrow> ('el, 'pk, 'ks, 'cm, 'sh, 'sn) frostWorld \<Rightarrow> bytes \<Rightarrow> bool" where
  "frostKey S = (\<lambda>(L, gen, h, s) raw. length raw = 32 \<and>
     strkey_Decode S VersionByteAccountID (co_address (h (fsg_coord s))) = Inr raw \<and>
     Element_Encode L (cfg_VerificationKey (co_cfg (h (fsg_coord s)))) = raw)"

interpretation frost: classic_signer frostSigner frostKey
proof unfold_locales
  fix S and x :: "('el, 'pk, 'ks, 'cm, 'sh, 'sn) frostWorld" and raw ctx preimage payload v
  obtain L gen h s where x: "x = (L, gen, h, s)" by (metis prod_cases4)
  assume key: "frostKey S x raw" and v: "sg_Sign (frostSigner S x) ctx preimage payload = Inr v"
  obtain h' s' where "FROSTSigner_Sign L S gen ctx preimage payload h s = (h', s', Inr v)"
    using v x by (cases "FROSTSigner_Sign L S gen ctx preimage payload h s") (auto simp: frostSigner_def)
  then show "\<exists>sig. v = scVec [accountSignature raw sig] \<and> length sig = 64 \<and> ed25519_Verify S raw payload sig"
  proof (cases rule: FROSTSigner_Sign_Inr)
    case (1 round c h1)
    have "co_cfg c = co_cfg (h (fsg_coord s))" "co_address c = co_address (h (fsg_coord s))"
      using 1(3,4) by (simp_all add: frost_Begin_def)
    then have "co_cfg (h1 (fsg_coord s)) = co_cfg (h (fsg_coord s))" "co_address (h1 (fsg_coord s)) = co_address (h (fsg_coord s))"
      using roundRuns_frame(2,4) [OF 1(5), of "fsg_coord s"] by simp_all
    then show ?thesis using 1(6) key x by (auto simp: frostAnswer_Inr_iff frostKey_def)
  qed
next
  fix S and x :: "('el, 'pk, 'ks, 'cm, 'sh, 'sn) frostWorld" and raw
  show "frostKey S x raw \<Longrightarrow> length raw = 32" by (cases x) (simp add: frostKey_def)
qed

end
