(* ===== verification/Frost_Properties.thy ===== *)
theory Frost_Properties
  imports Frost Sample_Sdk
begin

text \<open>
  The FROST signer: what a completed round rests on and how long it lasts, what a signing call
  returns and leaves behind, and that an honest group of exactly the threshold's size signs.
\<close>

section \<open>A concrete group\<close>

text \<open>
  Commitments are the participants' identifiers, a share is an identifier and the message it is
  for, and the aggregated signature is the one the sample SDK verifies.
\<close>

definition sampleFrost :: "(bytes, uint16, uint16, uint16, uint16 \<times> bytes, uint16) frostLib" where
  "sampleFrost =
     \<lparr>Element_Decode = Inr, Element_Encode = (\<lambda>b. b), NewPublicKeyShare = (\<lambda>i b. Inr i), Configuration_Init = (\<lambda>cfg. None),
      NewKeyShare = (\<lambda>i sk pk vk. Inr i), Configuration_Signer = (\<lambda>cfg ks. Inr ks), ValidateCommitment = (\<lambda>cfg cm. None),
      CommitmentList_Sort = sort,
      VerifySignatureShare = (\<lambda>cfg sh m cms. if fst sh \<in> set cms \<and> snd sh = m then None else Some (errmsg ''bad share'')),
      AggregateSignatures = (\<lambda>cfg m shs cms verify. if set (map fst shs) = set cms then Inr (cfg_VerificationKey cfg, sampleHash m) else Inl (errmsg ''bad shares'')),
      Signer_Commit = (\<lambda>sn. (sn, sn)), Signer_Sign = (\<lambda>sn m cms. (sn, Inr (sn, m))),
      Commitment_SignerID = (\<lambda>cm. cm), SignatureShare_SignerIdentifier = fst,
      DealerKeygen = (\<lambda>t n. ([(keyOf 1, keyOf 1), (keyOf 2, keyOf 2)], keyOf 1))\<rparr>"

definition sampleCoordinator :: "(bytes, uint16, uint16, uint16 \<times> bytes) FROSTCoordinator" where
  "sampleCoordinator =
     \<lparr>co_cfg = \<lparr>cfg_Threshold = 2, cfg_MaxSigners = 2, cfg_VerificationKey = keyOf 1, cfg_SignerPublicKeyShares = [1, 2]\<rparr>,
      co_threshold = 2, co_address = ''GA'', co_sessions = Map.empty\<rparr>"

definition sampleParticipant :: "uint16 \<Rightarrow> uint16 FROSTParticipant" where
  "sampleParticipant i = \<lparr>fp_signer = i, fp_id = i, fp_coord = 0, fp_publicKey = keyOf 1\<rparr>"

definition sampleFrostSigner :: "uint16 FROSTSigner" where
  "sampleFrostSigner = \<lparr>fsg_coord = 0, fsg_participants = [sampleParticipant 1, sampleParticipant 2]\<rparr>"

lemmas sample_frost = sampleFrost_def sampleCoordinator_def sampleParticipant_def sampleFrostSigner_def

lemma sampleFrost_encode: "Element_Encode sampleFrost b = b"
  by (simp add: sampleFrost_def)

lemma sampleCoordinator_created:
  "NewFROSTCoordinator sampleFrost sampleSdk (keyOf 1) [keyOf 1, keyOf 2] 2 2 ''GA'' = Inr sampleCoordinator"
  by (simp add: NewFROSTCoordinator_def decodeKeyShare_def sample_frost ed25519_PublicKeySize_def mapEi_def uint16Of_def)

lemma sampleCoordinator_reachable: "frost_reachable sampleFrost sampleSdk sampleCoordinator"
  by (rule frost_reachable.created [OF sampleCoordinator_created])

section \<open>A round\<close>

text \<open>
  C15: a round signs the message it was begun with, by a threshold of verified shares, once. Take any
  coordinator the constructor and the coordinator's operations can produce, begin a round for a
  message, and let any operations follow, of this and other rounds, in any order, as long as none
  removes the round or draws its number again. A signature the round then returns is the aggregate
  of exactly the threshold's number of shares, each verified over that message, and no further
  operations change it.
\<close>

theorem frost_round_binds_message:
  assumes "frost_reachable L S c" "frost_Begin c gen ctx m = (c1, Inr round)"
    and "\<forall>ev \<in> set evs. continues round ev" "GetSignature (frostRun L c1 evs) round = Inr sig"
  shows "thresholdSigned L (co_cfg c) (co_threshold c) m sig \<and>
    (\<forall>evs'. (\<forall>ev \<in> set evs'. continues round ev) \<longrightarrow> GetSignature (frostRun L c1 (evs @ evs')) round = Inr sig)"
proof -
  have c1: "c1 = frostStep L c (EvBegin gen ctx m)" using assms(2) by simp
  then have fixed: "co_cfg c1 = co_cfg c" "co_threshold c1 = co_threshold c" and inv: "coordinator_inv L c1"
    using frostStep_inv [OF reachable_inv [OF assms(1)]] by (simp_all del: frostStep.simps)
  obtain s0 where s0: "co_sessions c1 round = Some s0" "fr_message s0 = m"
    using assms(2) by (auto simp: frost_Begin_def split: option.splits sum.splits)
  obtain s where s: "co_sessions (frostRun L c1 evs) round = Some s" "fr_message s = m"
    using frostRun_continues [OF s0(1) assms(3)] s0(2) by metis
  have complete: "fr_complete s" "fr_signature s = sig" using assms(4) s(1) by (simp_all add: GetSignature_Inr_iff)
  have "session_inv L (co_cfg c) (co_threshold c) round s"
    using frostRun_inv [OF inv, of evs] s(1) fixed by (simp add: coordinator_inv_def)
  then have "thresholdSigned L (co_cfg c) (co_threshold c) m sig" using s(2) complete by (simp add: session_inv_def)
  moreover have "GetSignature (frostRun L c1 (evs @ evs')) round = Inr sig" if "\<forall>ev \<in> set evs'. continues round ev" for evs'
    using frostRun_continues [OF s(1) that, of L] complete by (auto simp: GetSignature_Inr_iff)
  ultimately show ?thesis by blast
qed

definition sampleEvents :: "(uint16, uint16 \<times> bytes) frostEvent list" where
  "sampleEvents = [EvCommitment None 5 1, EvBegin (Inr 6) None (keyOf 9), EvCommitment None 5 2,
     EvShare None 5 (1, keyOf 7), EvCleanup 6, EvShare None 5 (2, keyOf 7)]"

lemma sample_round:
  "GetSignature (frostRun sampleFrost (fst (frost_Begin sampleCoordinator (Inr 5) None (keyOf 7))) sampleEvents) 5 =
     Inr (keyOf 1 @ keyOf 7)"
  by (simp add: sampleEvents_def sample_frost frost_ops GetSignature_def Let_def)

theorem frost_round_binds_message_witness:
  "thresholdSigned sampleFrost (co_cfg sampleCoordinator) 2 (keyOf 7) (keyOf 1 @ keyOf 7)"
  using frost_round_binds_message [OF sampleCoordinator_reachable, of "Inr 5" None "keyOf 7"
      "fst (frost_Begin sampleCoordinator (Inr 5) None (keyOf 7))" 5 sampleEvents "keyOf 1 @ keyOf 7"] sample_round
  by (simp add: frost_Begin_def sampleEvents_def sampleCoordinator_def)

section \<open>A signing call\<close>

lemma FROSTSigner_Sign_frame:
  assumes "FROSTSigner_Sign L S gen ctx preimage payload h s = (h', s', result)"
  shows "(\<forall>k r. gen \<noteq> Inr r \<longrightarrow> co_sessions (h' k) r = co_sessions (h k) r) \<and>
    (\<forall>r. gen = Inr r \<longrightarrow> h' = h \<or> co_sessions (h' (fsg_coord s)) r = None)"
proof (cases "ctx = None \<and> Payload S preimage = Inr payload \<and> (\<exists>r. gen = Inr r)")
  case True
  then obtain round where t: "ctx = None" "Payload S preimage = Inr payload" "gen = Inr round" by blast
  let ?c = "fst (frost_Begin (h (fsg_coord s)) (Inr round) None payload)"
  obtain h1 s1 r1 where cer: "frostCeremony L S None round payload (h(fsg_coord s := ?c)) s = (h1, s1, r1)" by (metis prod_cases3)
  have h': "h' = h1(fsg_coord s := Cleanup (h1 (fsg_coord s)) round)"
    using assms t cer by (auto simp: FROSTSigner_Sign_def frost_Begin_def)
  have "roundRuns L round (h(fsg_coord s := ?c)) h1"
    using frostCeremony_runs [of L round "h(fsg_coord s := ?c)" S None payload s] cer by simp
  then have "co_sessions (h1 k) r = co_sessions (h k) r" if "r \<noteq> round" for k r
    using roundRuns_frame(1) [of L round "h(fsg_coord s := ?c)" h1 r k] that by (auto simp: frost_Begin_def)
  then show ?thesis using h' t(3) by (auto simp: Cleanup_def)
next
  case False
  then have "h' = h" using assms by (auto simp: FROSTSigner_Sign_def frost_Begin_def split: option.splits sum.splits if_splits)
  then show ?thesis by simp
qed

text \<open>
  C16: what a FROST signing call returns, and what it leaves. However the call ends, every other
  round of every coordinator is as it was, and its own round is gone. When it succeeds, the payload
  is the preimage's, the answer is one classic signature under the coordinator's account key, and
  its sixty-four bytes are the aggregate of the threshold's number of verified shares over the
  payload, which the standard verifier accepts under the group's key.
\<close>

theorem frost_sign_sound:
  assumes "FROSTSigner_Sign L S gen ctx preimage payload h s = (h', s', result)"
    and "frost_reachable L S (h (fsg_coord s))"
  shows "(\<forall>k r. gen \<noteq> Inr r \<longrightarrow> co_sessions (h' k) r = co_sessions (h k) r) \<and>
    (\<forall>r. gen = Inr r \<longrightarrow> h' = h \<or> co_sessions (h' (fsg_coord s)) r = None) \<and>
    (\<forall>v. result = Inr v \<longrightarrow> ctx = None \<and> Payload S preimage = Inr payload \<and>
       (\<exists>raw sig. strkey_Decode S VersionByteAccountID (co_address (h (fsg_coord s))) = Inr raw \<and>
          v = scVec [accountSignature raw sig] \<and> length raw = 32 \<and> length sig = 64 \<and>
          ed25519_Verify S (Element_Encode L (cfg_VerificationKey (co_cfg (h (fsg_coord s))))) payload sig \<and>
          thresholdSigned L (co_cfg (h (fsg_coord s))) (co_threshold (h (fsg_coord s))) payload sig))"
proof (intro conjI allI impI)
  fix v assume "result = Inr v"
  then have sign: "FROSTSigner_Sign L S gen ctx preimage payload h s = (h', s', Inr v)" using assms(1) by simp
  show "ctx = None" "Payload S preimage = Inr payload" using sign by (auto elim: FROSTSigner_Sign_Inr)
  obtain round c h1 where o: "gen = Inr round" "c = fst (frost_Begin (h (fsg_coord s)) gen None payload)"
    "roundRuns L round (h(fsg_coord s := c)) h1" "frostAnswer L S (h1 (fsg_coord s)) round payload = Inr v"
    using sign by (auto elim: FROSTSigner_Sign_Inr)
  let ?c = "h (fsg_coord s)" and ?c1 = "h1 (fsg_coord s)"
  have c: "c = frostStep L ?c (EvBegin gen None payload)" using o(2) by simp
  then have same: "co_cfg ?c1 = co_cfg ?c" "co_threshold ?c1 = co_threshold ?c" "co_address ?c1 = co_address ?c"
    and inv: "coordinator_inv L ?c1"
    using roundRuns_frame(2-5) [OF o(3), of "fsg_coord s"] frostStep_inv [OF reachable_inv [OF assms(2)]] by (simp_all del: frostStep.simps)
  obtain s1 where s1: "co_sessions ?c1 round = Some s1" "fr_message s1 = payload"
    using roundRuns_frame(6) [OF o(3), of "fsg_coord s"] o(1,2) by (auto simp: frost_Begin_def)
  then have "session_inv L (co_cfg ?c) (co_threshold ?c) round s1" using inv same by (simp add: coordinator_inv_def)
  then have "thresholdSigned L (co_cfg ?c) (co_threshold ?c) payload sig" if "GetSignature ?c1 round = Inr sig" for sig
    using s1 that by (auto simp: session_inv_def GetSignature_Inr_iff)
  then show "\<exists>raw sig. strkey_Decode S VersionByteAccountID (co_address ?c) = Inr raw \<and>
      v = scVec [accountSignature raw sig] \<and> length raw = 32 \<and> length sig = 64 \<and>
      ed25519_Verify S (Element_Encode L (cfg_VerificationKey (co_cfg ?c))) payload sig \<and>
      thresholdSigned L (co_cfg ?c) (co_threshold ?c) payload sig"
    using o(4) same unfolding frostAnswer_Inr_iff by metis
qed (use FROSTSigner_Sign_frame [OF assms(1)] in auto)

lemma sample_frost_signs:
  "snd (snd (FROSTSigner_Sign sampleFrost sampleSdk (Inr 5) None preimageLegacy (keyOf 0) (\<lambda>_. sampleCoordinator) sampleFrostSigner)) =
     Inr (sampleSignature 0)"
  by (simp add: FROSTSigner_Sign_def frostCeremony_def participant_Commit_def participant_Sign_def sample_frost frost_ops
      GetCommitments_def frostAnswer_def GetSignature_def VerifySignature_def frost_rawEd25519Key_def Ed25519SignatureScVal_def
      ed25519_PublicKeySize_def ed25519_SignatureSize_def sampleSignature_def Let_def)

theorem frost_sign_sound_witness:
  "thresholdSigned sampleFrost (co_cfg sampleCoordinator) 2 (keyOf 0) (keyOf 1 @ keyOf 0)"
proof -
  obtain h' s' where "FROSTSigner_Sign sampleFrost sampleSdk (Inr 5) None preimageLegacy (keyOf 0) (\<lambda>_. sampleCoordinator) sampleFrostSigner =
      (h', s', Inr (sampleSignature 0))"
    using sample_frost_signs by (metis prod.collapse)
  from frost_sign_sound [OF this sampleCoordinator_reachable] show ?thesis
    by (auto simp: sampleCoordinator_def sampleSignature_def scVec_def accountSignature_def sampleFrost_encode)
qed

section \<open>An honest group\<close>

text \<open>
  What RFC 9591 promises of the module's functions: a participant's commitment is valid and names
  it, its share over a list of valid commitments of distinct participants that has its own is
  verified, and a threshold of verified shares, one for each commitment, aggregates to a signature
  under the group's key.
\<close>

definition signsOver ::
  "('el, 'pk, 'ks, 'cm, 'sh, 'sn) frostLib \<Rightarrow> ('el, 'pk) Configuration \<Rightarrow> uint16 \<Rightarrow> 'sn \<Rightarrow> bytes \<Rightarrow> 'cm list \<Rightarrow> bool" where
  "signsOver L cfg ident sn m cms \<longleftrightarrow>
     (\<exists>sn' sh. Signer_Sign L sn m cms = (sn', Inr sh) \<and> SignatureShare_SignerIdentifier L sh = ident \<and>
        VerifySignatureShare L cfg sh m cms = None)"

definition validCommitments ::
  "('el, 'pk, 'ks, 'cm, 'sh, 'sn) frostLib \<Rightarrow> ('el, 'pk) Configuration \<Rightarrow> 'cm list \<Rightarrow> bool" where
  "validCommitments L cfg cms \<longleftrightarrow>
     distinct (map (Commitment_SignerID L) cms) \<and> (\<forall>cm \<in> set cms. ValidateCommitment L cfg cm = None) \<and>
     unat (cfg_Threshold cfg) \<le> length cms"

definition honestParticipant ::
  "('el, 'pk, 'ks, 'cm, 'sh, 'sn) frostLib \<Rightarrow> ('el, 'pk) Configuration \<Rightarrow> 'sn FROSTParticipant \<Rightarrow> bool" where
  "honestParticipant L cfg p \<longleftrightarrow>
     (case Signer_Commit L (fp_signer p) of (sn, cm) \<Rightarrow>
        Commitment_SignerID L cm = fp_id p \<and> ValidateCommitment L cfg cm = None \<and>
        (\<forall>m cms. validCommitments L cfg cms \<and> cm \<in> set cms \<longrightarrow> signsOver L cfg (fp_id p) sn m (CommitmentList_Sort L cms)))"

definition groupCorrect ::
  "('el, 'pk, 'ks, 'cm, 'sh, 'sn) frostLib \<Rightarrow> sdk \<Rightarrow> ('el, 'pk) Configuration \<Rightarrow> bool" where
  "groupCorrect L S cfg \<longleftrightarrow>
     length (Element_Encode L (cfg_VerificationKey cfg)) = 32 \<and>
     (\<forall>m shs cms. validCommitments L cfg cms \<and> length shs = unat (cfg_Threshold cfg) \<and>
        distinct (map (SignatureShare_SignerIdentifier L) shs) \<and>
        set (map (SignatureShare_SignerIdentifier L) shs) = set (map (Commitment_SignerID L) cms) \<and>
        (\<forall>sh \<in> set shs. VerifySignatureShare L cfg sh m (CommitmentList_Sort L cms) = None) \<longrightarrow>
        (\<exists>r z. AggregateSignatures L cfg m shs (CommitmentList_Sort L cms) True = Inr (r, z) \<and> length r = 32 \<and> length z = 32 \<and>
           ed25519_Verify S (Element_Encode L (cfg_VerificationKey cfg)) m (r @ z)))"

lemma reachable_threshold: "frost_reachable L S c \<Longrightarrow> cfg_Threshold (co_cfg c) = co_threshold c"
proof (induction rule: frost_reachable.induct)
  case (created vk shares t n address c)
  then show ?case unfolding NewFROSTCoordinator_Inr_iff
    by (metis Configuration.select_convs(1) FROSTCoordinator.select_convs(2))
next
  case (stepped c ev)
  then show ?case by (simp del: frostStep.simps)
qed

subsection \<open>The rounds of an honest group\<close>

lemma duplicateID_None: "duplicateID seen ps = None \<longleftrightarrow> distinct (map fp_id ps) \<and> fp_id ` set ps \<inter> seen = {}"
  by (induction ps arbitrary: seen) auto

abbreviation commitmentOf :: "('el, 'pk, 'ks, 'cm, 'sh, 'sn) frostLib \<Rightarrow> 'sn FROSTParticipant \<Rightarrow> 'cm" where
  "commitmentOf L p \<equiv> snd (Signer_Commit L (fp_signer p))"

abbreviation committed :: "('el, 'pk, 'ks, 'cm, 'sh, 'sn) frostLib \<Rightarrow> 'sn FROSTParticipant \<Rightarrow> 'sn FROSTParticipant" where
  "committed L p \<equiv> p\<lparr>fp_signer := fst (Signer_Commit L (fp_signer p))\<rparr>"

lemma commit_round:
  assumes "co_sessions (h coord) round = Some s" "\<not> fr_complete s"
    and "\<forall>p \<in> set ps. fp_coord p = coord \<and> ValidateCommitment L (co_cfg (h coord)) (commitmentOf L p) = None"
  shows "\<exists>h1. participantRound (participant_Commit L None round) verb None h ps = (h1, map (committed L) ps, Inr ()) \<and>
     co_sessions (h1 coord) round = Some (s\<lparr>fr_commitments := fr_commitments s @ map (commitmentOf L) ps\<rparr>)"
  using assms
proof (induction ps arbitrary: h s)
  case Nil
  then show ?case by simp
next
  case (Cons p ps)
  let ?s1 = "s\<lparr>fr_commitments := fr_commitments s @ [commitmentOf L p]\<rparr>"
  let ?h1 = "h(coord := (h coord)\<lparr>co_sessions := (co_sessions (h coord))(round \<mapsto> ?s1)\<rparr>)"
  have step: "participant_Commit L None round h p = (?h1, committed L p, Inr (commitmentOf L p))"
    using Cons.prems by (simp add: participant_Commit_def AddCommitment_def case_prod_unfold Let_def)
  have "co_sessions (?h1 coord) round = Some ?s1" "\<not> fr_complete ?s1"
    "\<forall>p \<in> set ps. fp_coord p = coord \<and> ValidateCommitment L (co_cfg (?h1 coord)) (commitmentOf L p) = None"
    using Cons.prems by simp_all
  from Cons.IH [of ?h1 ?s1, OF this] obtain h2 where
    "participantRound (participant_Commit L None round) verb None ?h1 ps = (h2, map (committed L) ps, Inr ())"
    "co_sessions (h2 coord) round = Some (?s1\<lparr>fr_commitments := fr_commitments ?s1 @ map (commitmentOf L) ps\<rparr>)" by blast
  with step show ?case by simp
qed

text \<open>One share of an honest participant, before and at the threshold.\<close>

lemma sign_step:
  assumes "co_sessions (h coord) round = Some s" "\<not> fr_complete s" "fp_coord p = coord"
    and "unat (co_threshold (h coord)) \<le> length (fr_commitments s)"
    and "Signer_Sign L (fp_signer p) (fr_message s) (CommitmentList_Sort L (fr_commitments s)) = (sn, Inr sh)"
    and "VerifySignatureShare L (co_cfg (h coord)) sh (fr_message s) (CommitmentList_Sort L (fr_commitments s)) = None"
  shows "Suc (length (fr_sigShares s)) < unat (co_threshold (h coord)) \<Longrightarrow>
      participant_Sign L None round h p =
        (h(coord := (h coord)\<lparr>co_sessions := (co_sessions (h coord))(round \<mapsto> s\<lparr>fr_sigShares := fr_sigShares s @ [sh]\<rparr>)\<rparr>),
         p\<lparr>fp_signer := sn\<rparr>, Inr sh)"
    and "Suc (length (fr_sigShares s)) = unat (co_threshold (h coord)) \<Longrightarrow>
      AggregateSignatures L (co_cfg (h coord)) (fr_message s) (fr_sigShares s @ [sh]) (CommitmentList_Sort L (fr_commitments s)) True = Inr (r, z) \<Longrightarrow>
      length r = 32 \<Longrightarrow> length z = 32 \<Longrightarrow>
      participant_Sign L None round h p =
        (h(coord := (h coord)\<lparr>co_sessions := (co_sessions (h coord))(round \<mapsto>
            s\<lparr>fr_sigShares := fr_sigShares s @ [sh], fr_signature := r @ z, fr_complete := True\<rparr>)\<rparr>),
         p\<lparr>fp_signer := sn\<rparr>, Inr sh)"
  using assms by (simp_all add: participant_Sign_def GetCommitments_def AddSignatureShare_def Let_def not_less)

lemma sign_round:
  assumes "co_sessions (h coord) round = Some s" "\<not> fr_complete s" "ps \<noteq> []"
    and "unat (co_threshold (h coord)) \<le> length (fr_commitments s)"
    and "length (fr_sigShares s) + length ps = unat (co_threshold (h coord))"
    and "\<forall>sh \<in> set (fr_sigShares s). VerifySignatureShare L (co_cfg (h coord)) sh (fr_message s) (CommitmentList_Sort L (fr_commitments s)) = None"
    and "\<forall>p \<in> set ps. fp_coord p = coord \<and>
      signsOver L (co_cfg (h coord)) (fp_id p) (fp_signer p) (fr_message s) (CommitmentList_Sort L (fr_commitments s))"
    and "\<And>shs. map (SignatureShare_SignerIdentifier L) shs = map (SignatureShare_SignerIdentifier L) (fr_sigShares s) @ map fp_id ps \<Longrightarrow>
      \<forall>sh \<in> set shs. VerifySignatureShare L (co_cfg (h coord)) sh (fr_message s) (CommitmentList_Sort L (fr_commitments s)) = None \<Longrightarrow>
      \<exists>r z. AggregateSignatures L (co_cfg (h coord)) (fr_message s) shs (CommitmentList_Sort L (fr_commitments s)) True = Inr (r, z) \<and>
        length r = 32 \<and> length z = 32 \<and> P (r @ z)"
  shows "\<exists>h1 ps1 sig. participantRound (participant_Sign L None round) verb None h ps = (h1, ps1, Inr ()) \<and>
     GetSignature (h1 coord) round = Inr sig \<and> length sig = 64 \<and> P sig"
  using assms
proof (induction ps arbitrary: h s)
  case Nil
  then show ?case by simp
next
  case (Cons p ps)
  let ?cms = "CommitmentList_Sort L (fr_commitments s)"
  obtain sn sh where sign: "Signer_Sign L (fp_signer p) (fr_message s) ?cms = (sn, Inr sh)"
    "SignatureShare_SignerIdentifier L sh = fp_id p" "VerifySignatureShare L (co_cfg (h coord)) sh (fr_message s) ?cms = None"
    using Cons.prems(7) by (auto simp: signsOver_def)
  have here: "fp_coord p = coord" using Cons.prems(7) by simp
  note step = sign_step [where h = h and coord = coord and s = s, OF Cons.prems(1,2) here Cons.prems(4) sign(1,3)]
  show ?case
  proof (cases "ps = []")
    case True
    have "map (SignatureShare_SignerIdentifier L) (fr_sigShares s @ [sh]) = map (SignatureShare_SignerIdentifier L) (fr_sigShares s) @ map fp_id (p # ps)"
      "\<forall>x \<in> set (fr_sigShares s @ [sh]). VerifySignatureShare L (co_cfg (h coord)) x (fr_message s) ?cms = None"
      using sign True Cons.prems(6) by auto
    from Cons.prems(8) [OF this] obtain r z where rz:
      "AggregateSignatures L (co_cfg (h coord)) (fr_message s) (fr_sigShares s @ [sh]) ?cms True = Inr (r, z)"
      "length r = 32" "length z = 32" "P (r @ z)" by blast
    have "Suc (length (fr_sigShares s)) = unat (co_threshold (h coord))" using Cons.prems(5) True by simp
    from step(2) [OF this rz(1-3)] show ?thesis using True rz by (simp add: GetSignature_def)
  next
    case False
    let ?s1 = "s\<lparr>fr_sigShares := fr_sigShares s @ [sh]\<rparr>"
    let ?h1 = "h(coord := (h coord)\<lparr>co_sessions := (co_sessions (h coord))(round \<mapsto> ?s1)\<rparr>)"
    have "Suc (length (fr_sigShares s)) < unat (co_threshold (h coord))" using Cons.prems(5) False by (cases ps) auto
    note one = step(1) [OF this]
    have "\<exists>h1 ps1 sig. participantRound (participant_Sign L None round) verb None ?h1 ps = (h1, ps1, Inr ()) \<and>
       GetSignature (h1 coord) round = Inr sig \<and> length sig = 64 \<and> P sig"
    proof (rule Cons.IH [of ?h1 ?s1])
      fix shs assume shs: "map (SignatureShare_SignerIdentifier L) shs = map (SignatureShare_SignerIdentifier L) (fr_sigShares ?s1) @ map fp_id ps"
        "\<forall>x \<in> set shs. VerifySignatureShare L (co_cfg (?h1 coord)) x (fr_message ?s1) (CommitmentList_Sort L (fr_commitments ?s1)) = None"
      then show "\<exists>r z. AggregateSignatures L (co_cfg (?h1 coord)) (fr_message ?s1) shs (CommitmentList_Sort L (fr_commitments ?s1)) True = Inr (r, z) \<and>
        length r = 32 \<and> length z = 32 \<and> P (r @ z)" using Cons.prems(8) [of shs] sign(2) by simp
    qed (use Cons.prems False sign in \<open>simp_all add: ball_Un\<close>)
    then show ?thesis using one by auto
  qed
qed

text \<open>
  C17: a group of exactly the threshold's size signs. Given a coordinator the constructor and its
  operations can produce, with a threshold above zero, a signer built on it from as many
  participants as the threshold asks for, all of them of this coordinator and honest, and a module
  that keeps the promises of RFC 9591, a signing call for the preimage's own payload returns a
  classic signature under the account's key, whatever other rounds are open.
\<close>

theorem frost_signs:
  assumes "frost_reachable L S (h coord)" "NewFROSTSigner h coord ps = Inr s"
    and "length ps = unat (co_threshold (h coord))" "0 < unat (co_threshold (h coord))"
    and "\<forall>p \<in> set ps. fp_coord p = coord \<and> honestParticipant L (co_cfg (h coord)) p"
    and "groupCorrect L S (co_cfg (h coord))" "Payload S preimage = Inr payload"
    and "strkey_Decode S VersionByteAccountID (co_address (h coord)) = Inr raw" "length raw = 32"
  shows "\<exists>h' s' sig. FROSTSigner_Sign L S (Inr round) None preimage payload h s = (h', s', Inr (scVec [accountSignature raw sig]))"
proof -
  let ?c = "h coord" and ?cfg = "co_cfg (h coord)" and ?t = "unat (co_threshold (h coord))"
  have s: "s = \<lparr>fsg_coord = coord, fsg_participants = ps\<rparr>" and ids: "distinct (map fp_id ps)"
    using assms(2) by (auto simp: NewFROSTSigner_def duplicateID_None split: if_splits option.splits)
  define c1 where "c1 = fst (frost_Begin ?c (Inr round) None payload)"
  define s0 :: "('d, 'e) frostSigningSession" where
    "s0 = \<lparr>fr_round = round, fr_commitments = [], fr_message = payload, fr_sigShares = [], fr_complete = False, fr_signature = []\<rparr>"
  let ?h0 = "h(coord := c1)" and ?cms = "map (commitmentOf L) ps"
  have c1: "co_sessions c1 round = Some s0" "co_cfg c1 = ?cfg" "co_threshold c1 = co_threshold ?c" "co_address c1 = co_address ?c"
    by (simp_all add: c1_def s0_def frost_Begin_def)
  have honest: "Commitment_SignerID L (commitmentOf L p) = fp_id p" "ValidateCommitment L ?cfg (commitmentOf L p) = None"
    "\<And>m cms. validCommitments L ?cfg cms \<Longrightarrow> commitmentOf L p \<in> set cms \<Longrightarrow>
       signsOver L ?cfg (fp_id p) (fp_signer (committed L p)) m (CommitmentList_Sort L cms)" if "p \<in> set ps" for p
    using assms(5) that by (auto simp: honestParticipant_def case_prod_unfold)
  have cmids: "map (Commitment_SignerID L) ?cms = map fp_id ps" using honest(1) by simp
  have valid: "validCommitments L ?cfg ?cms"
    unfolding validCommitments_def cmids using ids honest(2) assms(3) reachable_threshold [OF assms(1)] by auto
  obtain h1 where h1: "participantRound (participant_Commit L None round) ''commit'' None ?h0 ps = (h1, map (committed L) ps, Inr ())"
    "co_sessions (h1 coord) round = Some (s0\<lparr>fr_commitments := ?cms\<rparr>)"
    using commit_round [of ?h0 coord round s0 ps L "''commit''"] c1 honest(2) assms(5) by (auto simp: s0_def)
  have runs1: "roundRuns L round ?h0 h1" by (rule rounds_run(1) [OF h1(1)])
  have fixed: "co_cfg (h1 coord) = ?cfg" "co_threshold (h1 coord) = co_threshold ?c"
    using roundRuns_frame(2,3) [OF runs1, of coord] c1 by simp_all
  let ?P = "ed25519_Verify S (Element_Encode L (cfg_VerificationKey ?cfg)) payload"
  have agg: "\<exists>r z. AggregateSignatures L ?cfg payload shs (CommitmentList_Sort L ?cms) True = Inr (r, z) \<and> length r = 32 \<and> length z = 32 \<and> ?P (r @ z)"
    if "map (SignatureShare_SignerIdentifier L) shs = map fp_id ps"
      "\<forall>sh \<in> set shs. VerifySignatureShare L ?cfg sh payload (CommitmentList_Sort L ?cms) = None" for shs
  proof -
    have "length shs = ?t" using map_eq_imp_length_eq [OF that(1)] assms(3) by simp
    then show ?thesis
      using assms(6) valid that ids cmids reachable_threshold [OF assms(1)] unfolding groupCorrect_def by metis
  qed
  have some: "ps \<noteq> []" using assms(3,4) by auto
  have "\<exists>h2 ps2 sig. participantRound (participant_Sign L None round) ''sign'' None h1 (map (committed L) ps) = (h2, ps2, Inr ()) \<and>
     GetSignature (h2 coord) round = Inr sig \<and> length sig = 64 \<and> ?P sig"
    by (rule sign_round [where h = h1 and coord = coord, OF h1(2)])
      (use assms(3-5) some fixed agg honest(3) [OF _ valid] in \<open>simp_all add: s0_def comp_def\<close>)
  then obtain h2 ps2 sig where h2: "participantRound (participant_Sign L None round) ''sign'' None h1 (map (committed L) ps) = (h2, ps2, Inr ())"
    "GetSignature (h2 coord) round = Inr sig" "length sig = 64" "?P sig" by blast
  have "roundRuns L round h1 h2" by (rule rounds_run(2) [OF h2(1)])
  from roundRuns_trans [OF runs1 this] have "co_cfg (h2 coord) = ?cfg" "co_address (h2 coord) = co_address ?c"
    using roundRuns_frame(2,4) [of L round ?h0 h2 coord] c1 by simp_all
  then have "frostAnswer L S (h2 coord) round payload = Inr (scVec [accountSignature raw sig])"
    unfolding frostAnswer_Inr_iff using h2(2-4) assms(6,8,9) by (auto simp: groupCorrect_def)
  then show ?thesis
    using assms(7) h1(1) h2(1) s by (auto simp: FROSTSigner_Sign_def frostCeremony_def frost_Begin_def c1_def)
qed

lemma sample_group:
  "groupCorrect sampleFrost sampleSdk (co_cfg sampleCoordinator)"
  "honestParticipant sampleFrost (co_cfg sampleCoordinator) (sampleParticipant i)"
  "NewFROSTSigner (\<lambda>_. sampleCoordinator) 0 [sampleParticipant 1, sampleParticipant 2] = Inr sampleFrostSigner"
  by (simp_all add: groupCorrect_def honestParticipant_def signsOver_def validCommitments_def sample_frost NewFROSTSigner_def)

theorem frost_signs_witness:
  "\<exists>h' s' sig. FROSTSigner_Sign sampleFrost sampleSdk (Inr 5) None preimageLegacy (keyOf 0) (\<lambda>_. sampleCoordinator) sampleFrostSigner =
     (h', s', Inr (scVec [accountSignature (keyOf 1) sig]))"
  by (rule frost_signs [OF sampleCoordinator_reachable sample_group(3)])
    (use sample_group in \<open>auto simp: sampleCoordinator_def sampleParticipant_def\<close>)

section \<open>The account and the group\<close>

text \<open>
  The constructor decodes the account's address and the group's key and does not compare them: a
  group whose key is not the account's signs, and the account's key does not verify the signature.
\<close>

lemma frost_key_unchecked:
  "NewFROSTCoordinator sampleFrost sampleSdk (keyOf 1) [keyOf 1, keyOf 2] 2 2 ''GB'' = Inr (sampleCoordinator\<lparr>co_address := ''GB''\<rparr>)"
  "snd (snd (FROSTSigner_Sign sampleFrost sampleSdk (Inr 5) None preimageLegacy (keyOf 0)
      (\<lambda>_. sampleCoordinator\<lparr>co_address := ''GB''\<rparr>) sampleFrostSigner)) =
     Inr (scVec [accountSignature (keyOf 2) (keyOf 1 @ keyOf 0)])"
  "\<not> ed25519_Verify sampleSdk (keyOf 2) (keyOf 0) (keyOf 1 @ keyOf 0)"
proof -
  have "strkey_Decode sampleSdk VersionByteAccountID ''GB'' = Inr (keyOf 2)"
    by (simp add: sampleSdk_def sample_defs)
  then show "NewFROSTCoordinator sampleFrost sampleSdk (keyOf 1) [keyOf 1, keyOf 2] 2 2 ''GB'' = Inr (sampleCoordinator\<lparr>co_address := ''GB''\<rparr>)"
    "snd (snd (FROSTSigner_Sign sampleFrost sampleSdk (Inr 5) None preimageLegacy (keyOf 0)
        (\<lambda>_. sampleCoordinator\<lparr>co_address := ''GB''\<rparr>) sampleFrostSigner)) =
       Inr (scVec [accountSignature (keyOf 2) (keyOf 1 @ keyOf 0)])"
    by (simp_all add: NewFROSTCoordinator_def decodeKeyShare_def mapEi_def uint16Of_def
      FROSTSigner_Sign_def frostCeremony_def participant_Commit_def participant_Sign_def sample_frost frost_ops
      GetCommitments_def frostAnswer_def GetSignature_def VerifySignature_def frost_rawEd25519Key_def Ed25519SignatureScVal_def
      ed25519_PublicKeySize_def ed25519_SignatureSize_def Let_def)
qed simp

end
