(* ===== verification/Server.thy ===== *)
theory Server
  imports Envelope Http
begin

text \<open>
  The verification service (\<^verbatim>\<open>src/server\<close>): its configuration from the environment, the
  counters, the handlers with the bound on requests in flight, and the service as a state machine
  in which requests arrive and are answered in any order. Parameters are the XDR codec of
  envelopes, the JSON decoder, the SDK's network names, and the parsers of durations and of
  network addresses. Requests name a path the router has already cleaned; the log lines and the
  recovery from panics are left out.
\<close>

section \<open>Configuration\<close>

text \<open>Durations are nanoseconds.\<close>

definition time_Second :: int where
  "time_Second = 1000000000"

record serverConfig =
  sc_Addr :: string
  sc_MetricsAddr :: string
  sc_AuthToken :: string
  sc_ReadTimeout :: int
  sc_ReadHeaderTimeout :: int
  sc_WriteTimeout :: int
  sc_IdleTimeout :: int
  sc_ShutdownTimeout :: int
  sc_MaxBodyBytes :: int
  sc_MaxConcurrentRequests :: int

definition maxRequestBodySize :: int where
  "maxRequestBodySize = 2 ^ 20"

definition defaultConfig :: serverConfig where
  "defaultConfig =
     \<lparr>sc_Addr = ''127.0.0.1:8080'', sc_MetricsAddr = ''127.0.0.1:9090'', sc_AuthToken = [],
      sc_ReadTimeout = 5 * time_Second, sc_ReadHeaderTimeout = 5 * time_Second, sc_WriteTimeout = 10 * time_Second,
      sc_IdleTimeout = 120 * time_Second, sc_ShutdownTimeout = 10 * time_Second,
      sc_MaxBodyBytes = maxRequestBodySize, sc_MaxConcurrentRequests = 64\<rparr>"

record serverLib =
  sl_ParseDuration :: "string \<Rightarrow> gerr + int"
  sl_SplitHostPort :: "string \<Rightarrow> gerr + (string \<times> string)"
  sl_LoopbackIP :: "string \<Rightarrow> bool"
  sl_TestNetworkPassphrase :: string
  sl_FutureNetworkPassphrase :: string
  sl_PublicNetworkPassphrase :: string
  sl_Envelope_SafeUnmarshalBase64 :: "string \<Rightarrow> gerr + TransactionEnvelope"

definition valueOr :: "string \<Rightarrow> string \<Rightarrow> string" where
  "valueOr v fallback = (if v \<noteq> [] then v else fallback)"

definition durationEnv :: "serverLib \<Rightarrow> (string \<Rightarrow> string) \<Rightarrow> string \<Rightarrow> int \<Rightarrow> gerr + int" where
  "durationEnv L getenv key fallback =
     (let raw = getenv key in if raw = [] then Inr fallback else wrapE key (sl_ParseDuration L raw))"

text \<open>\<open>int64Env\<close> and \<open>intEnv\<close>; an \<open>int\<close> has 64 bits. The texts leave out what was wrong.\<close>

definition int64Env :: "(string \<Rightarrow> string) \<Rightarrow> string \<Rightarrow> int \<Rightarrow> gerr + int" where
  "int64Env getenv key fallback =
     (let raw = getenv key in
      if raw = [] then Inr fallback
      else case ParseInt64 raw of
          None \<Rightarrow> Inl (errw key (errmsg (''strconv.ParseInt: parsing '' @ strconv_Quote raw)))
        | Some n \<Rightarrow> Inr (sint n))"

definition intEnv :: "(string \<Rightarrow> string) \<Rightarrow> string \<Rightarrow> int \<Rightarrow> gerr + int" where
  "intEnv getenv key fallback =
     (let raw = getenv key in
      if raw = [] then Inr fallback
      else case ParseInt64 raw of
          None \<Rightarrow> Inl (errw key (errmsg (''strconv.Atoi: parsing '' @ strconv_Quote raw)))
        | Some n \<Rightarrow> Inr (sint n))"

text \<open>\<open>strings.ToLower\<close> on ASCII text, with which \<open>strings.EqualFold\<close> is written.\<close>

definition toLower :: "string \<Rightarrow> string" where
  "toLower s = map (\<lambda>c. let n = of_char c :: nat in if 65 \<le> n \<and> n \<le> 90 then char_of (n + 32) else c) s"

definition trimBrackets :: "string \<Rightarrow> string" where
  "trimBrackets s =
     (let bracket = (\<lambda>c. c = CHR ''['' \<or> c = CHR '']'') in rev (dropWhile bracket (rev (dropWhile bracket s))))"

definition isLoopbackAddr :: "serverLib \<Rightarrow> string \<Rightarrow> bool" where
  "isLoopbackAddr L addr =
     (let host = trimBrackets (case sl_SplitHostPort L addr of Inl _ \<Rightarrow> addr | Inr (h, _) \<Rightarrow> h) in
      if host = [] then False else if toLower host = ''localhost'' then True else sl_LoopbackIP L host)"

definition metricsDisabled :: "string \<Rightarrow> bool" where
  "metricsDisabled addr \<longleftrightarrow> toLower (TrimSpace addr) \<in> {'''', ''off'', ''none'', ''-''}"

definition loadConfig :: "serverLib \<Rightarrow> (string \<Rightarrow> string) \<Rightarrow> gerr + serverConfig" where
  "loadConfig L getenv =
     (let cfg = defaultConfig\<lparr>sc_Addr := valueOr (getenv ''ADDR'') (sc_Addr defaultConfig),
                   sc_MetricsAddr := valueOr (getenv ''METRICS_ADDR'') (sc_MetricsAddr defaultConfig),
                   sc_AuthToken := getenv ''AUTH_TOKEN''\<rparr> in
      bindE (durationEnv L getenv ''READ_TIMEOUT'' (sc_ReadTimeout cfg)) (\<lambda>readTimeout.
      bindE (durationEnv L getenv ''READ_HEADER_TIMEOUT'' (sc_ReadHeaderTimeout cfg)) (\<lambda>readHeaderTimeout.
      bindE (durationEnv L getenv ''WRITE_TIMEOUT'' (sc_WriteTimeout cfg)) (\<lambda>writeTimeout.
      bindE (durationEnv L getenv ''IDLE_TIMEOUT'' (sc_IdleTimeout cfg)) (\<lambda>idleTimeout.
      bindE (int64Env getenv ''MAX_BODY_BYTES'' (sc_MaxBodyBytes cfg)) (\<lambda>maxBodyBytes.
      bindE (intEnv getenv ''MAX_CONCURRENT_REQUESTS'' (sc_MaxConcurrentRequests cfg)) (\<lambda>maxConcurrent.
      if maxBodyBytes \<le> 0 then Inl (errmsg (''MAX_BODY_BYTES must be positive, got '' @ itoa_int maxBodyBytes))
      else if maxConcurrent \<le> 0 then Inl (errmsg (''MAX_CONCURRENT_REQUESTS must be positive, got '' @ itoa_int maxConcurrent))
      else if \<not> isLoopbackAddr L (sc_Addr cfg) \<and> sc_AuthToken cfg = []
      then Inl (errmsg (''refusing to bind '' @ strconv_Quote (sc_Addr cfg) @
             '' without AUTH_TOKEN: set a bearer token, or bind a loopback address such as 127.0.0.1:8080''))
      else Inr (cfg\<lparr>sc_ReadTimeout := readTimeout, sc_ReadHeaderTimeout := readHeaderTimeout, sc_WriteTimeout := writeTimeout,
                    sc_IdleTimeout := idleTimeout, sc_MaxBodyBytes := maxBodyBytes, sc_MaxConcurrentRequests := maxConcurrent\<rparr>))))))))"

section \<open>Metrics\<close>

text \<open>A counter vector maps label values to counts, a histogram vector to what it has observed.\<close>

record serviceMetrics =
  sm_requests :: "string \<times> string \<times> string \<Rightarrow> nat"
  sm_requestDuration :: "string \<Rightarrow> int list"
  sm_verdicts :: "string \<times> string \<Rightarrow> nat"
  sm_refusals :: "string \<Rightarrow> nat"
  sm_signerDuration :: "string \<times> string \<Rightarrow> int list"

definition newServiceMetrics :: serviceMetrics where
  "newServiceMetrics =
     \<lparr>sm_requests = (\<lambda>_. 0), sm_requestDuration = (\<lambda>_. []), sm_verdicts = (\<lambda>_. 0), sm_refusals = (\<lambda>_. 0),
      sm_signerDuration = (\<lambda>_. [])\<rparr>"

definition clamp :: "string list \<Rightarrow> string \<Rightarrow> string \<Rightarrow> string" where
  "clamp allowed value fallback = (if value \<in> set allowed then value else fallback)"

definition labelMethods :: "string list" where
  "labelMethods = [''GET'', ''POST'', ''PUT'', ''DELETE'', ''PATCH'', ''HEAD'', ''OPTIONS'']"
definition labelRoutes :: "string list" where
  "labelRoutes = [''/verify'', ''/healthz'', ''unmatched'']"
definition labelStatuses :: "string list" where
  "labelStatuses = [''200'', ''400'', ''401'', ''404'', ''405'', ''413'', ''500'', ''503'']"
definition labelCredentialTypes :: "string list" where
  "labelCredentialTypes = [''source_account'', ''address'', ''address_v2'', ''address_with_delegates'', ''unknown'']"
definition labelVerdicts :: "string list" where
  "labelVerdicts = [''verified'', ''unsigned'', ''invalid'', ''cannot_check'', ''unknown'']"
definition labelRefusalReasons :: "string list" where
  "labelRefusalReasons = [''invalid'', ''cannot_check'', ''unsigned'', ''expiration_mismatch'', ''unauthorized'',
     ''method_not_allowed'', ''too_large'', ''overloaded'', ''internal'', ''bad_request'', ''not_found'', ''other'']"
definition labelPhases :: "string list" where
  "labelPhases = [''preimage'', ''sign'', ''post_sign'', ''write'', ''unknown'']"

definition bump :: "('k \<Rightarrow> nat) \<Rightarrow> 'k \<Rightarrow> 'k \<Rightarrow> nat" where
  "bump f k = f(k := f k + 1)"

definition recordRequest :: "string \<Rightarrow> string \<Rightarrow> nat \<Rightarrow> int \<Rightarrow> serviceMetrics \<Rightarrow> serviceMetrics" where
  "recordRequest method route status d m =
     (let method = clamp labelMethods method ''other''; route = clamp labelRoutes route ''unmatched'';
          st = clamp labelStatuses (itoa status) ''other'' in
      m\<lparr>sm_requests := bump (sm_requests m) (method, route, st),
        sm_requestDuration := (sm_requestDuration m)(route := sm_requestDuration m route @ [d])\<rparr>)"

definition recordVerdict :: "string \<Rightarrow> string \<Rightarrow> serviceMetrics \<Rightarrow> serviceMetrics" where
  "recordVerdict credentialType verdict m =
     m\<lparr>sm_verdicts := bump (sm_verdicts m) (clamp labelCredentialTypes credentialType ''unknown'', clamp labelVerdicts verdict ''unknown'')\<rparr>"

definition recordRefusal :: "string \<Rightarrow> serviceMetrics \<Rightarrow> serviceMetrics" where
  "recordRefusal reason m = m\<lparr>sm_refusals := bump (sm_refusals m) (clamp labelRefusalReasons reason ''other'')\<rparr>"

definition recordRefusalReason :: "nat \<Rightarrow> serviceMetrics \<Rightarrow> serviceMetrics" where
  "recordRefusalReason status m =
     recordRefusal
       (if status = 401 then ''unauthorized'' else if status = 405 then ''method_not_allowed''
        else if status = 413 then ''too_large'' else if status = 503 then ''overloaded''
        else if status = 500 then ''internal'' else if status = 404 then ''not_found''
        else if status = 400 then ''bad_request'' else ''other'') m"

definition observeSigner :: "string \<Rightarrow> string \<Rightarrow> int \<Rightarrow> serviceMetrics \<Rightarrow> serviceMetrics" where
  "observeSigner phase credentialType d m =
     (let k = (clamp labelPhases phase ''unknown'', clamp labelCredentialTypes credentialType ''unknown'') in
      m\<lparr>sm_signerDuration := (sm_signerDuration m)(k := sm_signerDuration m k @ [d])\<rparr>)"

primrec phaseText :: "HookPhase \<Rightarrow> string" where
  "phaseText HookPhasePreimage = ''preimage''"
| "phaseText HookPhaseSign = ''sign''"
| "phaseText HookPhasePostSign = ''post_sign''"
| "phaseText HookPhaseWrite = ''write''"

definition hookMetrics_Event :: "HookEvent \<Rightarrow> serviceMetrics \<Rightarrow> serviceMetrics" where
  "hookMetrics_Event e m =
     (if he_Phase e \<in> {HookPhaseSign, HookPhasePostSign} \<and> he_Duration e > 0
      then observeSigner (phaseText (he_Phase e)) (he_CredentialType e) (he_Duration e) m else m)"

section \<open>Messages\<close>

record verifyRequest =
  vq_Entry :: string
  vq_Network :: string
  vq_ValidUntilLedger :: uint32

record nodeOutput =
  no_Address :: string
  no_Verdict :: string
  no_Reason :: string

record entryOutput =
  eo_OperationIndex :: nat
  eo_EntryIndex :: nat
  eo_CredentialType :: string
  eo_AddressBound :: bool
  eo_Address :: string
  eo_ValidUntilLedger :: uint32
  eo_Verified :: bool
  eo_Nodes :: "nodeOutput list"
  eo_Note :: string

text \<open>A request with what its body yields when it is read: bytes, and then the end or an error.\<close>

record serverRequest =
  sq_Method :: string
  sq_Path :: string
  sq_Header :: "(string \<times> string) list"
  sq_Body :: bytes
  sq_ReadError :: "gerr option"

datatype responseBody =
    ErrorBody string
  | ReportBody entryOutput
  | ReportsBody "entryOutput list"
  | HealthBody string
  | PlainBody string

record serverResponse =
  sr_Status :: nat
  sr_Header :: "(string \<times> string) list"
  sr_Body :: responseBody

section \<open>The handlers\<close>

text \<open>\<open>sv_sem\<close> is the number of slots of the semaphore that are taken.\<close>

record server =
  sv_cfg :: serverConfig
  sv_metrics :: serviceMetrics
  sv_sem :: nat

definition newServer :: "serverConfig \<Rightarrow> server" where
  "newServer cfg = \<lparr>sv_cfg = cfg, sv_metrics = newServiceMetrics, sv_sem = 0\<rparr>"

definition withMetrics :: "(serviceMetrics \<Rightarrow> serviceMetrics) \<Rightarrow> server \<Rightarrow> server" where
  "withMetrics f s = s\<lparr>sv_metrics := f (sv_metrics s)\<rparr>"

definition jsonHeader :: "(string \<times> string) list" where
  "jsonHeader = [(''Content-Type'', ''application/json'')]"

text \<open>\<open>writeError\<close> counts the refusal and writes the error object.\<close>

definition errorResponse :: "nat \<Rightarrow> string \<Rightarrow> serverResponse" where
  "errorResponse status msg = \<lparr>sr_Status = status, sr_Header = jsonHeader, sr_Body = ErrorBody msg\<rparr>"

definition server_writeError :: "nat \<Rightarrow> string \<Rightarrow> server \<Rightarrow> server \<times> serverResponse" where
  "server_writeError status msg s = (withMetrics (recordRefusalReason status) s, errorResponse status msg)"

definition healthzHandler :: "string \<Rightarrow> serverRequest \<Rightarrow> server \<Rightarrow> server \<times> serverResponse" where
  "healthzHandler version r s =
     (if sq_Method r \<noteq> ''GET'' then server_writeError 405 ''method not allowed'' s
      else (s, \<lparr>sr_Status = 200, sr_Header = jsonHeader, sr_Body = HealthBody version\<rparr>))"

definition server_authorized :: "serverConfig \<Rightarrow> serverRequest \<Rightarrow> bool" where
  "server_authorized cfg r =
     (if sc_AuthToken cfg = [] then True
      else (case map_of (sq_Header r) ''Authorization'' of None \<Rightarrow> [] | Some v \<Rightarrow> v) = ''Bearer '' @ sc_AuthToken cfg)"

definition newEntryOutput :: "VerificationReport \<Rightarrow> entryOutput" where
  "newEntryOutput report =
     \<lparr>eo_OperationIndex = 0, eo_EntryIndex = 0, eo_CredentialType = vr_CredentialType report, eo_AddressBound = vr_AddressBound report,
      eo_Address = vr_Address report, eo_ValidUntilLedger = vr_ValidUntilLedger report, eo_Verified = Verified report,
      eo_Nodes = map (\<lambda>node. \<lparr>no_Address = nv_Address node, no_Verdict = verdictString (nv_Verdict node), no_Reason = nv_Reason node\<rparr>)
        (vr_Nodes report),
      eo_Note = vr_Note report\<rparr>"

definition resolveNetwork :: "serverLib \<Rightarrow> string \<Rightarrow> gerr + string" where
  "resolveNetwork L value =
     (if value = [] then Inl (errmsg ''network is required (testnet, futurenet, public, or a literal passphrase)'')
      else if value = ''testnet'' then Inr (sl_TestNetworkPassphrase L)
      else if value = ''futurenet'' then Inr (sl_FutureNetworkPassphrase L)
      else if value = ''public'' then Inr (sl_PublicNetworkPassphrase L)
      else Inr value)"

text \<open>\<open>decodedInput\<close>: an entry or an envelope. An envelope that decodes with no entries makes the error text quote a nil error.\<close>

definition decodeEntryOrEnvelope ::
  "sdk \<Rightarrow> serverLib \<Rightarrow> string \<Rightarrow> gerr + (SorobanAuthorizationEntry + TransactionEnvelope)" where
  "decodeEntryOrEnvelope S L value =
     (let entryResult = Entry_SafeUnmarshalBase64 S value;
          asEntry = (case entryResult of Inl err \<Rightarrow> Inl (errw ''decoding entry'' err) | Inr entry \<Rightarrow> Inr (Inl entry)) in
      case sl_Envelope_SafeUnmarshalBase64 L value of
        Inl _ \<Rightarrow> asEntry
      | Inr envelope \<Rightarrow>
          (case EnvelopeEntries envelope of
             Inr entries \<Rightarrow>
               if length entries > 0 then Inr (Inr envelope)
               else if isOk entryResult then asEntry
               else Inl (errmsg ''decoding entry as an envelope: %!w(<nil>)'')
           | Inl err \<Rightarrow> if isOk entryResult then asEntry else Inl (errw ''decoding entry as an envelope'' err)))"

text \<open>\<open>recordVerdicts\<close>, one node at a time.\<close>

definition recordNode :: "string \<Rightarrow> NodeVerdict \<Rightarrow> serviceMetrics \<Rightarrow> serviceMetrics" where
  "recordNode credentialType node m =
     (let m1 = recordVerdict credentialType (verdictString (nv_Verdict node)) m in
      case nv_Verdict node of
        VerdictVerified \<Rightarrow> m1
      | VerdictInvalid \<Rightarrow> recordRefusal ''invalid'' m1
      | VerdictCannotCheck \<Rightarrow> recordRefusal ''cannot_check'' m1
      | VerdictUnsigned \<Rightarrow> recordRefusal ''unsigned'' m1)"

definition recordVerdicts :: "VerificationReport \<Rightarrow> serviceMetrics \<Rightarrow> serviceMetrics" where
  "recordVerdicts report m = fold (recordNode (vr_CredentialType report)) (vr_Nodes report) m"

text \<open>
  The loop over the located entries, from the metrics so far. An entry of an envelope carries its
  one-based position.
\<close>

fun verifyItems ::
  "sdk \<Rightarrow> string \<Rightarrow> uint32 \<Rightarrow> (SorobanAuthorizationEntry \<times> (nat \<times> nat) option) list \<Rightarrow> serviceMetrics \<Rightarrow>
     serviceMetrics \<times> (string + entryOutput list)" where
  "verifyItems S passphrase validUntil [] m = (m, Inr [])"
| "verifyItems S passphrase validUntil ((entry, position) # items) m =
     (case VerifyEntry S entry passphrase of
        Inl err \<Rightarrow> (m, Inl (''verification failed: '' @ error_text err))
      | Inr report \<Rightarrow>
          if validUntil \<noteq> 0 \<and> vr_ValidUntilLedger report \<noteq> validUntil
          then (recordRefusal ''expiration_mismatch'' m,
                Inl (''entry carries expiration '' @ itoa (unat (vr_ValidUntilLedger report)) @ '', but valid_until_ledger says '' @ itoa (unat validUntil)))
          else
            let out = (case position of None \<Rightarrow> newEntryOutput report
                       | Some (i, j) \<Rightarrow> (newEntryOutput report)\<lparr>eo_OperationIndex := i + 1, eo_EntryIndex := j + 1\<rparr>);
                (m1, rest) = verifyItems S passphrase validUntil items (recordVerdicts report m) in
            (m1, bindE rest (\<lambda>outs. Inr (out # outs))))"

text \<open>Reading the body under \<open>http.MaxBytesReader\<close>: \<open>Inl\<close> is the refusal's status and text.\<close>

definition readBody :: "serverConfig \<Rightarrow> serverRequest \<Rightarrow> (nat \<times> string) + bytes" where
  "readBody cfg r =
     (if int (length (sq_Body r)) > sc_MaxBodyBytes cfg
      then Inl (413, ''request body exceeds the '' @ itoa_int (sc_MaxBodyBytes cfg) @ ''-byte limit'')
      else case sq_ReadError r of Some err \<Rightarrow> Inl (400, ''reading request body: '' @ error_text err) | None \<Rightarrow> Inr (sq_Body r))"

text \<open>From the body to the entries to verify.\<close>

definition locateEntries ::
  "SorobanAuthorizationEntry + TransactionEnvelope \<Rightarrow> gerr + (SorobanAuthorizationEntry \<times> (nat \<times> nat) option) list" where
  "locateEntries input =
     (case input of Inl entry \<Rightarrow> Inr [(entry, None)]
      | Inr envelope \<Rightarrow>
          bindE (EnvelopeEntries envelope) (\<lambda>entries.
            Inr (map (\<lambda>e. (ee_Entry e, Some (ee_OperationIndex e, ee_EntryIndex e))) entries)))"

definition refuse :: "nat \<Rightarrow> string \<Rightarrow> gerr + 'a \<Rightarrow> (nat \<times> string) + 'a" where
  "refuse status prefix m = (case m of Inl err \<Rightarrow> Inl (status, prefix @ error_text err) | Inr x \<Rightarrow> Inr x)"

text \<open>\<open>parse\<close> is \<open>json.Unmarshal\<close> into a \<open>verifyRequest\<close>.\<close>

definition prepareRequest ::
  "sdk \<Rightarrow> serverLib \<Rightarrow> (bytes \<Rightarrow> gerr + verifyRequest) \<Rightarrow> serverConfig \<Rightarrow> serverRequest \<Rightarrow>
     (nat \<times> string) + (uint32 \<times> string \<times> bool \<times> (SorobanAuthorizationEntry \<times> (nat \<times> nat) option) list)" where
  "prepareRequest S L parse cfg r =
     bindE (readBody cfg r) (\<lambda>body.
     bindE (refuse 400 ''parsing JSON: '' (parse body)) (\<lambda>req.
     if vq_Entry req = [] then Inl (400, ''entry is required'')
     else
       bindE (refuse 400 [] (resolveNetwork L (vq_Network req))) (\<lambda>passphrase.
       bindE (refuse 400 [] (decodeEntryOrEnvelope S L (vq_Entry req))) (\<lambda>input.
       bindE (refuse 400 ''envelope has no authorization entries: '' (locateEntries input)) (\<lambda>items.
         Inr (vq_ValidUntilLedger req, passphrase, \<not> isl input, items))))))"

definition verifyAdmitted ::
  "sdk \<Rightarrow> serverLib \<Rightarrow> (bytes \<Rightarrow> gerr + verifyRequest) \<Rightarrow> serverRequest \<Rightarrow> server \<Rightarrow> server \<times> serverResponse" where
  "verifyAdmitted S L parse r s =
     (case prepareRequest S L parse (sv_cfg s) r of
        Inl (status, msg) \<Rightarrow> server_writeError status msg s
      | Inr (validUntil, passphrase, isEnvelope, items) \<Rightarrow>
          let (m, result) = verifyItems S passphrase validUntil items (sv_metrics s); s1 = s\<lparr>sv_metrics := m\<rparr> in
          case result of
            Inl msg \<Rightarrow> server_writeError 400 msg s1
          | Inr outputs \<Rightarrow>
              (s1, \<lparr>sr_Status = 200, sr_Header = jsonHeader,
                    sr_Body = (if isEnvelope then ReportsBody outputs else ReportBody (hd outputs))\<rparr>))"

text \<open>
  The beginning of \<open>verifyHandler\<close>: \<open>Some\<close> is the answer of a request that was refused,
  \<open>None\<close> means that it has taken a slot. \<open>verifyEnd\<close> is the rest, with the deferred release.
\<close>

definition verifyStart :: "serverRequest \<Rightarrow> server \<Rightarrow> server \<times> serverResponse option" where
  "verifyStart r s =
     (if sq_Method r \<noteq> ''POST'' then map_prod id Some (server_writeError 405 ''method not allowed'' s)
      else if \<not> server_authorized (sv_cfg s) r then map_prod id Some (server_writeError 401 ''missing or invalid bearer token'' s)
      else if int (sv_sem s) < sc_MaxConcurrentRequests (sv_cfg s) then (s\<lparr>sv_sem := sv_sem s + 1\<rparr>, None)
      else map_prod id (\<lambda>resp. Some (resp\<lparr>sr_Header := (''Retry-After'', ''1'') # sr_Header resp\<rparr>))
             (server_writeError 503 ''service is at its concurrent-request limit; retry shortly'' s))"

definition verifyEnd ::
  "sdk \<Rightarrow> serverLib \<Rightarrow> (bytes \<Rightarrow> gerr + verifyRequest) \<Rightarrow> serverRequest \<Rightarrow> server \<Rightarrow> server \<times> serverResponse" where
  "verifyEnd S L parse r s = map_prod (\<lambda>s1. s1\<lparr>sv_sem := sv_sem s1 - 1\<rparr>) id (verifyAdmitted S L parse r s)"

definition verifyHandler ::
  "sdk \<Rightarrow> serverLib \<Rightarrow> (bytes \<Rightarrow> gerr + verifyRequest) \<Rightarrow> serverRequest \<Rightarrow> server \<Rightarrow> server \<times> serverResponse" where
  "verifyHandler S L parse r s =
     (case verifyStart r s of (s1, Some resp) \<Rightarrow> (s1, resp) | (s1, None) \<Rightarrow> verifyEnd S L parse r s1)"

definition routeLabel :: "string \<Rightarrow> string" where
  "routeLabel path = (if path = ''/verify'' then ''/verify'' else if path = ''/healthz'' then ''/healthz'' else ''unmatched'')"

definition notFoundResponse :: serverResponse where
  "notFoundResponse =
     \<lparr>sr_Status = 404, sr_Header = [(''Content-Type'', ''text/plain; charset=utf-8''), (''X-Content-Type-Options'', ''nosniff'')],
      sr_Body = PlainBody ''404 page not found''\<rparr>"

text \<open>\<open>withRequestLogging\<close> counts the request when it has been answered.\<close>

definition withRequestLogging :: "serverRequest \<Rightarrow> int \<Rightarrow> server \<times> serverResponse \<Rightarrow> server \<times> serverResponse" where
  "withRequestLogging r d = (\<lambda>(s, resp). (withMetrics (recordRequest (sq_Method r) (routeLabel (sq_Path r)) (sr_Status resp) d) s, resp))"

section \<open>The service\<close>

definition otherHandler :: "string \<Rightarrow> serverRequest \<Rightarrow> server \<Rightarrow> server \<times> serverResponse" where
  "otherHandler version r s = (if sq_Path r = ''/healthz'' then healthzHandler version r s else (s, notFoundResponse))"

text \<open>
  Requests carry a connection number. A verification request is answered in two steps, since its
  body may arrive slowly; whatever else the server does may come between them.
\<close>

record service =
  se_server :: server
  se_running :: "nat \<rightharpoonup> serverRequest"
  se_answers :: "(nat \<times> serverRequest \<times> serverResponse) list"

definition answer :: "nat \<Rightarrow> serverRequest \<Rightarrow> int \<Rightarrow> server \<times> serverResponse \<Rightarrow> service \<Rightarrow> service" where
  "answer i r d result w =
     (let (s, resp) = withRequestLogging r d result in
      \<lparr>se_server = s, se_running = (se_running w)(i := None), se_answers = (i, r, resp) # se_answers w\<rparr>)"

inductive serviceStep ::
  "sdk \<Rightarrow> serverLib \<Rightarrow> (bytes \<Rightarrow> gerr + verifyRequest) \<Rightarrow> string \<Rightarrow> service \<Rightarrow> service \<Rightarrow> bool" for S L parse version where
  refused: "se_running w i = None \<Longrightarrow> sq_Path r = ''/verify'' \<Longrightarrow> verifyStart r (se_server w) = (s, Some resp) \<Longrightarrow>
     serviceStep S L parse version w (answer i r d (s, resp) w)"
| admitted: "se_running w i = None \<Longrightarrow> sq_Path r = ''/verify'' \<Longrightarrow> verifyStart r (se_server w) = (s, None) \<Longrightarrow>
     serviceStep S L parse version w (w\<lparr>se_server := s, se_running := (se_running w)(i \<mapsto> r)\<rparr>)"
| finished: "se_running w i = Some r \<Longrightarrow>
     serviceStep S L parse version w (answer i r d (verifyEnd S L parse r (se_server w)) w)"
| other: "se_running w i = None \<Longrightarrow> sq_Path r \<noteq> ''/verify'' \<Longrightarrow>
     serviceStep S L parse version w (answer i r d (otherHandler version r (se_server w)) w)"

definition newService :: "serverConfig \<Rightarrow> service" where
  "newService cfg = \<lparr>se_server = newServer cfg, se_running = Map.empty, se_answers = []\<rparr>"

inductive service_reachable ::
  "sdk \<Rightarrow> serverLib \<Rightarrow> (bytes \<Rightarrow> gerr + verifyRequest) \<Rightarrow> string \<Rightarrow> serverConfig \<Rightarrow> service \<Rightarrow> bool" for S L parse version cfg where
  started: "service_reachable S L parse version cfg (newService cfg)"
| stepped: "service_reachable S L parse version cfg w \<Longrightarrow> serviceStep S L parse version w w' \<Longrightarrow> service_reachable S L parse version cfg w'"

section \<open>The counters\<close>

definition typeTotal :: "serviceMetrics \<Rightarrow> string \<Rightarrow> nat" where
  "typeTotal m verdict = (\<Sum>t\<leftarrow>labelCredentialTypes. sm_verdicts m (t, verdict))"

text \<open>
  The labels in use are the declared ones with their fallbacks, and the refusals of a verdict are
  as many as the nodes with the verdict.
\<close>

definition labels_closed :: "serviceMetrics \<Rightarrow> bool" where
  "labels_closed m \<longleftrightarrow>
     (\<forall>method route st. sm_requests m (method, route, st) > 0 \<longrightarrow>
        method \<in> set (''other'' # labelMethods) \<and> route \<in> set labelRoutes \<and> st \<in> set (''other'' # labelStatuses)) \<and>
     (\<forall>t v. sm_verdicts m (t, v) > 0 \<longrightarrow> t \<in> set labelCredentialTypes \<and> v \<in> set labelVerdicts) \<and>
     (\<forall>reason. sm_refusals m reason > 0 \<longrightarrow> reason \<in> set labelRefusalReasons)"

definition series_agree :: "serviceMetrics \<Rightarrow> bool" where
  "series_agree m \<longleftrightarrow> (\<forall>v \<in> {''invalid'', ''cannot_check'', ''unsigned''}. sm_refusals m v = typeTotal m v)"

definition metrics_inv :: "serviceMetrics \<Rightarrow> bool" where
  "metrics_inv m \<longleftrightarrow> labels_closed m \<and> series_agree m"

lemma clamp_in: "fallback \<in> set allowed \<Longrightarrow> clamp allowed v fallback \<in> set allowed"
  "clamp allowed v fallback = fallback \<or> clamp allowed v fallback \<in> set allowed"
  by (simp_all add: clamp_def)

lemma bump_pos: "bump f k j > 0 \<longleftrightarrow> j = k \<or> f j > 0"
  by (simp add: bump_def)

lemma fallbacks:
  "''unmatched'' \<in> set labelRoutes" "''unknown'' \<in> set labelCredentialTypes" "''unknown'' \<in> set labelVerdicts"
  "''other'' \<in> set labelRefusalReasons"
  by (simp_all add: labelRoutes_def labelCredentialTypes_def labelVerdicts_def labelRefusalReasons_def)

lemma recordRefusal_clamped: "reason \<in> set labelRefusalReasons \<Longrightarrow> recordRefusal reason m = m\<lparr>sm_refusals := bump (sm_refusals m) reason\<rparr>"
  by (simp add: recordRefusal_def clamp_def)

lemma typeTotal_refusal [simp]: "typeTotal (m\<lparr>sm_refusals := f\<rparr>) v = typeTotal m v"
  by (simp add: typeTotal_def)

lemma typeTotal_recordVerdict:
  assumes "v \<in> set labelVerdicts"
  shows "typeTotal (recordVerdict t v m) v' = typeTotal m v' + (if v' = v then 1 else 0)"
proof -
  have "clamp labelCredentialTypes t ''unknown'' \<in> set labelCredentialTypes" by (rule clamp_in(1)) (rule fallbacks)
  then show ?thesis using assms
    by (auto simp: typeTotal_def recordVerdict_def bump_def labelCredentialTypes_def clamp_def split: if_splits)
qed

lemma recordRequest_inv: "metrics_inv m \<Longrightarrow> metrics_inv (recordRequest verb route status d m)"
  using clamp_in(1) [OF fallbacks(1), of route] clamp_in(2) [of labelMethods verb "''other''"]
    clamp_in(2) [of labelStatuses "itoa status" "''other''"]
  by (auto simp: metrics_inv_def labels_closed_def series_agree_def typeTotal_def recordRequest_def Let_def bump_pos)

lemma recordRefusal_inv:
  assumes "metrics_inv m" "reason \<in> set labelRefusalReasons" "reason \<notin> {''invalid'', ''cannot_check'', ''unsigned''}"
  shows "metrics_inv (recordRefusal reason m)"
  using assms by (auto simp: recordRefusal_clamped metrics_inv_def labels_closed_def series_agree_def bump_pos bump_def)

lemma recordRefusalReason_inv: "metrics_inv m \<Longrightarrow> metrics_inv (recordRefusalReason status m)"
  unfolding recordRefusalReason_def by (rule recordRefusal_inv) (auto simp: labelRefusalReasons_def)

lemma verdictString_label: "verdictString v \<in> set labelVerdicts"
  by (cases v) (simp_all add: labelVerdicts_def)

lemma recordVerdict_closed:
  assumes "labels_closed m" "v \<in> set labelVerdicts"
  shows "labels_closed (recordVerdict t v m)"
  using assms clamp_in(1) [OF fallbacks(2), of t] by (auto simp: labels_closed_def recordVerdict_def bump_pos clamp_def)

lemma recordNode_eq:
  "recordNode t node m =
     (let m1 = recordVerdict t (verdictString (nv_Verdict node)) m in
      if nv_Verdict node = VerdictVerified then m1 else m1\<lparr>sm_refusals := bump (sm_refusals m1) (verdictString (nv_Verdict node))\<rparr>)"
  by (cases "nv_Verdict node") (simp_all add: recordNode_def Let_def recordRefusal_clamped labelRefusalReasons_def)

lemma recordNode_inv:
  assumes "metrics_inv m"
  shows "metrics_inv (recordNode t node m)"
proof -
  let ?v = "verdictString (nv_Verdict node)" and ?m1 = "recordVerdict t (verdictString (nv_Verdict node)) m"
  have closed: "labels_closed ?m1"
    using assms verdictString_label by (simp add: metrics_inv_def recordVerdict_closed)
  have reason: "nv_Verdict node \<noteq> VerdictVerified \<Longrightarrow> ?v \<in> set labelRefusalReasons"
    by (cases "nv_Verdict node") (simp_all add: labelRefusalReasons_def)
  have "labels_closed (recordNode t node m)"
    using closed reason by (auto simp: recordNode_eq Let_def labels_closed_def bump_pos)
  moreover have "sm_refusals (recordNode t node m) v' = typeTotal (recordNode t node m) v'"
    if "v' \<in> {''invalid'', ''cannot_check'', ''unsigned''}" for v'
  proof -
    have "sm_refusals m v' = typeTotal m v'" using assms that unfolding metrics_inv_def series_agree_def by blast
    moreover have "v' \<noteq> verdictString VerdictVerified" using that by auto
    ultimately show ?thesis
      using typeTotal_recordVerdict [OF verdictString_label, of t "nv_Verdict node" m v']
      by (auto simp: recordNode_eq Let_def recordVerdict_def bump_def)
  qed
  ultimately show ?thesis unfolding metrics_inv_def series_agree_def by blast
qed

lemma recordVerdicts_inv: "metrics_inv m \<Longrightarrow> metrics_inv (recordVerdicts report m)"
proof -
  have "metrics_inv m \<Longrightarrow> metrics_inv (fold (recordNode t) nodes m)" for t nodes
    by (induction nodes arbitrary: m) (simp_all add: recordNode_inv)
  then show "metrics_inv m \<Longrightarrow> metrics_inv (recordVerdicts report m)" by (simp add: recordVerdicts_def)
qed

lemma verifyItems_inv: "metrics_inv m \<Longrightarrow> metrics_inv (fst (verifyItems S p v items m))"
proof (induction S p v items m rule: verifyItems.induct)
  case (1 S p v m)
  then show ?case by simp
next
  case (2 S p v entry position items m)
  show ?case
  proof (cases "VerifyEntry S entry p")
    case (Inl err)
    then show ?thesis using "2.prems" by simp
  next
    case (Inr report)
    have "metrics_inv (recordRefusal ''expiration_mismatch'' m)"
      using "2.prems" by (rule recordRefusal_inv) (auto simp: labelRefusalReasons_def)
    then show ?thesis
      using Inr "2.IH" [OF Inr] recordVerdicts_inv [OF "2.prems", of report] by (auto simp: case_prod_unfold Let_def)
  qed
qed

end
