(* ===== verification/Server_Properties.thy ===== *)
theory Server_Properties
  imports Server Sample_Sdk
begin

text \<open>
  The verification service: what it answers, that overlapping requests are answered as they would
  be alone and never exceed the bound, that its counters agree, and that it does not come up open
  to the network without a token.
\<close>

section \<open>The report of a request\<close>

definition itemOutput :: "(nat \<times> nat) option \<Rightarrow> VerificationReport \<Rightarrow> entryOutput" where
  "itemOutput position report =
     (case position of None \<Rightarrow> newEntryOutput report
      | Some (i, j) \<Rightarrow> (newEntryOutput report)\<lparr>eo_OperationIndex := i + 1, eo_EntryIndex := j + 1\<rparr>)"

lemma verifyItems_Cons:
  "snd (verifyItems S p v ((entry, position) # items) m) =
     (case VerifyEntry S entry p of
        Inl err \<Rightarrow> Inl (''verification failed: '' @ error_text err)
      | Inr report \<Rightarrow>
          if v \<noteq> 0 \<and> vr_ValidUntilLedger report \<noteq> v
          then Inl (''entry carries expiration '' @ itoa (unat (vr_ValidUntilLedger report)) @ '', but valid_until_ledger says '' @ itoa (unat v))
          else bindE (snd (verifyItems S p v items (recordVerdicts report m))) (\<lambda>outs. Inr (itemOutput position report # outs)))"
  by (simp add: itemOutput_def case_prod_unfold Let_def split: sum.splits)

lemma verifyItems_metrics: "snd (verifyItems S p v items m) = snd (verifyItems S p v items m')"
proof (induction items arbitrary: m m')
  case Nil
  then show ?case by simp
next
  case (Cons item items)
  have "snd (verifyItems S p v items (recordVerdicts report m)) = snd (verifyItems S p v items (recordVerdicts report m'))" for report
    by (rule Cons.IH)
  then show ?case by (cases item) (simp only: verifyItems_Cons)
qed

definition itemReport :: "sdk \<Rightarrow> string \<Rightarrow> uint32 \<Rightarrow> SorobanAuthorizationEntry \<times> (nat \<times> nat) option \<Rightarrow> VerificationReport \<Rightarrow> bool" where
  "itemReport S p v item report \<longleftrightarrow> VerifyEntry S (fst item) p = Inr report \<and> (v = 0 \<or> vr_ValidUntilLedger report = v)"

lemma verifyItems_Inr_iff:
  "snd (verifyItems S p v items m) = Inr outs \<longleftrightarrow>
     (\<exists>reports. list_all2 (itemReport S p v) items reports \<and> outs = map2 (\<lambda>item report. itemOutput (snd item) report) items reports)"
proof (induction items arbitrary: m outs)
  case Nil
  then show ?case by auto
next
  case (Cons item items)
  obtain entry position where item: "item = (entry, position)" by (cases item)
  show ?case unfolding item verifyItems_Cons
    by (auto simp: Cons.IH bindE_Inr_iff itemReport_def list_all2_Cons1 if_Inl_iff split: sum.splits)
qed

lemma server_writeError_select [simp]:
  "sv_cfg (fst (server_writeError status msg s)) = sv_cfg s" "sv_sem (fst (server_writeError status msg s)) = sv_sem s"
  "sv_metrics (fst (server_writeError status msg s)) = recordRefusalReason status (sv_metrics s)"
  "snd (server_writeError status msg s) = errorResponse status msg"
  by (simp_all add: server_writeError_def withMetrics_def)

lemma verifyAdmitted_select [simp]:
  "sv_cfg (fst (verifyAdmitted S L parse r s)) = sv_cfg s" "sv_sem (fst (verifyAdmitted S L parse r s)) = sv_sem s"
  by (auto simp: verifyAdmitted_def Let_def split: sum.splits prod.splits)

lemma verifyAdmitted_response:
  "snd (verifyAdmitted S L parse r s) =
     (case prepareRequest S L parse (sv_cfg s) r of
        Inl (status, msg) \<Rightarrow> errorResponse status msg
      | Inr (v, p, isEnvelope, items) \<Rightarrow>
          (case snd (verifyItems S p v items newServiceMetrics) of
             Inl msg \<Rightarrow> errorResponse 400 msg
           | Inr outputs \<Rightarrow>
               \<lparr>sr_Status = 200, sr_Header = jsonHeader, sr_Body = (if isEnvelope then ReportsBody outputs else ReportBody (hd outputs))\<rparr>))"
  using verifyItems_metrics [of S _ _ _ "sv_metrics s" newServiceMetrics]
  by (auto simp: verifyAdmitted_def Let_def case_prod_unfold split: sum.splits)

lemma verifyAdmitted_inv: "metrics_inv (sv_metrics s) \<Longrightarrow> metrics_inv (sv_metrics (fst (verifyAdmitted S L parse r s)))"
  using verifyItems_inv [of "sv_metrics s" S]
  by (auto simp: verifyAdmitted_def Let_def case_prod_unfold recordRefusalReason_inv split: sum.splits)

lemma refuse_Inl: "refuse status prefix m = Inl e \<Longrightarrow> fst e = status"
  by (cases m) (auto simp: refuse_def)

lemma prepareRequest_Inl_status: "prepareRequest S L parse cfg r = Inl e \<Longrightarrow> fst e \<in> {400, 413}"
  by (auto simp: prepareRequest_def bindE_Inl_iff readBody_def dest!: refuse_Inl split: if_splits option.splits)

lemma refuse_Inr_iff [simp]: "refuse status prefix m = Inr x \<longleftrightarrow> m = Inr x"
  by (cases m) (simp_all add: refuse_def)

lemma prepareRequest_Inr_iff:
  "prepareRequest S L parse cfg r = Inr (v, p, isEnvelope, items) \<longleftrightarrow>
     int (length (sq_Body r)) \<le> sc_MaxBodyBytes cfg \<and> sq_ReadError r = None \<and>
     (\<exists>req input. parse (sq_Body r) = Inr req \<and> vq_Entry req \<noteq> [] \<and> resolveNetwork L (vq_Network req) = Inr p \<and>
        decodeEntryOrEnvelope S L (vq_Entry req) = Inr input \<and> locateEntries input = Inr items \<and>
        v = vq_ValidUntilLedger req \<and> isEnvelope = (\<not> isl input))"
  by (auto simp: prepareRequest_def readBody_def bindE_Inr_iff if_Inl_iff not_less split: option.splits if_splits)

lemma verifyAdmitted_200_iff:
  "sr_Status (snd (verifyAdmitted S L parse r s)) = 200 \<longleftrightarrow>
     (\<exists>v p isEnvelope items reports. prepareRequest S L parse (sv_cfg s) r = Inr (v, p, isEnvelope, items) \<and>
        list_all2 (itemReport S p v) items reports \<and>
        snd (verifyAdmitted S L parse r s) =
          \<lparr>sr_Status = 200, sr_Header = jsonHeader,
           sr_Body = (let outputs = map2 (\<lambda>item report. itemOutput (snd item) report) items reports in
             if isEnvelope then ReportsBody outputs else ReportBody (hd outputs))\<rparr>)"
  (is "_ \<longleftrightarrow> ?R")
proof
  assume ok: "sr_Status (snd (verifyAdmitted S L parse r s)) = 200"
  show ?R
  proof (cases "prepareRequest S L parse (sv_cfg s) r")
    case (Inl e)
    then show ?thesis
      using ok prepareRequest_Inl_status [OF Inl] unfolding verifyAdmitted_response
      by (auto simp: errorResponse_def case_prod_unfold)
  next
    case (Inr x)
    obtain v p isEnvelope items where x: "x = (v, p, isEnvelope, items)" by (metis prod_cases4)
    obtain outs where outs: "snd (verifyItems S p v items newServiceMetrics) = Inr outs"
      using ok Inr x unfolding verifyAdmitted_response by (auto simp: errorResponse_def split: sum.splits)
    then obtain reports where "list_all2 (itemReport S p v) items reports" "outs = map2 (\<lambda>item report. itemOutput (snd item) report) items reports"
      unfolding verifyItems_Inr_iff by blast
    then show ?thesis using Inr x outs unfolding verifyAdmitted_response Let_def by auto
  qed
next
  assume ?R
  then obtain body where "snd (verifyAdmitted S L parse r s) = \<lparr>sr_Status = 200, sr_Header = jsonHeader, sr_Body = body\<rparr>" by blast
  then show "sr_Status (snd (verifyAdmitted S L parse r s)) = 200" by simp
qed

lemma verifyStart_None_iff:
  "snd (verifyStart r s) = None \<longleftrightarrow>
     sq_Method r = ''POST'' \<and> server_authorized (sv_cfg s) r \<and> int (sv_sem s) < sc_MaxConcurrentRequests (sv_cfg s)"
  by (simp add: verifyStart_def)

lemma verifyHandler_cases:
  "verifyHandler S L parse r s =
     (if snd (verifyStart r s) = None then verifyEnd S L parse r (s\<lparr>sv_sem := sv_sem s + 1\<rparr>)
      else (fst (verifyStart r s), the (snd (verifyStart r s))))"
  by (auto simp: verifyHandler_def case_prod_unfold verifyStart_def split: option.splits)

lemma verifyEnd_select [simp]:
  "snd (verifyEnd S L parse r s) = snd (verifyAdmitted S L parse r s)"
  "sv_cfg (fst (verifyEnd S L parse r s)) = sv_cfg s" "sv_sem (fst (verifyEnd S L parse r s)) = sv_sem s - 1"
  "sv_metrics (fst (verifyEnd S L parse r s)) = sv_metrics (fst (verifyAdmitted S L parse r s))"
  by (simp_all add: verifyEnd_def)

lemma verifyStart_refused:
  assumes "verifyStart r s = (s1, Some resp)"
  shows "sv_cfg s1 = sv_cfg s" "sv_sem s1 = sv_sem s" "sr_Status resp \<in> {401, 405, 503}"
    "\<exists>status. sv_metrics s1 = recordRefusalReason status (sv_metrics s)"
    "sr_Status resp = 503 \<longleftrightarrow> sq_Method r = ''POST'' \<and> server_authorized (sv_cfg s) r \<and> sc_MaxConcurrentRequests (sv_cfg s) \<le> int (sv_sem s)"
  using assms by (auto simp: verifyStart_def server_writeError_def withMetrics_def errorResponse_def split: if_splits)

lemma verifyStart_admitted:
  "verifyStart r s = (s1, None) \<longleftrightarrow>
     sq_Method r = ''POST'' \<and> server_authorized (sv_cfg s) r \<and> int (sv_sem s) < sc_MaxConcurrentRequests (sv_cfg s) \<and>
     s1 = s\<lparr>sv_sem := sv_sem s + 1\<rparr>"
  by (auto simp: verifyStart_def server_writeError_def)

text \<open>
  The service answers a verification with a report exactly when there is one to give. The status is
  200 if and only if the method is POST, the token is right, a slot is free, the body is
  within the limit and decodes, an entry and a network are named, the entry or envelope yields
  entries, every entry verifies without an error, and no stored expiration contradicts the
  asserted one. The body is then the library's reports in the entries' order, an entry of an
  envelope with its one-based position. The call gives back the slot it took.
\<close>

lemma verify_answer_exact:
  "(sr_Status (snd (verifyHandler S L parse r s)) = 200 \<longleftrightarrow>
     sq_Method r = ''POST'' \<and> server_authorized (sv_cfg s) r \<and> int (sv_sem s) < sc_MaxConcurrentRequests (sv_cfg s) \<and>
     int (length (sq_Body r)) \<le> sc_MaxBodyBytes (sv_cfg s) \<and> sq_ReadError r = None \<and>
     (\<exists>req p input items reports. parse (sq_Body r) = Inr req \<and> vq_Entry req \<noteq> [] \<and> resolveNetwork L (vq_Network req) = Inr p \<and>
        decodeEntryOrEnvelope S L (vq_Entry req) = Inr input \<and> locateEntries input = Inr items \<and>
        list_all2 (itemReport S p (vq_ValidUntilLedger req)) items reports \<and>
        sr_Body (snd (verifyHandler S L parse r s)) =
          (let outputs = map2 (\<lambda>item report. itemOutput (snd item) report) items reports in
           if isl input then ReportBody (hd outputs) else ReportsBody outputs))) \<and>
   sv_sem (fst (verifyHandler S L parse r s)) = sv_sem s"
  (is "(?ok \<longleftrightarrow> ?R) \<and> _")
proof (intro conjI)
  show "?ok \<longleftrightarrow> ?R"
  proof (cases "snd (verifyStart r s)")
    case None
    let ?s1 = "s\<lparr>sv_sem := sv_sem s + 1\<rparr>"
    have snd_eq: "snd (verifyHandler S L parse r s) = snd (verifyAdmitted S L parse r ?s1)" using None by (simp add: verifyHandler_cases)
    have start: "sq_Method r = ''POST'' \<and> server_authorized (sv_cfg s) r \<and> int (sv_sem s) < sc_MaxConcurrentRequests (sv_cfg s)"
      using None by (simp add: verifyStart_None_iff)
    show ?thesis
    proof
      assume ?ok
      then show ?R
        using start unfolding snd_eq verifyAdmitted_200_iff prepareRequest_Inr_iff by (auto simp: Let_def split: if_splits)
    next
      assume r: ?R
      then obtain req p input items reports where q: "parse (sq_Body r) = Inr req" "vq_Entry req \<noteq> []" "resolveNetwork L (vq_Network req) = Inr p"
        "decodeEntryOrEnvelope S L (vq_Entry req) = Inr input" "locateEntries input = Inr items"
        "list_all2 (itemReport S p (vq_ValidUntilLedger req)) items reports" by blast
      then have o: "prepareRequest S L parse (sv_cfg ?s1) r = Inr (vq_ValidUntilLedger req, p, \<not> isl input, items)"
        using r unfolding prepareRequest_Inr_iff by auto
      then have "snd (verifyItems S p (vq_ValidUntilLedger req) items newServiceMetrics) =
          Inr (map2 (\<lambda>item report. itemOutput (snd item) report) items reports)"
        using q(6) unfolding verifyItems_Inr_iff by blast
      then show ?ok unfolding snd_eq verifyAdmitted_response using o by simp
    qed
  next
    case (Some resp)
    have v: "verifyStart r s = (fst (verifyStart r s), Some resp)" using Some by (metis prod.collapse)
    have "snd (verifyHandler S L parse r s) = resp" using Some by (simp add: verifyHandler_cases)
    then have "\<not> ?ok" using verifyStart_refused(3) [OF v] by auto
    moreover have "\<not> ?R" using Some verifyStart_None_iff [of r s] by auto
    ultimately show ?thesis by blast
  qed
  show "sv_sem (fst (verifyHandler S L parse r s)) = sv_sem s"
    using verifyStart_refused(2) [of r s "fst (verifyStart r s)" "the (snd (verifyStart r s))"]
    by (cases "snd (verifyStart r s)") (auto simp: verifyHandler_cases prod_eq_iff)
qed

section \<open>A concrete service\<close>

definition sampleServerLib :: serverLib where
  "sampleServerLib =
     \<lparr>sl_ParseDuration = (\<lambda>s. Inl (errmsg ''bad duration'')), sl_SplitHostPort = (\<lambda>s. Inr ([], s)), sl_LoopbackIP = (\<lambda>s. False),
      sl_TestNetworkPassphrase = ''test'', sl_FutureNetworkPassphrase = ''future'', sl_PublicNetworkPassphrase = ''public network'',
      sl_Envelope_SafeUnmarshalBase64 = (\<lambda>s. Inl (errmsg ''no envelope''))\<rparr>"

definition sampleParse :: "bytes \<Rightarrow> gerr + verifyRequest" where
  "sampleParse b = Inr \<lparr>vq_Entry = [CHR 0x01], vq_Network = sampleNetwork, vq_ValidUntilLedger = 0\<rparr>"

definition sampleRequest :: serverRequest where
  "sampleRequest = \<lparr>sq_Method = ''POST'', sq_Path = ''/verify'', sq_Header = [], sq_Body = [], sq_ReadError = None\<rparr>"

definition busyService :: service where
  "busyService = (newService defaultConfig)\<lparr>se_server := (newServer defaultConfig)\<lparr>sv_sem := 1\<rparr>, se_running := [7 \<mapsto> sampleRequest]\<rparr>"

definition idleService :: service where
  "idleService = answer 7 sampleRequest 3 (verifyEnd sampleSdk sampleServerLib sampleParse sampleRequest (se_server busyService)) busyService"

lemma busyService_reachable: "service_reachable sampleSdk sampleServerLib sampleParse ''dev'' defaultConfig busyService"
proof -
  have "serviceStep sampleSdk sampleServerLib sampleParse ''dev'' (newService defaultConfig)
     ((newService defaultConfig)\<lparr>se_server := (newServer defaultConfig)\<lparr>sv_sem := 1\<rparr>, se_running := (se_running (newService defaultConfig))(7 \<mapsto> sampleRequest)\<rparr>)"
    by (rule serviceStep.admitted)
      (simp_all add: newService_def newServer_def verifyStart_admitted sampleRequest_def server_authorized_def defaultConfig_def)
  then show ?thesis
    using service_reachable.stepped [OF service_reachable.started] by (simp add: busyService_def newService_def)
qed

lemma idleService_reachable: "service_reachable sampleSdk sampleServerLib sampleParse ''dev'' defaultConfig idleService"
  unfolding idleService_def
  by (rule service_reachable.stepped [OF busyService_reachable serviceStep.finished]) (simp add: busyService_def)

section \<open>Overlapping requests\<close>

text \<open>What a request is answered when the server does nothing else.\<close>

definition answerAlone ::
  "sdk \<Rightarrow> serverLib \<Rightarrow> (bytes \<Rightarrow> gerr + verifyRequest) \<Rightarrow> serverConfig \<Rightarrow> serverRequest \<Rightarrow> serverResponse" where
  "answerAlone S L parse cfg r = snd (verifyHandler S L parse r (newServer cfg))"

definition admissible :: "serverConfig \<Rightarrow> serverRequest \<Rightarrow> bool" where
  "admissible cfg r \<longleftrightarrow> sq_Path r = ''/verify'' \<and> sq_Method r = ''POST'' \<and> server_authorized cfg r"

definition service_inv ::
  "sdk \<Rightarrow> serverLib \<Rightarrow> (bytes \<Rightarrow> gerr + verifyRequest) \<Rightarrow> serverConfig \<Rightarrow> service \<Rightarrow> bool" where
  "service_inv S L parse cfg w \<longleftrightarrow>
     sv_cfg (se_server w) = cfg \<and> finite (dom (se_running w)) \<and> card (dom (se_running w)) = sv_sem (se_server w) \<and>
     int (sv_sem (se_server w)) \<le> sc_MaxConcurrentRequests cfg \<and> metrics_inv (sv_metrics (se_server w)) \<and>
     (\<forall>i r. se_running w i = Some r \<longrightarrow> admissible cfg r) \<and>
     (\<forall>(i, r, resp) \<in> set (se_answers w). sq_Path r = ''/verify'' \<longrightarrow>
        resp = answerAlone S L parse cfg r \<or> admissible cfg r \<and> sr_Status resp = 503)"

lemma answer_select [simp]:
  "sv_cfg (se_server (answer i r d res w)) = sv_cfg (fst res)" "sv_sem (se_server (answer i r d res w)) = sv_sem (fst res)"
  "sv_metrics (se_server (answer i r d res w)) =
     recordRequest (sq_Method r) (routeLabel (sq_Path r)) (sr_Status (snd res)) d (sv_metrics (fst res))"
  "se_running (answer i r d res w) = (se_running w)(i := None)"
  "se_answers (answer i r d res w) = (i, r, snd res) # se_answers w"
  by (simp_all add: answer_def withRequestLogging_def withMetrics_def case_prod_unfold)

lemma newMetrics_inv: "metrics_inv newServiceMetrics"
  by (simp add: metrics_inv_def labels_closed_def series_agree_def typeTotal_def newServiceMetrics_def labelCredentialTypes_def)

lemma answerAlone_refused:
  assumes "verifyStart r s = (s1, Some resp)" "sr_Status resp \<noteq> 503"
  shows "resp = answerAlone S L parse (sv_cfg s) r"
proof -
  have "snd (verifyStart r (newServer (sv_cfg s))) = Some resp"
    using assms by (auto simp: verifyStart_def newServer_def server_writeError_def errorResponse_def split: if_splits)
  then show ?thesis by (simp add: answerAlone_def verifyHandler_cases)
qed

lemma answerAlone_admitted:
  assumes "admissible (sv_cfg s) r" "0 < sc_MaxConcurrentRequests (sv_cfg s)"
  shows "snd (verifyEnd S L parse r s) = answerAlone S L parse (sv_cfg s) r"
proof -
  have "snd (verifyStart r (newServer (sv_cfg s))) = None" using assms by (simp add: verifyStart_None_iff admissible_def newServer_def)
  then show ?thesis by (simp add: answerAlone_def verifyHandler_cases verifyAdmitted_response newServer_def)
qed

lemma serviceStep_inv:
  assumes "serviceStep S L parse version w w'" "service_inv S L parse cfg w" "0 < sc_MaxConcurrentRequests cfg"
  shows "service_inv S L parse cfg w'"
  using assms(1)
proof cases
  case (refused i r s resp d)
  note v = verifyStart_refused [OF refused(4)]
  have cfg: "sv_cfg (se_server w) = cfg" using assms(2) by (simp add: service_inv_def)
  have "resp = answerAlone S L parse cfg r \<or> admissible cfg r \<and> sr_Status resp = 503"
    using answerAlone_refused [OF refused(4), of S L parse] v(5) refused(3) cfg by (auto simp: admissible_def)
  moreover have "metrics_inv (sv_metrics s)" using v(4) assms(2) by (auto simp: service_inv_def recordRefusalReason_inv)
  moreover have "(se_running w)(i := None) = se_running w" using refused(2) by (simp add: fun_upd_idem)
  ultimately show ?thesis using assms(2) v(1,2) refused(1,2) by (auto simp: service_inv_def recordRequest_inv)
next
  case (admitted i r s)
  then show ?thesis using assms(2) by (auto simp: service_inv_def verifyStart_admitted admissible_def card_insert_if domIff)
next
  case (finished i r d)
  let ?res = "verifyEnd S L parse r (se_server w)"
  have cfg: "sv_cfg (se_server w) = cfg" "admissible cfg r" using assms(2) finished(2) by (auto simp: service_inv_def)
  have "snd ?res = answerAlone S L parse cfg r" using answerAlone_admitted [of "se_server w"] cfg assms(3) by simp
  moreover have "i \<in> dom (se_running w)" using finished(2) by blast
  then have "card (dom (se_running w) - {i}) = sv_sem (se_server w) - 1" using assms(2) by (auto simp: service_inv_def)
  moreover have "metrics_inv (sv_metrics (fst ?res))" using assms(2) by (simp add: service_inv_def verifyAdmitted_inv)
  ultimately show ?thesis using assms(2) finished(1) by (auto simp: service_inv_def recordRequest_inv simp del: verifyEnd_select(1,4))
next
  case (other i r d)
  let ?res = "otherHandler version r (se_server w)"
  have "metrics_inv (sv_metrics (fst ?res))" "sv_cfg (fst ?res) = sv_cfg (se_server w)" "sv_sem (fst ?res) = sv_sem (se_server w)"
    using assms(2) by (auto simp: service_inv_def otherHandler_def healthzHandler_def recordRefusalReason_inv)
  moreover have "(se_running w)(i := None) = se_running w" using other(2) by (simp add: fun_upd_idem)
  ultimately show ?thesis using assms(2) other(1,3) by (auto simp: service_inv_def recordRequest_inv)
qed

lemma service_reachable_inv:
  assumes "service_reachable S L parse version cfg w" "0 < sc_MaxConcurrentRequests cfg"
  shows "service_inv S L parse cfg w"
  using assms
proof (induction rule: service_reachable.induct)
  case started
  then show ?case by (simp add: service_inv_def newService_def newServer_def newMetrics_inv)
next
  case (stepped w w')
  then show ?case using serviceStep_inv by blast
qed

text \<open>
  C18: overlapping requests are answered as if alone, within the bound. In every state the service can
  reach, however requests arrive and finish, the requests in flight are as many as the slots
  taken and no more than the configured bound, and every verification answered so far got the
  answer a fresh server gives the request alone, or, if it was an authorized POST, the 503 of a
  full server.
\<close>

theorem service_serializable:
  assumes "service_reachable S L parse version cfg w" "0 < sc_MaxConcurrentRequests cfg"
  shows "finite (dom (se_running w)) \<and> card (dom (se_running w)) = sv_sem (se_server w) \<and>
     int (card (dom (se_running w))) \<le> sc_MaxConcurrentRequests cfg \<and>
     (\<forall>(i, r, resp) \<in> set (se_answers w). sq_Path r = ''/verify'' \<longrightarrow>
        resp = snd (verifyHandler S L parse r (newServer cfg)) \<or>
        sq_Method r = ''POST'' \<and> server_authorized cfg r \<and> sr_Status resp = 503)"
  using service_reachable_inv [OF assms] by (auto simp: service_inv_def answerAlone_def admissible_def)

theorem service_serializable_witness:
  "card (dom (se_running busyService)) = 1 \<and> int (card (dom (se_running busyService))) \<le> 64 \<and>
   (snd (verifyEnd sampleSdk sampleServerLib sampleParse sampleRequest (se_server busyService)) =
      snd (verifyHandler sampleSdk sampleServerLib sampleParse sampleRequest (newServer defaultConfig)) \<or>
    sr_Status (snd (verifyEnd sampleSdk sampleServerLib sampleParse sampleRequest (se_server busyService))) = 503)"
proof -
  have bound: "0 < sc_MaxConcurrentRequests defaultConfig" by (simp add: defaultConfig_def)
  have "(7, sampleRequest, snd (verifyEnd sampleSdk sampleServerLib sampleParse sampleRequest (se_server busyService))) \<in> set (se_answers idleService)"
    unfolding idleService_def by simp
  moreover have "sq_Path sampleRequest = ''/verify''" by (simp add: sampleRequest_def)
  ultimately show ?thesis
    using service_serializable [OF busyService_reachable bound] service_serializable [OF idleService_reachable bound]
    by (fastforce simp: defaultConfig_def busyService_def)
qed

text \<open>
  The service's counters. In every reachable state each label in use is one of the declared
  values or their fallback, and for each of the verdicts invalid, cannot_check and unsigned the
  refusals counted under it are as many as the nodes counted with it, over all credential types.
\<close>

lemma service_counters_agree:
  assumes "service_reachable S L parse version cfg w" "0 < sc_MaxConcurrentRequests cfg"
  shows "labels_closed (sv_metrics (se_server w)) \<and>
     (\<forall>v \<in> {''invalid'', ''cannot_check'', ''unsigned''}.
        sm_refusals (sv_metrics (se_server w)) v = (\<Sum>t\<leftarrow>labelCredentialTypes. sm_verdicts (sv_metrics (se_server w)) (t, v)))"
  using service_reachable_inv [OF assms] unfolding service_inv_def metrics_inv_def series_agree_def typeTotal_def by blast

section \<open>Coming up\<close>

text \<open>
  C19: a service on the network is never open. Whatever the environment, a configuration that is
  accepted has positive bounds, and unless its address is a loopback address every verification that is not refused
  with 405 or 401 carried the configured token, which is not empty.
\<close>

theorem server_fails_closed:
  assumes "loadConfig L getenv = Inr cfg"
  shows "0 < sc_MaxBodyBytes cfg \<and> 0 < sc_MaxConcurrentRequests cfg \<and>
     (\<not> isLoopbackAddr L (sc_Addr cfg) \<longrightarrow>
        sc_AuthToken cfg \<noteq> [] \<and>
        (\<forall>w version i r resp. service_reachable S L parse version cfg w \<and> (i, r, resp) \<in> set (se_answers w) \<and>
           sq_Path r = ''/verify'' \<and> sr_Status resp \<notin> {401, 405} \<longrightarrow>
           map_of (sq_Header r) ''Authorization'' = Some (''Bearer '' @ sc_AuthToken cfg)))"
proof -
  have c: "0 < sc_MaxBodyBytes cfg" "0 < sc_MaxConcurrentRequests cfg"
    "isLoopbackAddr L (sc_Addr cfg) \<or> sc_AuthToken cfg \<noteq> []"
    using assms by (auto simp: loadConfig_def Let_def bindE_Inr_iff if_Inl_iff not_le)
  have "map_of (sq_Header r) ''Authorization'' = Some (''Bearer '' @ sc_AuthToken cfg)"
    if "service_reachable S L parse version cfg w" "(i, r, resp) \<in> set (se_answers w)" "sq_Path r = ''/verify''"
      "sr_Status resp \<notin> {401, 405}" "sc_AuthToken cfg \<noteq> []" for w version i r resp
  proof -
    have "resp = answerAlone S L parse cfg r \<or> admissible cfg r"
      using service_reachable_inv [OF that(1) c(2)] that(2,3) by (auto simp: service_inv_def)
    moreover have "server_authorized cfg r" if "resp = answerAlone S L parse cfg r"
    proof (rule ccontr)
      assume "\<not> server_authorized cfg r"
      then have "sr_Status (answerAlone S L parse cfg r) \<in> {401, 405}"
        by (simp add: answerAlone_def verifyHandler_cases verifyStart_def newServer_def errorResponse_def)
      then show False using that \<open>sr_Status resp \<notin> {401, 405}\<close> by simp
    qed
    ultimately have "server_authorized cfg r" by (auto simp: admissible_def)
    then show ?thesis using that(5) by (auto simp: server_authorized_def split: option.splits)
  qed
  then show ?thesis using c by blast
qed

definition sampleEnv :: "string \<Rightarrow> string" where
  "sampleEnv key = (if key = ''ADDR'' then '':8080'' else if key = ''AUTH_TOKEN'' then ''secret'' else [])"

lemma sampleEnv_loads:
  "loadConfig sampleServerLib sampleEnv = Inr (defaultConfig\<lparr>sc_Addr := '':8080'', sc_AuthToken := ''secret''\<rparr>)"
  by (simp add: loadConfig_def sampleEnv_def valueOr_def durationEnv_def int64Env_def intEnv_def defaultConfig_def maxRequestBodySize_def
      isLoopbackAddr_def sampleServerLib_def Let_def)

text \<open>A service on every interface that has answered one request with the token.\<close>

abbreviation openConfig :: serverConfig where
  "openConfig \<equiv> defaultConfig\<lparr>sc_Addr := '':8080'', sc_AuthToken := ''secret''\<rparr>"

definition tokenRequest :: serverRequest where
  "tokenRequest = sampleRequest\<lparr>sq_Header := [(''Authorization'', ''Bearer secret'')]\<rparr>"

definition openBusy :: service where
  "openBusy = (newService openConfig)\<lparr>se_server := (newServer openConfig)\<lparr>sv_sem := 1\<rparr>, se_running := [7 \<mapsto> tokenRequest]\<rparr>"

definition openAnswered :: service where
  "openAnswered = answer 7 tokenRequest 3 (verifyEnd sampleSdk sampleServerLib sampleParse tokenRequest (se_server openBusy)) openBusy"

lemma openAnswered_reachable: "service_reachable sampleSdk sampleServerLib sampleParse ''dev'' openConfig openAnswered"
proof -
  have "serviceStep sampleSdk sampleServerLib sampleParse ''dev'' (newService openConfig)
     ((newService openConfig)\<lparr>se_server := (newServer openConfig)\<lparr>sv_sem := 1\<rparr>, se_running := (se_running (newService openConfig))(7 \<mapsto> tokenRequest)\<rparr>)"
    by (rule serviceStep.admitted)
      (simp_all add: newService_def newServer_def verifyStart_admitted tokenRequest_def sampleRequest_def server_authorized_def defaultConfig_def)
  then have "service_reachable sampleSdk sampleServerLib sampleParse ''dev'' openConfig openBusy"
    using service_reachable.stepped [OF service_reachable.started] by (simp add: openBusy_def newService_def)
  moreover have "serviceStep sampleSdk sampleServerLib sampleParse ''dev'' openBusy openAnswered"
    unfolding openAnswered_def by (rule serviceStep.finished) (simp add: openBusy_def)
  ultimately show ?thesis by (rule service_reachable.stepped)
qed

lemma verifyAdmitted_status: "sr_Status (snd (verifyAdmitted S L parse r s)) \<in> {200, 400, 413}"
  using prepareRequest_Inl_status [of S L parse "sv_cfg s" r]
  by (auto simp: verifyAdmitted_response errorResponse_def split: sum.splits)

theorem server_fails_closed_witness:
  "\<not> isLoopbackAddr sampleServerLib '':8080'' \<and>
   (7, tokenRequest, snd (verifyEnd sampleSdk sampleServerLib sampleParse tokenRequest (se_server openBusy))) \<in> set (se_answers openAnswered) \<and>
   map_of (sq_Header tokenRequest) ''Authorization'' = Some ''Bearer secret''"
proof -
  have addr: "\<not> isLoopbackAddr sampleServerLib '':8080''"
    by (simp add: isLoopbackAddr_def sampleServerLib_def trimBrackets_def Let_def)
  have ans: "(7, tokenRequest, snd (verifyEnd sampleSdk sampleServerLib sampleParse tokenRequest (se_server openBusy))) \<in> set (se_answers openAnswered)"
    unfolding openAnswered_def by simp
  have "sr_Status (snd (verifyEnd sampleSdk sampleServerLib sampleParse tokenRequest (se_server openBusy))) \<notin> {401, 405}"
    using verifyAdmitted_status [of sampleSdk sampleServerLib sampleParse tokenRequest "se_server openBusy"] by auto
  moreover have "sq_Path tokenRequest = ''/verify''" by (simp add: tokenRequest_def sampleRequest_def)
  ultimately have "map_of (sq_Header tokenRequest) ''Authorization'' = Some (''Bearer '' @ sc_AuthToken openConfig)"
    using server_fails_closed [OF sampleEnv_loads, of sampleSdk sampleParse] addr ans openAnswered_reachable by fastforce
  then show ?thesis using addr ans by simp
qed

end
