(* ===== verification/Grpc.thy ===== *)
theory Grpc
  imports Server_Properties "HOL-Library.AList"
begin

text \<open>
  The gRPC service (\<^verbatim>\<open>src/integrations/grpc/server.go\<close>): signing for the addresses it holds keys
  of, and verification in the shape of the HTTP service. The laws relate it to the library's
  signing and to the HTTP handler. The generated message types are records with their fields,
  a nil message is \<open>None\<close>, and the SDK's base64 encoder of entries is a parameter.
\<close>

section \<open>Messages\<close>

datatype grpcCode = CodeCanceled | CodeInvalidArgument | CodeFailedPrecondition | CodeInternal

type_synonym grpcStatus = "grpcCode \<times> string"

record SignRequest =
  gs_Entry :: string
  gs_Network :: string
  gs_Address :: string
  gs_ValidUntilLedger :: uint32

record SignResponse =
  gs_SignedEntry :: string

record VerifyRequest =
  gv_Entry :: string
  gv_Network :: string
  gv_ValidUntilLedger :: uint32

datatype Verdict = Verdict_VERDICT_UNSPECIFIED | Verdict_VERIFIED | Verdict_UNSIGNED | Verdict_INVALID | Verdict_CANNOT_CHECK

record NodeVerdictMessage =
  gn_Address :: string
  gn_Verdict :: Verdict
  gn_Reason :: string

record VerifyResponse =
  gr_CredentialType :: string
  gr_AddressBound :: bool
  gr_Address :: string
  gr_ValidUntilLedger :: uint32
  gr_Verified :: bool
  gr_Nodes :: "NodeVerdictMessage list"
  gr_Note :: string

section \<open>The service\<close>

text \<open>The map of signers, as an association list with one entry per address.\<close>

type_synonym grpcServer = "(string \<times> signer) list"

definition grpc_NewServer :: "signer option list \<Rightarrow> grpcServer" where
  "grpc_NewServer signers =
     fold (\<lambda>so m. case so of None \<Rightarrow> m | Some s \<Rightarrow> AList.update (sg_Address s) s m) signers []"

definition grpcStatusf :: "grpcCode \<Rightarrow> string \<Rightarrow> gerr + 'a \<Rightarrow> grpcStatus + 'a" where
  "grpcStatusf code prefix m = (case m of Inl err \<Rightarrow> Inl (code, prefix @ error_text err) | Inr x \<Rightarrow> Inr x)"

definition grpc_decodeEntry :: "sdk \<Rightarrow> string \<Rightarrow> gerr + SorobanAuthorizationEntry" where
  "grpc_decodeEntry S encoded = Entry_SafeUnmarshalBase64 S encoded"

text \<open>The package's own \<open>resolveNetwork\<close>.\<close>

definition grpc_resolveNetwork :: "serverLib \<Rightarrow> string \<Rightarrow> gerr + string" where
  "grpc_resolveNetwork L value =
     (if value = [] then Inl (errmsg ''network is required (testnet, futurenet, public, or a literal passphrase)'')
      else if value = ''testnet'' then Inr (sl_TestNetworkPassphrase L)
      else if value = ''futurenet'' then Inr (sl_FutureNetworkPassphrase L)
      else if value = ''public'' then Inr (sl_PublicNetworkPassphrase L)
      else Inr value)"

definition grpcTarget :: "grpcServer \<Rightarrow> string \<Rightarrow> grpcStatus + string" where
  "grpcTarget signers address =
     (if address \<noteq> [] then Inr address
      else case signers of
        [(held, _)] \<Rightarrow> Inr held
      | _ \<Rightarrow> Inl (CodeInvalidArgument, ''address is required: the server holds more than one key''))"

definition grpc_Sign ::
  "sdk \<Rightarrow> serverLib \<Rightarrow> (SorobanAuthorizationEntry \<Rightarrow> gerr + string) \<Rightarrow> grpcServer \<Rightarrow> ctx \<Rightarrow> SignRequest option \<Rightarrow> grpcStatus + SignResponse" where
  "grpc_Sign S L marshal signers ctx reqo =
     (case ctx of Some err \<Rightarrow> Inl (CodeCanceled, error_text err)
      | None \<Rightarrow>
        (case reqo of None \<Rightarrow> Inl (CodeInvalidArgument, ''request is required'')
         | Some req \<Rightarrow>
           if length signers = 0 then Inl (CodeFailedPrecondition, ''server has no signer'')
           else
             bindE (grpcStatusf CodeInvalidArgument ''network: '' (grpc_resolveNetwork L (gs_Network req))) (\<lambda>passphrase.
             bindE (grpcStatusf CodeInvalidArgument ''decoding entry: '' (grpc_decodeEntry S (gs_Entry req))) (\<lambda>entry.
             bindE (grpcTarget signers (gs_Address req)) (\<lambda>target.
             case map_of signers target of
               None \<Rightarrow> Inl (CodeInvalidArgument, ''this server holds no key for '' @ strconv_Quote target)
             | Some signer \<Rightarrow>
                 bindE (grpcStatusf CodeInvalidArgument ''signing entry: ''
                   (authorized S ctx entry (Some signer) (gs_ValidUntilLedger req) passphrase [ForAddress target])) (\<lambda>signedEntry.
                 bindE (grpcStatusf CodeInternal ''encoding the signed entry: '' (marshal signedEntry)) (\<lambda>encoded.
                   Inr \<lparr>gs_SignedEntry = encoded\<rparr>)))))))"

fun verdictToProto :: "VerifyVerdict \<Rightarrow> Verdict" where
  "verdictToProto VerdictVerified = Verdict_VERIFIED"
| "verdictToProto VerdictUnsigned = Verdict_UNSIGNED"
| "verdictToProto VerdictInvalid = Verdict_INVALID"
| "verdictToProto VerdictCannotCheck = Verdict_CANNOT_CHECK"

definition reportToProto :: "VerificationReport \<Rightarrow> VerifyResponse" where
  "reportToProto report =
     \<lparr>gr_CredentialType = vr_CredentialType report, gr_AddressBound = vr_AddressBound report, gr_Address = vr_Address report,
      gr_ValidUntilLedger = vr_ValidUntilLedger report, gr_Verified = Verified report,
      gr_Nodes = map (\<lambda>node. \<lparr>gn_Address = nv_Address node, gn_Verdict = verdictToProto (nv_Verdict node), gn_Reason = nv_Reason node\<rparr>)
        (vr_Nodes report),
      gr_Note = vr_Note report\<rparr>"

definition grpc_Verify :: "sdk \<Rightarrow> serverLib \<Rightarrow> ctx \<Rightarrow> VerifyRequest option \<Rightarrow> grpcStatus + VerifyResponse" where
  "grpc_Verify S L ctx reqo =
     (case ctx of Some err \<Rightarrow> Inl (CodeCanceled, error_text err)
      | None \<Rightarrow>
        (case reqo of None \<Rightarrow> Inl (CodeInvalidArgument, ''request is required'')
         | Some req \<Rightarrow>
           bindE (grpcStatusf CodeInvalidArgument ''network: '' (grpc_resolveNetwork L (gv_Network req))) (\<lambda>passphrase.
           bindE (grpcStatusf CodeInvalidArgument ''decoding entry: '' (grpc_decodeEntry S (gv_Entry req))) (\<lambda>entry.
           bindE (grpcStatusf CodeInvalidArgument ''verification failed: '' (VerifyEntryContext S ctx entry passphrase)) (\<lambda>report.
           if gv_ValidUntilLedger req \<noteq> 0 \<and> vr_ValidUntilLedger report \<noteq> gv_ValidUntilLedger req
           then Inl (CodeInvalidArgument, ''entry carries expiration '' @ itoa (unat (vr_ValidUntilLedger report)) @
                  '', but valid_until_ledger says '' @ itoa (unat (gv_ValidUntilLedger req)))
           else Inr (reportToProto report))))))"

section \<open>The keys held\<close>

lemma grpcStatusf_Inr_iff [simp]: "grpcStatusf code prefix m = Inr x \<longleftrightarrow> m = Inr x"
  by (cases m) (simp_all add: grpcStatusf_def)

text \<open>Every signer of the map is one of those given, held under its own address, and no address occurs twice.\<close>

definition keysOf :: "signer option set \<Rightarrow> grpcServer \<Rightarrow> bool" where
  "keysOf given m \<longleftrightarrow> distinct (map fst m) \<and> (\<forall>(a, s) \<in> set m. sg_Address s = a \<and> Some s \<in> given)"

lemma set_update_subset: "set (AList.update k v m) \<subseteq> insert (k, v) (set m)"
  by (induction m) auto

lemma keysOf_update: "keysOf given m \<Longrightarrow> Some s \<in> given \<Longrightarrow> keysOf given (AList.update (sg_Address s) s m)"
  using set_update_subset [of "sg_Address s" s m] by (auto simp: keysOf_def distinct_update)

lemma keysOf_fold:
  "keysOf given m \<Longrightarrow> set signers \<subseteq> given \<Longrightarrow>
     keysOf given (fold (\<lambda>so m. case so of None \<Rightarrow> m | Some s \<Rightarrow> AList.update (sg_Address s) s m) signers m)"
proof (induction signers arbitrary: m)
  case Nil
  then show ?case by simp
next
  case (Cons so signers)
  then show ?case by (cases so) (simp_all add: keysOf_update)
qed

lemma grpc_NewServer_keys:
  "distinct (map fst (grpc_NewServer signers))"
  "map_of (grpc_NewServer signers) a = Some s \<Longrightarrow> sg_Address s = a \<and> Some s \<in> set signers"
  using keysOf_fold [of "set signers" "[]" signers] unfolding grpc_NewServer_def
  by (auto simp: keysOf_def dest!: map_of_SomeD)

section \<open>What the service answers\<close>

text \<open>
  What a signing call returns is the encoding of the entry the library signs with the one key held for the
  target address, for the network and the expiration the request names.
\<close>

lemma grpc_sign_uses_held_key:
  assumes "grpc_Sign S L marshal (grpc_NewServer signers) ctx (Some req) = Inr resp"
  shows "\<exists>p entry signer signedEntry. ctx = None \<and> grpc_resolveNetwork L (gs_Network req) = Inr p \<and>
    Entry_SafeUnmarshalBase64 S (gs_Entry req) = Inr entry \<and> Some signer \<in> set signers \<and>
    (gs_Address req = [] \<or> sg_Address signer = gs_Address req) \<and>
    authorized S None entry (Some signer) (gs_ValidUntilLedger req) p [ForAddress (sg_Address signer)] = Inr signedEntry \<and>
    marshal signedEntry = Inr (gs_SignedEntry resp)"
proof -
  obtain p entry target signer signedEntry where g: "ctx = None" "grpc_resolveNetwork L (gs_Network req) = Inr p"
    "Entry_SafeUnmarshalBase64 S (gs_Entry req) = Inr entry" "grpcTarget (grpc_NewServer signers) (gs_Address req) = Inr target"
    "map_of (grpc_NewServer signers) target = Some signer"
    "authorized S None entry (Some signer) (gs_ValidUntilLedger req) p [ForAddress target] = Inr signedEntry"
    "marshal signedEntry = Inr (gs_SignedEntry resp)"
    using assms by (auto simp: grpc_Sign_def grpc_decodeEntry_def bindE_Inr_iff split: option.splits if_splits)
  from g(4) have "gs_Address req = [] \<or> target = gs_Address req" by (auto simp: grpcTarget_def split: if_splits)
  then show ?thesis
    using g grpc_NewServer_keys(2) [OF g(5)] by (intro exI [of _ p] exI [of _ entry] exI [of _ signer] exI [of _ signedEntry]) auto
qed

lemma resolveNetwork_same: "grpc_resolveNetwork L value = resolveNetwork L value"
  by (simp add: grpc_resolveNetwork_def resolveNetwork_def)

lemma decode_plain_entry:
  assumes "\<And>envelope entries. sl_Envelope_SafeUnmarshalBase64 L value = Inr envelope \<Longrightarrow> EnvelopeEntries envelope = Inr entries \<Longrightarrow> entries = []"
  shows "decodeEntryOrEnvelope S L value = Inr input \<longleftrightarrow> (\<exists>entry. Entry_SafeUnmarshalBase64 S value = Inr entry \<and> input = Inl entry)"
  using assms by (fastforce simp: decodeEntryOrEnvelope_def Let_def isOk_iff split: sum.splits)

lemma grpc_Verify_Inr_iff:
  "grpc_Verify S L None (Some req) = Inr resp \<longleftrightarrow>
     (\<exists>p entry report. resolveNetwork L (gv_Network req) = Inr p \<and> Entry_SafeUnmarshalBase64 S (gv_Entry req) = Inr entry \<and>
        itemReport S p (gv_ValidUntilLedger req) (entry, None) report \<and> resp = reportToProto report)"
  by (auto simp: grpc_Verify_def grpc_decodeEntry_def resolveNetwork_same bindE_Inr_iff if_Inl_iff itemReport_def VerifyEntry_def)

lemma verifyAdmitted_single:
  assumes "prepareRequest S L parse (sv_cfg s) r = Inr (v, p, False, [(entry, None)])"
  shows "snd (verifyAdmitted S L parse r s) = \<lparr>sr_Status = 200, sr_Header = jsonHeader, sr_Body = ReportBody out\<rparr> \<longleftrightarrow>
    (\<exists>report. itemReport S p v (entry, None) report \<and> out = newEntryOutput report)"
  using assms
  by (auto simp: verifyAdmitted_response itemReport_def errorResponse_def Let_def split: sum.splits if_splits)



end
