(* ===== verification/Cli.thy ===== *)
theory Cli
  imports Authorize Lifecycle Http
begin

text \<open>
  What the subcommands of the command line (\<^verbatim>\<open>src/cmd/soroauth\<close>) share: errors with exit codes
  (\<^verbatim>\<open>main.go\<close>) and their machine-readable form (\<^verbatim>\<open>json_error.go\<close>), the guard against secrets
  and the configuration file with its precedence (\<^verbatim>\<open>config.go\<close>), and the resolution of the
  network and of the expiration (\<^verbatim>\<open>main.go\<close>, \<^verbatim>\<open>expiration.go\<close>).
\<close>

section \<open>Exit codes\<close>

definition ExitOK :: nat where "ExitOK = 0"
definition ExitGeneralError :: nat where "ExitGeneralError = 1"
definition ExitUsageError :: nat where "ExitUsageError = 2"
definition ExitSigningRefusal :: nat where "ExitSigningRefusal = 3"
definition ExitVerificationFailed :: nat where "ExitVerificationFailed = 4"

text \<open>A \<open>cliError\<close>, with the field an \<open>inputFieldError\<close> around it names.\<close>

record cliError =
  ce_exitCode :: nat
  ce_field :: "string option"
  ce_err :: gerr

definition newErrorf :: "nat \<Rightarrow> gerr \<Rightarrow> cliError" where
  "newErrorf exitCode err = \<lparr>ce_exitCode = exitCode, ce_field = None, ce_err = err\<rparr>"

definition usageError :: "string \<Rightarrow> cliError" where
  "usageError text = newErrorf ExitUsageError (errmsg text)"

definition ExitCode :: "cliError option \<Rightarrow> nat" where
  "ExitCode err = (case err of None \<Rightarrow> ExitOK | Some e \<Rightarrow> ce_exitCode e)"

definition withField :: "string \<Rightarrow> cliError \<Rightarrow> cliError" where
  "withField field e = e\<lparr>ce_field := Some field\<rparr>"

definition wrapCli :: "nat \<Rightarrow> gerr + 'a \<Rightarrow> cliError + 'a" where
  "wrapCli code m = (case m of Inl err \<Rightarrow> Inl (newErrorf code err) | Inr x \<Rightarrow> Inr x)"

text \<open>\<open>exitCodeForSigningError\<close>.\<close>

definition exitCodeForSigningError :: "gerr \<Rightarrow> nat" where
  "exitCodeForSigningError err =
     (if list_ex (errors_Is err) [ErrNoMatchingCredentialNode, ErrAlreadySigned, ErrSourceAccountCredentials, ErrUnsupportedCredentials,
            ErrDuplicateDelegate, ErrMissingSigner, ErrNoInvokeOperation, ErrUnsupportedEnvelope, ErrExecSignerRefused]
      then ExitSigningRefusal
      else if list_ex (errors_Is err) [ErrSignatureMismatch, ErrInvalidExpiration, ErrTooManySignatures] then ExitVerificationFailed
      else ExitGeneralError)"

section \<open>Machine-readable errors\<close>

record jsonErrorFields =
  jf_SchemaVersion :: nat
  jf_Code :: string
  jf_Message :: string
  jf_Field :: string
  jf_ExitCode :: nat

definition sentinelJSONErrors :: "(sentinel \<times> string \<times> string \<times> string) list" where
  "sentinelJSONErrors =
     [(ErrSourceAccountCredentials, ''source_account_credentials'', ''--entry'', ''credentials are source-account, which carry no signature payload''),
      (ErrUnsupportedCredentials, ''unsupported_credentials'', ''--entry'', ''unsupported credentials type''),
      (ErrUnsupportedFunctionType, ''unsupported_function_type'', ''--entry'', ''unsupported authorized-function type in the invocation tree''),
      (ErrNoMatchingCredentialNode, ''no_matching_credential_node'', ''--entry'', ''no credential node matches the target address''),
      (ErrDuplicateDelegate, ''duplicate_delegate'', ''--delegate'', ''duplicate delegate address at the same level''),
      (ErrSignatureMismatch, ''signature_mismatch'', ''--entry'', ''signature does not verify against the payload''),
      (ErrMissingSigner, ''missing_signer'', ''--secret-env'', ''no signer for address''),
      (ErrAlreadySigned, ''already_signed'', ''--entry'', ''credential node is already signed''),
      (ErrInvalidExpiration, ''invalid_expiration'', ''--valid-until'', ''invalid signature expiration ledger''),
      (ErrTooManySignatures, ''too_many_signatures'', ''--secret-env'', ''too many signatures for a classic account''),
      (ErrDecodeLimit, ''decode_limit'', ''--entry'', ''untrusted input exceeds a decode limit''),
      (ErrNoInvokeOperation, ''no_invoke_operation'', ''--entry'', ''envelope carries no invokeHostFunction operation''),
      (ErrUnsupportedEnvelope, ''unsupported_envelope'', ''--entry'', ''unsupported transaction envelope type''),
      (ErrUnsignedCredentialNode, ''unsigned_credential_node'', ''--entry'', ''credential node was left unsigned''),
      (ErrDelegatePlanUnmatched, ''delegate_plan_unmatched'', ''--entries'', ''delegate plan address matches no entry in the batch''),
      (ErrNonceAlreadyReserved, ''nonce_already_reserved'', '''', ''nonce already reserved for this address''),
      (ErrWebAuthnMalformedJSON, ''webauthn_malformed_json'', ''--assertion'', ''webauthn assertion is not valid JSON''),
      (ErrWebAuthnMissingField, ''webauthn_missing_field'', ''--assertion'', ''webauthn assertion is missing a field''),
      (ErrWebAuthnMalformedField, ''webauthn_malformed_field'', ''--assertion'', ''webauthn assertion field is not valid base64url''),
      (ErrWebAuthnTruncatedAuthenticatorData, ''webauthn_truncated_authenticator_data'', ''--assertion'', ''webauthn authenticatorData is shorter than its 37-byte fixed prefix''),
      (ErrWebAuthnChallengeMismatch, ''webauthn_challenge_mismatch'', ''--assertion'', ''webauthn challenge does not match the expected payload''),
      (ErrSignerAddressMismatch, ''signer_address_mismatch'', ''--secret-env'', ''signer public key does not match the configured address''),
      (ErrVaultUnauthorized, ''vault_unauthorized'', '''', ''vault rejected the token''),
      (ErrVaultKeyNotFound, ''vault_key_not_found'', '''', ''vault transit key not found''),
      (ErrVaultKeyType, ''vault_key_type'', '''', ''vault transit key is not an ed25519 key''),
      (ErrLedgerUnavailable, ''ledger_unavailable'', ''--secret-env'', ''ledger device is unavailable''),
      (ErrLedgerLocked, ''ledger_locked'', ''--secret-env'', ''ledger device is locked''),
      (ErrLedgerWrongApp, ''ledger_wrong_app'', ''--secret-env'', ''ledger device is not running the Stellar app''),
      (ErrLedgerBlindSigningDisabled, ''ledger_blind_signing_disabled'', ''--secret-env'', ''blind signing is disabled in the Ledger Stellar app settings''),
      (ErrLedgerDenied, ''ledger_denied'', ''--secret-env'', ''the request was rejected on the ledger device''),
      (ErrAttestationMalformed, ''attestation_malformed'', ''--attestation'', ''webauthn attestation is malformed''),
      (ErrAttestationInvalid, ''attestation_invalid'', ''--attestation'', ''webauthn attestation failed verification''),
      (ErrAttestationUnsupportedFormat, ''attestation_unsupported_format'', ''--attestation'', ''webauthn attestation format or algorithm is not supported''),
      (ErrPolicyRefusal, ''policy_refusal'', ''--secret-env'', ''signing refused by policy''),
      (ErrSignerTransient, ''signer_transient'', ''--secret-env'', ''transient signer failure''),
      (ErrChainExhausted, ''chain_exhausted'', ''--secret-env'', ''every signer in the chain failed''),
      (ErrQuorumNotMet, ''quorum_not_met'', ''--secret-env'', ''signer quorum was not met''),
      (ErrQuorumDisagreement, ''quorum_disagreement'', ''--secret-env'', ''signers disagree on the signature'')]"

text \<open>\<open>strings.Index\<close>: the first position of a text.\<close>

fun strings_Index :: "string \<Rightarrow> string \<Rightarrow> nat option" where
  "strings_Index [] pat = (if pat = [] then Some 0 else None)"
| "strings_Index (c # cs) pat = (if take (length pat) (c # cs) = pat then Some 0 else map_option Suc (strings_Index cs pat))"

definition flagChar :: "char \<Rightarrow> bool" where
  "flagChar c \<longleftrightarrow> (let n = of_char c :: nat in 97 \<le> n \<and> n \<le> 122 \<or> 65 \<le> n \<and> n \<le> 90 \<or> 48 \<le> n \<and> n \<le> 57 \<or> n = 45)"

text \<open>The first flag of the table \<open>flags\<close> (the names of \<open>commandSpecs\<close> in order) whose first occurrence in the message is a whole word.\<close>

definition namesFlag :: "string \<Rightarrow> string \<Rightarrow> bool" where
  "namesFlag message flag =
     (let name = ''--'' @ flag in
      case strings_Index message name of None \<Rightarrow> False
      | Some at \<Rightarrow> at + length name = length message \<or> \<not> flagChar (message ! (at + length name)))"

definition fieldForError :: "string list \<Rightarrow> cliError option \<Rightarrow> string" where
  "fieldForError flags err =
     (case err of None \<Rightarrow> []
      | Some e \<Rightarrow>
          (case ce_field e of Some field \<Rightarrow> field
           | None \<Rightarrow> (case find (namesFlag (error_text (ce_err e))) flags of None \<Rightarrow> [] | Some flag \<Rightarrow> ''--'' @ flag)))"

definition machineError :: "string list \<Rightarrow> cliError \<Rightarrow> jsonErrorFields" where
  "machineError flags err =
     (let exitCode = ExitCode (Some err); field = fieldForError flags (Some err);
          (code, message) =
            (if exitCode = ExitUsageError then (''usage_error'', ''invalid command usage'')
             else if exitCode = ExitSigningRefusal then (''signing_refused'', ''signing was refused'')
             else if exitCode = ExitVerificationFailed then (''verification_failed'', ''verification failed'')
             else (''command_failed'', ''command failed'')) in
      case find (\<lambda>item. errors_Is (ce_err err) (fst item)) sentinelJSONErrors of
        None \<Rightarrow> \<lparr>jf_SchemaVersion = 1, jf_Code = code, jf_Message = message, jf_Field = field, jf_ExitCode = exitCode\<rparr>
      | Some (_, icode, ifield, imessage) \<Rightarrow>
          \<lparr>jf_SchemaVersion = 1, jf_Code = icode, jf_Message = imessage, jf_Field = (if field = [] then ifield else field), jf_ExitCode = exitCode\<rparr>)"

section \<open>Secrets\<close>

text \<open>
  The patterns of \<^verbatim>\<open>config.go\<close>. \<open>parses\<close> says whether \<open>keypair.Parse\<close> accepts a text.
\<close>

definition base32Char :: "char \<Rightarrow> bool" where
  "base32Char c \<longleftrightarrow> (let n = of_char c :: nat in 65 \<le> n \<and> n \<le> 90 \<or> 50 \<le> n \<and> n \<le> 55)"

definition base32SeedLike :: "string \<Rightarrow> bool" where
  "base32SeedLike s \<longleftrightarrow> length s \<ge> 10 \<and> hd s = CHR ''S'' \<and> list_all base32Char (tl s)"

definition strkey56Pattern :: "string \<Rightarrow> bool" where
  "strkey56Pattern s \<longleftrightarrow> length s = 56 \<and> hd s \<in> {CHR ''S'', CHR ''G'', CHR ''C''} \<and> list_all base32Char (tl s)"

definition envVarNamePattern :: "string \<Rightarrow> bool" where
  "envVarNamePattern s \<longleftrightarrow>
     (let letter = (\<lambda>c. let n = of_char c :: nat in 65 \<le> n \<and> n \<le> 90 \<or> 97 \<le> n \<and> n \<le> 122 \<or> n = 95);
          digit = (\<lambda>c. let n = of_char c :: nat in 48 \<le> n \<and> n \<le> 57) in
      case s of [] \<Rightarrow> False | c # cs \<Rightarrow> letter c \<and> list_all (\<lambda>x. letter x \<or> digit x) cs)"

definition looksLikeSecret :: "sdk \<Rightarrow> (string \<Rightarrow> bool) \<Rightarrow> string \<Rightarrow> bool" where
  "looksLikeSecret S parses value =
     (let trimmed = TrimSpace value in
      if trimmed = [] then False
      else contains_str trimmed ''-----BEGIN'' \<or> parses trimmed \<or> isOk (strkey_DecodeAny S trimmed) \<or>
        strkey56Pattern trimmed \<or> base32SeedLike trimmed \<or> (length trimmed = 64 \<and> hex_DecodeString trimmed \<noteq> None))"

text \<open>\<open>strings.FieldsFunc\<close>: the maximal runs of characters that do not separate.\<close>

fun FieldsFunc :: "(char \<Rightarrow> bool) \<Rightarrow> string \<Rightarrow> string \<Rightarrow> string list" where
  "FieldsFunc sep acc [] = (if acc = [] then [] else [acc])"
| "FieldsFunc sep acc (c # cs) =
     (if sep c then (if acc = [] then [] else [acc]) @ FieldsFunc sep [] cs else FieldsFunc sep (acc @ [c]) cs)"

definition tokenSeparator :: "char \<Rightarrow> bool" where
  "tokenSeparator c \<longleftrightarrow> c \<in> {CHR 0x20, CHR 0x09, CHR 0x0A, CHR 0x0D, CHR ''='', CHR '':'', CHR '';'', CHR '',''}"

definition containsSecretToken :: "sdk \<Rightarrow> (string \<Rightarrow> bool) \<Rightarrow> string \<Rightarrow> bool" where
  "containsSecretToken S parses s =
     (looksLikeSecret S parses s \<or> list_ex (looksLikeSecret S parses) (FieldsFunc tokenSeparator [] s))"

section \<open>The configuration file\<close>

record fileConfig =
  fc_Network :: string
  fc_RPCURL :: string
  fc_SecretEnv :: string
  fc_Format :: string

record loadedConfig =
  lc_Path :: string
  lc_Loaded :: bool
  lc_File :: fileConfig

definition emptyFile :: fileConfig where
  "emptyFile = \<lparr>fc_Network = [], fc_RPCURL = [], fc_SecretEnv = [], fc_Format = []\<rparr>"

definition noConfig :: loadedConfig where
  "noConfig = \<lparr>lc_Path = [], lc_Loaded = False, lc_File = emptyFile\<rparr>"

datatype fileRead = FileMissing | FileError gerr | FileBytes bytes

text \<open>
  The file system, \<open>filepath.Join\<close> and the readings of \<open>encoding/json\<close> are parameters: the members
  of the root object with the text of those that are strings, the strict decoder, and whether the
  root value ends the input.
\<close>

record configLib =
  cl_ReadFile :: "string \<Rightarrow> fileRead"
  cl_Join :: "string list \<Rightarrow> string"
  cl_Members :: "bytes \<Rightarrow> (string \<times> string option) list option"
  cl_Decode :: "bytes \<Rightarrow> gerr + fileConfig"
  cl_EndsInput :: "bytes \<Rightarrow> bool"
  cl_KeypairParses :: "string \<Rightarrow> bool"
  cl_ToLower :: "string \<Rightarrow> string"

definition maxConfigBytes :: nat where
  "maxConfigBytes = 64 * 1024"

definition forbiddenSecretKeys :: "string list" where
  "forbiddenSecretKeys = [''secret'', ''seed'', ''private_key'', ''secret_key'', ''signing_key'', ''key'']"

definition resolveConfigPath :: "configLib \<Rightarrow> string \<Rightarrow> (string \<Rightarrow> string) \<Rightarrow> string" where
  "resolveConfigPath L flagPath getenv =
     (if flagPath \<noteq> [] then flagPath
      else if getenv ''SOROAUTH_CONFIG'' \<noteq> [] then getenv ''SOROAUTH_CONFIG''
      else if getenv ''XDG_CONFIG_HOME'' \<noteq> [] then cl_Join L [getenv ''XDG_CONFIG_HOME'', ''soroauth'', ''config.json'']
      else if getenv ''HOME'' \<noteq> [] then cl_Join L [getenv ''HOME'', ''.config'', ''soroauth'', ''config.json'']
      else [])"

fun checkMembers :: "sdk \<Rightarrow> configLib \<Rightarrow> string \<Rightarrow> (string \<times> string option) list \<Rightarrow> cliError + unit" where
  "checkMembers S L path [] = Inr ()"
| "checkMembers S L path ((k, v) # members) =
     (if cl_ToLower L k \<in> set forbiddenSecretKeys
      then Inl (usageError (''config file '' @ path @ '': key '' @ strconv_Quote k @ '' is refused; no secret value may be stored in the config file (use '' @
             strconv_Quote ''secret_env'' @ '' to name an environment variable)''))
      else if (case v of None \<Rightarrow> False | Some text \<Rightarrow> looksLikeSecret S (cl_KeypairParses L) text)
      then Inl (usageError (''config file '' @ path @ '': field '' @ strconv_Quote k @
             '' contains a secret-shaped value; no secret value may be stored in the config file (only the name of an environment variable in '' @
             strconv_Quote ''secret_env'' @ '')''))
      else checkMembers S L path members)"

definition checkFileConfig :: "sdk \<Rightarrow> configLib \<Rightarrow> string \<Rightarrow> fileConfig \<Rightarrow> cliError + unit" where
  "checkFileConfig S L path cfg =
     (if fc_SecretEnv cfg \<noteq> [] \<and> looksLikeSecret S (cl_KeypairParses L) (fc_SecretEnv cfg)
      then Inl (usageError (''config file '' @ path @
             '': secret_env contains a secret-shaped value; store the secret in an environment variable and put only its variable name in secret_env''))
      else if fc_SecretEnv cfg \<noteq> [] \<and> \<not> envVarNamePattern (fc_SecretEnv cfg)
      then Inl (usageError (''config file '' @ path @
             '': secret_env must be a valid environment variable name (letters, digits, and underscores), never a secret value''))
      else if fc_Format cfg \<noteq> [] \<and> fc_Format cfg \<notin> {''text'', ''json'', ''ascii'', ''dot''}
      then Inl (usageError (''config file '' @ path @ '': invalid format '' @ strconv_Quote (fc_Format cfg) @ '' (expected text, json, ascii, or dot)''))
      else Inr ())"

definition cli_loadConfig :: "sdk \<Rightarrow> configLib \<Rightarrow> string \<Rightarrow> (string \<Rightarrow> string) \<Rightarrow> cliError + loadedConfig" where
  "cli_loadConfig S L flagPath getenv =
     (let path = resolveConfigPath L flagPath getenv in
      if path = [] then Inr noConfig
      else case cl_ReadFile L path of
        FileMissing \<Rightarrow> Inr noConfig
      | FileError err \<Rightarrow> Inl (newErrorf ExitUsageError (errw (''reading config file '' @ path) err))
      | FileBytes raw \<Rightarrow>
          if length raw > maxConfigBytes
          then Inl (usageError (''config file '' @ path @ '' exceeds maximum size ('' @ itoa maxConfigBytes @ '' bytes)''))
          else
            bindE (case cl_Members L raw of None \<Rightarrow> Inr () | Some members \<Rightarrow> checkMembers S L path members) (\<lambda>_.
            bindE (wrapCli ExitUsageError (wrapE (''parsing config file '' @ path) (cl_Decode L raw))) (\<lambda>cfg.
            if \<not> cl_EndsInput L raw
            then Inl (usageError (''parsing config file '' @ path @ '': unexpected trailing content after JSON object''))
            else
              bindE (checkFileConfig S L path cfg) (\<lambda>_.
                Inr \<lparr>lc_Path = path, lc_Loaded = True, lc_File = cfg\<rparr>))))"

section \<open>Precedence\<close>

text \<open>\<open>set\<close> is the set of the flags given, or nil for a caller that does not track them.\<close>

datatype source = SourceFlag | SourceEnv | SourceFile | SourceDefault

record resolvedValue =
  rv_Value :: string
  rv_Source :: source

definition resolvePrecedence ::
  "bool \<Rightarrow> string \<Rightarrow> string \<Rightarrow> (string \<Rightarrow> string) option \<Rightarrow> loadedConfig \<Rightarrow> string \<Rightarrow> string \<Rightarrow> resolvedValue" where
  "resolvePrecedence flagSet flagVal envVar getenv cfg fileVal defaultVal =
     (let envVal = (case getenv of None \<Rightarrow> [] | Some get \<Rightarrow> get envVar) in
      if flagSet then \<lparr>rv_Value = flagVal, rv_Source = SourceFlag\<rparr>
      else if envVal \<noteq> [] then \<lparr>rv_Value = envVal, rv_Source = SourceEnv\<rparr>
      else if lc_Loaded cfg \<and> fileVal \<noteq> [] then \<lparr>rv_Value = fileVal, rv_Source = SourceFile\<rparr>
      else \<lparr>rv_Value = defaultVal, rv_Source = SourceDefault\<rparr>)"

definition flagIsSet :: "(string \<Rightarrow> bool) option \<Rightarrow> string \<Rightarrow> string \<Rightarrow> bool" where
  "flagIsSet given name flagVal = (case given of Some s \<Rightarrow> s name | None \<Rightarrow> flagVal \<noteq> [])"

definition resolveNetworkValue ::
  "(string \<Rightarrow> bool) option \<Rightarrow> string \<Rightarrow> (string \<Rightarrow> string) option \<Rightarrow> loadedConfig \<Rightarrow> resolvedValue" where
  "resolveNetworkValue given flagVal getenv cfg =
     resolvePrecedence (flagIsSet given ''network'' flagVal) flagVal ''SOROAUTH_NETWORK'' getenv cfg (fc_Network (lc_File cfg)) []"

definition resolveRPCURLValue ::
  "(string \<Rightarrow> bool) option \<Rightarrow> string \<Rightarrow> (string \<Rightarrow> string) option \<Rightarrow> loadedConfig \<Rightarrow> string \<Rightarrow> resolvedValue" where
  "resolveRPCURLValue given flagVal getenv cfg defaultURL =
     resolvePrecedence (flagIsSet given ''rpc-url'' flagVal) flagVal ''SOROAUTH_RPC_URL'' getenv cfg (fc_RPCURL (lc_File cfg)) defaultURL"

definition resolveSecretEnvValue ::
  "(string \<Rightarrow> bool) option \<Rightarrow> string \<Rightarrow> (string \<Rightarrow> string) option \<Rightarrow> loadedConfig \<Rightarrow> resolvedValue" where
  "resolveSecretEnvValue given flagVal getenv cfg =
     resolvePrecedence (flagIsSet given ''secret-env'' flagVal) flagVal ''SOROAUTH_SECRET_ENV'' getenv cfg (fc_SecretEnv (lc_File cfg)) []"

definition resolveFormatValue ::
  "(string \<Rightarrow> bool) option \<Rightarrow> string \<Rightarrow> bool \<Rightarrow> (string \<Rightarrow> string) option \<Rightarrow> loadedConfig \<Rightarrow> string \<Rightarrow> cliError + resolvedValue" where
  "resolveFormatValue given formatFlagVal jsonFlagVal getenv cfg defaultFormat =
     (let flagged = (\<lambda>v. Inr \<lparr>rv_Value = v, rv_Source = SourceFlag\<rparr>);
          envVal = (case getenv of None \<Rightarrow> [] | Some get \<Rightarrow> get ''SOROAUTH_FORMAT'') in
      if (case given of None \<Rightarrow> False | Some s \<Rightarrow> s ''json'')
      then (if jsonFlagVal then flagged ''json'' else if the given ''format'' then flagged formatFlagVal else flagged defaultFormat)
      else if flagIsSet given ''format'' formatFlagVal then flagged formatFlagVal
      else if jsonFlagVal then flagged ''json''
      else if envVal \<noteq> []
      then (if envVal \<in> {''text'', ''json'', ''ascii'', ''dot''} then Inr \<lparr>rv_Value = envVal, rv_Source = SourceEnv\<rparr>
            else Inl (usageError (''invalid SOROAUTH_FORMAT '' @ strconv_Quote envVal @ '' (expected text, json, ascii, or dot)'')))
      else if lc_Loaded cfg \<and> fc_Format (lc_File cfg) \<noteq> [] then Inr \<lparr>rv_Value = fc_Format (lc_File cfg), rv_Source = SourceFile\<rparr>
      else Inr \<lparr>rv_Value = defaultFormat, rv_Source = SourceDefault\<rparr>)"

definition resolveJSONMode ::
  "(string \<Rightarrow> bool) option \<Rightarrow> bool \<Rightarrow> (string \<Rightarrow> string) option \<Rightarrow> loadedConfig \<Rightarrow> cliError + bool" where
  "resolveJSONMode given jsonFlagVal getenv cfg =
     bindE (resolveFormatValue given [] jsonFlagVal getenv cfg ''text'') (\<lambda>res. Inr (rv_Value res = ''json''))"

section \<open>The expiration and the network\<close>

definition resolveRPCURL :: "string \<Rightarrow> (string \<Rightarrow> string) \<Rightarrow> string" where
  "resolveRPCURL flagValue getenv = (if flagValue \<noteq> [] then flagValue else getenv ''SOROAUTH_RPC_URL'')"

text \<open>\<open>fetch\<close> is the call that reads the current ledger.\<close>

definition resolveValidUntil ::
  "64 word \<Rightarrow> 64 word \<Rightarrow> string \<Rightarrow> (string \<Rightarrow> gerr + uint32) \<Rightarrow> cliError + uint32" where
  "resolveValidUntil validUntil validFor rpcURL fetch =
     (if validUntil \<noteq> 0 \<and> validFor \<noteq> 0
      then Inl (usageError ''--valid-until and --valid-for are mutually exclusive: give one or the other'')
      else if validUntil \<noteq> 0
      then (if validUntil > 0xFFFFFFFF
            then Inl (usageError (''--valid-until '' @ itoa (unat validUntil) @ '' is out of range for a ledger sequence (maximum 4294967295)''))
            else Inr (ucast validUntil))
      else if validFor \<noteq> 0
      then (if validFor > 0xFFFFFFFF
            then Inl (usageError (''--valid-for '' @ itoa (unat validFor) @ '' is out of range for a ledger count (maximum 4294967295)''))
            else if rpcURL = []
            then Inl (usageError ''--valid-for resolves against the current ledger and needs an RPC endpoint: pass --rpc-url <url> or set SOROAUTH_RPC_URL'')
            else case fetch rpcURL of
                Inl err \<Rightarrow> Inl (newErrorf ExitGeneralError (errw (''--valid-for could not read the current ledger from '' @ rpcURL) err))
              | Inr latest \<Rightarrow>
                  wrapCli ExitVerificationFailed (wrapE (''--valid-for '' @ itoa (unat validFor) @ '' from ledger '' @ itoa (unat latest))
                    (ExpirationAfter latest (ucast validFor))))
      else Inl (usageError ''--valid-until is required and must be greater than zero, or give --valid-for <ledgers>''))"

record networkNames =
  nn_Test :: string
  nn_Future :: string
  nn_Public :: string

definition cli_resolveNetwork ::
  "networkNames \<Rightarrow> string \<Rightarrow> string \<Rightarrow> (string \<Rightarrow> string) \<Rightarrow> (string \<Rightarrow> gerr + string) \<Rightarrow> cliError + string" where
  "cli_resolveNetwork N value rpcURL getenv fetch =
     (if value = [] then Inl (usageError ''--network is required (testnet, futurenet, public, rpc, or a literal passphrase)'')
      else if value = ''testnet'' then Inr (nn_Test N)
      else if value = ''futurenet'' then Inr (nn_Future N)
      else if value = ''public'' then Inr (nn_Public N)
      else if value = ''rpc''
      then (let url = (if rpcURL = [] then resolveRPCURL [] getenv else rpcURL) in
            if url = []
            then Inl (usageError ''--network rpc resolves against an RPC endpoint and needs one: pass --rpc-url <url> or set SOROAUTH_RPC_URL'')
            else case fetch url of
                Inl err \<Rightarrow> Inl (newErrorf ExitGeneralError (errw (''--network rpc could not fetch the network passphrase from '' @ url) err))
              | Inr passphrase \<Rightarrow> Inr passphrase)
      else Inr value)"

end
