(* ===== verification/Exec_Signer.thy ===== *)
theory Exec_Signer
  imports Cli Remote Inspection
begin

text \<open>
  The external signer of the command line (\<^verbatim>\<open>src/cmd/soroauth/exec_signer.go\<close>): the helper
  process gets a request of the remote protocol on its input and a cleaned environment, and what
  it prints is checked before it becomes a signature. Running the process is a parameter, as are
  the codecs.
\<close>

section \<open>The environment of the helper\<close>

definition allowedHelperEnvVars :: "string list" where
  "allowedHelperEnvVars = [''PATH'', ''HOME'', ''TMPDIR'', ''TMP'', ''TEMP'', ''TERM'', ''LANG'', ''LC_ALL'', ''USER'', ''LOGNAME'', ''SYSTEMROOT'']"

definition sanitizeHelperEnv :: "sdk \<Rightarrow> (string \<Rightarrow> bool) \<Rightarrow> (string \<Rightarrow> string) \<Rightarrow> string list" where
  "sanitizeHelperEnv S parses getenv =
     map (\<lambda>key. key @ ''='' @ getenv key)
       (filter (\<lambda>key. getenv key \<noteq> [] \<and> \<not> containsSecretToken S parses (getenv key)) allowedHelperEnvVars)"

section \<open>The signer\<close>

text \<open>Timeouts are nanoseconds.\<close>

record execSigner =
  xs_command :: string
  xs_address :: string
  xs_timeout :: int
  xs_env :: "string list"

definition newExecSigner ::
  "sdk \<Rightarrow> (string \<Rightarrow> bool) \<Rightarrow> string \<Rightarrow> string \<Rightarrow> int \<Rightarrow> (string \<Rightarrow> string) \<Rightarrow> cliError + execSigner" where
  "newExecSigner S parses command address timeout getenv =
     (let trimmed = TrimSpace command in
      if trimmed = [] then Inl (usageError ''--signer-cmd must not be empty'')
      else if containsSecretToken S parses trimmed
      then Inl (usageError ''--signer-cmd contains a secret-shaped value; pass only the path to the signer executable, never a secret'')
      else if timeout \<le> 0 then Inl (usageError ''--signer-timeout must be greater than zero'')
      else Inr \<lparr>xs_command = trimmed, xs_address = address, xs_timeout = timeout, xs_env = sanitizeHelperEnv S parses getenv\<rparr>)"

definition withAddress :: "execSigner \<Rightarrow> string \<Rightarrow> execSigner" where
  "withAddress s addr = s\<lparr>xs_address := addr\<rparr>"

text \<open>
  How a run ends: what the call's context then reports, and the error of \<open>cmd.Run\<close>, which is
  an exit status or a failure to start.
\<close>

datatype runError = ExitStatus int | StartError gerr

record runOutcome =
  ro_Context :: "gerr option"
  ro_RunError :: "runError option"
  ro_Stdout :: bytes
  ro_Stderr :: bytes

record execLib =
  xl_Remote :: remoteLib
  xl_Run :: "string \<Rightarrow> string list \<Rightarrow> bytes \<Rightarrow> runOutcome"
  xl_DecodeResponse :: "bytes \<Rightarrow> gerr + Response"
  xl_EndsInput :: "bytes \<Rightarrow> bool"
  xl_DurationString :: "int \<Rightarrow> string"
  xl_KeypairParses :: "string \<Rightarrow> bool"

section \<open>Checking the answer\<close>

definition validateMapKeysSorted :: "(ScVal \<times> ScVal) list \<Rightarrow> gerr + unit" where
  "validateMapKeysSorted entries =
     bindE (mapE (\<lambda>(prev, curr).
       (case (fst prev, fst curr) of
          (ScvSymbol (Some a), ScvSymbol (Some b)) \<Rightarrow>
            if a \<ge> b then Inl (errmsg (''signature map keys are not in sorted order ('' @ strconv_Quote a @ '' before '' @ strconv_Quote b @ '')''))
            else Inr ()
        | _ \<Rightarrow> Inr ())) (zip entries (tl entries))) (\<lambda>_. Inr ())"

definition validateCustomScValElement :: "sdk \<Rightarrow> ScVal \<Rightarrow> gerr + unit" where
  "validateCustomScValElement S v =
     (case v of
        ScvVoid \<Rightarrow> Inl (errmsg (''disallowed element type '' @ ScVal_TypeString S v))
      | ScvError _ \<Rightarrow> Inl (errmsg (''disallowed element type '' @ ScVal_TypeString S v))
      | ScvMap (Some (Some entries)) \<Rightarrow> validateMapKeysSorted entries
      | ScvMap _ \<Rightarrow> Inl (errmsg ''nil ScvMap element'')
      | _ \<Rightarrow> Inr ())"

fun looksLikeAccountSignatureVec :: "ScVal list \<Rightarrow> bool" where
  "looksLikeAccountSignatureVec [] = False"
| "looksLikeAccountSignatureVec (elem # entries) =
     (case elem of
        ScvMap (Some (Some kvs)) \<Rightarrow>
          list_ex (\<lambda>kv. fst kv = ScvSymbol (Some ''public_key'') \<or> fst kv = ScvSymbol (Some ''signature'')) kvs \<or>
          looksLikeAccountSignatureVec entries
      | _ \<Rightarrow> False)"

text \<open>The fields of one map of the vector: the public key and the signature seen so far.\<close>

fun accountFields :: "sdk \<Rightarrow> nat \<Rightarrow> (ScVal \<times> ScVal) list \<Rightarrow> bytes \<times> bytes \<Rightarrow> gerr + (bytes \<times> bytes)" where
  "accountFields S i [] found = Inr found"
| "accountFields S i ((key, val) # kvs) (pubKey, sigBytes) =
     (let entry = ''signature vector entry '' @ itoa i in
      case key of
        ScvSymbol (Some keyName) \<Rightarrow>
          (case val of
             ScvBytes (Some b) \<Rightarrow>
               if keyName = ''public_key'' then accountFields S i kvs (b, sigBytes)
               else if keyName = ''signature'' then accountFields S i kvs (pubKey, b)
               else Inl (errmsg (entry @ '' has unknown map field '' @ strconv_Quote keyName @ '' (want public_key and signature)''))
           | _ \<Rightarrow> Inl (errmsg (entry @ '' field '' @ strconv_Quote keyName @ '' is '' @ ScVal_TypeString S val @ '', want ScvBytes'')))
      | _ \<Rightarrow> Inl (errmsg (entry @ '' has non-symbol map key '' @ ScVal_TypeString S key)))"

definition validateAccountEntry :: "sdk \<Rightarrow> bytes \<Rightarrow> nat \<Rightarrow> ScVal \<Rightarrow> gerr + unit" where
  "validateAccountEntry S payload i elem =
     (let entry = ''signature vector entry '' @ itoa i in
      case elem of
        ScvMap (Some (Some mapEntries)) \<Rightarrow>
          bindE (wrapE entry (validateMapKeysSorted mapEntries)) (\<lambda>_.
          if length mapEntries \<noteq> 2
          then Inl (errmsg (entry @ '' has '' @ itoa (length mapEntries) @ '' map fields, want 2 (public_key and signature)''))
          else
            bindE (accountFields S i mapEntries ([], [])) (\<lambda>(pubKey, sigBytes).
            if length pubKey \<noteq> ed25519_PublicKeySize
            then Inl (errmsg (entry @ '' public_key is '' @ itoa (length pubKey) @ '' bytes, want '' @ itoa ed25519_PublicKeySize))
            else if length sigBytes \<noteq> ed25519_SignatureSize
            then Inl (errmsg (entry @ '' signature is '' @ itoa (length sigBytes) @ '' bytes, want '' @ itoa ed25519_SignatureSize))
            else if \<not> ed25519_Verify S pubKey payload sigBytes
            then Inl (errmsg (entry @ '' Ed25519 signature does not verify over payload''))
            else Inr ()))
      | _ \<Rightarrow> Inl (errmsg (entry @ '' is '' @ ScVal_TypeString S elem @ '', want ScvMap'')))"

definition validateAccountSignatureVec :: "sdk \<Rightarrow> ScVal list \<Rightarrow> bytes \<Rightarrow> gerr + unit" where
  "validateAccountSignatureVec S entries payload = bindE (mapEi (validateAccountEntry S payload) entries) (\<lambda>_. Inr ())"

definition isClassicTarget :: "sdk \<Rightarrow> string \<Rightarrow> bool" where
  "isClassicTarget S targetAddress \<longleftrightarrow>
     targetAddress \<noteq> [] \<and> (case ParseAddress S targetAddress of Inl _ \<Rightarrow> False | Inr a \<Rightarrow> sa_Type a = ScAddressTypeAccount)"

definition checkSignatureShape :: "sdk \<Rightarrow> bool \<Rightarrow> bytes \<Rightarrow> ScVal \<Rightarrow> gerr + ScVal" where
  "checkSignatureShape S isClassicAccount payload sig =
     (case sig of
        ScvVoid \<Rightarrow> Inl (errmsg ''signature ScVal is ScvVoid (unsigned placeholder)'')
      | ScvVec (Some (Some (e # es))) \<Rightarrow>
          let entries = e # es in
          if length entries > 20
          then Inl (errmsg (''signature vector has '' @ itoa (length entries) @ '' entries, exceeding maximum 20''))
          else if isClassicAccount \<or> looksLikeAccountSignatureVec entries
          then bindE (validateAccountSignatureVec S entries payload) (\<lambda>_. Inr sig)
          else bindE (mapEi (\<lambda>i elem. wrapE (''signature vector element '' @ itoa i) (validateCustomScValElement S elem)) entries) (\<lambda>_. Inr sig)
      | ScvVec _ \<Rightarrow> Inl (errmsg ''signature ScVal is an empty ScvVec (unsigned placeholder)'')
      | ScvMap m \<Rightarrow>
          if isClassicAccount
          then Inl (errmsg ''classic account signature must be an ScvVec of {public_key, signature} maps, got ScvMap'')
          else (case m of
              Some (Some (kv # kvs)) \<Rightarrow> bindE (validateMapKeysSorted (kv # kvs)) (\<lambda>_. Inr sig)
            | _ \<Rightarrow> Inl (errmsg ''signature ScVal is an empty ScvMap''))
      | ScvBytes b \<Rightarrow>
          if isClassicAccount
          then Inl (errmsg ''classic account signature must be an ScvVec of {public_key, signature} maps, got ScvBytes'')
          else (case b of Some (w # ws) \<Rightarrow> Inr sig | _ \<Rightarrow> Inl (errmsg ''signature ScVal is empty ScvBytes''))
      | _ \<Rightarrow> Inl (errmsg (''signature ScVal has unsupported type '' @ ScVal_TypeString S sig)))"

definition validateSignatureScVal :: "sdk \<Rightarrow> execLib \<Rightarrow> string \<Rightarrow> string \<Rightarrow> bytes \<Rightarrow> gerr + ScVal" where
  "validateSignatureScVal S L encoded targetAddress payload =
     bindE (wrapE ''signature is not valid base64'' (decodeBase64 encoded)) (\<lambda>raw.
     if length raw = 0 then Inl (errmsg ''signature base64 decoded to zero bytes'')
     else
       bindE (wrapE ''signature is not valid ScVal XDR'' (rl_ScVal_UnmarshalBinary (xl_Remote L) raw)) (\<lambda>sig.
         checkSignatureShape S (isClassicTarget S targetAddress) payload sig))"

section \<open>Signing\<close>

text \<open>\<open>fmt.Errorf("%w" + text, sentinel)\<close>.\<close>

definition sentinelf :: "sentinel \<Rightarrow> string \<Rightarrow> gerr" where
  "sentinelf t text = Errorf (sentinel_text t @ text) [Sentinel t]"

definition redact :: "sdk \<Rightarrow> execLib \<Rightarrow> string \<Rightarrow> string \<Rightarrow> string" where
  "redact S L replacement text = (if containsSecretToken S (xl_KeypairParses L) text then replacement else text)"

definition runFailure :: "sdk \<Rightarrow> execLib \<Rightarrow> execSigner \<Rightarrow> bytes \<Rightarrow> runError \<Rightarrow> gerr" where
  "runFailure S L s stderr err =
     (case err of
        ExitStatus code \<Rightarrow>
          let detail = redact S L ''[stderr redacted: contained secret-shaped token]'' (TrimSpace (textOf stderr)) in
          sentinelf ErrExecSignerExit ('' (exit code '' @ itoa_int code @ '')'' @ (if detail \<noteq> [] then '': '' @ detail else []))
      | StartError e \<Rightarrow> sentinelf ErrExecSignerExit ('': starting '' @ strconv_Quote (xs_command s) @ '': '' @ error_text e))"

text \<open>From the helper's output on.\<close>

definition readOutput :: "sdk \<Rightarrow> execLib \<Rightarrow> execSigner \<Rightarrow> bytes \<Rightarrow> bytes \<Rightarrow> gerr + ScVal" where
  "readOutput S L s payload rawOut =
     (if length rawOut > MaxRequestBytes
      then Inl (sentinelf ErrExecSignerMalformedOutput ('': response exceeds maximum size ('' @ itoa MaxRequestBytes @ '' bytes)''))
      else if TrimSpace (textOf rawOut) = []
      then Inl (sentinelf ErrExecSignerMalformedOutput '': empty stdout (expected JSON response)'')
      else case xl_DecodeResponse L rawOut of
        Inl err \<Rightarrow> Inl (sentinelf ErrExecSignerMalformedOutput ('': invalid JSON response: '' @ error_text err))
      | Inr resp \<Rightarrow>
          if \<not> xl_EndsInput L rawOut
          then Inl (sentinelf ErrExecSignerMalformedOutput '': unexpected trailing data after JSON response'')
          else if rp_Version resp \<noteq> Version
          then Inl (sentinelf ErrExecSignerMalformedOutput ('': unsupported protocol version '' @ itoa_int (rp_Version resp) @ '' (want '' @ itoa_int Version @ '')''))
          else if rp_Error resp \<noteq> [] \<and> rp_Signature resp \<noteq> []
          then Inl (sentinelf ErrExecSignerMalformedOutput '': response sets both signature and error'')
          else if rp_Error resp \<noteq> []
          then Inl (sentinelf ErrExecSignerRefused ('': '' @ redact S L ''[error redacted: contained secret-shaped token]'' (rp_Error resp)))
          else if rp_Signature resp = []
          then Inl (sentinelf ErrExecSignerMalformedOutput '': response is missing signature field'')
          else (case validateSignatureScVal S L (rp_Signature resp) (xs_address s) payload of
              Inl err \<Rightarrow> Inl (sentinelf ErrExecSignerMalformedOutput ('': '' @ error_text err))
            | Inr sig \<Rightarrow> Inr sig))"

definition execSign :: "sdk \<Rightarrow> execLib \<Rightarrow> execSigner option \<Rightarrow> ctx \<Rightarrow> HashIdPreimage \<Rightarrow> bytes \<Rightarrow> gerr + ScVal" where
  "execSign S L so ctx preimage payload =
     (case ctx of Some err \<Rightarrow> Inl (errw ''exec signer'' err)
      | None \<Rightarrow>
        (case so of None \<Rightarrow> Inl (errw ''exec signer'' (Sentinel ErrMissingSigner))
         | Some s \<Rightarrow>
           if xs_address s = [] then Inl (errw ''exec signer'' (Sentinel ErrMissingSigner))
           else
             bindE (wrapE ''exec signer: encoding the preimage'' (rl_Preimage_MarshalBase64 (xl_Remote L) preimage)) (\<lambda>encodedPreimage.
             bindE (wrapE ''exec signer: encoding the request'' (rl_MarshalRequest (xl_Remote L)
                \<lparr>rr_Version = Version, rr_Address = xs_address s, rr_Preimage = encodedPreimage, rr_Payload = hex payload\<rparr>)) (\<lambda>reqBytes.
             let outcome = xl_Run L (xs_command s) (xs_env s) (reqBytes @ [0x0A]) in
             case ro_Context outcome of
               Some err \<Rightarrow>
                 if errors_Is err ContextDeadlineExceeded
                 then Inl (sentinelf ErrExecSignerTimeout ('' after '' @ xl_DurationString L (xs_timeout s) @ '' running '' @ strconv_Quote (xs_command s)))
                 else Inl (errw ''exec signer'' err)
             | None \<Rightarrow>
                 (case ro_RunError outcome of
                    Some err \<Rightarrow> Inl (runFailure S L s (ro_Stderr outcome) err)
                  | None \<Rightarrow> readOutput S L s payload (ro_Stdout outcome))))))"

definition execSignerOf :: "sdk \<Rightarrow> execLib \<Rightarrow> execSigner \<Rightarrow> signer" where
  "execSignerOf S L s = \<lparr>sg_Address = xs_address s, sg_Sign = execSign S L (Some s)\<rparr>"

definition inferSingleEntryAddress :: "sdk \<Rightarrow> SorobanAuthorizationEntry \<Rightarrow> cliError + string" where
  "inferSingleEntryAddress S entry =
     (if cr_Type (en_Credentials entry) = CredentialsSourceAccount then Inr []
      else if cr_Type (en_Credentials entry) = CredentialsAddressWithDelegates
      then Inl (usageError ''--for is required with --signer-cmd when the entry carries delegates'')
      else
        bindE (wrapCli ExitUsageError (wrapE ''inspecting entry address'' (Inspect S entry))) (\<lambda>info.
          if ei_Address info = [] then Inl (usageError ''--for is required with --signer-cmd when the entry has no address'')
          else Inr (ei_Address info)))"

end
