(* ===== verification/Cli_Commands.thy ===== *)
theory Cli_Commands
  imports Exec_Signer Server
begin

text \<open>
  The subcommands \<open>verify\<close> and \<open>sign\<close> of the command line from the resolved flags on
  (\<^verbatim>\<open>verify.go\<close>, \<^verbatim>\<open>sign.go\<close>), the decoding of their inputs (\<^verbatim>\<open>main.go\<close>, \<^verbatim>\<open>helpers.go\<close>) and
  the batch mode they share (\<^verbatim>\<open>batch.go\<close>). A command returns what it writes to standard output,
  as values before they are printed, and the error that decides the exit code. The command's
  \<open>verifyEntryOutput\<close> has the fields of the service's \<open>entryOutput\<close>, so one record stands for both.
\<close>

section \<open>Inputs\<close>

record cliLib =
  ci_Envelope_SafeUnmarshalBase64 :: "string \<Rightarrow> gerr + TransactionEnvelope"
  ci_Entry_MarshalBase64 :: "SorobanAuthorizationEntry \<Rightarrow> gerr + string"
  ci_Envelope_MarshalBase64 :: "TransactionEnvelope \<Rightarrow> gerr + string"
  ci_Envelope_MarshalBinary :: "TransactionEnvelope \<Rightarrow> gerr + bytes"
  ci_Envelope_DecodeBytes :: "bytes \<Rightarrow> gerr + (TransactionEnvelope \<times> nat)"
  ci_Flags :: "string list"

text \<open>\<open>stdin\<close> is what reading the whole of standard input gives.\<close>

definition resolveEntryArg :: "string \<Rightarrow> gerr + string \<Rightarrow> gerr + string" where
  "resolveEntryArg val stdin = (if val = ''-'' then bindE stdin (\<lambda>data. Inr (TrimSpace data)) else Inr val)"

definition classifyInput :: "string \<Rightarrow> string \<Rightarrow> gerr \<Rightarrow> gerr" where
  "classifyInput value want err =
     (if errors_Is err ErrDecodeLimit then err
      else if \<not> isOk (decodeBase64 value) then errw ''input is not valid base64'' err
      else errw (''input is valid base64 but is not '' @ want) err)"

definition cli_decodeEntryOrEnvelope ::
  "sdk \<Rightarrow> cliLib \<Rightarrow> string \<Rightarrow> gerr + string \<Rightarrow> cliError + (SorobanAuthorizationEntry + TransactionEnvelope)" where
  "cli_decodeEntryOrEnvelope S L value stdin =
     (if value = [] then Inl (usageError ''--entry is required'')
      else
        bindE (wrapCli ExitUsageError (wrapE ''reading from stdin'' (resolveEntryArg value stdin))) (\<lambda>val.
        let entryResult = Entry_SafeUnmarshalBase64 S val;
            asEntry = (case entryResult of
                Inl err \<Rightarrow> Inl (newErrorf ExitUsageError (errw ''decoding --entry''
                  (classifyInput val ''a Soroban authorization entry or a transaction envelope with an invokeHostFunction operation'' err)))
              | Inr entry \<Rightarrow> Inr (Inl entry)) in
        case ci_Envelope_SafeUnmarshalBase64 L val of
          Inl _ \<Rightarrow> asEntry
        | Inr envelope \<Rightarrow>
            (case EnvelopeEntries envelope of
               Inr _ \<Rightarrow> Inr (Inr envelope)
             | Inl err \<Rightarrow> if isOk entryResult then asEntry else Inl (newErrorf ExitUsageError (errw ''decoding --entry as an envelope'' err)))))"

definition encodeEntry :: "cliLib \<Rightarrow> SorobanAuthorizationEntry \<Rightarrow> gerr + string" where
  "encodeEntry L entry = wrapE ''encoding the entry'' (ci_Entry_MarshalBase64 L entry)"

section \<open>Batches\<close>

record batchInput =
  bi_Index :: nat
  bi_Entry :: "cliError + SorobanAuthorizationEntry"

text \<open>A result of a batch is what the subcommand prints for the input, or the error object.\<close>

datatype 'r batchOutcome = BatchResult 'r | BatchError jsonErrorFields

record 'r batchRun =
  br_total :: nat
  br_results :: "(nat \<times> 'r batchOutcome) list"
  br_failed :: nat
  br_first :: "cliError option"

definition newBatchRun :: "nat \<Rightarrow> 'r batchRun" where
  "newBatchRun n = \<lparr>br_total = n, br_results = [], br_failed = 0, br_first = None\<rparr>"

definition batch_result :: "nat \<Rightarrow> 'r \<Rightarrow> 'r batchRun \<Rightarrow> 'r batchRun" where
  "batch_result index r b = b\<lparr>br_results := br_results b @ [(index, BatchResult r)]\<rparr>"

definition recordFailure :: "cliError \<Rightarrow> 'r batchRun \<Rightarrow> 'r batchRun" where
  "recordFailure err b = b\<lparr>br_first := (if br_failed b = 0 then Some err else br_first b), br_failed := br_failed b + 1\<rparr>"

definition batch_fail :: "cliLib \<Rightarrow> nat \<Rightarrow> cliError \<Rightarrow> 'r batchRun \<Rightarrow> 'r batchRun" where
  "batch_fail L index err b =
     recordFailure err (b\<lparr>br_results := br_results b @ [(index, BatchError (machineError (ci_Flags L) err))]\<rparr>)"

definition firstCode :: "'r batchRun \<Rightarrow> nat" where
  "firstCode b = (case br_first b of None \<Rightarrow> ExitGeneralError | Some e \<Rightarrow> ExitCode (Some e))"

definition batch_summary :: "'r batchRun \<Rightarrow> cliError option" where
  "batch_summary b =
     (if br_failed b = 0 then None
      else Some (newErrorf (firstCode b) (errmsg (itoa (br_failed b) @ '' of '' @ itoa (br_total b) @ '' entries failed''))))"

fun joinWith :: "string \<Rightarrow> string list \<Rightarrow> string" where
  "joinWith sep [] = []"
| "joinWith sep [x] = x"
| "joinWith sep (x # y # ys) = x @ sep @ joinWith sep (y # ys)"

definition signSummary :: "'r batchRun \<Rightarrow> cliError" where
  "signSummary b =
     (let parts = concat (map (\<lambda>(i, r). case r of
            BatchError f \<Rightarrow> if jf_Message f \<noteq> [] then [''entry '' @ itoa i @ '': '' @ jf_Message f] else []
          | BatchResult _ \<Rightarrow> []) (br_results b)) in
      withField ''--entries'' (newErrorf (firstCode b) (errmsg
        (''no signed output was written: '' @ itoa (br_failed b) @ '' of '' @ itoa (br_total b) @ '' entries could not be signed: '' @
         joinWith ''; '' parts))))"

definition decodeBatchLine :: "sdk \<Rightarrow> cliLib \<Rightarrow> nat \<Rightarrow> string \<Rightarrow> batchInput" where
  "decodeBatchLine S L index line =
     \<lparr>bi_Index = index, bi_Entry =
       (case DecodeAuthorizationEntry S line [] of
          Inr entry \<Rightarrow> Inr entry
        | Inl err \<Rightarrow>
            let generic = newErrorf ExitUsageError (classifyInput line ''a Soroban authorization entry'' err) in
            (case ci_Envelope_SafeUnmarshalBase64 L line of
               Inl _ \<Rightarrow> Inl generic
             | Inr envelope \<Rightarrow>
                 (case EnvelopeEntries envelope of
                    Inl _ \<Rightarrow> Inl generic
                  | Inr entries \<Rightarrow> Inl (usageError (''input is a transaction envelope carrying '' @ itoa (length entries) @
                      '' authorization entries; batch mode takes one entry per line'')))))\<rparr>"

text \<open>
  The scanner's lines, with the error that ended them if one did: a line past the limit of two MiB,
  or a failed read.
\<close>

datatype scanError = ScanTooLong | ScanFailed gerr

definition batchSourceName :: "string \<Rightarrow> string" where
  "batchSourceName name = (if name = ''-'' then ''stdin'' else name)"

definition scanErrorText :: "scanError \<Rightarrow> string" where
  "scanErrorText e = (case e of ScanTooLong \<Rightarrow> ''a line is longer than the 2 MiB line limit'' | ScanFailed err \<Rightarrow> error_text err)"

definition readBatchEntries ::
  "sdk \<Rightarrow> cliLib \<Rightarrow> string \<Rightarrow> string \<Rightarrow> gerr + (string list \<times> scanError option) \<Rightarrow> cliError + batchInput list" where
  "readBatchEntries S L flagName name opened =
     bindE (wrapCli ExitUsageError (wrapE (''opening '' @ flagName @ '' file'') opened)) (\<lambda>(texts, failure).
       let lines = filter (\<lambda>l. l \<noteq> []) (map TrimSpace texts);
           inputs = map (\<lambda>(i, line). decodeBatchLine S L (i + 1) line) (enumerate 0 lines) in
       Inr (inputs @ (case failure of None \<Rightarrow> []
          | Some e \<Rightarrow> [\<lparr>bi_Index = length inputs + 1, bi_Entry = Inl (newErrorf ExitGeneralError (errmsg
                (''reading '' @ batchSourceName name @ '': '' @ scanErrorText e @ ''; the rest of the input was not read'')))\<rparr>])))"

definition emptyBatchError :: "string \<Rightarrow> string \<Rightarrow> cliError" where
  "emptyBatchError flagName name = usageError (flagName @ '' ('' @ batchSourceName name @ '') contains no entries'')"

section \<open>Verify\<close>

definition verifyFailed :: "VerificationReport \<Rightarrow> bool \<Rightarrow> bool" where
  "verifyFailed report allowUnsigned =
     list_ex (\<lambda>node. case nv_Verdict node of VerdictVerified \<Rightarrow> False | VerdictUnsigned \<Rightarrow> \<not> allowUnsigned | _ \<Rightarrow> True) (vr_Nodes report)"

definition nodesError :: cliError where
  "nodesError = newErrorf ExitVerificationFailed (errmsg ''one or more credential nodes did not verify'')"

text \<open>One entry: \<open>validUntil\<close> is compared after the conversion \<open>uint32(validUntil)\<close>.\<close>

definition verifyOne :: "sdk \<Rightarrow> string \<Rightarrow> 64 word \<Rightarrow> SorobanAuthorizationEntry \<Rightarrow> cliError + VerificationReport" where
  "verifyOne S passphrase validUntil entry =
     bindE (wrapCli ExitVerificationFailed (VerifyEntry S entry passphrase)) (\<lambda>report.
       if validUntil \<noteq> 0 \<and> vr_ValidUntilLedger report \<noteq> ucast validUntil
       then Inl (newErrorf ExitVerificationFailed (errmsg (''entry carries expiration '' @ itoa (unat (vr_ValidUntilLedger report)) @
              '', but --valid-until says '' @ itoa (unat (ucast validUntil :: uint32)))))
       else Inr report)"

definition cli_itemOutput :: "(nat \<times> nat) option \<Rightarrow> VerificationReport \<Rightarrow> entryOutput" where
  "cli_itemOutput position report =
     (case position of None \<Rightarrow> newEntryOutput report
      | Some (i, j) \<Rightarrow> (newEntryOutput report)\<lparr>eo_OperationIndex := i + 1, eo_EntryIndex := j + 1\<rparr>)"

text \<open>
  \<open>runVerify\<close> from the decoded input on. An error before the report leaves no output; a verdict
  that is not a pass keeps the report and sets the exit code.
\<close>

definition runVerify ::
  "sdk \<Rightarrow> string \<Rightarrow> 64 word \<Rightarrow> bool \<Rightarrow> SorobanAuthorizationEntry + TransactionEnvelope \<Rightarrow> entryOutput list \<times> cliError option" where
  "runVerify S passphrase validUntil allowUnsigned input =
     (case wrapCli ExitGeneralError (locateEntries input) of
        Inl err \<Rightarrow> ([], Some err)
      | Inr items \<Rightarrow>
          (case mapE (\<lambda>item. verifyOne S passphrase validUntil (fst item)) items of
             Inl err \<Rightarrow> ([], Some err)
           | Inr reports \<Rightarrow>
               (map2 (\<lambda>item report. cli_itemOutput (snd item) report) items reports,
                if list_ex (\<lambda>report. verifyFailed report allowUnsigned) reports then Some nodesError else None)))"

definition verifyStep :: "sdk \<Rightarrow> cliLib \<Rightarrow> string \<Rightarrow> 64 word \<Rightarrow> bool \<Rightarrow> batchInput \<Rightarrow> entryOutput batchRun \<Rightarrow> entryOutput batchRun" where
  "verifyStep S L passphrase validUntil allowUnsigned input run =
     (case bindE (bi_Entry input) (verifyOne S passphrase validUntil) of
        Inl failure \<Rightarrow> batch_fail L (bi_Index input) failure run
      | Inr report \<Rightarrow>
          batch_result (bi_Index input) (newEntryOutput report)
            (if verifyFailed report allowUnsigned then recordFailure nodesError run else run))"

definition runVerifyBatch ::
  "sdk \<Rightarrow> cliLib \<Rightarrow> string \<Rightarrow> 64 word \<Rightarrow> bool \<Rightarrow> string \<Rightarrow> cliError + batchInput list \<Rightarrow>
     (nat \<times> entryOutput batchOutcome) list \<times> cliError option" where
  "runVerifyBatch S L passphrase validUntil allowUnsigned entriesFlag read =
     (case read of Inl err \<Rightarrow> ([], Some err)
      | Inr inputs \<Rightarrow>
          if length inputs = 0 then ([], Some (emptyBatchError ''--entries'' entriesFlag))
          else
            let run = fold (verifyStep S L passphrase validUntil allowUnsigned) inputs (newBatchRun (length inputs)) in
            (br_results run, batch_summary run))"

section \<open>Sign\<close>

text \<open>A signer the flags name: a key pair's, or a helper's, whose address may be left open.\<close>

datatype cliSigner = SeedSigner signer | HelperSigner execSigner

definition cliSignerFor :: "sdk \<Rightarrow> execLib \<Rightarrow> SorobanAuthorizationEntry \<Rightarrow> cliSigner \<Rightarrow> cliError + signer" where
  "cliSignerFor S X entry sg =
     (case sg of SeedSigner s \<Rightarrow> Inr s
      | HelperSigner ext \<Rightarrow>
          if xs_address ext = []
          then bindE (inferSingleEntryAddress S entry) (\<lambda>addr. Inr (execSignerOf S X (withAddress ext addr)))
          else Inr (execSignerOf S X ext))"

definition signingCli :: "gerr + 'a \<Rightarrow> cliError + 'a" where
  "signingCli m = (case m of Inl err \<Rightarrow> Inl (newErrorf (exitCodeForSigningError err) err) | Inr x \<Rightarrow> Inr x)"

text \<open>One entry: the signer, the call to \<open>AuthorizeEntry\<close> and the encoding of its result.\<close>

definition signOne ::
  "sdk \<Rightarrow> execLib \<Rightarrow> cliLib \<Rightarrow> cliSigner \<Rightarrow> uint32 \<Rightarrow> string \<Rightarrow> AuthorizeOption list \<Rightarrow> SorobanAuthorizationEntry \<Rightarrow> cliError + string" where
  "signOne S X L sg expiration passphrase opts entry =
     bindE (cliSignerFor S X entry sg) (\<lambda>signer.
     bindE (signingCli (authorized S None entry (Some signer) expiration passphrase opts)) (\<lambda>signedEntry.
       wrapCli ExitGeneralError (encodeEntry L signedEntry)))"

definition signStep ::
  "sdk \<Rightarrow> execLib \<Rightarrow> cliLib \<Rightarrow> cliSigner \<Rightarrow> uint32 \<Rightarrow> string \<Rightarrow> batchInput \<Rightarrow> string batchRun \<times> string list \<Rightarrow> string batchRun \<times> string list" where
  "signStep S X L sg expiration passphrase input = (\<lambda>(run, encoded).
     case bindE (bi_Entry input) (signOne S X L sg expiration passphrase []) of
       Inl err \<Rightarrow> (batch_fail L (bi_Index input) err run, encoded)
     | Inr text \<Rightarrow> (run, encoded @ [text]))"

definition runSignBatch ::
  "sdk \<Rightarrow> execLib \<Rightarrow> cliLib \<Rightarrow> cliSigner \<Rightarrow> uint32 \<Rightarrow> string \<Rightarrow> string \<Rightarrow> cliError + batchInput list \<Rightarrow>
     (nat \<times> string) list \<times> cliError option" where
  "runSignBatch S X L sg expiration passphrase entriesFlag read =
     (case read of Inl err \<Rightarrow> ([], Some err)
      | Inr inputs \<Rightarrow>
          if length inputs = 0 then ([], Some (emptyBatchError ''--entries'' entriesFlag))
          else
            let (run, encoded) = fold (signStep S X L sg expiration passphrase) inputs (newBatchRun (length inputs), []) in
            if br_failed run > 0 then ([], Some (signSummary run))
            else (map (\<lambda>(i, text). (i + 1, text)) (enumerate 0 encoded), None))"

text \<open>The addresses of an envelope's entries, each once, in order.\<close>

fun envelopeHelpers :: "sdk \<Rightarrow> execSigner \<Rightarrow> string list \<Rightarrow> EnvelopeEntry list \<Rightarrow> cliError + execSigner list" where
  "envelopeHelpers S ext seen [] = Inr []"
| "envelopeHelpers S ext seen (loc # locs) =
     bindE (inferSingleEntryAddress S (ee_Entry loc)) (\<lambda>addr.
       if addr \<noteq> [] \<and> addr \<notin> set seen
       then bindE (envelopeHelpers S ext (addr # seen) locs) (\<lambda>rest. Inr (withAddress ext addr # rest))
       else envelopeHelpers S ext seen locs)"

text \<open>\<open>runSign\<close> from the decoded input on; the text is the signed entry or envelope.\<close>

definition runSign ::
  "sdk \<Rightarrow> execLib \<Rightarrow> cliLib \<Rightarrow> cliSigner \<Rightarrow> uint32 \<Rightarrow> string \<Rightarrow> string \<Rightarrow>
     SorobanAuthorizationEntry + TransactionEnvelope \<Rightarrow> cliError + string" where
  "runSign S X L sg expiration passphrase forAddress input =
     (case input of
        Inr envelope \<Rightarrow>
          if forAddress \<noteq> []
          then Inl (usageError ''--for applies to a single entry; given an envelope, sign the entries one at a time or drop --for'')
          else
            bindE (case sg of
                SeedSigner s \<Rightarrow> Inr [s]
              | HelperSigner ext \<Rightarrow>
                  if xs_address ext = []
                  then bindE (signingCli (EnvelopeEntries envelope)) (\<lambda>entries.
                       bindE (envelopeHelpers S ext [] entries) (\<lambda>exts. Inr (map (execSignerOf S X) exts)))
                  else Inr [execSignerOf S X ext]) (\<lambda>signers.
            bindE (signingCli (AuthorizeEnvelope S (ci_Envelope_MarshalBinary L) (ci_Envelope_DecodeBytes L) None envelope
                (map Some signers) expiration passphrase)) (\<lambda>signedEnvelope.
              wrapCli ExitGeneralError (wrapE ''encoding the signed envelope'' (ci_Envelope_MarshalBase64 L signedEnvelope))))
      | Inl entry \<Rightarrow>
          signOne S X L sg expiration passphrase (if forAddress \<noteq> [] then [ForAddress forAddress] else []) entry)"

text \<open>
  \<open>resolveSigner\<close>: exactly one of the three flags. \<open>parse\<close> is \<open>keypair.Parse\<close>: \<open>Some None\<close> is a
  public key.
\<close>

definition resolveSeedKeypair ::
  "(string \<Rightarrow> ed25519Keypair option option) \<Rightarrow> (string \<Rightarrow> string) \<Rightarrow> string \<Rightarrow> cliError + ed25519Keypair" where
  "resolveSeedKeypair parse getenv secretEnv =
     (let seed = getenv secretEnv in
      if seed = [] then Inl (usageError (''environment variable '' @ secretEnv @ '' is empty or unset''))
      else case parse seed of
        None \<Rightarrow> Inl (usageError (''the value of '' @ secretEnv @ '' is not a valid Stellar key''))
      | Some None \<Rightarrow> Inl (usageError (''the value of '' @ secretEnv @ '' is a public key; a secret seed (S'' @ [CHR 0xE2, CHR 0x80, CHR 0xA6] @ '') is required''))
      | Some (Some kp) \<Rightarrow> Inr kp)"

definition resolveSigner ::
  "sdk \<Rightarrow> (string \<Rightarrow> ed25519Keypair option option) \<Rightarrow> (string \<Rightarrow> string) \<Rightarrow> string \<Rightarrow> string \<Rightarrow> string \<Rightarrow> string \<Rightarrow> int \<Rightarrow> cliError + cliSigner" where
  "resolveSigner S parse getenv secretEnv assertion signerCmd forAddress signerTimeout =
     (if length (filter (\<lambda>f. f \<noteq> []) [secretEnv, assertion, signerCmd]) \<noteq> 1
      then Inl (usageError ''--secret-env is required unless --assertion or --signer-cmd is given: exactly one of --secret-env or --assertion must be provided (or --signer-cmd)'')
      else if signerCmd \<noteq> []
      then bindE (newExecSigner S (\<lambda>t. parse t \<noteq> None) signerCmd forAddress signerTimeout getenv) (\<lambda>x. Inr (HelperSigner x))
      else if secretEnv = [] then Inl (usageError ''passkey authentication is not yet supported'')
      else bindE (resolveSeedKeypair parse getenv secretEnv) (\<lambda>kp. Inr (SeedSigner (NewEd25519Signer S (Some kp)))))"

end
