(* ===== verification/Cli_Properties.thy ===== *)
theory Cli_Properties
  imports Cli_Commands Server_Properties
begin

text \<open>
  The command line: what an external signer's answer is checked for, that a batch is signed as a
  whole or not at all, and what the exit code of \<open>verify\<close> says.
\<close>

section \<open>The external signer\<close>

lemma accountFields_pair:
  assumes "accountFields S i [kv1, kv2] ([], []) = Inr (pk, sig)" "validateMapKeysSorted [kv1, kv2] = Inr u"
  shows "[kv1, kv2] = [(ScvSymbol (Some ''public_key''), ScvBytes (Some pk)), (ScvSymbol (Some ''signature''), ScvBytes (Some sig))]"
proof -
  have "''signature'' \<ge> (''public_key'' :: string)" by simp
  then show ?thesis
    using assms
    by (cases kv1; cases kv2)
      (auto simp: validateMapKeysSorted_def Let_def bindE_Inr_iff split: ScVal.splits option.splits if_splits)
qed

lemma validateAccountEntry_Inr:
  assumes "validateAccountEntry S payload i elem = Inr u"
  shows "\<exists>pk sig. elem = accountSignature pk sig \<and> length pk = 32 \<and> length sig = 64 \<and> ed25519_Verify S pk payload sig"
proof -
  obtain kvs pk sig where k: "elem = ScvMap (Some (Some kvs))" "validateMapKeysSorted kvs = Inr ()" "length kvs = 2"
    "accountFields S i kvs ([], []) = Inr (pk, sig)" "length pk = 32" "length sig = 64" "ed25519_Verify S pk payload sig"
    using assms
    by (auto simp: validateAccountEntry_def Let_def bindE_Inr_iff if_Inl_iff ed25519_PublicKeySize_def ed25519_SignatureSize_def
        split: ScVal.splits option.splits if_splits)
  obtain kv1 kv2 where "kvs = [kv1, kv2]" using k(3) by (auto simp: numeral_2_eq_2 length_Suc_conv)
  with k(2,4) have "kvs = [(ScvSymbol (Some ''public_key''), ScvBytes (Some pk)), (ScvSymbol (Some ''signature''), ScvBytes (Some sig))]"
    using accountFields_pair by blast
  then show ?thesis using k(1,5-7) by (auto simp: accountSignature_def scSymbol_def scBytes_def)
qed

lemma validateAccountSignatureVec_Inr:
  assumes "validateAccountSignatureVec S entries payload = Inr u"
  shows "\<exists>ks. entries = map (\<lambda>(pk, sig). accountSignature pk sig) ks \<and>
     (\<forall>(pk, sig) \<in> set ks. length pk = 32 \<and> length sig = 64 \<and> ed25519_Verify S pk payload sig)"
proof -
  have "\<forall>i < length entries. \<exists>k. entries ! i = accountSignature (fst k) (snd k) \<and> length (fst k) = 32 \<and> length (snd k) = 64 \<and>
      ed25519_Verify S (fst k) payload (snd k)"
    using assms validateAccountEntry_Inr by (fastforce simp: validateAccountSignatureVec_def bindE_Inr_iff mapEi_Inr_iff)
  then obtain f where f: "\<forall>i < length entries. entries ! i = accountSignature (fst (f i)) (snd (f i)) \<and> length (fst (f i)) = 32 \<and>
      length (snd (f i)) = 64 \<and> ed25519_Verify S (fst (f i)) payload (snd (f i))" by metis
  then have "entries = map (\<lambda>(pk, sig). accountSignature pk sig) (map f [0..<length entries])"
    by (auto simp: case_prod_unfold intro: nth_equalityI)
  then show ?thesis using f by (intro exI [of _ "map f [0..<length entries]"]) auto
qed

lemma checkSignatureShape_Inr:
  assumes "checkSignatureShape S classic payload sig = Inr v"
  shows "v = sig" "v \<noteq> ScvVoid" "classic \<Longrightarrow>
    \<exists>entries. v = ScvVec (Some (Some entries)) \<and> entries \<noteq> [] \<and> length entries \<le> 20 \<and> isOk (validateAccountSignatureVec S entries payload)"
  using assms
  by (auto simp: checkSignatureShape_def Let_def bindE_Inr_iff if_Inl_iff split: ScVal.splits option.splits list.splits if_splits)

lemma execSign_Inr:
  assumes "execSign S L (Some s) ctx preimage payload = Inr v"
  shows "ctx = None \<and> xs_address s \<noteq> [] \<and> (\<exists>sig. checkSignatureShape S (isClassicTarget S (xs_address s)) payload sig = Inr v)"
  using assms
  by (auto simp: execSign_def readOutput_def validateSignatureScVal_def Let_def bindE_Inr_iff if_Inl_iff split: option.splits if_splits sum.splits)


definition sampleExecLib :: execLib where
  "sampleExecLib =
     \<lparr>xl_Remote = \<lparr>rl_Preimage_MarshalBase64 = (\<lambda>p. Inr ''preimage''), rl_Preimage_UnmarshalBinary = (\<lambda>b. Inl (errmsg ''no preimage'')),
        rl_ScVal_UnmarshalBinary = (\<lambda>b. Inr (sampleSignature 0)), rl_MarshalRequest = (\<lambda>r. Inr [1]), rl_DecodeRequest = (\<lambda>b. Inl (errmsg ''no request'')),
        rl_EncodeResponse = (\<lambda>r. []), rl_DecodeResponse = (\<lambda>b e. Inl (errmsg ''no response'')), rl_URLPath = (\<lambda>s. Inr s), rl_StatusText = itoa\<rparr>,
      xl_Run = (\<lambda>command env input. \<lparr>ro_Context = None, ro_RunError = None, ro_Stdout = [0x7B], ro_Stderr = []\<rparr>),
      xl_DecodeResponse = (\<lambda>b. Inr \<lparr>rp_Version = 1, rp_Signature = base64_EncodeToString [1], rp_Error = []\<rparr>),
      xl_EndsInput = (\<lambda>b. True), xl_DurationString = itoa_int, xl_KeypairParses = (\<lambda>s. False)\<rparr>"

definition sampleHelperEnv :: "string \<Rightarrow> string" where
  "sampleHelperEnv key = (if key = ''LANG'' then ''C'' else [])"

definition sampleExecSigner :: execSigner where
  "sampleExecSigner = \<lparr>xs_command = ''sgn'', xs_address = ''GA'', xs_timeout = 5, xs_env = [''LANG=C'']\<rparr>"

lemma sample_newExecSigner:
  "newExecSigner sampleSdk (\<lambda>s. False) ''sgn'' ''GA'' 5 sampleHelperEnv = Inr sampleExecSigner"
  by (simp add: newExecSigner_def sampleExecSigner_def sanitizeHelperEnv_def allowedHelperEnvVars_def sampleHelperEnv_def
      containsSecretToken_def looksLikeSecret_def TrimSpace_def isSpaceChar_def strkey56Pattern_def base32SeedLike_def
      tokenSeparator_def sampleSdk_def sample_defs Let_def)

lemma sample_signature_text: "base64_EncodeToString [1] \<noteq> []"
  by simp

lemma sample_brace_char [simp]: "char_of (123::nat) = CHR ''{''"
  by (rule char_of_eq_iff [THEN iffD2]) simp

lemma sample_execSign:
  "execSign sampleSdk sampleExecLib (Some sampleExecSigner) None preimageLegacy (keyOf 0) = Inr (sampleSignature 0)"
proof -
  have "checkSignatureShape sampleSdk True (keyOf 0) (sampleSignature 0) = Inr (sampleSignature 0)"
    by (simp add: checkSignatureShape_def sampleSignature_def scVec_def accountSignature_def scSymbol_def scBytes_def validateAccountSignatureVec_def
        mapEi_def validateAccountEntry_def validateMapKeysSorted_def ed25519_PublicKeySize_def ed25519_SignatureSize_def Let_def)
  moreover have "isClassicTarget sampleSdk ''GA''" by (simp add: isClassicTarget_def accountAddress_def)
  ultimately have "validateSignatureScVal sampleSdk sampleExecLib (base64_EncodeToString [1]) ''GA'' (keyOf 0) = Inr (sampleSignature 0)"
    by (simp add: validateSignatureScVal_def sampleExecLib_def del: base64_EncodeToString.simps)
  then show ?thesis
    using sample_signature_text
    by (simp add: execSign_def readOutput_def sampleExecLib_def sampleExecSigner_def Version_def MaxRequestBytes_def TrimSpace_def
        isSpaceChar_def textOf_def Let_def del: base64_EncodeToString.simps)
qed


section \<open>Batches\<close>

text \<open>What a batch run has recorded when it started from nothing: the failures in order.\<close>

lemma recordFailure_select [simp]:
  "br_results (recordFailure e b) = br_results b" "br_failed (recordFailure e b) = br_failed b + 1"
  "br_total (recordFailure e b) = br_total b" "br_first (recordFailure e b) = (if br_failed b = 0 then Some e else br_first b)"
  by (simp_all add: recordFailure_def)

lemma batch_fail_select [simp]:
  "br_failed (batch_fail L i e b) = br_failed b + 1" "br_first (batch_fail L i e b) = (if br_failed b = 0 then Some e else br_first b)"
  by (simp_all add: batch_fail_def)

abbreviation signInput ::
  "sdk \<Rightarrow> execLib \<Rightarrow> cliLib \<Rightarrow> cliSigner \<Rightarrow> uint32 \<Rightarrow> string \<Rightarrow> batchInput \<Rightarrow> cliError + string" where
  "signInput S X L sg v net input \<equiv> bindE (bi_Entry input) (signOne S X L sg v net [])"

lemma signStep_pair:
  "signStep S X L sg v net input (run, encoded) =
     (case signInput S X L sg v net input of
        Inl err \<Rightarrow> (batch_fail L (bi_Index input) err run, encoded) | Inr text \<Rightarrow> (run, encoded @ [text]))"
  by (simp add: signStep_def)

lemma signStep_fold:
  assumes "fold (signStep S X L sg v net) inputs (run, encoded) = (run', encoded')"
  shows "(br_failed run' = 0 \<longleftrightarrow> br_failed run = 0 \<and> isOk (mapE (signInput S X L sg v net) inputs)) \<and>
    (\<forall>texts. mapE (signInput S X L sg v net) inputs = Inr texts \<longrightarrow> run' = run \<and> encoded' = encoded @ texts) \<and>
    (br_failed run > 0 \<longrightarrow> br_first run' = br_first run) \<and>
    (\<forall>e. br_failed run = 0 \<and> mapE (signInput S X L sg v net) inputs = Inl e \<longrightarrow> br_first run' = Some e)"
  using assms
proof (induction inputs arbitrary: run encoded)
  case Nil
  then show ?case by auto
next
  case (Cons input inputs)
  show ?case
  proof (cases "signInput S X L sg v net input")
    case (Inl e)
    then have "fold (signStep S X L sg v net) inputs (batch_fail L (bi_Index input) e run, encoded) = (run', encoded')"
      using Cons.prems by (simp add: signStep_pair)
    from Cons.IH [OF this] show ?thesis using Inl by auto
  next
    case (Inr t)
    then have "fold (signStep S X L sg v net) inputs (run, encoded @ [t]) = (run', encoded')"
      using Cons.prems by (simp add: signStep_pair)
    from Cons.IH [OF this] show ?thesis using Inr by (auto simp: bindE_Inr_iff bindE_Inl_iff isOk_bindE isOk_iff)
  qed
qed

text \<open>
  C23: a batch is signed as a whole or not at all. When every line decodes and every entry is signed and
  encoded, the output is the signed texts in the order of the lines, numbered from one, and
  the command succeeds. Otherwise nothing is written, whatever lines did succeed, and the exit code is that
  of the first line that failed. An empty batch is a usage error.
\<close>

theorem sign_batch_all_or_nothing:
  "fst (runSignBatch S X L sg v net flag (Inr inputs)) =
     (case mapE (\<lambda>input. bindE (bi_Entry input) (signOne S X L sg v net [])) inputs of
        Inr texts \<Rightarrow> zip [1..<length texts + 1] texts | Inl e \<Rightarrow> []) \<and>
   ExitCode (snd (runSignBatch S X L sg v net flag (Inr inputs))) =
     (if inputs = [] then ExitUsageError
      else case mapE (\<lambda>input. bindE (bi_Entry input) (signOne S X L sg v net [])) inputs of
        Inr texts \<Rightarrow> ExitOK | Inl e \<Rightarrow> ce_exitCode e)"
proof (cases "inputs = []")
  case True
  then show ?thesis by (simp add: runSignBatch_def emptyBatchError_def usageError_def newErrorf_def ExitCode_def)
next
  case False
  obtain run encoded where f: "fold (signStep S X L sg v net) inputs (newBatchRun (length inputs), []) = (run, encoded)"
    by (metis prod.exhaust)
  have zip: "map (\<lambda>(i, text). (i + 1, text)) (enumerate 0 texts) = zip [1..<length texts + 1] (texts :: string list)" for texts
    by (rule nth_equalityI) (simp_all add: nth_enumerate_eq del: upt_Suc)
  note facts = signStep_fold [OF f]
  show ?thesis
  proof (cases "mapE (signInput S X L sg v net) inputs")
    case (Inl e)
    then have "br_failed run > 0" "br_first run = Some e" using facts by (auto simp: newBatchRun_def)
    then show ?thesis using False f Inl
      by (simp add: runSignBatch_def signSummary_def Let_def withField_def newErrorf_def firstCode_def ExitCode_def)
  next
    case (Inr texts)
    then have "br_failed run = 0" "encoded = texts" using facts by (auto simp: newBatchRun_def)
    then show ?thesis using False f Inr zip by (simp add: runSignBatch_def ExitCode_def del: upt_Suc)
  qed
qed

section \<open>The exit code of verify\<close>

definition passes :: "bool \<Rightarrow> VerificationReport \<Rightarrow> bool" where
  "passes allowUnsigned report \<longleftrightarrow>
     (\<forall>node \<in> set (vr_Nodes report). nv_Verdict node = VerdictVerified \<or> allowUnsigned \<and> nv_Verdict node = VerdictUnsigned)"

lemma verifyFailed_iff: "verifyFailed report allowUnsigned \<longleftrightarrow> \<not> passes allowUnsigned report"
  by (auto simp: verifyFailed_def passes_def list_ex_iff split: VerifyVerdict.splits)

lemma verifyOne_Inr_iff:
  "verifyOne S p v entry = Inr report \<longleftrightarrow> VerifyEntry S entry p = Inr report \<and> (v = 0 \<or> vr_ValidUntilLedger report = ucast v)"
  by (auto simp: verifyOne_def wrapCli_def bindE_Inr_iff if_Inl_iff split: sum.splits)

lemma verifyOne_Inl: "verifyOne S p v entry = Inl e \<Longrightarrow> ce_exitCode e = 4"
  by (auto simp: verifyOne_def wrapCli_def bindE_Inl_iff newErrorf_def ExitVerificationFailed_def split: sum.splits if_splits)

lemma mapE_Inl: "mapE f xs = Inl e \<Longrightarrow> \<exists>x \<in> set xs. f x = Inl e"
  by (induction xs) (auto simp: bindE_Inl_iff)

text \<open>
  C24: what exit code zero of \<open>verify\<close> says. The code is zero if and only if every entry of the input
  verifies without an error, an asserted expiration equals, in its low 32 bits, the one each entry carries,
  and every node of every entry is verified, or unsigned where that was allowed. Otherwise the code is
  4, or 1 for an envelope whose entries cannot be read.
\<close>

theorem cli_verify_exit_code:
  "(ExitCode (snd (runVerify S p v allow input)) = 0 \<longleftrightarrow>
      (\<exists>items reports. locateEntries input = Inr items \<and>
         list_all2 (\<lambda>item report. VerifyEntry S (fst item) p = Inr report \<and> (v = 0 \<or> vr_ValidUntilLedger report = ucast v) \<and>
           passes allow report) items reports)) \<and>
   ExitCode (snd (runVerify S p v allow input)) \<in> {0, 4, if isOk (locateEntries input) then 4 else 1}"
proof (cases "locateEntries input")
  case (Inl err)
  then show ?thesis by (simp add: runVerify_def wrapCli_def newErrorf_def ExitCode_def ExitGeneralError_def)
next
  case (Inr items)
  note items = Inr
  show ?thesis
  proof (cases "mapE (\<lambda>item. verifyOne S p v (fst item)) items")
    case (Inl e)
    obtain item where item: "item \<in> set items" "verifyOne S p v (fst item) = Inl e" using mapE_Inl [OF Inl] by blast
    have "\<not> list_all2 (\<lambda>item report. VerifyEntry S (fst item) p = Inr report \<and> (v = 0 \<or> vr_ValidUntilLedger report = ucast v) \<and>
        passes allow report) items reports" for reports
    proof
      assume "list_all2 (\<lambda>item report. VerifyEntry S (fst item) p = Inr report \<and> (v = 0 \<or> vr_ValidUntilLedger report = ucast v) \<and>
        passes allow report) items reports"
      then have "mapE (\<lambda>item. verifyOne S p v (fst item)) items = Inr reports"
        unfolding mapE_Inr_iff verifyOne_Inr_iff by (rule list_all2_mono) auto
      then show False using Inl by simp
    qed
    then show ?thesis using items Inl verifyOne_Inl [OF item(2)] by (simp add: runVerify_def wrapCli_def ExitCode_def)
  next
    case (Inr reports)
    then have r: "list_all2 (\<lambda>item report. VerifyEntry S (fst item) p = Inr report \<and> (v = 0 \<or> vr_ValidUntilLedger report = ucast v)) items reports"
      unfolding mapE_Inr_iff verifyOne_Inr_iff .
    have unique: "reports' = reports"
      if "list_all2 (\<lambda>item report. VerifyEntry S (fst item) p = Inr report \<and> (v = 0 \<or> vr_ValidUntilLedger report = ucast v) \<and>
         passes allow report) items reports'" for reports'
      using that r by (intro nth_equalityI) (auto simp: list_all2_conv_all_nth)
    have "(\<exists>reports'. list_all2 (\<lambda>item report. VerifyEntry S (fst item) p = Inr report \<and> (v = 0 \<or> vr_ValidUntilLedger report = ucast v) \<and>
         passes allow report) items reports') \<longleftrightarrow> (\<forall>report \<in> set reports. passes allow report)"
      using r unique by (auto simp: list_all2_conv_all_nth all_set_conv_all_nth) metis
    then show ?thesis
      using items Inr by (auto simp: runVerify_def wrapCli_def ExitCode_def ExitOK_def nodesError_def newErrorf_def
          ExitVerificationFailed_def list_ex_iff verifyFailed_iff)
  qed
qed

end
