(* ===== verification/Cli_Offline.thy ===== *)
theory Cli_Offline
  imports Cli_Properties Diff
begin

text \<open>
  The subcommands of the command line that need no key, from the resolved flags on: \<open>payload\<close>,
  \<open>delegates\<close>, \<open>diff\<close> and \<open>inspect\<close> (\<^verbatim>\<open>payload.go\<close>, \<^verbatim>\<open>delegates.go\<close>, \<^verbatim>\<open>diff.go\<close>, \<^verbatim>\<open>inspect.go\<close>), and
  what their batch modes share with that of \<open>verify\<close>: every line is reported, and the exit code is
  that of the first failure.
\<close>

section \<open>One entry\<close>

definition decodeEntryNamedFrom :: "sdk \<Rightarrow> string \<Rightarrow> string \<Rightarrow> gerr + string \<Rightarrow> cliError + SorobanAuthorizationEntry" where
  "decodeEntryNamedFrom S name value stdin =
     (if value = [] then Inl (usageError (name @ '' is required''))
      else
        bindE (wrapCli ExitUsageError (wrapE ''reading from stdin'' (resolveEntryArg value stdin))) (\<lambda>val.
        (case DecodeAuthorizationEntry S val [] of
           Inr entry \<Rightarrow> Inr entry
         | Inl err \<Rightarrow> Inl (newErrorf ExitUsageError (errw (''decoding '' @ name) (classifyInput val ''a Soroban authorization entry'' err))))))"

section \<open>payload\<close>

record payloadOutput =
  po_OperationIndex :: nat
  po_EntryIndex :: nat
  po_SourceAccount :: bool
  po_Preimage :: string
  po_Payload :: string

definition payloadExitCode :: "gerr \<Rightarrow> nat" where
  "payloadExitCode err =
     (if errors_Is err ErrSourceAccountCredentials \<or> errors_Is err ErrUnsupportedCredentials then ExitSigningRefusal
      else ExitVerificationFailed)"

text \<open>\<open>marshal\<close> is \<open>xdr.MarshalBase64\<close> on preimages; \<open>Inl\<close> is the report of a lone entry.\<close>

definition runPayloadEntry ::
  "sdk \<Rightarrow> (HashIdPreimage \<Rightarrow> gerr + string) \<Rightarrow> SorobanAuthorizationEntry \<Rightarrow> uint32 \<Rightarrow> string \<Rightarrow> cliError + (string \<times> string)" where
  "runPayloadEntry S marshal entry expiration passphrase =
     (case Preimage S entry expiration passphrase of
        Inl err \<Rightarrow> Inl (newErrorf (payloadExitCode err) err)
      | Inr preimage \<Rightarrow>
          bindE (wrapCli ExitGeneralError (Payload S preimage)) (\<lambda>payload.
          bindE (wrapCli ExitGeneralError (wrapE ''encoding the preimage'' (marshal preimage))) (\<lambda>encoded.
            Inr (encoded, hex payload))))"

text \<open>\<open>EnvelopePayloads\<close> gives a preimage to every entry that is not of the source account.\<close>

definition payloadItem :: "(HashIdPreimage \<Rightarrow> gerr + string) \<Rightarrow> EnvelopePayload \<Rightarrow> cliError + payloadOutput" where
  "payloadItem marshal payload =
     (let item = \<lparr>po_OperationIndex = vp_OperationIndex payload, po_EntryIndex = vp_EntryIndex payload,
                  po_SourceAccount = vp_SourceAccount payload, po_Preimage = [], po_Payload = []\<rparr> in
      if vp_SourceAccount payload then Inr item
      else
        bindE (wrapCli ExitGeneralError (wrapE ''encoding the preimage''
            (case vp_Preimage payload of None \<Rightarrow> Inl (errmsg ''no preimage'') | Some preimage \<Rightarrow> marshal preimage))) (\<lambda>encoded.
          Inr (item\<lparr>po_Preimage := encoded, po_Payload := hex (vp_Payload payload)\<rparr>)))"

definition runPayloadEnvelope ::
  "sdk \<Rightarrow> (HashIdPreimage \<Rightarrow> gerr + string) \<Rightarrow> TransactionEnvelope \<Rightarrow> uint32 \<Rightarrow> string \<Rightarrow> cliError + payloadOutput list" where
  "runPayloadEnvelope S marshal envelope validUntil passphrase =
     (case EnvelopePayloads S envelope validUntil passphrase of
        Inl err \<Rightarrow> Inl (newErrorf (payloadExitCode err) err)
      | Inr payloads \<Rightarrow> mapE (payloadItem marshal) payloads)"

definition runPayload ::
  "sdk \<Rightarrow> (HashIdPreimage \<Rightarrow> gerr + string) \<Rightarrow> uint32 \<Rightarrow> string \<Rightarrow> SorobanAuthorizationEntry + TransactionEnvelope \<Rightarrow>
     cliError + ((string \<times> string) + payloadOutput list)" where
  "runPayload S marshal expiration passphrase input =
     (case input of
        Inl entry \<Rightarrow> bindE (runPayloadEntry S marshal entry expiration passphrase) (\<lambda>out. Inr (Inl out))
      | Inr envelope \<Rightarrow> bindE (runPayloadEnvelope S marshal envelope expiration passphrase) (\<lambda>outs. Inr (Inr outs)))"

section \<open>delegates\<close>

definition delegatesExitCode :: "gerr \<Rightarrow> nat" where
  "delegatesExitCode err =
     (if list_ex (errors_Is err) [ErrUnsupportedCredentials, ErrAlreadySigned, ErrDuplicateDelegate] then ExitSigningRefusal
      else if errors_Is err ErrInvalidExpiration then ExitVerificationFailed
      else ExitGeneralError)"

text \<open>\<open>nested\<close> is the flag \<open>--nested-json\<close> as \<open>json.Unmarshal\<close> reads it, if it was given.\<close>

definition delegateTree :: "(gerr + Delegate list) option \<Rightarrow> string list \<Rightarrow> cliError + Delegate list" where
  "delegateTree nested delegates =
     (case nested of
        Some parsed \<Rightarrow> wrapCli ExitUsageError (wrapE ''invalid --nested-json'' parsed)
      | None \<Rightarrow>
          if delegates = [] then Inl (usageError ''at least one --delegate is required'')
          else Inr (map (\<lambda>address. Delegate address None []) delegates))"

definition runDelegates ::
  "sdk \<Rightarrow> cliLib \<Rightarrow> uint32 \<Rightarrow> (gerr + Delegate list) option \<Rightarrow> string list \<Rightarrow> SorobanAuthorizationEntry \<Rightarrow> cliError + string" where
  "runDelegates S L expiration nested delegates entry =
     bindE (delegateTree nested delegates) (\<lambda>tree.
     case WithDelegates S entry expiration tree None of
       Inl err \<Rightarrow> Inl (newErrorf (delegatesExitCode err) err)
     | Inr wrapped \<Rightarrow> wrapCli ExitGeneralError (encodeEntry L wrapped))"

section \<open>diff\<close>

definition staleError :: "EntryDiff \<Rightarrow> cliError option" where
  "staleError report =
     (if length (df_StaleSignatures report) > 0
      then Some (newErrorf ExitVerificationFailed (errmsg (itoa (length (df_StaleSignatures report)) @
             '' signature(s) carried over unchanged across a payload change'')))
      else None)"

definition runDiff ::
  "sdk \<Rightarrow> string \<Rightarrow> string \<Rightarrow> gerr + string \<Rightarrow> EntryDiff option \<times> cliError option" where
  "runDiff S beforeFlag afterFlag stdin =
     (case (if beforeFlag = [] then Inl (usageError ''--before or --before-entries is required'')
            else if afterFlag = [] then Inl (usageError ''--after or --after-entries is required'')
            else if beforeFlag = ''-'' \<and> afterFlag = ''-''
            then Inl (usageError ''only one of --before and --after can be read from stdin'')
            else
              bindE (decodeEntryNamedFrom S ''--before'' beforeFlag stdin) (\<lambda>before.
              bindE (decodeEntryNamedFrom S ''--after'' afterFlag stdin) (\<lambda>after.
                wrapCli ExitGeneralError (DiffEntries S before after)))) of
        Inl err \<Rightarrow> (None, Some err)
      | Inr report \<Rightarrow> (Some report, staleError report))"

definition labelBatchError :: "string \<Rightarrow> cliError \<Rightarrow> cliError" where
  "labelBatchError flagName err = newErrorf (ExitCode (Some err)) (errw flagName (ce_err err)) \<lparr>ce_field := ce_field err\<rparr>"

definition labelled :: "string \<Rightarrow> cliError + 'a \<Rightarrow> cliError + 'a" where
  "labelled flagName m = (case m of Inl err \<Rightarrow> Inl (labelBatchError flagName err) | Inr x \<Rightarrow> Inr x)"

text \<open>One pair, with its position.\<close>

definition diffPair :: "sdk \<Rightarrow> nat \<times> batchInput \<times> batchInput \<Rightarrow> cliError + EntryDiff" where
  "diffPair S = (\<lambda>(i, before, after).
     bindE (labelled ''--before-entries'' (bi_Entry before)) (\<lambda>a.
     bindE (labelled ''--after-entries'' (bi_Entry after)) (\<lambda>b.
       wrapCli ExitGeneralError (DiffEntries S a b))))"

definition diffStep ::
  "sdk \<Rightarrow> cliLib \<Rightarrow> nat \<times> batchInput \<times> batchInput \<Rightarrow> EntryDiff batchRun \<Rightarrow> EntryDiff batchRun" where
  "diffStep S L pair run =
     (case diffPair S pair of
        Inl failure \<Rightarrow> batch_fail L (fst pair) failure run
      | Inr report \<Rightarrow>
          batch_result (fst pair) report
            (case staleError report of None \<Rightarrow> run | Some err \<Rightarrow> recordFailure err run))"

definition diffPairs :: "batchInput list \<Rightarrow> batchInput list \<Rightarrow> (nat \<times> batchInput \<times> batchInput) list" where
  "diffPairs befores afters = zip [1..<length befores + 1] (zip befores afters)"

definition runDiffBatch ::
  "sdk \<Rightarrow> cliLib \<Rightarrow> string \<Rightarrow> string \<Rightarrow> cliError + batchInput list \<Rightarrow> cliError + batchInput list \<Rightarrow>
     (nat \<times> EntryDiff batchOutcome) list \<times> cliError option" where
  "runDiffBatch S L beforeName afterName readBefore readAfter =
     (case readBefore of Inl err \<Rightarrow> ([], Some err)
      | Inr befores \<Rightarrow>
        if length befores = 0 then ([], Some (emptyBatchError ''--before-entries'' beforeName))
        else (case readAfter of Inl err \<Rightarrow> ([], Some err)
          | Inr afters \<Rightarrow>
            if length afters = 0 then ([], Some (emptyBatchError ''--after-entries'' afterName))
            else if length befores \<noteq> length afters
            then ([], Some (usageError (''--before-entries ('' @ batchSourceName beforeName @ '') has '' @ itoa (length befores) @
                   '' entries but --after-entries ('' @ batchSourceName afterName @ '') has '' @ itoa (length afters) @
                   ''; batch diff compares them pairwise in order'')))
            else
              let run = fold (diffStep S L) (diffPairs befores afters) (newBatchRun (length befores)) in
              (br_results run, batch_summary run)))"

section \<open>inspect\<close>

text \<open>
  What \<open>inspect\<close> writes. The text form of an envelope's report ends in a run-time panic: the
  report is a slice of \<open>EnvelopeEntryInfo\<close>, and the printing asserts a slice of \<open>EntryInfo\<close>.
\<close>

datatype inspectOutput = InspectEntry EntryInfo | InspectEntries "EnvelopeEntryInfo list" | InspectText string | InspectPanic

definition runInspect ::
  "sdk \<Rightarrow> bool \<Rightarrow> SorobanAuthorizationEntry + TransactionEnvelope \<Rightarrow> cliError + inspectOutput" where
  "runInspect S textFlag input =
     (case input of
        Inr envelope \<Rightarrow>
          bindE (wrapCli ExitGeneralError (InspectEnvelope S envelope)) (\<lambda>infos.
            Inr (if textFlag then InspectPanic else InspectEntries infos))
      | Inl entry \<Rightarrow>
          bindE (wrapCli ExitGeneralError (Inspect S entry)) (\<lambda>info.
            Inr (if textFlag then InspectText (infoString info) else InspectEntry info)))"

definition inspectInput :: "sdk \<Rightarrow> batchInput \<Rightarrow> cliError + EntryInfo" where
  "inspectInput S input = bindE (bi_Entry input) (\<lambda>entry. wrapCli ExitGeneralError (Inspect S entry))"

definition inspectStep :: "sdk \<Rightarrow> cliLib \<Rightarrow> batchInput \<Rightarrow> EntryInfo batchRun \<Rightarrow> EntryInfo batchRun" where
  "inspectStep S L input run =
     (case inspectInput S input of
        Inl failure \<Rightarrow> batch_fail L (bi_Index input) failure run
      | Inr info \<Rightarrow> batch_result (bi_Index input) info run)"

definition runInspectBatch ::
  "sdk \<Rightarrow> cliLib \<Rightarrow> string \<Rightarrow> cliError + batchInput list \<Rightarrow> (nat \<times> EntryInfo batchOutcome) list \<times> cliError option" where
  "runInspectBatch S L entriesFlag read =
     (case read of Inl err \<Rightarrow> ([], Some err)
      | Inr inputs \<Rightarrow>
          if length inputs = 0 then ([], Some (emptyBatchError ''--entries'' entriesFlag))
          else
            let run = fold (inspectStep S L) inputs (newBatchRun (length inputs)) in
            (br_results run, batch_summary run))"

fun countDelegateNodes :: "NodeInfo list \<Rightarrow> nat" where
  "countDelegateNodes [] = 0"
| "countDelegateNodes (node # nodes) = 1 + countDelegateNodes (ni_Nested node) + countDelegateNodes nodes"

lemma inspect_text_of_envelope_panics:
  "InspectEnvelope S envelope = Inr infos \<Longrightarrow> runInspect S True (Inr envelope) = Inr InspectPanic"
  by (simp add: runInspect_def wrapCli_def)

section \<open>The contract of a batch\<close>

text \<open>
  A batch subcommand handles one input after the other: an error without a result, a result, or a
  result that still counts as a failure.
\<close>

locale batch_command =
  fixes L :: cliLib
    and position :: "'i \<Rightarrow> nat"
    and judge :: "'i \<Rightarrow> cliError + ('r \<times> cliError option)"
    and step :: "'i \<Rightarrow> 'r batchRun \<Rightarrow> 'r batchRun"
  assumes step_judge: "step i run =
    (case judge i of
       Inl e \<Rightarrow> batch_fail L (position i) e run
     | Inr (r, failure) \<Rightarrow> batch_result (position i) r (case failure of None \<Rightarrow> run | Some e \<Rightarrow> recordFailure e run))"
begin

definition failureOf :: "'i \<Rightarrow> cliError option" where
  "failureOf i = (case judge i of Inl e \<Rightarrow> Some e | Inr (r, failure) \<Rightarrow> failure)"

definition reportOf :: "'i \<Rightarrow> nat \<times> 'r batchOutcome" where
  "reportOf i = (position i, case judge i of Inl e \<Rightarrow> BatchError (machineError (ci_Flags L) e) | Inr (r, _) \<Rightarrow> BatchResult r)"

lemma step_select:
  "br_results (step i run) = br_results run @ [reportOf i]"
  "br_failed (step i run) = br_failed run + (if failureOf i = None then 0 else 1)"
  "br_first (step i run) = (if br_failed run = 0 \<and> failureOf i \<noteq> None then failureOf i else br_first run)"
  by (auto simp: step_judge failureOf_def reportOf_def batch_result_def batch_fail_def split: sum.splits option.splits)

lemma fold_results: "br_results (fold step is run) = br_results run @ map reportOf is"
  by (induction "is" arbitrary: run) (simp_all add: step_select)

lemma fold_failed: "br_failed (fold step is run) = 0 \<longleftrightarrow> br_failed run = 0 \<and> (\<forall>i \<in> set is. failureOf i = None)"
  by (induction "is" arbitrary: run) (auto simp: step_select)

lemma fold_first:
  "br_failed run > 0 \<Longrightarrow> br_first (fold step is run) = br_first run"
  "br_failed run = 0 \<Longrightarrow> br_first run = None \<Longrightarrow> br_first (fold step is run) = List.find (\<lambda>_. True) (List.map_filter failureOf is)"
proof (induction "is" arbitrary: run)
  case Nil
  case 1
  then show ?case by simp
next
  case Nil
  case 2
  then show ?case by (simp add: map_filter_simps)
next
  case (Cons i "is")
  case 1
  then show ?case using Cons.IH(1) [of "step i run"] by (simp add: step_select)
next
  case (Cons i "is")
  case 2
  then show ?case
    using Cons.IH [of "step i run"] by (cases "failureOf i") (simp_all add: step_select map_filter_simps)
qed

lemma batch_reports_all:
  "br_results (fold step is (newBatchRun n)) = map reportOf is"
  "ExitCode (batch_summary (fold step is (newBatchRun n))) =
     (case List.map_filter failureOf is of [] \<Rightarrow> ExitOK | e # _ \<Rightarrow> ce_exitCode e)"
proof -
  show "br_results (fold step is (newBatchRun n)) = map reportOf is" by (simp add: fold_results newBatchRun_def)
  have empty: "List.map_filter failureOf is = [] \<longleftrightarrow> (\<forall>i \<in> set is. failureOf i = None)"
    by (induction "is") (auto simp: map_filter_simps split: option.splits)
  show "ExitCode (batch_summary (fold step is (newBatchRun n))) =
     (case List.map_filter failureOf is of [] \<Rightarrow> ExitOK | e # _ \<Rightarrow> ce_exitCode e)"
    using fold_failed [of "is" "newBatchRun n"] fold_first(2) [of "newBatchRun n" "is"] empty
    by (cases "List.map_filter failureOf is")
      (auto simp: batch_summary_def newBatchRun_def firstCode_def ExitCode_def newErrorf_def)
qed

end

definition verifyJudge :: "sdk \<Rightarrow> string \<Rightarrow> 64 word \<Rightarrow> bool \<Rightarrow> batchInput \<Rightarrow> cliError + (entryOutput \<times> cliError option)" where
  "verifyJudge S passphrase v allowUnsigned input =
     bindE (bindE (bi_Entry input) (verifyOne S passphrase v)) (\<lambda>report.
       Inr (newEntryOutput report, if verifyFailed report allowUnsigned then Some nodesError else None))"

interpretation verify_batch: batch_command L bi_Index "verifyJudge S passphrase v allowUnsigned" "verifyStep S L passphrase v allowUnsigned"
  for S L passphrase v allowUnsigned
  by unfold_locales (auto simp: verifyStep_def verifyJudge_def split: sum.splits)

interpretation inspect_batch: batch_command L bi_Index "\<lambda>input. bindE (inspectInput S input) (\<lambda>info. Inr (info, None))" "inspectStep S L"
  for S L
  by unfold_locales (auto simp: inspectStep_def split: sum.splits)

interpretation diff_batch: batch_command L fst "\<lambda>pair. bindE (diffPair S pair) (\<lambda>report. Inr (report, staleError report))" "diffStep S L"
  for S L
  by unfold_locales (auto simp: diffStep_def split: sum.splits)

text \<open>
  A batch comparison reports every pair in order, each with its result or its error, and succeeds
  exactly when every pair was compared and none has a stale signature.
\<close>

lemma diff_batch_exact:
  assumes "befores \<noteq> []" "length befores = length afters"
  shows "map fst (fst (runDiffBatch S L bn an (Inr befores) (Inr afters))) = [1..<length befores + 1]"
    "snd (runDiffBatch S L bn an (Inr befores) (Inr afters)) = None \<longleftrightarrow>
       (\<forall>pair \<in> set (diffPairs befores afters). \<exists>report. diffPair S pair = Inr report \<and> df_StaleSignatures report = [])"
proof -
  let ?run = "fold (diffStep S L) (diffPairs befores afters) (newBatchRun (length befores))"
  have run: "runDiffBatch S L bn an (Inr befores) (Inr afters) = (br_results ?run, batch_summary ?run)"
    using assms by (auto simp: runDiffBatch_def Let_def)
  have "map fst (diffPairs befores afters) = [1..<length befores + 1]"
    using assms(2) by (simp add: diffPairs_def del: upt_Suc)
  then show "map fst (fst (runDiffBatch S L bn an (Inr befores) (Inr afters))) = [1..<length befores + 1]"
    unfolding run fst_conv diff_batch.batch_reports_all(1) by (simp add: diff_batch.reportOf_def comp_def)
  have "diff_batch.failureOf S pair = None \<longleftrightarrow> (\<exists>report. diffPair S pair = Inr report \<and> df_StaleSignatures report = [])" for pair
    unfolding diff_batch.failureOf_def by (auto simp: staleError_def bindE_Inr_iff split: sum.splits if_splits)
  then show "snd (runDiffBatch S L bn an (Inr befores) (Inr afters)) = None \<longleftrightarrow>
       (\<forall>pair \<in> set (diffPairs befores afters). \<exists>report. diffPair S pair = Inr report \<and> df_StaleSignatures report = [])"
    using diff_batch.fold_failed [of S L "diffPairs befores afters" "newBatchRun (length befores)"]
    unfolding run by (simp add: batch_summary_def newBatchRun_def)
qed

text \<open>
  What \<open>payload\<close> prints is what a signing call asks the signer to sign: when the command reports a
  preimage and a payload for an entry, the call at the same expiration and network hands the
  signer that preimage and payload.
\<close>

lemma payload_is_what_is_signed:
  assumes "runPayloadEntry S marshal entry v net = Inr (encoded, text)" "copyEntry S entry = Inr entry"
    and "authorized S None entry (Some sg) v net opts = Inr signedE"
  shows "\<exists>preimage payload sig. sg_Sign sg None preimage payload = Inr sig \<and> marshal preimage = Inr encoded \<and> text = hex payload"
proof -
  obtain preimage payload where p: "Preimage S entry v net = Inr preimage" "Payload S preimage = Inr payload"
    "marshal preimage = Inr encoded" "text = hex payload"
    using assms(1) by (auto simp: runPayloadEntry_def wrapCli_def bindE_Inr_iff split: sum.splits)
  have "cr_Type (en_Credentials entry) \<noteq> CredentialsSourceAccount"
    using p(1) by (auto simp: Preimage_def buildPreimage_def bindE_Inr_iff sourceAccountArm_def if_Inl_iff Let_def)
  then obtain sig where "sg_Sign sg None preimage payload = Inr sig"
    using assms(2,3) p(1,2)
    by (auto simp: AuthorizeEntry_def Let_def authorizeGuards_def bindE_Inr_iff if_Inl_iff split: sum.splits)
  then show ?thesis using p by blast
qed

end
