(* ===== verification/Tree_Render.thy ===== *)
theory Tree_Render
  imports Inspection Arms Diff
begin

text \<open>
  The drawings of \<^verbatim>\<open>src/treerender.go\<close>: the delegate tree as ASCII and as a Graphviz graph, and
  the invocation tree as ASCII; and the table of \<^verbatim>\<open>src/protocolmatrix.go\<close>. A drawing is its text;
  the connectors are those of \<^verbatim>\<open>inspect.go\<close>. The laws say that the graph declares every node of
  the tree once, under an identifier of its own, and which invocation trees are drawn at all.
\<close>

section \<open>The delegate tree as text\<close>

definition treeLabel :: "string \<Rightarrow> bool \<Rightarrow> string" where
  "treeLabel address hasSig =
     (if address = [] then ''(no address)'' else address) @ '' ('' @ (if hasSig then ''signed'' else ''unsigned'') @ '')''"

definition treeSuffix :: "EntryInfo \<Rightarrow> string" where
  "treeSuffix info =
     (if ei_CredentialType info = ''address_with_delegates'' then [] else '' ['' @ ei_CredentialType info @ '']'')"

fun writeASCIINodes :: "NodeInfo list \<Rightarrow> string \<Rightarrow> string" where
  "writeASCIINodes [] prefix = []"
| "writeASCIINodes (node # nodes) prefix =
     (let isLast = (nodes = []);
          connector = (if isLast then lastConnector else teeConnector);
          nextPrefix = prefix @ (if isLast then ''    '' else barPrefix)
      in prefix @ connector @ treeLabel (ni_Address node) (ni_Signed node) @ [CHR 0x0A] @
         writeASCIINodes (ni_Nested node) nextPrefix @ writeASCIINodes nodes prefix)"

definition DelegateTreeASCII :: "EntryInfo \<Rightarrow> string" where
  "DelegateTreeASCII info =
     treeLabel (ei_Address info) (ei_TopLevelSigned info) @ treeSuffix info @ [CHR 0x0A] @ writeASCIINodes (ei_Delegates info) []"

section \<open>The delegate tree as a graph\<close>

definition writeDOTNode :: "string \<Rightarrow> string \<Rightarrow> bool \<Rightarrow> string" where
  "writeDOTNode nodeID address hasSig =
     (let label = (if address = [] then ''(no address)'' else address);
          fill = (if hasSig then ''palegreen3'' else ''white''); color = (if hasSig then ''palegreen4'' else ''grey60'')
      in ''  '' @ nodeID @ '' [label='' @ strconv_Quote label @ '', style=filled, fillcolor='' @ strconv_Quote fill @
         '', color='' @ strconv_Quote color @ ''];'' @ [CHR 0x0A])"

definition writeDOTEdge :: "string \<Rightarrow> string \<Rightarrow> string" where
  "writeDOTEdge parentID nodeID = ''  '' @ parentID @ '' -> '' @ nodeID @ '';'' @ [CHR 0x0A]"

text \<open>\<open>i\<close> is the loop index.\<close>

fun writeDOTNodes :: "string \<Rightarrow> nat \<Rightarrow> NodeInfo list \<Rightarrow> string" where
  "writeDOTNodes parentID i [] = []"
| "writeDOTNodes parentID i (node # nodes) =
     (let nodeID = parentID @ ''_'' @ itoa i
      in writeDOTNode nodeID (ni_Address node) (ni_Signed node) @ writeDOTEdge parentID nodeID @
         writeDOTNodes nodeID 0 (ni_Nested node) @ writeDOTNodes parentID (Suc i) nodes)"

definition dotHeader :: string where
  "dotHeader = ''digraph delegates {'' @ [CHR 0x0A] @ ''  rankdir=TB;'' @ [CHR 0x0A] @
     ''  node [shape=box, fontname='' @ strconv_Quote ''monospace'' @ ''];'' @ [CHR 0x0A, CHR 0x0A]"

definition DelegateTreeDOT :: "EntryInfo \<Rightarrow> string" where
  "DelegateTreeDOT info =
     dotHeader @ writeDOTNode ''n0'' (ei_Address info) (ei_TopLevelSigned info) @
     writeDOTNodes ''n0'' 0 (ei_Delegates info) @ ''}'' @ [CHR 0x0A]"

section \<open>The invocation tree\<close>

text \<open>Go's conversion of an integer to a string: the UTF-8 form of that code point.\<close>

definition runeString :: "nat \<Rightarrow> string" where
  "runeString n =
     (let cont = (\<lambda>m. char_of (0x80 + m mod 64)); invalid = [CHR 0xEF, CHR 0xBF, CHR 0xBD] in
      if n < 0x80 then [char_of n]
      else if n < 0x800 then [char_of (0xC0 + n div 64), cont n]
      else if 0xD800 \<le> n \<and> n < 0xE000 then invalid
      else if n < 0x10000 then [char_of (0xE0 + n div 4096), cont (n div 64), cont n]
      else if n < 0x110000 then [char_of (0xF0 + n div 262144), cont (n div 4096), cont (n div 64), cont n]
      else invalid)"

definition invocationLabel :: "sdk \<Rightarrow> SorobanAuthorizedInvocation \<Rightarrow> string" where
  "invocationLabel S invocation =
     (case inv_Function invocation of
        FnContractFn None \<Rightarrow> ''contract_fn''
      | FnContractFn (Some args) \<Rightarrow>
          (case FormatAddress S (ica_ContractAddress args) of
             Inl _ \<Rightarrow> ica_FunctionName args
           | Inr contract \<Rightarrow> ica_FunctionName args @ '' ('' @ contract @ '')'')
      | f \<Rightarrow> runeString (functionType f))"

lemma size_SubInvocations_odd: "Suc (2 * size_list size (inv_SubInvocations n)) < 2 * size n"
  using size_SubInvocations [of n] by linarith

function (sequential) writeInvocation ::
    "sdk \<Rightarrow> SorobanAuthorizedInvocation \<Rightarrow> string \<Rightarrow> bool \<Rightarrow> nat \<Rightarrow> gerr + string"
  and writeSubInvocations :: "sdk \<Rightarrow> SorobanAuthorizedInvocation list \<Rightarrow> string \<Rightarrow> nat \<Rightarrow> gerr + string" where
  "writeInvocation S invocation prefix isLast depth =
     bindE (checkTraversalDepth depth) (\<lambda>_.
     bindE (writeSubInvocations S (inv_SubInvocations invocation) (prefix @ (if isLast then ''    '' else barPrefix)) (depth + 1)) (\<lambda>subs.
       Inr (prefix @ (if isLast then lastConnector else teeConnector) @ invocationLabel S invocation @ [CHR 0x0A] @ subs)))"
| "writeSubInvocations S [] prefix depth = Inr []"
| "writeSubInvocations S (invocation # invocations) prefix depth =
     bindE (writeInvocation S invocation prefix (invocations = []) depth) (\<lambda>drawn.
     bindE (writeSubInvocations S invocations prefix depth) (\<lambda>rest. Inr (drawn @ rest)))"
  by pat_completeness auto
termination
  by (relation "measure (case_sum (\<lambda>(S, n, p, l, d). 2 * size n) (\<lambda>(S, ns, p, d). 2 * size_list size ns + 1))")
    (auto simp: size_SubInvocations_odd)

declare writeInvocation.simps [simp del]

definition InvocationTreeASCII :: "sdk \<Rightarrow> SorobanAuthorizedInvocation \<Rightarrow> gerr + string" where
  "InvocationTreeASCII S root = writeInvocation S root [] True 1"

section \<open>The protocol matrix\<close>

definition ArmProtocolVersion :: "string \<rightharpoonup> int" where
  "ArmProtocolVersion =
     [''source_account'' \<mapsto> 20, ''address'' \<mapsto> 20, ''address_v2'' \<mapsto> 27, ''address_with_delegates'' \<mapsto> 27]"

text \<open>The table names exactly the registered arms, and protocol 27 is needed by the address-bound ones alone.\<close>

lemma protocol_matrix_covers_arms:
  "dom ArmProtocolVersion = dom armBehaviors"
  "armBehaviors arm = Some b \<Longrightarrow> ArmProtocolVersion arm = Some (if ab_IsAddressBound b then 27 else 20)"
  by (auto simp: ArmProtocolVersion_def armBehaviors_def arm_defs split: if_splits)

section \<open>Identifiers of the graph\<close>

text \<open>The identifier of the node reached by the child positions \<open>p\<close>, and the nodes with their positions in the order drawn.\<close>

definition dotID :: "nat list \<Rightarrow> string" where
  "dotID p = ''n0'' @ concat (map (\<lambda>i. ''_'' @ itoa i) p)"

fun dotPaths :: "nat list \<Rightarrow> nat \<Rightarrow> NodeInfo list \<Rightarrow> (nat list \<times> NodeInfo) list" where
  "dotPaths p i [] = []"
| "dotPaths p i (node # nodes) = (p @ [i], node) # dotPaths (p @ [i]) 0 (ni_Nested node) @ dotPaths p (Suc i) nodes"

definition dotStatement :: "nat list \<times> NodeInfo \<Rightarrow> string" where
  "dotStatement = (\<lambda>(p, node). writeDOTNode (dotID p) (ni_Address node) (ni_Signed node) @ writeDOTEdge (dotID (butlast p)) (dotID p))"

lemma digitsVal_no_underscore: "CHR ''_'' \<in> set cs \<Longrightarrow> digitsVal acc cs = None"
  by (induction acc cs rule: digitsVal.induct) (auto simp: digitVal_def Let_def split: option.splits)

lemma itoa_no_underscore: "CHR ''_'' \<notin> set (itoa n)"
  using digitsVal_no_underscore [of "itoa n" 0] digitsVal_itoa [of n] by auto

lemma itoa_inject [simp]: "itoa m = itoa n \<longleftrightarrow> m = n"
  by (metis digitsVal_itoa option.inject)

lemma itoa_append_inject:
  assumes "itoa m @ xs = itoa n @ ys" "xs = [] \<or> hd xs = CHR ''_''" "ys = [] \<or> hd ys = CHR ''_''"
  shows "m = n \<and> xs = ys"
proof -
  have "takeWhile (\<lambda>c. c \<noteq> CHR ''_'') (itoa k @ zs) = itoa k" if "zs = [] \<or> hd zs = CHR ''_''" for k zs
  proof -
    have "\<forall>c \<in> set (itoa k). c \<noteq> CHR ''_''" using itoa_no_underscore by auto
    then show ?thesis using that by (cases zs) (simp_all add: takeWhile_append2)
  qed
  from this [OF assms(2), of m] this [OF assms(3), of n] have "itoa m = itoa n" using assms(1) by simp
  then show ?thesis using assms(1) by simp
qed

lemma concat_ids_hd: "concat (map (\<lambda>i. ''_'' @ itoa i) p) = [] \<or> hd (concat (map (\<lambda>i. ''_'' @ itoa i) p)) = CHR ''_''"
  by (cases p) simp_all

lemma concat_ids_inject: "concat (map (\<lambda>i. ''_'' @ itoa i) p) = concat (map (\<lambda>i. ''_'' @ itoa i) q) \<Longrightarrow> p = q"
proof (induction p arbitrary: q)
  case Nil
  then show ?case by (cases q) simp_all
next
  case (Cons i p)
  then obtain j q' where q: "q = j # q'" by (cases q) simp_all
  then show ?case
    using Cons itoa_append_inject [OF _ concat_ids_hd concat_ids_hd, of i p j q'] by simp
qed

lemma dotID_inject [simp]: "dotID p = dotID q \<longleftrightarrow> p = q"
  using concat_ids_inject by (auto simp: dotID_def)

lemma dotPaths_below: "(q, node) \<in> set (dotPaths p i nodes) \<Longrightarrow> \<exists>j r. i \<le> j \<and> q = p @ j # r"
proof (induction p i nodes arbitrary: q rule: dotPaths.induct)
  case (1 p i)
  then show ?case by simp
next
  case (2 p i n nodes)
  from 2(3) consider "q = p @ [i]" | "(q, node) \<in> set (dotPaths (p @ [i]) 0 (ni_Nested n))" | "(q, node) \<in> set (dotPaths p (Suc i) nodes)"
    by auto
  then show ?case
  proof cases
    case 2
    then show ?thesis using "2.IH"(1) by fastforce
  next
    case 3
    then show ?thesis using "2.IH"(2) by (meson Suc_leD)
  qed auto
qed

lemma dotPaths_distinct: "distinct (map fst (dotPaths p i nodes))"
proof (induction p i nodes rule: dotPaths.induct)
  case (1 p i)
  then show ?case by simp
next
  case (2 p i n nodes)
  have "p @ [i] \<notin> fst ` set (dotPaths (p @ [i]) 0 (ni_Nested n))" "p @ [i] \<notin> fst ` set (dotPaths p (Suc i) nodes)"
    using dotPaths_below [of "p @ [i]"] by (fastforce dest!: dotPaths_below)+
  moreover have "fst ` set (dotPaths (p @ [i]) 0 (ni_Nested n)) \<inter> fst ` set (dotPaths p (Suc i) nodes) = {}"
    by (fastforce dest!: dotPaths_below)
  ultimately show ?case using 2 by simp
qed

lemma writeDOTNodes_statements: "writeDOTNodes (dotID p) i nodes = concat (map dotStatement (dotPaths p i nodes))"
proof (induction p i nodes rule: dotPaths.induct)
  case (1 p i)
  then show ?case by simp
next
  case (2 p i n nodes)
  have "dotID p @ ''_'' @ itoa i = dotID (p @ [i])" by (simp add: dotID_def)
  then show ?case using 2 by (simp add: dotStatement_def Let_def)
qed

fun preorder :: "NodeInfo list \<Rightarrow> NodeInfo list" where
  "preorder [] = []"
| "preorder (node # nodes) = node # preorder (ni_Nested node) @ preorder nodes"

lemma dotPaths_nodes: "map snd (dotPaths p i nodes) = preorder nodes"
  by (induction p i nodes rule: dotPaths.induct) simp_all

text \<open>
  The graph draws the tree: after the root it has one node statement and one edge from the parent
  for every delegate, in the order of the tree, and no two nodes share an identifier, so one
  address at several places is drawn as several nodes.
\<close>

lemma dot_draws_tree:
  "DelegateTreeDOT info =
     dotHeader @ writeDOTNode (dotID []) (ei_Address info) (ei_TopLevelSigned info) @
     concat (map dotStatement (dotPaths [] 0 (ei_Delegates info))) @ ''}'' @ [CHR 0x0A]"
  "map snd (dotPaths [] 0 (ei_Delegates info)) = preorder (ei_Delegates info)"
  "distinct (dotID [] # map (dotID \<circ> fst) (dotPaths [] 0 (ei_Delegates info)))"
proof -
  show "DelegateTreeDOT info =
     dotHeader @ writeDOTNode (dotID []) (ei_Address info) (ei_TopLevelSigned info) @
     concat (map dotStatement (dotPaths [] 0 (ei_Delegates info))) @ ''}'' @ [CHR 0x0A]"
    using writeDOTNodes_statements [of "[]" 0 "ei_Delegates info"] by (simp add: DelegateTreeDOT_def dotID_def)
  show "map snd (dotPaths [] 0 (ei_Delegates info)) = preorder (ei_Delegates info)" by (rule dotPaths_nodes)
  have "distinct (map dotID (map fst (dotPaths [] 0 (ei_Delegates info))))"
    by (subst distinct_map) (simp add: dotPaths_distinct inj_on_def)
  moreover have "[] \<notin> fst ` set (dotPaths [] 0 (ei_Delegates info))" by (auto dest!: dotPaths_below)
  ultimately show "distinct (dotID [] # map (dotID \<circ> fst) (dotPaths [] 0 (ei_Delegates info)))" by force
qed

section \<open>Which invocation trees are drawn\<close>

lemma isOk_writeSubInvocations:
  "isOk (writeSubInvocations S invocations prefix d) \<longleftrightarrow>
     (\<forall>i < length invocations. isOk (writeInvocation S (invocations ! i) prefix (Suc i = length invocations) d))"
proof (induction invocations)
  case Nil
  then show ?case by simp
next
  case (Cons invocation invocations)
  then show ?case by (auto simp: isOk_bindE isOk_iff bindE_Inr_iff All_less_Suc2)
qed

lemma writeInvocation_ok_iff:
  "isOk (writeInvocation S invocation prefix isLast d) \<longleftrightarrow> fits inv_SubInvocations (\<lambda>_. True) (65 - d) [invocation]"
proof (induction "65 - d" arbitrary: d invocation prefix isLast)
  case 0
  then show ?case by (simp add: writeInvocation.simps checkTraversalDepth_def MaxDecodeDepth_def)
next
  case (Suc k)
  then have d: "d \<le> 64" "k = 65 - Suc d" by auto
  have level: "fits inv_SubInvocations (\<lambda>_. True) k ns \<longleftrightarrow> (\<forall>n \<in> set ns. fits inv_SubInvocations (\<lambda>_. True) k [n])" for ns
    by (cases k) (auto simp: list_all_iff)
  have subs: "isOk (writeSubInvocations S (inv_SubInvocations invocation) p (Suc d)) \<longleftrightarrow> fits inv_SubInvocations (\<lambda>_. True) k (inv_SubInvocations invocation)" for p
    unfolding level [of "inv_SubInvocations invocation"] isOk_writeSubInvocations
    by (simp only: Suc.hyps(1) [OF d(2)] d(2) [symmetric] all_set_conv_all_nth)
  have "isOk (writeInvocation S invocation prefix isLast d) \<longleftrightarrow>
      isOk (writeSubInvocations S (inv_SubInvocations invocation) (prefix @ (if isLast then ''    '' else barPrefix)) (Suc d))"
    using d(1) by (simp add: writeInvocation.simps isOk_bindE isOk_iff bindE_Inr_iff MaxDecodeDepth_def)
  then show ?case using subs Suc.hyps(2) [symmetric] by simp
qed

lemma writeInvocation_error:
  "writeInvocation S invocation prefix isLast d = Inl e \<Longrightarrow> errors_Is e ErrDecodeLimit"
  "writeSubInvocations S invocations prefix d = Inl e \<Longrightarrow> errors_Is e ErrDecodeLimit"
  by (induction S invocation prefix isLast d and S invocations prefix d arbitrary: e and e rule: writeInvocation_writeSubInvocations.induct)
    (auto simp: writeInvocation.simps bindE_Inl_iff checkTraversalDepth_def split: if_splits)

text \<open>
  Exactly the invocation trees of at most 64 levels are drawn; a deeper one is refused with the
  decode limit. The count of sub-invocations accepts one level less, because its guard also runs
  for the empty level under a leaf.
\<close>

lemma invocation_tree_drawn_iff:
  "isOk (InvocationTreeASCII S root) \<longleftrightarrow> fits inv_SubInvocations (\<lambda>_. True) 64 [root]"
  "\<not> isOk (InvocationTreeASCII S root) \<Longrightarrow> failsWith (InvocationTreeASCII S root) ErrDecodeLimit"
  using writeInvocation_ok_iff [of S root "[]" True 1] writeInvocation_error(1) [of S root "[]" True 1]
  by (auto simp: InvocationTreeASCII_def failsWith_def isOk_iff split: sum.splits)

end
