(* ===== verification/C_Abi.thy ===== *)
theory C_Abi
  imports Tree_Render Risk Http Base64 Sample_Sdk
begin

text \<open>
  The C interface (\<^verbatim>\<open>src/bindings/c/soroauth.go\<close>) that the language bindings build on. A C string is
  an optional text (\<open>NULL\<close> is \<open>None\<close>), a \<open>long long\<close> a 64-bit word, and an answer the envelope
  before it is printed as JSON. The allocation of the strings is not modelled. The property is
  about the two ways to sign: with a seed, and in two calls around an external signer.
\<close>

section \<open>The envelope\<close>

record c_result =
  re_OK :: bool
  re_Error :: string
  re_Kind :: string
  re_PreimageXDR :: string
  re_PayloadHex :: string
  re_EntryB64 :: string
  re_Info :: "EntryInfo option"
  re_Findings :: "Finding list option"
  re_Tree :: string

definition kindNames :: "(sentinel \<times> string) list" where
  "kindNames =
     [(ErrSourceAccountCredentials, ''SOURCE_ACCOUNT_CREDENTIALS''), (ErrUnsupportedCredentials, ''UNSUPPORTED_CREDENTIALS''),
      (ErrNoMatchingCredentialNode, ''NO_MATCHING_CREDENTIAL_NODE''), (ErrDuplicateDelegate, ''DUPLICATE_DELEGATE''),
      (ErrSignatureMismatch, ''SIGNATURE_MISMATCH''), (ErrMissingSigner, ''MISSING_SIGNER''), (ErrAlreadySigned, ''ALREADY_SIGNED''),
      (ErrInvalidExpiration, ''INVALID_EXPIRATION''), (ErrTooManySignatures, ''TOO_MANY_SIGNATURES''), (ErrDecodeLimit, ''DECODE_LIMIT'')]"

definition kindOf :: "gerr option \<Rightarrow> string" where
  "kindOf erro =
     (case erro of None \<Rightarrow> []
      | Some err \<Rightarrow> (case find (\<lambda>k. errors_Is err (fst k)) kindNames of None \<Rightarrow> ''ERROR'' | Some k \<Rightarrow> snd k))"

definition emptyResult :: "bool \<Rightarrow> c_result" where
  "emptyResult b = \<lparr>re_OK = b, re_Error = [], re_Kind = [], re_PreimageXDR = [], re_PayloadHex = [], re_EntryB64 = [],
     re_Info = None, re_Findings = None, re_Tree = []\<rparr>"

definition okResult :: "(c_result \<Rightarrow> c_result) \<Rightarrow> c_result" where
  "okResult f = f (emptyResult True)"

definition failResult :: "gerr \<Rightarrow> c_result" where
  "failResult err = (emptyResult False)\<lparr>re_Error := error_text err, re_Kind := kindOf (Some err)\<rparr>"

text \<open>The early returns: the answer of a computation that may fail.\<close>

definition answerWith :: "('a \<Rightarrow> c_result \<Rightarrow> c_result) \<Rightarrow> gerr + 'a \<Rightarrow> c_result" where
  "answerWith store m = (case m of Inl err \<Rightarrow> failResult err | Inr x \<Rightarrow> okResult (store x))"

definition goString :: "string option \<Rightarrow> string" where
  "goString s = (case s of None \<Rightarrow> [] | Some t \<Rightarrow> t)"

definition ledgerOf :: "64 word \<Rightarrow> uint32" where
  "ledgerOf w = ucast w"

section \<open>Helpers\<close>

text \<open>The SDK's decoders of a base64 preimage and signature, and \<open>keypair.FromRawSeed\<close>.\<close>

record cAbiLib =
  ca_Preimage_SafeUnmarshalBase64 :: "string \<Rightarrow> gerr + HashIdPreimage"
  ca_ScVal_SafeUnmarshalBase64 :: "string \<Rightarrow> gerr + ScVal"
  ca_FromRawSeed :: "bytes \<Rightarrow> gerr + ed25519Keypair"

definition c_decodeEntry :: "sdk \<Rightarrow> string \<Rightarrow> gerr + SorobanAuthorizationEntry" where
  "c_decodeEntry S b64 = wrapE ''soroauth: c abi: decoding entry'' (DecodeAuthorizationEntry S b64 [])"

definition c_encodeEntry :: "sdk \<Rightarrow> SorobanAuthorizationEntry \<Rightarrow> gerr + string" where
  "c_encodeEntry S entry =
     bindE (wrapE ''soroauth: c abi: encoding entry'' (Entry_MarshalBinary S entry)) (\<lambda>raw. Inr (base64_EncodeToString raw))"

definition c_options :: "string \<Rightarrow> AuthorizeOption list" where
  "c_options forAddress = (if forAddress = [] then [] else [ForAddress forAddress])"

definition requirePassphrase :: "string \<Rightarrow> gerr + unit" where
  "requirePassphrase passphrase =
     (if passphrase = [] then Inl (errmsg ''soroauth: c abi: network passphrase must not be empty'') else Inr ())"

definition topLevelAddress :: "sdk \<Rightarrow> SorobanAuthorizationEntry \<Rightarrow> gerr + string" where
  "topLevelAddress S entry =
     (case cr_Type (en_Credentials entry) of
        CredentialsAddress \<Rightarrow>
          (case cr_Address (en_Credentials entry) of
             None \<Rightarrow> Inl (errmsg ''soroauth: c abi: entry has no address'') | Some a \<Rightarrow> FormatAddress S (ac_Address a))
      | CredentialsAddressV2 \<Rightarrow>
          (case cr_AddressV2 (en_Credentials entry) of
             None \<Rightarrow> Inl (errmsg ''soroauth: c abi: entry has no v2 address'') | Some a \<Rightarrow> FormatAddress S (ac_Address a))
      | CredentialsAddressWithDelegates \<Rightarrow>
          (case cr_AddressWithDelegates (en_Credentials entry) of
             None \<Rightarrow> Inl (errmsg ''soroauth: c abi: entry has no delegate address'')
           | Some w \<Rightarrow> FormatAddress S (ac_Address (wd_AddressCredentials w)))
      | _ \<Rightarrow> Inl (errmsg ''soroauth: c abi: unsupported credential type''))"

definition c_target :: "sdk \<Rightarrow> SorobanAuthorizationEntry \<Rightarrow> string \<Rightarrow> gerr + string" where
  "c_target S entry forAddress = (if forAddress = [] then topLevelAddress S entry else Inr forAddress)"

definition decodeSeed :: "cAbiLib \<Rightarrow> string \<Rightarrow> gerr + ed25519Keypair" where
  "decodeSeed A seedHex =
     bindE (wrapE ''soroauth: c abi: decoding seed'' (decodeHex (TrimSpace seedHex))) (\<lambda>seedBytes.
     if length seedBytes \<noteq> 32
     then Inl (errmsg (''soroauth: c abi: seed must be 32 bytes, got '' @ itoa (length seedBytes)))
     else wrapE ''soroauth: c abi: deriving keypair'' (ca_FromRawSeed A seedBytes))"

text \<open>\<open>strings.Split\<close> at a comma: the fields, at least one.\<close>

fun splitComma :: "string \<Rightarrow> string \<Rightarrow> string list" where
  "splitComma acc [] = [acc]"
| "splitComma acc (c # cs) = (if c = CHR '','' then acc # splitComma [] cs else splitComma (acc @ [c]) cs)"

section \<open>The entry points\<close>

definition SoroauthPreimage :: "sdk \<Rightarrow> string option \<Rightarrow> 64 word \<Rightarrow> string option \<Rightarrow> c_result" where
  "SoroauthPreimage S entryB64 validUntilLedger networkPassphrase =
     answerWith (\<lambda>(raw, payload) r. r\<lparr>re_PreimageXDR := base64_EncodeToString raw, re_PayloadHex := hex payload\<rparr>)
       (bindE (c_decodeEntry S (goString entryB64)) (\<lambda>entry.
        bindE (requirePassphrase (goString networkPassphrase)) (\<lambda>_.
        bindE (Preimage S entry (ledgerOf validUntilLedger) (goString networkPassphrase)) (\<lambda>preimage.
        bindE (wrapE ''soroauth: c abi: marshalling preimage'' (Preimage_MarshalBinary S preimage)) (\<lambda>raw.
        bindE (Payload S preimage) (\<lambda>payload. Inr (raw, payload)))))))"

definition SoroauthPayload :: "sdk \<Rightarrow> cAbiLib \<Rightarrow> string option \<Rightarrow> c_result" where
  "SoroauthPayload S A preimageB64 =
     answerWith (\<lambda>payload. re_PayloadHex_update (\<lambda>_. hex payload))
       (bindE (wrapE ''soroauth: c abi: decoding preimage'' (ca_Preimage_SafeUnmarshalBase64 A (goString preimageB64))) (Payload S))"

text \<open>Signing and encoding, as the three signing calls end.\<close>

definition c_authorize ::
  "sdk \<Rightarrow> SorobanAuthorizationEntry \<Rightarrow> signer \<Rightarrow> 64 word \<Rightarrow> string \<Rightarrow> string \<Rightarrow> gerr + string" where
  "c_authorize S entry signer validUntilLedger passphrase forAddress =
     bindE (authorized S None entry (Some signer) (ledgerOf validUntilLedger) passphrase (c_options forAddress)) (c_encodeEntry S)"

definition SoroauthWriteSignature ::
  "sdk \<Rightarrow> cAbiLib \<Rightarrow> string option \<Rightarrow> 64 word \<Rightarrow> string option \<Rightarrow> string option \<Rightarrow> string option \<Rightarrow> c_result" where
  "SoroauthWriteSignature S A entryB64 validUntilLedger networkPassphrase forAddress signatureScvalB64 =
     answerWith (\<lambda>encoded. re_EntryB64_update (\<lambda>_. encoded))
       (bindE (c_decodeEntry S (goString entryB64)) (\<lambda>entry.
        bindE (wrapE ''soroauth: c abi: decoding signature scval'' (ca_ScVal_SafeUnmarshalBase64 A (goString signatureScvalB64))) (\<lambda>signature.
        bindE (c_target S entry (goString forAddress)) (\<lambda>target.
          c_authorize S entry (SignerFunc target (Some (\<lambda>_ _ _. Inr signature))) validUntilLedger (goString networkPassphrase) (goString forAddress)))))"

definition SoroauthAuthorizeWithSeed ::
  "sdk \<Rightarrow> cAbiLib \<Rightarrow> string option \<Rightarrow> 64 word \<Rightarrow> string option \<Rightarrow> string option \<Rightarrow> string option \<Rightarrow> c_result" where
  "SoroauthAuthorizeWithSeed S A entryB64 validUntilLedger networkPassphrase seedHex forAddress =
     answerWith (\<lambda>encoded. re_EntryB64_update (\<lambda>_. encoded))
       (bindE (c_decodeEntry S (goString entryB64)) (\<lambda>entry.
        bindE (decodeSeed A (goString seedHex)) (\<lambda>kp.
          c_authorize S entry (NewEd25519Signer S (Some kp)) validUntilLedger (goString networkPassphrase) (goString forAddress))))"

definition SoroauthAuthorizeWithSeeds ::
  "sdk \<Rightarrow> cAbiLib \<Rightarrow> string option \<Rightarrow> 64 word \<Rightarrow> string option \<Rightarrow> string option \<Rightarrow> string option \<Rightarrow> c_result" where
  "SoroauthAuthorizeWithSeeds S A entryB64 validUntilLedger networkPassphrase seedsCSV forAddress =
     answerWith (\<lambda>encoded. re_EntryB64_update (\<lambda>_. encoded))
       (bindE (c_decodeEntry S (goString entryB64)) (\<lambda>entry.
        bindE (mapE (decodeSeed A) (splitComma [] (goString seedsCSV))) (\<lambda>keypairs.
        bindE (c_target S entry (goString forAddress)) (\<lambda>target.
        bindE (case keypairs of
            [kp] \<Rightarrow> Inr (NewEd25519Signer S (Some kp))
          | _ \<Rightarrow> bindE (NewAccountMultiSigner S target (map Some keypairs)) (\<lambda>s. Inr (accountMultiSigner s))) (\<lambda>signer.
          c_authorize S entry signer validUntilLedger (goString networkPassphrase) (goString forAddress))))))"

definition SoroauthInspect :: "sdk \<Rightarrow> string option \<Rightarrow> c_result" where
  "SoroauthInspect S entryB64 =
     answerWith (\<lambda>info. re_Info_update (\<lambda>_. Some info)) (bindE (c_decodeEntry S (goString entryB64)) (Inspect S))"

definition SoroauthAnalyze :: "sdk \<Rightarrow> string option \<Rightarrow> 64 word \<Rightarrow> c_result" where
  "SoroauthAnalyze S entryB64 currentLedger =
     answerWith (\<lambda>findings. re_Findings_update (\<lambda>_. Some findings))
       (bindE (c_decodeEntry S (goString entryB64)) (\<lambda>entry.
          Analyze S entry (Some (DefaultRiskConfig\<lparr>rc_CurrentLedger := ledgerOf currentLedger\<rparr>))))"

definition SoroauthRenderInvocations :: "sdk \<Rightarrow> string option \<Rightarrow> c_result" where
  "SoroauthRenderInvocations S entryB64 =
     answerWith (\<lambda>tree. re_Tree_update (\<lambda>_. tree))
       (bindE (c_decodeEntry S (goString entryB64)) (\<lambda>entry. InvocationTreeASCII S (en_RootInvocation entry)))"

definition SoroauthRenderTree :: "sdk \<Rightarrow> string option \<Rightarrow> c_result" where
  "SoroauthRenderTree S entryB64 =
     answerWith (\<lambda>info. re_Tree_update (\<lambda>_. DelegateTreeASCII info)) (bindE (c_decodeEntry S (goString entryB64)) (Inspect S))"

section \<open>Two ways to sign\<close>

lemma answerWith_OK [simp]:
  "(\<And>x r. re_OK (store x r) = re_OK r) \<Longrightarrow> re_OK (answerWith store m) \<longleftrightarrow> isOk m"
  by (cases m) (simp_all add: answerWith_def failResult_def okResult_def emptyResult_def)

text \<open>One seed in the list is one seed alone.\<close>

lemma splitComma_single: "CHR '','' \<notin> set s \<Longrightarrow> splitComma acc s = [acc @ s]"
  by (induction s arbitrary: acc) auto

lemma one_seed_alone:
  assumes "CHR '','' \<notin> set (goString seed)" "goString forAddress \<noteq> []"
  shows "SoroauthAuthorizeWithSeeds S A entryB64 v net seed forAddress = SoroauthAuthorizeWithSeed S A entryB64 v net seed forAddress"
proof -
  have "mapE (decodeSeed A) (splitComma [] (goString seed)) = bindE (decodeSeed A (goString seed)) (\<lambda>kp. Inr [kp])"
    using assms(1) by (simp add: splitComma_single)
  then show ?thesis
    using assms(2) unfolding SoroauthAuthorizeWithSeeds_def SoroauthAuthorizeWithSeed_def c_target_def
    by (cases "decodeSeed A (goString seed)") simp_all
qed

text \<open>
  \<open>AuthorizeEntry\<close> asks a signer only for its address, unless a target is given, and once for a
  signature over the entry's own preimage: two signers that agree there give the same result.
\<close>

lemma bindE_assoc: "bindE (bindE m f) g = bindE m (\<lambda>x. bindE (f x) g)"
  by (cases m) simp_all

lemma bindE_if_Inl: "bindE (if c then Inl e else m) f = (if c then Inl e else bindE m f)"
  by simp

lemma authorized_signer_cong:
  assumes "copyEntry S entry = Inr entry" "Preimage S entry v net = Inr preimage" "Payload S preimage = Inr payload"
    and "sg_Sign a None preimage payload = sg_Sign b None preimage payload"
    and "cf_hasTarget (applyOptions opts) \<or> sg_Address a = sg_Address b"
  shows "authorized S None entry (Some a) v net opts = authorized S None entry (Some b) v net opts"
proof -
  have target: "resolveTarget S (applyOptions opts) a = resolveTarget S (applyOptions opts) b"
    using assms(5) by (auto simp: resolveTarget_def)
  have guards: "authorizeGuards S (applyOptions opts) entry (Some b) v =
      bindE (authorizeGuards S (applyOptions opts) entry (Some a) v) (\<lambda>(_, rest). Inr (b, rest))"
    by (simp add: authorizeGuards_def target bindE_assoc bindE_if_Inl case_prod_unfold Let_def cong: if_cong)
  have result: "sg = a \<and> work = entry" if "authorizeGuards S (applyOptions opts) entry (Some a) v = Inr (sg, t, work, ms)" for sg t work ms
    using that assms(1) by (auto simp: authorizeGuards_def bindE_Inr_iff Let_def if_Inl_iff)
  show ?thesis
  proof (cases "authorizeGuards S (applyOptions opts) entry (Some a) v")
    case (Inl e)
    then show ?thesis by (simp add: AuthorizeEntry_def guards Let_def)
  next
    case (Inr x)
    obtain sg t work ms where x: "x = (sg, t, work, ms)" by (metis prod_cases4)
    with Inr result have "sg = a" "work = entry" by auto
    then show ?thesis using Inr x assms(2-4) by (simp add: AuthorizeEntry_def guards Let_def split: sum.splits)
  qed
qed

lemma SoroauthPreimage_OK:
  assumes "re_OK (SoroauthPreimage S entryB64 v net)"
  obtains entry preimage payload where "c_decodeEntry S (goString entryB64) = Inr entry" "goString net \<noteq> []"
    "Preimage S entry (ledgerOf v) (goString net) = Inr preimage" "Payload S preimage = Inr payload"
    "re_PayloadHex (SoroauthPreimage S entryB64 v net) = hex payload"
proof -
  obtain raw payload where ok: "bindE (c_decodeEntry S (goString entryB64)) (\<lambda>entry.
        bindE (requirePassphrase (goString net)) (\<lambda>_.
        bindE (Preimage S entry (ledgerOf v) (goString net)) (\<lambda>preimage.
        bindE (wrapE ''soroauth: c abi: marshalling preimage'' (Preimage_MarshalBinary S preimage)) (\<lambda>raw.
        bindE (Payload S preimage) (\<lambda>payload. Inr (raw, payload)))))) = Inr (raw, payload)"
    using assms unfolding SoroauthPreimage_def by (auto simp: isOk_iff case_prod_unfold)
  then have "re_PayloadHex (SoroauthPreimage S entryB64 v net) = hex payload"
    by (simp add: SoroauthPreimage_def answerWith_def okResult_def)
  then show ?thesis using ok that by (auto simp: bindE_Inr_iff requirePassphrase_def if_Inl_iff)
qed

text \<open>
  C21: signing outside the library is signing. Ask for the payload of an entry, have the holder of a key sign
  it and hand the signature back: when the key signs the payload given out, the second call
  returns the very envelope, error or signed entry, that signing with the key's seed returns. It is assumed that the entry and the signature
  keep their values through their codecs, and that the call names an address or the key is the
  entry's own.
\<close>

theorem c_abi_offline_signing:
  assumes "re_OK (SoroauthPreimage S entryB64 v net)" "hex payload = re_PayloadHex (SoroauthPreimage S entryB64 v net)"
    and "\<And>preimage. ed25519Sign S (Some kp) None preimage payload = Inr sig"
    and "ca_ScVal_SafeUnmarshalBase64 A (goString signatureB64) = Inr sig" "decodeSeed A (goString seedHex) = Inr kp"
    and "\<And>entry. c_decodeEntry S (goString entryB64) = Inr entry \<Longrightarrow> copyEntry S entry = Inr entry \<and>
      (goString forAddress \<noteq> [] \<or> topLevelAddress S entry = Inr (kp_Address kp))"
  shows "SoroauthWriteSignature S A entryB64 v net forAddress signatureB64 =
    SoroauthAuthorizeWithSeed S A entryB64 v net seedHex forAddress"
proof -
  obtain entry preimage payload' where e: "c_decodeEntry S (goString entryB64) = Inr entry" "goString net \<noteq> []"
    "Preimage S entry (ledgerOf v) (goString net) = Inr preimage" "Payload S preimage = Inr payload'"
    "re_PayloadHex (SoroauthPreimage S entryB64 v net) = hex payload'"
    using SoroauthPreimage_OK [OF assms(1)] by blast
  then have payload: "payload' = payload" using assms(2) by (metis hex_roundtrip option.inject)
  obtain target where t: "c_target S entry (goString forAddress) = Inr target"
    "goString forAddress \<noteq> [] \<or> target = kp_Address kp" "copyEntry S entry = Inr entry"
    using assms(6) [OF e(1)] that by (cases "goString forAddress = []") (auto simp: c_target_def)
  have "authorized S None entry (Some (SignerFunc target (Some (\<lambda>_ _ _. Inr sig)))) (ledgerOf v) (goString net) (c_options (goString forAddress)) =
      authorized S None entry (Some (NewEd25519Signer S (Some kp))) (ledgerOf v) (goString net) (c_options (goString forAddress))"
    using t(2) assms(3) payload
    by (intro authorized_signer_cong [OF t(3) e(3,4)])
      (auto simp: SignerFunc_def NewEd25519Signer_def c_options_def applyOptions_def ForAddress_def)
  then show ?thesis
    using e(1) t(1) assms(4,5) by (simp add: SoroauthWriteSignature_def SoroauthAuthorizeWithSeed_def c_authorize_def)
qed

definition sampleAbi :: cAbiLib where
  "sampleAbi =
     \<lparr>ca_Preimage_SafeUnmarshalBase64 = (\<lambda>s. Inl (errmsg ''no preimage'')), ca_ScVal_SafeUnmarshalBase64 = (\<lambda>s. Inr (sampleSignature 0)),
      ca_FromRawSeed = (\<lambda>b. Inr sampleKeypair)\<rparr>"

abbreviation sampleSeed :: string where
  "sampleSeed \<equiv> replicate 64 (CHR ''0'')"

lemma sample_decodeSeed: "decodeSeed sampleAbi sampleSeed = Inr sampleKeypair"
proof -
  have "TrimSpace sampleSeed = sampleSeed" by code_simp
  moreover have "map_option length (hex_DecodeString sampleSeed) = Some 32" by code_simp
  ultimately show ?thesis by (auto simp: decodeSeed_def decodeHex_def sampleAbi_def)
qed

lemma sample_decodeEntry: "c_decodeEntry sampleSdk [CHR 0x01] = Inr entryLegacy"
  by (simp add: c_decodeEntry_def DecodeAuthorizationEntry_def decodeWithLimits_def effectiveMaxInput_def effectiveMaxDepth_def
      base64_EncodedLen_def MaxDecodeInputBytes_def sampleSdk_def tableSdk_def tableDecode_def)

theorem c_abi_offline_signing_witness:
  "SoroauthWriteSignature sampleSdk sampleAbi (Some [CHR 0x01]) 100 (Some sampleNetwork) None (Some ''sig'') =
   SoroauthAuthorizeWithSeed sampleSdk sampleAbi (Some [CHR 0x01]) 100 (Some sampleNetwork) (Some sampleSeed) None"
proof (rule c_abi_offline_signing [where payload = "keyOf 0" and kp = sampleKeypair and sig = "sampleSignature 0"])
  have "SoroauthPreimage sampleSdk (Some [CHR 0x01]) 100 (Some sampleNetwork) =
      okResult (\<lambda>r. r\<lparr>re_PreimageXDR := base64_EncodeToString [0], re_PayloadHex := hex (keyOf 0)\<rparr>)"
  proof -
    have "requirePassphrase sampleNetwork = Inr ()" by (simp add: requirePassphrase_def sampleNetwork_def)
    then show ?thesis
      using sample_decodeEntry by (simp add: SoroauthPreimage_def answerWith_def goString_def ledgerOf_def del: base64_EncodeToString.simps)
  qed
  then show "re_OK (SoroauthPreimage sampleSdk (Some [CHR 0x01]) 100 (Some sampleNetwork))"
    "hex (keyOf 0) = re_PayloadHex (SoroauthPreimage sampleSdk (Some [CHR 0x01]) 100 (Some sampleNetwork))"
    by (simp_all add: okResult_def emptyResult_def)
  show "ed25519Sign sampleSdk (Some sampleKeypair) None preimage (keyOf 0) = Inr (sampleSignature 0)" for preimage
    by (simp add: ed25519Sign_Inr_iff sampleSignature_def)
  show "ca_ScVal_SafeUnmarshalBase64 sampleAbi (goString (Some ''sig'')) = Inr (sampleSignature 0)" by (simp add: sampleAbi_def)
  show "decodeSeed sampleAbi (goString (Some sampleSeed)) = Inr sampleKeypair" using sample_decodeSeed by (simp add: goString_def)
  show "copyEntry sampleSdk entry = Inr entry \<and> (goString None \<noteq> [] \<or> topLevelAddress sampleSdk entry = Inr (kp_Address sampleKeypair))"
    if "c_decodeEntry sampleSdk (goString (Some [CHR 0x01])) = Inr entry" for entry
    using that sample_decodeEntry copyEntry_id [OF sample_roundtrips(2)]
    by (auto simp: goString_def topLevelAddress_def entryLegacy_def sampleCredentials_def)
qed

end
