(* ===== verification/Spec2Isabelle.thy ===== *)
theory Spec2Isabelle
  imports Signing_Properties Structure_Properties Signer_Properties Batch_Properties
    Chain_Properties Session_Properties Canonical_Properties Policy_Properties Diff_Properties
    Envelope_Properties Rpcflow_Properties Passkey_Properties Device_Properties Custody_Properties Wallet_Properties
    Frost_Properties Server_Properties Grpc Cli_Offline C_Abi
begin

text \<open>
  Verification of soroauth-go, a Go library that signs and checks Soroban authorization entries.

  \<^bold>\<open>The program.\<close> An authorization entry carries an invocation tree and a credential: the
  source account, an address (legacy or address-bound), or an address with a tree of delegates.
  To sign one, \<^verbatim>\<open>authorize.go\<close> copies the entry, finds the credential nodes of the target
  address, builds the preimage of \<^verbatim>\<open>preimage.go\<close> at one expiration, asks a signer of
  \<^verbatim>\<open>signer.go\<close> and stores its answer; \<^verbatim>\<open>verify.go\<close> rebuilds the preimage and checks every
  node. Around this core stand the operations on delegate trees, batches of entries, chains of
  signers, sessions that collect signatures, policies and risk reports, the canonical JSON form,
  the comparison of two entries, transaction envelopes, the possession check, passkeys, signers
  whose key is in a hardware device, a key store or behind a protocol, a FROST threshold group, and
  the RPC flow that simulates, signs and submits a transaction. The programs built on the library
  are a verification service over HTTP, a signing and verification service over gRPC, a command
  line, and a C interface for other languages.

  \<^bold>\<open>Vocabulary.\<close> \<^verbatim>\<open>Prelude\<close> holds Go results as sums (\<open>Inl\<close> the error) with \<open>bindE\<close>,
  \<open>mapE\<close> and \<open>foldE\<close> for the early returns and loops, decimal and quoted rendering;
  \<^verbatim>\<open>Errors\<close> the sentinels and error types of \<^verbatim>\<open>errors.go\<close> with \<open>errors.Is\<close> and the error
  texts; \<^verbatim>\<open>Encoding\<close> and \<^verbatim>\<open>Base64\<close> big-endian numbers, hexadecimal, decimal and the base64
  encodings with their round trips; \<^verbatim>\<open>Xdr\<close> the SDK's types, pointers as options, and the
  record \<open>sdk\<close> of its functions. Machine integers are words where they are stored or wrap
  around (\<open>uint32\<close> ledgers, \<open>int64\<close> nonces), and \<open>int\<close> with \<open>wrap64\<close> for fees.

  \<^bold>\<open>Components.\<close> One theory each, named definitions as in the source:
  \<^item> \<^verbatim>\<open>Address\<close> (\<^verbatim>\<open>address.go\<close>), \<^verbatim>\<open>Decode\<close> (\<^verbatim>\<open>decode.go\<close>), \<^verbatim>\<open>Arms\<close> (\<^verbatim>\<open>arm.go\<close>), \<^verbatim>\<open>Preimages\<close>
    (\<^verbatim>\<open>preimage.go\<close>, \<^verbatim>\<open>internal/xdrcopy\<close>), \<^verbatim>\<open>Walks\<close> and \<^verbatim>\<open>Nodes\<close> (the depth-limited walks and the
    nodes of \<^verbatim>\<open>authorize.go\<close>, pointers as paths), \<^verbatim>\<open>Delegates\<close> (\<^verbatim>\<open>delegates.go\<close>), \<^verbatim>\<open>Authorize\<close>
    (\<^verbatim>\<open>authorize.go\<close>, \<^verbatim>\<open>hooks.go\<close>), \<^verbatim>\<open>Verify\<close> (\<^verbatim>\<open>verify.go\<close>), \<^verbatim>\<open>Signers\<close> (\<^verbatim>\<open>signer.go\<close>, the network pin
    and the address cache): the core. \<^verbatim>\<open>Signing_Properties\<close> shows that signing implements its
    specification, keeps other signatures, shares one expiration, signs the payload the entry
    rebuilds, and that verification is sound and accepts what was signed;
    \<^verbatim>\<open>Structure_Properties\<close> that trees are built, ordered and enumerated as CAP-71 prescribes;
    \<^verbatim>\<open>Signer_Properties\<close> the multi-signature order and the retry loop.
  \<^item> \<^verbatim>\<open>Batch\<close> (\<^verbatim>\<open>batch.go\<close>, \<^verbatim>\<open>batch_sign.go\<close>): both batch forms; the worker pool is a step relation
    over its slots, and \<^verbatim>\<open>Batch_Properties\<close> shows that every schedule finishes with the slots the
    sequential loop computes.
  \<^item> \<^verbatim>\<open>Chain\<close> (\<^verbatim>\<open>chain.go\<close>), \<^verbatim>\<open>Lifecycle\<close> (\<^verbatim>\<open>expiration.go\<close>, \<^verbatim>\<open>upgrade.go\<close>, \<^verbatim>\<open>invocation.go\<close>,
    \<^verbatim>\<open>noncetracker.go\<close>), \<^verbatim>\<open>Coordination\<close> (\<^verbatim>\<open>planner.go\<close>, \<^verbatim>\<open>coordinator.go\<close>), \<^verbatim>\<open>Threshold\<close>
    (\<^verbatim>\<open>threshold.go\<close>), \<^verbatim>\<open>Inspection\<close> (\<^verbatim>\<open>inspect.go\<close>, \<^verbatim>\<open>credential_nodes.go\<close>, \<^verbatim>\<open>equal.go\<close>):
    \<^verbatim>\<open>Chain_Properties\<close> and \<^verbatim>\<open>Session_Properties\<close> show what a chain's answer means, that a nonce
    is granted once, and the invariants of the coordination and threshold sessions.
  \<^item> \<^verbatim>\<open>Canonical\<close> (\<^verbatim>\<open>canonical.go\<close>): the documents and every encode and decode routine;
    \<^verbatim>\<open>Canonical_Properties\<close> has the round trip and the two gaps in it.
  \<^item> \<^verbatim>\<open>Risk\<close> (\<^verbatim>\<open>risk.go\<close>), \<^verbatim>\<open>Policy\<close> (\<^verbatim>\<open>policy/\<close>), \<^verbatim>\<open>Diff\<close> (\<^verbatim>\<open>diff.go\<close>): \<^verbatim>\<open>Policy_Properties\<close> shows what a
    policy lets through, alone and inside \<open>AuthorizeEntry\<close>; \<^verbatim>\<open>Diff_Properties\<close> when a payload
    change is reported.
  \<^item> \<^verbatim>\<open>Envelope\<close> (\<^verbatim>\<open>envelope.go\<close>), \<^verbatim>\<open>Possession\<close> (\<^verbatim>\<open>possession.go\<close>), \<^verbatim>\<open>Rpcflow\<close> (\<^verbatim>\<open>rpcflow/\<close>, a run as
    the trace of its client calls): \<^verbatim>\<open>Envelope_Properties\<close> and \<^verbatim>\<open>Rpcflow_Properties\<close> show that an
    envelope is signed in place, that the check proves possession and authorizes nothing, and
    that nothing is sent that the enforcing pass did not price.
  \<^item> \<^verbatim>\<open>Cbor\<close> (\<^verbatim>\<open>attestation_cbor.go\<close>), \<^verbatim>\<open>Secp256r1\<close> (\<^verbatim>\<open>secp256r1.go\<close>), \<^verbatim>\<open>Webauthn\<close> (\<^verbatim>\<open>webauthn.go\<close>
    and the assertion signer of \<^verbatim>\<open>signer.go\<close>), \<^verbatim>\<open>Attestation\<close> (\<^verbatim>\<open>attestation.go\<close>):
    \<^verbatim>\<open>Passkey_Properties\<close> shows that the decoder inverts a reference encoder and returns typed
    values only, that an assertion is good for one payload, that the passkey signer never
    answers unverified, and what a verified registration proves.
  \<^item> \<^verbatim>\<open>Key_Store\<close> (the contract of a classic account's signer), \<^verbatim>\<open>Ledger\<close> (\<^verbatim>\<open>ledger.go\<close>), \<^verbatim>\<open>Http\<close> and
    \<^verbatim>\<open>Vault\<close> (\<^verbatim>\<open>vault.go\<close>), \<^verbatim>\<open>Remote\<close> (\<^verbatim>\<open>remote/\<close>), \<^verbatim>\<open>Custody\<close> (\<^verbatim>\<open>adapters/awskms\<close>,
    \<^verbatim>\<open>adapters/gcpkms\<close>, \<^verbatim>\<open>turnkey/\<close>, \<^verbatim>\<open>fireblocks/\<close>): \<^verbatim>\<open>Device_Properties\<close> shows that the Ledger
    device reads the whole preimage in a bounded number of commands and that the remote client
    and server together sign as the server's own signer; \<^verbatim>\<open>Custody_Properties\<close> how the wait for
    an approval ends, and that Turnkey's answers are refused.
  \<^item> \<^verbatim>\<open>Wallet\<close> (\<^verbatim>\<open>adapters/walletsdk\<close>): \<^verbatim>\<open>Wallet_Properties\<close> shows what the adapter's own check accepts
    and what is known of an entry a browser wallet returned.
  \<^item> \<^verbatim>\<open>Frost\<close> (\<^verbatim>\<open>frost/\<close>): coordinators as a heap shared by participants and signers, their operations
    also as a step relation; \<^verbatim>\<open>Frost_Properties\<close> shows that a round signs the message it was begun
    with by a threshold of verified shares and once, what a signing call returns and leaves, that
    a group of the threshold's size always signs, and that nothing ties the group's key to the account.
  \<^item> \<^verbatim>\<open>Server\<close> (\<^verbatim>\<open>server/\<close>) and \<^verbatim>\<open>Grpc\<close> (\<^verbatim>\<open>integrations/grpc/server.go\<close>): the HTTP service as a step
    relation over requests in flight, with its configuration, handlers and counters, and the gRPC
    calls; \<^verbatim>\<open>Server_Properties\<close> shows when a request is answered with a report, that overlapping
    requests are answered as alone and stay within the bound, that the counters agree, and that an
    open address needs a token; \<^verbatim>\<open>Grpc\<close> that both services report the same of an entry.
  \<^item> \<^verbatim>\<open>Cli\<close>, \<^verbatim>\<open>Exec_Signer\<close>, \<^verbatim>\<open>Cli_Commands\<close> (\<^verbatim>\<open>cmd/soroauth\<close>: \<^verbatim>\<open>main.go\<close>, \<^verbatim>\<open>json_error.go\<close>, \<^verbatim>\<open>config.go\<close>,
    \<^verbatim>\<open>expiration.go\<close>, \<^verbatim>\<open>exec_signer.go\<close>, \<^verbatim>\<open>batch.go\<close>, \<^verbatim>\<open>verify.go\<close>, \<^verbatim>\<open>sign.go\<close>): \<^verbatim>\<open>Cli_Properties\<close> shows what is
    checked of an external signer's answer and what it is started with, that a batch is signed as
    a whole or not at all, and what the exit code of \<open>verify\<close> says. \<^verbatim>\<open>Cli_Offline\<close> has the subcommands
    without a key (\<^verbatim>\<open>payload.go\<close>, \<^verbatim>\<open>delegates.go\<close>, \<^verbatim>\<open>diff.go\<close>, \<^verbatim>\<open>inspect.go\<close>) and the contract of a batch.
  \<^item> \<^verbatim>\<open>C_Abi\<close> (\<^verbatim>\<open>bindings/c/soroauth.go\<close>): the entry points of the C interface; signing outside, in two
    calls, is shown to be signing with the seed.
  \<^item> \<^verbatim>\<open>Tree_Render\<close> (\<^verbatim>\<open>treerender.go\<close>, \<^verbatim>\<open>protocolmatrix.go\<close>): the drawings of trees; every node of the graph
    has an identifier of its own, and exactly the invocation trees of at most 64 levels are drawn.

  \<^bold>\<open>Interfaces.\<close> What several components rely on is a locale interpreted on the model's own
  definitions, in the theory that provides them: the credential arms, the
  depth-limited walks (five interpretations), the nonce tracker, the base64 alphabets, the batch
  subcommands, and the
  signers of a classic account, whose nine interpretations share the proof that \<open>VerifyEntry\<close>
  accepts what they signed.

  \<^bold>\<open>Parameters.\<close> Code that is not in the repository is an argument: the SDK's XDR codecs, strkeys
  and network identifiers, SHA-256, ed25519, P-256 and X.509, key pairs and remote signers, the
  random source, the clock, the RPC client and the transaction builder, devices and HTTP
  connections, the FROST module, the environment, the file system and helper processes,
  \<^verbatim>\<open>encoding/json\<close> and \<^verbatim>\<open>encoding/asn1\<close>. What a theorem needs of them is a named hypothesis (a codec's round trip on
  one value, that a signature of a key checks under it), and its witness discharges it on the
  table-driven SDK of \<^verbatim>\<open>Sample_Sdk\<close> or on a concrete function beside the theorem.

  \<^bold>\<open>Bounds.\<close> No definition uses fuel. The walks over delegate trees end by the size of the tree and
  carry the code's depth counter (64 levels); the CBOR decoder ends by its nesting cap (8); the
  retry loop by its attempts; the chunks of a Ledger command because every chunk but the last is
  full; the wait for an approval runs over the list of events it receives, and is shown to end
  when they contain the end of its context; a multi-signature has 1 to 20 signatures. Error texts are the
  code's, except where Go prints a foreign type or a library's own error.

  \<^bold>\<open>Not modelled.\<close> The JSON text layer (struct tags, duplicate-key scan), because it is
  \<^verbatim>\<open>encoding/json\<close>; flag parsing and printing of the command line, and its subcommands that only
  print what the library returns; the terminal interface, which drives a widget library; the
  listeners, shutdown and recovery from panics of the service, which are \<^verbatim>\<open>net/http\<close>; the memory
  handling of the C interface and the WASM glue; generated clients; the
  source-code checkers, generators and test harnesses.
\<close>

end
